(* ===== verification/Prelude.thy ===== *)
theory Prelude
  imports Complex_Main
    "HOL-Library.AList"
    "HOL-Library.Word"
    "HOL-Library.Sublist"
    "HOL-Library.Char_ord"
    "HOL-Library.List_Lexorder"
    "HOL-Library.Multiset"
    "HOL-Library.Code_Target_Nat"
begin

text \<open>
  Shared vocabulary of the development: the parts of Rust's standard library that the proxy
  and its companion services use, modelled once for all components.

  \<^item> Text. A \<^verbatim>\<open>String\<close> or \<^verbatim>\<open>&str\<close> is its UTF-8 byte sequence, one \<^typ>\<open>char\<close> per byte, so
    \<^verbatim>\<open>len()\<close> is \<^const>\<open>length\<close>. \<open>trim\<close> removes every code point with the Unicode property
    White\_Space, given here by its UTF-8 bytes.
  \<^item> Time. \<^verbatim>\<open>Instant\<close>, \<^verbatim>\<open>SystemTime\<close> and \<^verbatim>\<open>Duration\<close> are \<^typ>\<open>nat\<close> counts of nanoseconds;
    \<^verbatim>\<open>Instant::duration_since\<close> saturates at zero, which is subtraction on \<^typ>\<open>nat\<close>. Every
    operation that reads the clock takes the reading as an argument.
  \<^item> Hash maps. A \<^verbatim>\<open>HashMap\<close> is an association list with distinct keys, in the iteration order
    the hasher happened to give; lemmas hold for every such order.
  \<^item> Floating point. An \<^verbatim>\<open>f64\<close> is the real number it approximates.
\<close>

named_theorems hm_simps \<open>look-up, membership and size of the hash-map operations\<close>
named_theorems str_simps \<open>rewriting of the string operations\<close>

type_synonym u8 = "8 word"
type_synonym u16 = "16 word"
type_synonym u32 = "32 word"
type_synonym u64 = "64 word"
type_synonym time = nat
type_synonym duration = nat
type_synonym ('k, 'v) hash_map = "('k \<times> 'v) list"
type_synonym headers = "(string \<times> string) list"

subsection \<open>Durations\<close>

definition from_secs :: "nat \<Rightarrow> duration" where
  "from_secs n = n * 1000000000"

definition from_millis :: "nat \<Rightarrow> duration" where
  "from_millis n = n * 1000000"

definition as_millis :: "duration \<Rightarrow> nat" where
  "as_millis d = d div 1000000"

lemma from_secs_le_iff [simp]: "from_secs a \<le> from_secs b \<longleftrightarrow> a \<le> b"
  by (simp add: from_secs_def)

lemma from_secs_eq_0_iff [simp]: "from_secs a = 0 \<longleftrightarrow> a = 0"
  by (simp add: from_secs_def)

lemma as_millis_from_millis [simp]: "as_millis (from_millis n) = n"
  by (simp add: as_millis_def from_millis_def)

subsection \<open>ASCII case\<close>

definition ascii_lower :: "char \<Rightarrow> char" where
  "ascii_lower c =
     (let n = (of_char c :: nat) in if 65 \<le> n \<and> n \<le> 90 then char_of (n + 32) else c)"

definition to_ascii_lowercase :: "string \<Rightarrow> string" where
  "to_ascii_lowercase s = map ascii_lower s"

definition ascii_upper :: "char \<Rightarrow> char" where
  "ascii_upper c =
     (let n = (of_char c :: nat) in if 97 \<le> n \<and> n \<le> 122 then char_of (n - 32) else c)"

definition to_ascii_uppercase :: "string \<Rightarrow> string" where
  "to_ascii_uppercase s = map ascii_upper s"

definition eq_ignore_ascii_case :: "string \<Rightarrow> string \<Rightarrow> bool" where
  "eq_ignore_ascii_case a b \<longleftrightarrow> to_ascii_lowercase a = to_ascii_lowercase b"

definition is_ascii_digit :: "char \<Rightarrow> bool" where
  "is_ascii_digit c \<longleftrightarrow> 48 \<le> (of_char c :: nat) \<and> (of_char c :: nat) \<le> 57"

definition is_ascii_alphanumeric :: "char \<Rightarrow> bool" where
  "is_ascii_alphanumeric c \<longleftrightarrow>
     (let n = (of_char c :: nat) in
      (48 \<le> n \<and> n \<le> 57) \<or> (65 \<le> n \<and> n \<le> 90) \<or> (97 \<le> n \<and> n \<le> 122))"

definition is_ascii :: "char \<Rightarrow> bool" where
  "is_ascii c \<longleftrightarrow> (of_char c :: nat) < 128"

lemma of_char_ascii_lower:
  "(of_char (ascii_lower c) :: nat) =
     (if 65 \<le> (of_char c :: nat) \<and> (of_char c :: nat) \<le> 90 then of_char c + 32 else of_char c)"
  by (simp add: ascii_lower_def Let_def)

lemma ascii_lower_idem [simp]: "ascii_lower (ascii_lower c) = ascii_lower c"
proof -
  have "\<not> (65 \<le> (of_char (ascii_lower c) :: nat) \<and> (of_char (ascii_lower c) :: nat) \<le> 90)"
    by (simp add: of_char_ascii_lower)
  then show ?thesis unfolding ascii_lower_def [of "ascii_lower c"] Let_def by (simp only: if_False)
qed

lemma to_ascii_lowercase_idem [simp]:
  "to_ascii_lowercase (to_ascii_lowercase s) = to_ascii_lowercase s"
  by (simp add: to_ascii_lowercase_def)

lemma length_to_ascii_lowercase [simp]: "length (to_ascii_lowercase s) = length s"
  by (simp add: to_ascii_lowercase_def)

lemma to_ascii_lowercase_append [simp]:
  "to_ascii_lowercase (a @ b) = to_ascii_lowercase a @ to_ascii_lowercase b"
  by (simp add: to_ascii_lowercase_def)

lemma to_ascii_lowercase_eq_Nil [simp]: "to_ascii_lowercase s = [] \<longleftrightarrow> s = []"
  by (simp add: to_ascii_lowercase_def)

lemma eq_ignore_ascii_case_refl [simp]: "eq_ignore_ascii_case s s"
  by (simp add: eq_ignore_ascii_case_def)

lemma eq_ignore_ascii_case_sym: "eq_ignore_ascii_case a b \<Longrightarrow> eq_ignore_ascii_case b a"
  by (simp add: eq_ignore_ascii_case_def)

lemma eq_ignore_ascii_case_trans:
  "eq_ignore_ascii_case a b \<Longrightarrow> eq_ignore_ascii_case b c \<Longrightarrow> eq_ignore_ascii_case a c"
  by (simp add: eq_ignore_ascii_case_def)

text \<open>
  \<^verbatim>\<open>str::to_lowercase\<close>, as far as a comparison with ASCII literals can see: apart from the ASCII
  letters only the Kelvin sign (U+212A) has an ASCII lower case, the letter k. Every other
  code point keeps a non-ASCII byte in its lower case and equals no ASCII literal.
\<close>

fun to_lowercase :: "string \<Rightarrow> string" where
  "to_lowercase [] = []"
| "to_lowercase (a # b # c # s) =
     (if a = CHR 0xE2 \<and> b = CHR 0x84 \<and> c = CHR 0xAA then CHR ''k'' # to_lowercase s
      else ascii_lower a # to_lowercase (b # c # s))"
| "to_lowercase (a # s) = ascii_lower a # to_lowercase s"

subsection \<open>Prefixes, suffixes and splitting\<close>

definition starts_with :: "string \<Rightarrow> string \<Rightarrow> bool" where
  "starts_with s p \<longleftrightarrow> prefix p s"

definition ends_with :: "string \<Rightarrow> string \<Rightarrow> bool" where
  "ends_with s p \<longleftrightarrow> suffix p s"

definition strip_prefix :: "string \<Rightarrow> string \<Rightarrow> string option" where
  "strip_prefix s p = (if prefix p s then Some (drop (length p) s) else None)"

lemma strip_prefix_Some_iff [str_simps]: "strip_prefix s p = Some r \<longleftrightarrow> s = p @ r"
  by (auto simp: strip_prefix_def prefix_def)

lemma strip_prefix_append [simp]: "strip_prefix (p @ r) p = Some r"
  by (simp add: strip_prefix_Some_iff)

lemma strip_prefix_None_iff [str_simps]: "strip_prefix s p = None \<longleftrightarrow> \<not> prefix p s"
  by (simp add: strip_prefix_def)

fun split_char :: "char \<Rightarrow> string \<Rightarrow> string list" where
  "split_char c [] = [[]]"
| "split_char c (x # xs) =
     (if x = c then [] # split_char c xs
      else (case split_char c xs of [] \<Rightarrow> [[x]] | w # ws \<Rightarrow> (x # w) # ws))"

fun split_once :: "char \<Rightarrow> string \<Rightarrow> (string \<times> string) option" where
  "split_once c [] = None"
| "split_once c (x # xs) =
     (if x = c then Some ([], xs)
      else map_option (\<lambda>(a, b). (x # a, b)) (split_once c xs))"

fun join :: "string \<Rightarrow> string list \<Rightarrow> string" where
  "join sep [] = []"
| "join sep [w] = w"
| "join sep (w # v # ws) = w @ sep @ join sep (v # ws)"

lemma split_char_not_Nil [simp]: "split_char c s \<noteq> []"
  by (cases s) (auto split: list.splits)

lemma split_char_no_sep: "c \<notin> set s \<Longrightarrow> split_char c s = [s]"
  by (induction s) auto

lemma split_char_append_sep:
  "c \<notin> set w \<Longrightarrow> split_char c (w @ c # s) = w # split_char c s"
  by (induction w) auto

lemma split_char_pieces: "w \<in> set (split_char c s) \<Longrightarrow> c \<notin> set w"
  by (induction s arbitrary: w) (auto split: if_splits list.splits)

lemma split_char_join:
  "ws \<noteq> [] \<Longrightarrow> (\<And>w. w \<in> set ws \<Longrightarrow> c \<notin> set w) \<Longrightarrow> split_char c (join [c] ws) = ws"
  by (induction "[c]" ws rule: join.induct) (auto simp: split_char_no_sep split_char_append_sep)

lemma join_split_char: "join [c] (split_char c s) = s"
proof (induction s)
  case Nil
  show ?case by simp
next
  case (Cons x s)
  then show ?case
    by (cases "split_char c s"; cases "tl (split_char c s)") auto
qed

lemma split_char_append: "split_char c (x @ c # p) = split_char c x @ split_char c p"
proof (induction x)
  case (Cons a x)
  then show ?case by (cases "split_char c x") (auto split: list.splits)
qed simp

lemma join_append: "xs \<noteq> [] \<Longrightarrow> ys \<noteq> [] \<Longrightarrow> join [c] (xs @ ys) = join [c] xs @ c # join [c] ys"
proof (induction "[c]" xs rule: join.induct)
  case (2 w)
  then show ?case by (cases ys) auto
qed auto

lemma split_once_Some_iff:
  "split_once c s = Some (a, b) \<longleftrightarrow> s = a @ c # b \<and> c \<notin> set a"
proof (induction s arbitrary: a)
  case (Cons x s)
  then show ?case by (cases a) auto
qed simp

lemma split_once_None_iff: "split_once c s = None \<longleftrightarrow> c \<notin> set s"
  by (induction s) auto

lemma split_once_append: "c \<notin> set a \<Longrightarrow> split_once c (a @ c # b) = Some (a, b)"
  by (simp add: split_once_Some_iff)

subsection \<open>White space\<close>

text \<open>The bytes of each White\_Space code point.\<close>

definition white_space :: "string list" where
  "white_space =
     [[CHR 0x20], [CHR 0x09], [CHR 0x0A], [CHR 0x0B], [CHR 0x0C], [CHR 0x0D],
      [CHR 0xC2, CHR 0x85], [CHR 0xC2, CHR 0xA0], [CHR 0xE1, CHR 0x9A, CHR 0x80],
      [CHR 0xE2, CHR 0x80, CHR 0x80], [CHR 0xE2, CHR 0x80, CHR 0x81],
      [CHR 0xE2, CHR 0x80, CHR 0x82], [CHR 0xE2, CHR 0x80, CHR 0x83],
      [CHR 0xE2, CHR 0x80, CHR 0x84], [CHR 0xE2, CHR 0x80, CHR 0x85],
      [CHR 0xE2, CHR 0x80, CHR 0x86], [CHR 0xE2, CHR 0x80, CHR 0x87],
      [CHR 0xE2, CHR 0x80, CHR 0x88], [CHR 0xE2, CHR 0x80, CHR 0x89],
      [CHR 0xE2, CHR 0x80, CHR 0x8A], [CHR 0xE2, CHR 0x80, CHR 0xA8],
      [CHR 0xE2, CHR 0x80, CHR 0xA9], [CHR 0xE2, CHR 0x80, CHR 0xAF],
      [CHR 0xE2, CHR 0x81, CHR 0x9F], [CHR 0xE3, CHR 0x80, CHR 0x80]]"

text \<open>Number of bytes of the first word of \<open>ws\<close> that starts \<open>s\<close>, 0 when there is none.\<close>

definition head_len :: "string list \<Rightarrow> string \<Rightarrow> nat" where
  "head_len ws s = (case find (\<lambda>w. prefix w s) ws of None \<Rightarrow> 0 | Some w \<Rightarrow> length w)"

function drop_words :: "string list \<Rightarrow> string \<Rightarrow> string" where
  "drop_words ws s =
     (if head_len ws s = 0 \<or> s = [] then s else drop_words ws (drop (head_len ws s) s))"
  by pat_completeness auto
termination
  by (relation "measure (\<lambda>(ws, s). length s)") auto

declare drop_words.simps [simp del]

definition trim_start :: "string \<Rightarrow> string" where
  "trim_start s = drop_words white_space s"

definition trim_end :: "string \<Rightarrow> string" where
  "trim_end s = rev (drop_words (map rev white_space) (rev s))"

definition trim :: "string \<Rightarrow> string" where
  "trim s = trim_end (trim_start s)"

definition trim_end_matches :: "char \<Rightarrow> string \<Rightarrow> string" where
  "trim_end_matches c s = rev (dropWhile (\<lambda>x. x = c) (rev s))"

text \<open>Pieces between white space, without empty ones (\<^verbatim>\<open>str::split_whitespace\<close>).\<close>

function split_ws_acc :: "string \<Rightarrow> string \<Rightarrow> string list" where
  "split_ws_acc w s =
     (case s of
        [] \<Rightarrow> (if w = [] then [] else [rev w])
      | c # cs \<Rightarrow>
          (if head_len white_space s = 0 then split_ws_acc (c # w) cs
           else (if w = [] then [] else [rev w]) @ split_ws_acc [] (drop (head_len white_space s) s)))"
  by pat_completeness auto
termination
  by (relation "measure (\<lambda>(w, s). length s)") auto

declare split_ws_acc.simps [simp del]

definition split_whitespace :: "string \<Rightarrow> string list" where
  "split_whitespace s = split_ws_acc [] s"

text \<open>Lines, without their \<^verbatim>\<open>\n\<close> or \<^verbatim>\<open>\r\n\<close> and without an empty last one (\<^verbatim>\<open>str::lines\<close>).\<close>

definition strip_cr :: "string \<Rightarrow> string" where
  "strip_cr l = (if l \<noteq> [] \<and> last l = CHR 0x0D then butlast l else l)"

fun line_pieces :: "string list \<Rightarrow> string list" where
  "line_pieces [] = []"
| "line_pieces [l] = (if l = [] then [] else [l])"
| "line_pieces (l # m # ls) = strip_cr l # line_pieces (m # ls)"

definition lines :: "string \<Rightarrow> string list" where
  "lines s = line_pieces (split_char (CHR 0x0A) s)"

lemma find_SomeD: "find P xs = Some x \<Longrightarrow> x \<in> set xs \<and> P x"
  by (auto simp: find_Some_iff)

lemma drop_words_length: "length (drop_words ws s) \<le> length s"
proof (induction ws s rule: drop_words.induct)
  case (1 ws s)
  show ?case
  proof (cases "head_len ws s = 0 \<or> s = []")
    case True
    then show ?thesis by (simp add: drop_words.simps [of ws s])
  next
    case False
    with "1.IH" have "length (drop_words ws (drop (head_len ws s) s)) \<le> length s - head_len ws s"
      by simp
    with False show ?thesis by (simp add: drop_words.simps [of ws s])
  qed
qed

lemma drop_words_suffix: "suffix (drop_words ws s) s"
proof (induction ws s rule: drop_words.induct)
  case (1 ws s)
  show ?case
  proof (cases "head_len ws s = 0 \<or> s = []")
    case True
    then show ?thesis by (simp add: drop_words.simps [of ws s])
  next
    case False
    with "1.IH" have "suffix (drop_words ws (drop (head_len ws s) s)) (drop (head_len ws s) s)"
      by simp
    then have "suffix (drop_words ws (drop (head_len ws s) s)) s"
      using suffix_drop suffix_order.trans by blast
    with False show ?thesis by (simp add: drop_words.simps [of ws s])
  qed
qed

lemma drop_words_stop: "head_len ws (drop_words ws s) = 0 \<or> drop_words ws s = []"
proof (induction ws s rule: drop_words.induct)
  case (1 ws s)
  then show ?case
    by (cases "head_len ws s = 0 \<or> s = []") (auto simp: drop_words.simps [of ws s])
qed

lemma set_trim_subset: "set (trim s) \<subseteq> set s"
proof -
  have "set (trim_end t) \<subseteq> set t" for t
    using set_mono_suffix [OF drop_words_suffix [of "map rev white_space" "rev t"]]
    by (simp add: trim_end_def)
  moreover have "set (trim_start s) \<subseteq> set s"
    by (simp add: trim_start_def set_mono_suffix drop_words_suffix)
  ultimately show ?thesis by (auto simp: trim_def)
qed

lemma length_trim_le: "length (trim s) \<le> length s"
proof -
  have "length (trim_end t) \<le> length t" for t
    using drop_words_length [of "map rev white_space" "rev t"] by (simp add: trim_end_def)
  moreover have "length (trim_start s) \<le> length s"
    by (simp add: trim_start_def drop_words_length)
  ultimately show ?thesis unfolding trim_def by (meson order_trans)
qed

lemma head_len_0_iff:
  assumes "[] \<notin> set ws"
  shows "head_len ws s = 0 \<longleftrightarrow> (\<forall>w \<in> set ws. \<not> prefix w s)"
proof (cases "find (\<lambda>w. prefix w s) ws")
  case None
  then have "\<forall>w \<in> set ws. \<not> prefix w s" by (auto simp: find_None_iff)
  with None show ?thesis by (simp add: head_len_def)
next
  case (Some w)
  then have "w \<in> set ws" "prefix w s" by (auto simp: find_Some_iff)
  with assms Some show ?thesis by (auto simp: head_len_def)
qed

lemma white_space_nonempty: "[] \<notin> set white_space" "[] \<notin> set (map rev white_space)"
  by (auto simp: white_space_def)

text \<open>Text without any byte of a White\_Space code point is left alone.\<close>

lemma drop_words_id: "set s \<inter> set (concat ws) = {} \<Longrightarrow> drop_words ws s = s"
proof -
  assume disj: "set s \<inter> set (concat ws) = {}"
  have "w = []" if "w \<in> set ws" "prefix w s" for w
  proof (cases w)
    case (Cons c cs)
    with that have "c \<in> set s" "c \<in> set (concat ws)" by (force simp: prefix_def)+
    with disj show ?thesis by blast
  qed simp
  then have "head_len ws s = 0"
    by (auto simp: head_len_def dest: find_SomeD split: option.splits)
  then show ?thesis by (simp add: drop_words.simps [of ws s])
qed

lemma head_len_word:
  "[] \<notin> set ws \<Longrightarrow> head_len ws s \<noteq> 0 \<Longrightarrow> \<exists>w \<in> set ws. s = w @ drop (head_len ws s) s"
  by (auto simp: head_len_def prefix_def dest!: find_Some_iff [THEN iffD1] split: option.splits intro: nth_mem)

lemma drop_words_head: "[] \<notin> set ws \<Longrightarrow> head_len ws (drop_words ws s) = 0"
proof (induction ws s rule: drop_words.induct)
  case (1 ws s)
  moreover have "head_len ws [] = 0" if "[] \<notin> set ws" using that by (auto simp: head_len_0_iff)
  ultimately show ?case by (subst drop_words.simps) auto
qed

lemma drop_words_same: "head_len ws s = 0 \<Longrightarrow> drop_words ws s = s"
  by (subst drop_words.simps) simp

lemma drop_words_keeps:
  "[] \<notin> set ws \<Longrightarrow> x \<in> set s \<Longrightarrow> x \<notin> set (concat ws) \<Longrightarrow> x \<in> set (drop_words ws s)"
proof (induction ws s rule: drop_words.induct)
  case (1 ws s)
  show ?case
  proof (cases "head_len ws s = 0 \<or> s = []")
    case True
    with 1(3) show ?thesis by (subst drop_words.simps) auto
  next
    case False
    with head_len_word [OF 1(2), of s] obtain w where "w \<in> set ws" "s = w @ drop (head_len ws s) s" by auto
    with 1(3,4) have "x \<in> set (drop (head_len ws s) s)" by (metis Un_iff UN_I set_append set_concat)
    with 1 False show ?thesis by (subst drop_words.simps) simp
  qed
qed

lemma trim_keeps: "x \<in> set s \<Longrightarrow> x \<notin> set (concat white_space) \<Longrightarrow> x \<in> set (trim s)"
  using drop_words_keeps [OF white_space_nonempty(1), of x s]
    drop_words_keeps [OF white_space_nonempty(2), of x "rev (trim_start s)"]
  by (simp add: trim_def trim_end_def trim_start_def)

lemma trim_end_matches_last: "s = [] \<or> last s \<noteq> c \<Longrightarrow> trim_end_matches c s = s"
  by (cases s rule: rev_cases) (simp_all add: trim_end_matches_def)

lemma trim_trim [simp]: "trim (trim s) = trim s"
proof -
  let ?t = "trim_start s"
  have "head_len white_space ?t = 0" by (simp add: trim_start_def drop_words_head white_space_nonempty)
  moreover have "prefix (trim_end ?t) ?t"
    using drop_words_suffix [of "map rev white_space" "rev ?t"] by (simp add: trim_end_def suffix_to_prefix)
  ultimately have "head_len white_space (trim s) = 0"
    by (auto simp: head_len_0_iff [OF white_space_nonempty(1)] trim_def dest: prefix_order.trans)
  then have "trim_start (trim s) = trim s" by (simp add: trim_start_def drop_words_same)
  moreover have "trim_end (trim s) = trim s"
    using drop_words_same [OF drop_words_head [OF white_space_nonempty(2)]] by (simp add: trim_def trim_end_def)
  ultimately show ?thesis by (simp add: trim_def [of "trim s"])
qed

lemma trim_id: "set s \<inter> set (concat white_space) = {} \<Longrightarrow> trim s = s"
proof -
  assume disj: "set s \<inter> set (concat white_space) = {}"
  then have "set (rev s) \<inter> set (concat (map rev white_space)) = {}" by simp
  then have "trim_end s = s" by (simp add: trim_end_def drop_words_id)
  with disj show ?thesis by (simp add: trim_def trim_start_def drop_words_id)
qed

subsection \<open>Numbers in text\<close>

text \<open>
  \<^verbatim>\<open>str::parse\<close> at an unsigned type with largest value \<open>mx\<close>: an optional plus sign, at least one
  digit, and no value above \<open>mx\<close> on the way.
\<close>

fun parse_digits :: "nat \<Rightarrow> nat \<Rightarrow> string \<Rightarrow> nat option" where
  "parse_digits mx acc [] = Some acc"
| "parse_digits mx acc (c # cs) =
     (if is_ascii_digit c then
        (let v = acc * 10 + (of_char c - 48) in if v \<le> mx then parse_digits mx v cs else None)
      else None)"

definition parse_uint :: "nat \<Rightarrow> string \<Rightarrow> nat option" where
  "parse_uint mx s =
     (case s of
        [] \<Rightarrow> None
      | c # cs \<Rightarrow>
          (if c = CHR ''+'' then (if cs = [] then None else parse_digits mx 0 cs)
           else parse_digits mx 0 s))"

definition u16_max :: nat where "u16_max = 65535"
definition u32_max :: nat where "u32_max = 4294967295"
definition u64_max :: nat where "u64_max = 18446744073709551615"

text \<open>\<^verbatim>\<open>env::var(k).ok().and_then(|s| s.parse().ok()).unwrap_or(d)\<close> at an unsigned type.\<close>

definition env_uint :: "(string \<Rightarrow> string option) \<Rightarrow> nat \<Rightarrow> string \<Rightarrow> nat \<Rightarrow> nat" where
  "env_uint env mx k d =
     (case env k of
        None \<Rightarrow> d
      | Some s \<Rightarrow> (case parse_uint mx s of None \<Rightarrow> d | Some n \<Rightarrow> n))"

text \<open>The same for a number read by \<open>parse_f64\<close>.\<close>

definition env_f64 :: "(string \<Rightarrow> real option) \<Rightarrow> (string \<Rightarrow> string option) \<Rightarrow> string \<Rightarrow> real \<Rightarrow> real" where
  "env_f64 parse_f64 env k d =
     (case Option.bind (env k) parse_f64 of None \<Rightarrow> d | Some v \<Rightarrow> v)"

text \<open>A flag that is on for the given words, in any case, and off when unset.\<close>

definition env_flag :: "string list \<Rightarrow> (string \<Rightarrow> string option) \<Rightarrow> string \<Rightarrow> bool" where
  "env_flag words env k =
     (case env k of None \<Rightarrow> False | Some v \<Rightarrow> List.member words (to_ascii_lowercase v))"

text \<open>A text with a default.\<close>

definition env_or :: "(string \<Rightarrow> string option) \<Rightarrow> string \<Rightarrow> string \<Rightarrow> string" where
  "env_or env k d = (case env k of None \<Rightarrow> d | Some v \<Rightarrow> v)"

text \<open>The decimal digits of a number (\<^verbatim>\<open>to_string\<close>).\<close>

fun show_nat :: "nat \<Rightarrow> string" where
  "show_nat n =
     (if n < 10 then [char_of (48 + n)] else show_nat (n div 10) @ [char_of (48 + n mod 10)])"

declare show_nat.simps [simp del]

lemma parse_digits_append:
  "parse_digits mx acc (s @ t) =
     (case parse_digits mx acc s of None \<Rightarrow> None | Some v \<Rightarrow> parse_digits mx v t)"
  by (induction s arbitrary: acc) (auto simp: Let_def)

lemma of_char_digit [simp]: "d < 10 \<Longrightarrow> (of_char (char_of (48 + d) :: char) :: nat) = 48 + d"
  by simp

lemma parse_digits_show_nat: "n \<le> mx \<Longrightarrow> parse_digits mx 0 (show_nat n) = Some n"
proof (induction n rule: show_nat.induct)
  case (1 n)
  show ?case
  proof (cases "n < 10")
    case True
    with "1.prems" show ?thesis
      by (simp add: show_nat.simps [of n] is_ascii_digit_def Let_def)
  next
    case False
    with 1 have "parse_digits mx 0 (show_nat (n div 10)) = Some (n div 10)" by simp
    moreover have "n div 10 * 10 + n mod 10 = n" by simp
    ultimately show ?thesis using False "1.prems"
      by (simp add: show_nat.simps [of n] parse_digits_append is_ascii_digit_def Let_def)
  qed
qed

lemma show_nat_digits: "c \<in> set (show_nat n) \<Longrightarrow> is_ascii_digit c"
proof (induction n rule: show_nat.induct)
  case (1 n)
  then show ?case
    by (cases "n < 10") (auto simp: show_nat.simps [of n] is_ascii_digit_def)
qed

lemma show_nat_not_Nil [simp]: "show_nat n \<noteq> []"
  by (subst show_nat.simps) simp

lemma parse_uint_show_nat: "n \<le> mx \<Longrightarrow> parse_uint mx (show_nat n) = Some n"
proof -
  assume le: "n \<le> mx"
  obtain c cs where s: "show_nat n = c # cs" by (cases "show_nat n") simp_all
  have "is_ascii_digit c" by (rule show_nat_digits [of c n]) (simp add: s)
  then have "c \<noteq> CHR ''+''" by (auto simp: is_ascii_digit_def)
  with parse_digits_show_nat [OF le] s show ?thesis by (simp add: parse_uint_def)
qed

lemma digit_not_white_space: "is_ascii_digit c \<Longrightarrow> c \<notin> set (concat white_space)"
  by (auto simp: white_space_def is_ascii_digit_def)

lemma trim_show_nat [simp]: "trim (show_nat n) = show_nat n"
  by (rule trim_id) (use digit_not_white_space show_nat_digits in blast)

lemma show_nat_inj: "show_nat m = show_nat n \<Longrightarrow> m = n"
  by (metis max.cobounded1 max.cobounded2 option.inject parse_digits_show_nat)

lemma parse_digits_le: "acc \<le> mx \<Longrightarrow> parse_digits mx acc s = Some v \<Longrightarrow> v \<le> mx"
  by (induction s arbitrary: acc) (auto simp: Let_def split: if_splits)

lemma parse_uint_le: "parse_uint mx s = Some v \<Longrightarrow> v \<le> mx"
  by (auto simp: parse_uint_def Let_def dest!: parse_digits_le [rotated] split: list.splits if_splits)

subsection \<open>Hash maps\<close>

text \<open>
  \<^const>\<open>AList.update\<close> is \<^verbatim>\<open>insert\<close> (an existing key keeps its place), \<^const>\<open>AList.delete\<close> is
  \<^verbatim>\<open>remove\<close>, \<^const>\<open>map_of\<close> is \<^verbatim>\<open>get\<close> and \<^const>\<open>filter\<close> on the pairs is \<^verbatim>\<open>retain\<close>.
\<close>

definition hm_inv :: "('k, 'v) hash_map \<Rightarrow> bool" where
  "hm_inv m \<longleftrightarrow> distinct (map fst m)"

definition hm_has :: "('k, 'v) hash_map \<Rightarrow> 'k \<Rightarrow> bool" where
  "hm_has m k \<longleftrightarrow> map_of m k \<noteq> None"

lemma hm_has_iff [hm_simps]: "hm_has m k \<longleftrightarrow> k \<in> fst ` set m"
  by (simp add: hm_has_def map_of_eq_None_iff)

lemma hm_get_update [hm_simps, simp]:
  "map_of (AList.update k v m) k' = (if k' = k then Some v else map_of m k')"
  by (simp add: AList.update_conv')

lemma hm_get_delete [hm_simps, simp]:
  "map_of (AList.delete k m) k' = (if k' = k then None else map_of m k')"
  by (simp add: AList.delete_conv')

lemma hm_inv_Nil [simp]: "hm_inv []"
  by (simp add: hm_inv_def)

lemma hm_inv_update [simp, intro]: "hm_inv m \<Longrightarrow> hm_inv (AList.update k v m)"
  by (simp add: hm_inv_def AList.distinct_update)

lemma hm_inv_delete [simp, intro]: "hm_inv m \<Longrightarrow> hm_inv (AList.delete k m)"
  by (simp add: hm_inv_def AList.distinct_delete)

lemma hm_inv_filter [simp, intro]: "hm_inv m \<Longrightarrow> hm_inv (filter P m)"
  by (simp add: hm_inv_def distinct_map_filter)

lemma hm_get_filter [hm_simps]:
  "hm_inv m \<Longrightarrow>
     map_of (filter (\<lambda>(k, v). P k v) m) k =
       (case map_of m k of None \<Rightarrow> None | Some v \<Rightarrow> if P k v then Some v else None)"
proof (induction m)
  case (Cons p m)
  obtain a b where p: "p = (a, b)" by (cases p)
  show ?case
  proof (cases "a = k")
    case True
    with Cons.prems p have "map_of m k = None"
      by (auto simp: hm_inv_def map_of_eq_None_iff)
    moreover from this have "map_of (filter (\<lambda>(k, v). P k v) m) k = None"
      by (auto simp: map_of_eq_None_iff)
    ultimately show ?thesis using True p by simp
  next
    case False
    with Cons p show ?thesis by (simp add: hm_inv_def)
  qed
qed simp

lemma hm_length_update [hm_simps]:
  "length (AList.update k v m) = (if hm_has m k then length m else Suc (length m))"
  by (induction m) (auto simp: hm_has_def)

lemma hm_length_delete [hm_simps]:
  "hm_inv m \<Longrightarrow> length (AList.delete k m) = (if hm_has m k then length m - 1 else length m)"
proof (induction m)
  case (Cons p m)
  then have IH: "length (AList.delete k m) = (if hm_has m k then length m - 1 else length m)"
    by (simp add: hm_inv_def)
  show ?case
  proof (cases "fst p = k")
    case True
    with Cons.prems have "\<not> hm_has m k" by (auto simp: hm_has_iff hm_inv_def)
    with IH True show ?thesis by (cases p) (simp add: hm_has_def AList.delete_eq)
  next
    case False
    then have has: "hm_has (p # m) k = hm_has m k" by (cases p) (simp add: hm_has_def)
    have len: "length (AList.delete k (p # m)) = Suc (length (AList.delete k m))"
      using False by (cases p) (simp add: AList.delete_eq)
    have "hm_has m k \<Longrightarrow> 0 < length m" by (cases m) (auto simp: hm_has_def)
    with IH has len show ?thesis by auto
  qed
qed (simp add: hm_has_def)

lemma hm_length_delete_le: "length (AList.delete k m) \<le> length m"
  by (simp add: AList.length_delete_le)

lemma hm_mem_get: "hm_inv m \<Longrightarrow> (k, v) \<in> set m \<longleftrightarrow> map_of m k = Some v"
  by (simp add: hm_inv_def)

lemma hm_set_update [hm_simps]:
  "hm_inv m \<Longrightarrow> set (AList.update k v m) = insert (k, v) {p \<in> set m. fst p \<noteq> k}"
proof -
  assume inv: "hm_inv m"
  have "p \<in> set (AList.update k v m) \<longleftrightarrow> p \<in> insert (k, v) {p \<in> set m. fst p \<noteq> k}" for p
    using hm_mem_get [OF inv] hm_mem_get [OF hm_inv_update [OF inv, of k v]]
    by (cases p) auto
  then show ?thesis by blast
qed

lemma hm_set_delete [hm_simps]: "set (AList.delete k m) = {p \<in> set m. fst p \<noteq> k}"
  by (auto simp: AList.delete_eq)

text \<open>
  Overwriting the values of a map one by one: the entry of a key is that of its last pair.
\<close>

definition hm_extend :: "('k, 'v) hash_map \<Rightarrow> ('k \<times> 'v) list \<Rightarrow> ('k, 'v) hash_map" where
  "hm_extend m kvs = fold (\<lambda>(k, v) acc. AList.update k v acc) kvs m"

lemma hm_inv_extend [simp]: "hm_inv m \<Longrightarrow> hm_inv (hm_extend m kvs)"
  unfolding hm_extend_def by (induction kvs arbitrary: m) auto

lemma hm_get_extend [hm_simps]:
  "map_of (hm_extend m kvs) k = (case map_of (rev kvs) k of None \<Rightarrow> map_of m k | Some v \<Rightarrow> Some v)"
  unfolding hm_extend_def
  by (induction kvs arbitrary: m) (auto split: option.splits simp: map_add_def)

subsection \<open>Minimum by a key\<close>

text \<open>\<^verbatim>\<open>Iterator::min_by_key\<close>: the first of the elements with the least key.\<close>

fun min_by_key :: "('a \<Rightarrow> 'b::linorder) \<Rightarrow> 'a list \<Rightarrow> 'a option" where
  "min_by_key f [] = None"
| "min_by_key f (x # xs) =
     (case min_by_key f xs of
        None \<Rightarrow> Some x
      | Some y \<Rightarrow> if f x \<le> f y then Some x else Some y)"

lemma min_by_key_None_iff [simp]: "min_by_key f xs = None \<longleftrightarrow> xs = []"
  by (cases xs) (auto split: option.splits)

lemma min_by_key_Some:
  "min_by_key f xs = Some x \<Longrightarrow> x \<in> set xs \<and> (\<forall>y \<in> set xs. f x \<le> f y)"
  by (induction xs arbitrary: x) (fastforce split: option.splits if_splits)+

lemma min_by_key_in: "xs \<noteq> [] \<Longrightarrow> \<exists>x. min_by_key f xs = Some x \<and> x \<in> set xs"
  using min_by_key_None_iff [of f xs] min_by_key_Some [of f xs] by (cases "min_by_key f xs") blast+

subsection \<open>Making room in a map\<close>

text \<open>
  Inserting after removing the key \<open>evict\<close> names when the map is full and the key is new.
\<close>

definition hm_make_room ::
  "nat \<Rightarrow> (('k, 'v) hash_map \<Rightarrow> 'k option) \<Rightarrow> 'k \<Rightarrow> ('k, 'v) hash_map \<Rightarrow> ('k, 'v) hash_map" where
  "hm_make_room mx evict k m =
     (if length m \<ge> mx \<and> \<not> hm_has m k then
        (case evict m of Some e \<Rightarrow> AList.delete e m | None \<Rightarrow> m)
      else m)"

text \<open>Removing an arbitrary key when the map is full, \<open>ord\<close> being the choice of its iteration order.\<close>

definition hm_drop_one :: "nat \<Rightarrow> nat \<Rightarrow> ('k, 'v) hash_map \<Rightarrow> ('k, 'v) hash_map" where
  "hm_drop_one ord mx m =
     (if length m \<ge> mx \<and> m \<noteq> [] then AList.delete (fst (m ! (ord mod length m))) m else m)"

lemma hm_drop_one_inv [simp]: "hm_inv m \<Longrightarrow> hm_inv (hm_drop_one ord mx m)"
  by (simp add: hm_drop_one_def)

lemma hm_drop_one_get: "map_of (hm_drop_one ord mx m) k \<in> {None, map_of m k}"
  by (simp add: hm_drop_one_def)

lemma hm_drop_one_room: "length m < mx \<Longrightarrow> hm_drop_one ord mx m = m"
  by (simp add: hm_drop_one_def)

lemma hm_drop_one_length:
  assumes "hm_inv m" "length m \<le> mx" "0 < mx"
  shows "length (AList.update k v (hm_drop_one ord mx m)) \<le> mx"
proof (cases "length m = mx")
  case True
  then have "m \<noteq> []" using assms(3) by auto
  moreover from this have "hm_has m (fst (m ! (ord mod length m)))" by (auto simp: hm_has_iff)
  ultimately show ?thesis
    using assms True by (simp add: hm_drop_one_def hm_length_update hm_length_delete)
next
  case False
  then show ?thesis using assms(2) by (simp add: hm_drop_one_room hm_length_update)
qed

lemma hm_make_room_inv [simp]: "hm_inv m \<Longrightarrow> hm_inv (hm_make_room mx evict k m)"
  by (auto simp: hm_make_room_def split: option.splits)

lemma hm_make_room_get:
  "map_of (hm_make_room mx evict k m) k' \<in> {None, map_of m k'}"
  by (auto simp: hm_make_room_def split: option.splits)

lemma hm_make_room_same: "map_of (hm_make_room mx evict k m) k = map_of m k"
  by (auto simp: hm_make_room_def hm_has_def split: option.splits)

lemma hm_make_room_length:
  assumes "hm_inv m" "length m \<le> mx" "0 < mx"
    and "\<And>m. m \<noteq> [] \<Longrightarrow> \<exists>e. evict m = Some e \<and> hm_has m e"
  shows "length (AList.update k v (hm_make_room mx evict k m)) \<le> mx"
proof (cases "length m \<ge> mx \<and> \<not> hm_has m k")
  case True
  with assms obtain e where e: "evict m = Some e" "hm_has m e" by (cases m) auto
  from True assms e have "length (hm_make_room mx evict k m) = mx - 1"
    by (simp add: hm_make_room_def hm_length_delete)
  with assms(3) show ?thesis by (simp add: hm_length_update)
next
  case False
  with assms(2) show ?thesis by (auto simp: hm_make_room_def hm_length_update)
qed

subsection \<open>Maps that stay within a capacity\<close>

text \<open>
  Several components keep a hash map from growing: the policy decision cache, the rate
  limiter's buckets, the login states of the reverse proxy. What their clients rely on is one
  contract. Writing a key makes it readable, writing one key never invents a value for
  another, and the number of entries stays within the capacity.
\<close>

locale capped_map =
  fixes put :: "'k \<Rightarrow> 'v \<Rightarrow> 's \<Rightarrow> 's"
    and get :: "'s \<Rightarrow> 'k \<Rightarrow> 'v option"
    and entries :: "'s \<Rightarrow> nat"
    and inv :: "'s \<Rightarrow> bool"
    and cap :: nat
  assumes put_inv: "inv s \<Longrightarrow> inv (put k v s)"
    and get_put_same: "inv s \<Longrightarrow> get (put k v s) k = Some v"
    and get_put_other: "inv s \<Longrightarrow> k' \<noteq> k \<Longrightarrow> get (put k v s) k' \<in> {None, get s k'}"
    and entries_put: "inv s \<Longrightarrow> entries s \<le> cap \<Longrightarrow> entries (put k v s) \<le> cap"
begin

lemma puts_inv: "inv s \<Longrightarrow> inv (fold (\<lambda>(k, v). put k v) kvs s)"
  by (induction kvs arbitrary: s) (auto intro: put_inv)

lemma puts_entries:
  "inv s \<Longrightarrow> entries s \<le> cap \<Longrightarrow> entries (fold (\<lambda>(k, v). put k v) kvs s) \<le> cap"
  by (induction kvs arbitrary: s) (auto intro: put_inv entries_put)

text \<open>A value read back is the last one written under that key, or was there before.\<close>

lemma puts_get:
  assumes "inv s" "get (fold (\<lambda>(k, v). put k v) kvs s) k = Some v"
  shows "map_of (rev kvs) k = Some v \<or> map_of (rev kvs) k = None \<and> get s k = Some v"
  using assms
proof (induction kvs rule: rev_induct)
  case (snoc p kvs)
  obtain a b where p: "p = (a, b)" by (cases p)
  let ?t = "fold (\<lambda>(k, v). put k v) kvs s"
  have inv: "inv ?t" using snoc.prems(1) by (rule puts_inv)
  show ?case
  proof (cases "a = k")
    case True
    with snoc.prems(2) p get_put_same [OF inv, of a b] show ?thesis by simp
  next
    case False
    with snoc.prems(2) p get_put_other [OF inv, of k a b] have "get ?t k = Some v" by auto
    with snoc.IH [OF snoc.prems(1)] False p show ?thesis by simp
  qed
qed simp

end

end
