(* ===== verification/Wire.thy ===== *)
theory Wire
  imports Prelude
begin

text \<open>
  Bytes on the wire: big-endian numbers, UTF-8, and the textual form of IP addresses, as the
  standard library defines them. The DNS, ICP and HTCP codecs build on this theory.
\<close>

section \<open>Big-endian numbers\<close>

type_synonym bytes = "u8 list"

text \<open>\<^verbatim>\<open>to_be_bytes\<close> of an \<open>n\<close>-byte integer, and \<^verbatim>\<open>from_be_bytes\<close>.\<close>

primrec to_be :: "nat \<Rightarrow> nat \<Rightarrow> bytes" where
  "to_be 0 v = []"
| "to_be (Suc n) v = to_be n (v div 256) @ [of_nat v]"

definition of_be :: "bytes \<Rightarrow> nat" where
  "of_be bs = foldl (\<lambda>acc b. acc * 256 + unat b) 0 bs"

lemma length_to_be [simp]: "length (to_be n v) = n"
  by (induction n arbitrary: v) auto

lemma of_be_snoc: "of_be (bs @ [b]) = of_be bs * 256 + unat b"
  by (simp add: of_be_def)

lemma of_be_Nil [simp]: "of_be [] = 0"
  by (simp add: of_be_def)

lemma unat_of_nat_u8: "unat (of_nat v :: u8) = v mod 256"
  by (simp add: unat_of_nat)

lemma of_be_to_be: "of_be (to_be n v) = v mod 256 ^ n"
proof (induction n arbitrary: v)
  case (Suc n)
  have "v mod 256 ^ Suc n = v div 256 mod 256 ^ n * 256 + v mod 256"
    by (metis mod_mult2_eq mult.commute power_Suc)
  with Suc show ?case by (simp add: of_be_snoc unat_of_nat_u8)
qed simp

lemma unat_u8_less [simp]: "unat (b :: u8) < 256"
  using unsigned_less [of b] by simp

lemma of_be_less: "of_be bs < 256 ^ length bs"
proof (induction bs rule: rev_induct)
  case (snoc b bs)
  have "unat b < 256" by simp
  with snoc have "of_be bs * 256 + unat b < 256 ^ length bs * 256" by linarith
  then show ?case by (simp add: of_be_snoc mult.commute)
qed simp

lemma to_be_of_be: "to_be (length bs) (of_be bs) = bs"
proof (induction bs rule: rev_induct)
  case (snoc b bs)
  have "unat b < 256" by simp
  then have "of_be (bs @ [b]) div 256 = of_be bs" by (simp add: of_be_snoc)
  moreover have "unat (of_nat (of_be (bs @ [b])) :: u8) = unat b"
    by (simp only: of_be_snoc unat_of_nat_u8) simp
  then have "(of_nat (of_be (bs @ [b])) :: u8) = b" by (simp only: word_unat_eq_iff)
  ultimately show ?case using snoc by simp
qed simp

lemma of_be_to_be_id: "v < 256 ^ n \<Longrightarrow> of_be (to_be n v) = v"
  by (simp add: of_be_to_be)

text \<open>A range of a buffer; out of range, or the wrong way round, panics.\<close>

definition slice :: "bytes \<Rightarrow> nat \<Rightarrow> nat \<Rightarrow> bytes option" where
  "slice buf a b = (if a \<le> b \<and> b \<le> length buf then Some (take (b - a) (drop a buf)) else None)"

lemma slice_append: "slice (p @ m @ s) (length p) (length p + length m) = Some m"
  by (simp add: slice_def)

lemma slice_length: "slice buf a b = Some m \<Longrightarrow> length m = b - a"
  by (auto simp: slice_def split: if_splits)

section \<open>UTF-8\<close>

definition is_cont :: "nat \<Rightarrow> nat \<Rightarrow> u8 \<Rightarrow> bool" where
  "is_cont lo hi b \<longleftrightarrow> lo \<le> unat b \<and> unat b \<le> hi"

text \<open>
  The next piece of a byte sequence: its length, and whether it is a well-formed character.
  An ill-formed piece is the longest beginning of a character, at least one byte.
\<close>

definition utf8_step :: "bytes \<Rightarrow> nat \<times> bool" where
  "utf8_step bs =
     (let first = (case bs of b # _ \<Rightarrow> unat b | [] \<Rightarrow> 0);
          cont = (\<lambda>i lo hi. i < length bs \<and> is_cont lo hi (bs ! i));
          lo = (if first = 224 then 160 else if first = 240 then 144 else 128);
          hi = (if first = 237 then 159 else if first = 244 then 143 else 191)
      in if first < 128 then (1, True)
         else if 194 \<le> first \<and> first \<le> 223 then
           (if cont 1 128 191 then (2, True) else (1, False))
         else if 224 \<le> first \<and> first \<le> 239 then
           (if \<not> cont 1 lo hi then (1, False) else if cont 2 128 191 then (3, True) else (2, False))
         else if 240 \<le> first \<and> first \<le> 244 then
           (if \<not> cont 1 lo hi then (1, False)
            else if \<not> cont 2 128 191 then (2, False)
            else if cont 3 128 191 then (4, True) else (3, False))
         else (1, False))"

function utf8_pieces :: "bytes \<Rightarrow> (bytes \<times> bool) list" where
  "utf8_pieces bs =
     (if bs = [] then []
      else (case utf8_step bs of (n, ok) \<Rightarrow> (take (max 1 n) bs, ok) # utf8_pieces (drop (max 1 n) bs)))"
  by pat_completeness auto
termination
  by (relation "measure length") auto

declare utf8_pieces.simps [simp del]

definition byte_chars :: "bytes \<Rightarrow> string" where
  "byte_chars bs = map (\<lambda>b. char_of (unat b)) bs"

definition char_bytes :: "string \<Rightarrow> bytes" where
  "char_bytes s = map (\<lambda>c. of_nat (of_char c)) s"

text \<open>\<^verbatim>\<open>str::from_utf8\<close> and \<^verbatim>\<open>String::from_utf8_lossy\<close>.\<close>

definition from_utf8 :: "bytes \<Rightarrow> string option" where
  "from_utf8 bs = (if list_all snd (utf8_pieces bs) then Some (byte_chars bs) else None)"

definition from_utf8_lossy :: "bytes \<Rightarrow> string" where
  "from_utf8_lossy bs =
     concat (map (\<lambda>(p, ok). if ok then byte_chars p else [CHR 0xEF, CHR 0xBF, CHR 0xBD]) (utf8_pieces bs))"

lemma byte_chars_char_bytes [simp]: "byte_chars (char_bytes s) = s"
proof -
  have "unat (of_nat (of_char c) :: u8) = of_char c" for c
    using nat_of_char_less_256 [of c] by (simp add: unat_of_nat)
  then show ?thesis by (simp add: byte_chars_def char_bytes_def o_def)
qed

lemma char_bytes_byte_chars [simp]: "char_bytes (byte_chars bs) = bs"
proof -
  have "(of_nat (of_char (char_of (unat b) :: char)) :: u8) = b" for b :: u8
    by (simp add: of_char_of)
  then show ?thesis by (simp add: byte_chars_def char_bytes_def o_def)
qed

lemma length_char_bytes [simp]: "length (char_bytes s) = length s"
  by (simp add: char_bytes_def)

lemma length_byte_chars [simp]: "length (byte_chars bs) = length bs"
  by (simp add: byte_chars_def)

lemma byte_chars_append [simp]: "byte_chars (a @ b) = byte_chars a @ byte_chars b"
  by (simp add: byte_chars_def)

lemma char_bytes_append [simp]: "char_bytes (a @ b) = char_bytes a @ char_bytes b"
  by (simp add: char_bytes_def)

lemma concat_pieces: "concat (map fst (utf8_pieces bs)) = bs"
proof (induction bs rule: utf8_pieces.induct)
  case (1 bs)
  show ?case
  proof (cases "bs = []")
    case False
    with 1 show ?thesis
      by (simp add: utf8_pieces.simps [of bs] case_prod_beta prod_eq_iff)
  qed (simp add: utf8_pieces.simps)
qed

text \<open>Where the bytes are well formed, the lossy reading loses nothing.\<close>

lemma lossy_valid: "from_utf8 bs = Some s \<Longrightarrow> from_utf8_lossy bs = s"
proof -
  assume "from_utf8 bs = Some s"
  then have ok: "list_all snd (utf8_pieces bs)" and s: "s = byte_chars bs"
    by (auto simp: from_utf8_def split: if_splits)
  have "concat (map (\<lambda>(p, ok). if ok then byte_chars p else r) ps) = byte_chars (concat (map fst ps))"
    if "list_all snd ps" for ps r
    using that by (induction ps) (auto simp: byte_chars_def)
  from this [OF ok] show ?thesis by (simp add: from_utf8_lossy_def s concat_pieces)
qed

lemma from_utf8_ascii: "\<forall>b \<in> set bs. unat b < 128 \<Longrightarrow> from_utf8 bs = Some (byte_chars bs)"
proof -
  assume ascii: "\<forall>b \<in> set bs. unat b < 128"
  then have "list_all snd (utf8_pieces bs)"
  proof (induction bs rule: utf8_pieces.induct)
    case (1 bs)
    show ?case
    proof (cases bs)
      case (Cons b bs')
      with "1.prems" have "utf8_step bs = (1, True)" by (simp add: utf8_step_def Let_def)
      with 1 Cons show ?thesis by (simp add: utf8_pieces.simps [of "b # bs'"])
    qed (simp add: utf8_pieces.simps)
  qed
  then show ?thesis by (simp add: from_utf8_def)
qed

section \<open>IP addresses in text\<close>

definition digit_val :: "char \<Rightarrow> nat" where
  "digit_val c =
     (let n = of_char c in
      if 48 \<le> n \<and> n \<le> 57 then n - 48
      else if 97 \<le> n \<and> n \<le> 102 then n - 87
      else if 65 \<le> n \<and> n \<le> 70 then n - 55
      else 99)"

definition digits_val :: "nat \<Rightarrow> string \<Rightarrow> nat" where
  "digits_val radix ds = foldl (\<lambda>acc c. acc * radix + digit_val c) 0 ds"

definition read_number :: "nat \<Rightarrow> nat \<Rightarrow> nat \<Rightarrow> bool \<Rightarrow> string \<Rightarrow> (nat \<times> string) option" where
  "read_number radix max_digits mx allow_zero_prefix s =
     (let ds = takeWhile (\<lambda>c. digit_val c < radix) s in
      if ds = [] \<or> length ds > max_digits \<or> \<not> allow_zero_prefix \<and> hd ds = CHR ''0'' \<and> length ds > 1 \<or>
         digits_val radix ds > mx
      then None else Some (digits_val radix ds, drop (length ds) s))"

definition read_octet :: "string \<Rightarrow> (nat \<times> string) option" where
  "read_octet s = read_number 10 3 255 False s"

fun read_octets :: "nat \<Rightarrow> string \<Rightarrow> (nat list \<times> string) option" where
  "read_octets 0 s = Some ([], s)"
| "read_octets (Suc n) s =
     (case s of
        [] \<Rightarrow> None
      | c # cs \<Rightarrow>
          (if c \<noteq> CHR ''.'' then None
           else (case read_octet cs of
                   None \<Rightarrow> None
                 | Some (v, r) \<Rightarrow> map_option (\<lambda>(vs, r'). (v # vs, r')) (read_octets n r))))"

definition read_ipv4 :: "string \<Rightarrow> (nat \<times> string) option" where
  "read_ipv4 s =
     (case read_octet s of
        None \<Rightarrow> None
      | Some (v, r) \<Rightarrow>
          map_option (\<lambda>(vs, r'). (foldl (\<lambda>acc b. acc * 256 + b) v vs, r')) (read_octets 3 r))"

text \<open>\<^verbatim>\<open>Ipv4Addr::from_str\<close>\<close>

definition parse_ipv4 :: "string \<Rightarrow> u32 option" where
  "parse_ipv4 s =
     (if length s > 15 then None
      else (case read_ipv4 s of Some (v, []) \<Rightarrow> Some (of_nat v) | _ \<Rightarrow> None))"

text \<open>
  Groups of an IPv6 address, at most \<open>n\<close> of them, separated by colons; an IPv4 address may take
  the place of the last two and ends the list.
\<close>

fun read_groups :: "nat \<Rightarrow> bool \<Rightarrow> string \<Rightarrow> nat list \<times> bool \<times> string" where
  "read_groups 0 first s = ([], False, s)"
| "read_groups (Suc n) first s =
     (let sep = (if first then Some s else strip_prefix s '':'');
          v4 = (if n > 0 then (case sep of None \<Rightarrow> None | Some t \<Rightarrow> read_ipv4 t) else None)
      in case v4 of
           Some (v, r) \<Rightarrow> ([v div 65536, v mod 65536], True, r)
         | None \<Rightarrow>
             (case (case sep of None \<Rightarrow> None | Some t \<Rightarrow> read_number 16 4 65535 True t) of
                None \<Rightarrow> ([], False, s)
              | Some (g, r) \<Rightarrow>
                  (case read_groups n False r of (gs, b, r') \<Rightarrow> (g # gs, b, r'))))"

definition groups_val :: "nat list \<Rightarrow> nat" where
  "groups_val gs = foldl (\<lambda>acc g. acc * 65536 + g) 0 gs"

definition read_ipv6 :: "string \<Rightarrow> (nat \<times> string) option" where
  "read_ipv6 s =
     (case read_groups 8 True s of
        (head, head_ipv4, r) \<Rightarrow>
          (if length head = 8 then Some (groups_val head, r)
           else if head_ipv4 then None
           else
             (case strip_prefix r ''::'' of
                None \<Rightarrow> None
              | Some t \<Rightarrow>
                  (case read_groups (8 - (length head + 1)) True t of
                     (tail, _, r') \<Rightarrow>
                       Some (groups_val (head @ replicate (8 - length head - length tail) 0 @ tail), r')))))"

text \<open>\<^verbatim>\<open>Ipv6Addr::from_str\<close>\<close>

definition parse_ipv6 :: "string \<Rightarrow> 128 word option" where
  "parse_ipv6 s = (case read_ipv6 s of Some (v, []) \<Rightarrow> Some (of_nat v) | _ \<Rightarrow> None)"

lemma parse_ip_examples:
  "parse_ipv4 ''10.0.0.1'' = Some 167772161" "parse_ipv4 ''10.0.0.01'' = None"
  "parse_ipv4 ''256.0.0.1'' = None" "parse_ipv6 ''::1'' = Some 1" "parse_ipv6 ''1::2:3'' = Some 0x10000000000000000000000020003"
  "parse_ipv6 ''::ffff:1.2.3.4'' = Some 0xffff01020304" "parse_ipv6 ''1:2'' = None"
  by code_simp+

end
