(* ===== verification/Dns.thy ===== *)
theory Dns
  imports Wire
begin

text \<open>
  The message codec of the DNS sinkhole (\<^verbatim>\<open>dns-sinkhole/src/dns.rs\<close>) and the framing of DNS over TLS
  and HTTPS (\<^verbatim>\<open>doh_dot.rs\<close>). Errors are a datatype with one constructor per message of the
  source. A slice out of range is a panic, the value \<^const>\<open>None\<close>. The loop of \<^verbatim>\<open>read_name\<close> terminates for
  every packet: it follows at most eleven pointers and reads forward between them.
\<close>

section \<open>Definitions\<close>

definition type_a :: nat where "type_a = 1"
definition type_aaaa :: nat where "type_aaaa = 28"
definition class_in :: nat where "class_in = 1"
definition rcode_nxdomain :: nat where "rcode_nxdomain = 3"
definition rcode_formerr :: nat where "rcode_formerr = 1"

record question =
  qu_name :: string
  qu_qtype :: nat
  qu_qclass :: nat

record dns_query =
  dq_id :: nat
  dq_recursion_desired :: bool
  dq_question :: question
  dq_question_bytes :: bytes

datatype dns_error =
    Short_header | Question_count nat | Not_a_query | Name_oob | Bad_pointer | Pointer_loop
  | Label_oob | Label_utf8 | Short_question

function read_name_loop ::
  "bytes \<Rightarrow> nat \<Rightarrow> string list \<Rightarrow> bool \<Rightarrow> nat \<Rightarrow> nat \<Rightarrow> dns_error + (string \<times> nat)" where
  "read_name_loop buf off labels jumped end_off hops =
     (if off \<ge> length buf then Inl Name_oob
      else
        (let len = buf ! off in
         if len = 0 then Inr (join ''.'' labels, (if jumped then end_off else off + 1))
         else if and len 0xC0 = 0xC0 then
           (if off + 1 \<ge> length buf then Inl Bad_pointer
            else if hops + 1 > 10 then Inl Pointer_loop
            else read_name_loop buf (unat (and len 0x3F) * 256 + unat (buf ! (off + 1))) labels True
                   (if jumped then end_off else off + 2) (hops + 1))
         else
           (let start = off + 1; stop = start + unat len in
            if stop > length buf then Inl Label_oob
            else
              (case from_utf8 (take (unat len) (drop start buf)) of
                 None \<Rightarrow> Inl Label_utf8
               | Some label \<Rightarrow>
                   read_name_loop buf stop (labels @ [to_ascii_lowercase label]) jumped
                     (if jumped then end_off else stop) hops))))"
  by pat_completeness auto
termination
  by (relation "measures [\<lambda>(buf, off, labels, jumped, end_off, hops). 11 - hops,
                          \<lambda>(buf, off, labels, jumped, end_off, hops). length buf - off]")
    auto

declare read_name_loop.simps [simp del]

definition read_name :: "bytes \<Rightarrow> nat \<Rightarrow> dns_error + (string \<times> nat)" where
  "read_name buf off = read_name_loop buf off [] False off 0"

definition u16_at :: "bytes \<Rightarrow> nat \<Rightarrow> nat" where
  "u16_at buf i = of_be [buf ! i, buf ! (i + 1)]"

definition parse_query :: "bytes \<Rightarrow> (dns_error + dns_query) option" where
  "parse_query buf =
     (if length buf < 12 then Some (Inl Short_header)
      else
        (let qid = u16_at buf 0; flags = u16_at buf 2; qdcount = u16_at buf 4 in
         if qdcount \<noteq> 1 then Some (Inl (Question_count qdcount))
         else if flags div 2 ^ 15 mod 2 \<noteq> 0 then Some (Inl Not_a_query)
         else
           (case read_name buf 12 of
              Inl e \<Rightarrow> Some (Inl e)
            | Inr (name, off) \<Rightarrow>
                (if off + 4 > length buf then Some (Inl Short_question)
                 else
                   map_option
                     (\<lambda>question_bytes. Inr
                        \<lparr>dq_id = qid, dq_recursion_desired = bit flags 8,
                         dq_question =
                           \<lparr>qu_name = name, qu_qtype = u16_at buf off, qu_qclass = u16_at buf (off + 2)\<rparr>,
                         dq_question_bytes = question_bytes\<rparr>)
                     (slice buf 12 (off + 4))))))"

definition encode_label :: "string \<Rightarrow> bytes" where
  "encode_label label = of_nat (length label) # char_bytes label"

definition encode_name :: "string \<Rightarrow> bytes" where
  "encode_name name =
     (if name = [] \<or> name = ''.'' then [0]
      else concat (map encode_label (split_char CHR ''.'' (trim_end_matches CHR ''.'' name))) @ [0])"

record dns_answer =
  da_rtype :: nat
  da_ttl :: nat
  da_rdata :: bytes

definition encode_answer :: "dns_answer \<Rightarrow> bytes" where
  "encode_answer a =
     [0xC0, 0x0C] @ to_be 2 (da_rtype a) @ to_be 2 class_in @ to_be 4 (da_ttl a) @
     to_be 2 (length (da_rdata a)) @ da_rdata a"

definition response_flags :: "bool \<Rightarrow> nat \<Rightarrow> bool \<Rightarrow> u16" where
  "response_flags rd rcode answered =
     (let flags = 0x8000;
          flags = (if rd then or flags 0x0100 else flags);
          flags = or flags 0x0080;
          flags = (if answered then or flags 0x0400 else flags)
      in or flags (of_nat rcode))"

definition build_response :: "dns_query \<Rightarrow> nat \<Rightarrow> dns_answer list \<Rightarrow> bytes" where
  "build_response query rcode answers =
     to_be 2 (dq_id query) @
     to_be 2 (unat (response_flags (dq_recursion_desired query) rcode (answers \<noteq> []))) @
     to_be 2 1 @ to_be 2 (length answers) @ to_be 2 0 @ to_be 2 0 @
     dq_question_bytes query @ concat (map encode_answer answers)"

definition a_rdata :: "u32 \<Rightarrow> bytes" where
  "a_rdata ip = to_be 4 (unat ip)"

definition aaaa_rdata :: "128 word \<Rightarrow> bytes" where
  "aaaa_rdata ip = to_be 16 (unat ip)"

definition formerr :: "nat \<Rightarrow> bytes" where
  "formerr i = to_be 2 i @ [0x80, of_nat rcode_formerr] @ replicate 8 0"

subsection \<open>DNS over TLS and HTTPS\<close>

text \<open>\<open>base64url\<close> is the decoder of the base64 crate.\<close>

definition decode_doh_base64url :: "(string \<Rightarrow> bytes option) \<Rightarrow> string \<Rightarrow> string + bytes" where
  "decode_doh_base64url base64url input =
     (let input = trim input in
      if input = [] then Inl ''Empty dns parameter''
      else
        (case base64url (trim_end_matches CHR ''='' input) of
           Some b \<Rightarrow> Inr b
         | None \<Rightarrow> Inl ''Invalid base64url encoding''))"

definition encode_dot_frame :: "bytes \<Rightarrow> bytes" where
  "encode_dot_frame packet = to_be 2 (length packet) @ packet"

definition parse_dot_length :: "bytes \<Rightarrow> nat option" where
  "parse_dot_length buf = (if length buf < 2 then None else Some (u16_at buf 0))"

subsection \<open>Specification\<close>

text \<open>A name that fits into labels, and a query for it as it stands on the wire.\<close>

definition valid_label :: "string \<Rightarrow> bool" where
  "valid_label l \<longleftrightarrow> 0 < length l \<and> length l < 64 \<and> from_utf8 (char_bytes l) = Some l"

definition valid_name :: "string \<Rightarrow> bool" where
  "valid_name name \<longleftrightarrow> list_all valid_label (split_char CHR ''.'' name)"

definition encode_query :: "nat \<Rightarrow> bool \<Rightarrow> string \<Rightarrow> nat \<Rightarrow> nat \<Rightarrow> bytes" where
  "encode_query i rd name qtype qclass =
     to_be 2 i @ to_be 2 (if rd then 256 else 0) @ to_be 2 1 @ replicate 6 0 @
     encode_name name @ to_be 2 qtype @ to_be 2 qclass"

section \<open>Lemmas\<close>

lemma u16_at_take: "i + 2 \<le> length buf \<Longrightarrow> u16_at buf i = of_be (take 2 (drop i buf))"
proof -
  assume i: "i + 2 \<le> length buf"
  then have "take 2 (drop i buf) = [buf ! i, buf ! (i + 1)]"
    by (simp add: Cons_nth_drop_Suc [symmetric] numeral_2_eq_2 take_Suc_conv_app_nth)
  then show ?thesis by (simp add: u16_at_def)
qed

lemma read_name_loop_end:
  "read_name_loop buf off labels jumped end_off hops = Inr (name, e) \<Longrightarrow>
     (if jumped then e = end_off else off < e \<and> e \<le> length buf)"
proof (induction buf off labels jumped end_off hops rule: read_name_loop.induct)
  case (1 buf off labels jumped end_off hops)
  show ?case
  proof (cases "off \<ge> length buf \<or> buf ! off = 0")
    case True
    with "1.prems" show ?thesis
      by (auto simp: read_name_loop.simps [of buf off] Let_def split: if_splits)
  next
    case False
    show ?thesis
    proof (cases "and (buf ! off) 0xC0 = 0xC0")
      case True
      with "1.prems" False
      have "read_name_loop buf (unat (and (buf ! off) 0x3F) * 256 + unat (buf ! (off + 1))) labels True
              (if jumped then end_off else off + 2) (hops + 1) = Inr (name, e)"
        and "off + 1 < length buf" "hops + 1 \<le> 10"
        by (auto simp: read_name_loop.simps [of buf off] Let_def split: if_splits)
      with "1.IH"(1) [OF _ refl _ True] False show ?thesis by (auto split: if_splits)
    next
      case nonptr: False
      with "1.prems" False obtain label where
        label: "from_utf8 (take (unat (buf ! off)) (drop (off + 1) buf)) = Some label"
        and rest: "read_name_loop buf (off + 1 + unat (buf ! off)) (labels @ [to_ascii_lowercase label])
           jumped (if jumped then end_off else off + 1 + unat (buf ! off)) hops = Inr (name, e)"
        and "off + 1 + unat (buf ! off) \<le> length buf"
        by (auto simp: read_name_loop.simps [of buf off] Let_def split: if_splits option.splits)
      from "1.IH"(2) [OF _ refl _ nonptr refl refl _ label rest] this(3) False show ?thesis
        by (auto split: if_splits)
    qed
  qed
qed

lemma read_name_end: "read_name buf off = Inr (name, e) \<Longrightarrow> off < e \<and> e \<le> length buf"
  unfolding read_name_def by (drule read_name_loop_end) simp

subsection \<open>Names\<close>

lemma label_len:
  assumes "n < 64"
  shows "and (of_nat n :: u8) 0xC0 = 0" "unat (of_nat n :: u8) = n"
proof -
  have "list_all (\<lambda>n. and (of_nat n :: u8) 0xC0 = 0) [0..<64]" by code_simp
  with assms show "and (of_nat n :: u8) 0xC0 = 0" by (simp add: list_all_iff)
  show "unat (of_nat n :: u8) = n" using assms by (simp add: unat_of_nat)
qed

lemma read_label:
  assumes "valid_label l"
  shows "read_name_loop (pre @ encode_label l @ post) (length pre) acc False eo hops =
         read_name_loop (pre @ encode_label l @ post) (length (pre @ encode_label l))
           (acc @ [to_ascii_lowercase l]) False (length (pre @ encode_label l)) hops"
proof -
  let ?buf = "pre @ encode_label l @ post"
  have len: "?buf ! length pre = of_nat (length l)" by (simp add: encode_label_def)
  have nz: "(of_nat (length l) :: u8) \<noteq> 0" "unat (of_nat (length l) :: u8) = length l"
    and np: "and (of_nat (length l) :: u8) 0xC0 \<noteq> 0xC0"
    using assms label_len [of "length l"] by (auto simp: valid_label_def)
  have "take (length l) (drop (length pre + 1) ?buf) = char_bytes l" by (simp add: encode_label_def)
  with assms have "from_utf8 (take (length l) (drop (length pre + 1) ?buf)) = Some l"
    by (simp add: valid_label_def)
  with len nz np show ?thesis
    by (subst read_name_loop.simps) (simp add: Let_def encode_label_def)
qed

lemma read_labels:
  assumes "list_all valid_label ls"
  shows "read_name_loop (pre @ concat (map encode_label ls) @ 0 # post) (length pre) acc False eo hops =
    Inr (join ''.'' (acc @ map to_ascii_lowercase ls), length pre + length (concat (map encode_label ls)) + 1)"
  using assms
proof (induction ls arbitrary: pre acc eo)
  case Nil
  show ?case by (subst read_name_loop.simps) simp
next
  case (Cons l ls)
  from Cons.IH [of "pre @ encode_label l" "acc @ [to_ascii_lowercase l]" "length (pre @ encode_label l)"] Cons.prems
  show ?case using read_label [of l pre "concat (map encode_label ls) @ 0 # post" acc eo hops] by simp
qed

lemma lower_join: "to_ascii_lowercase (join sep ws) = join (to_ascii_lowercase sep) (map to_ascii_lowercase ws)"
  by (induction sep ws rule: join.induct) (auto simp: to_ascii_lowercase_def)

lemma valid_name_last:
  assumes "valid_name name"
  shows "name \<noteq> []" "trim_end_matches CHR ''.'' name = name" "name \<noteq> ''.''"
proof -
  have ne: "[] \<notin> set (split_char CHR ''.'' name)"
    using assms by (auto simp: valid_name_def list_all_iff valid_label_def)
  then show "name \<noteq> []" "name \<noteq> ''.''" by auto
  have "last name \<noteq> CHR ''.''"
  proof
    assume "last name = CHR ''.''"
    with \<open>name \<noteq> []\<close> obtain s where "name = s @ ''.''" by (metis append_butlast_last_id)
    moreover have "split_char CHR ''.'' (s @ ''.'') = split_char CHR ''.'' s @ [[]]"
      by (induction s) (auto split: list.splits)
    ultimately show False using ne by simp
  qed
  then show "trim_end_matches CHR ''.'' name = name"
    using \<open>name \<noteq> []\<close> by (cases name rule: rev_cases) (simp_all add: trim_end_matches_def)
qed

lemma encode_name_valid:
  "valid_name name \<Longrightarrow> encode_name name = concat (map encode_label (split_char CHR ''.'' name)) @ [0]"
  using valid_name_last [of name] by (simp add: encode_name_def)

lemma read_encoded_name:
  assumes "valid_name name"
  shows "read_name (pre @ encode_name name @ post) (length pre) =
    Inr (to_ascii_lowercase name, length pre + length (encode_name name))"
proof -
  have "to_ascii_lowercase ''.'' = ''.''" by code_simp
  then have "join ''.'' (map to_ascii_lowercase (split_char CHR ''.'' name)) = to_ascii_lowercase name"
    using lower_join [of "''.''" "split_char CHR ''.'' name"] by (simp add: join_split_char)
  then show ?thesis
    using assms read_labels [of "split_char CHR ''.'' name" pre post "[]" "length pre" 0]
    by (simp add: read_name_def encode_name_valid valid_name_def)
qed

section \<open>Properties\<close>


text \<open>(C20) Round trip: a query for a well-formed name parses to its identifier, recursion flag, type and
  class, and to the name in lower case, with the question section as it was sent.\<close>

theorem parse_encode_query:
  assumes "valid_name name" "i < 65536" "qtype < 65536" "qclass < 65536"
  shows "parse_query (encode_query i rd name qtype qclass) =
    Some (Inr \<lparr>dq_id = i, dq_recursion_desired = rd,
               dq_question = \<lparr>qu_name = to_ascii_lowercase name, qu_qtype = qtype, qu_qclass = qclass\<rparr>,
               dq_question_bytes = encode_name name @ to_be 2 qtype @ to_be 2 qclass\<rparr>)"
proof -
  let ?pre = "to_be 2 i @ to_be 2 (if rd then 256 else 0) @ to_be 2 1 @ replicate 6 0"
  let ?q = "to_be 2 qtype @ to_be 2 qclass"
  let ?buf = "encode_query i rd name qtype qclass"
  have buf: "?buf = ?pre @ encode_name name @ ?q" by (simp add: encode_query_def)
  have pre: "length ?pre = 12" by simp
  let ?e = "12 + length (encode_name name)"
  have name: "read_name ?buf 12 = Inr (to_ascii_lowercase name, ?e)"
    using read_encoded_name [OF assms(1), of ?pre ?q] by (simp only: buf pre)
  have hdr: "u16_at ?buf 0 = i" "u16_at ?buf 2 = (if rd then 256 else 0)" "u16_at ?buf 4 = 1"
    "u16_at ?buf ?e = qtype" "u16_at ?buf (?e + 2) = qclass"
    using assms(2-4) by (simp_all add: u16_at_take encode_query_def of_be_to_be)
  have "slice ?buf 12 (?e + 4) = Some (encode_name name @ ?q)"
    using slice_append [of ?pre "encode_name name @ ?q" "[]"] by (simp add: buf)
  moreover have "bit (if rd then 256 else 0 :: nat) 8 = rd" by (cases rd) (simp_all add: bit_iff_odd)
  ultimately show ?thesis
    using name hdr by (simp add: parse_query_def Let_def encode_query_def)
qed

text \<open>A response answers its query: it repeats the identifier and the question, has the response
  flag set and the given code in the low bits, counts one question and its answers, and is
  authoritative exactly when it has answers.\<close>

theorem build_response_header:
  assumes "dq_id q < 65536" "rcode < 16" "length answers < 65536"
  shows "let r = build_response q rcode answers; flags = (of_nat (u16_at r 2) :: u16) in
    u16_at r 0 = dq_id q \<and> u16_at r 4 = 1 \<and> u16_at r 6 = length answers \<and>
    take (length (dq_question_bytes q)) (drop 12 r) = dq_question_bytes q \<and>
    bit flags 15 \<and> (bit flags 10 \<longleftrightarrow> answers \<noteq> []) \<and> (bit flags 8 \<longleftrightarrow> dq_recursion_desired q) \<and>
    take_bit 4 flags = of_nat rcode"
proof -
  let ?r = "build_response q rcode answers"
  let ?f = "response_flags (dq_recursion_desired q) rcode (answers \<noteq> [])"
  have len: "12 \<le> length ?r" by (simp add: build_response_def)
  have "unat ?f < 65536" using unsigned_less [of ?f] by simp
  then have f: "u16_at ?r 2 = unat ?f" "u16_at ?r 0 = dq_id q" "u16_at ?r 4 = 1" "u16_at ?r 6 = length answers"
    using assms len by (simp_all add: u16_at_take build_response_def of_be_to_be)
  have all: "list_all (\<lambda>n. bit (response_flags rd n a) 15 \<and> (bit (response_flags rd n a) 10 = a) \<and>
      (bit (response_flags rd n a) 8 = rd) \<and> take_bit 4 (response_flags rd n a) = of_nat n) [0..<16]" for rd a
    by (cases rd; cases a; simp only:) code_simp+
  have "n < 16 \<Longrightarrow> bit (response_flags rd n a) 15 \<and> (bit (response_flags rd n a) 10 = a) \<and>
      (bit (response_flags rd n a) 8 = rd) \<and> take_bit 4 (response_flags rd n a) = of_nat n" for rd n a
    using all [of rd a] by (simp add: list_all_iff)
  from this [OF assms(2), of "dq_recursion_desired q" "answers \<noteq> []"] f show ?thesis
    by (simp add: Let_def) (simp add: build_response_def)
qed

text \<open>The two-byte frame of DNS over TLS carries the length of its packet, for every packet that fits
  into a frame.\<close>

theorem dot_frame_round_trip:
  assumes "length packet < 65536"
  shows "parse_dot_length (encode_dot_frame packet) = Some (length packet) \<and>
         drop 2 (encode_dot_frame packet) = packet"
  using assms by (simp add: parse_dot_length_def encode_dot_frame_def u16_at_take of_be_to_be)

section \<open>Witnesses\<close>

theorem parse_encode_query_witness:
  "parse_query (encode_query 4660 True ''WWW.example.com'' type_a class_in) =
    Some (Inr \<lparr>dq_id = 4660, dq_recursion_desired = True,
               dq_question = \<lparr>qu_name = ''www.example.com'', qu_qtype = type_a, qu_qclass = class_in\<rparr>,
               dq_question_bytes = encode_name ''WWW.example.com'' @ to_be 2 type_a @ to_be 2 class_in\<rparr>)"
proof -
  have "valid_name ''WWW.example.com''" "to_ascii_lowercase ''WWW.example.com'' = ''www.example.com''"
    by code_simp+
  with parse_encode_query [of "''WWW.example.com''" 4660 type_a class_in True] show ?thesis
    by (simp add: type_a_def class_in_def)
qed

definition demo_query :: dns_query where
  "demo_query =
     \<lparr>dq_id = 7, dq_recursion_desired = True,
      dq_question = \<lparr>qu_name = ''a'', qu_qtype = 1, qu_qclass = 1\<rparr>, dq_question_bytes = [1, 97, 0, 0, 1, 0, 1]\<rparr>"

theorem build_response_header_witness:
  "u16_at (build_response demo_query rcode_nxdomain []) 0 = 7"
  using build_response_header [of demo_query rcode_nxdomain "[]"]
  by (simp add: Let_def demo_query_def rcode_nxdomain_def)

theorem dot_frame_round_trip_witness:
  "parse_dot_length (encode_dot_frame [1, 2, 3]) = Some 3"
  using dot_frame_round_trip [of "[1, 2, 3]"] by simp

end
