(* ===== verification/Dns_Sinkhole.thy ===== *)
theory Dns_Sinkhole
  imports Dns
begin

text \<open>
  Block lists and query processing of the DNS sinkhole (\<^verbatim>\<open>dns-sinkhole/src/zone.rs\<close>, \<^verbatim>\<open>server.rs\<close>,
  \<^verbatim>\<open>config.rs\<close>). \<open>upstream\<close> is the answer of the upstream resolver to a packet, an error when sending,
  receiving or waiting failed.
\<close>

section \<open>Definitions\<close>

subsection \<open>Zones\<close>

datatype zone_action = Policy | Za u32 | Zaaaa "128 word"

record zone =
  zn_exact :: "(string, zone_action) hash_map"
  zn_suffixes :: "(string \<times> zone_action) list"

definition zone_default :: zone where
  "zone_default = \<lparr>zn_exact = [], zn_suffixes = []\<rparr>"

fun strip_comment_loop :: "bool \<Rightarrow> string \<Rightarrow> string" where
  "strip_comment_loop in_quote [] = []"
| "strip_comment_loop in_quote (ch # cs) =
     (let in_quote = (if ch = CHR 0x22 then \<not> in_quote else in_quote) in
      if \<not> in_quote \<and> (ch = CHR '';'' \<or> ch = CHR ''#'') then []
      else ch # strip_comment_loop in_quote cs)"

definition strip_comment :: "string \<Rightarrow> string" where
  "strip_comment line = strip_comment_loop False line"

definition normalize_name :: "string \<Rightarrow> string" where
  "normalize_name name = to_ascii_lowercase (trim_end_matches CHR ''.'' (trim name))"

text \<open>The optional time to live and the optional class before the record type.\<close>

definition skip_ttl_class :: "string list \<Rightarrow> string list" where
  "skip_ttl_class ps =
     (let ps = (case ps of p # r \<Rightarrow> if list_all is_ascii_digit p then r else ps | [] \<Rightarrow> [])
      in case ps of p # r \<Rightarrow> if eq_ignore_ascii_case p ''IN'' then r else ps | [] \<Rightarrow> [])"

definition rr_action :: "string \<Rightarrow> string \<Rightarrow> string + zone_action" where
  "rr_action rtype rdata =
     (if rtype = ''CNAME'' then Inr Policy
      else if rtype = ''A'' then
        (case parse_ipv4 rdata of None \<Rightarrow> Inl ''A rdata'' | Some ip \<Rightarrow> Inr (Za ip))
      else if rtype = ''AAAA'' then
        (case parse_ipv6 rdata of None \<Rightarrow> Inl ''AAAA rdata'' | Some ip \<Rightarrow> Inr (Zaaaa ip))
      else Inl (''unsupported RR type '' @ rtype))"

definition parse_line :: "zone \<Rightarrow> string \<Rightarrow> string + zone" where
  "parse_line z line =
     (case split_whitespace line of
        [] \<Rightarrow> Inr z
      | [tok] \<Rightarrow>
          (case strip_prefix tok ''.'' of
             Some suf \<Rightarrow> Inr (z\<lparr>zn_suffixes := zn_suffixes z @ [(normalize_name suf, Policy)]\<rparr>)
           | None \<Rightarrow> Inr (z\<lparr>zn_exact := AList.update (normalize_name tok) Policy (zn_exact z)\<rparr>))
      | name_raw # rest \<Rightarrow>
          (case skip_ttl_class rest of
             [] \<Rightarrow> Inl ''missing RR type''
           | rtype # rdata \<Rightarrow>
               (case rr_action (to_ascii_uppercase rtype) (join '' '' rdata) of
                  Inl e \<Rightarrow> Inl e
                | Inr action \<Rightarrow>
                    (case strip_prefix name_raw ''*.'' of
                       Some s \<Rightarrow>
                         Inr (z\<lparr>zn_suffixes := zn_suffixes z @ [(normalize_name s, action)]\<rparr>)
                     | None \<Rightarrow>
                         Inr (z\<lparr>zn_exact := AList.update (normalize_name name_raw) action (zn_exact z)\<rparr>)))))"

fun parse_zone_lines :: "nat \<Rightarrow> string list \<Rightarrow> zone \<Rightarrow> string + zone" where
  "parse_zone_lines lineno [] z = Inr z"
| "parse_zone_lines lineno (raw # ls) z =
     (let line = trim (strip_comment raw) in
      if line = [] \<or> starts_with line ''$'' then parse_zone_lines (lineno + 1) ls z
      else
        (case parse_line z line of
           Inl e \<Rightarrow> Inl (''zone line '' @ show_nat (lineno + 1) @ '': '' @ e)
         | Inr z' \<Rightarrow> parse_zone_lines (lineno + 1) ls z'))"

definition zone_parse :: "string \<Rightarrow> string + zone" where
  "zone_parse txt = parse_zone_lines 0 (lines txt) zone_default"

definition zone_lookup :: "zone \<Rightarrow> string \<Rightarrow> zone_action option" where
  "zone_lookup z qname =
     (let name = normalize_name qname in
      case map_of (zn_exact z) name of
        Some a \<Rightarrow> Some a
      | None \<Rightarrow>
          map_option snd
            (find (\<lambda>(suf, _). name = suf \<or> ends_with name (''.'' @ suf)) (zn_suffixes z)))"

definition zone_len :: "zone \<Rightarrow> nat" where
  "zone_len z = length (zn_exact z) + length (zn_suffixes z)"

subsection \<open>Answers\<close>

datatype block_action = Sinkhole | NxDomain

record sinkhole_config =
  sc_action :: block_action
  sc_sinkhole_a :: u32
  sc_sinkhole_aaaa :: "128 word"
  sc_ttl :: nat

definition answer_a :: "sinkhole_config \<Rightarrow> dns_query \<Rightarrow> u32 \<Rightarrow> bytes" where
  "answer_a cfg query ip =
     build_response query 0 [\<lparr>da_rtype = type_a, da_ttl = sc_ttl cfg, da_rdata = a_rdata ip\<rparr>]"

definition answer_aaaa :: "sinkhole_config \<Rightarrow> dns_query \<Rightarrow> 128 word \<Rightarrow> bytes" where
  "answer_aaaa cfg query ip =
     build_response query 0 [\<lparr>da_rtype = type_aaaa, da_ttl = sc_ttl cfg, da_rdata = aaaa_rdata ip\<rparr>]"

definition build_block_response :: "sinkhole_config \<Rightarrow> dns_query \<Rightarrow> zone_action \<Rightarrow> bytes" where
  "build_block_response cfg query action =
     (let qtype = qu_qtype (dq_question query) in
      case action of
        Za ip \<Rightarrow>
          (if qtype = type_a \<or> qtype = 255 then answer_a cfg query ip else build_response query 0 [])
      | Zaaaa ip \<Rightarrow>
          (if qtype = type_aaaa \<or> qtype = 255 then answer_aaaa cfg query ip else build_response query 0 [])
      | Policy \<Rightarrow>
          (case sc_action cfg of
             NxDomain \<Rightarrow> build_response query rcode_nxdomain []
           | Sinkhole \<Rightarrow>
               (if qtype = type_a then answer_a cfg query (sc_sinkhole_a cfg)
                else if qtype = type_aaaa then answer_aaaa cfg query (sc_sinkhole_aaaa cfg)
                else build_response query rcode_nxdomain [])))"

text \<open>
  A query either is answered here or goes upstream. \<^const>\<open>None\<close> would be a panic of the parser.
\<close>

definition process_dns_query ::
  "(bytes \<Rightarrow> string + bytes) \<Rightarrow> sinkhole_config \<Rightarrow> zone \<Rightarrow> bytes \<Rightarrow> (string + bytes) option" where
  "process_dns_query upstream cfg z packet =
     (case parse_query packet of
        None \<Rightarrow> None
      | Some (Inl e) \<Rightarrow>
          Some (Inr (formerr (if length packet \<ge> 2 then u16_at packet 0 else 0)))
      | Some (Inr query) \<Rightarrow>
          (if qu_qclass (dq_question query) \<noteq> class_in then Some (Inr (build_response query 0 []))
           else
             (case zone_lookup z (qu_name (dq_question query)) of
                Some action \<Rightarrow> Some (Inr (build_block_response cfg query action))
              | None \<Rightarrow> Some (upstream packet))))"

subsection \<open>DNS over HTTPS\<close>

record doh_request =
  dr_path :: string
  dr_method :: string
  dr_query :: "string option"
  dr_content_type :: "string option"
  dr_body :: "bytes option"

text \<open>Status and body of the answer; a body of the text answers is its text.\<close>

definition doh_packet :: "(string \<Rightarrow> bytes option) \<Rightarrow> doh_request \<Rightarrow> (nat \<times> bytes) + bytes" where
  "doh_packet base64url req =
     (if dr_method req = ''GET'' then
        (case find (\<lambda>pair. starts_with pair ''dns='')
                (split_char CHR ''&'' (case dr_query req of None \<Rightarrow> [] | Some q \<Rightarrow> q)) of
           Some pair \<Rightarrow>
             (case decode_doh_base64url base64url (drop 4 pair) of
                Inr p \<Rightarrow> Inr p
              | Inl _ \<Rightarrow> Inl (400, char_bytes ''Invalid dns param''))
         | None \<Rightarrow> Inl (400, char_bytes ''Missing dns param''))
      else if dr_method req = ''POST'' then
        (if dr_content_type req \<noteq> Some ''application/dns-message''
         then Inl (415, char_bytes ''Unsupported media type'')
         else (case dr_body req of
                 Some b \<Rightarrow> Inr b
               | None \<Rightarrow> Inl (400, char_bytes ''Body error'')))
      else Inl (405, char_bytes ''Method not allowed''))"

definition doh_handle ::
  "(string \<Rightarrow> bytes option) \<Rightarrow> string \<Rightarrow> (bytes \<Rightarrow> string + bytes) \<Rightarrow> sinkhole_config \<Rightarrow> zone \<Rightarrow>
   doh_request \<Rightarrow> (nat \<times> bytes) option" where
  "doh_handle base64url doh_path upstream cfg z req =
     (if dr_path req \<noteq> doh_path then Some (404, char_bytes ''Not Found'')
      else
        (case doh_packet base64url req of
           Inl r \<Rightarrow> Some r
         | Inr packet \<Rightarrow>
             map_option
               (\<lambda>r. case r of Inr resp \<Rightarrow> (200, resp) | Inl _ \<Rightarrow> (500, char_bytes ''Server error''))
               (process_dns_query upstream cfg z packet)))"

subsection \<open>Specification\<close>

text \<open>A name at or below a domain, at a label boundary.\<close>

definition at_or_below :: "string \<Rightarrow> string \<Rightarrow> bool" where
  "at_or_below name d \<longleftrightarrow> name = d \<or> (\<exists>p. name = p @ ''.'' @ d)"

definition zone_blocks :: "zone \<Rightarrow> string \<Rightarrow> bool" where
  "zone_blocks z qname \<longleftrightarrow>
     normalize_name qname \<in> fst ` set (zn_exact z) \<or>
     (\<exists>(suf, a) \<in> set (zn_suffixes z). at_or_below (normalize_name qname) suf)"

section \<open>Lemmas\<close>

lemma suffix_at_or_below: "name = suf \<or> ends_with name (''.'' @ suf) \<longleftrightarrow> at_or_below name suf"
  by (auto simp: at_or_below_def ends_with_def suffix_def)

lemma zone_lookup_eq:
  "zone_lookup z q =
     (case map_of (zn_exact z) (normalize_name q) of
        Some a \<Rightarrow> Some a
      | None \<Rightarrow> map_option snd (find (\<lambda>(suf, _). at_or_below (normalize_name q) suf) (zn_suffixes z)))"
  unfolding zone_lookup_def Let_def suffix_at_or_below ..

lemma zone_lookup_None_iff: "zone_lookup z q = None \<longleftrightarrow> \<not> zone_blocks z q"
proof (cases "map_of (zn_exact z) (normalize_name q)")
  case None
  then have "normalize_name q \<notin> fst ` set (zn_exact z)" by (simp add: map_of_eq_None_iff)
  with None show ?thesis by (auto simp: zone_lookup_eq zone_blocks_def find_None_iff)
next
  case (Some a)
  then have "normalize_name q \<in> fst ` set (zn_exact z)" by (metis map_of_eq_None_iff option.distinct(1))
  with Some show ?thesis by (simp add: zone_lookup_eq zone_blocks_def)
qed

lemma parse_query_not_None: "parse_query buf \<noteq> None"
proof (cases "read_name buf 12")
  case (Inr p)
  then show ?thesis
    using read_name_end [of buf 12] by (cases p) (auto simp: parse_query_def slice_def Let_def)
qed (simp add: parse_query_def Let_def)

lemma formerr_fields: "i < 65536 \<Longrightarrow> u16_at (formerr i) 0 = i \<and> length (formerr i) = 12 \<and> formerr i ! 3 = 1"
  by (simp add: formerr_def u16_at_take of_be_to_be nth_append rcode_formerr_def)

lemma lower_dot: "ascii_lower CHR ''.'' = CHR ''.''"
  by code_simp

lemma ascii_lower_dot_iff: "ascii_lower c = CHR ''.'' \<longleftrightarrow> c = CHR ''.''"
proof
  assume "ascii_lower c = CHR ''.''"
  then have "(of_char (ascii_lower c) :: nat) = 46" by simp
  then have "(of_char c :: nat) = of_char CHR ''.''"
    by (simp add: of_char_ascii_lower split: if_splits)
  then show "c = CHR ''.''" by (simp only: of_char_eq_iff)
qed (simp add: lower_dot)

lemma trim_end_matches_lower:
  "trim_end_matches CHR ''.'' (to_ascii_lowercase s) = to_ascii_lowercase (trim_end_matches CHR ''.'' s)"
proof -
  have "dropWhile (\<lambda>x. x = CHR ''.'') (map ascii_lower r) = map ascii_lower (dropWhile (\<lambda>x. x = CHR ''.'') r)" for r
    by (induction r) (auto simp: ascii_lower_dot_iff)
  then show ?thesis by (simp add: trim_end_matches_def to_ascii_lowercase_def rev_map)
qed

lemma trim_end_matches_snoc: "trim_end_matches c (s @ [c]) = trim_end_matches c s"
  by (simp add: trim_end_matches_def)

section \<open>Properties\<close>

text \<open>Suffix rules respect label boundaries: a name is blocked exactly when it is listed itself or lies
  at or below a listed domain, so a rule for example.com never blocks notexample.com. An exact
  rule takes precedence, and among suffix rules the first that fits decides.\<close>

theorem zone_lookup_label_aligned:
  "zone_lookup z q =
     (case map_of (zn_exact z) (normalize_name q) of
        Some a \<Rightarrow> Some a
      | None \<Rightarrow> map_option snd (find (\<lambda>(suf, _). at_or_below (normalize_name q) suf) (zn_suffixes z))) \<and>
   (zone_lookup z q = None \<longleftrightarrow> \<not> zone_blocks z q)"
  using zone_lookup_eq zone_lookup_None_iff by blast

text \<open>Names are compared without regard to ASCII case and to one trailing dot, where they carry no
  white space.\<close>

theorem zone_lookup_case_and_dot:
  assumes "set q \<inter> set (concat white_space) = {}" "set (to_ascii_lowercase q) \<inter> set (concat white_space) = {}"
  shows "zone_lookup z (to_ascii_lowercase q) = zone_lookup z q \<and> zone_lookup z (q @ ''.'') = zone_lookup z q"
proof -
  have dot: "CHR ''.'' \<notin> set (concat white_space)" by code_simp
  have "set (q @ ''.'') \<inter> set (concat white_space) = {}"
    using assms(1) dot by (simp del: set_concat)
  then have "trim q = q" "trim (to_ascii_lowercase q) = to_ascii_lowercase q" "trim (q @ ''.'') = q @ ''.''"
    using assms by (simp_all only: trim_id)
  then have "normalize_name (to_ascii_lowercase q) = normalize_name q"
    "normalize_name (q @ ''.'') = normalize_name q"
    by (simp_all add: normalize_name_def trim_end_matches_lower trim_end_matches_snoc)
  then show ?thesis by (simp add: zone_lookup_def)
qed


text \<open>Every packet is handled: the processing never panics, a packet that does not parse is answered
  with a format error that repeats its first two bytes, and so the answer to a packet depends on
  the upstream only when the packet is forwarded.\<close>

theorem process_dns_query_total:
  "(case parse_query packet of
      Some (Inl e) \<Rightarrow>
        (case process_dns_query upstream cfg z packet of
           Some (Inr r) \<Rightarrow>
             length r = 12 \<and> r ! 3 = 1 \<and> u16_at r 0 = (if 2 \<le> length packet then u16_at packet 0 else 0)
         | _ \<Rightarrow> False)
    | Some (Inr q) \<Rightarrow> process_dns_query upstream cfg z packet \<noteq> None
    | None \<Rightarrow> False)"
proof -
  have "u16_at packet 0 < 65536"
    using of_be_less [of "[packet ! 0, packet ! 1]"] by (simp add: u16_at_def)
  with formerr_fields parse_query_not_None [of packet] show ?thesis
    by (auto simp: process_dns_query_def split: option.splits sum.splits if_splits)
qed

text \<open>The block response is the configured one: with an explicit address the address for a matching or
  ANY query and an empty answer otherwise; by policy NXDOMAIN, or the sinkhole address of the
  query's type and NXDOMAIN for other types.\<close>

theorem build_block_response_cases:
  "build_block_response cfg query action =
    (case (action, sc_action cfg) of
       (Policy, NxDomain) \<Rightarrow> build_response query 3 []
     | (Policy, Sinkhole) \<Rightarrow>
         if qu_qtype (dq_question query) = 1 then answer_a cfg query (sc_sinkhole_a cfg)
         else if qu_qtype (dq_question query) = 28 then answer_aaaa cfg query (sc_sinkhole_aaaa cfg)
         else build_response query 3 []
     | (Za ip, _) \<Rightarrow>
         if qu_qtype (dq_question query) \<in> {1, 255} then answer_a cfg query ip else build_response query 0 []
     | (Zaaaa ip, _) \<Rightarrow>
         if qu_qtype (dq_question query) \<in> {28, 255} then answer_aaaa cfg query ip else build_response query 0 [])"
  by (simp add: build_block_response_def type_a_def type_aaaa_def rcode_nxdomain_def Let_def
      split: zone_action.splits block_action.splits)

section \<open>Witnesses\<close>

definition demo_zone :: zone where
  "demo_zone = (case zone_parse (''; list'' @ [CHR 0x0A] @ ''*.ads.example CNAME .'' @ [CHR 0x0A] @ ''bad.test.'') of
                  Inr z \<Rightarrow> z | Inl _ \<Rightarrow> zone_default)"

definition demo_cfg :: sinkhole_config where
  "demo_cfg = \<lparr>sc_action = NxDomain, sc_sinkhole_a = 0, sc_sinkhole_aaaa = 0, sc_ttl = 300\<rparr>"

lemma demo_zone_rules: "demo_zone = \<lparr>zn_exact = [(''bad.test'', Policy)], zn_suffixes = [(''ads.example'', Policy)]\<rparr>"
  by code_simp

theorem zone_lookup_case_and_dot_witness:
  "zone_lookup demo_zone (''BAD.test'' @ ''.'') = zone_lookup demo_zone ''BAD.test'' \<and>
   zone_lookup demo_zone ''BAD.test'' = Some Policy"
proof -
  have "zone_lookup demo_zone ''BAD.test'' = Some Policy" by code_simp
  moreover have "set ''BAD.test'' \<inter> set (concat white_space) = {}"
    "set (to_ascii_lowercase ''BAD.test'') \<inter> set (concat white_space) = {}" by code_simp+
  ultimately show ?thesis using zone_lookup_case_and_dot [of "''BAD.test''" demo_zone] by blast
qed


end
