(* ===== verification/Peers.thy ===== *)
theory Peers
  imports Prelude
begin

text \<open>
  Cache peers and their registry (\<^verbatim>\<open>proxy/src/peers.rs\<close>). Counters are unbounded, weights and rates
  are real numbers; \<open>parse_f64\<close> reads a decimal number. The registry's shared peers are updated in
  place, by identifier.
\<close>

section \<open>Definitions\<close>

datatype peer_type = Parent | Sibling

fun peer_type_display :: "peer_type \<Rightarrow> string" where
  "peer_type_display Parent = ''parent''"
| "peer_type_display Sibling = ''sibling''"

record peer_stats =
  pst_requests :: nat
  pst_hits :: nat
  pst_misses :: nat
  pst_errors :: nat
  pst_bytes_received :: nat
  pst_last_success :: "time option"
  pst_last_failure :: "time option"

definition stats_new :: peer_stats where
  "stats_new =
     \<lparr>pst_requests = 0, pst_hits = 0, pst_misses = 0, pst_errors = 0, pst_bytes_received = 0,
      pst_last_success = None, pst_last_failure = None\<rparr>"

definition record_request :: "peer_stats \<Rightarrow> peer_stats" where
  "record_request s = s\<lparr>pst_requests := pst_requests s + 1\<rparr>"

definition record_hit :: "time \<Rightarrow> nat \<Rightarrow> peer_stats \<Rightarrow> peer_stats" where
  "record_hit now n s =
     s\<lparr>pst_hits := pst_hits s + 1, pst_bytes_received := pst_bytes_received s + n,
       pst_last_success := Some now\<rparr>"

definition record_miss :: "time \<Rightarrow> peer_stats \<Rightarrow> peer_stats" where
  "record_miss now s = s\<lparr>pst_misses := pst_misses s + 1, pst_last_success := Some now\<rparr>"

definition record_error :: "time \<Rightarrow> peer_stats \<Rightarrow> peer_stats" where
  "record_error now s = s\<lparr>pst_errors := pst_errors s + 1, pst_last_failure := Some now\<rparr>"

definition hit_rate :: "peer_stats \<Rightarrow> real" where
  "hit_rate s =
     (let total = pst_hits s + pst_misses s in
      if total = 0 then 0 else real (pst_hits s) / real total)"

definition error_rate :: "peer_stats \<Rightarrow> real" where
  "error_rate s =
     (if pst_requests s = 0 then 0 else real (pst_errors s) / real (pst_requests s))"

record peer_config =
  pf_host :: string
  pf_port :: nat
  pf_peer_type :: peer_type
  pf_weight :: real
  pf_icp_port :: "nat option"
  pf_max_connections :: nat

definition parse_from_string ::
  "(string \<Rightarrow> real option) \<Rightarrow> string \<Rightarrow> peer_type \<Rightarrow> string + peer_config" where
  "parse_from_string parse_f64 s pt =
     (let parts = split_char CHR '':'' s in
      if length parts < 2 then Inl ''Invalid peer format. Expected host:port[:weight][:icp_port]''
      else
        (case parse_uint u16_max (parts ! 1) of
           None \<Rightarrow> Inl ''Invalid port''
         | Some port \<Rightarrow>
             (case (if length parts > 2 \<and> parts ! 2 \<noteq> [] then parse_f64 (parts ! 2) else Some 1) of
                None \<Rightarrow> Inl ''Invalid weight''
              | Some weight \<Rightarrow>
                  (case (if length parts > 3 \<and> parts ! 3 \<noteq> []
                         then map_option Some (parse_uint u16_max (parts ! 3)) else Some None) of
                     None \<Rightarrow> Inl ''Invalid ICP port''
                   | Some icp_port \<Rightarrow>
                       Inr \<lparr>pf_host = parts ! 0, pf_port = port, pf_peer_type = pt,
                            pf_weight = weight, pf_icp_port = icp_port, pf_max_connections = 100\<rparr>))))"

record cache_peer =
  cp_id :: string
  cp_config :: peer_config
  cp_healthy :: bool
  cp_rtt_ms :: nat
  cp_stats :: peer_stats

definition peer_id :: "peer_config \<Rightarrow> string" where
  "peer_id c = peer_type_display (pf_peer_type c) @ '':'' @ pf_host c @ '':'' @ show_nat (pf_port c)"

definition peer_new :: "peer_config \<Rightarrow> cache_peer" where
  "peer_new config =
     \<lparr>cp_id = peer_id config, cp_config = config, cp_healthy = True, cp_rtt_ms = 0, cp_stats = stats_new\<rparr>"

definition set_healthy :: "bool \<Rightarrow> cache_peer \<Rightarrow> cache_peer" where
  "set_healthy h p = p\<lparr>cp_healthy := h\<rparr>"

definition update_rtt :: "duration \<Rightarrow> cache_peer \<Rightarrow> cache_peer" where
  "update_rtt rtt p = p\<lparr>cp_rtt_ms := as_millis rtt\<rparr>"

definition score :: "cache_peer \<Rightarrow> real" where
  "score p =
     (if \<not> cp_healthy p then 0
      else pf_weight (cp_config p) * (1 - error_rate (cp_stats p)) *
           (1 / (1 + real (cp_rtt_ms p) / 100)))"

definition peer_address :: "cache_peer \<Rightarrow> string" where
  "peer_address p = pf_host (cp_config p) @ '':'' @ show_nat (pf_port (cp_config p))"

subsection \<open>Registry\<close>

record replace_static_stats =
  rss_added :: nat
  rss_removed :: nat
  rss_preserved_discovery :: nat

record peer_registry =
  pr_peers :: "(string, cache_peer) hash_map"
  pr_static_ids :: "string list"

definition registry_empty :: peer_registry where
  "registry_empty = \<lparr>pr_peers = [], pr_static_ids = []\<rparr>"

definition add_peer :: "peer_config \<Rightarrow> peer_registry \<Rightarrow> peer_registry" where
  "add_peer config r =
     (let peer = peer_new config in
      r\<lparr>pr_peers := AList.update (cp_id peer) peer (pr_peers r),
        pr_static_ids := List.insert (cp_id peer) (pr_static_ids r)\<rparr>)"

text \<open>\<^const>\<open>None\<close> is the failed assertion on the peer type.\<close>

definition upsert_sibling :: "peer_config \<Rightarrow> peer_registry \<Rightarrow> (cache_peer \<times> peer_registry) option" where
  "upsert_sibling config r =
     (if pf_peer_type config \<noteq> Sibling then None
      else
        (let peer = peer_new config in
         case map_of (pr_peers r) (cp_id peer) of
           Some old \<Rightarrow> Some (old, r)
         | None \<Rightarrow> Some (peer, r\<lparr>pr_peers := AList.update (cp_id peer) peer (pr_peers r)\<rparr>)))"

definition remove_peer :: "string \<Rightarrow> peer_registry \<Rightarrow> bool \<times> peer_registry" where
  "remove_peer i r =
     (hm_has (pr_peers r) i,
      r\<lparr>pr_static_ids := removeAll i (pr_static_ids r), pr_peers := AList.delete i (pr_peers r)\<rparr>)"

definition is_static :: "string \<Rightarrow> peer_registry \<Rightarrow> bool" where
  "is_static i r \<longleftrightarrow> List.member (pr_static_ids r) i"

definition replace_static_peers ::
  "peer_config list \<Rightarrow> peer_registry \<Rightarrow> replace_static_stats \<times> peer_registry" where
  "replace_static_peers configs r =
     (let preserved = length (pr_peers r) - length (pr_static_ids r);
          removed = length (pr_static_ids r);
          r' = r\<lparr>pr_peers := fold AList.delete (pr_static_ids r) (pr_peers r), pr_static_ids := []\<rparr>
      in (\<lparr>rss_added = length configs, rss_removed = removed, rss_preserved_discovery = preserved\<rparr>,
          fold add_peer configs r'))"

definition get_peer :: "string \<Rightarrow> peer_registry \<Rightarrow> cache_peer option" where
  "get_peer i r = map_of (pr_peers r) i"

definition all_peers :: "peer_registry \<Rightarrow> cache_peer list" where
  "all_peers r = map snd (pr_peers r)"

definition healthy_peers :: "peer_registry \<Rightarrow> cache_peer list" where
  "healthy_peers r = filter cp_healthy (all_peers r)"

definition peers_by_type :: "peer_type \<Rightarrow> peer_registry \<Rightarrow> cache_peer list" where
  "peers_by_type pt r = filter (\<lambda>p. pf_peer_type (cp_config p) = pt) (all_peers r)"

definition healthy_peers_by_type :: "peer_type \<Rightarrow> peer_registry \<Rightarrow> cache_peer list" where
  "healthy_peers_by_type pt r = filter (\<lambda>p. pf_peer_type (cp_config p) = pt) (healthy_peers r)"

definition parent_caches :: "peer_registry \<Rightarrow> cache_peer list" where
  "parent_caches r = healthy_peers_by_type Parent r"

definition sibling_caches :: "peer_registry \<Rightarrow> cache_peer list" where
  "sibling_caches r = healthy_peers_by_type Sibling r"

definition check_peer_health :: "cache_peer \<Rightarrow> cache_peer" where
  "check_peer_health p =
     (if error_rate (cp_stats p) > 1 / 2 then set_healthy False p
      else if error_rate (cp_stats p) < 1 / 10 \<and> \<not> cp_healthy p then set_healthy True p
      else p)"

definition health_check :: "peer_registry \<Rightarrow> peer_registry" where
  "health_check r = r\<lparr>pr_peers := map (\<lambda>(i, p). (i, check_peer_health p)) (pr_peers r)\<rparr>"

text \<open>Updating one shared peer.\<close>

definition modify_peer :: "string \<Rightarrow> (cache_peer \<Rightarrow> cache_peer) \<Rightarrow> peer_registry \<Rightarrow> peer_registry" where
  "modify_peer i f r = r\<lparr>pr_peers := AList.map_entry i f (pr_peers r)\<rparr>"

subsection \<open>Specification\<close>

definition registry_inv :: "peer_registry \<Rightarrow> bool" where
  "registry_inv r \<longleftrightarrow>
     hm_inv (pr_peers r) \<and> distinct (pr_static_ids r) \<and>
     (\<forall>i p. map_of (pr_peers r) i = Some p \<longrightarrow> cp_id p = i) \<and>
     set (pr_static_ids r) \<subseteq> fst ` set (pr_peers r)"

definition discovered :: "peer_registry \<Rightarrow> string set" where
  "discovered r = fst ` set (pr_peers r) - set (pr_static_ids r)"

section \<open>Lemmas\<close>

lemma peer_new_id [simp]: "cp_id (peer_new c) = peer_id c"
  by (simp add: peer_new_def)

lemma keys_update: "fst ` set (AList.update k v m) = insert k (fst ` set m)"
  by (simp add: AList.dom_update)

lemma keys_delete: "fst ` set (AList.delete k m) = fst ` set m - {k}"
  by (auto simp: hm_set_delete)

lemma add_peer_inv: "registry_inv r \<Longrightarrow> registry_inv (add_peer c r)"
  by (auto simp: registry_inv_def add_peer_def Let_def keys_update)

lemma upsert_inv: "registry_inv r \<Longrightarrow> upsert_sibling c r = Some (p, r') \<Longrightarrow> registry_inv r'"
  by (auto simp: registry_inv_def upsert_sibling_def Let_def keys_update split: if_splits option.splits)

lemma remove_peer_inv: "registry_inv r \<Longrightarrow> registry_inv (snd (remove_peer i r))"
  by (auto simp: registry_inv_def remove_peer_def keys_delete distinct_removeAll)

lemma fold_delete_get:
  "map_of (fold AList.delete is m) k = (if k \<in> set is then None else map_of m k)"
  by (induction "is" arbitrary: m) auto

lemma fold_delete_inv: "hm_inv m \<Longrightarrow> hm_inv (fold AList.delete is m)"
  by (induction "is" arbitrary: m) auto

lemma add_peers_inv: "registry_inv r \<Longrightarrow> registry_inv (fold add_peer cs r)"
  by (induction cs arbitrary: r) (auto intro: add_peer_inv)

lemma replace_static_inv: "registry_inv r \<Longrightarrow> registry_inv (snd (replace_static_peers cs r))"
  unfolding replace_static_peers_def Let_def snd_conv
  by (rule add_peers_inv) (auto simp: registry_inv_def fold_delete_get fold_delete_inv split: if_splits)

lemma add_peers_get:
  "map_of (pr_peers (fold add_peer cs r)) i =
     (case find (\<lambda>c. peer_id c = i) (rev cs) of
        Some c \<Rightarrow> Some (peer_new c) | None \<Rightarrow> map_of (pr_peers r) i)"
proof (induction cs rule: rev_induct)
  case (snoc c cs)
  then show ?case by (simp add: add_peer_def Let_def)
qed simp

lemma add_peers_static: "set (pr_static_ids (fold add_peer cs r)) = set (pr_static_ids r) \<union> peer_id ` set cs"
  by (induction cs arbitrary: r) (auto simp: add_peer_def Let_def)

lemma keys_get: "i \<in> fst ` set m \<longleftrightarrow> map_of m i \<noteq> None"
  by (simp add: map_of_eq_None_iff)

lemma health_check_get: "map_of (pr_peers (health_check r)) i = map_option check_peer_health (map_of (pr_peers r) i)"
  by (simp add: health_check_def map_of_map)

lemma modify_peer_get:
  "map_of (pr_peers (modify_peer i f r)) k =
     (if k = i then map_option f (map_of (pr_peers r) k) else map_of (pr_peers r) k)"
  by (simp add: modify_peer_def AList.map_of_map_entry split: option.splits)

section \<open>Properties\<close>

text \<open>The registry stays consistent under every operation: one peer per identifier, filed under its
  own identifier, and every static identifier names a registered peer.\<close>

theorem registry_operations_inv:
  assumes "registry_inv r"
  shows "registry_inv (add_peer c r) \<and> registry_inv (snd (remove_peer i r)) \<and>
         registry_inv (snd (replace_static_peers cs r)) \<and>
         (\<forall>p r'. upsert_sibling c r = Some (p, r') \<longrightarrow> registry_inv r')"
  using assms add_peer_inv remove_peer_inv replace_static_inv upsert_inv by blast

text \<open>Replacing the static peers installs exactly the new ones, the last of those with one
  identifier, drops the old ones, and leaves discovered siblings as they are unless a new static
  peer has their identifier. The reported numbers are right.\<close>

theorem replace_static_preserves_discovery:
  assumes "registry_inv r"
  shows "get_peer i (snd (replace_static_peers cs r)) =
      (case find (\<lambda>c. peer_id c = i) (rev cs) of
         Some c \<Rightarrow> Some (peer_new c)
       | None \<Rightarrow> if i \<in> discovered r then get_peer i r else None) \<and>
    is_static i (snd (replace_static_peers cs r)) = (i \<in> peer_id ` set cs) \<and>
    rss_preserved_discovery (fst (replace_static_peers cs r)) = card (discovered r) \<and>
    rss_removed (fst (replace_static_peers cs r)) = card (set (pr_static_ids r))"
proof -
  let ?keys = "fst ` set (pr_peers r)"
  have "length (pr_peers r) = card ?keys" "length (pr_static_ids r) = card (set (pr_static_ids r))"
    using assms by (simp_all add: registry_inv_def hm_inv_def distinct_card flip: set_map length_map)
  moreover have "card (discovered r) = card ?keys - card (set (pr_static_ids r))"
    using assms by (simp add: discovered_def registry_inv_def card_Diff_subset)
  moreover have "map_of (fold AList.delete (pr_static_ids r) (pr_peers r)) i =
      (if i \<in> discovered r then map_of (pr_peers r) i else None)"
    using keys_get [of i "pr_peers r"] by (auto simp: fold_delete_get discovered_def)
  ultimately show ?thesis
    by (simp add: replace_static_peers_def Let_def get_peer_def add_peers_get is_static_def
        add_peers_static split: option.splits)
qed

text \<open>Passive health checking has hysteresis: a check makes a peer with an error rate above one half
  unhealthy, an unhealthy one with a rate below one tenth healthy again, and leaves every other
  peer as it was. It changes nothing but the health flag.\<close>

theorem health_check_hysteresis:
  "get_peer i (health_check r) =
     map_option (\<lambda>p. p\<lparr>cp_healthy :=
       (if error_rate (cp_stats p) > 1 / 2 then False
        else if error_rate (cp_stats p) < 1 / 10 then True
        else cp_healthy p)\<rparr>) (get_peer i r)"
  by (auto simp: get_peer_def health_check_get check_peer_health_def set_healthy_def intro!: option.map_cong0)

text \<open>Announcing a known sibling again does not update it: a sibling whose identifier is registered
  keeps its old weight and ICP port, whatever the new configuration says.\<close>

theorem upsert_sibling_keeps_old:
  assumes "pf_peer_type c = Sibling" "get_peer (peer_id c) r = Some old"
  shows "upsert_sibling c r = Some (old, r)"
  using assms by (simp add: upsert_sibling_def get_peer_def)

section \<open>Witnesses\<close>

definition demo_peer :: "string \<Rightarrow> peer_type \<Rightarrow> peer_config" where
  "demo_peer h t =
     \<lparr>pf_host = h, pf_port = 1488, pf_peer_type = t, pf_weight = 1, pf_icp_port = Some 3130,
      pf_max_connections = 100\<rparr>"

definition demo_registry :: peer_registry where
  "demo_registry = add_peer (demo_peer ''10.0.0.1'' Parent) registry_empty"

lemma demo_registry_inv: "registry_inv demo_registry" "registry_inv registry_empty"
proof -
  show "registry_inv registry_empty" by (simp add: registry_inv_def registry_empty_def)
  then show "registry_inv demo_registry" unfolding demo_registry_def by (rule add_peer_inv)
qed

theorem registry_operations_inv_witness:
  "registry_inv (add_peer (demo_peer ''10.0.0.2'' Parent) demo_registry)"
  using registry_operations_inv [OF demo_registry_inv(1)] by blast

theorem replace_static_preserves_discovery_witness:
  "get_peer (peer_id (demo_peer ''10.0.0.1'' Parent)) (snd (replace_static_peers [] demo_registry)) = None"
  using replace_static_preserves_discovery [OF demo_registry_inv(1), of "peer_id (demo_peer ''10.0.0.1'' Parent)" "[]"]
  by (simp add: discovered_def demo_registry_def add_peer_def registry_empty_def Let_def)

theorem upsert_sibling_keeps_old_witness:
  "upsert_sibling (demo_peer ''10.0.0.9'' Sibling)
     (add_peer ((demo_peer ''10.0.0.9'' Sibling)\<lparr>pf_weight := 5\<rparr>) registry_empty) =
   Some (peer_new ((demo_peer ''10.0.0.9'' Sibling)\<lparr>pf_weight := 5\<rparr>),
     add_peer ((demo_peer ''10.0.0.9'' Sibling)\<lparr>pf_weight := 5\<rparr>) registry_empty)"
  by (rule upsert_sibling_keeps_old)
    (simp_all add: demo_peer_def get_peer_def add_peer_def peer_id_def registry_empty_def Let_def)

end
