(* ===== verification/Selection.thy ===== *)
theory Selection
  imports Peers
begin

text \<open>
  The four strategies that choose a parent among the available peers
  (\<^verbatim>\<open>proxy/src/selection.rs\<close>). The trait is the locale \<open>selection_strategy\<close>, and every strategy
  interprets it. A strategy reads an environment: the round-robin counter, which it may advance,
  the uniform random draw and the hash function of URLs.
\<close>

section \<open>Definitions\<close>

record selection_state =
  ss_counter :: u64
  ss_random :: real
  ss_hash_url :: "string \<Rightarrow> u64"

type_synonym strategy_fun =
  "cache_peer list \<Rightarrow> string \<Rightarrow> selection_state \<Rightarrow> cache_peer option \<times> selection_state"

definition round_robin_select :: strategy_fun where
  "round_robin_select peers url s =
     (if peers = [] then (None, s)
      else (Some (peers ! (unat (ss_counter s) mod length peers)), s\<lparr>ss_counter := ss_counter s + 1\<rparr>))"

definition total_score :: "cache_peer list \<Rightarrow> real" where
  "total_score peers = sum_list (map score peers)"

fun weighted_scan :: "real \<Rightarrow> cache_peer list \<Rightarrow> cache_peer option" where
  "weighted_scan rng [] = None"
| "weighted_scan rng (p # ps) = (if rng \<le> score p then Some p else weighted_scan (rng - score p) ps)"

definition weighted_select :: strategy_fun where
  "weighted_select peers url s =
     (if peers = [] then (None, s)
      else if total_score peers = 0 then (None, s)
      else
        ((case weighted_scan (ss_random s * total_score peers) peers of
            Some p \<Rightarrow> Some p
          | None \<Rightarrow> Some (last peers)), s))"

definition closest_select :: strategy_fun where
  "closest_select peers url s = (min_by_key cp_rtt_ms (filter cp_healthy peers), s)"

definition hash_select :: strategy_fun where
  "hash_select peers url s =
     (if peers = [] then (None, s)
      else (Some (peers ! (unat (ss_hash_url s url) mod length peers)), s))"

datatype strategy = RoundRobin | Weighted | Closest | HashUrl

fun strategy_name :: "strategy \<Rightarrow> string" where
  "strategy_name RoundRobin = ''round-robin''"
| "strategy_name Weighted = ''weighted''"
| "strategy_name Closest = ''closest''"
| "strategy_name HashUrl = ''hash''"

definition parse_strategy :: "string \<Rightarrow> strategy" where
  "parse_strategy name =
     (let n = to_lowercase name in
      if n \<in> set [''round-robin'', ''roundrobin'', ''rr''] then RoundRobin
      else if n \<in> set [''weighted'', ''weight'', ''w''] then Weighted
      else if n \<in> set [''closest'', ''rtt'', ''latency''] then Closest
      else if n \<in> set [''hash'', ''consistent'', ''ch''] then HashUrl
      else Weighted)"

text \<open>Dispatch through the trait object.\<close>

fun select :: "strategy \<Rightarrow> strategy_fun" where
  "select RoundRobin = round_robin_select"
| "select Weighted = weighted_select"
| "select Closest = closest_select"
| "select HashUrl = hash_select"

section \<open>The trait\<close>

locale selection_strategy =
  fixes sel :: strategy_fun
  assumes selected_in: "fst (sel ps u s) = Some p \<Longrightarrow> p \<in> set ps"
    and keeps_inputs: "ss_random (snd (sel ps u s)) = ss_random s" "ss_hash_url (snd (sel ps u s)) = ss_hash_url s"
begin

lemma empty_none: "fst (sel [] u s) = None"
  using selected_in [of "[]" u s] by (cases "fst (sel [] u s)") auto

lemma selected_all: "fst (sel ps u s) = Some p \<Longrightarrow> list_all P ps \<Longrightarrow> P p"
  using selected_in by (auto simp: list_all_iff)

end

lemma nth_mod_mem: "ps \<noteq> [] \<Longrightarrow> ps ! (n mod length ps) \<in> set ps"
  by (simp add: mod_less_divisor)

lemma weighted_scan_mem: "weighted_scan r ps = Some p \<Longrightarrow> p \<in> set ps"
  by (induction r ps rule: weighted_scan.induct) (auto split: if_splits)

interpretation rr: selection_strategy round_robin_select
  by unfold_locales (auto simp: round_robin_select_def nth_mod_mem split: if_splits)

interpretation weighted: selection_strategy weighted_select
  by unfold_locales
    (auto simp: weighted_select_def split: if_splits option.splits dest: weighted_scan_mem)

interpretation closest: selection_strategy closest_select
proof (unfold_locales, goal_cases)
  case (1 ps u s p)
  then show ?case by (auto simp: closest_select_def dest!: min_by_key_Some)
qed (simp_all add: closest_select_def)

interpretation by_hash: selection_strategy hash_select
  by unfold_locales (auto simp: hash_select_def nth_mod_mem split: if_splits)

interpretation sel: selection_strategy "select st" for st
  by (cases st)
    (simp_all add: rr.selection_strategy_axioms weighted.selection_strategy_axioms
      closest.selection_strategy_axioms by_hash.selection_strategy_axioms)

section \<open>Lemmas\<close>

fun select_run :: "strategy \<Rightarrow> nat \<Rightarrow> cache_peer list \<Rightarrow> string \<Rightarrow> selection_state \<Rightarrow> cache_peer list" where
  "select_run st 0 ps u s = []"
| "select_run st (Suc n) ps u s =
     (case select st ps u s of
        (None, s') \<Rightarrow> select_run st n ps u s'
      | (Some p, s') \<Rightarrow> p # select_run st n ps u s')"

lemma round_robin_run:
  assumes "ps \<noteq> []" "unat (ss_counter s) + n < 2 ^ 64"
  shows "select_run RoundRobin n ps u s =
    map (\<lambda>i. ps ! ((unat (ss_counter s) + i) mod length ps)) [0..<n]"
  using assms
proof (induction n arbitrary: s)
  case (Suc n)
  have c: "unat (ss_counter s + 1) = unat (ss_counter s) + 1"
    using Suc.prems(2) by (simp add: unat_word_ariths)
  show ?case
    using Suc.prems c
    by (simp add: round_robin_select_def Suc.IH upt_conv_Cons map_Suc_upt [symmetric] del: upt_Suc)
qed simp

lemma rotation_mset:
  "mset (map (\<lambda>i. ps ! ((c + i) mod length ps)) [0..<length ps]) = mset ps"
proof -
  have "map (\<lambda>i. ps ! ((c + i) mod length ps)) [0..<length ps] = rotate c ps"
    by (rule nth_equalityI) (simp_all add: nth_rotate)
  moreover have "mset (rotate c ps) = mset ps"
    unfolding rotate_drop_take by (metis append_take_drop_id mset_append union_commute)
  ultimately show ?thesis by simp
qed

lemma weighted_scan_positive:
  "0 < r \<Longrightarrow> weighted_scan r ps = Some p \<Longrightarrow> 0 < score p"
  by (induction r ps rule: weighted_scan.induct) (auto split: if_splits)

lemma weighted_scan_total:
  "r \<le> total_score ps \<Longrightarrow> ps \<noteq> [] \<Longrightarrow> \<exists>p. weighted_scan r ps = Some p"
proof (induction r ps rule: weighted_scan.induct)
  case (2 r p ps)
  then show ?case by (cases "ps = []") (auto simp: total_score_def)
qed simp

lemma weighted_scan_interval:
  assumes "\<forall>p \<in> set ps. 0 \<le> score p" "i < length ps"
    "total_score (take i ps) < r" "r \<le> total_score (take (Suc i) ps)"
  shows "weighted_scan r ps = Some (ps ! i)"
  using assms
proof (induction ps arbitrary: r i)
  case (Cons p ps)
  show ?case
  proof (cases i)
    case 0
    then show ?thesis using Cons.prems by (simp add: total_score_def)
  next
    case (Suc j)
    have "0 \<le> total_score (take j ps)"
      unfolding total_score_def
    proof (rule sum_list_nonneg)
      fix x assume "x \<in> set (map score (take j ps))"
      then obtain q where "q \<in> set (take j ps)" "x = score q" by auto
      then show "0 \<le> x" using Cons.prems(1) in_set_takeD [of q j ps] by simp
    qed
    then show ?thesis
      using Cons Suc by (simp add: total_score_def)
  qed
qed simp

section \<open>Properties\<close>

text \<open>Round robin is fair: while the counter does not wrap, any run of as many selections as there
  are peers picks each of them exactly once.\<close>

theorem round_robin_fair:
  assumes "ps \<noteq> []" "unat (ss_counter s) + length ps < 2 ^ 64"
  shows "mset (select_run RoundRobin (length ps) ps u s) = mset ps"
  using round_robin_run [OF assms] rotation_mset by metis

text \<open>Weighted selection is proportional: with non-negative scores, the draws that select the peer
  at position \<open>i\<close> are those in its own interval of the unit segment, whose width is its share of
  the total score. A positive draw never selects a peer with score zero, which an unhealthy one
  has.\<close>

theorem weighted_select_proportional:
  assumes "\<forall>p \<in> set ps. 0 \<le> score p" "0 < total_score ps" "i < length ps"
    and "total_score (take i ps) / total_score ps < ss_random s"
    and "ss_random s \<le> total_score (take i ps) / total_score ps + score (ps ! i) / total_score ps"
  shows "fst (weighted_select ps u s) = Some (ps ! i) \<and> 0 < score (ps ! i) \<and> cp_healthy (ps ! i)"
proof -
  let ?r = "ss_random s * total_score ps"
  have r: "total_score (take i ps) < ?r" "?r \<le> total_score (take (Suc i) ps)"
    using assms(2-5)
    by (simp_all add: divide_less_eq add_divide_distrib [symmetric] le_divide_eq total_score_def take_Suc_conv_app_nth)
  then have scan: "weighted_scan ?r ps = Some (ps ! i)"
    using weighted_scan_interval [OF assms(1,3)] by simp
  moreover have pos: "0 < score (ps ! i)"
    using r assms(3) by (simp add: total_score_def take_Suc_conv_app_nth)
  ultimately show ?thesis
    using assms(2,3) by (auto simp: weighted_select_def score_def split: if_splits)
qed

text \<open>The closest strategy selects a healthy peer with the lowest round-trip time, and selects one
  whenever there is a healthy peer.\<close>

theorem closest_select_minimal:
  "case fst (closest_select ps u s) of
     None \<Rightarrow> list_all (\<lambda>p. \<not> cp_healthy p) ps
   | Some p \<Rightarrow> p \<in> set ps \<and> cp_healthy p \<and>
       list_all (\<lambda>q. cp_rtt_ms p \<le> cp_rtt_ms q) (filter cp_healthy ps)"
proof (cases "min_by_key cp_rtt_ms (filter cp_healthy ps)")
  case None
  then have "filter cp_healthy ps = []" by (simp only: min_by_key_None_iff)
  with None show ?thesis by (auto simp: closest_select_def filter_empty_conv list_all_iff)
next
  case (Some p)
  then show ?thesis
    using min_by_key_Some [OF Some]
    by (auto simp: closest_select_def list_all_iff)
qed

section \<open>Witnesses\<close>

definition demo_peers :: "cache_peer list" where
  "demo_peers = map (\<lambda>h. peer_new (demo_peer h Parent)) [''a'', ''b'', ''c'']"

definition demo_selection :: selection_state where
  "demo_selection = \<lparr>ss_counter = 5, ss_random = 1 / 2, ss_hash_url = \<lambda>u. 0\<rparr>"

lemma demo_scores: "map score demo_peers = [1, 1, 1]"
  by (simp add: demo_peers_def score_def peer_new_def demo_peer_def stats_new_def error_rate_def)

theorem round_robin_fair_witness:
  "mset (select_run RoundRobin (length demo_peers) demo_peers [] demo_selection) = mset demo_peers"
  by (rule round_robin_fair) (simp_all add: demo_peers_def demo_selection_def)

theorem weighted_select_proportional_witness:
  "fst (weighted_select demo_peers [] demo_selection) = Some (demo_peers ! 1)"
proof -
  have t: "total_score demo_peers = 3" "score (demo_peers ! 1) = 1" "total_score (take 1 demo_peers) = 1"
    "length demo_peers = 3"
    using demo_scores by (simp_all add: total_score_def demo_peers_def)
  have "\<forall>p \<in> set demo_peers. 0 \<le> score p" using demo_scores by (simp add: demo_peers_def)
  from weighted_select_proportional [OF this, of 1 demo_selection] show ?thesis
    unfolding t by (simp add: demo_selection_def)
qed

end
