(* ===== verification/Peer_Wire.thy ===== *)
theory Peer_Wire
  imports Wire
begin

text \<open>
  The query protocols between cache peers: ICP (\<^verbatim>\<open>proxy/src/icp.rs\<close>) and HTCP (\<^verbatim>\<open>proxy/src/htcp.rs\<close>).
  A socket address is a value of a type of its own. What reaches a client before its timeout is
  a list of datagrams with their senders. Both protocols offer the same contract, the locale
  \<open>query_protocol\<close>, and the correctness of an exchange is proved once for it.
\<close>

section \<open>Definitions\<close>

subsection \<open>ICP\<close>

definition icp_version :: nat where "icp_version = 2"

datatype icp_opcode = IcpInvalid | IcpQuery | IcpHit | IcpMiss | IcpError | IcpDenied

fun icp_opcode_u8 :: "icp_opcode \<Rightarrow> nat" where
  "icp_opcode_u8 IcpInvalid = 0"
| "icp_opcode_u8 IcpQuery = 1"
| "icp_opcode_u8 IcpHit = 2"
| "icp_opcode_u8 IcpMiss = 3"
| "icp_opcode_u8 IcpError = 4"
| "icp_opcode_u8 IcpDenied = 22"

definition icp_opcode_from :: "nat \<Rightarrow> icp_opcode" where
  "icp_opcode_from v =
     (if v = 1 then IcpQuery else if v = 2 then IcpHit else if v = 3 then IcpMiss
      else if v = 4 then IcpError else if v = 22 then IcpDenied else IcpInvalid)"

record 'a icp_message =
  im_opcode :: icp_opcode
  im_version :: nat
  im_request_number :: nat
  im_url :: string
  im_requester :: 'a

definition icp_query :: "nat \<Rightarrow> string \<Rightarrow> 'a \<Rightarrow> 'a icp_message" where
  "icp_query n url requester =
     \<lparr>im_opcode = IcpQuery, im_version = icp_version, im_request_number = n, im_url = url,
      im_requester = requester\<rparr>"

definition icp_hit :: "nat \<Rightarrow> 'a \<Rightarrow> 'a icp_message" where
  "icp_hit n requester =
     \<lparr>im_opcode = IcpHit, im_version = icp_version, im_request_number = n, im_url = [],
      im_requester = requester\<rparr>"

definition icp_miss :: "nat \<Rightarrow> 'a \<Rightarrow> 'a icp_message" where
  "icp_miss n requester =
     \<lparr>im_opcode = IcpMiss, im_version = icp_version, im_request_number = n, im_url = [],
      im_requester = requester\<rparr>"

definition icp_encode :: "'a icp_message \<Rightarrow> bytes" where
  "icp_encode m =
     to_be 1 (icp_opcode_u8 (im_opcode m)) @ to_be 1 (im_version m) @ to_be 2 (length (im_url m)) @
     to_be 4 (im_request_number m) @ to_be 4 0 @ to_be 4 0 @ to_be 4 0 @
     (if im_url m \<noteq> [] then char_bytes (im_url m) @ [0] else [])"

definition icp_decode :: "bytes \<Rightarrow> 'a \<Rightarrow> string + 'a icp_message" where
  "icp_decode data sender =
     (if length data < 20 then Inl ''ICP message too short''
      else
        (let opcode = icp_opcode_from (of_be (take 1 data));
             version = of_be (take 1 (drop 1 data));
             url_len = of_be (take 2 (drop 2 data));
             request_number = of_be (take 4 (drop 4 data));
             rest = drop 20 data;
             url = (if url_len > 0 \<and> length rest \<ge> url_len
                    then trim_end_matches (CHR 0x00) (from_utf8_lossy (take url_len rest)) else [])
         in Inr \<lparr>im_opcode = opcode, im_version = version, im_request_number = request_number,
                 im_url = url, im_requester = sender\<rparr>))"

text \<open>The waiting loop of \<^verbatim>\<open>query_peer\<close>; a datagram is cut to the buffer of 1024 bytes.\<close>

fun icp_await :: "'a \<Rightarrow> nat \<Rightarrow> ('a \<times> bytes) list \<Rightarrow> string + 'a icp_message" where
  "icp_await peer request_number [] = Inl ''ICP query timeout''"
| "icp_await peer request_number ((addr, data) # ds) =
     (if addr = peer then
        (case icp_decode (take 1024 data) addr of
           Inl e \<Rightarrow> Inl e
         | Inr response \<Rightarrow>
             (if im_request_number response = request_number then Inr response
              else icp_await peer request_number ds))
      else icp_await peer request_number ds)"

record icp_client =
  ic_request_counter :: u32

definition icp_client_new :: icp_client where
  "icp_client_new = \<lparr>ic_request_counter = 1\<rparr>"

text \<open>\<^verbatim>\<open>Clone\<close> copies the current value of the counter into a counter of its own.\<close>

definition icp_client_clone :: "icp_client \<Rightarrow> icp_client" where
  "icp_client_clone c = \<lparr>ic_request_counter = ic_request_counter c\<rparr>"

text \<open>A query: the datagram sent, the answer's opcode or the error, and the client afterwards.\<close>

definition icp_query_peer ::
  "'a \<Rightarrow> 'a \<Rightarrow> string \<Rightarrow> ('a \<times> bytes) list \<Rightarrow> icp_client \<Rightarrow> bytes \<times> (string + icp_opcode) \<times> icp_client" where
  "icp_query_peer local_addr peer url arrivals c =
     (let request_number = unat (ic_request_counter c);
          sent = icp_encode (icp_query request_number url local_addr)
      in (sent,
          (case icp_await peer request_number arrivals of
             Inl e \<Rightarrow> Inl e | Inr response \<Rightarrow> Inr (im_opcode response)),
          c\<lparr>ic_request_counter := ic_request_counter c + 1\<rparr>))"

text \<open>All peers at once, each by a clone of the client; failed queries leave no result.\<close>

definition icp_query_peers ::
  "'a \<Rightarrow> 'a list \<Rightarrow> string \<Rightarrow> ('a \<Rightarrow> ('a \<times> bytes) list) \<Rightarrow> icp_client \<Rightarrow>
   ('a \<times> icp_opcode) list \<times> icp_client" where
  "icp_query_peers local_addr peers url arrivals c =
     (concat (map (\<lambda>peer.
        case icp_query_peer local_addr peer url (arrivals peer) (icp_client_clone c) of
          (_, Inr opcode, _) \<Rightarrow> [(peer, opcode)]
        | (_, Inl _, _) \<Rightarrow> []) peers), c)"

definition icp_find_hit ::
  "'a \<Rightarrow> 'a list \<Rightarrow> string \<Rightarrow> ('a \<Rightarrow> ('a \<times> bytes) list) \<Rightarrow> icp_client \<Rightarrow> 'a option" where
  "icp_find_hit local_addr peers url arrivals c =
     map_option fst (find (\<lambda>(_, opcode). opcode = IcpHit)
       (fst (icp_query_peers local_addr peers url arrivals c)))"

text \<open>The server: nothing for an error or a message that is no query, else the datagram to send back.\<close>

definition icp_handle_query :: "(string \<Rightarrow> bool) \<Rightarrow> bytes \<Rightarrow> 'a \<Rightarrow> string + bytes option" where
  "icp_handle_query query_handler data sender =
     (case icp_decode data sender of
        Inl e \<Rightarrow> Inl e
      | Inr query \<Rightarrow>
          (if im_opcode query \<noteq> IcpQuery then Inr None
           else
             (let response =
                    (if query_handler (im_url query) then icp_hit (im_request_number query) sender
                     else icp_miss (im_request_number query) sender)
              in Inr (Some (icp_encode response)))))"

subsection \<open>HTCP\<close>

definition htcp_magic :: bytes where
  "htcp_magic = char_bytes ''HTCP''"

definition htcp_version :: nat where "htcp_version = 1"

datatype htcp_opcode = HtcpQuery | HtcpHit | HtcpMiss | HtcpError

fun htcp_opcode_u8 :: "htcp_opcode \<Rightarrow> nat" where
  "htcp_opcode_u8 HtcpQuery = 1"
| "htcp_opcode_u8 HtcpHit = 2"
| "htcp_opcode_u8 HtcpMiss = 3"
| "htcp_opcode_u8 HtcpError = 4"

definition htcp_opcode_from :: "nat \<Rightarrow> htcp_opcode" where
  "htcp_opcode_from v =
     (if v = 1 then HtcpQuery else if v = 2 then HtcpHit else if v = 3 then HtcpMiss else HtcpError)"

record htcp_message =
  hm_opcode :: htcp_opcode
  hm_version :: nat
  hm_request_number :: nat
  hm_url :: string

definition htcp_msg :: "htcp_opcode \<Rightarrow> nat \<Rightarrow> string \<Rightarrow> htcp_message" where
  "htcp_msg opcode n url =
     \<lparr>hm_opcode = opcode, hm_version = htcp_version, hm_request_number = n, hm_url = url\<rparr>"

definition htcp_encode :: "htcp_message \<Rightarrow> bytes" where
  "htcp_encode m =
     htcp_magic @ to_be 1 (hm_version m) @ to_be 1 (htcp_opcode_u8 (hm_opcode m)) @
     to_be 4 (hm_request_number m) @ to_be 2 (length (hm_url m)) @ char_bytes (hm_url m)"

definition htcp_decode :: "bytes \<Rightarrow> string + htcp_message" where
  "htcp_decode data =
     (if length data < 12 then Inl ''HTCP message too short''
      else if take 4 data \<noteq> htcp_magic then Inl ''invalid HTCP magic''
      else
        (let cursor = drop 4 data;
             version = of_be (take 1 cursor);
             opcode = htcp_opcode_from (of_be (take 1 (drop 1 cursor)));
             request_number = of_be (take 4 (drop 2 cursor));
             url_len = of_be (take 2 (drop 6 cursor));
             rest = drop 8 cursor;
             url = (if url_len > 0 \<and> length rest \<ge> url_len
                    then from_utf8_lossy (take url_len rest) else [])
         in Inr \<lparr>hm_opcode = opcode, hm_version = version, hm_request_number = request_number,
                 hm_url = url\<rparr>))"

fun htcp_await :: "'a \<Rightarrow> nat \<Rightarrow> ('a \<times> bytes) list \<Rightarrow> string + htcp_message" where
  "htcp_await peer request_number [] = Inl ''HTCP query timeout''"
| "htcp_await peer request_number ((addr, data) # ds) =
     (if addr = peer then
        (case htcp_decode (take 1024 data) of
           Inl e \<Rightarrow> Inl e
         | Inr message \<Rightarrow>
             (if hm_request_number message = request_number then Inr message
              else htcp_await peer request_number ds))
      else htcp_await peer request_number ds)"

record htcp_client =
  hc_request_counter :: u32

definition htcp_client_new :: htcp_client where
  "htcp_client_new = \<lparr>hc_request_counter = 1\<rparr>"

definition htcp_client_clone :: "htcp_client \<Rightarrow> htcp_client" where
  "htcp_client_clone c = \<lparr>hc_request_counter = hc_request_counter c\<rparr>"

definition htcp_query_peer ::
  "'a \<Rightarrow> string \<Rightarrow> ('a \<times> bytes) list \<Rightarrow> htcp_client \<Rightarrow> bytes \<times> (string + htcp_opcode) \<times> htcp_client" where
  "htcp_query_peer peer url arrivals c =
     (let request_number = unat (hc_request_counter c);
          sent = htcp_encode (htcp_msg HtcpQuery request_number url)
      in (sent,
          (case htcp_await peer request_number arrivals of
             Inl e \<Rightarrow> Inl e | Inr message \<Rightarrow> Inr (hm_opcode message)),
          c\<lparr>hc_request_counter := hc_request_counter c + 1\<rparr>))"

definition htcp_query_peers ::
  "'a list \<Rightarrow> string \<Rightarrow> ('a \<Rightarrow> ('a \<times> bytes) list) \<Rightarrow> htcp_client \<Rightarrow> ('a \<times> htcp_opcode) list \<times> htcp_client" where
  "htcp_query_peers peers url arrivals c =
     (concat (map (\<lambda>peer.
        case htcp_query_peer peer url (arrivals peer) (htcp_client_clone c) of
          (_, Inr opcode, _) \<Rightarrow> [(peer, opcode)]
        | (_, Inl _, _) \<Rightarrow> []) peers), c)"

definition htcp_handle_query :: "(string \<Rightarrow> bool) \<Rightarrow> bytes \<Rightarrow> string + bytes option" where
  "htcp_handle_query query_handler data =
     (case htcp_decode data of
        Inl e \<Rightarrow> Inl e
      | Inr query \<Rightarrow>
          (if hm_opcode query \<noteq> HtcpQuery then Inr None
           else
             Inr (Some (htcp_encode
               (htcp_msg (if query_handler (hm_url query) then HtcpHit else HtcpMiss)
                  (hm_request_number query) [])))))"

subsection \<open>Specification\<close>

text \<open>URLs that survive the wire: within the length field, valid UTF-8, no NUL at the end.\<close>

definition icp_url_ok :: "string \<Rightarrow> bool" where
  "icp_url_ok url \<longleftrightarrow>
     length url < 65536 \<and> from_utf8 (char_bytes url) = Some url \<and> (url = [] \<or> last url \<noteq> CHR 0x00)"

definition htcp_url_ok :: "string \<Rightarrow> bool" where
  "htcp_url_ok url \<longleftrightarrow> length url < 65536 \<and> from_utf8 (char_bytes url) = Some url"

text \<open>ICP and HTCP by opcode, request number and URL.\<close>

definition icp_enc :: "icp_opcode \<Rightarrow> nat \<Rightarrow> string \<Rightarrow> bytes" where
  "icp_enc opcode n url =
     icp_encode \<lparr>im_opcode = opcode, im_version = icp_version, im_request_number = n, im_url = url,
                 im_requester = ()\<rparr>"

definition icp_dec :: "bytes \<Rightarrow> (icp_opcode \<times> nat \<times> string) option" where
  "icp_dec d =
     (case icp_decode d () of
        Inl _ \<Rightarrow> None | Inr m \<Rightarrow> Some (im_opcode m, im_request_number m, im_url m))"

definition icp_answer :: "(string \<Rightarrow> bool) \<Rightarrow> bytes \<Rightarrow> bytes option" where
  "icp_answer h d = (case icp_handle_query h d () of Inl _ \<Rightarrow> None | Inr r \<Rightarrow> r)"

definition icp_result :: "'a \<Rightarrow> nat \<Rightarrow> ('a \<times> bytes) list \<Rightarrow> icp_opcode option" where
  "icp_result peer n ds = (case icp_await peer n ds of Inl _ \<Rightarrow> None | Inr m \<Rightarrow> Some (im_opcode m))"

definition htcp_enc :: "htcp_opcode \<Rightarrow> nat \<Rightarrow> string \<Rightarrow> bytes" where
  "htcp_enc opcode n url = htcp_encode (htcp_msg opcode n url)"

definition htcp_dec :: "bytes \<Rightarrow> (htcp_opcode \<times> nat \<times> string) option" where
  "htcp_dec d =
     (case htcp_decode d of
        Inl _ \<Rightarrow> None | Inr m \<Rightarrow> Some (hm_opcode m, hm_request_number m, hm_url m))"

definition htcp_answer :: "(string \<Rightarrow> bool) \<Rightarrow> bytes \<Rightarrow> bytes option" where
  "htcp_answer h d = (case htcp_handle_query h d of Inl _ \<Rightarrow> None | Inr r \<Rightarrow> r)"

definition htcp_result :: "'a \<Rightarrow> nat \<Rightarrow> ('a \<times> bytes) list \<Rightarrow> htcp_opcode option" where
  "htcp_result peer n ds = (case htcp_await peer n ds of Inl _ \<Rightarrow> None | Inr m \<Rightarrow> Some (hm_opcode m))"

section \<open>The contract of a query protocol\<close>

text \<open>
  \<open>enc\<close> and \<open>dec\<close> are the codec for an opcode, a request number and a URL, \<open>answer\<close> is the server
  and \<open>await\<close> the waiting client.
\<close>

locale query_protocol =
  fixes enc :: "'op \<Rightarrow> nat \<Rightarrow> string \<Rightarrow> bytes"
    and dec :: "bytes \<Rightarrow> ('op \<times> nat \<times> string) option"
    and url_ok :: "string \<Rightarrow> bool"
    and query hit miss :: 'op
    and answer :: "(string \<Rightarrow> bool) \<Rightarrow> bytes \<Rightarrow> bytes option"
    and await :: "'a \<Rightarrow> nat \<Rightarrow> ('a \<times> bytes) list \<Rightarrow> 'op option"
  assumes round_trip: "url_ok url \<Longrightarrow> n < 2 ^ 32 \<Longrightarrow> dec (enc opcode n url) = Some (opcode, n, url)"
    and empty_ok: "url_ok []"
    and short_reply: "length (enc opcode n []) \<le> 1024"
    and answer_query: "dec d = Some (query, n, url) \<Longrightarrow>
        answer h d = Some (enc (if h url then hit else miss) n [])"
    and await_skip: "addr \<noteq> peer \<Longrightarrow> await peer n ((addr, d) # ds) = await peer n ds"
    and await_other: "dec (take 1024 d) = Some (opcode, m, url) \<Longrightarrow> m \<noteq> n \<Longrightarrow>
        await peer n ((peer, d) # ds) = await peer n ds"
    and await_take: "dec (take 1024 d) = Some (opcode, n, url) \<Longrightarrow>
        await peer n ((peer, d) # ds) = Some opcode"
begin

text \<open>The server's reply to an encoded query, decoded, says whether the URL is held.\<close>

lemma reply_decodes:
  assumes "url_ok url" "n < 2 ^ 32"
  shows "\<exists>r. answer h (enc query n url) = Some r \<and> dec r = Some (if h url then hit else miss, n, [])"
  using answer_query [OF round_trip [OF assms]] round_trip [OF empty_ok assms(2)] by blast

text \<open>Datagrams of other senders, or with other request numbers, before the reply do not matter.\<close>

lemma exchange:
  assumes "url_ok url" "n < 2 ^ 32" "answer h (enc query n url) = Some r"
    and "\<And>addr d. (addr, d) \<in> set noise \<Longrightarrow>
      addr \<noteq> peer \<or> (\<exists>opcode m u. dec (take 1024 d) = Some (opcode, m, u) \<and> m \<noteq> n)"
  shows "await peer n (noise @ (peer, r) # ds) = Some (if h url then hit else miss)"
  using assms(4)
proof (induction noise)
  case Nil
  have r: "r = enc (if h url then hit else miss) n []"
    using answer_query [OF round_trip [OF assms(1,2)], of h] assms(3) by simp
  then have "take 1024 r = r" using short_reply by (simp add: take_all_iff)
  moreover have "dec r = Some (if h url then hit else miss, n, [])"
    unfolding r by (rule round_trip [OF empty_ok assms(2)])
  ultimately show ?case by (simp add: await_take)
next
  case (Cons p noise)
  obtain addr d where p: "p = (addr, d)" by (cases p)
  have IH: "await peer n (noise @ (peer, r) # ds) = Some (if h url then hit else miss)"
    by (intro Cons.IH) (rule Cons.prems, simp)
  from Cons.prems [of addr d] p have "addr \<noteq> peer \<or> (\<exists>opcode m u. dec (take 1024 d) = Some (opcode, m, u) \<and> m \<noteq> n)"
    by auto
  then show ?case
    using IH await_skip [of addr peer n d] await_other [of d _ _ _ n peer] p
    by (cases "addr = peer") auto
qed

end

section \<open>Lemmas\<close>

lemma of_be_small [simp]: "of_be [of_nat v] = v mod 256" "of_be (to_be 2 v) = v mod 65536"
  "of_be (to_be 4 v) = v mod 4294967296"
  using of_be_to_be [of 1 v] of_be_to_be [of 2 v] of_be_to_be [of 4 v] by simp_all

lemma icp_opcode_round [simp]: "icp_opcode_from (icp_opcode_u8 opcode) = opcode" "icp_opcode_u8 opcode < 256"
  by (cases opcode; simp add: icp_opcode_from_def)+

lemma htcp_opcode_round [simp]: "htcp_opcode_from (htcp_opcode_u8 opcode) = opcode" "htcp_opcode_u8 opcode < 256"
  by (cases opcode; simp add: htcp_opcode_from_def)+

lemma icp_decode_encode:
  assumes "icp_url_ok (im_url m)" "im_request_number m < 2 ^ 32" "im_version m < 256"
  shows "icp_decode (icp_encode m) a = Inr (m\<lparr>im_requester := a\<rparr>)"
proof -
  have url: "trim_end_matches (CHR 0x00) (from_utf8_lossy (char_bytes (im_url m))) = im_url m"
    using assms(1) by (simp add: icp_url_ok_def lossy_valid trim_end_matches_last)
  have len: "length (im_url m) < 65536" using assms(1) by (simp add: icp_url_ok_def)
  show ?thesis
    using assms len url
    by (cases "im_url m = []")
      (simp_all add: icp_encode_def icp_decode_def Let_def)
qed

lemma htcp_decode_encode:
  assumes "htcp_url_ok (hm_url m)" "hm_request_number m < 2 ^ 32" "hm_version m < 256"
  shows "htcp_decode (htcp_encode m) = Inr m"
proof -
  have url: "from_utf8_lossy (char_bytes (hm_url m)) = hm_url m"
    using assms(1) by (simp add: htcp_url_ok_def lossy_valid)
  have magic: "length htcp_magic = 4" by (simp add: htcp_magic_def)
  have len: "length (hm_url m) < 65536" using assms(1) by (simp add: htcp_url_ok_def)
  show ?thesis
    using assms len url magic
    by (cases "hm_url m = []") (simp_all add: htcp_encode_def htcp_decode_def Let_def)
qed

lemma from_utf8_Nil: "from_utf8 [] = Some []"
  by code_simp

lemma icp_decode_requester:
  "icp_decode d a = (case icp_decode d () of
     Inl e \<Rightarrow> Inl e
   | Inr m \<Rightarrow> Inr \<lparr>im_opcode = im_opcode m, im_version = im_version m, im_request_number = im_request_number m,
                   im_url = im_url m, im_requester = a\<rparr>)"
  by (simp add: icp_decode_def Let_def)

lemma icp_dec_iff:
  "icp_dec d = Some (opcode, n, url) \<longleftrightarrow>
     (\<exists>m. icp_decode d a = Inr m \<and> im_opcode m = opcode \<and> im_request_number m = n \<and> im_url m = url)"
  by (auto simp: icp_dec_def icp_decode_requester [of d a] split: sum.splits)

lemma icp_encode_enc: "icp_encode m = icp_enc (im_opcode m) (im_request_number m) (im_url m)"
  if "im_version m = icp_version"
  using that by (simp add: icp_enc_def icp_encode_def)

interpretation icp: query_protocol icp_enc icp_dec icp_url_ok IcpQuery IcpHit IcpMiss icp_answer icp_result
proof (unfold_locales, goal_cases)
  case (1 url n opcode)
  then show ?case by (simp add: icp_enc_def icp_dec_def icp_decode_encode icp_version_def)
next
  case 2
  show ?case by (simp add: icp_url_ok_def char_bytes_def from_utf8_Nil)
next
  case (3 opcode n)
  show ?case by (simp add: icp_enc_def icp_encode_def)
next
  case (4 d n url h)
  then show ?case
    by (auto simp: icp_dec_iff [of d _ _ _ "()"] icp_answer_def icp_handle_query_def icp_hit_def icp_miss_def
        icp_enc_def Let_def)
next
  case (5 addr peer n d ds)
  then show ?case by (simp add: icp_result_def)
next
  case (6 d opcode m url n peer ds)
  then show ?case by (auto simp: icp_result_def icp_dec_iff [of _ _ _ _ peer])
next
  case (7 d opcode n url peer ds)
  then show ?case by (auto simp: icp_result_def icp_dec_iff [of _ _ _ _ peer])
qed

interpretation htcp: query_protocol htcp_enc htcp_dec htcp_url_ok HtcpQuery HtcpHit HtcpMiss htcp_answer htcp_result
proof (unfold_locales, goal_cases)
  case (1 url n opcode)
  then show ?case
    by (simp add: htcp_enc_def htcp_dec_def htcp_decode_encode htcp_msg_def htcp_version_def)
next
  case 2
  show ?case by (simp add: htcp_url_ok_def char_bytes_def from_utf8_Nil)
next
  case (3 opcode n)
  show ?case by (simp add: htcp_enc_def htcp_encode_def htcp_msg_def htcp_magic_def)
next
  case (4 d n url h)
  then show ?case
    by (auto simp: htcp_dec_def htcp_answer_def htcp_handle_query_def htcp_enc_def split: sum.splits)
next
  case (5 addr peer n d ds)
  then show ?case by (simp add: htcp_result_def)
next
  case (6 d opcode m url n peer ds)
  then show ?case by (auto simp: htcp_result_def htcp_dec_def split: sum.splits)
next
  case (7 d opcode n url peer ds)
  then show ?case by (auto simp: htcp_result_def htcp_dec_def split: sum.splits)
qed

section \<open>Properties\<close>

text \<open>ICP messages survive the wire: decoding an encoded message gives it back with the sender as
  requester, for URLs in UTF-8 that fit the length field and do not end in NUL.\<close>

theorem icp_round_trip:
  assumes "icp_url_ok (im_url m)" "im_request_number m < 2 ^ 32" "im_version m < 256"
  shows "icp_decode (icp_encode m) sender = Inr (m\<lparr>im_requester := sender\<rparr>)"
  using assms by (rule icp_decode_encode)

text \<open>HTCP messages survive the wire, for URLs in UTF-8 that fit the length field; a message without
  the protocol's magic is refused.\<close>

theorem htcp_round_trip:
  assumes "htcp_url_ok (hm_url m)" "hm_request_number m < 2 ^ 32" "hm_version m < 256"
  shows "htcp_decode (htcp_encode m) = Inr m \<and>
         (12 \<le> length d \<and> take 4 d \<noteq> htcp_magic \<longrightarrow> htcp_decode d = Inl ''invalid HTCP magic'')"
  using htcp_decode_encode [OF assms] by (simp add: htcp_decode_def)

text \<open>A complete exchange in either protocol tells the truth: when the peer's server replies to the
  query, the waiting client ends with a hit exactly when the server's handler has the URL, though
  datagrams from other senders and replies with other request numbers come first.\<close>

theorem query_exchange:
  assumes "icp_url_ok url" "htcp_url_ok url" "n < 2 ^ 32"
    and "icp_answer h (icp_enc IcpQuery n url) = Some r\<^sub>1" "htcp_answer h (htcp_enc HtcpQuery n url) = Some r\<^sub>2"
    and "\<And>addr d. (addr, d) \<in> set noise \<Longrightarrow> addr \<noteq> peer"
  shows "icp_result peer n (noise @ (peer, r\<^sub>1) # ds) = Some (if h url then IcpHit else IcpMiss) \<and>
         htcp_result peer n (noise @ (peer, r\<^sub>2) # ds) = Some (if h url then HtcpHit else HtcpMiss)"
proof
  show "icp_result peer n (noise @ (peer, r\<^sub>1) # ds) = Some (if h url then IcpHit else IcpMiss)"
    by (rule icp.exchange [OF assms(1,3,4)]) (simp add: assms(6))
  show "htcp_result peer n (noise @ (peer, r\<^sub>2) # ds) = Some (if h url then HtcpHit else HtcpMiss)"
    by (rule htcp.exchange [OF assms(2,3,5)]) (simp add: assms(6))
qed

text \<open>(C40) Rounds of queries reuse one request number: a round works on clones of the client and leaves
  its counter as it was, so the reply of a peer to the query of an earlier round, when it
  arrives late, is taken for the reply of the current one. A peer that has the first URL is then
  reported as having the second, whatever it would answer for that.\<close>

theorem late_reply_answers_next_round:
  fixes peer :: 'a
  assumes "icp_url_ok url\<^sub>1" "h url\<^sub>1"
    and "icp_query_peers me [peer] url\<^sub>1 (\<lambda>_. []) c = (res\<^sub>1, c')"
    and "icp_query_peer me peer url\<^sub>1 [] (icp_client_clone c) = (sent\<^sub>1, out\<^sub>1, c\<^sub>1)"
    and "icp_answer h sent\<^sub>1 = Some late"
  shows "c' = c \<and> icp_find_hit me [peer] url\<^sub>2 (\<lambda>_. [(peer, late)]) c' = Some peer"
proof -
  let ?n = "unat (ic_request_counter c)"
  have n: "?n < 2 ^ 32" using unsigned_less [of "ic_request_counter c"] by simp
  have sent: "sent\<^sub>1 = icp_enc IcpQuery ?n url\<^sub>1"
    using assms(4)
    by (auto simp: icp_query_peer_def Let_def icp_client_clone_def icp_query_def icp_encode_enc)
  have "icp_result peer ?n ([] @ [(peer, late)]) = Some (if h url\<^sub>1 then IcpHit else IcpMiss)"
    by (rule icp.exchange [OF assms(1) n]) (use assms(5) sent in auto)
  then have "\<exists>m. icp_await peer ?n [(peer, late)] = Inr m \<and> im_opcode m = IcpHit"
    using assms(2) by (auto simp: icp_result_def split: sum.splits)
  then show ?thesis
    using assms(3)
    by (auto simp: icp_query_peers_def icp_find_hit_def icp_query_peer_def icp_client_clone_def Let_def)
qed

section \<open>Witnesses\<close>

theorem icp_round_trip_witness:
  "icp_decode (icp_encode (icp_query 5 ''http://a/'' (0::nat))) (9::nat) = Inr (icp_query 5 ''http://a/'' 9)"
proof -
  have "icp_url_ok ''http://a/''" by code_simp
  with icp_round_trip [of "icp_query 5 ''http://a/'' (0::nat)" 9] show ?thesis
    by (simp add: icp_query_def icp_version_def)
qed

theorem htcp_round_trip_witness:
  "htcp_decode (htcp_encode (htcp_msg HtcpQuery 5 ''http://a/'')) = Inr (htcp_msg HtcpQuery 5 ''http://a/'')"
proof -
  have "htcp_url_ok ''http://a/''" by code_simp
  with htcp_round_trip [of "htcp_msg HtcpQuery 5 ''http://a/''"] show ?thesis
    by (simp add: htcp_msg_def htcp_version_def)
qed

theorem query_exchange_witness:
  "icp_result (1::nat) 7 ([(2, [])] @ [(1, icp_enc IcpHit 7 [])]) = Some IcpHit \<and>
   htcp_result (1::nat) 7 ([(2, [])] @ [(1, htcp_enc HtcpHit 7 [])]) = Some HtcpHit"
proof -
  have ok: "icp_url_ok ''http://a/''" "htcp_url_ok ''http://a/''" by code_simp+
  have "icp_answer (\<lambda>_. True) (icp_enc IcpQuery 7 ''http://a/'') = Some (icp_enc IcpHit 7 [])"
    "htcp_answer (\<lambda>_. True) (htcp_enc HtcpQuery 7 ''http://a/'') = Some (htcp_enc HtcpHit 7 [])" by code_simp+
  from query_exchange [OF ok _ this, of "[(2, [])]" "1::nat" "[]"] show ?thesis by simp
qed

theorem late_reply_answers_next_round_witness:
  "icp_find_hit (0::nat) [1] ''http://b/'' (\<lambda>_. [(1, icp_enc IcpHit 1 [])]) icp_client_new = Some 1"
proof -
  have ok: "icp_url_ok ''http://a/''" by code_simp
  have q: "icp_query_peers (0::nat) [1] ''http://a/'' (\<lambda>_. []) icp_client_new = ([], icp_client_new)" by code_simp
  have p: "icp_query_peer (0::nat) 1 ''http://a/'' [] (icp_client_clone icp_client_new) =
      (icp_enc IcpQuery 1 ''http://a/'', Inl ''ICP query timeout'', \<lparr>ic_request_counter = 2\<rparr>)" by code_simp
  have a: "icp_answer (\<lambda>u. u = ''http://a/'') (icp_enc IcpQuery 1 ''http://a/'') = Some (icp_enc IcpHit 1 [])"
    by code_simp
  show ?thesis using late_reply_answers_next_round [OF ok _ q p a] by simp
qed

end
