(* ===== verification/Cache_Digest.thy ===== *)
theory Cache_Digest
  imports Wire
begin

text \<open>
  Cache digests (\<^verbatim>\<open>proxy/src/cache_digest.rs\<close>): a Bloom filter over cache keys and the registry of the
  digests of peers. SHA-256 and Base64 are parameters. Bit access past the vector would panic,
  the value \<^const>\<open>None\<close>, as would taking the remainder by a bit count of zero.
\<close>

section \<open>Definitions\<close>

definition default_bit_count :: nat where "default_bit_count = 65536"
definition default_hash_count :: nat where "default_hash_count = 4"

record cache_digest =
  dg_bits :: bytes
  dg_bit_count :: nat
  dg_hash_count :: nat

definition div_ceil8 :: "nat \<Rightarrow> nat" where
  "div_ceil8 n = (n + 7) div 8"

definition digest_new :: "nat \<Rightarrow> nat \<Rightarrow> cache_digest" where
  "digest_new bit_count hash_count =
     \<lparr>dg_bits = replicate (div_ceil8 bit_count) 0, dg_bit_count = bit_count, dg_hash_count = hash_count\<rparr>"

text \<open>\<^verbatim>\<open>u64::from_le_bytes\<close> of the first eight bytes.\<close>

definition of_le :: "bytes \<Rightarrow> nat" where
  "of_le bs = of_be (rev bs)"

definition hash_index :: "(bytes \<Rightarrow> bytes) \<Rightarrow> string \<Rightarrow> nat \<Rightarrow> nat \<Rightarrow> nat option" where
  "hash_index sha256 key seed bit_count =
     (if bit_count = 0 then None
      else Some (of_le (take 8 (sha256 (of_nat seed # char_bytes key))) mod bit_count))"

fun set_bits :: "(bytes \<Rightarrow> bytes) \<Rightarrow> string \<Rightarrow> nat \<Rightarrow> nat list \<Rightarrow> bytes \<Rightarrow> bytes option" where
  "set_bits sha256 key bit_count [] bits = Some bits"
| "set_bits sha256 key bit_count (seed # seeds) bits =
     (case hash_index sha256 key seed bit_count of
        None \<Rightarrow> None
      | Some index \<Rightarrow>
          (if index div 8 < length bits
           then set_bits sha256 key bit_count seeds
                  (bits[index div 8 := or (bits ! (index div 8)) (push_bit (index mod 8) 1)])
           else None))"

definition digest_insert :: "(bytes \<Rightarrow> bytes) \<Rightarrow> string \<Rightarrow> cache_digest \<Rightarrow> cache_digest option" where
  "digest_insert sha256 key d =
     map_option (\<lambda>bits. d\<lparr>dg_bits := bits\<rparr>)
       (set_bits sha256 key (dg_bit_count d) [0..<dg_hash_count d] (dg_bits d))"

fun test_bits :: "(bytes \<Rightarrow> bytes) \<Rightarrow> string \<Rightarrow> nat \<Rightarrow> nat list \<Rightarrow> bytes \<Rightarrow> bool option" where
  "test_bits sha256 key bit_count [] bits = Some True"
| "test_bits sha256 key bit_count (seed # seeds) bits =
     (case hash_index sha256 key seed bit_count of
        None \<Rightarrow> None
      | Some index \<Rightarrow>
          (if index div 8 < length bits
           then (if and (bits ! (index div 8)) (push_bit (index mod 8) 1) = 0 then Some False
                 else test_bits sha256 key bit_count seeds bits)
           else None))"

definition might_contain :: "(bytes \<Rightarrow> bytes) \<Rightarrow> string \<Rightarrow> cache_digest \<Rightarrow> bool option" where
  "might_contain sha256 key d =
     test_bits sha256 key (dg_bit_count d) [0..<dg_hash_count d] (dg_bits d)"

definition digest_from_bytes :: "bytes \<Rightarrow> nat \<Rightarrow> nat \<Rightarrow> cache_digest option" where
  "digest_from_bytes bs bit_count hash_count =
     (if length bs \<noteq> div_ceil8 bit_count then None
      else Some \<lparr>dg_bits = bs, dg_bit_count = bit_count, dg_hash_count = hash_count\<rparr>)"

definition encode_base64 :: "(bytes \<Rightarrow> string) \<Rightarrow> cache_digest \<Rightarrow> string" where
  "encode_base64 b64 d = b64 (dg_bits d)"

definition decode_base64 :: "(string \<Rightarrow> bytes option) \<Rightarrow> string \<Rightarrow> nat \<Rightarrow> nat \<Rightarrow> cache_digest option" where
  "decode_base64 unb64 encoded bit_count hash_count =
     (case unb64 encoded of None \<Rightarrow> None | Some bs \<Rightarrow> digest_from_bytes bs bit_count hash_count)"

subsection \<open>Registry\<close>

record remote_digest =
  rd_digest :: cache_digest
  rd_updated_at :: time

record digest_registry =
  dr_local :: cache_digest
  dr_remote :: "(string, remote_digest) hash_map"
  dr_bit_count :: nat
  dr_hash_count :: nat
  dr_remote_ttl :: duration

definition registry_new :: "nat \<Rightarrow> nat \<Rightarrow> duration \<Rightarrow> digest_registry" where
  "registry_new bit_count hash_count ttl =
     \<lparr>dr_local = digest_new bit_count hash_count, dr_remote = [], dr_bit_count = bit_count,
      dr_hash_count = hash_count, dr_remote_ttl = ttl\<rparr>"

definition insert_cache_key :: "(bytes \<Rightarrow> bytes) \<Rightarrow> string \<Rightarrow> digest_registry \<Rightarrow> digest_registry option" where
  "insert_cache_key sha256 key r =
     map_option (\<lambda>d. r\<lparr>dr_local := d\<rparr>) (digest_insert sha256 key (dr_local r))"

definition local_snapshot_base64 :: "(bytes \<Rightarrow> string) \<Rightarrow> digest_registry \<Rightarrow> string" where
  "local_snapshot_base64 b64 r = encode_base64 b64 (dr_local r)"

definition update_remote ::
  "(string \<Rightarrow> bytes option) \<Rightarrow> time \<Rightarrow> string \<Rightarrow> string \<Rightarrow> digest_registry \<Rightarrow> digest_registry" where
  "update_remote unb64 now peer_id digest_b64 r =
     (case decode_base64 unb64 digest_b64 (dr_bit_count r) (dr_hash_count r) of
        None \<Rightarrow> r
      | Some d \<Rightarrow>
          r\<lparr>dr_remote := AList.update peer_id \<lparr>rd_digest = d, rd_updated_at = now\<rparr> (dr_remote r)\<rparr>)"

text \<open>\<^const>\<open>None\<close> is a panic; otherwise no answer without a recent digest of the peer.\<close>

definition peer_might_have_url ::
  "(bytes \<Rightarrow> bytes) \<Rightarrow> time \<Rightarrow> string \<Rightarrow> string \<Rightarrow> digest_registry \<Rightarrow> bool option option" where
  "peer_might_have_url sha256 now peer_id cache_key r =
     (case map_of (dr_remote r) peer_id of
        None \<Rightarrow> Some None
      | Some entry \<Rightarrow>
          (if now - rd_updated_at entry > dr_remote_ttl r then Some None
           else map_option Some (might_contain sha256 cache_key (rd_digest entry))))"

definition prune_stale_remote :: "time \<Rightarrow> digest_registry \<Rightarrow> digest_registry" where
  "prune_stale_remote now r =
     r\<lparr>dr_remote := filter (\<lambda>(_, entry). now - rd_updated_at entry \<le> dr_remote_ttl r) (dr_remote r)\<rparr>"

subsection \<open>Specification\<close>

definition digest_inv :: "cache_digest \<Rightarrow> bool" where
  "digest_inv d \<longleftrightarrow> length (dg_bits d) = div_ceil8 (dg_bit_count d) \<and> 0 < dg_bit_count d"

definition bit_set :: "bytes \<Rightarrow> nat \<Rightarrow> bool" where
  "bit_set bits i \<longleftrightarrow> i div 8 < length bits \<and> bit (bits ! (i div 8)) (i mod 8)"

text \<open>The position of a key under a seed, for a positive bit count.\<close>

definition slot :: "(bytes \<Rightarrow> bytes) \<Rightarrow> string \<Rightarrow> nat \<Rightarrow> nat \<Rightarrow> nat" where
  "slot sha256 key bit_count seed =
     of_le (take 8 (sha256 (of_nat seed # char_bytes key))) mod bit_count"

section \<open>Lemmas\<close>

lemma hash_index_slot: "0 < n \<Longrightarrow> hash_index sha256 key seed n = Some (slot sha256 key n seed)"
  by (simp add: hash_index_def slot_def)

lemma slot_byte: "0 < n \<Longrightarrow> slot sha256 key n seed div 8 < div_ceil8 n"
proof -
  assume "0 < n"
  then have "slot sha256 key n seed < n" by (simp add: slot_def)
  then show ?thesis by (simp add: div_ceil8_def)
qed

lemma and_exp_iff: "and b (2 ^ k) = 0 \<longleftrightarrow> \<not> bit b k" if "k < 8" for b :: u8
proof -
  have "and b (2 ^ k) = (if bit b k then 2 ^ k else 0)"
    by (rule bit_eqI) (auto simp: bit_and_iff bit_exp_iff)
  moreover have "2 ^ k \<noteq> (0 :: u8)" using that by simp
  ultimately show ?thesis by simp
qed

lemma test_bits_eq:
  "length bits = div_ceil8 n \<Longrightarrow> 0 < n \<Longrightarrow>
     test_bits sha256 key n seeds bits = Some (\<forall>seed \<in> set seeds. bit_set bits (slot sha256 key n seed))"
  by (induction seeds) (auto simp: hash_index_slot slot_byte and_exp_iff bit_set_def)

lemma bit_set_update:
  assumes "i div 8 < length bits"
  shows "bit_set (bits[i div 8 := or (bits ! (i div 8)) (2 ^ (i mod 8))]) j \<longleftrightarrow> bit_set bits j \<or> j = i"
proof -
  have eq: "j = i \<longleftrightarrow> j div 8 = i div 8 \<and> j mod 8 = i mod 8"
    by (metis div_mult_mod_eq)
  show ?thesis
    using assms unfolding bit_set_def eq by (auto simp: nth_list_update bit_or_iff bit_exp_iff)
qed

lemma set_bits_eq:
  "length bits = div_ceil8 n \<Longrightarrow> 0 < n \<Longrightarrow>
     \<exists>bits'. set_bits sha256 key n seeds bits = Some bits' \<and> length bits' = length bits \<and>
       (\<forall>j. bit_set bits' j \<longleftrightarrow> bit_set bits j \<or> j \<in> slot sha256 key n ` set seeds)"
proof (induction seeds arbitrary: bits)
  case (Cons seed seeds)
  let ?i = "slot sha256 key n seed"
  let ?bits = "bits[?i div 8 := or (bits ! (?i div 8)) (2 ^ (?i mod 8))]"
  have i: "?i div 8 < length bits" using Cons.prems slot_byte by simp
  from Cons.IH [of ?bits] Cons.prems obtain bits' where
    "set_bits sha256 key n seeds ?bits = Some bits'" "length bits' = length bits"
    "\<forall>j. bit_set bits' j \<longleftrightarrow> bit_set ?bits j \<or> j \<in> slot sha256 key n ` set seeds" by auto
  with i Cons.prems show ?case by (auto simp: hash_index_slot bit_set_update)
qed simp

lemma digest_insert_bits:
  assumes "digest_inv d"
  shows "\<exists>d'. digest_insert sha256 key d = Some d' \<and> digest_inv d' \<and>
      dg_bit_count d' = dg_bit_count d \<and> dg_hash_count d' = dg_hash_count d \<and>
      (\<forall>j. bit_set (dg_bits d') j \<longleftrightarrow>
         bit_set (dg_bits d) j \<or> j \<in> slot sha256 key (dg_bit_count d) ` {0..<dg_hash_count d})"
proof -
  from assms obtain bits' where
    "set_bits sha256 key (dg_bit_count d) [0..<dg_hash_count d] (dg_bits d) = Some bits'"
    "length bits' = length (dg_bits d)"
    "\<forall>j. bit_set bits' j \<longleftrightarrow>
        bit_set (dg_bits d) j \<or> j \<in> slot sha256 key (dg_bit_count d) ` set [0..<dg_hash_count d]"
    using set_bits_eq [of "dg_bits d" "dg_bit_count d" sha256 key "[0..<dg_hash_count d]"]
    by (auto simp: digest_inv_def)
  with assms show ?thesis by (auto simp: digest_insert_def digest_inv_def)
qed

lemma might_contain_eq:
  "digest_inv d \<Longrightarrow> might_contain sha256 key d =
     Some (\<forall>seed \<in> {0..<dg_hash_count d}. bit_set (dg_bits d) (slot sha256 key (dg_bit_count d) seed))"
  by (simp add: might_contain_def test_bits_eq digest_inv_def)

lemma digest_new_inv: "0 < n \<Longrightarrow> digest_inv (digest_new n k)"
  by (simp add: digest_inv_def digest_new_def)

text \<open>A sequence of insertions.\<close>

fun digest_inserts :: "(bytes \<Rightarrow> bytes) \<Rightarrow> string list \<Rightarrow> cache_digest \<Rightarrow> cache_digest option" where
  "digest_inserts sha256 [] d = Some d"
| "digest_inserts sha256 (k # ks) d =
     (case digest_insert sha256 k d of None \<Rightarrow> None | Some d' \<Rightarrow> digest_inserts sha256 ks d')"

lemma digest_inserts_bits:
  "digest_inv d \<Longrightarrow>
     \<exists>d'. digest_inserts sha256 ks d = Some d' \<and> digest_inv d' \<and>
       dg_bit_count d' = dg_bit_count d \<and> dg_hash_count d' = dg_hash_count d \<and>
       (\<forall>j. bit_set (dg_bits d') j \<longleftrightarrow>
          bit_set (dg_bits d) j \<or> (\<exists>k \<in> set ks. j \<in> slot sha256 k (dg_bit_count d) ` {0..<dg_hash_count d}))"
proof (induction ks arbitrary: d)
  case (Cons k ks)
  from digest_insert_bits [OF Cons.prems, of sha256 k] obtain d1 where
    d1: "digest_insert sha256 k d = Some d1" "digest_inv d1" "dg_bit_count d1 = dg_bit_count d"
    "dg_hash_count d1 = dg_hash_count d"
    "\<forall>j. bit_set (dg_bits d1) j \<longleftrightarrow>
       bit_set (dg_bits d) j \<or> j \<in> slot sha256 k (dg_bit_count d) ` {0..<dg_hash_count d}" by blast
  from Cons.IH [OF d1(2)] d1 show ?case by auto
qed auto

section \<open>Properties\<close>

text \<open>A digest has no false negatives: after any insertions every inserted key is reported as possibly
  contained. A key is reported exactly when all its bits are among those of the inserted keys,
  and neither insertion nor test panics for a positive bit count.\<close>

theorem digest_no_false_negatives:
  assumes "0 < n"
  shows "\<exists>d. digest_inserts sha256 keys (digest_new n k) = Some d \<and>
    (\<forall>key \<in> set keys. might_contain sha256 key d = Some True) \<and>
    (\<forall>key. might_contain sha256 key d =
       Some (\<forall>seed \<in> {0..<k}. \<exists>key' \<in> set keys. \<exists>seed' \<in> {0..<k}. slot sha256 key n seed = slot sha256 key' n seed'))"
proof -
  from digest_inserts_bits [OF digest_new_inv [OF assms, of k], of sha256 keys] obtain d where
    d: "digest_inserts sha256 keys (digest_new n k) = Some d" "digest_inv d" "dg_bit_count d = n" "dg_hash_count d = k"
    and bits: "\<And>j. bit_set (dg_bits d) j \<longleftrightarrow> bit_set (dg_bits (digest_new n k)) j \<or>
       (\<exists>key \<in> set keys. j \<in> slot sha256 key n ` {0..<k})"
    by (auto simp: digest_new_def)
  have "\<not> bit_set (dg_bits (digest_new n k)) j" for j
    by (auto simp: bit_set_def digest_new_def)
  with bits have bits': "bit_set (dg_bits d) j \<longleftrightarrow>
      (\<exists>key' \<in> set keys. \<exists>seed' \<in> {0..<k}. j = slot sha256 key' n seed')" for j
    unfolding image_iff by blast
  have "might_contain sha256 key d = Some (\<forall>seed \<in> {0..<k}. \<exists>key' \<in> set keys. \<exists>seed' \<in> {0..<k}.
      slot sha256 key n seed = slot sha256 key' n seed')" for key
    unfolding might_contain_eq [OF d(2)] d(3,4) bits' ..
  with d(1) show ?thesis by auto
qed

text \<open>Publishing works: a digest sent as Base64 and registered by a peer with the same sizes answers
  there exactly as at its origin, until its lifetime has passed; then, and after pruning, there is
  no answer.\<close>

theorem remote_digest_answers:
  assumes "unb64 (b64 (dg_bits d)) = Some (dg_bits d)" "digest_inv d"
    and "dg_bit_count d = dr_bit_count r" "dg_hash_count d = dr_hash_count r"
  shows "peer_might_have_url sha256 t peer key (update_remote unb64 now peer (encode_base64 b64 d) r) =
           (if t - now \<le> dr_remote_ttl r then map_option Some (might_contain sha256 key d) else Some None)"
proof -
  have "digest_from_bytes (dg_bits d) (dr_bit_count r) (dr_hash_count r) = Some d"
    using assms(2-4) by (simp add: digest_from_bytes_def digest_inv_def)
  with assms(1) show ?thesis
    by (simp add: update_remote_def decode_base64_def encode_base64_def peer_might_have_url_def)
qed

section \<open>Witnesses\<close>

text \<open>A stand-in for the hash: the bytes themselves, padded.\<close>

definition demo_sha :: "bytes \<Rightarrow> bytes" where
  "demo_sha bs = bs @ replicate 32 0"

theorem digest_no_false_negatives_witness:
  "\<exists>d. digest_inserts demo_sha [''a'', ''b''] (digest_new 64 4) = Some d \<and>
       might_contain demo_sha ''a'' d = Some True"
  using digest_no_false_negatives [of 64 demo_sha "[''a'', ''b'']" 4] by auto

theorem remote_digest_answers_witness:
  "peer_might_have_url demo_sha 10 ''p'' ''a''
     (update_remote (\<lambda>s. Some (char_bytes s)) 5 ''p'' (encode_base64 byte_chars (digest_new 64 4))
        (registry_new 64 4 300)) = map_option Some (might_contain demo_sha ''a'' (digest_new 64 4))"
  using remote_digest_answers [of "\<lambda>s. Some (char_bytes s)" byte_chars "digest_new 64 4" "registry_new 64 4 300"
      demo_sha 10 "''p''" "''a''" 5] digest_new_inv [of 64 4]
  by (simp add: registry_new_def digest_new_def)

end
