(* ===== verification/Cache_Freshness.thy ===== *)
theory Cache_Freshness
  imports Prelude
begin

text \<open>
  HTTP freshness (\<^verbatim>\<open>proxy/src/cache_freshness.rs\<close>) and the cache configuration it reads
  (\<^verbatim>\<open>CacheConfig\<close> in \<^verbatim>\<open>proxy/src/cache.rs\<close>, \<^verbatim>\<open>CompressionConfig\<close> in \<^verbatim>\<open>cache_compress.rs\<close>):
  parsing \<^verbatim>\<open>Cache-Control\<close>, and whether, for how long and with which validators a response
  is stored. Environment variables are a function \<open>env\<close> from names to values.
\<close>

section \<open>Definitions\<close>

subsection \<open>Configuration\<close>

datatype body_encoding = Raw | Zstd | Brotli

definition from_wire :: "string \<Rightarrow> body_encoding option" where
  "from_wire s =
     (let l = to_ascii_lowercase s in
      if l = ''zstd'' then Some Zstd else if l = ''brotli'' then Some Brotli else None)"

fun wire_name :: "body_encoding \<Rightarrow> string" where
  "wire_name Raw = ''raw''"
| "wire_name Zstd = ''zstd''"
| "wire_name Brotli = ''brotli''"

record compression_config =
  cm_codec :: body_encoding
  cm_min_bytes :: nat
  cm_zstd_level :: int

definition compression_default :: compression_config where
  "compression_default = \<lparr>cm_codec = Raw, cm_min_bytes = 1024, cm_zstd_level = 3\<rparr>"

definition parse_i32 :: "string \<Rightarrow> int option" where
  "parse_i32 s =
     (case s of
        [] \<Rightarrow> None
      | c # cs \<Rightarrow>
          (if c = CHR ''-'' then
             (if cs = [] then None
              else map_option (\<lambda>n. - int n) (parse_digits 2147483648 0 cs))
           else map_option int (parse_uint 2147483647 s)))"

definition compression_from_env :: "(string \<Rightarrow> string option) \<Rightarrow> compression_config" where
  "compression_from_env env =
     (let codec =
            (case env ''CACHE_COMPRESSION'' of
               None \<Rightarrow> Raw
             | Some v \<Rightarrow>
                 (let l = to_ascii_lowercase v in
                  if l = ''zstd'' then Zstd else if l = ''brotli'' then Brotli else Raw));
          zstd_level =
            (case env ''CACHE_COMPRESS_ZSTD_LEVEL'' of
               None \<Rightarrow> 3
             | Some s \<Rightarrow> (case parse_i32 s of None \<Rightarrow> 3 | Some n \<Rightarrow> n))
      in \<lparr>cm_codec = codec,
          cm_min_bytes = env_uint env u64_max ''CACHE_COMPRESS_MIN_BYTES'' 1024,
          cm_zstd_level = zstd_level\<rparr>)"

definition compression_is_enabled :: "compression_config \<Rightarrow> bool" where
  "compression_is_enabled c \<longleftrightarrow> cm_codec c \<noteq> Raw"

record cache_config =
  cc_capacity :: nat
  cc_default_ttl :: duration
  cc_max_body_size :: nat
  cc_compression :: compression_config
  cc_negative_cache_enabled :: bool
  cc_negative_cache_ttl :: duration
  cc_honor_cache_control :: bool
  cc_spill_threshold_bytes :: nat
  cc_spill_dir :: string
  cc_shard_count :: nat

definition path_join :: "string \<Rightarrow> string \<Rightarrow> string" where
  "path_join d f = (if d = [] \<or> last d = CHR ''/'' then d @ f else d @ ''/'' @ f)"

definition cache_config_default :: "string \<Rightarrow> cache_config" where
  "cache_config_default temp_dir =
     \<lparr>cc_capacity = 10000, cc_default_ttl = from_secs 3600, cc_max_body_size = 10 * 1024 * 1024,
      cc_compression = compression_default, cc_negative_cache_enabled = True,
      cc_negative_cache_ttl = from_secs 120, cc_honor_cache_control = True,
      cc_spill_threshold_bytes = 256 * 1024,
      cc_spill_dir = path_join temp_dir ''bsdm-cache-spill'', cc_shard_count = 16\<rparr>"

definition env_on :: "(string \<Rightarrow> string option) \<Rightarrow> string \<Rightarrow> bool" where
  "env_on env k =
     (case env k of
        None \<Rightarrow> True
      | Some v \<Rightarrow> \<not> List.member [''0'', ''false'', ''no''] (to_ascii_lowercase v))"

definition cache_config_from_env :: "(string \<Rightarrow> string option) \<Rightarrow> string \<Rightarrow> cache_config" where
  "cache_config_from_env env temp_dir =
     \<lparr>cc_capacity = env_uint env u64_max ''CACHE_CAPACITY'' 10000,
      cc_default_ttl = from_secs (env_uint env u64_max ''CACHE_TTL_SECONDS'' 3600),
      cc_max_body_size = env_uint env u64_max ''MAX_CACHE_BODY_SIZE'' (10 * 1024 * 1024),
      cc_compression = compression_from_env env,
      cc_negative_cache_enabled = env_on env ''NEGATIVE_CACHE_ENABLED'',
      cc_negative_cache_ttl = from_secs (env_uint env u64_max ''NEGATIVE_CACHE_TTL_SECONDS'' 120),
      cc_honor_cache_control = env_on env ''CACHE_HONOR_CACHE_CONTROL'',
      cc_spill_threshold_bytes = env_uint env u64_max ''CACHE_SPILL_THRESHOLD_BYTES'' (256 * 1024),
      cc_spill_dir =
        (case env ''CACHE_SPILL_DIR'' of
           Some d \<Rightarrow> d | None \<Rightarrow> path_join temp_dir ''bsdm-cache-spill''),
      cc_shard_count = env_uint env u64_max ''CACHE_SHARDS'' 16\<rparr>"

definition cacheable_methods :: "string list" where
  "cacheable_methods = [''GET'', ''HEAD'']"

definition cacheable_status_codes :: "nat list" where
  "cacheable_status_codes = [200, 203, 204, 206, 300, 301, 404, 405, 410, 414, 501]"

definition is_cacheable :: "string \<Rightarrow> nat \<Rightarrow> nat \<Rightarrow> nat \<Rightarrow> bool" where
  "is_cacheable meth status body_size max_body_size \<longleftrightarrow>
     List.member cacheable_methods meth \<and> List.member cacheable_status_codes status \<and>
     body_size \<le> max_body_size"

subsection \<open>Cache-Control\<close>

record cache_control_directives =
  cd_no_store :: bool
  cd_no_cache :: bool
  cd_max_age :: "nat option"
  cd_s_maxage :: "nat option"
  cd_private :: bool

definition directives_default :: cache_control_directives where
  "directives_default =
     \<lparr>cd_no_store = False, cd_no_cache = False, cd_max_age = None, cd_s_maxage = None,
      cd_private = False\<rparr>"

record cache_store_decision =
  sd_store :: bool
  sd_ttl :: duration
  sd_is_negative :: bool
  sd_must_revalidate :: bool
  sd_etag :: "string option"
  sd_last_modified :: "string option"

definition decision_bypass :: cache_store_decision where
  "decision_bypass =
     \<lparr>sd_store = False, sd_ttl = 0, sd_is_negative = False, sd_must_revalidate = False,
      sd_etag = None, sd_last_modified = None\<rparr>"

definition miss_x_cache_status_header :: "bool \<Rightarrow> cache_store_decision \<Rightarrow> string" where
  "miss_x_cache_status_header streaming precheck =
     (if \<not> sd_store precheck then ''BYPASS''
      else if sd_is_negative precheck then
        (if streaming then ''NEGATIVE-MISS-STREAMING'' else ''NEGATIVE-MISS'')
      else if streaming then ''MISS-STREAMING''
      else ''MISS'')"

definition cache_status_metric_label :: "string \<Rightarrow> string" where
  "cache_status_metric_label header_label =
     map (\<lambda>c. if c = CHR ''-'' then CHR ''_'' else c) header_label"

definition cc_token :: "string \<Rightarrow> string \<times> string option" where
  "cc_token token =
     (case split_once CHR ''='' token of
        Some (n, v) \<Rightarrow> (to_ascii_lowercase (trim n), Some (trim v))
      | None \<Rightarrow> (to_ascii_lowercase token, None))"

definition cc_arg :: "string option \<Rightarrow> nat option" where
  "cc_arg arg = (case arg of None \<Rightarrow> None | Some s \<Rightarrow> parse_uint u64_max s)"

definition cc_part :: "string \<Rightarrow> cache_control_directives \<Rightarrow> cache_control_directives" where
  "cc_part part d =
     (let token = trim part in
      if token = [] then d
      else
        (let (name, arg) = cc_token token in
         if name = ''no-store'' then d\<lparr>cd_no_store := True\<rparr>
         else if name = ''no-cache'' then d\<lparr>cd_no_cache := True\<rparr>
         else if name = ''private'' then d\<lparr>cd_private := True\<rparr>
         else if name = ''max-age'' then
           (case cc_arg arg of None \<Rightarrow> d | Some v \<Rightarrow> d\<lparr>cd_max_age := Some v\<rparr>)
         else if name = ''s-maxage'' then
           (case cc_arg arg of None \<Rightarrow> d | Some v \<Rightarrow> d\<lparr>cd_s_maxage := Some v\<rparr>)
         else d))"

definition parse_cache_control :: "string \<Rightarrow> cache_control_directives" where
  "parse_cache_control value = fold cc_part (split_char CHR '','' value) directives_default"

text \<open>The first header whose name agrees up to ASCII case, in iteration order.\<close>

definition header_value :: "headers \<Rightarrow> string \<Rightarrow> string option" where
  "header_value hs name = map_option snd (find (\<lambda>(k, _). eq_ignore_ascii_case k name) hs)"

definition is_negative_status :: "nat \<Rightarrow> bool" where
  "is_negative_status status \<longleftrightarrow> status = 403 \<or> status = 404"

definition content_length :: "headers \<Rightarrow> nat option" where
  "content_length hs =
     (case header_value hs ''content-length'' of None \<Rightarrow> None | Some v \<Rightarrow> parse_uint u64_max v)"

definition ttl_from_directives :: "cache_control_directives \<Rightarrow> duration \<Rightarrow> duration" where
  "ttl_from_directives d default_ttl =
     (case (case cd_s_maxage d of Some a \<Rightarrow> Some a | None \<Rightarrow> cd_max_age d) of
        Some age \<Rightarrow> from_secs age
      | None \<Rightarrow> default_ttl)"

definition response_directives :: "headers \<Rightarrow> cache_control_directives" where
  "response_directives hs =
     (case header_value hs ''cache-control'' of
        None \<Rightarrow> directives_default | Some v \<Rightarrow> parse_cache_control v)"

definition evaluate_store ::
  "string \<Rightarrow> nat \<Rightarrow> headers \<Rightarrow> nat \<Rightarrow> cache_config \<Rightarrow> cache_store_decision" where
  "evaluate_store meth status hs body_size config =
     (if \<not> List.member cacheable_methods meth then decision_bypass
      else if body_size > cc_max_body_size config then decision_bypass
      else
        (let cache_control = response_directives hs in
         if cd_no_store cache_control then decision_bypass
         else if cd_private cache_control then decision_bypass
         else
           (let negative = is_negative_status status in
            if negative \<and> \<not> cc_negative_cache_enabled config then decision_bypass
            else if \<not> negative \<and> \<not> List.member cacheable_status_codes status then decision_bypass
            else
              (let (ttl, must_revalidate) =
                     (if negative then (cc_negative_cache_ttl config, False)
                      else if cc_honor_cache_control config then
                        (ttl_from_directives cache_control (cc_default_ttl config),
                         cd_no_cache cache_control)
                      else (cc_default_ttl config, False))
               in \<lparr>sd_store = True, sd_ttl = ttl, sd_is_negative = negative,
                   sd_must_revalidate = must_revalidate,
                   sd_etag = header_value hs ''etag'',
                   sd_last_modified = header_value hs ''last-modified''\<rparr>))))"

definition evaluate_store_precheck ::
  "string \<Rightarrow> nat \<Rightarrow> headers \<Rightarrow> cache_config \<Rightarrow> cache_store_decision" where
  "evaluate_store_precheck meth status hs config =
     (let size_hint = (case content_length hs of None \<Rightarrow> 0 | Some n \<Rightarrow> n) in
      evaluate_store meth status hs size_hint config)"

definition refresh_ttl_from_headers :: "headers \<Rightarrow> duration \<Rightarrow> duration" where
  "refresh_ttl_from_headers hs default_ttl =
     ttl_from_directives (response_directives hs) default_ttl"

subsection \<open>Specification\<close>

text \<open>The directives of a header value as name and argument, and their meaning one at a time.\<close>

definition cc_tokens :: "string \<Rightarrow> (string \<times> string option) list" where
  "cc_tokens value = map cc_token (filter (\<lambda>t. t \<noteq> []) (map trim (split_char CHR '','' value)))"

text \<open>The last well-formed argument of a directive.\<close>

fun cc_last :: "string \<Rightarrow> (string \<times> string option) list \<Rightarrow> nat option" where
  "cc_last n [] = None"
| "cc_last n ((m, arg) # ts) =
     (case cc_last n ts of
        Some v \<Rightarrow> Some v
      | None \<Rightarrow> if m = n then cc_arg arg else None)"

text \<open>Directives written out in the order of the record.\<close>

definition cc_opt :: "bool \<Rightarrow> string \<Rightarrow> string list" where
  "cc_opt b s = (if b then [s] else [])"

definition cc_age :: "string \<Rightarrow> nat option \<Rightarrow> string list" where
  "cc_age n a = (case a of None \<Rightarrow> [] | Some v \<Rightarrow> [n @ ''='' @ show_nat v])"

definition render_cache_control :: "cache_control_directives \<Rightarrow> string" where
  "render_cache_control d =
     join '',''
       (cc_opt (cd_no_store d) ''no-store'' @ cc_opt (cd_no_cache d) ''no-cache'' @
        cc_age ''max-age'' (cd_max_age d) @ cc_age ''s-maxage'' (cd_s_maxage d) @
        cc_opt (cd_private d) ''private'')"

text \<open>When a response may be stored.\<close>

definition may_store :: "string \<Rightarrow> nat \<Rightarrow> headers \<Rightarrow> nat \<Rightarrow> cache_config \<Rightarrow> bool" where
  "may_store meth status hs body_size config \<longleftrightarrow>
     meth \<in> {''GET'', ''HEAD''} \<and> body_size \<le> cc_max_body_size config \<and>
     \<not> cd_no_store (response_directives hs) \<and> \<not> cd_private (response_directives hs) \<and>
     (if status \<in> {403, 404} then cc_negative_cache_enabled config
      else status \<in> set cacheable_status_codes)"

section \<open>Lemmas\<close>

subsection \<open>Parsing Cache-Control\<close>

lemma cc_last_append:
  "cc_last n (ts @ us) = (case cc_last n us of Some v \<Rightarrow> Some v | None \<Rightarrow> cc_last n ts)"
  by (induction ts) (auto split: option.splits)


lemma fold_cc_part:
  fixes ps :: "string list"
  defines "ts \<equiv> map cc_token (filter (\<lambda>t. t \<noteq> []) (map trim ps))"
  shows "cd_no_store (fold cc_part ps d) \<longleftrightarrow> cd_no_store d \<or> ''no-store'' \<in> fst ` set ts"
    and "cd_no_cache (fold cc_part ps d) \<longleftrightarrow> cd_no_cache d \<or> ''no-cache'' \<in> fst ` set ts"
    and "cd_private (fold cc_part ps d) \<longleftrightarrow> cd_private d \<or> ''private'' \<in> fst ` set ts"
    and "cd_max_age (fold cc_part ps d) =
           (case cc_last ''max-age'' ts of Some v \<Rightarrow> Some v | None \<Rightarrow> cd_max_age d)"
    and "cd_s_maxage (fold cc_part ps d) =
           (case cc_last ''s-maxage'' ts of Some v \<Rightarrow> Some v | None \<Rightarrow> cd_s_maxage d)"
  unfolding ts_def
  by (induction ps arbitrary: d)
    (auto simp: cc_part_def Let_def split: option.splits prod.splits)

lemma set_append_disjoint: "set a \<inter> X = {} \<Longrightarrow> set b \<inter> X = {} \<Longrightarrow> set (a @ b) \<inter> X = {}"
  by auto

lemma trim_age:
  assumes "set n \<inter> set (concat white_space) = {}"
  shows "trim (n @ ''='' @ show_nat v) = n @ ''='' @ show_nat v"
proof (rule trim_id, intro set_append_disjoint)
  show "set ''='' \<inter> set (concat white_space) = {}" by code_simp
  show "set (show_nat v) \<inter> set (concat white_space) = {}"
    using digit_not_white_space show_nat_digits by blast
qed (rule assms)

lemma cc_token_age:
  assumes "CHR ''='' \<notin> set n" "trim n = n" "to_ascii_lowercase n = n" "v \<le> u64_max"
  shows "cc_token (n @ ''='' @ show_nat v) = (n, Some (show_nat v))"
    and "cc_arg (Some (show_nat v)) = Some v"
  using assms split_once_append [OF assms(1), of "show_nat v"]
  by (simp_all add: cc_token_def cc_arg_def parse_uint_show_nat)

lemma cc_part_opt:
  "cc_part ''no-store'' d = d\<lparr>cd_no_store := True\<rparr>"
  "cc_part ''no-cache'' d = d\<lparr>cd_no_cache := True\<rparr>"
  "cc_part ''private'' d = d\<lparr>cd_private := True\<rparr>"
proof -
  have "trim ''no-store'' = ''no-store''" "trim ''no-cache'' = ''no-cache''"
    "trim ''private'' = ''private''"
    "cc_token ''no-store'' = (''no-store'', None)" "cc_token ''no-cache'' = (''no-cache'', None)"
    "cc_token ''private'' = (''private'', None)"
    by code_simp+
  then show "cc_part ''no-store'' d = d\<lparr>cd_no_store := True\<rparr>"
    "cc_part ''no-cache'' d = d\<lparr>cd_no_cache := True\<rparr>"
    "cc_part ''private'' d = d\<lparr>cd_private := True\<rparr>"
    by (simp_all add: cc_part_def)
qed

lemma cc_part_age:
  assumes "v \<le> u64_max"
  shows "cc_part (''max-age'' @ ''='' @ show_nat v) d = d\<lparr>cd_max_age := Some v\<rparr>"
    and "cc_part (''s-maxage'' @ ''='' @ show_nat v) d = d\<lparr>cd_s_maxage := Some v\<rparr>"
proof -
  have ma: "set ''max-age'' \<inter> set (concat white_space) = {}" "CHR ''='' \<notin> set ''max-age''"
    "trim ''max-age'' = ''max-age''" "to_ascii_lowercase ''max-age'' = ''max-age''"
    and sa: "set ''s-maxage'' \<inter> set (concat white_space) = {}" "CHR ''='' \<notin> set ''s-maxage''"
    "trim ''s-maxage'' = ''s-maxage''" "to_ascii_lowercase ''s-maxage'' = ''s-maxage''"
    by code_simp+
  show "cc_part (''max-age'' @ ''='' @ show_nat v) d = d\<lparr>cd_max_age := Some v\<rparr>"
    unfolding cc_part_def trim_age [OF ma(1)] cc_token_age(1) [OF ma(2-4) assms] Let_def
    using cc_token_age(2) [OF ma(2-4) assms] by simp
  show "cc_part (''s-maxage'' @ ''='' @ show_nat v) d = d\<lparr>cd_s_maxage := Some v\<rparr>"
    unfolding cc_part_def trim_age [OF sa(1)] cc_token_age(1) [OF sa(2-4) assms] Let_def
    using cc_token_age(2) [OF sa(2-4) assms] by simp
qed

lemma comma_free:
  "w \<in> set (cc_opt b ''no-store'') \<Longrightarrow> CHR '','' \<notin> set w"
  "w \<in> set (cc_opt b ''no-cache'') \<Longrightarrow> CHR '','' \<notin> set w"
  "w \<in> set (cc_opt b ''private'') \<Longrightarrow> CHR '','' \<notin> set w"
  "w \<in> set (cc_age ''max-age'' a) \<Longrightarrow> CHR '','' \<notin> set w"
  "w \<in> set (cc_age ''s-maxage'' a) \<Longrightarrow> CHR '','' \<notin> set w"
proof -
  have "CHR '','' \<notin> set (show_nat v)" for v
    using show_nat_digits [of "CHR '',''" v] by (auto simp: is_ascii_digit_def)
  then show
    "w \<in> set (cc_opt b ''no-store'') \<Longrightarrow> CHR '','' \<notin> set w"
    "w \<in> set (cc_opt b ''no-cache'') \<Longrightarrow> CHR '','' \<notin> set w"
    "w \<in> set (cc_opt b ''private'') \<Longrightarrow> CHR '','' \<notin> set w"
    "w \<in> set (cc_age ''max-age'' a) \<Longrightarrow> CHR '','' \<notin> set w"
    "w \<in> set (cc_age ''s-maxage'' a) \<Longrightarrow> CHR '','' \<notin> set w"
    by (auto simp: cc_opt_def cc_age_def split: if_splits option.splits)
qed

lemma parse_join:
  assumes "\<And>w. w \<in> set ws \<Longrightarrow> CHR '','' \<notin> set w"
  shows "parse_cache_control (join '','' ws) = fold cc_part ws directives_default"
proof (cases "ws = []")
  case True
  have "trim [] = []" by code_simp
  with True show ?thesis by (simp add: parse_cache_control_def cc_part_def)
next
  case False
  with assms show ?thesis by (simp add: parse_cache_control_def split_char_join)
qed

lemma fold_cc_opt: "fold cc_part (cc_opt b ''no-store'') d = (if b then d\<lparr>cd_no_store := True\<rparr> else d)"
  "fold cc_part (cc_opt b ''no-cache'') d = (if b then d\<lparr>cd_no_cache := True\<rparr> else d)"
  "fold cc_part (cc_opt b ''private'') d = (if b then d\<lparr>cd_private := True\<rparr> else d)"
  by (simp_all add: cc_opt_def cc_part_opt)

lemma fold_cc_age:
  assumes "\<And>v. a = Some v \<Longrightarrow> v \<le> u64_max"
  shows "fold cc_part (cc_age ''max-age'' a) d = (case a of None \<Rightarrow> d | Some v \<Rightarrow> d\<lparr>cd_max_age := Some v\<rparr>)"
    and "fold cc_part (cc_age ''s-maxage'' a) d = (case a of None \<Rightarrow> d | Some v \<Rightarrow> d\<lparr>cd_s_maxage := Some v\<rparr>)"
  using assms by (cases a; simp add: cc_age_def cc_part_age [simplified])+

lemma header_value_Cons:
  "header_value ((k, v) # hs) n = (if eq_ignore_ascii_case k n then Some v else header_value hs n)"
  by (simp add: header_value_def)

lemma sd_store_iff: "sd_store (evaluate_store meth status hs n config) \<longleftrightarrow> may_store meth status hs n config"
  by (auto simp: evaluate_store_def may_store_def is_negative_status_def Let_def
      cacheable_methods_def decision_bypass_def)

lemma evaluate_store_size:
  "may_store meth status hs n config \<Longrightarrow> may_store meth status hs m config \<Longrightarrow>
     evaluate_store meth status hs m config = evaluate_store meth status hs n config"
  by (simp add: evaluate_store_def may_store_def)

section \<open>Properties\<close>

text \<open>Parsing keeps exactly the directives the shared cache needs: a flag is set when some
  comma-separated part carries its name, in any letter case and with or without an argument,
  and each age is the last well-formed one.\<close>

theorem parse_cache_control_meaning:
  "cd_no_store (parse_cache_control v) = (''no-store'' \<in> fst ` set (cc_tokens v)) \<and>
   cd_no_cache (parse_cache_control v) = (''no-cache'' \<in> fst ` set (cc_tokens v)) \<and>
   cd_private (parse_cache_control v) = (''private'' \<in> fst ` set (cc_tokens v)) \<and>
   cd_max_age (parse_cache_control v) = cc_last ''max-age'' (cc_tokens v) \<and>
   cd_s_maxage (parse_cache_control v) = cc_last ''s-maxage'' (cc_tokens v)"
  unfolding parse_cache_control_def cc_tokens_def
  by (simp add: fold_cc_part directives_default_def split: option.splits)



text \<open>The check before the body is known never turns away a response that would be stored once it
  is known, provided the declared length is not above the limit; and when it declares its true
  length both checks agree.\<close>

theorem precheck_sound:
  assumes "sd_store (evaluate_store meth status hs n config)"
    and "\<And>m. content_length hs = Some m \<Longrightarrow> m \<le> cc_max_body_size config"
  shows "evaluate_store_precheck meth status hs config = evaluate_store meth status hs n config"
proof -
  have n: "may_store meth status hs n config"
    using assms(1) by (simp add: sd_store_iff)
  then have "may_store meth status hs (case content_length hs of None \<Rightarrow> 0 | Some n \<Rightarrow> n) config"
    using assms(2) by (auto simp: may_store_def split: option.splits)
  from evaluate_store_size [OF n this] show ?thesis
    by (simp add: evaluate_store_precheck_def Let_def)
qed

section \<open>Witnesses\<close>


definition demo_headers :: headers where
  "demo_headers = [(''Cache-Control'', ''public, Max-Age=60''), (''Content-Length'', ''5'')]"

theorem precheck_sound_witness:
  "evaluate_store_precheck ''GET'' 200 demo_headers (cache_config_default ''/tmp'') =
     evaluate_store ''GET'' 200 demo_headers 5 (cache_config_default ''/tmp'') \<and>
   sd_ttl (evaluate_store ''GET'' 200 demo_headers 5 (cache_config_default ''/tmp'')) = from_secs 60"
proof -
  have "sd_store (evaluate_store ''GET'' 200 demo_headers 5 (cache_config_default ''/tmp''))"
    "content_length demo_headers = Some 5"
    "sd_ttl (evaluate_store ''GET'' 200 demo_headers 5 (cache_config_default ''/tmp'')) = from_secs 60"
    by code_simp+
  then show ?thesis
    using precheck_sound [of "''GET''" 200 demo_headers 5 "cache_config_default ''/tmp''"]
    by (simp add: cache_config_default_def)
qed

end
