(* ===== verification/Cache_Entry.thy ===== *)
theory Cache_Entry
  imports Cache_Freshness
begin

text \<open>
  Cached responses (\<^verbatim>\<open>proxy/src/cache.rs\<close>), their bodies at rest (\<^verbatim>\<open>cache_compress.rs\<close>,
  \<^verbatim>\<open>cache_body.rs\<close>) and the cache key (\<^verbatim>\<open>cache_key.rs\<close>).

  Parameters: \<open>codec_lib\<close> stands for the zstd and brotli crates, \<open>http_lib\<close> for the status, header
  name and header value checks of the http crate, \<open>spill_io\<close> for writing a spill file and mapping
  it back (\<^const>\<open>None\<close> on an I/O error), \<open>sha256\<close> and \<open>hex\<close> for the digest crates.
\<close>

section \<open>Definitions\<close>

subsection \<open>Libraries\<close>

record codec_lib =
  zstd_encode_all :: "int \<Rightarrow> string \<Rightarrow> string option"
  zstd_decode_all :: "string \<Rightarrow> string option"
  brotli_compress :: "string \<Rightarrow> string option"
  brotli_decompress :: "string \<Rightarrow> string option"

text \<open>What the two codecs document: decompression inverts compression.\<close>

definition codec_law :: "codec_lib \<Rightarrow> bool" where
  "codec_law lib \<longleftrightarrow>
     (\<forall>level b c. zstd_encode_all lib level b = Some c \<longrightarrow> zstd_decode_all lib c = Some b) \<and>
     (\<forall>b c. brotli_compress lib b = Some c \<longrightarrow> brotli_decompress lib c = Some b)"

text \<open>A mapped spill file holds the bytes that were written to it.\<close>

definition spill_law :: "(string \<Rightarrow> string option) \<Rightarrow> bool" where
  "spill_law spill_io \<longleftrightarrow> (\<forall>d m. spill_io d = Some m \<longrightarrow> m = d)"

record http_lib =
  status_from_u16 :: "nat \<Rightarrow> nat option"
  header_name_from_bytes :: "string \<Rightarrow> string option"
  header_value_from_str :: "string \<Rightarrow> string option"

text \<open>
  What the http crate documents: a header name is its lower-case form, a header value made
  from text has that text, and visible ASCII is accepted.
\<close>

definition http_law :: "http_lib \<Rightarrow> bool" where
  "http_law lib \<longleftrightarrow>
     (\<forall>k n. header_name_from_bytes lib k = Some n \<longrightarrow> n = to_ascii_lowercase k) \<and>
     (\<forall>s v. header_value_from_str lib s = Some v \<longrightarrow> v = s) \<and>
     (\<forall>s. (\<forall>c \<in> set s. 32 \<le> (of_char c :: nat) \<and> (of_char c :: nat) < 127) \<longrightarrow>
          header_value_from_str lib s = Some s)"

subsection \<open>Compression\<close>

definition decode_body :: "codec_lib \<Rightarrow> string \<Rightarrow> body_encoding \<Rightarrow> string option" where
  "decode_body lib body encoding =
     (case encoding of
        Raw \<Rightarrow> Some body
      | Zstd \<Rightarrow> zstd_decode_all lib body
      | Brotli \<Rightarrow> brotli_decompress lib body)"

definition compress_zstd :: "codec_lib \<Rightarrow> string \<Rightarrow> int \<Rightarrow> string option" where
  "compress_zstd lib body level = zstd_encode_all lib level body"

definition compress_brotli :: "codec_lib \<Rightarrow> string \<Rightarrow> string option" where
  "compress_brotli lib body = brotli_compress lib body"

definition has_content_encoding :: "headers \<Rightarrow> bool" where
  "has_content_encoding hs \<longleftrightarrow> (\<exists>(k, _) \<in> set hs. eq_ignore_ascii_case k ''content-encoding'')"

definition strip_length_headers :: "headers \<Rightarrow> headers" where
  "strip_length_headers hs =
     filter (\<lambda>(k, _). \<not> eq_ignore_ascii_case k ''content-length'' \<and>
                     \<not> eq_ignore_ascii_case k ''content-encoding'') hs"

record prepared_cache_body =
  pb_body :: string
  pb_headers :: headers
  pb_encoding :: body_encoding
  pb_uncompressed_len :: nat

definition prepare_body_for_cache ::
  "codec_lib \<Rightarrow> string \<Rightarrow> headers \<Rightarrow> compression_config \<Rightarrow> prepared_cache_body" where
  "prepare_body_for_cache lib body hs config =
     (let uncompressed_len = length body;
          raw = \<lparr>pb_body = body, pb_headers = hs, pb_encoding = Raw,
                 pb_uncompressed_len = uncompressed_len\<rparr>
      in if \<not> compression_is_enabled config \<or> length body < cm_min_bytes config \<or>
            has_content_encoding hs then raw
         else
           (case (case cm_codec config of
                    Raw \<Rightarrow> None
                  | Zstd \<Rightarrow> compress_zstd lib body (cm_zstd_level config)
                  | Brotli \<Rightarrow> compress_brotli lib body) of
              None \<Rightarrow> raw
            | Some compressed \<Rightarrow>
                (if length compressed \<ge> length body then raw
                 else \<lparr>pb_body = compressed, pb_headers = strip_length_headers hs,
                       pb_encoding = cm_codec config,
                       pb_uncompressed_len = uncompressed_len\<rparr>)))"

subsection \<open>Bodies\<close>

datatype cached_body = Inline string | Mmap string

fun stored_len :: "cached_body \<Rightarrow> nat" where
  "stored_len (Inline b) = length b"
| "stored_len (Mmap b) = length b"

fun to_bytes :: "cached_body \<Rightarrow> string" where
  "to_bytes (Inline b) = b"
| "to_bytes (Mmap b) = b"

definition spill :: "(string \<Rightarrow> string option) \<Rightarrow> string \<Rightarrow> cached_body option" where
  "spill spill_io data = map_option Mmap (spill_io data)"

definition maybe_spill :: "(string \<Rightarrow> string option) \<Rightarrow> string \<Rightarrow> nat \<Rightarrow> cached_body option" where
  "maybe_spill spill_io data threshold =
     (if threshold > 0 \<and> length data \<ge> threshold then spill spill_io data
      else Some (Inline data))"

fun is_mmap :: "cached_body \<Rightarrow> bool" where
  "is_mmap (Mmap _) = True"
| "is_mmap (Inline _) = False"

subsection \<open>Responses\<close>

record cached_response =
  cr_status :: nat
  cr_headers :: headers
  cr_body :: cached_body
  cr_body_encoding :: body_encoding
  cr_uncompressed_len :: nat
  cr_cached_at :: time
  cr_ttl :: duration
  cr_etag :: "string option"
  cr_last_modified :: "string option"
  cr_is_negative :: bool
  cr_must_revalidate :: bool

text \<open>An entry dated in the future (the wall clock went back) counts as expired.\<close>

definition is_expired :: "time \<Rightarrow> cached_response \<Rightarrow> bool" where
  "is_expired now r \<longleftrightarrow> now < cr_cached_at r \<or> now - cr_cached_at r > cr_ttl r"

definition can_serve_fresh :: "time \<Rightarrow> cached_response \<Rightarrow> bool" where
  "can_serve_fresh now r \<longleftrightarrow> \<not> cr_must_revalidate r \<and> \<not> is_expired now r"

definition has_validators :: "cached_response \<Rightarrow> bool" where
  "has_validators r \<longleftrightarrow> cr_etag r \<noteq> None \<or> cr_last_modified r \<noteq> None"

definition needs_revalidation :: "time \<Rightarrow> cached_response \<Rightarrow> bool" where
  "needs_revalidation now r \<longleftrightarrow> cr_must_revalidate r \<or> is_expired now r"

definition refreshed_after_not_modified :: "time \<Rightarrow> duration \<Rightarrow> cached_response \<Rightarrow> cached_response" where
  "refreshed_after_not_modified now ttl r =
     r\<lparr>cr_cached_at := now, cr_ttl := ttl, cr_must_revalidate := False\<rparr>"

definition response_body_len :: "cached_response \<Rightarrow> nat" where
  "response_body_len r = cr_uncompressed_len r"

definition decoded_body :: "codec_lib \<Rightarrow> cached_response \<Rightarrow> string option" where
  "decoded_body lib r = decode_body lib (to_bytes (cr_body r)) (cr_body_encoding r)"

definition response_body :: "codec_lib \<Rightarrow> cached_response \<Rightarrow> string" where
  "response_body lib r =
     (case cr_body_encoding r of
        Raw \<Rightarrow> to_bytes (cr_body r)
      | _ \<Rightarrow> (case decoded_body lib r of Some b \<Rightarrow> b | None \<Rightarrow> to_bytes (cr_body r)))"

definition hop_by_hop_names :: "string list" where
  "hop_by_hop_names =
     [''transfer-encoding'', ''content-length'', ''content-encoding'', ''connection'',
      ''keep-alive'', ''proxy-connection'', ''proxy-authenticate'', ''proxy-authorization'',
      ''te'', ''trailers'', ''upgrade'']"

definition is_hop_by_hop_or_framing_header :: "string \<Rightarrow> bool" where
  "is_hop_by_hop_or_framing_header name \<longleftrightarrow> list_ex (eq_ignore_ascii_case name) hop_by_hop_names"

record response =
  rs_status :: nat
  rs_headers :: headers
  rs_body :: string

text \<open>\<^verbatim>\<open>HeaderMap::insert\<close> replaces what the name had.\<close>

fun copy_headers :: "http_lib \<Rightarrow> headers \<Rightarrow> headers \<Rightarrow> headers" where
  "copy_headers lib [] acc = acc"
| "copy_headers lib ((key, value) # hs) acc =
     (if is_hop_by_hop_or_framing_header key then copy_headers lib hs acc
      else
        (case (header_name_from_bytes lib key, header_value_from_str lib value) of
           (Some name, Some val) \<Rightarrow> copy_headers lib hs (AList.update name val acc)
         | _ \<Rightarrow> copy_headers lib hs acc))"

definition insert_str :: "http_lib \<Rightarrow> string \<Rightarrow> string \<Rightarrow> headers \<Rightarrow> headers" where
  "insert_str lib name v hs =
     (case header_value_from_str lib v of None \<Rightarrow> hs | Some val \<Rightarrow> AList.update name val hs)"

definition to_response_with_cache_status ::
  "codec_lib \<Rightarrow> http_lib \<Rightarrow> string \<Rightarrow> cached_response \<Rightarrow> response" where
  "to_response_with_cache_status codec lib cache_status r =
     (let body = response_body codec r;
          hs = copy_headers lib (cr_headers r) [];
          hs = insert_str lib ''content-length'' (show_nat (length body)) hs;
          hs = insert_str lib ''x-cache-status'' cache_status hs
      in \<lparr>rs_status = (case status_from_u16 lib (cr_status r) of Some s \<Rightarrow> s | None \<Rightarrow> 200),
          rs_headers = hs, rs_body = body\<rparr>)"

definition to_response :: "codec_lib \<Rightarrow> http_lib \<Rightarrow> cached_response \<Rightarrow> response" where
  "to_response codec lib r = to_response_with_cache_status codec lib ''HIT'' r"

definition from_upstream ::
  "codec_lib \<Rightarrow> (string \<Rightarrow> string option) \<Rightarrow> time \<Rightarrow> nat \<Rightarrow> headers \<Rightarrow> string \<Rightarrow> duration \<Rightarrow>
   compression_config \<Rightarrow> nat \<Rightarrow> string option \<Rightarrow> string option \<Rightarrow> bool \<Rightarrow> bool \<Rightarrow> cached_response" where
  "from_upstream lib spill_io now status hs body ttl compression spill_threshold etag
       last_modified is_negative must_revalidate =
     (let prepared = prepare_body_for_cache lib body hs compression;
          body_bytes = pb_body prepared;
          cached_body =
            (if spill_threshold > 0 \<and> length body_bytes \<ge> spill_threshold then
               (case spill spill_io body_bytes of Some m \<Rightarrow> m | None \<Rightarrow> Inline body_bytes)
             else Inline body_bytes)
      in \<lparr>cr_status = status, cr_headers = pb_headers prepared, cr_body = cached_body,
          cr_body_encoding = pb_encoding prepared,
          cr_uncompressed_len = pb_uncompressed_len prepared, cr_cached_at = now, cr_ttl = ttl,
          cr_etag = etag, cr_last_modified = last_modified, cr_is_negative = is_negative,
          cr_must_revalidate = must_revalidate\<rparr>)"

definition http_cache_key :: "(string \<Rightarrow> string) \<Rightarrow> (string \<Rightarrow> string) \<Rightarrow> string \<Rightarrow> string \<Rightarrow> string" where
  "http_cache_key sha256 hex meth url = hex (sha256 (meth @ '':'' @ url))"

section \<open>Lemmas\<close>

lemma prepare_decodes:
  assumes "codec_law lib"
  shows "decode_body lib (pb_body (prepare_body_for_cache lib body hs cfg))
           (pb_encoding (prepare_body_for_cache lib body hs cfg)) = Some body"
  using assms
  by (auto simp: prepare_body_for_cache_def decode_body_def codec_law_def compress_zstd_def
      compress_brotli_def Let_def split: option.splits body_encoding.splits)

lemma prepare_len [simp]:
  "pb_uncompressed_len (prepare_body_for_cache lib body hs cfg) = length body"
  by (simp add: prepare_body_for_cache_def Let_def split: option.splits)

lemma prepare_not_larger: "length (pb_body (prepare_body_for_cache lib body hs cfg)) \<le> length body"
  by (simp add: prepare_body_for_cache_def Let_def split: option.splits)

lemma from_upstream_bytes:
  "spill_law spill_io \<Longrightarrow>
     to_bytes (cr_body (from_upstream lib spill_io now st hs body ttl cfg thr e lm neg mr)) =
       pb_body (prepare_body_for_cache lib body hs cfg)"
  by (auto simp: from_upstream_def Let_def spill_def spill_law_def split: option.splits)

lemma response_body_decode:
  "decode_body lib (to_bytes (cr_body r)) (cr_body_encoding r) = Some b \<Longrightarrow> response_body lib r = b"
  by (auto simp: response_body_def decoded_body_def decode_body_def split: body_encoding.splits)

lemma hop_by_hop_lower:
  "is_hop_by_hop_or_framing_header n \<longleftrightarrow> to_ascii_lowercase n \<in> set hop_by_hop_names"
proof -
  have "list_all (\<lambda>h. to_ascii_lowercase h = h) hop_by_hop_names" by code_simp
  then have "to_ascii_lowercase h = h" if "h \<in> set hop_by_hop_names" for h
    using that by (simp add: list_all_iff)
  then show ?thesis
    by (auto simp: is_hop_by_hop_or_framing_header_def list_ex_iff eq_ignore_ascii_case_def)
qed

lemma copy_headers_no_hop:
  assumes "http_law lib" "n \<in> set hop_by_hop_names"
  shows "map_of (copy_headers lib hs acc) n = map_of acc n"
proof (induction hs arbitrary: acc)
  case (Cons p hs)
  obtain k v where p: "p = (k, v)" by (cases p)
  show ?case
  proof (cases "is_hop_by_hop_or_framing_header k")
    case True
    with p Cons show ?thesis by simp
  next
    case False
    have "name \<noteq> n" if "header_name_from_bytes lib k = Some name" for name
      using that assms False by (auto simp: http_law_def hop_by_hop_lower)
    with False p Cons show ?thesis by (auto split: option.splits)
  qed
qed simp

lemma insert_str_get:
  "map_of (insert_str lib n v hs) m =
     (if m = n \<and> header_value_from_str lib v \<noteq> None then header_value_from_str lib v
      else map_of hs m)"
  by (auto simp: insert_str_def split: option.splits)

lemma header_value_show_nat: "http_law lib \<Longrightarrow> header_value_from_str lib (show_nat n) = Some (show_nat n)"
proof -
  assume law: "http_law lib"
  have "32 \<le> (of_char c :: nat) \<and> (of_char c :: nat) < 127" if "c \<in> set (show_nat n)" for c
    using show_nat_digits [OF that] by (simp add: is_ascii_digit_def)
  with law show ?thesis unfolding http_law_def by blast
qed

lemma from_upstream_body_eq:
  assumes "codec_law codec" "spill_law spill_io"
  shows "response_body codec (from_upstream codec spill_io now st hs body ttl cfg thr e lm neg mr) = body"
  by (rule response_body_decode)
    (simp add: from_upstream_bytes [OF assms(2)], simp add: from_upstream_def Let_def
      prepare_decodes [OF assms(1)])

section \<open>Properties\<close>

text \<open>A response stored from upstream serves the body it was stored with, whatever compression and
  spilling were configured and whether or not they succeeded; it never takes more bytes at
  rest than the body had, and its recorded length is that of the body.\<close>

theorem from_upstream_response_body:
  assumes "codec_law codec" "spill_law spill_io"
  shows "let r = from_upstream codec spill_io now st hs body ttl cfg thr e lm neg mr in
         response_body codec r = body \<and> response_body_len r = length body \<and>
         stored_len (cr_body r) \<le> length body"
proof -
  have "stored_len b = length (to_bytes b)" for b by (cases b) simp_all
  then show ?thesis
    using from_upstream_body_eq [OF assms] from_upstream_bytes [OF assms(2)] prepare_not_larger
    by (simp add: response_body_len_def Let_def) (simp add: from_upstream_def Let_def)
qed

text \<open>A cache hit is framed by its own body: it carries the length of the body it sends and the
  given cache status, and none of the connection and framing headers that were stored.\<close>

theorem to_response_framing:
  assumes "http_law lib" "header_value_from_str lib status = Some status"
  shows "let resp = to_response_with_cache_status codec lib status r in
         map_of (rs_headers resp) ''content-length'' = Some (show_nat (length (rs_body resp))) \<and>
         map_of (rs_headers resp) ''x-cache-status'' = Some status \<and>
         rs_body resp = response_body codec r \<and>
         (\<forall>n \<in> set hop_by_hop_names - {''content-length''}. map_of (rs_headers resp) n = None)"
proof -
  have x: "''x-cache-status'' \<notin> set hop_by_hop_names" by code_simp
  show ?thesis
    using assms copy_headers_no_hop [OF assms(1)] header_value_show_nat [OF assms(1)] x
    by (auto simp: to_response_with_cache_status_def Let_def insert_str_get)
qed

text \<open>A response that arrives with a content encoding is stored as it came, and a hit sends those
  still encoded bytes without the header that says so.\<close>

theorem hit_drops_content_encoding:
  assumes "codec_law codec" "spill_law spill_io" "http_law lib" "has_content_encoding hs"
  shows "let r = from_upstream codec spill_io now st hs body ttl cfg thr e lm neg mr;
             resp = to_response codec lib r in
         cr_headers r = hs \<and> cr_body_encoding r = Raw \<and>
         rs_body resp = body \<and> map_of (rs_headers resp) ''content-encoding'' = None"
proof -
  have raw: "cr_headers (from_upstream codec spill_io now st hs body ttl cfg thr e lm neg mr) = hs"
    "cr_body_encoding (from_upstream codec spill_io now st hs body ttl cfg thr e lm neg mr) = Raw"
    using assms(4) by (simp_all add: from_upstream_def prepare_body_for_cache_def Let_def)
  have "''content-encoding'' \<in> set hop_by_hop_names" by code_simp
  from copy_headers_no_hop [OF assms(3) this] from_upstream_body_eq [OF assms(1,2)] raw show ?thesis
    by (auto simp: to_response_def to_response_with_cache_status_def Let_def insert_str_get)
qed

text \<open>Revalidation forgets no-cache: an entry that had to be revalidated before every use is, after
  one 304 answer, served without asking the origin until its new lifetime has passed.\<close>

theorem refresh_forgets_no_cache:
  assumes "t - now \<le> ttl" "now \<le> t"
  shows "can_serve_fresh t (refreshed_after_not_modified now ttl r) \<and>
         (cr_must_revalidate r \<longrightarrow> \<not> can_serve_fresh t' r)"
  using assms by (simp add: can_serve_fresh_def refreshed_after_not_modified_def is_expired_def)

text \<open>Freshness runs out once: an entry is fresh exactly during the closed interval of its lifetime
  after it was stored, unless it must be revalidated each time, and needing revalidation is the
  opposite of being fresh.\<close>

theorem fresh_interval:
  "can_serve_fresh now r \<longleftrightarrow>
     \<not> cr_must_revalidate r \<and> cr_cached_at r \<le> now \<and> now \<le> cr_cached_at r + cr_ttl r \<and>
     \<not> needs_revalidation now r"
  by (auto simp: can_serve_fresh_def is_expired_def needs_revalidation_def)

section \<open>Witnesses\<close>

text \<open>A codec that knows one body, and an http library that accepts everything in lower case.\<close>

definition demo_body :: string where
  "demo_body = ''aaaaaaaa''"

definition demo_codec :: codec_lib where
  "demo_codec =
     \<lparr>zstd_encode_all = (\<lambda>_ b. if b = demo_body then Some ''Z'' else None),
      zstd_decode_all = (\<lambda>c. if c = ''Z'' then Some demo_body else None),
      brotli_compress = (\<lambda>b. Some (''B'' @ b)), brotli_decompress = (\<lambda>c. Some (tl c))\<rparr>"

definition demo_http :: http_lib where
  "demo_http =
     \<lparr>status_from_u16 = Some, header_name_from_bytes = (\<lambda>k. Some (to_ascii_lowercase k)),
      header_value_from_str = Some\<rparr>"

definition demo_compression :: compression_config where
  "demo_compression = \<lparr>cm_codec = Zstd, cm_min_bytes = 4, cm_zstd_level = 3\<rparr>"

lemma demo_laws: "codec_law demo_codec" "http_law demo_http" "spill_law Some"
  by (auto simp: codec_law_def demo_codec_def http_law_def demo_http_def spill_law_def split: if_splits)

theorem from_upstream_response_body_witness:
  "let r = from_upstream demo_codec Some 0 200 [] demo_body 60 demo_compression 1 None None False False in
   cr_body r = Mmap ''Z'' \<and> response_body demo_codec r = demo_body"
proof -
  have "cr_body (from_upstream demo_codec Some 0 200 [] demo_body 60 demo_compression 1 None None False False) =
          Mmap ''Z''" by code_simp
  with from_upstream_response_body [OF demo_laws(1,3), of 0 200 "[]" demo_body 60 demo_compression 1 None None
      False False]
  show ?thesis by (simp add: Let_def)
qed

theorem to_response_framing_witness:
  "map_of (rs_headers (to_response_with_cache_status demo_codec demo_http ''HIT''
      (from_upstream demo_codec Some 0 200 [(''Connection'', ''close'')] demo_body 60 demo_compression 0 None None
         False False))) ''connection'' = None"
proof -
  have "''connection'' \<in> set hop_by_hop_names - {''content-length''}" by code_simp
  moreover have "header_value_from_str demo_http ''HIT'' = Some ''HIT''" by (simp add: demo_http_def)
  ultimately show ?thesis
    using to_response_framing [OF demo_laws(2), of "''HIT''" demo_codec] by (simp add: Let_def)
qed

theorem hit_drops_content_encoding_witness:
  "let r = from_upstream demo_codec Some 0 200 [(''Content-Encoding'', ''gzip'')] demo_body 60 demo_compression 0
             None None False False;
       resp = to_response demo_codec demo_http r in
   cr_headers r = [(''Content-Encoding'', ''gzip'')] \<and> cr_body_encoding r = Raw \<and>
   rs_body resp = demo_body \<and> map_of (rs_headers resp) ''content-encoding'' = None"
proof (rule hit_drops_content_encoding [OF demo_laws(1,3,2)])
  show "has_content_encoding [(''Content-Encoding'', ''gzip'')]" by code_simp
qed

theorem refresh_forgets_no_cache_witness:
  "can_serve_fresh 50 (refreshed_after_not_modified 10 60
     (from_upstream demo_codec Some 0 200 [] demo_body 60 demo_compression 0 None None False True)) \<and>
   \<not> can_serve_fresh 5
     (from_upstream demo_codec Some 0 200 [] demo_body 60 demo_compression 0 None None False True)"
  using refresh_forgets_no_cache
    [of 50 10 60 "from_upstream demo_codec Some 0 200 [] demo_body 60 demo_compression 0 None None False True" 5]
  by (simp add: from_upstream_def Let_def)

end
