(* ===== verification/Hierarchy.thy ===== *)
theory Hierarchy
  imports Selection Peer_Wire Cache_Digest Cache_Entry
begin

text \<open>
  The cache hierarchy (\<^verbatim>\<open>proxy/src/hierarchy.rs\<close>): siblings first, asked by ICP or HTCP unless their
  digest rules them out, then a parent chosen by the strategy, then the origin. The network, the
  clock and socket addresses are the record \<open>sibling_net\<close>: how an address is read and printed, what
  datagrams reach a query before its timeout, and how long each answer took. Metrics are left out.
\<close>

section \<open>Definitions\<close>

datatype hierarchy_result =
  LocalHit | SiblingHit cache_peer | ParentHit cache_peer | OriginRequired

record hierarchy_config =
  hc_enabled :: bool
  hc_icp_timeout :: duration
  hc_parent_timeout :: duration
  hc_max_sibling_queries :: nat
  hc_retry_parents :: bool
  hc_use_htcp :: bool
  hc_digest_enabled :: bool

definition hierarchy_default :: hierarchy_config where
  "hierarchy_default =
     \<lparr>hc_enabled = False, hc_icp_timeout = from_millis 100, hc_parent_timeout = from_secs 5,
      hc_max_sibling_queries = 10, hc_retry_parents = True, hc_use_htcp = False, hc_digest_enabled = True\<rparr>"

record hierarchy_manager =
  hmg_config :: hierarchy_config
  hmg_peer_registry :: peer_registry
  hmg_strategy :: strategy
  hmg_selection :: selection_state
  hmg_icp_client :: "icp_client option"
  hmg_htcp_client :: "htcp_client option"
  hmg_digest_registry :: "digest_registry option"
  hmg_htcp_peer_port :: nat

definition manager_new ::
  "hierarchy_config \<Rightarrow> peer_registry \<Rightarrow> strategy \<Rightarrow> selection_state \<Rightarrow> hierarchy_manager" where
  "manager_new config registry strat sel =
     \<lparr>hmg_config = config, hmg_peer_registry = registry, hmg_strategy = strat, hmg_selection = sel,
      hmg_icp_client = None, hmg_htcp_client = None, hmg_digest_registry = None,
      hmg_htcp_peer_port = 4827\<rparr>"

definition init_icp :: "hierarchy_manager \<Rightarrow> hierarchy_manager" where
  "init_icp m =
     (if hc_use_htcp (hmg_config m) then m else m\<lparr>hmg_icp_client := Some icp_client_new\<rparr>)"

definition init_htcp :: "hierarchy_manager \<Rightarrow> hierarchy_manager" where
  "init_htcp m = m\<lparr>hmg_htcp_client := Some htcp_client_new\<rparr>"

record 'a sibling_net =
  sn_parse_addr :: "string \<Rightarrow> 'a option"
  sn_show_addr :: "'a \<Rightarrow> string"
  sn_local_addr :: 'a
  sn_arrivals :: "'a \<Rightarrow> ('a \<times> bytes) list"
  sn_latency :: "'a \<Rightarrow> duration"
  sn_now :: time
  sn_sha256 :: "bytes \<Rightarrow> bytes"
  sn_cache_key :: "string \<Rightarrow> string"

definition icp_address :: "cache_peer \<Rightarrow> string option" where
  "icp_address p =
     map_option (\<lambda>port. pf_host (cp_config p) @ '':'' @ show_nat port) (pf_icp_port (cp_config p))"

definition htcp_address :: "nat \<Rightarrow> cache_peer \<Rightarrow> string" where
  "htcp_address port p = pf_host (cp_config p) @ '':'' @ show_nat port"

text \<open>The answers in order, the first hit by a known sibling counts; the answer is the sibling with
  the address that answered.\<close>

fun first_hit ::
  "(cache_peer \<Rightarrow> string option) \<Rightarrow> ('a \<Rightarrow> string) \<Rightarrow> 'op \<Rightarrow> cache_peer list \<Rightarrow> ('a \<times> 'op) list \<Rightarrow>
   (cache_peer \<times> 'a) option" where
  "first_hit addr_of show_addr hit siblings [] = None"
| "first_hit addr_of show_addr hit siblings ((peer, response) # results) =
     (if response = hit then
        (case find (\<lambda>s. addr_of s = Some (show_addr peer)) siblings of
           Some s \<Rightarrow> Some (s, peer)
         | None \<Rightarrow> first_hit addr_of show_addr hit siblings results)
      else first_hit addr_of show_addr hit siblings results)"

definition process_sibling_results ::
  "'a sibling_net \<Rightarrow> cache_peer list \<Rightarrow> ('a \<times> icp_opcode) list \<Rightarrow> icp_opcode \<Rightarrow> (cache_peer \<times> 'a) option" where
  "process_sibling_results net siblings results hit_opcode =
     first_hit icp_address (sn_show_addr net) hit_opcode siblings results"

definition map_htcp_results ::
  "'a sibling_net \<Rightarrow> nat \<Rightarrow> cache_peer list \<Rightarrow> ('a \<times> htcp_opcode) list \<Rightarrow> (cache_peer \<times> 'a) option" where
  "map_htcp_results net port siblings results =
     first_hit (\<lambda>s. Some (htcp_address port s)) (sn_show_addr net) HtcpHit siblings results"

definition icp_targets :: "'a sibling_net \<Rightarrow> hierarchy_config \<Rightarrow> cache_peer list \<Rightarrow> 'a list" where
  "icp_targets net config siblings =
     take (hc_max_sibling_queries config)
       (List.map_filter (\<lambda>s. Option.bind (icp_address s) (sn_parse_addr net)) siblings)"

definition htcp_targets :: "'a sibling_net \<Rightarrow> hierarchy_config \<Rightarrow> nat \<Rightarrow> cache_peer list \<Rightarrow> 'a list" where
  "htcp_targets net config port siblings =
     take (hc_max_sibling_queries config)
       (List.map_filter (\<lambda>s. sn_parse_addr net (htcp_address port s)) siblings)"

definition query_siblings_icp ::
  "'a sibling_net \<Rightarrow> string \<Rightarrow> cache_peer list \<Rightarrow> hierarchy_manager \<Rightarrow> (cache_peer \<times> 'a) option" where
  "query_siblings_icp net url siblings m =
     (case hmg_icp_client m of
        None \<Rightarrow> None
      | Some client \<Rightarrow>
          (let addrs = icp_targets net (hmg_config m) siblings in
           if addrs = [] then None
           else
             process_sibling_results net siblings
               (fst (icp_query_peers (sn_local_addr net) addrs url (sn_arrivals net) client)) IcpHit))"

definition query_siblings_htcp ::
  "'a sibling_net \<Rightarrow> string \<Rightarrow> cache_peer list \<Rightarrow> hierarchy_manager \<Rightarrow> (cache_peer \<times> 'a) option" where
  "query_siblings_htcp net url siblings m =
     (case hmg_htcp_client m of
        None \<Rightarrow> None
      | Some client \<Rightarrow>
          (let addrs = htcp_targets net (hmg_config m) (hmg_htcp_peer_port m) siblings in
           if addrs = [] then None
           else
             map_htcp_results net (hmg_htcp_peer_port m) siblings
               (fst (htcp_query_peers addrs url (sn_arrivals net) client))))"

text \<open>Whether a digest rules a sibling out; the outer \<^const>\<open>None\<close> is a panic.\<close>

definition digest_skips :: "'a sibling_net \<Rightarrow> string \<Rightarrow> hierarchy_manager \<Rightarrow> cache_peer \<Rightarrow> bool option" where
  "digest_skips net url m sibling =
     (if hc_digest_enabled (hmg_config m) then
        (case hmg_digest_registry m of
           None \<Rightarrow> Some False
         | Some registry \<Rightarrow>
             map_option (\<lambda>answer. answer = Some False)
               (peer_might_have_url (sn_sha256 net) (sn_now net) (cp_id sibling) (sn_cache_key net url) registry))
      else Some False)"

fun sibling_candidates ::
  "'a sibling_net \<Rightarrow> string \<Rightarrow> hierarchy_manager \<Rightarrow> cache_peer list \<Rightarrow> cache_peer list option" where
  "sibling_candidates net url m [] = Some []"
| "sibling_candidates net url m (s # ss) =
     (case digest_skips net url m s of
        None \<Rightarrow> None
      | Some skip \<Rightarrow>
          map_option (\<lambda>rest. if skip then rest else s # rest) (sibling_candidates net url m ss))"

text \<open>The sibling with its new round-trip time, if one has the object, and the manager afterwards.\<close>

definition query_siblings ::
  "'a sibling_net \<Rightarrow> string \<Rightarrow> hierarchy_manager \<Rightarrow> (cache_peer option \<times> hierarchy_manager) option" where
  "query_siblings net url m =
     (let siblings = sibling_caches (hmg_peer_registry m) in
      if siblings = [] then Some (None, m)
      else
        (case sibling_candidates net url m siblings of
           None \<Rightarrow> None
         | Some candidates \<Rightarrow>
             (if candidates = [] then Some (None, m)
              else
                (case (if hc_use_htcp (hmg_config m) then query_siblings_htcp net url candidates m
                       else query_siblings_icp net url candidates m) of
                   None \<Rightarrow> Some (None, m)
                 | Some (sibling, addr) \<Rightarrow>
                     Some (Some (update_rtt (sn_latency net addr) sibling),
                       m\<lparr>hmg_peer_registry :=
                           modify_peer (cp_id sibling) (update_rtt (sn_latency net addr))
                             (hmg_peer_registry m)\<rparr>)))))"

definition select_parent :: "string \<Rightarrow> hierarchy_manager \<Rightarrow> cache_peer option \<times> hierarchy_manager" where
  "select_parent url m =
     (let parents = parent_caches (hmg_peer_registry m) in
      if parents = [] then (None, m)
      else
        (let r = select (hmg_strategy m) parents url (hmg_selection m)
         in (fst r, m\<lparr>hmg_selection := snd r\<rparr>)))"

definition resolve_source ::
  "'a sibling_net \<Rightarrow> string \<Rightarrow> hierarchy_manager \<Rightarrow> (hierarchy_result \<times> hierarchy_manager) option" where
  "resolve_source net url m =
     (if \<not> hc_enabled (hmg_config m) then Some (OriginRequired, m)
      else
        (case query_siblings net url m of
           None \<Rightarrow> None
         | Some (Some sibling, m') \<Rightarrow> Some (SiblingHit sibling, m')
         | Some (None, m') \<Rightarrow>
             (case select_parent url m' of
                (Some parent, m'') \<Rightarrow> Some (ParentHit parent, m'')
              | (None, m'') \<Rightarrow> Some (OriginRequired, m''))))"

subsection \<open>Recording outcomes\<close>

definition peer_hit :: "time \<Rightarrow> nat \<Rightarrow> cache_peer \<Rightarrow> cache_peer" where
  "peer_hit now n p = p\<lparr>cp_stats := record_hit now n (record_request (cp_stats p))\<rparr>"

definition peer_miss :: "time \<Rightarrow> cache_peer \<Rightarrow> cache_peer" where
  "peer_miss now p = p\<lparr>cp_stats := record_miss now (record_request (cp_stats p))\<rparr>"

definition peer_error :: "time \<Rightarrow> cache_peer \<Rightarrow> cache_peer" where
  "peer_error now p =
     (let p' = p\<lparr>cp_stats := record_error now (record_request (cp_stats p))\<rparr> in
      if error_rate (cp_stats p') > 1 / 2 then set_healthy False p' else p')"

definition record_peer_hit :: "time \<Rightarrow> string \<Rightarrow> nat \<Rightarrow> peer_registry \<Rightarrow> peer_registry" where
  "record_peer_hit now i n r = modify_peer i (peer_hit now n) r"

definition record_peer_miss :: "time \<Rightarrow> string \<Rightarrow> peer_registry \<Rightarrow> peer_registry" where
  "record_peer_miss now i r = modify_peer i (peer_miss now) r"

definition record_peer_error :: "time \<Rightarrow> string \<Rightarrow> peer_registry \<Rightarrow> peer_registry" where
  "record_peer_error now i r = modify_peer i (peer_error now) r"

text \<open>\<^verbatim>\<open>ProxyService::try_fetch_via_hierarchy\<close>: the peer that is asked for a cacheable method, and its answer.\<close>

definition try_fetch_via_hierarchy ::
  "'a sibling_net \<Rightarrow> (cache_peer \<Rightarrow> 'r option) \<Rightarrow> string \<Rightarrow> string \<Rightarrow> hierarchy_manager option \<Rightarrow>
   ((cache_peer \<times> 'r) option \<times> hierarchy_manager option) option" where
  "try_fetch_via_hierarchy net fetch meth url hierarchy =
     (if meth \<notin> set cacheable_methods then Some (None, hierarchy)
      else
        (case hierarchy of
           None \<Rightarrow> Some (None, None)
         | Some m \<Rightarrow>
             (case resolve_source net url m of
                None \<Rightarrow> None
              | Some (result, m') \<Rightarrow>
                  (case (case result of SiblingHit p \<Rightarrow> Some p | ParentHit p \<Rightarrow> Some p | _ \<Rightarrow> None) of
                     None \<Rightarrow> Some (None, Some m')
                   | Some peer \<Rightarrow>
                       (case fetch peer of
                          Some response \<Rightarrow> Some (Some (peer, response), Some m')
                        | None \<Rightarrow>
                            Some (None, Some (m'\<lparr>hmg_peer_registry :=
                              record_peer_error (sn_now net) (cp_id peer) (hmg_peer_registry m')\<rparr>)))))))"

subsection \<open>Specification\<close>

text \<open>A sibling may be asked: registered, healthy and not ruled out by its digest.\<close>

definition eligible :: "'a sibling_net \<Rightarrow> string \<Rightarrow> hierarchy_manager \<Rightarrow> cache_peer \<Rightarrow> bool" where
  "eligible net url m p \<longleftrightarrow>
     p \<in> set (all_peers (hmg_peer_registry m)) \<and> cp_healthy p \<and> pf_peer_type (cp_config p) = Sibling \<and>
     digest_skips net url m p = Some False"

text \<open>Its datagram says hit: the answer to the query sent to that address.\<close>

definition answered_hit :: "'a sibling_net \<Rightarrow> hierarchy_manager \<Rightarrow> 'a \<Rightarrow> bool" where
  "answered_hit net m a \<longleftrightarrow>
     (if hc_use_htcp (hmg_config m) then
        (\<exists>c. hmg_htcp_client m = Some c \<and>
           htcp_result a (unat (hc_request_counter c)) (sn_arrivals net a) = Some HtcpHit)
      else
        (\<exists>c. hmg_icp_client m = Some c \<and>
           icp_result a (unat (ic_request_counter c)) (sn_arrivals net a) = Some IcpHit))"

definition query_address :: "hierarchy_manager \<Rightarrow> cache_peer \<Rightarrow> string option" where
  "query_address m p =
     (if hc_use_htcp (hmg_config m) then Some (htcp_address (hmg_htcp_peer_port m) p) else icp_address p)"

definition query_targets :: "'a sibling_net \<Rightarrow> hierarchy_manager \<Rightarrow> cache_peer list \<Rightarrow> 'a list" where
  "query_targets net m siblings =
     take (hc_max_sibling_queries (hmg_config m))
       (List.map_filter (\<lambda>s. Option.bind (query_address m s) (sn_parse_addr net)) siblings)"

text \<open>How the peers' statistics change: outcomes of requests to healthy peers, and health checks.\<close>

inductive peer_traffic :: "peer_registry \<Rightarrow> peer_registry \<Rightarrow> bool" where
  hit: "get_peer i r = Some p \<Longrightarrow> cp_healthy p \<Longrightarrow> peer_traffic r (record_peer_hit now i n r)"
| miss: "get_peer i r = Some p \<Longrightarrow> cp_healthy p \<Longrightarrow> peer_traffic r (record_peer_miss now i r)"
| error: "get_peer i r = Some p \<Longrightarrow> cp_healthy p \<Longrightarrow> peer_traffic r (record_peer_error now i r)"
| check: "peer_traffic r (health_check r)"

definition unhealthy_failing :: "peer_registry \<Rightarrow> bool" where
  "unhealthy_failing r \<longleftrightarrow>
     (\<forall>i p. get_peer i r = Some p \<longrightarrow> cp_healthy p \<or> error_rate (cp_stats p) > 1 / 2)"
section \<open>Lemmas\<close>

lemma first_hit_sound:
  "first_hit ad sh h ss rs = Some (s, a) \<Longrightarrow> s \<in> set ss \<and> (a, h) \<in> set rs \<and> ad s = Some (sh a)"
  by (induction ad sh h ss rs rule: first_hit.induct) (auto split: if_splits option.splits dest: find_SomeD)

lemma first_hit_complete:
  "(a, h) \<in> set rs \<Longrightarrow> s \<in> set ss \<Longrightarrow> ad s = Some (sh a) \<Longrightarrow> first_hit ad sh h ss rs \<noteq> None"
  by (induction ad sh h ss rs rule: first_hit.induct) (auto split: option.splits simp: find_None_iff)

lemma icp_query_peers_mem:
  "(a, opc) \<in> set (fst (icp_query_peers l addrs url arr c)) \<longleftrightarrow>
     a \<in> set addrs \<and> icp_result a (unat (ic_request_counter c)) (arr a) = Some opc"
  by (auto simp: icp_query_peers_def icp_query_peer_def icp_client_clone_def icp_result_def Let_def
      split: sum.splits)

lemma htcp_query_peers_mem:
  "(a, opc) \<in> set (fst (htcp_query_peers addrs url arr c)) \<longleftrightarrow>
     a \<in> set addrs \<and> htcp_result a (unat (hc_request_counter c)) (arr a) = Some opc"
  by (auto simp: htcp_query_peers_def htcp_query_peer_def htcp_client_clone_def htcp_result_def Let_def
      split: sum.splits)

definition ask :: "'a sibling_net \<Rightarrow> string \<Rightarrow> cache_peer list \<Rightarrow> hierarchy_manager \<Rightarrow> (cache_peer \<times> 'a) option" where
  "ask net url siblings m =
     (if hc_use_htcp (hmg_config m) then query_siblings_htcp net url siblings m
      else query_siblings_icp net url siblings m)"

lemma ask_sound:
  "ask net url ss m = Some (s, a) \<Longrightarrow>
     s \<in> set ss \<and> a \<in> set (query_targets net m ss) \<and> answered_hit net m a \<and>
     query_address m s = Some (sn_show_addr net a)"
  by (auto simp: ask_def query_siblings_icp_def query_siblings_htcp_def process_sibling_results_def
      map_htcp_results_def query_targets_def query_address_def icp_targets_def htcp_targets_def
      answered_hit_def icp_query_peers_mem htcp_query_peers_mem Let_def
      split: if_splits option.splits dest!: first_hit_sound)

lemma ask_complete:
  assumes "a \<in> set (query_targets net m ss)" "answered_hit net m a" "s \<in> set ss"
    "query_address m s = Some (sn_show_addr net a)"
  shows "ask net url ss m \<noteq> None"
proof (cases "hc_use_htcp (hmg_config m)")
  case True
  then obtain c where "hmg_htcp_client m = Some c"
    "htcp_result a (unat (hc_request_counter c)) (sn_arrivals net a) = Some HtcpHit"
    using assms(2) by (auto simp: answered_hit_def)
  moreover have "a \<in> set (htcp_targets net (hmg_config m) (hmg_htcp_peer_port m) ss)"
    using assms(1) True by (simp add: query_targets_def htcp_targets_def query_address_def)
  ultimately show ?thesis
    using assms(3,4) True
      first_hit_complete [of a HtcpHit _ s ss "\<lambda>s. Some (htcp_address (hmg_htcp_peer_port m) s)" "sn_show_addr net"]
    by (auto simp: ask_def query_siblings_htcp_def map_htcp_results_def Let_def query_address_def
        htcp_query_peers_mem)
next
  case False
  then obtain c where "hmg_icp_client m = Some c"
    "icp_result a (unat (ic_request_counter c)) (sn_arrivals net a) = Some IcpHit"
    using assms(2) by (auto simp: answered_hit_def)
  moreover have "a \<in> set (icp_targets net (hmg_config m) ss)"
    using assms(1) False by (simp add: query_targets_def icp_targets_def query_address_def)
  ultimately show ?thesis
    using assms(3,4) False first_hit_complete [of a IcpHit _ s ss icp_address "sn_show_addr net"]
    by (auto simp: ask_def query_siblings_icp_def process_sibling_results_def Let_def query_address_def
        icp_query_peers_mem)
qed

lemma sibling_candidates_filter:
  "sibling_candidates net url m ss = Some cs \<Longrightarrow> cs = filter (\<lambda>s. digest_skips net url m s = Some False) ss"
  by (induction ss arbitrary: cs) (auto split: option.splits)

lemma mem_siblings:
  "p \<in> set (sibling_caches r) \<longleftrightarrow>
     p \<in> set (all_peers r) \<and> cp_healthy p \<and> pf_peer_type (cp_config p) = Sibling"
  by (auto simp: sibling_caches_def healthy_peers_by_type_def healthy_peers_def)

lemma mem_parents:
  "p \<in> set (parent_caches r) \<longleftrightarrow>
     p \<in> set (all_peers r) \<and> cp_healthy p \<and> pf_peer_type (cp_config p) = Parent"
  by (auto simp: parent_caches_def healthy_peers_by_type_def healthy_peers_def)

lemma query_siblings_cases:
  assumes "query_siblings net url m = Some (found, m')"
  obtains cs where "sibling_candidates net url m (sibling_caches (hmg_peer_registry m)) = Some cs"
    and "set cs = {p. eligible net url m p}"
    and "found = map_option (\<lambda>(s, a). update_rtt (sn_latency net a) s) (if cs = [] then None else ask net url cs m)"
    and "m' = (case if cs = [] then None else ask net url cs m of
                 None \<Rightarrow> m
               | Some (s, a) \<Rightarrow> m\<lparr>hmg_peer_registry :=
                   modify_peer (cp_id s) (update_rtt (sn_latency net a)) (hmg_peer_registry m)\<rparr>)"
proof -
  let ?ss = "sibling_caches (hmg_peer_registry m)"
  obtain cs where cs: "sibling_candidates net url m ?ss = Some cs"
    using assms by (cases "?ss") (auto simp: query_siblings_def Let_def split: option.splits)
  have "set cs = {p. eligible net url m p}"
    using sibling_candidates_filter [OF cs] by (auto simp: eligible_def mem_siblings)
  moreover have "?ss = [] \<Longrightarrow> cs = []" using cs by simp
  ultimately show thesis
    using assms cs that [of cs]
    by (auto simp: query_siblings_def Let_def ask_def split: if_splits option.splits)
qed

lemma map_filter_mem: "y \<in> set (List.map_filter f xs) \<longleftrightarrow> (\<exists>x \<in> set xs. f x = Some y)"
  by (force simp: List.map_filter_def)

lemma length_map_filter: "length (List.map_filter f xs) \<le> length xs"
  by (simp add: List.map_filter_def)

lemma targets_mem:
  assumes "length ss \<le> hc_max_sibling_queries (hmg_config m)"
  shows "a \<in> set (query_targets net m ss) \<longleftrightarrow>
    (\<exists>s \<in> set ss. Option.bind (query_address m s) (sn_parse_addr net) = Some a)"
  using assms length_map_filter [of "\<lambda>s. Option.bind (query_address m s) (sn_parse_addr net)" ss]
  by (simp add: query_targets_def map_filter_mem)

lemma targets_parse:
  "a \<in> set (query_targets net m ss) \<Longrightarrow>
     \<exists>s \<in> set ss. Option.bind (query_address m s) (sn_parse_addr net) = Some a"
  by (auto simp: query_targets_def dest!: in_set_takeD simp: map_filter_mem)

lemma select_parent_sound:
  "select_parent url m = (Some p, m') \<Longrightarrow> p \<in> set (parent_caches (hmg_peer_registry m))"
  by (auto simp: select_parent_def Let_def split: if_splits dest: sel.selected_in)

lemma error_rate_bounds: "pst_errors s \<le> pst_requests s \<Longrightarrow> 0 \<le> error_rate s \<and> error_rate s \<le> 1"
  by (simp add: error_rate_def divide_le_eq)

lemma record_get:
  "get_peer k (record_peer_hit now i n r) =
     (if k = i then map_option (peer_hit now n) (get_peer k r) else get_peer k r)"
  "get_peer k (record_peer_miss now i r) =
     (if k = i then map_option (peer_miss now) (get_peer k r) else get_peer k r)"
  "get_peer k (record_peer_error now i r) =
     (if k = i then map_option (peer_error now) (get_peer k r) else get_peer k r)"
  "get_peer k (health_check r) = map_option check_peer_health (get_peer k r)"
  by (simp_all add: get_peer_def record_peer_hit_def record_peer_miss_def record_peer_error_def
      modify_peer_get health_check_get)

lemma outcome_healthy [simp]:
  "cp_healthy (peer_hit now n p) = cp_healthy p" "cp_healthy (peer_miss now p) = cp_healthy p"
  by (simp_all add: peer_hit_def peer_miss_def)

lemma peer_error_healthy [simp]:
  "cp_healthy p \<Longrightarrow> \<not> 1 < error_rate (cp_stats (peer_error now p)) * 2 \<Longrightarrow> cp_healthy (peer_error now p)"
  by (auto simp: peer_error_def set_healthy_def Let_def split: if_splits)

lemma traffic_step:
  assumes "peer_traffic r r'" "unhealthy_failing r"
  shows "unhealthy_failing r'"
    and "get_peer i r = Some p \<Longrightarrow> \<not> cp_healthy p \<Longrightarrow> get_peer i r' = Some p"
proof -
  show "unhealthy_failing r'"
    unfolding unhealthy_failing_def
  proof (intro allI impI)
    fix k q
    assume "get_peer k r' = Some q"
    with assms show "cp_healthy q \<or> error_rate (cp_stats q) > 1 / 2"
      by cases
        (auto simp: unhealthy_failing_def record_get check_peer_health_def set_healthy_def
          split: if_splits)
  qed
  show "get_peer i r' = Some p" if "get_peer i r = Some p" "\<not> cp_healthy p"
  proof -
    have "error_rate (cp_stats p) > 1 / 2" using assms(2) that by (auto simp: unhealthy_failing_def)
    then have "check_peer_health p = p"
      using that(2) by (simp add: check_peer_health_def set_healthy_def)
    with assms(1) that show ?thesis by cases (auto simp: record_get)
  qed
qed

lemma traffic_unhealthy:
  assumes "peer_traffic\<^sup>*\<^sup>* r r'" "unhealthy_failing r" "get_peer i r = Some p" "\<not> cp_healthy p"
  shows "unhealthy_failing r' \<and> get_peer i r' = Some p"
  using assms
proof (induction rule: rtranclp_induct)
  case (step y z)
  then show ?case using traffic_step [of y z] by blast
qed simp

section \<open>Properties\<close>

text \<open>(C21) Where a request is sent is justified. A sibling is chosen only if it is registered, healthy,
  not ruled out by its digest, and its own address answered the query with a hit. A parent is
  chosen only if it is registered and healthy. The origin is chosen when the hierarchy is off or
  the strategy offers no parent, and the hierarchy never claims a local hit.\<close>

theorem resolve_source_sound:
  assumes "resolve_source net url m = Some (res, m')"
  shows "case res of
      SiblingHit p \<Rightarrow>
        (\<exists>s a. p = update_rtt (sn_latency net a) s \<and> eligible net url m s \<and>
           query_address m s = Some (sn_show_addr net a) \<and> answered_hit net m a)
    | ParentHit p \<Rightarrow> cp_healthy p \<and> pf_peer_type (cp_config p) = Parent \<and> p \<in> set (all_peers (hmg_peer_registry m))
    | OriginRequired \<Rightarrow>
        \<not> hc_enabled (hmg_config m) \<or>
        fst (select (hmg_strategy m) (parent_caches (hmg_peer_registry m)) url (hmg_selection m)) = None
    | LocalHit \<Rightarrow> False"
proof (cases "hc_enabled (hmg_config m)")
  case True
  then obtain found m1 where q: "query_siblings net url m = Some (found, m1)"
    using assms by (auto simp: resolve_source_def split: option.splits)
  then obtain cs where cs: "set cs = {p. eligible net url m p}"
    and found: "found = map_option (\<lambda>(s, a). update_rtt (sn_latency net a) s) (if cs = [] then None else ask net url cs m)"
    and m1: "m1 = (case if cs = [] then None else ask net url cs m of
                 None \<Rightarrow> m
               | Some (s, a) \<Rightarrow> m\<lparr>hmg_peer_registry :=
                   modify_peer (cp_id s) (update_rtt (sn_latency net a)) (hmg_peer_registry m)\<rparr>)"
    by (rule query_siblings_cases)
  show ?thesis
  proof (cases "if cs = [] then None else ask net url cs m")
    case None
    then have r: "Some (res, m') = (case select_parent url m of
        (Some parent, m'') \<Rightarrow> Some (ParentHit parent, m'') | (None, m'') \<Rightarrow> Some (OriginRequired, m''))"
      using assms True q found m1 by (simp add: resolve_source_def)
    show ?thesis
    proof (cases "fst (select_parent url m)")
      case None
      then show ?thesis
        using r sel.empty_none by (cases "select_parent url m") (auto simp: select_parent_def Let_def split: if_splits)
    next
      case (Some p)
      then have sp: "select_parent url m = (Some p, snd (select_parent url m))"
        by (simp add: prod_eq_iff)
      then have "res = ParentHit p" using r by (metis (no_types, lifting) option.case(2) option.inject prod.case prod.inject)
      then show ?thesis using select_parent_sound [OF sp] by (simp add: mem_parents)
    qed
  next
    case (Some sa)
    then have "res = SiblingHit (update_rtt (sn_latency net (snd sa)) (fst sa))"
      using assms True q found by (simp add: resolve_source_def case_prod_beta)
    moreover have "ask net url cs m = Some (fst sa, snd sa)" using Some by (simp split: if_splits)
    ultimately show ?thesis using ask_sound [of net url cs m "fst sa" "snd sa"] cs by auto
  qed
next
  case False
  then show ?thesis using assms by (auto simp: resolve_source_def)
qed


text \<open>Siblings configured by host name are never asked: the query address must be a numeric socket
  address, and when no sibling's is, the outcome is never a sibling hit.\<close>

theorem named_siblings_never_asked:
  assumes "resolve_source net url m = Some (res, m')"
    and "\<forall>s \<in> set (sibling_caches (hmg_peer_registry m)). Option.bind (query_address m s) (sn_parse_addr net) = None"
  shows "res \<noteq> SiblingHit p"
proof (cases "hc_enabled (hmg_config m)")
  case True
  then obtain found m1 where q: "query_siblings net url m = Some (found, m1)"
    using assms(1) by (auto simp: resolve_source_def split: option.splits)
  then obtain cs where cs: "set cs = {p. eligible net url m p}"
    and found: "found = map_option (\<lambda>(s, a). update_rtt (sn_latency net a) s) (if cs = [] then None else ask net url cs m)"
    by (rule query_siblings_cases)
  have "ask net url cs m = None"
  proof (cases "ask net url cs m")
    case (Some sa)
    then have "snd sa \<in> set (query_targets net m cs)" using ask_sound by (cases sa) fastforce
    then show ?thesis using targets_parse [of _ net m cs] assms(2) cs by (force simp: eligible_def mem_siblings)
  qed
  then have "found = None" using found by simp
  then show ?thesis
    using assms(1) True q by (auto simp: resolve_source_def split: prod.splits option.splits)
next
  case False
  then show ?thesis using assms(1) by (auto simp: resolve_source_def)
qed

text \<open>A failure of the very first request to a peer takes it out of service for good: no later
  traffic to healthy peers and no health check brings it back, since an unhealthy peer gets no
  requests and its error rate stays at one.\<close>

theorem first_error_is_final:
  assumes "unhealthy_failing r" "get_peer i r = Some (peer_new c)"
    and "peer_traffic\<^sup>*\<^sup>* (record_peer_error now i r) r'"
  shows "\<exists>p. get_peer i r' = Some p \<and> \<not> cp_healthy p"
proof -
  have "peer_traffic r (record_peer_error now i r)"
    using assms(2) by (rule peer_traffic.error) (simp add: peer_new_def)
  then have "unhealthy_failing (record_peer_error now i r)" using traffic_step assms(1) by blast
  moreover have "get_peer i (record_peer_error now i r) = Some (peer_error now (peer_new c))"
    using assms(2) by (simp add: record_get)
  moreover have "\<not> cp_healthy (peer_error now (peer_new c))"
    by (simp add: peer_error_def peer_new_def stats_new_def record_error_def record_request_def
        error_rate_def set_healthy_def Let_def)
  ultimately show ?thesis using traffic_unhealthy [OF assms(3)] by blast
qed

section \<open>Witnesses\<close>

text \<open>Addresses are texts; those with a letter are names, not addresses. The sibling answers with a
  hit.\<close>

definition demo_net :: "string sibling_net" where
  "demo_net =
     \<lparr>sn_parse_addr = \<lambda>s. if list_all (\<lambda>c. c = CHR ''.'' \<or> c = CHR '':'' \<or> is_ascii_digit c) s then Some s else None,
      sn_show_addr = \<lambda>a. a, sn_local_addr = ''10.0.0.1:0'',
      sn_arrivals = \<lambda>a. [(a, icp_encode (icp_hit 1 a))], sn_latency = \<lambda>a. from_millis 3, sn_now = 0,
      sn_sha256 = \<lambda>bs. bs, sn_cache_key = \<lambda>u. u\<rparr>"

definition demo_manager :: "string \<Rightarrow> hierarchy_manager" where
  "demo_manager host =
     init_icp (manager_new (hierarchy_default\<lparr>hc_enabled := True\<rparr>)
       (add_peer (demo_peer host Sibling) registry_empty) RoundRobin demo_selection)"

lemma demo_manager_sel:
  "hc_enabled (hmg_config (demo_manager h))" "\<not> hc_use_htcp (hmg_config (demo_manager h))"
  "hmg_icp_client (demo_manager h) = Some icp_client_new"
  "hmg_digest_registry (demo_manager h) = None" "hc_max_sibling_queries (hmg_config (demo_manager h)) = 10"
  "all_peers (hmg_peer_registry (demo_manager h)) = [peer_new (demo_peer h Sibling)]"
  by (simp_all add: demo_manager_def init_icp_def manager_new_def hierarchy_default_def
      all_peers_def add_peer_def registry_empty_def Let_def)

lemma demo_siblings:
  "sibling_caches (hmg_peer_registry (demo_manager h)) = [peer_new (demo_peer h Sibling)]"
  by (simp add: sibling_caches_def healthy_peers_by_type_def healthy_peers_def demo_manager_sel
      peer_new_def demo_peer_def)

lemma demo_address:
  "query_address (demo_manager h) (peer_new (demo_peer h Sibling)) = Some (h @ '':3130'')"
  by (simp add: query_address_def demo_manager_sel icp_address_def peer_new_def demo_peer_def) code_simp

lemma demo_eligible: "eligible net url (demo_manager h) (peer_new (demo_peer h Sibling))"
  by (simp add: eligible_def demo_manager_sel digest_skips_def) (simp add: peer_new_def demo_peer_def)

lemma demo_answer: "answered_hit demo_net (demo_manager h) a"
proof -
  have "icp_result a 1 [(a, icp_encode (icp_hit 1 a))] = Some IcpHit"
    by (simp add: icp_result_def icp_hit_def icp_encode_def icp_decode_def icp_version_def
        icp_opcode_from_def to_be_def of_be_def Let_def)
  then show ?thesis
    by (simp add: answered_hit_def demo_manager_sel icp_client_new_def demo_net_def)
qed

lemma demo_resolves: "\<exists>res m'. resolve_source net url (demo_manager h) = Some (res, m')"
proof -
  have "sibling_candidates net url (demo_manager h) ss = Some ss" for ss
    by (induction ss) (simp_all add: digest_skips_def demo_manager_sel)
  then have "query_siblings net url (demo_manager h) \<noteq> None"
    by (simp add: query_siblings_def Let_def split: option.splits)
  then show ?thesis
    by (auto simp: resolve_source_def split: option.splits prod.splits)
qed


theorem resolve_source_sound_witness:
  "case resolve_source demo_net ''http://a/'' (demo_manager ''10.0.0.9'') of
     Some (LocalHit, m') \<Rightarrow> False | None \<Rightarrow> False | _ \<Rightarrow> True"
proof -
  obtain res m' where r: "resolve_source demo_net ''http://a/'' (demo_manager ''10.0.0.9'') = Some (res, m')"
    using demo_resolves by blast
  show ?thesis using resolve_source_sound [OF r] r by (cases res) simp_all
qed

theorem named_siblings_never_asked_witness:
  "\<exists>res m'. resolve_source demo_net ''http://a/'' (demo_manager ''sibling1.example.com'') = Some (res, m') \<and>
     res \<noteq> SiblingHit (peer_new (demo_peer ''sibling1.example.com'' Sibling))"
proof -
  obtain res m' where r: "resolve_source demo_net ''http://a/'' (demo_manager ''sibling1.example.com'') = Some (res, m')"
    using demo_resolves by blast
  have "\<forall>s \<in> set (sibling_caches (hmg_peer_registry (demo_manager ''sibling1.example.com''))).
      Option.bind (query_address (demo_manager ''sibling1.example.com'') s) (sn_parse_addr demo_net) = None"
    by (simp add: demo_siblings demo_address demo_net_def is_ascii_digit_def)
  from named_siblings_never_asked [OF r this] r show ?thesis by blast
qed

theorem first_error_is_final_witness:
  "\<exists>p. get_peer (peer_id (demo_peer ''10.0.0.1'' Parent))
      (health_check (record_peer_error 0 (peer_id (demo_peer ''10.0.0.1'' Parent)) demo_registry)) = Some p \<and>
     \<not> cp_healthy p"
proof (rule first_error_is_final)
  show "unhealthy_failing demo_registry"
    by (auto simp: unhealthy_failing_def demo_registry_def get_peer_def add_peer_def registry_empty_def
        Let_def peer_new_def)
  show "get_peer (peer_id (demo_peer ''10.0.0.1'' Parent)) demo_registry = Some (peer_new (demo_peer ''10.0.0.1'' Parent))"
    by (simp add: demo_registry_def get_peer_def add_peer_def registry_empty_def Let_def)
qed (blast intro: peer_traffic.check)

end
