(* ===== verification/Tag_Index.thy ===== *)
theory Tag_Index
  imports Prelude
begin

text \<open>
  The index from cache tags to cache keys (\<^verbatim>\<open>proxy/src/tag_index.rs\<close>). A \<^verbatim>\<open>HashSet\<close> of keys is a list
  without repetition. \<^verbatim>\<open>index\<close> takes the lock on one map, releases it, and then takes the lock on
  the other; each locked part is a function of its own.
\<close>

section \<open>Definitions\<close>

definition header_tags :: "string \<times> string \<Rightarrow> string list" where
  "header_tags h =
     (case h of (name, value) \<Rightarrow>
        if eq_ignore_ascii_case name ''cache-tag''
        then filter (\<lambda>s. s \<noteq> []) (map trim (split_char CHR '','' value))
        else if eq_ignore_ascii_case name ''surrogate-key''
        then filter (\<lambda>s. s \<noteq> []) (split_whitespace value)
        else [])"

definition push_new :: "string \<Rightarrow> string list \<Rightarrow> string list" where
  "push_new t tags = (if List.member tags t then tags else tags @ [t])"

definition parse_cache_tags :: "headers \<Rightarrow> string list" where
  "parse_cache_tags hs = fold (\<lambda>h tags. fold push_new (header_tags h) tags) hs []"

record tag_index =
  ti_by_tag :: "(string, string list) hash_map"
  ti_by_key :: "(string, string list) hash_map"

definition tag_index_new :: tag_index where
  "tag_index_new = \<lparr>ti_by_tag = [], ti_by_key = []\<rparr>"

text \<open>Taking a key out of the set of a tag; an empty set goes.\<close>

definition untag :: "string \<Rightarrow> string \<Rightarrow> (string, string list) hash_map \<Rightarrow> (string, string list) hash_map"
  where
  "untag key t by_tag =
     (case map_of by_tag t of
        None \<Rightarrow> by_tag
      | Some s \<Rightarrow>
          (let s' = removeAll key s in
           if s' = [] then AList.delete t by_tag else AList.update t s' by_tag))"

definition tag :: "string \<Rightarrow> string \<Rightarrow> (string, string list) hash_map \<Rightarrow> (string, string list) hash_map"
  where
  "tag key t by_tag =
     AList.update t (List.insert key (case map_of by_tag t of None \<Rightarrow> [] | Some s \<Rightarrow> s)) by_tag"

text \<open>\<^verbatim>\<open>index\<close>: the part under the lock of \<^verbatim>\<open>by_key\<close> returns the tags the key had before.\<close>

definition index_by_key :: "string \<Rightarrow> string list \<Rightarrow> tag_index \<Rightarrow> string list option \<times> tag_index" where
  "index_by_key key tags ti =
     (map_of (ti_by_key ti) key,
      ti\<lparr>ti_by_key :=
           (if tags = [] then AList.delete key (ti_by_key ti)
            else AList.update key tags (ti_by_key ti))\<rparr>)"

definition index_by_tag :: "string \<Rightarrow> string list option \<Rightarrow> string list \<Rightarrow> tag_index \<Rightarrow> tag_index" where
  "index_by_tag key old tags ti =
     ti\<lparr>ti_by_tag :=
          fold (tag key) tags
            (case old of None \<Rightarrow> ti_by_tag ti | Some old_tags \<Rightarrow> fold (untag key) old_tags (ti_by_tag ti))\<rparr>"

definition index :: "string \<Rightarrow> string list \<Rightarrow> tag_index \<Rightarrow> tag_index" where
  "index key tags ti = (let (old, ti') = index_by_key key tags ti in index_by_tag key old tags ti')"

definition unindex :: "string \<Rightarrow> tag_index \<Rightarrow> tag_index" where
  "unindex key ti =
     (case map_of (ti_by_key ti) key of
        None \<Rightarrow> ti\<lparr>ti_by_key := AList.delete key (ti_by_key ti)\<rparr>
      | Some tags \<Rightarrow>
          ti\<lparr>ti_by_key := AList.delete key (ti_by_key ti),
             ti_by_tag := fold (untag key) tags (ti_by_tag ti)\<rparr>)"

definition tag_index_clear :: "tag_index \<Rightarrow> tag_index" where
  "tag_index_clear ti = ti\<lparr>ti_by_tag := [], ti_by_key := []\<rparr>"

definition keys_for_tag :: "tag_index \<Rightarrow> string \<Rightarrow> string list" where
  "keys_for_tag ti t = (case map_of (ti_by_tag ti) t of None \<Rightarrow> [] | Some s \<Rightarrow> s)"

definition tag_count :: "tag_index \<Rightarrow> nat" where
  "tag_count ti = length (ti_by_tag ti)"

subsection \<open>Specification\<close>

text \<open>The tags of a key, and the invariant: the two maps are inverse relations without empty rows.\<close>

definition tags_of :: "tag_index \<Rightarrow> string \<Rightarrow> string list" where
  "tags_of ti key = (case map_of (ti_by_key ti) key of None \<Rightarrow> [] | Some ts \<Rightarrow> ts)"

definition tag_index_inv :: "tag_index \<Rightarrow> bool" where
  "tag_index_inv ti \<longleftrightarrow>
     hm_inv (ti_by_tag ti) \<and> hm_inv (ti_by_key ti) \<and>
     (\<forall>t k. k \<in> set (keys_for_tag ti t) \<longleftrightarrow> t \<in> set (tags_of ti k)) \<and>
     (\<forall>t s. map_of (ti_by_tag ti) t = Some s \<longrightarrow> s \<noteq> []) \<and>
     (\<forall>k ts. map_of (ti_by_key ti) k = Some ts \<longrightarrow> ts \<noteq> [])"

section \<open>Lemmas\<close>

definition row :: "(string, string list) hash_map \<Rightarrow> string \<Rightarrow> string set" where
  "row m t = (case map_of m t of None \<Rightarrow> {} | Some s \<Rightarrow> set s)"

definition rows_ok :: "(string, string list) hash_map \<Rightarrow> bool" where
  "rows_ok m \<longleftrightarrow> hm_inv m \<and> (\<forall>t s. map_of m t = Some s \<longrightarrow> s \<noteq> [])"

lemma untag_row: "row (untag key t m) t' = (if t' = t then row m t - {key} else row m t')"
proof (cases "map_of m t")
  case (Some s)
  have "removeAll key s = [] \<Longrightarrow> set s \<subseteq> {key}"
    by (metis Diff_eq_empty_iff empty_set set_removeAll)
  with Some show ?thesis by (auto simp: untag_def row_def Let_def)
qed (simp add: untag_def row_def)

lemma untag_ok: "rows_ok m \<Longrightarrow> rows_ok (untag key t m)"
  by (auto simp: rows_ok_def untag_def Let_def split: option.splits)

lemma tag_row: "row (tag key t m) t' = (if t' = t then insert key (row m t) else row m t')"
  by (auto simp: tag_def row_def split: option.splits)

lemma tag_ok: "rows_ok m \<Longrightarrow> rows_ok (tag key t m)"
  by (auto simp: rows_ok_def tag_def List.insert_def split: option.splits if_splits)

lemma fold_untag_row:
  "row (fold (untag key) ts m) t' = (if t' \<in> set ts then row m t' - {key} else row m t')"
  by (induction ts arbitrary: m) (auto simp: untag_row)

lemma fold_tag_row:
  "row (fold (tag key) ts m) t' = (if t' \<in> set ts then insert key (row m t') else row m t')"
  by (induction ts arbitrary: m) (auto simp: tag_row)

lemma fold_rows_ok: "rows_ok m \<Longrightarrow> rows_ok (fold (untag key) ts m)" "rows_ok m \<Longrightarrow> rows_ok (fold (tag key) ts m)"
  by (induction ts arbitrary: m) (auto intro: untag_ok tag_ok)

lemma keys_for_tag_row: "set (keys_for_tag ti t) = row (ti_by_tag ti) t"
  by (auto simp: keys_for_tag_def row_def split: option.splits)

lemma tags_of_row: "set (tags_of ti k) = row (ti_by_key ti) k"
  by (auto simp: tags_of_def row_def split: option.splits)

lemmas tag_rows = untag_row tag_row fold_untag_row fold_tag_row keys_for_tag_row tags_of_row

lemma tag_index_inv_rows:
  "tag_index_inv ti \<longleftrightarrow>
     rows_ok (ti_by_tag ti) \<and> rows_ok (ti_by_key ti) \<and>
     (\<forall>t k. k \<in> row (ti_by_tag ti) t \<longleftrightarrow> t \<in> row (ti_by_key ti) k)"
  unfolding tag_index_inv_def rows_ok_def keys_for_tag_row tags_of_row by blast

lemma row_update: "row (AList.update k v m) k' = (if k' = k then set v else row m k')"
  by (simp add: row_def)

lemma row_delete: "row (AList.delete k m) k' = (if k' = k then {} else row m k')"
  by (simp add: row_def)

lemma rows_ok_update: "rows_ok m \<Longrightarrow> v \<noteq> [] \<Longrightarrow> rows_ok (AList.update k v m)"
  by (auto simp: rows_ok_def)

lemma rows_ok_delete: "rows_ok m \<Longrightarrow> rows_ok (AList.delete k m)"
  by (auto simp: rows_ok_def)

lemma index_rows:
  "row (ti_by_key (index key tags ti)) k = (if k = key then set tags else row (ti_by_key ti) k)"
  "row (ti_by_tag (index key tags ti)) t =
     (if t \<in> set tags then insert key (row (ti_by_tag ti) t)
      else if t \<in> row (ti_by_key ti) key then row (ti_by_tag ti) t - {key}
      else row (ti_by_tag ti) t)"
  by (auto simp: index_def index_by_key_def index_by_tag_def row_update row_delete fold_tag_row
      fold_untag_row row_def [of "ti_by_key ti" key] split: option.splits)

lemma unindex_rows:
  "row (ti_by_key (unindex key ti)) k = (if k = key then {} else row (ti_by_key ti) k)"
  "row (ti_by_tag (unindex key ti)) t =
     (if t \<in> row (ti_by_key ti) key then row (ti_by_tag ti) t - {key} else row (ti_by_tag ti) t)"
  by (auto simp: unindex_def row_delete fold_untag_row row_def [of "ti_by_key ti" key]
      split: option.splits)

lemma index_inv: "tag_index_inv ti \<Longrightarrow> tag_index_inv (index key tags ti)"
proof -
  assume inv: "tag_index_inv ti"
  then have "rows_ok (ti_by_tag (index key tags ti))" "rows_ok (ti_by_key (index key tags ti))"
    by (auto simp: tag_index_inv_rows index_def index_by_key_def index_by_tag_def fold_rows_ok
        rows_ok_update rows_ok_delete split: option.splits)
  with inv show ?thesis by (auto simp: tag_index_inv_rows index_rows)
qed

lemma unindex_inv: "tag_index_inv ti \<Longrightarrow> tag_index_inv (unindex key ti)"
proof -
  assume inv: "tag_index_inv ti"
  then have "rows_ok (ti_by_tag (unindex key ti))" "rows_ok (ti_by_key (unindex key ti))"
    by (auto simp: tag_index_inv_rows unindex_def fold_rows_ok rows_ok_delete split: option.splits)
  with inv show ?thesis by (auto simp: tag_index_inv_rows unindex_rows)
qed

lemma tag_index_new_inv: "tag_index_inv tag_index_new" "tag_index_inv (tag_index_clear ti)"
  by (simp_all add: tag_index_inv_def tag_index_new_def tag_index_clear_def keys_for_tag_def tags_of_def)

lemma set_fold_push: "set (fold push_new ts acc) = set acc \<union> set ts"
  by (induction ts arbitrary: acc) (auto simp: push_new_def)

lemma distinct_fold_push: "distinct acc \<Longrightarrow> distinct (fold push_new ts acc)"
  by (induction ts arbitrary: acc) (auto simp: push_new_def)

lemma parse_cache_tags_fold:
  "set (fold (\<lambda>h tags. fold push_new (header_tags h) tags) hs acc) = set acc \<union> (\<Union>h \<in> set hs. set (header_tags h))"
  "distinct acc \<Longrightarrow> distinct (fold (\<lambda>h tags. fold push_new (header_tags h) tags) hs acc)"
  by (induction hs arbitrary: acc) (auto simp: set_fold_push distinct_fold_push)

section \<open>Properties\<close>

text \<open>Every sequence of index, unindex and clear operations keeps the two maps inverse to each other
  without empty rows: a key is listed under a tag exactly when the tag is listed for the key.
  Afterwards a freshly indexed key has exactly the given tags, an unindexed one has none, and no
  other key changes.\<close>

theorem tag_index_inverse_maps:
  assumes "tag_index_inv ti"
  shows "tag_index_inv (index key tags ti) \<and> tag_index_inv (unindex key ti) \<and>
         tag_index_inv (tag_index_clear ti) \<and>
         (key \<in> set (keys_for_tag (index key tags ti) t) \<longleftrightarrow> t \<in> set tags) \<and>
         key \<notin> set (keys_for_tag (unindex key ti) t) \<and>
         (k \<noteq> key \<longrightarrow>
            (k \<in> set (keys_for_tag (index key tags ti) t) \<longleftrightarrow> k \<in> set (keys_for_tag ti t)) \<and>
            (k \<in> set (keys_for_tag (unindex key ti) t) \<longleftrightarrow> k \<in> set (keys_for_tag ti t)))"
  using assms
  by (simp add: index_inv unindex_inv tag_index_new_inv keys_for_tag_row index_rows unindex_rows)
    (auto simp: tag_index_inv_rows)

text \<open>Two threads that index the same key with different tags can leave the index inconsistent, for
  the locks of the two maps are taken one after the other: if both have updated the key map
  before the first updates the tag map, the key stays listed under the first thread's tag,
  which is not among its tags.\<close>

theorem index_race:
  assumes "map_of (ti_by_key ti) key = None" "a \<noteq> b"
  shows "let (old1, ti1) = index_by_key key [a] ti;
             (old2, ti2) = index_by_key key [b] ti1;
             ti3 = index_by_tag key old2 [b] ti2;
             ti4 = index_by_tag key old1 [a] ti3
         in key \<in> set (keys_for_tag ti4 a) \<and> tags_of ti4 key = [b] \<and> \<not> tag_index_inv ti4"
proof -
  define ti4 where "ti4 = index_by_tag key None [a] (index_by_tag key (Some [a]) [b]
    (snd (index_by_key key [b] (snd (index_by_key key [a] ti)))))"
  have listed: "key \<in> row (ti_by_tag ti4) a"
    by (simp add: ti4_def index_by_tag_def tag_row)
  have own: "map_of (ti_by_key ti4) key = Some [b]"
    by (simp add: ti4_def index_by_tag_def index_by_key_def)
  have "\<not> tag_index_inv ti4"
  proof
    assume "tag_index_inv ti4"
    with listed have "a \<in> row (ti_by_key ti4) key" by (simp add: tag_index_inv_rows)
    with own assms(2) show False by (simp add: row_def)
  qed
  with listed own assms(1) show ?thesis
    by (simp add: ti4_def index_by_key_def keys_for_tag_row tags_of_def)
qed

section \<open>Witnesses\<close>

theorem tag_index_inverse_maps_witness:
  "''k'' \<in> set (keys_for_tag (index ''k'' [''news''] tag_index_new) ''news'') \<and> tag_index_inv tag_index_new"
  using tag_index_inverse_maps [OF tag_index_new_inv(1), of "''k''" "[''news'']" "''news''" "''k''"]
    tag_index_new_inv(1) by simp

theorem index_race_witness:
  "let (old1, ti1) = index_by_key ''k'' [''a''] tag_index_new;
       (old2, ti2) = index_by_key ''k'' [''b''] ti1;
       ti3 = index_by_tag ''k'' old2 [''b''] ti2;
       ti4 = index_by_tag ''k'' old1 [''a''] ti3
   in ''k'' \<in> set (keys_for_tag ti4 ''a'') \<and> tags_of ti4 ''k'' = [''b''] \<and> \<not> tag_index_inv ti4"
  by (rule index_race) (simp_all add: tag_index_new_def)

end
