(* ===== verification/Sharded_Cache.thy ===== *)
theory Sharded_Cache
  imports Cache_Entry Tag_Index
begin

text \<open>
  The sharded L1 cache (\<^verbatim>\<open>proxy/src/sharded_cache.rs\<close>). One shard is a cache of the quick\_cache
  crate, a parameter: \<open>quick_cache_lib\<close> holds its operations and \<open>qc_law\<close> what it documents. An entry
  may be refused or evicted at any insertion. \<open>hash\<close> is the standard library's default hasher,
  whose algorithm is unspecified.
\<close>

section \<open>Definitions\<close>

record 'c quick_cache_lib =
  qc_new :: "nat \<Rightarrow> 'c"
  qc_get :: "'c \<Rightarrow> string \<Rightarrow> cached_response option"
  qc_insert :: "string \<Rightarrow> cached_response \<Rightarrow> 'c \<Rightarrow> 'c"
  qc_remove :: "string \<Rightarrow> 'c \<Rightarrow> (string \<times> cached_response) option \<times> 'c"
  qc_clear :: "'c \<Rightarrow> 'c"
  qc_len :: "'c \<Rightarrow> nat"

definition qc_law :: "'c quick_cache_lib \<Rightarrow> bool" where
  "qc_law lib \<longleftrightarrow>
     (\<forall>n k. qc_get lib (qc_new lib n) k = None) \<and>
     (\<forall>c k v. qc_get lib (qc_insert lib k v c) k \<in> {None, Some v}) \<and>
     (\<forall>c k v k'. k' \<noteq> k \<longrightarrow> qc_get lib (qc_insert lib k v c) k' \<in> {None, qc_get lib c k'}) \<and>
     (\<forall>c k. qc_get lib (snd (qc_remove lib k c)) k = None) \<and>
     (\<forall>c k. fst (qc_remove lib k c) = map_option (Pair k) (qc_get lib c k)) \<and>
     (\<forall>c k k'. k' \<noteq> k \<longrightarrow> qc_get lib (snd (qc_remove lib k c)) k' = qc_get lib c k') \<and>
     (\<forall>c k. qc_get lib (qc_clear lib c) k = None)"

text \<open>\<^verbatim>\<open>usize::next_power_of_two\<close>.\<close>

fun next_power_of_two :: "nat \<Rightarrow> nat" where
  "next_power_of_two n = (if n \<le> 1 then 1 else 2 * next_power_of_two ((n + 1) div 2))"

declare next_power_of_two.simps [simp del]

record 'c http_l1_cache =
  l1_shards :: "'c list"
  l1_shard_mask :: u64
  l1_per_shard_capacity :: nat
  l1_tag_index :: tag_index

definition l1_new :: "'c quick_cache_lib \<Rightarrow> nat \<Rightarrow> nat \<Rightarrow> 'c http_l1_cache" where
  "l1_new lib total_capacity shard_count =
     (let shards_n = next_power_of_two (max shard_count 1);
          per_shard = max (total_capacity div shards_n) 1
      in \<lparr>l1_shards = replicate shards_n (qc_new lib per_shard),
          l1_shard_mask = of_nat (shards_n - 1),
          l1_per_shard_capacity = per_shard,
          l1_tag_index = tag_index_new\<rparr>)"

definition shard_index :: "(string \<Rightarrow> u64) \<Rightarrow> 'c http_l1_cache \<Rightarrow> string \<Rightarrow> nat" where
  "shard_index hash c key = unat (and (hash key) (l1_shard_mask c))"

text \<open>\<^verbatim>\<open>get\<close>; indexing past the shards panics, the value \<^const>\<open>Inl\<close> of unit.\<close>

definition l1_get ::
  "'c quick_cache_lib \<Rightarrow> (string \<Rightarrow> u64) \<Rightarrow> 'c http_l1_cache \<Rightarrow> string \<Rightarrow> unit + cached_response option" where
  "l1_get lib hash c key =
     (if shard_index hash c key < length (l1_shards c)
      then Inr (qc_get lib (l1_shards c ! shard_index hash c key) key) else Inl ())"

definition l1_insert ::
  "'c quick_cache_lib \<Rightarrow> (string \<Rightarrow> u64) \<Rightarrow> string \<Rightarrow> cached_response \<Rightarrow> 'c http_l1_cache \<Rightarrow> 'c http_l1_cache" where
  "l1_insert lib hash key value c =
     (let tags = parse_cache_tags (cr_headers value);
          i = shard_index hash c key
      in c\<lparr>l1_tag_index := index key tags (unindex key (l1_tag_index c)),
           l1_shards := (l1_shards c)[i := qc_insert lib key value (l1_shards c ! i)]\<rparr>)"

definition l1_remove ::
  "'c quick_cache_lib \<Rightarrow> (string \<Rightarrow> u64) \<Rightarrow> string \<Rightarrow> 'c http_l1_cache \<Rightarrow>
   cached_response option \<times> 'c http_l1_cache" where
  "l1_remove lib hash key c =
     (let i = shard_index hash c key;
          (r, s) = qc_remove lib key (l1_shards c ! i)
      in (map_option snd r,
          c\<lparr>l1_tag_index := unindex key (l1_tag_index c), l1_shards := (l1_shards c)[i := s]\<rparr>))"

definition l1_len :: "'c quick_cache_lib \<Rightarrow> 'c http_l1_cache \<Rightarrow> nat" where
  "l1_len lib c = sum_list (map (qc_len lib) (l1_shards c))"

definition l1_clear :: "'c quick_cache_lib \<Rightarrow> 'c http_l1_cache \<Rightarrow> nat \<times> 'c http_l1_cache" where
  "l1_clear lib c =
     (l1_len lib c,
      c\<lparr>l1_shards := map (qc_clear lib) (l1_shards c), l1_tag_index := tag_index_clear (l1_tag_index c)\<rparr>)"

fun remove_keys ::
  "'c quick_cache_lib \<Rightarrow> (string \<Rightarrow> u64) \<Rightarrow> string list \<Rightarrow> nat \<Rightarrow> 'c http_l1_cache \<Rightarrow> nat \<times> 'c http_l1_cache"
  where
  "remove_keys lib hash [] removed c = (removed, c)"
| "remove_keys lib hash (key # keys) removed c =
     (let (r, c') = l1_remove lib hash key c in
      remove_keys lib hash keys (if r \<noteq> None then removed + 1 else removed) c')"

definition purge_tag ::
  "'c quick_cache_lib \<Rightarrow> (string \<Rightarrow> u64) \<Rightarrow> string \<Rightarrow> 'c http_l1_cache \<Rightarrow> nat \<times> 'c http_l1_cache" where
  "purge_tag lib hash t c = remove_keys lib hash (keys_for_tag (l1_tag_index c) t) 0 c"

definition l1_tag_count :: "'c http_l1_cache \<Rightarrow> nat" where
  "l1_tag_count c = tag_count (l1_tag_index c)"

definition l1_is_empty :: "'c quick_cache_lib \<Rightarrow> 'c http_l1_cache \<Rightarrow> bool" where
  "l1_is_empty lib c \<longleftrightarrow> l1_len lib c = 0"

definition l1_capacity :: "'c http_l1_cache \<Rightarrow> nat" where
  "l1_capacity c = l1_per_shard_capacity c * length (l1_shards c)"

subsection \<open>Specification\<close>

text \<open>What the cache holds, as a map.\<close>

definition l1_map ::
  "'c quick_cache_lib \<Rightarrow> (string \<Rightarrow> u64) \<Rightarrow> 'c http_l1_cache \<Rightarrow> string \<Rightarrow> cached_response option" where
  "l1_map lib hash c key = qc_get lib (l1_shards c ! shard_index hash c key) key"

text \<open>
  Invariant: a power of two of shards with its mask, a consistent tag index, and every cached
  response indexed under exactly its own tags.
\<close>

definition l1_inv :: "'c quick_cache_lib \<Rightarrow> (string \<Rightarrow> u64) \<Rightarrow> 'c http_l1_cache \<Rightarrow> bool" where
  "l1_inv lib hash c \<longleftrightarrow>
     (\<exists>b \<le> 63. length (l1_shards c) = 2 ^ b \<and> l1_shard_mask c = mask b) \<and>
     tag_index_inv (l1_tag_index c) \<and>
     (\<forall>k v. l1_map lib hash c k = Some v \<longrightarrow>
        set (tags_of (l1_tag_index c) k) = set (parse_cache_tags (cr_headers v)))"

inductive l1_reachable :: "'c quick_cache_lib \<Rightarrow> (string \<Rightarrow> u64) \<Rightarrow> 'c http_l1_cache \<Rightarrow> bool"
  for lib hash where
  init: "n \<le> 2 ^ 63 \<Longrightarrow> l1_reachable lib hash (l1_new lib cap n)"
| insert: "l1_reachable lib hash c \<Longrightarrow> l1_reachable lib hash (l1_insert lib hash k v c)"
| remove: "l1_reachable lib hash c \<Longrightarrow> l1_reachable lib hash (snd (l1_remove lib hash k c))"
| clear: "l1_reachable lib hash c \<Longrightarrow> l1_reachable lib hash (snd (l1_clear lib c))"
| purge: "l1_reachable lib hash c \<Longrightarrow> l1_reachable lib hash (snd (purge_tag lib hash t c))"

section \<open>Lemmas\<close>

lemma next_power_of_two_pow: "\<exists>b. next_power_of_two n = 2 ^ b"
proof (induction n rule: next_power_of_two.induct)
  case (1 n)
  show ?case
  proof (cases "n \<le> 1")
    case True
    then show ?thesis by (auto simp: next_power_of_two.simps [of n] intro: exI [of _ 0])
  next
    case False
    with 1 obtain b where "next_power_of_two ((n + 1) div 2) = 2 ^ b" by blast
    with False have "next_power_of_two n = 2 ^ Suc b" by (simp add: next_power_of_two.simps [of n])
    then show ?thesis by blast
  qed
qed

lemma next_power_of_two_bounds: "n \<le> next_power_of_two n \<and> (0 < n \<longrightarrow> next_power_of_two n < 2 * n)"
proof (induction n rule: next_power_of_two.induct)
  case (1 n)
  show ?case
  proof (cases "n \<le> 1")
    case True
    then show ?thesis by (auto simp: next_power_of_two.simps [of n])
  next
    case False
    with 1 have "(n + 1) div 2 \<le> next_power_of_two ((n + 1) div 2)"
      "next_power_of_two ((n + 1) div 2) < 2 * ((n + 1) div 2)" by auto
    moreover obtain b where "next_power_of_two ((n + 1) div 2) = 2 ^ b"
      using next_power_of_two_pow by blast
    ultimately show ?thesis using False
      by (simp add: next_power_of_two.simps [of n]) (cases b; auto; presburger)
  qed
qed

lemma shard_index_less:
  "length (l1_shards c) = 2 ^ b \<Longrightarrow> l1_shard_mask c = mask b \<Longrightarrow> shard_index hash c key < length (l1_shards c)"
proof -
  assume b: "length (l1_shards c) = 2 ^ b" "l1_shard_mask c = mask b"
  have "shard_index hash c key = take_bit b (unat (hash key))"
    by (simp add: shard_index_def b(2) unsigned_take_bit_eq flip: take_bit_eq_mask)
  then show ?thesis by (simp add: b(1))
qed

lemma l1_inv_index: "l1_inv lib hash c \<Longrightarrow> shard_index hash c key < length (l1_shards c)"
  using shard_index_less by (auto simp: l1_inv_def)

lemma shard_index_cong: "l1_shard_mask c' = l1_shard_mask c \<Longrightarrow> shard_index hash c' k = shard_index hash c k"
  by (simp add: shard_index_def)

lemma l1_insert_map:
  assumes "qc_law lib" "shard_index hash c k < length (l1_shards c)" "shard_index hash c k' < length (l1_shards c)"
  shows "l1_map lib hash (l1_insert lib hash k v c) k' \<in>
           (if k' = k then {None, Some v} else {None, l1_map lib hash c k'})"
proof -
  have idx: "shard_index hash (l1_insert lib hash k v c) k' = shard_index hash c k'"
    by (rule shard_index_cong) (simp add: l1_insert_def Let_def)
  have "l1_shards (l1_insert lib hash k v c) =
      (l1_shards c)[shard_index hash c k := qc_insert lib k v (l1_shards c ! shard_index hash c k)]"
    by (simp add: l1_insert_def Let_def)
  with assms show ?thesis by (auto simp: l1_map_def idx nth_list_update qc_law_def)
qed

lemma l1_remove_map:
  assumes "qc_law lib" "shard_index hash c k < length (l1_shards c)" "shard_index hash c k' < length (l1_shards c)"
  shows "l1_map lib hash (snd (l1_remove lib hash k c)) k' = (if k' = k then None else l1_map lib hash c k')"
proof -
  have idx: "shard_index hash (snd (l1_remove lib hash k c)) k' = shard_index hash c k'"
    by (rule shard_index_cong) (simp add: l1_remove_def Let_def case_prod_beta)
  have "l1_shards (snd (l1_remove lib hash k c)) = (l1_shards c)
      [shard_index hash c k := snd (qc_remove lib k (l1_shards c ! shard_index hash c k))]"
    by (simp add: l1_remove_def Let_def case_prod_beta)
  with assms show ?thesis by (auto simp: l1_map_def idx nth_list_update qc_law_def)
qed

lemma l1_clear_map:
  assumes "qc_law lib" "shard_index hash c k < length (l1_shards c)"
  shows "l1_map lib hash (snd (l1_clear lib c)) k = None"
proof -
  have "shard_index hash (snd (l1_clear lib c)) k = shard_index hash c k"
    by (rule shard_index_cong) (simp add: l1_clear_def)
  with assms show ?thesis by (simp add: l1_map_def l1_clear_def qc_law_def)
qed

lemma tags_of_index: "set (tags_of (index key tags (unindex key ti)) k) =
    (if k = key then set tags else set (tags_of ti k))"
  by (simp add: tags_of_row index_rows unindex_rows)

lemma l1_insert_inv:
  assumes "qc_law lib" "l1_inv lib hash c"
  shows "l1_inv lib hash (l1_insert lib hash k v c)"
proof -
  have shape: "\<exists>b \<le> 63. length (l1_shards (l1_insert lib hash k v c)) = 2 ^ b \<and>
      l1_shard_mask (l1_insert lib hash k v c) = mask b"
    using assms(2) by (simp add: l1_inv_def l1_insert_def Let_def)
  have ti: "l1_tag_index (l1_insert lib hash k v c) =
      index k (parse_cache_tags (cr_headers v)) (unindex k (l1_tag_index c))"
    by (simp add: l1_insert_def Let_def)
  have "set (tags_of (l1_tag_index (l1_insert lib hash k v c)) k') = set (parse_cache_tags (cr_headers w))"
    if "l1_map lib hash (l1_insert lib hash k v c) k' = Some w" for k' w
  proof (cases "k' = k")
    case True
    with that l1_insert_map [OF assms(1) l1_inv_index l1_inv_index, OF assms(2) assms(2), of k v k']
    have "w = v" by auto
    with True show ?thesis by (simp add: ti tags_of_index)
  next
    case False
    with that l1_insert_map [OF assms(1) l1_inv_index l1_inv_index, OF assms(2) assms(2), of k v k']
    have "l1_map lib hash c k' = Some w" by auto
    with False assms(2) show ?thesis by (simp add: ti tags_of_index l1_inv_def)
  qed
  with shape assms(2) show ?thesis by (simp add: l1_inv_def ti index_inv unindex_inv)
qed

lemma l1_remove_inv:
  assumes "qc_law lib" "l1_inv lib hash c"
  shows "l1_inv lib hash (snd (l1_remove lib hash k c))"
proof -
  have shape: "\<exists>b \<le> 63. length (l1_shards (snd (l1_remove lib hash k c))) = 2 ^ b \<and>
      l1_shard_mask (snd (l1_remove lib hash k c)) = mask b"
    using assms(2) by (simp add: l1_inv_def l1_remove_def Let_def case_prod_beta)
  have ti: "l1_tag_index (snd (l1_remove lib hash k c)) = unindex k (l1_tag_index c)"
    by (simp add: l1_remove_def Let_def case_prod_beta)
  have "set (tags_of (unindex k (l1_tag_index c)) k') = set (parse_cache_tags (cr_headers w))"
    if "l1_map lib hash (snd (l1_remove lib hash k c)) k' = Some w" for k' w
  proof -
    from that l1_remove_map [OF assms(1) l1_inv_index l1_inv_index, OF assms(2) assms(2), of k k']
    have "k' \<noteq> k" "l1_map lib hash c k' = Some w" by (auto split: if_splits)
    with assms(2) show ?thesis by (simp add: tags_of_row unindex_rows l1_inv_def)
  qed
  with shape assms(2) show ?thesis by (simp add: l1_inv_def ti unindex_inv)
qed

lemma l1_clear_inv:
  assumes "qc_law lib" "l1_inv lib hash c"
  shows "l1_inv lib hash (snd (l1_clear lib c))"
proof -
  have "l1_map lib hash (snd (l1_clear lib c)) k = None" for k
    by (rule l1_clear_map [OF assms(1) l1_inv_index [OF assms(2)]])
  with assms(2) show ?thesis
    by (auto simp: l1_inv_def l1_clear_def tag_index_new_inv)
qed

lemma remove_keys_inv:
  "qc_law lib \<Longrightarrow> l1_inv lib hash c \<Longrightarrow> l1_inv lib hash (snd (remove_keys lib hash ks n c))"
proof (induction ks arbitrary: n c)
  case (Cons k ks)
  then show ?case using l1_remove_inv [OF Cons.prems, of k] by (simp add: case_prod_beta Let_def)
qed simp

lemma remove_keys_map:
  assumes "qc_law lib" "l1_inv lib hash c"
  shows "l1_map lib hash (snd (remove_keys lib hash ks n c)) k =
           (if k \<in> set ks then None else l1_map lib hash c k)"
  using assms(2)
proof (induction ks arbitrary: n c)
  case (Cons q ks)
  note rm = l1_remove_map [OF assms(1) l1_inv_index l1_inv_index, OF Cons.prems Cons.prems]
  from Cons.IH [OF l1_remove_inv [OF assms(1) Cons.prems, of q]] show ?case
    by (simp add: case_prod_beta Let_def rm)
qed simp

lemma of_nat_mask: "of_nat (2 ^ b - 1) = (mask b :: u64)"
  by (simp add: of_nat_diff mask_eq_exp_minus_1)

lemma l1_new_inv:
  assumes "qc_law lib" "n \<le> 2 ^ 63"
  shows "l1_inv lib hash (l1_new lib cap n)"
proof -
  obtain b where b: "next_power_of_two (max n 1) = 2 ^ b" using next_power_of_two_pow by blast
  have "(2::nat) ^ b < 2 * max n 1" using next_power_of_two_bounds [of "max n 1"] b by simp
  also have "\<dots> \<le> 2 ^ 64" using assms(2) by simp
  finally have "b < 64" by (rule power_less_imp_less_exp [rotated]) simp
  then have "b \<le> 63" by simp
  then have shape: "\<exists>b \<le> 63. length (l1_shards (l1_new lib cap n)) = 2 ^ b \<and> l1_shard_mask (l1_new lib cap n) = mask b"
    unfolding l1_new_def Let_def b of_nat_mask by auto
  then have "shard_index hash (l1_new lib cap n) k < length (l1_shards (l1_new lib cap n))" for k
    using shard_index_less by blast
  then have "l1_map lib hash (l1_new lib cap n) k = None" for k
    using assms(1) by (simp add: l1_map_def l1_new_def Let_def qc_law_def)
  with shape show ?thesis by (auto simp: l1_inv_def l1_new_def Let_def tag_index_new_inv)
qed

lemma l1_reachable_inv: "qc_law lib \<Longrightarrow> l1_reachable lib hash c \<Longrightarrow> l1_inv lib hash c"
  by (erule l1_reachable.induct)
    (auto simp: purge_tag_def intro: l1_new_inv l1_insert_inv l1_remove_inv l1_clear_inv remove_keys_inv)

section \<open>Properties\<close>

text \<open>The shard of a key always exists: after any operations the number of shards is a power of two
  with the matching mask, so that choosing a shard by hash and mask never runs past the shards
  and a look-up never panics.\<close>

theorem l1_get_no_panic:
  assumes "qc_law lib" "l1_reachable lib hash c"
  shows "l1_get lib hash c key = Inr (l1_map lib hash c key)"
  using l1_inv_index [OF l1_reachable_inv [OF assms]] by (simp add: l1_get_def l1_map_def)

text \<open>Purging a tag is complete and precise: afterwards no cached response carries the tag, every
  response without the tag that was cached still is, and nothing is added.\<close>

theorem purge_tag_exact:
  assumes "qc_law lib" "l1_reachable lib hash c"
  shows "l1_map lib hash (snd (purge_tag lib hash t c)) key =
    (case l1_map lib hash c key of
       None \<Rightarrow> None
     | Some v \<Rightarrow> if t \<in> set (parse_cache_tags (cr_headers v)) then None else Some v)"
proof -
  have inv: "l1_inv lib hash c" using assms by (rule l1_reachable_inv)
  have "key \<in> set (keys_for_tag (l1_tag_index c) t) \<longleftrightarrow> t \<in> set (parse_cache_tags (cr_headers v))"
    if "l1_map lib hash c key = Some v" for v
    using inv that by (simp add: l1_inv_def tag_index_inv_def)
  then show ?thesis
    by (auto simp: purge_tag_def remove_keys_map [OF assms(1) inv] split: option.splits)
qed


section \<open>Witnesses\<close>

text \<open>A shard that keeps everything.\<close>

definition demo_qc :: "(string, cached_response) hash_map quick_cache_lib" where
  "demo_qc =
     \<lparr>qc_new = (\<lambda>_. []), qc_get = map_of, qc_insert = AList.update,
      qc_remove = (\<lambda>k c. (map_option (Pair k) (map_of c k), AList.delete k c)),
      qc_clear = (\<lambda>_. []), qc_len = length\<rparr>"

definition demo_hash :: "string \<Rightarrow> u64" where
  "demo_hash s = of_nat (length s)"

definition demo_tagged :: cached_response where
  "demo_tagged =
     \<lparr>cr_status = 200, cr_headers = [(''Cache-Tag'', ''news, sport'')], cr_body = Inline [],
      cr_body_encoding = Raw, cr_uncompressed_len = 0, cr_cached_at = 0, cr_ttl = 60,
      cr_etag = None, cr_last_modified = None, cr_is_negative = False, cr_must_revalidate = False\<rparr>"

definition demo_l1 :: "(string, cached_response) hash_map http_l1_cache" where
  "demo_l1 = l1_insert demo_qc demo_hash ''k'' demo_tagged (l1_new demo_qc 100 3)"

lemma demo_qc_law: "qc_law demo_qc"
  by (simp add: qc_law_def demo_qc_def)

lemma demo_l1_reachable: "l1_reachable demo_qc demo_hash demo_l1"
  unfolding demo_l1_def by (intro l1_reachable.insert l1_reachable.init) simp

theorem l1_get_no_panic_witness:
  "l1_get demo_qc demo_hash demo_l1 ''k'' = Inr (l1_map demo_qc demo_hash demo_l1 ''k'') \<and>
   l1_map demo_qc demo_hash demo_l1 ''k'' = Some demo_tagged"
proof -
  have "l1_map demo_qc demo_hash demo_l1 ''k'' = Some demo_tagged" by code_simp
  with l1_get_no_panic [OF demo_qc_law demo_l1_reachable, of "''k''"] show ?thesis by simp
qed

theorem purge_tag_exact_witness:
  "l1_map demo_qc demo_hash (snd (purge_tag demo_qc demo_hash ''sport'' demo_l1)) ''k'' = None"
proof -
  have "l1_map demo_qc demo_hash demo_l1 ''k'' = Some demo_tagged" by code_simp
  moreover have "''sport'' \<in> set (parse_cache_tags (cr_headers demo_tagged))" by code_simp
  ultimately show ?thesis
    using purge_tag_exact [OF demo_qc_law demo_l1_reachable, of "''sport''" "''k''"] by simp
qed


end
