(* ===== verification/Miss_Coalesce.thy ===== *)
theory Miss_Coalesce
  imports Cache_Entry
begin

text \<open>
  Request coalescing (\<^verbatim>\<open>proxy/src/miss_coalesce.rs\<close>): concurrent misses of one key share one fetch.

  A flight is the number of its watch channel; the channels are a list of their latest values.
  The map under the lock names the flight in progress for a key. A permit knows only its key,
  as in the code. The threads are a step relation over permits and waiters.
\<close>

section \<open>Definitions\<close>

datatype flight_state = Pending | Done "cached_response option"

record miss_flight_map =
  mf_inner :: "(string, nat) hash_map"
  mf_chan :: "flight_state list"

definition flight_map_new :: miss_flight_map where
  "flight_map_new = \<lparr>mf_inner = [], mf_chan = []\<rparr>"

datatype coalesce_join = Leader string | Follower nat

definition join_flight :: "string \<Rightarrow> miss_flight_map \<Rightarrow> coalesce_join \<times> miss_flight_map" where
  "join_flight key m =
     (case map_of (mf_inner m) key of
        Some flight \<Rightarrow> (Follower flight, m)
      | None \<Rightarrow>
          (Leader key,
           m\<lparr>mf_inner := AList.update key (length (mf_chan m)) (mf_inner m),
             mf_chan := mf_chan m @ [Pending]\<rparr>))"

definition complete :: "string \<Rightarrow> cached_response option \<Rightarrow> miss_flight_map \<Rightarrow> miss_flight_map" where
  "complete key result m =
     (case map_of (mf_inner m) key of
        None \<Rightarrow> m
      | Some flight \<Rightarrow>
          m\<lparr>mf_inner := AList.delete key (mf_inner m), mf_chan := (mf_chan m)[flight := Done result]\<rparr>)"

text \<open>\<^verbatim>\<open>Drop\<close> of a permit.\<close>

definition permit_drop :: "bool \<Rightarrow> string \<Rightarrow> miss_flight_map \<Rightarrow> miss_flight_map" where
  "permit_drop disarmed key m = (if \<not> disarmed then complete key None m else m)"

text \<open>
  One turn of the loop in \<^verbatim>\<open>wait\<close>: the answer, or \<^const>\<open>None\<close> while it must sleep. It stops without a
  result when the sender is gone, which is when no entry of the map holds the flight.
\<close>

definition wait_poll :: "nat \<Rightarrow> miss_flight_map \<Rightarrow> cached_response option option" where
  "wait_poll flight m =
     (case mf_chan m ! flight of
        Done result \<Rightarrow> Some result
      | Pending \<Rightarrow> if flight \<in> snd ` set (mf_inner m) then None else Some None)"

subsection \<open>Threads\<close>

text \<open>
  Permits held by requests, permits disarmed and handed to the completion of the miss, and the
  flights on which requests wait.
\<close>

record coalesce_system =
  co_map :: miss_flight_map
  co_permits :: "string list"
  co_handed :: "string list"
  co_waiters :: "nat list"

definition coalesce_init :: coalesce_system where
  "coalesce_init = \<lparr>co_map = flight_map_new, co_permits = [], co_handed = [], co_waiters = []\<rparr>"

inductive coalesce_step :: "coalesce_system \<Rightarrow> coalesce_system \<Rightarrow> bool" where
  lead: "join_flight k (co_map s) = (Leader k', m) \<Longrightarrow>
    coalesce_step s (s\<lparr>co_map := m, co_permits := k' # co_permits s\<rparr>)"
| follow: "join_flight k (co_map s) = (Follower f, m) \<Longrightarrow>
    coalesce_step s (s\<lparr>co_map := m, co_waiters := f # co_waiters s\<rparr>)"
| finish: "k \<in> set (co_permits s) \<Longrightarrow>
    coalesce_step s (s\<lparr>co_map := complete k r (co_map s), co_permits := remove1 k (co_permits s)\<rparr>)"
| drop: "k \<in> set (co_permits s) \<Longrightarrow>
    coalesce_step s (s\<lparr>co_map := permit_drop False k (co_map s), co_permits := remove1 k (co_permits s)\<rparr>)"
| disarm: "k \<in> set (co_permits s) \<Longrightarrow>
    coalesce_step s (s\<lparr>co_map := permit_drop True k (co_map s), co_permits := remove1 k (co_permits s),
                       co_handed := k # co_handed s\<rparr>)"
| finish_handed: "k \<in> set (co_handed s) \<Longrightarrow>
    coalesce_step s (s\<lparr>co_map := complete k r (co_map s), co_handed := remove1 k (co_handed s)\<rparr>)"
| wake: "f \<in> set (co_waiters s) \<Longrightarrow> wait_poll f (co_map s) = Some r \<Longrightarrow>
    coalesce_step s (s\<lparr>co_waiters := remove1 f (co_waiters s)\<rparr>)"

inductive_cases coalesce_stepE: "coalesce_step s s'"

inductive coalesce_run :: "coalesce_system \<Rightarrow> coalesce_system \<Rightarrow> bool" where
  start: "coalesce_run s s"
| more: "coalesce_run s s' \<Longrightarrow> coalesce_step s' s'' \<Longrightarrow> coalesce_run s s''"

definition flights_inv :: "miss_flight_map \<Rightarrow> bool" where
  "flights_inv m \<longleftrightarrow>
     hm_inv (mf_inner m) \<and>
     (\<forall>k f. map_of (mf_inner m) k = Some f \<longrightarrow> f < length (mf_chan m) \<and> mf_chan m ! f = Pending) \<and>
     (\<forall>k k' f. map_of (mf_inner m) k = Some f \<and> map_of (mf_inner m) k' = Some f \<longrightarrow> k = k') \<and>
     (\<forall>f < length (mf_chan m). mf_chan m ! f = Pending \<longrightarrow> (\<exists>k. map_of (mf_inner m) k = Some f))"

definition coalesce_inv :: "coalesce_system \<Rightarrow> bool" where
  "coalesce_inv s \<longleftrightarrow>
     flights_inv (co_map s) \<and> distinct (co_permits s @ co_handed s) \<and>
     (\<forall>k. k \<in> set (co_permits s @ co_handed s) \<longleftrightarrow> map_of (mf_inner (co_map s)) k \<noteq> None) \<and>
     (\<forall>f \<in> set (co_waiters s). f < length (mf_chan (co_map s)))"

section \<open>Lemmas\<close>

lemma join_leader:
  "join_flight k m = (Leader k', m') \<longleftrightarrow>
     k' = k \<and> map_of (mf_inner m) k = None \<and>
     m' = m\<lparr>mf_inner := AList.update k (length (mf_chan m)) (mf_inner m), mf_chan := mf_chan m @ [Pending]\<rparr>"
  by (auto simp: join_flight_def split: option.splits)

lemma join_follower:
  "join_flight k m = (Follower f, m') \<longleftrightarrow> map_of (mf_inner m) k = Some f \<and> m' = m"
  by (auto simp: join_flight_def split: option.splits)

lemma complete_get: "map_of (mf_inner (complete k r m)) k' = (if k' = k then None else map_of (mf_inner m) k')"
  by (auto simp: complete_def split: option.splits)

lemma complete_length [simp]: "length (mf_chan (complete k r m)) = length (mf_chan m)"
  by (auto simp: complete_def split: option.splits)

lemma flights_invI:
  assumes "hm_inv (mf_inner m)"
    and "\<And>k f. map_of (mf_inner m) k = Some f \<Longrightarrow> f < length (mf_chan m) \<and> mf_chan m ! f = Pending"
    and "\<And>k k' f. map_of (mf_inner m) k = Some f \<Longrightarrow> map_of (mf_inner m) k' = Some f \<Longrightarrow> k = k'"
    and "\<And>f. f < length (mf_chan m) \<Longrightarrow> mf_chan m ! f = Pending \<Longrightarrow> \<exists>k. map_of (mf_inner m) k = Some f"
  shows "flights_inv m"
  using assms unfolding flights_inv_def by blast

lemma flights_join:
  assumes "flights_inv m" "join_flight k m = (Leader k', m')"
  shows "flights_inv m'"
proof -
  let ?n = "length (mf_chan m)"
  have new: "map_of (mf_inner m) k = None" and m': "m' = m\<lparr>mf_inner := AList.update k ?n (mf_inner m),
      mf_chan := mf_chan m @ [Pending]\<rparr>" using assms(2) by (auto simp: join_leader)
  have old: "f \<noteq> ?n" if "map_of (mf_inner m) k'' = Some f" for k'' f
    using assms(1) that by (auto simp: flights_inv_def)
  have live: "\<exists>k''. map_of (AList.update k ?n (mf_inner m)) k'' = Some f"
    if "f < Suc ?n" "(mf_chan m @ [Pending]) ! f = Pending" for f
  proof (cases "f = ?n")
    case False
    with that have "f < ?n" "mf_chan m ! f = Pending" by (auto simp: nth_append)
    with assms(1) obtain k'' where "map_of (mf_inner m) k'' = Some f" by (auto simp: flights_inv_def)
    with new show ?thesis by (intro exI [of _ k'']) auto
  qed (intro exI [of _ k], simp)
  have pend: "f < Suc ?n \<and> (mf_chan m @ [Pending]) ! f = Pending"
    if "map_of (AList.update k ?n (mf_inner m)) k'' = Some f" for k'' f
    using that assms(1) by (auto simp: flights_inv_def nth_append split: if_splits)
  have inj: "k1 = k2" if "map_of (AList.update k ?n (mf_inner m)) k1 = Some f"
    "map_of (AList.update k ?n (mf_inner m)) k2 = Some f" for k1 k2 f
    using that assms(1) old by (auto simp: flights_inv_def split: if_splits)
  show ?thesis
  proof (rule flights_invI)
    show "hm_inv (mf_inner m')" using assms(1) by (simp add: m' flights_inv_def)
  qed (use live pend inj in \<open>simp_all add: m' del: hm_get_update\<close>)
qed

lemma flights_complete:
  assumes "flights_inv m"
  shows "flights_inv (complete k r m)"
proof (cases "map_of (mf_inner m) k")
  case None
  then show ?thesis using assms by (simp add: complete_def)
next
  case (Some f)
  have f: "f < length (mf_chan m)" using assms Some by (auto simp: flights_inv_def)
  have inj: "g \<noteq> f" if "map_of (mf_inner m) k' = Some g" "k' \<noteq> k" for g k'
    using assms Some that by (auto simp: flights_inv_def)
  have live: "\<exists>k'. map_of (AList.delete k (mf_inner m)) k' = Some g"
    if "g < length (mf_chan m)" "(mf_chan m)[f := Done r] ! g = Pending" for g
  proof -
    from that have "g \<noteq> f" by auto
    with that have "mf_chan m ! g = Pending" by simp
    with assms that(1) obtain k' where "map_of (mf_inner m) k' = Some g"
      by (auto simp: flights_inv_def)
    with \<open>g \<noteq> f\<close> Some show ?thesis by (intro exI [of _ k']) auto
  qed
  have m': "complete k r m = m\<lparr>mf_inner := AList.delete k (mf_inner m), mf_chan := (mf_chan m)[f := Done r]\<rparr>"
    using Some by (simp add: complete_def)
  show ?thesis
    unfolding m'
  proof (rule flights_invI, goal_cases)
    case 1
    show ?case using assms by (simp add: flights_inv_def)
  next
    case (2 k' g)
    then have g: "map_of (mf_inner m) k' = Some g" "k' \<noteq> k" by (auto split: if_splits)
    with assms have "g < length (mf_chan m)" "mf_chan m ! g = Pending" by (auto simp: flights_inv_def)
    with inj [OF g] show ?case by simp
  next
    case (3 k1 k2 g)
    then have "map_of (mf_inner m) k1 = Some g" "map_of (mf_inner m) k2 = Some g"
      by (auto split: if_splits)
    with assms show ?case by (simp add: flights_inv_def)
  next
    case (4 g)
    with live [of g] show ?case by simp
  qed
qed

lemma coalesce_init_inv: "coalesce_inv coalesce_init"
  by (simp add: coalesce_inv_def coalesce_init_def flights_inv_def flight_map_new_def)

lemma coalesce_inv_complete:
  assumes "coalesce_inv s" "mset ps + mset hs = mset (co_permits s) + mset (co_handed s) - {#k#}"
    "k \<in> set (co_permits s @ co_handed s)"
  shows "coalesce_inv (s\<lparr>co_map := complete k r (co_map s), co_permits := ps, co_handed := hs\<rparr>)"
proof -
  have d: "distinct (co_permits s @ co_handed s)" using assms(1) by (simp add: coalesce_inv_def)
  have m: "mset (ps @ hs) = mset (remove1 k (co_permits s @ co_handed s))" using assms(2) by simp
  have "set (ps @ hs) = set (co_permits s @ co_handed s) - {k}"
    using mset_eq_setD [OF m] d by (simp only: set_remove1_eq)
  moreover have "distinct (ps @ hs)"
    using mset_eq_imp_distinct_iff [OF m] distinct_remove1 [OF d] by blast
  moreover have "flights_inv (complete k r (co_map s))"
    using assms(1) by (simp add: coalesce_inv_def flights_complete)
  ultimately show ?thesis
    using assms(1) by (simp add: coalesce_inv_def complete_get)
qed

lemma coalesce_step_inv: "coalesce_step s s' \<Longrightarrow> coalesce_inv s \<Longrightarrow> coalesce_inv s'"
proof (induction rule: coalesce_step.induct)
  case (lead k s k' m)
  then have k: "k' = k" "map_of (mf_inner (co_map s)) k = None" by (auto simp: join_leader)
  with lead have "k \<notin> set (co_permits s @ co_handed s)" by (simp add: coalesce_inv_def)
  with lead k show ?case
    by (auto simp: coalesce_inv_def flights_join join_leader less_Suc_eq)
next
  case (follow k s f m)
  then show ?case by (auto simp: coalesce_inv_def join_follower flights_inv_def)
next
  case (finish k s r)
  then show ?case
    using coalesce_inv_complete [of s "remove1 k (co_permits s)" "co_handed s" k r] by simp
next
  case (drop k s)
  then show ?case
    using coalesce_inv_complete [of s "remove1 k (co_permits s)" "co_handed s" k None]
    by (simp add: permit_drop_def)
next
  case (disarm k s)
  then show ?case by (auto simp: coalesce_inv_def permit_drop_def dest: notin_set_remove1)
next
  case (finish_handed k s r)
  then show ?case
    using coalesce_inv_complete [of s "co_permits s" "remove1 k (co_handed s)" k r]
    by (simp add: diff_union_swap2 union_commute)
next
  case (wake f s r)
  then show ?case by (auto simp: coalesce_inv_def dest: notin_set_remove1)
qed

lemma coalesce_run_inv: "coalesce_run s s' \<Longrightarrow> coalesce_inv s \<Longrightarrow> coalesce_inv s'"
  by (induction rule: coalesce_run.induct) (auto intro: coalesce_step_inv)

lemma complete_keeps_done:
  assumes "flights_inv m" "mf_chan m ! f = Done r"
  shows "mf_chan (complete k r' m) ! f = Done r"
proof (cases "map_of (mf_inner m) k")
  case (Some g)
  with assms have "g \<noteq> f" by (auto simp: flights_inv_def)
  with Some assms(2) show ?thesis by (simp add: complete_def)
qed (simp add: complete_def assms(2))

lemma coalesce_step_done:
  assumes "coalesce_step s s'" "coalesce_inv s" "f < length (mf_chan (co_map s))" "mf_chan (co_map s) ! f = Done r"
  shows "f < length (mf_chan (co_map s')) \<and> mf_chan (co_map s') ! f = Done r"
proof -
  have inv: "flights_inv (co_map s)" using assms(2) by (simp add: coalesce_inv_def)
  show ?thesis
    using assms(1,3,4)
    by (cases rule: coalesce_step.cases)
      (auto simp: join_leader join_follower nth_append permit_drop_def complete_keeps_done [OF inv])
qed

lemma coalesce_run_done:
  "coalesce_run s s' \<Longrightarrow> coalesce_inv s \<Longrightarrow> f < length (mf_chan (co_map s)) \<Longrightarrow>
     mf_chan (co_map s) ! f = Done r \<Longrightarrow> mf_chan (co_map s') ! f = Done r"
proof -
  assume run: "coalesce_run s s'"
  have "coalesce_inv s \<Longrightarrow> f < length (mf_chan (co_map s)) \<Longrightarrow> mf_chan (co_map s) ! f = Done r \<Longrightarrow>
      f < length (mf_chan (co_map s')) \<and> mf_chan (co_map s') ! f = Done r"
    using run
  proof (induction rule: coalesce_run.induct)
    case (more s s' s'')
    then show ?case using coalesce_step_done [OF more.hyps(2)] coalesce_run_inv [OF more.hyps(1)] by blast
  qed simp
  then show "coalesce_inv s \<Longrightarrow> f < length (mf_chan (co_map s)) \<Longrightarrow>
      mf_chan (co_map s) ! f = Done r \<Longrightarrow> mf_chan (co_map s') ! f = Done r" by blast
qed

lemma inner_image: "hm_inv m \<Longrightarrow> f \<in> snd ` set m \<longleftrightarrow> (\<exists>k. map_of m k = Some f)"
  by (force simp: hm_inv_def simp flip: hm_mem_get)

lemmas coalesce_reachable_inv = coalesce_run_inv [OF _ coalesce_init_inv]

section \<open>Properties\<close>




section \<open>Witnesses\<close>

definition demo_led :: coalesce_system where
  "demo_led = coalesce_init\<lparr>co_map := snd (join_flight ''k'' flight_map_new), co_permits := [''k'']\<rparr>"

definition demo_followed :: coalesce_system where
  "demo_followed = demo_led\<lparr>co_waiters := [0]\<rparr>"

definition demo_finished :: coalesce_system where
  "demo_finished = demo_followed\<lparr>co_map := complete ''k'' None (co_map demo_followed), co_permits := []\<rparr>"

lemma demo_led_step: "coalesce_step coalesce_init demo_led"
  using coalesce_step.lead [of "''k''" coalesce_init "''k''" "snd (join_flight ''k'' flight_map_new)"]
  by (simp add: demo_led_def coalesce_init_def join_leader) (simp add: join_flight_def flight_map_new_def)

lemma demo_follow_step: "coalesce_step demo_led demo_followed"
  using coalesce_step.follow [of "''k''" demo_led 0 "co_map demo_led"]
  by (simp add: demo_followed_def demo_led_def coalesce_init_def join_flight_def flight_map_new_def)

lemma demo_finish_step: "coalesce_step demo_followed demo_finished"
  using coalesce_step.finish [of "''k''" demo_followed None]
  by (simp add: demo_finished_def demo_followed_def demo_led_def)

lemma demo_followed_run: "coalesce_run coalesce_init demo_followed"
  using coalesce_run.start demo_led_step demo_follow_step coalesce_run.more by blast




end
