(* ===== verification/Acl.thy ===== *)
theory Acl
  imports Prelude
begin

text \<open>
  The access-control engine (\<^verbatim>\<open>proxy/src/acl.rs\<close>): rules, their matchers, the engine with its
  compiled patterns, and the copy-on-write handle.

  The regex crate is a parameter: \<open>regex_new\<close> compiles a pattern (\<^verbatim>\<open>Regex::new\<close>, \<^const>\<open>None\<close> for a
  pattern the crate rejects) and \<open>is_match\<close> runs a compiled one. An operation whose result is
  \<^const>\<open>None\<close> is one that panicked. The local time of day is an argument of the check.
\<close>

section \<open>Definitions\<close>

definition minutes_since_midnight :: "nat \<Rightarrow> nat \<Rightarrow> nat" where
  "minutes_since_midnight hour minute = hour * 60 + minute"

definition parse_hhmm :: "string \<Rightarrow> nat option" where
  "parse_hhmm value =
     (case split_once CHR '':'' value of
        None \<Rightarrow> None
      | Some (h, m) \<Rightarrow>
          (case parse_uint u32_max (trim h) of
             None \<Rightarrow> None
           | Some hour \<Rightarrow>
               (case parse_uint u32_max (trim m) of
                  None \<Rightarrow> None
                | Some minute \<Rightarrow>
                    (if hour > 23 \<or> minute > 59 then None
                     else Some (minutes_since_midnight hour minute)))))"

definition time_in_window :: "string \<Rightarrow> string \<Rightarrow> nat \<Rightarrow> bool" where
  "time_in_window start end now =
     (case parse_hhmm start of
        None \<Rightarrow> False
      | Some start_min \<Rightarrow>
          (case parse_hhmm end of
             None \<Rightarrow> False
           | Some end_min \<Rightarrow>
               (if start_min \<le> end_min then now \<ge> start_min \<and> now \<le> end_min
                else now \<ge> start_min \<or> now \<le> end_min)))"

definition group_matches :: "string \<Rightarrow> string \<Rightarrow> bool" where
  "group_matches member_group rule_group \<longleftrightarrow>
     eq_ignore_ascii_case member_group rule_group \<or>
     (\<exists>part \<in> set (map trim (split_char CHR '','' member_group)).
        case (case strip_prefix part ''cn='' of
                None \<Rightarrow> strip_prefix part ''CN='' | Some cn \<Rightarrow> Some cn) of
          None \<Rightarrow> False
        | Some cn \<Rightarrow> eq_ignore_ascii_case cn rule_group)"

datatype acl_action = Allow | Deny | Redirect

fun acl_action_display :: "acl_action \<Rightarrow> string" where
  "acl_action_display Allow = ''allow''"
| "acl_action_display Deny = ''deny''"
| "acl_action_display Redirect = ''redirect''"

datatype ip_addr = V4 u32 | V6 "128 word"

datatype acl_rule_type =
    Domain string
  | UrlPrefix string
  | Regex string
  | Category string
  | IpRange ip_addr ip_addr
  | TimeWindow string string
  | Principal "string option" "string option"

record acl_rule =
  rl_id :: string
  rl_name :: string
  rl_enabled :: bool
  rl_priority :: nat
  rl_action :: acl_action
  rl_rule_type :: acl_rule_type
  rl_redirect_url :: "string option"
  rl_comment :: "string option"

record acl_decision =
  ad_action :: acl_action
  ad_rule_id :: "string option"
  ad_redirect_url :: "string option"
  ad_reason :: string

definition acl_allow :: "string \<Rightarrow> acl_decision" where
  "acl_allow reason =
     \<lparr>ad_action = Allow, ad_rule_id = None, ad_redirect_url = None, ad_reason = reason\<rparr>"

definition acl_deny :: "string \<Rightarrow> string \<Rightarrow> acl_decision" where
  "acl_deny rule_id reason =
     \<lparr>ad_action = Deny, ad_rule_id = Some rule_id, ad_redirect_url = None, ad_reason = reason\<rparr>"

definition acl_redirect :: "string \<Rightarrow> string \<Rightarrow> string \<Rightarrow> acl_decision" where
  "acl_redirect rule_id url reason =
     \<lparr>ad_action = Redirect, ad_rule_id = Some rule_id, ad_redirect_url = Some url,
      ad_reason = reason\<rparr>"

record 're acl_engine =
  en_rules :: "acl_rule list"
  en_default_action :: acl_action
  en_compiled_regex :: "(string, 're) hash_map"

definition acl_new :: "acl_action \<Rightarrow> 're acl_engine" where
  "acl_new default_action =
     \<lparr>en_rules = [], en_default_action = default_action, en_compiled_regex = []\<rparr>"

definition never_pattern :: string where
  "never_pattern = ''(?!)''"

definition compile_regex_pattern :: "(string \<Rightarrow> 're option) \<Rightarrow> string \<Rightarrow> 're option" where
  "compile_regex_pattern regex_new pattern =
     (case regex_new pattern of Some re \<Rightarrow> Some re | None \<Rightarrow> regex_new never_pattern)"

primrec regex_cache_from ::
  "(string \<Rightarrow> 're option) \<Rightarrow> acl_rule list \<Rightarrow> (string, 're) hash_map \<Rightarrow> (string, 're) hash_map option"
  where
  "regex_cache_from regex_new [] compiled = Some compiled"
| "regex_cache_from regex_new (r # rs) compiled =
     (case rl_rule_type r of
        Regex pattern \<Rightarrow>
          (if hm_has compiled pattern then regex_cache_from regex_new rs compiled
           else
             (case compile_regex_pattern regex_new pattern of
                None \<Rightarrow> None
              | Some re \<Rightarrow> regex_cache_from regex_new rs (AList.update pattern re compiled)))
      | _ \<Rightarrow> regex_cache_from regex_new rs compiled)"

definition rebuild_regex_cache ::
  "(string \<Rightarrow> 're option) \<Rightarrow> 're acl_engine \<Rightarrow> 're acl_engine option" where
  "rebuild_regex_cache regex_new e =
     map_option (\<lambda>c. e\<lparr>en_compiled_regex := c\<rparr>) (regex_cache_from regex_new (en_rules e) [])"

text \<open>\<^verbatim>\<open>sort_by_key\<close> with \<^verbatim>\<open>Reverse(priority)\<close>: descending and stable.\<close>

definition sort_rules :: "acl_rule list \<Rightarrow> acl_rule list" where
  "sort_rules rs = sort_key (\<lambda>r. - int (rl_priority r)) rs"

definition add_rule ::
  "(string \<Rightarrow> 're option) \<Rightarrow> acl_rule \<Rightarrow> 're acl_engine \<Rightarrow> 're acl_engine option" where
  "add_rule regex_new rule e =
     rebuild_regex_cache regex_new (e\<lparr>en_rules := sort_rules (en_rules e @ [rule])\<rparr>)"

fun rule_position :: "string \<Rightarrow> acl_rule list \<Rightarrow> nat option" where
  "rule_position i [] = None"
| "rule_position i (r # rs) = (if rl_id r = i then Some 0 else map_option Suc (rule_position i rs))"

definition update_rule ::
  "(string \<Rightarrow> 're option) \<Rightarrow> acl_rule \<Rightarrow> 're acl_engine \<Rightarrow> (bool \<times> 're acl_engine) option" where
  "update_rule regex_new rule e =
     (case rule_position (rl_id rule) (en_rules e) of
        None \<Rightarrow> Some (False, e)
      | Some idx \<Rightarrow>
          map_option (Pair True)
            (rebuild_regex_cache regex_new
               (e\<lparr>en_rules := sort_rules ((en_rules e)[idx := rule])\<rparr>)))"

definition remove_rule ::
  "(string \<Rightarrow> 're option) \<Rightarrow> string \<Rightarrow> 're acl_engine \<Rightarrow> (bool \<times> 're acl_engine) option" where
  "remove_rule regex_new i e =
     (let e' = e\<lparr>en_rules := filter (\<lambda>r. rl_id r \<noteq> i) (en_rules e)\<rparr> in
      if length (en_rules e') = length (en_rules e) then Some (False, e')
      else map_option (Pair True) (rebuild_regex_cache regex_new e'))"

definition load_rules ::
  "(string \<Rightarrow> 're option) \<Rightarrow> acl_rule list \<Rightarrow> 're acl_engine \<Rightarrow> 're acl_engine option" where
  "load_rules regex_new rules e =
     rebuild_regex_cache regex_new (e\<lparr>en_rules := sort_rules rules\<rparr>)"

definition rule_count :: "'re acl_engine \<Rightarrow> nat" where
  "rule_count e = length (en_rules e)"

definition has_rule :: "'re acl_engine \<Rightarrow> string \<Rightarrow> bool" where
  "has_rule e i \<longleftrightarrow> (\<exists>r \<in> set (en_rules e). rl_id r = i)"

definition match_principal ::
  "string option \<Rightarrow> string option \<Rightarrow> string option \<Rightarrow> string list \<Rightarrow> bool" where
  "match_principal rule_user rule_group user groups =
     (let user_match = (case (rule_user, user) of (Some ru, Some u) \<Rightarrow> ru = u | _ \<Rightarrow> False);
          group_match =
            (case rule_group of
               None \<Rightarrow> False | Some rg \<Rightarrow> \<exists>g \<in> set groups. group_matches g rg)
      in case (rule_user \<noteq> None, rule_group \<noteq> None) of
           (True, True) \<Rightarrow> user_match \<or> group_match
         | (True, False) \<Rightarrow> user_match
         | (False, True) \<Rightarrow> group_match
         | (False, False) \<Rightarrow> False)"

definition match_domain :: "string \<Rightarrow> string \<Rightarrow> bool" where
  "match_domain domain pattern =
     (case strip_prefix pattern ''*.'' of
        Some sfx \<Rightarrow> ends_with domain sfx \<or> domain = sfx
      | None \<Rightarrow>
          (case strip_prefix pattern ''*'' of
             Some sfx \<Rightarrow> ends_with domain sfx
           | None \<Rightarrow> domain = pattern))"

definition match_regex ::
  "('re \<Rightarrow> string \<Rightarrow> bool) \<Rightarrow> 're acl_engine \<Rightarrow> string \<Rightarrow> string \<Rightarrow> bool" where
  "match_regex is_match e txt pattern =
     (case map_of (en_compiled_regex e) pattern of
        None \<Rightarrow> False | Some regex \<Rightarrow> is_match regex txt)"

fun ip_in_range :: "ip_addr \<Rightarrow> ip_addr \<Rightarrow> ip_addr \<Rightarrow> bool" where
  "ip_in_range (V4 ip) (V4 start) (V4 end) = (ip \<ge> start \<and> ip \<le> end)"
| "ip_in_range (V6 ip) (V6 start) (V6 end) = (ip \<ge> start \<and> ip \<le> end)"
| "ip_in_range _ _ _ = False"

definition matches_rule ::
  "('re \<Rightarrow> string \<Rightarrow> bool) \<Rightarrow> nat \<Rightarrow> 're acl_engine \<Rightarrow> acl_rule \<Rightarrow> string \<Rightarrow> string \<Rightarrow> string list \<Rightarrow>
   string option \<Rightarrow> string list \<Rightarrow> ip_addr option \<Rightarrow> bool" where
  "matches_rule is_match now e rule url domain categories user groups client_ip =
     (case rl_rule_type rule of
        Domain pattern \<Rightarrow> match_domain domain pattern
      | UrlPrefix pre \<Rightarrow> starts_with url pre
      | Regex pattern \<Rightarrow> match_regex is_match e url pattern
      | Category cat \<Rightarrow> (\<exists>c \<in> set categories. c = cat)
      | IpRange start end \<Rightarrow>
          (case client_ip of Some ip \<Rightarrow> ip_in_range ip start end | None \<Rightarrow> False)
      | TimeWindow start end \<Rightarrow> time_in_window start end now
      | Principal rule_user rule_group \<Rightarrow> match_principal rule_user rule_group user groups)"

definition rule_decision :: "acl_rule \<Rightarrow> acl_decision" where
  "rule_decision rule =
     (case rl_action rule of
        Allow \<Rightarrow> acl_allow (''Rule: '' @ rl_name rule)
      | Deny \<Rightarrow> acl_deny (rl_id rule) (''Blocked by rule: '' @ rl_name rule)
      | Redirect \<Rightarrow>
          acl_redirect (rl_id rule) (case rl_redirect_url rule of None \<Rightarrow> [] | Some u \<Rightarrow> u)
            (''Redirected by rule: '' @ rl_name rule))"

definition default_decision :: "acl_action \<Rightarrow> acl_decision" where
  "default_decision a =
     (case a of
        Allow \<Rightarrow> acl_allow ''Default policy: allow''
      | Deny \<Rightarrow> acl_deny ''default'' ''Default policy: deny''
      | Redirect \<Rightarrow> acl_redirect ''default'' ''about:blank'' ''Default policy: redirect'')"

definition check_access ::
  "('re \<Rightarrow> string \<Rightarrow> bool) \<Rightarrow> nat \<Rightarrow> 're acl_engine \<Rightarrow> string \<Rightarrow> string \<Rightarrow> string list \<Rightarrow>
   string option \<Rightarrow> string list \<Rightarrow> ip_addr option \<Rightarrow> acl_decision" where
  "check_access is_match now e url domain categories user groups client_ip =
     (case find (\<lambda>rule. matches_rule is_match now e rule url domain categories user groups client_ip)
             (filter rl_enabled (en_rules e)) of
        Some rule \<Rightarrow> rule_decision rule
      | None \<Rightarrow> default_decision (en_default_action e))"

text \<open>
  The handle publishes one engine. \<open>unique\<close> tells whether \<^verbatim>\<open>Arc::try_unwrap\<close> found no other owner;
  either way the changed engine replaces the published one.
\<close>

definition fork_from ::
  "(string \<Rightarrow> 're option) \<Rightarrow> 're acl_engine \<Rightarrow> 're acl_engine option" where
  "fork_from regex_new e = load_rules regex_new (en_rules e) (acl_new (en_default_action e))"

definition mutate ::
  "(string \<Rightarrow> 're option) \<Rightarrow> bool \<Rightarrow> ('re acl_engine \<Rightarrow> 're acl_engine option) \<Rightarrow>
   're acl_engine \<Rightarrow> 're acl_engine option" where
  "mutate regex_new unique f snapshot =
     (if unique then f snapshot
      else (case fork_from regex_new snapshot of None \<Rightarrow> None | Some e \<Rightarrow> f e))"

subsection \<open>Operations as values, and runs\<close>

datatype acl_op = Add acl_rule | Update acl_rule | Remove string | Load "acl_rule list"

fun acl_step ::
  "(string \<Rightarrow> 're option) \<Rightarrow> acl_op \<Rightarrow> 're acl_engine \<Rightarrow> 're acl_engine option" where
  "acl_step regex_new (Add r) e = add_rule regex_new r e"
| "acl_step regex_new (Update r) e = map_option snd (update_rule regex_new r e)"
| "acl_step regex_new (Remove i) e = map_option snd (remove_rule regex_new i e)"
| "acl_step regex_new (Load rs) e = load_rules regex_new rs e"

text \<open>The engines a process can publish: a new one, changed through the handle.\<close>

inductive acl_reachable :: "(string \<Rightarrow> 're option) \<Rightarrow> 're acl_engine \<Rightarrow> bool"
  for regex_new where
  init: "acl_reachable regex_new (acl_new a)"
| step: "acl_reachable regex_new e \<Longrightarrow>
         mutate regex_new unique (acl_step regex_new op) e = Some e' \<Longrightarrow>
         acl_reachable regex_new e'"

subsection \<open>Specification\<close>

text \<open>The enabled rule that decides, in one pass over the rules as they were configured.\<close>

fun best_rule :: "(acl_rule \<Rightarrow> bool) \<Rightarrow> acl_rule list \<Rightarrow> acl_rule option" where
  "best_rule P [] = None"
| "best_rule P (r # rs) =
     (case best_rule P rs of
        None \<Rightarrow> if P r then Some r else None
      | Some b \<Rightarrow> if P r \<and> rl_priority b \<le> rl_priority r then Some r else Some b)"

text \<open>A rule applies, with its pattern compiled on the spot.\<close>

definition rule_applies ::
  "(string \<Rightarrow> 're option) \<Rightarrow> ('re \<Rightarrow> string \<Rightarrow> bool) \<Rightarrow> nat \<Rightarrow> acl_rule \<Rightarrow> string \<Rightarrow> string \<Rightarrow>
   string list \<Rightarrow> string option \<Rightarrow> string list \<Rightarrow> ip_addr option \<Rightarrow> bool" where
  "rule_applies regex_new is_match now rule url domain categories user groups client_ip \<longleftrightarrow>
     rl_enabled rule \<and>
     (case rl_rule_type rule of
        Regex pattern \<Rightarrow>
          (case compile_regex_pattern regex_new pattern of
             None \<Rightarrow> False | Some re \<Rightarrow> is_match re url)
      | _ \<Rightarrow>
          matches_rule is_match now (acl_new Deny) rule url domain categories user groups client_ip)"

text \<open>
  Invariant of the engine: rules in descending priority, and the compiled patterns are those
  the rules ask for.
\<close>

definition acl_inv :: "(string \<Rightarrow> 're option) \<Rightarrow> 're acl_engine \<Rightarrow> bool" where
  "acl_inv regex_new e \<longleftrightarrow>
     sorted_wrt (\<lambda>a b. rl_priority b \<le> rl_priority a) (en_rules e) \<and>
     regex_cache_from regex_new (en_rules e) [] = Some (en_compiled_regex e)"

section \<open>Lemmas\<close>

subsection \<open>Priority order\<close>

lemma find_insort_key:
  fixes f :: "'a \<Rightarrow> 'b::linorder"
  shows "sorted (map f ys) \<Longrightarrow>
    find P (insort_key f x ys) =
      (case find P ys of
         None \<Rightarrow> if P x then Some x else None
       | Some b \<Rightarrow> if P x \<and> f x \<le> f b then Some x else Some b)"
proof (induction ys)
  case (Cons y ys)
  have "f y \<le> f b" if "find P ys = Some b" for b
    using Cons.prems that by (auto simp: find_Some_iff)
  with Cons show ?case by (auto split: option.splits)
qed simp

lemma find_sort_rules: "find P (sort_rules rs) = best_rule P rs"
proof (induction rs)
  case (Cons r rs)
  have "find P (sort_rules (r # rs)) =
          find P (insort_key (\<lambda>r. - int (rl_priority r)) r (sort_rules rs))"
    by (simp add: sort_rules_def)
  also have "\<dots> = best_rule P (r # rs)"
    using Cons by (subst find_insort_key) (simp_all add: sort_rules_def split: option.splits)
  finally show ?case .
qed (simp add: sort_rules_def)

lemma find_filter: "find P (filter Q xs) = find (\<lambda>x. Q x \<and> P x) xs"
  by (induction xs) auto

lemma best_rule_Some:
  "best_rule P rs = Some r \<Longrightarrow>
     r \<in> set rs \<and> P r \<and> (\<forall>r' \<in> set rs. P r' \<longrightarrow> rl_priority r' \<le> rl_priority r)"
proof (induction rs arbitrary: r)
  case (Cons a rs)
  have none: "\<forall>r' \<in> set rs. \<not> P r'" if "best_rule P rs = None"
    using that by (induction rs) (auto split: option.splits if_splits)
  show ?case
  proof (cases "best_rule P rs")
    case None
    with Cons.prems none show ?thesis by (auto split: if_splits)
  next
    case (Some b)
    with Cons.IH [OF Some] Cons.prems show ?thesis by (fastforce split: if_splits)
  qed
qed simp

lemma best_rule_None: "best_rule P rs = None \<longleftrightarrow> (\<forall>r \<in> set rs. \<not> P r)"
  by (induction rs) (auto split: option.splits)

lemma best_rule_cong:
  "(\<And>r. r \<in> set rs \<Longrightarrow> P r = Q r) \<Longrightarrow> best_rule P rs = best_rule Q rs"
  by (induction rs) (simp_all split: option.splits)

lemma set_sort_rules [simp]: "set (sort_rules rs) = set rs"
  by (simp add: sort_rules_def)

lemma length_sort_rules [simp]: "length (sort_rules rs) = length rs"
  by (simp add: sort_rules_def)

lemma sorted_iff_desc:
  "sorted (map (\<lambda>r. - int (rl_priority r)) rs) \<longleftrightarrow>
     sorted_wrt (\<lambda>a b. rl_priority b \<le> rl_priority a) rs"
  by (simp add: sorted_map)

lemma sort_rules_desc: "sorted_wrt (\<lambda>a b. rl_priority b \<le> rl_priority a) (sort_rules rs)"
  by (simp add: sort_rules_def flip: sorted_iff_desc)

lemma sort_rules_id: "sorted_wrt (\<lambda>a b. rl_priority b \<le> rl_priority a) rs \<Longrightarrow> sort_rules rs = rs"
  by (simp add: sort_rules_def sorted_sort_id sort_key_id_if_sorted flip: sorted_iff_desc)

subsection \<open>The compiled patterns\<close>

definition regex_patterns :: "acl_rule list \<Rightarrow> string set" where
  "regex_patterns rs = {p. \<exists>r \<in> set rs. rl_rule_type r = Regex p}"

lemma regex_patterns_Cons:
  "regex_patterns (r # rs) =
     (case rl_rule_type r of Regex p \<Rightarrow> insert p (regex_patterns rs) | _ \<Rightarrow> regex_patterns rs)"
  by (auto simp: regex_patterns_def split: acl_rule_type.splits)

lemma regex_cache_from_get:
  "regex_cache_from regex_new rs c = Some c' \<Longrightarrow>
     map_of c' p =
       (if hm_has c p then map_of c p
        else if p \<in> regex_patterns rs then compile_regex_pattern regex_new p else None)"
proof (induction rs arbitrary: c)
  case Nil
  then show ?case by (auto simp: regex_patterns_def hm_has_def)
next
  case (Cons r rs)
  show ?case
  proof (cases "\<exists>q. rl_rule_type r = Regex q")
    case False
    with Cons show ?thesis by (auto simp: regex_patterns_Cons split: acl_rule_type.splits)
  next
    case True
    then obtain q where q: "rl_rule_type r = Regex q" by blast
    show ?thesis
    proof (cases "hm_has c q")
      case True
      with Cons q show ?thesis by (auto simp: regex_patterns_Cons)
    next
      case False
      with Cons.prems q obtain re where re: "compile_regex_pattern regex_new q = Some re"
        and rest: "regex_cache_from regex_new rs (AList.update q re c) = Some c'"
        by (auto split: option.splits)
      from Cons.IH [OF rest] False re q show ?thesis
        by (auto simp: regex_patterns_Cons hm_has_def)
    qed
  qed
qed

lemma regex_cache_from_defined:
  "(\<forall>p \<in> regex_patterns rs. compile_regex_pattern regex_new p \<noteq> None) \<Longrightarrow>
     \<exists>c'. regex_cache_from regex_new rs c = Some c'"
  by (induction rs arbitrary: c)
    (auto simp: regex_patterns_Cons split: acl_rule_type.splits option.splits)

lemma regex_cache_from_panic:
  assumes "p \<in> regex_patterns rs" "\<not> hm_has c p" "compile_regex_pattern regex_new p = None"
  shows "regex_cache_from regex_new rs c = None"
  using assms
proof (induction rs arbitrary: c)
  case (Cons r rs)
  have "\<not> hm_has (AList.update q re c) p" if "compile_regex_pattern regex_new q = Some re" for q re
    using that Cons.prems by (auto simp: hm_has_def)
  with Cons show ?case
    by (cases "rl_rule_type r") (auto simp: regex_patterns_Cons split: option.splits)
qed (simp add: regex_patterns_def)

lemma rebuild_Some_iff:
  "rebuild_regex_cache regex_new e = Some e' \<longleftrightarrow>
     (\<exists>c. regex_cache_from regex_new (en_rules e) [] = Some c \<and> e' = e\<lparr>en_compiled_regex := c\<rparr>)"
  by (auto simp: rebuild_regex_cache_def)

lemma rebuild_inv:
  assumes "rebuild_regex_cache regex_new e = Some e'"
    and "sorted_wrt (\<lambda>a b. rl_priority b \<le> rl_priority a) (en_rules e)"
  shows "acl_inv regex_new e'"
  using assms by (auto simp: rebuild_Some_iff acl_inv_def)

lemma rebuild_sort_inv:
  "rebuild_regex_cache regex_new (e\<lparr>en_rules := sort_rules rs\<rparr>) = Some e' \<Longrightarrow> acl_inv regex_new e'"
  by (erule rebuild_inv) (simp add: sort_rules_desc)

lemma rebuild_rules: "rebuild_regex_cache regex_new e = Some e' \<Longrightarrow>
    en_rules e' = en_rules e \<and> en_default_action e' = en_default_action e"
  by (auto simp: rebuild_Some_iff)

lemma rebuild_id: "acl_inv regex_new e \<Longrightarrow> rebuild_regex_cache regex_new e = Some e"
  by (simp add: acl_inv_def rebuild_regex_cache_def)

subsection \<open>The invariant\<close>

lemma acl_new_inv: "acl_inv regex_new (acl_new a)"
  by (simp add: acl_inv_def acl_new_def)

lemma add_rule_inv: "add_rule regex_new r e = Some e' \<Longrightarrow> acl_inv regex_new e'"
  by (auto simp: add_rule_def intro: rebuild_sort_inv)

lemma load_rules_inv: "load_rules regex_new rs e = Some e' \<Longrightarrow> acl_inv regex_new e'"
  by (auto simp: load_rules_def intro: rebuild_sort_inv)

lemma update_rule_inv:
  "acl_inv regex_new e \<Longrightarrow> update_rule regex_new r e = Some (b, e') \<Longrightarrow> acl_inv regex_new e'"
  by (auto simp: update_rule_def split: option.splits intro: rebuild_sort_inv)

lemma filter_length_iff: "length (filter P xs) = length xs \<longleftrightarrow> (\<forall>x \<in> set xs. P x)"
proof
  assume eq: "length (filter P xs) = length xs"
  show "\<forall>x \<in> set xs. P x"
  proof
    fix x assume "x \<in> set xs"
    then show "P x" using length_filter_less [of x xs P] eq by (cases "P x") simp_all
  qed
qed simp

lemma remove_rule_inv:
  "acl_inv regex_new e \<Longrightarrow> remove_rule regex_new i e = Some (b, e') \<Longrightarrow> acl_inv regex_new e'"
proof -
  assume inv: "acl_inv regex_new e" and rm: "remove_rule regex_new i e = Some (b, e')"
  let ?rs = "filter (\<lambda>r. rl_id r \<noteq> i) (en_rules e)"
  have sorted: "sorted_wrt (\<lambda>a b. rl_priority b \<le> rl_priority a) ?rs"
    using inv by (simp add: acl_inv_def sorted_wrt_filter)
  show ?thesis
  proof (cases "length ?rs = length (en_rules e)")
    case True
    then have "?rs = en_rules e" by (simp add: filter_length_iff)
    with True inv rm show ?thesis by (auto simp: remove_rule_def acl_inv_def)
  next
    case False
    with rm sorted show ?thesis
      by (auto simp: remove_rule_def Let_def intro: rebuild_inv)
  qed
qed

lemmas acl_ops_inv = add_rule_inv load_rules_inv update_rule_inv remove_rule_inv

lemma acl_step_inv:
  "acl_inv regex_new e \<Longrightarrow> acl_step regex_new op e = Some e' \<Longrightarrow> acl_inv regex_new e'"
  by (cases op) (auto intro: acl_ops_inv)

lemma fork_from_id: "acl_inv regex_new e \<Longrightarrow> fork_from regex_new e = Some e"
  by (simp add: fork_from_def load_rules_def acl_new_def rebuild_regex_cache_def acl_inv_def
      sort_rules_id)

lemma mutate_eq: "acl_inv regex_new e \<Longrightarrow> mutate regex_new unique f e = f e"
  by (simp add: mutate_def fork_from_id)

lemma acl_reachable_inv: "acl_reachable regex_new e \<Longrightarrow> acl_inv regex_new e"
  by (induction rule: acl_reachable.induct) (auto simp: acl_new_inv mutate_eq intro: acl_step_inv)

subsection \<open>Decisions\<close>

lemma matches_rule_applies:
  assumes "acl_inv regex_new e" "r \<in> set (en_rules e)"
  shows "rl_enabled r \<and> matches_rule is_match now e r url domain cats user groups ip \<longleftrightarrow>
         rule_applies regex_new is_match now r url domain cats user groups ip"
proof (cases "rl_rule_type r")
  case (Regex p)
  with assms have "p \<in> regex_patterns (en_rules e)" by (auto simp: regex_patterns_def)
  with assms(1) have "map_of (en_compiled_regex e) p = compile_regex_pattern regex_new p"
    using regex_cache_from_get [of regex_new "en_rules e" "[]" "en_compiled_regex e" p]
    by (simp add: acl_inv_def hm_has_def)
  with Regex show ?thesis by (simp add: rule_applies_def matches_rule_def match_regex_def)
qed (simp_all add: rule_applies_def matches_rule_def)

lemma check_access_inv:
  assumes "acl_inv regex_new e"
  shows "check_access is_match now e url domain cats user groups ip =
    (case best_rule (\<lambda>r. rule_applies regex_new is_match now r url domain cats user groups ip)
            (en_rules e) of
       Some r \<Rightarrow> rule_decision r | None \<Rightarrow> default_decision (en_default_action e))"
proof -
  have "find (\<lambda>r. rl_enabled r \<and> matches_rule is_match now e r url domain cats user groups ip)
          (en_rules e) =
        best_rule (\<lambda>r. rl_enabled r \<and> matches_rule is_match now e r url domain cats user groups ip)
          (en_rules e)"
    using find_sort_rules [of _ "en_rules e"] assms by (simp add: sort_rules_id acl_inv_def)
  also have "\<dots> = best_rule (\<lambda>r. rule_applies regex_new is_match now r url domain cats user groups ip)
          (en_rules e)"
    by (rule best_rule_cong) (rule matches_rule_applies [OF assms])
  finally show ?thesis by (simp add: check_access_def find_filter)
qed

lemma best_rule_sort_rules: "best_rule P (sort_rules rs) = best_rule P rs"
  using find_sort_rules [of P "sort_rules rs"] find_sort_rules [of P rs]
  by (simp add: sort_rules_id sort_rules_desc)

subsection \<open>Times of day\<close>

lemma parse_hhmm_less: "parse_hhmm v = Some t \<Longrightarrow> t < 1440"
  by (auto simp: parse_hhmm_def minutes_since_midnight_def split: option.splits if_splits)

lemma parse_hhmm_show:
  assumes "h \<le> 23" "m \<le> 59"
  shows "parse_hhmm (show_nat h @ '':'' @ show_nat m) = Some (h * 60 + m)"
proof -
  have "\<not> is_ascii_digit CHR '':''" by (simp add: is_ascii_digit_def)
  then have "CHR '':'' \<notin> set (show_nat h)" using show_nat_digits by blast
  then have "split_once CHR '':'' (show_nat h @ '':'' @ show_nat m) = Some (show_nat h, show_nat m)"
    by (simp add: split_once_append)
  moreover have "parse_uint u32_max (show_nat h) = Some h" "parse_uint u32_max (show_nat m) = Some m"
    using assms by (simp_all add: parse_uint_show_nat u32_max_def)
  ultimately show ?thesis
    using assms by (simp add: parse_hhmm_def minutes_since_midnight_def)
qed

lemma mod_wrap: "x < 2 * (n::nat) \<Longrightarrow> x mod n = (if x < n then x else x - n)"
  by (simp add: le_mod_geq mod_if)

subsection \<open>Rules by identifier\<close>

lemma rule_position_None_iff: "rule_position i rs = None \<longleftrightarrow> (\<forall>r \<in> set rs. rl_id r \<noteq> i)"
  by (induction rs) auto

lemma rule_position_Some:
  "rule_position i rs = Some n \<Longrightarrow>
     n < length rs \<and> rl_id (rs ! n) = i \<and> (\<forall>m < n. rl_id (rs ! m) \<noteq> i)"
proof (induction rs arbitrary: n)
  case (Cons r rs)
  then show ?case by (auto simp: nth_Cons split: if_splits nat.splits)
qed simp

lemma mset_sort_rules [simp]: "mset (sort_rules rs) = mset rs"
  by (simp add: sort_rules_def)

section \<open>Properties\<close>

text \<open>Sorting and then scanning is one pass for the maximum: an engine loaded with a list of
  rules gives the decision of the enabled applicable rule with the highest priority, the one
  earliest in the configured list when several share it, and the default action's decision
  when no enabled rule applies. Patterns are matched as if compiled at the check.\<close>

theorem load_rules_check_access:
  assumes "load_rules regex_new rules e\<^sub>0 = Some e"
  shows "check_access is_match now e url domain cats user groups ip =
    (case best_rule (\<lambda>r. rule_applies regex_new is_match now r url domain cats user groups ip) rules of
       Some r \<Rightarrow> rule_decision r
     | None \<Rightarrow> default_decision (en_default_action e\<^sub>0))"
proof -
  have "en_rules e = sort_rules rules" "en_default_action e = en_default_action e\<^sub>0"
    using assms by (auto simp: load_rules_def dest: rebuild_rules)
  then show ?thesis
    by (simp add: check_access_inv [OF load_rules_inv [OF assms]] best_rule_sort_rules cong: option.case_cong)
qed

text \<open>(C4) In every engine that can be published, the decision is that of an enabled applicable rule
  that no enabled applicable rule exceeds in priority, and the default decision exactly when no
  enabled rule applies.\<close>

theorem check_access_highest_priority:
  assumes "acl_reachable regex_new e"
  shows "(\<exists>r \<in> set (en_rules e).
            rule_applies regex_new is_match now r url domain cats user groups ip \<and>
            check_access is_match now e url domain cats user groups ip = rule_decision r \<and>
            (\<forall>r' \<in> set (en_rules e).
               rule_applies regex_new is_match now r' url domain cats user groups ip \<longrightarrow>
               rl_priority r' \<le> rl_priority r)) \<or>
         (\<forall>r \<in> set (en_rules e).
            \<not> rule_applies regex_new is_match now r url domain cats user groups ip) \<and>
         check_access is_match now e url domain cats user groups ip =
           default_decision (en_default_action e)"
proof -
  let ?P = "\<lambda>r. rule_applies regex_new is_match now r url domain cats user groups ip"
  have ca: "check_access is_match now e url domain cats user groups ip =
      (case best_rule ?P (en_rules e) of
         Some r \<Rightarrow> rule_decision r | None \<Rightarrow> default_decision (en_default_action e))"
    by (rule check_access_inv [OF acl_reachable_inv [OF assms]])
  show ?thesis
  proof (cases "best_rule ?P (en_rules e)")
    case None
    with ca show ?thesis by (simp add: best_rule_None)
  next
    case (Some r)
    with ca have "check_access is_match now e url domain cats user groups ip = rule_decision r"
      by simp
    with best_rule_Some [OF Some] show ?thesis by blast
  qed
qed

text \<open>In every engine that can be published the rules stand in descending priority and the
  compiled patterns are exactly those of the regex rules, so a regex rule never misses its
  compiled pattern.\<close>

theorem acl_reachable_consistent:
  assumes "acl_reachable regex_new e"
  shows "sorted_wrt (\<lambda>a b. rl_priority b \<le> rl_priority a) (en_rules e) \<and>
         map_of (en_compiled_regex e) p =
           (if \<exists>r \<in> set (en_rules e). rl_rule_type r = Regex p
            then compile_regex_pattern regex_new p else None) \<and>
         ((\<exists>r \<in> set (en_rules e). rl_rule_type r = Regex p) \<longrightarrow>
            map_of (en_compiled_regex e) p \<noteq> None)"
proof -
  have inv: "acl_inv regex_new e" using assms by (rule acl_reachable_inv)
  have get: "map_of (en_compiled_regex e) p =
               (if p \<in> regex_patterns (en_rules e) then compile_regex_pattern regex_new p else None)"
    using inv regex_cache_from_get [of regex_new "en_rules e" "[]" "en_compiled_regex e" p]
    by (simp add: acl_inv_def hm_has_def)
  have "compile_regex_pattern regex_new p \<noteq> None" if "p \<in> regex_patterns (en_rules e)"
    using inv regex_cache_from_panic [OF that, of "[]" regex_new] by (auto simp: acl_inv_def hm_has_def)
  with inv get show ?thesis by (auto simp: acl_inv_def regex_patterns_def)
qed

text \<open>(C30) The copy-on-write update publishes the same engine whether it changes the engine in place
  or a fork of it: forking a published engine gives the engine itself.\<close>

theorem mutate_in_place_or_fork:
  assumes "acl_reachable regex_new e"
  shows "fork_from regex_new e = Some e \<and> mutate regex_new unique f e = f e"
  using acl_reachable_inv [OF assms] by (simp add: fork_from_id mutate_eq)

text \<open>Updating a rule reports whether its identifier was present. If it was, exactly one rule with
  that identifier is replaced and the others stay; if not, the engine is unchanged.\<close>

theorem update_rule_replaces:
  assumes "update_rule regex_new rule e = Some (found, e')"
  shows "found = has_rule e (rl_id rule) \<and>
         (\<not> found \<longrightarrow> e' = e) \<and>
         (found \<longrightarrow> (\<exists>old \<in> set (en_rules e). rl_id old = rl_id rule \<and>
            mset (en_rules e') + {#old#} = mset (en_rules e) + {#rule#}))"
proof (cases "rule_position (rl_id rule) (en_rules e)")
  case None
  with assms show ?thesis
    by (auto simp: update_rule_def has_rule_def rule_position_None_iff)
next
  case (Some n)
  with assms have found: "found" and rules: "en_rules e' = sort_rules ((en_rules e)[n := rule])"
    by (auto simp: update_rule_def dest: rebuild_rules)
  from rule_position_Some [OF Some] have n: "n < length (en_rules e)"
    and old: "rl_id (en_rules e ! n) = rl_id rule" by auto
  have "mset (en_rules e') + {#en_rules e ! n#} = mset (en_rules e) + {#rule#}"
    using n by (simp add: rules mset_update)
  moreover have "en_rules e ! n \<in> set (en_rules e)" using n by simp
  ultimately show ?thesis using found old by (auto simp: has_rule_def)
qed

text \<open>Removing an identifier takes away every rule that has it, keeps the others in their order,
  and reports whether there was one.\<close>

theorem remove_rule_removes:
  assumes "remove_rule regex_new i e = Some (found, e')"
  shows "found = has_rule e i \<and> \<not> has_rule e' i \<and>
         en_rules e' = filter (\<lambda>r. rl_id r \<noteq> i) (en_rules e)"
proof -
  have rules: "en_rules e' = filter (\<lambda>r. rl_id r \<noteq> i) (en_rules e)"
    using assms by (auto simp: remove_rule_def Let_def split: if_splits dest: rebuild_rules)
  have "found \<longleftrightarrow> length (filter (\<lambda>r. rl_id r \<noteq> i) (en_rules e)) \<noteq> length (en_rules e)"
    using assms by (auto simp: remove_rule_def Let_def split: if_splits)
  also have "\<dots> \<longleftrightarrow> has_rule e i"
    by (simp add: filter_length_iff has_rule_def)
  finally show ?thesis using rules by (auto simp: has_rule_def)
qed

text \<open>A time window is a cyclic interval of the day: with start and end parsed to minutes
  \<open>a\<close> and \<open>b\<close>, a minute is inside exactly when it is no further past \<open>a\<close> than \<open>b\<close> is, counting
  forward around the clock. Overnight windows are the case \<open>b < a\<close>.\<close>

theorem time_in_window_cyclic:
  assumes "parse_hhmm start = Some a" "parse_hhmm end = Some b" "now < 1440"
  shows "time_in_window start end now \<longleftrightarrow> (now + 1440 - a) mod 1440 \<le> (b + 1440 - a) mod 1440"
proof -
  have a: "a < 1440" and b: "b < 1440" using assms(1,2) parse_hhmm_less by blast+
  have "(now + 1440 - a) mod 1440 = (if now + 1440 - a < 1440 then now + 1440 - a else now - a)"
    using a assms(3) mod_wrap [of "now + 1440 - a" 1440] by auto
  moreover have "(b + 1440 - a) mod 1440 = (if b + 1440 - a < 1440 then b + 1440 - a else b - a)"
    using a b mod_wrap [of "b + 1440 - a" 1440] by auto
  moreover have "time_in_window start end now \<longleftrightarrow>
      (if a \<le> b then a \<le> now \<and> now \<le> b else a \<le> now \<or> now \<le> b)"
    using assms(1,2) by (simp add: time_in_window_def)
  moreover have "(if a \<le> b then a \<le> now \<and> now \<le> b else a \<le> now \<or> now \<le> b) \<longleftrightarrow>
      (if now + 1440 - a < 1440 then now + 1440 - a else now - a) \<le>
      (if b + 1440 - a < 1440 then b + 1440 - a else b - a)"
    using a b assms(3) by (simp split: if_split) linarith
  ultimately show ?thesis by simp
qed

text \<open>A domain pattern that starts with an asterisk and a dot is compared without the dot: it
  matches every domain that ends in the rest, also one whose label only ends like it, such as
  notexample.com for the pattern of example.com.\<close>

theorem match_domain_wildcard_no_boundary:
  "match_domain domain (''*.'' @ sfx) \<longleftrightarrow> suffix sfx domain"
  unfolding match_domain_def strip_prefix_append by (auto simp: ends_with_def)

text \<open>The fallback for a rejected pattern is a pattern with a look-around. Where the regex library
  rejects look-arounds, adding or loading a rule with a rejected pattern panics instead of
  giving a rule that never matches.\<close>

theorem add_rule_invalid_pattern_panics:
  assumes "regex_new never_pattern = None" "rl_rule_type rule = Regex p" "regex_new p = None"
  shows "add_rule regex_new rule e = None"
proof -
  have "p \<in> regex_patterns (sort_rules (en_rules e @ [rule]))"
    using assms by (auto simp: regex_patterns_def)
  moreover have "compile_regex_pattern regex_new p = None"
    using assms by (simp add: compile_regex_pattern_def)
  ultimately have "regex_cache_from regex_new (sort_rules (en_rules e @ [rule])) [] = None"
    by (simp add: regex_cache_from_panic hm_has_def)
  then show ?thesis by (simp add: add_rule_def rebuild_regex_cache_def)
qed

section \<open>Witnesses\<close>

text \<open>A small configuration. Patterns are literal prefixes, and only the empty look-ahead is rejected.\<close>

definition demo_rule :: "string \<Rightarrow> nat \<Rightarrow> acl_action \<Rightarrow> acl_rule_type \<Rightarrow> acl_rule" where
  "demo_rule i p a t =
     \<lparr>rl_id = i, rl_name = i, rl_enabled = True, rl_priority = p, rl_action = a, rl_rule_type = t,
      rl_redirect_url = None, rl_comment = None\<rparr>"

definition demo_regex_new :: "string \<Rightarrow> string option" where
  "demo_regex_new p = (if prefix ''(?!'' p then None else Some p)"

definition demo_is_match :: "string \<Rightarrow> string \<Rightarrow> bool" where
  "demo_is_match re txt \<longleftrightarrow> prefix re txt"

definition demo_rules :: "acl_rule list" where
  "demo_rules =
     [demo_rule ''a'' 10 Allow (Domain ''*.example.com''),
      demo_rule ''b'' 50 Deny (Regex ''http://bad''),
      demo_rule ''c'' 50 Redirect (UrlPrefix ''http://bad'')]"

definition demo_engine :: "string acl_engine" where
  "demo_engine = the (load_rules demo_regex_new demo_rules (acl_new Deny))"

lemma demo_load: "load_rules demo_regex_new demo_rules (acl_new Deny) = Some demo_engine"
  by code_simp

lemma demo_reachable: "acl_reachable demo_regex_new demo_engine"
  by (rule acl_reachable.step [where e = "acl_new Deny" and unique = True and op = "Load demo_rules"])
    (simp_all add: acl_reachable.init mutate_def demo_load)

theorem load_rules_check_access_witness:
  "load_rules demo_regex_new demo_rules (acl_new Deny) = Some demo_engine \<and>
   check_access demo_is_match 0 demo_engine ''http://bad.example.com/'' ''bad.example.com'' [] None [] None =
     acl_deny ''b'' ''Blocked by rule: b''"
  unfolding load_rules_check_access [OF demo_load] by (rule conjI [OF demo_load]) code_simp

theorem check_access_highest_priority_witness:
  "acl_reachable demo_regex_new demo_engine \<and>
   check_access demo_is_match 0 demo_engine ''http://x/'' ''x'' [] None [] None = default_decision Deny"
proof -
  have "\<forall>r \<in> set (en_rules demo_engine).
          \<not> rule_applies demo_regex_new demo_is_match 0 r ''http://x/'' ''x'' [] None [] None"
    by code_simp
  moreover have "en_default_action demo_engine = Deny" by code_simp
  ultimately show ?thesis
    using check_access_highest_priority
      [OF demo_reachable, of demo_is_match 0 "''http://x/''" "''x''" "[]" None "[]" None]
      demo_reachable by auto
qed

theorem acl_reachable_consistent_witness:
  "acl_reachable demo_regex_new demo_engine \<and>
   map_of (en_compiled_regex demo_engine) ''http://bad'' = Some ''http://bad''"
proof -
  have "\<exists>r \<in> set (en_rules demo_engine). rl_rule_type r = Regex ''http://bad''" by code_simp
  moreover have "compile_regex_pattern demo_regex_new ''http://bad'' = Some ''http://bad''" by code_simp
  ultimately show ?thesis
    using acl_reachable_consistent [OF demo_reachable, of "''http://bad''"] demo_reachable by simp
qed

theorem mutate_in_place_or_fork_witness:
  "acl_reachable demo_regex_new demo_engine \<and>
   mutate demo_regex_new False (add_rule demo_regex_new (demo_rule ''d'' 1 Deny (Category ''ads''))) demo_engine =
   add_rule demo_regex_new (demo_rule ''d'' 1 Deny (Category ''ads'')) demo_engine"
  using mutate_in_place_or_fork [OF demo_reachable] demo_reachable by blast

theorem update_rule_replaces_witness:
  "\<exists>e'. update_rule demo_regex_new (demo_rule ''a'' 99 Deny (Category ''ads'')) demo_engine = Some (True, e') \<and>
        has_rule demo_engine ''a''"
proof -
  have "(case update_rule demo_regex_new (demo_rule ''a'' 99 Deny (Category ''ads'')) demo_engine of
           None \<Rightarrow> False | Some (b, _) \<Rightarrow> b)" by code_simp
  then obtain e' where
    u: "update_rule demo_regex_new (demo_rule ''a'' 99 Deny (Category ''ads'')) demo_engine = Some (True, e')"
    by (auto split: option.splits)
  with update_rule_replaces [OF u] show ?thesis by (auto simp: demo_rule_def)
qed

theorem remove_rule_removes_witness:
  "\<exists>e'. remove_rule demo_regex_new ''b'' demo_engine = Some (True, e') \<and> \<not> has_rule e' ''b''"
proof -
  have "(case remove_rule demo_regex_new ''b'' demo_engine of None \<Rightarrow> False | Some (b, _) \<Rightarrow> b)"
    by code_simp
  then obtain e' where r: "remove_rule demo_regex_new ''b'' demo_engine = Some (True, e')"
    by (auto split: option.splits)
  with remove_rule_removes [OF r] show ?thesis by blast
qed

theorem time_in_window_cyclic_witness:
  "parse_hhmm ''22:00'' = Some 1320 \<and> parse_hhmm ''06:30'' = Some 390 \<and>
   time_in_window ''22:00'' ''06:30'' 60"
proof -
  have p: "parse_hhmm ''22:00'' = Some 1320" "parse_hhmm ''06:30'' = Some 390" by code_simp+
  with time_in_window_cyclic [OF p, of 60] show ?thesis by simp
qed

theorem add_rule_invalid_pattern_panics_witness:
  "add_rule demo_regex_new (demo_rule ''x'' 1 Deny (Regex ''(?!x)'')) demo_engine = None"
proof (rule add_rule_invalid_pattern_panics)
  show "demo_regex_new never_pattern = None" by code_simp
  show "rl_rule_type (demo_rule ''x'' 1 Deny (Regex ''(?!x)'')) = Regex ''(?!x)''"
    by (simp add: demo_rule_def)
  show "demo_regex_new ''(?!x)'' = None" by code_simp
qed

end
