(* ===== verification/Policy_Cache.thy ===== *)
theory Policy_Cache
  imports Acl Cache_Freshness
begin

text \<open>
  The policy decision cache (\<^verbatim>\<open>proxy/src/policy_cache.rs\<close>): decisions per principal and domain, a
  generation counter that invalidation advances, and room made by removing the oldest entry.
  \<^verbatim>\<open>store\<close> reads the generation before it takes the lock on the entries; the two halves are
  separate steps, so that an invalidation can fall between them.
\<close>

section \<open>Definitions\<close>

record policy_cache_key =
  pk_principal :: string
  pk_domain :: string

record policy_cache_entry =
  pe_blocking :: "acl_decision option"
  pe_categories :: "string list"
  pe_threat_sources :: "string list"
  pe_cached_at :: time
  pe_generation :: u64

record policy_cache_config =
  pcc_ttl :: duration
  pcc_max_keys :: nat

definition policy_cache_config_from_env :: "(string \<Rightarrow> string option) \<Rightarrow> policy_cache_config" where
  "policy_cache_config_from_env env =
     \<lparr>pcc_ttl = from_secs (env_uint env u64_max ''POLICY_DECISION_CACHE_TTL_SECONDS'' 120),
      pcc_max_keys = max (env_uint env u64_max ''POLICY_DECISION_CACHE_MAX_KEYS'' 10000) 1\<rparr>"

record policy_decision_cache =
  pc_config :: policy_cache_config
  pc_generation :: u64
  pc_entries :: "(policy_cache_key, policy_cache_entry) hash_map"

record policy_cache_hit =
  ph_blocking :: "acl_decision option"
  ph_categories :: "string list"
  ph_threat_sources :: "string list"

definition policy_cache_new :: "policy_cache_config \<Rightarrow> policy_decision_cache" where
  "policy_cache_new config = \<lparr>pc_config = config, pc_generation = 1, pc_entries = []\<rparr>"

definition policy_cache_enabled :: "policy_decision_cache \<Rightarrow> bool" where
  "policy_cache_enabled c \<longleftrightarrow> pcc_ttl (pc_config c) \<noteq> 0"

definition policy_invalidate :: "policy_decision_cache \<Rightarrow> policy_decision_cache" where
  "policy_invalidate c = c\<lparr>pc_generation := pc_generation c + 1, pc_entries := []\<rparr>"

definition principal_key :: "string option \<Rightarrow> string list \<Rightarrow> string" where
  "principal_key username groups =
     (let user = (case username of None \<Rightarrow> ''-'' | Some u \<Rightarrow> u) in
      if groups = [] then user else user @ ''|'' @ join '','' (sort groups))"

definition policy_key :: "string option \<Rightarrow> string \<Rightarrow> string list \<Rightarrow> policy_cache_key" where
  "policy_key username domain groups =
     \<lparr>pk_principal = principal_key username groups, pk_domain = domain\<rparr>"

definition policy_lookup ::
  "time \<Rightarrow> string option \<Rightarrow> string \<Rightarrow> string list \<Rightarrow> policy_decision_cache \<Rightarrow> policy_cache_hit option" where
  "policy_lookup now username domain groups c =
     (if \<not> policy_cache_enabled c then None
      else
        (case map_of (pc_entries c) (policy_key username domain groups) of
           None \<Rightarrow> None
         | Some entry \<Rightarrow>
             (if pe_generation entry \<noteq> pc_generation c \<or>
                 now - pe_cached_at entry > pcc_ttl (pc_config c) then None
              else Some \<lparr>ph_blocking = pe_blocking entry, ph_categories = pe_categories entry,
                         ph_threat_sources = pe_threat_sources entry\<rparr>)))"

text \<open>First half of \<^verbatim>\<open>store\<close>: the entry, stamped with time and generation.\<close>

definition policy_entry ::
  "time \<Rightarrow> string list \<Rightarrow> string list \<Rightarrow> acl_decision option \<Rightarrow> policy_decision_cache \<Rightarrow>
   policy_cache_entry" where
  "policy_entry now categories threat_sources blocking c =
     \<lparr>pe_blocking = blocking, pe_categories = categories, pe_threat_sources = threat_sources,
      pe_cached_at = now, pe_generation = pc_generation c\<rparr>"

definition oldest_key ::
  "(policy_cache_key, policy_cache_entry) hash_map \<Rightarrow> policy_cache_key option" where
  "oldest_key m = map_option fst (min_by_key (\<lambda>(_, v). pe_cached_at v) m)"

text \<open>Second half of \<^verbatim>\<open>store\<close>: under the lock, make room and insert.\<close>

definition policy_insert ::
  "policy_cache_key \<Rightarrow> policy_cache_entry \<Rightarrow> policy_decision_cache \<Rightarrow> policy_decision_cache" where
  "policy_insert key entry c =
     c\<lparr>pc_entries :=
         AList.update key entry
           (hm_make_room (pcc_max_keys (pc_config c)) oldest_key key (pc_entries c))\<rparr>"

definition policy_store ::
  "time \<Rightarrow> string option \<Rightarrow> string \<Rightarrow> string list \<Rightarrow> string list \<Rightarrow> string list \<Rightarrow>
   acl_decision option \<Rightarrow> policy_decision_cache \<Rightarrow> policy_decision_cache" where
  "policy_store now username domain groups categories threat_sources blocking c =
     (if \<not> policy_cache_enabled c then c
      else policy_insert (policy_key username domain groups)
             (policy_entry now categories threat_sources blocking c) c)"

subsection \<open>Interleaved steps\<close>

text \<open>
  Threads at work on one cache. A store that has read the generation is pending until it
  inserts; any number may be pending.
\<close>

record policy_system =
  ps_cache :: policy_decision_cache
  ps_pending :: "(policy_cache_key \<times> policy_cache_entry) list"

datatype policy_label = Store_begun | Store_finished | Invalidated

inductive policy_step :: "policy_system \<Rightarrow> policy_label \<Rightarrow> policy_system \<Rightarrow> bool" where
  begin_store:
    "policy_cache_enabled (ps_cache s) \<Longrightarrow>
     policy_step s Store_begun (s\<lparr>ps_pending := ps_pending s @
       [(policy_key u d g, policy_entry now cats src b (ps_cache s))]\<rparr>)"
| finish_store:
    "i < length (ps_pending s) \<Longrightarrow> ps_pending s ! i = (k, e) \<Longrightarrow>
     policy_step s Store_finished
       (s\<lparr>ps_cache := policy_insert k e (ps_cache s),
          ps_pending := take i (ps_pending s) @ drop (Suc i) (ps_pending s)\<rparr>)"
| invalidate:
    "policy_step s Invalidated (s\<lparr>ps_cache := policy_invalidate (ps_cache s)\<rparr>)"

inductive_cases policy_stepE: "policy_step s l s'"

text \<open>Runs, with the labels of their steps.\<close>

inductive policy_run :: "policy_system \<Rightarrow> policy_label list \<Rightarrow> policy_system \<Rightarrow> bool" where
  start: "policy_run s [] s"
| more: "policy_run s ls s' \<Longrightarrow> policy_step s' l s'' \<Longrightarrow> policy_run s (ls @ [l]) s''"

definition policy_entries_inv :: "nat \<Rightarrow> policy_decision_cache \<Rightarrow> bool" where
  "policy_entries_inv cap c \<longleftrightarrow>
     hm_inv (pc_entries c) \<and> pcc_max_keys (pc_config c) = cap \<and> 0 < cap"

section \<open>Lemmas\<close>

lemma oldest_key_has: "m \<noteq> [] \<Longrightarrow> \<exists>e. oldest_key m = Some e \<and> hm_has m e"
  using min_by_key_in [of m "\<lambda>(_, v). pe_cached_at v"] by (force simp: oldest_key_def hm_has_iff)

lemma policy_insert_config [simp]:
  "pc_config (policy_insert k e c) = pc_config c"
  "pc_generation (policy_insert k e c) = pc_generation c"
  by (simp_all add: policy_insert_def)

lemma policy_insert_get_other:
  "k' \<noteq> k \<Longrightarrow> map_of (pc_entries (policy_insert k e c)) k' \<in> {None, map_of (pc_entries c) k'}"
  using hm_make_room_get [of "pcc_max_keys (pc_config c)" oldest_key k "pc_entries c" k']
  by (simp add: policy_insert_def)

text \<open>The cache keeps within its capacity.\<close>

interpretation pcm: capped_map policy_insert "\<lambda>c. map_of (pc_entries c)" "\<lambda>c. length (pc_entries c)"
  "policy_entries_inv cap" cap for cap
proof (unfold_locales, goal_cases)
  case (1 s k v)
  then show ?case by (simp add: policy_entries_inv_def policy_insert_def)
next
  case (2 s k v)
  show ?case by (simp add: policy_insert_def)
next
  case (3 s k' k v)
  from 3(2) show ?case by (rule policy_insert_get_other)
next
  case (4 s k v)
  then show ?case
    using hm_make_room_length [of "pc_entries s" cap oldest_key k v] oldest_key_has
    by (simp add: policy_entries_inv_def policy_insert_def)
qed

lemma policy_lookup_entry:
  "policy_lookup now u d g c = Some hit \<longleftrightarrow>
     policy_cache_enabled c \<and>
     (\<exists>e. map_of (pc_entries c) (policy_key u d g) = Some e \<and> pe_generation e = pc_generation c \<and>
          now - pe_cached_at e \<le> pcc_ttl (pc_config c) \<and>
          hit = \<lparr>ph_blocking = pe_blocking e, ph_categories = pe_categories e,
                 ph_threat_sources = pe_threat_sources e\<rparr>)"
  by (auto simp: policy_lookup_def split: option.splits)

lemma policy_step_generation:
  "policy_step s l s' \<Longrightarrow>
     pc_generation (ps_cache s') = pc_generation (ps_cache s) + (if l = Invalidated then 1 else 0) \<and>
     pc_config (ps_cache s') = pc_config (ps_cache s)"
  by (erule policy_stepE) (auto simp: policy_invalidate_def)

lemma policy_run_generation:
  "policy_run s ls s' \<Longrightarrow>
     pc_generation (ps_cache s') =
       pc_generation (ps_cache s) + of_nat (length (filter (\<lambda>l. l = Invalidated) ls)) \<and>
     pc_config (ps_cache s') = pc_config (ps_cache s)"
  by (induction rule: policy_run.induct) (auto dest!: policy_step_generation)

lemma policy_step_capped:
  assumes "policy_step s l s'" "policy_entries_inv cap (ps_cache s)" "length (pc_entries (ps_cache s)) \<le> cap"
  shows "policy_entries_inv cap (ps_cache s') \<and> length (pc_entries (ps_cache s')) \<le> cap"
  using assms(1)
proof (cases rule: policy_step.cases)
  case (finish_store i k e)
  with assms(2,3) show ?thesis by (simp add: pcm.put_inv pcm.entries_put)
qed (use assms in \<open>simp_all add: policy_invalidate_def policy_entries_inv_def\<close>)

lemma policy_run_capped:
  "policy_run s ls s' \<Longrightarrow> policy_entries_inv cap (ps_cache s) \<Longrightarrow> length (pc_entries (ps_cache s)) \<le> cap \<Longrightarrow>
     policy_entries_inv cap (ps_cache s') \<and> length (pc_entries (ps_cache s')) \<le> cap"
  by (induction rule: policy_run.induct) (auto dest: policy_step_capped)

lemma join_inject:
  assumes "\<And>w. w \<in> set ws \<Longrightarrow> c \<notin> set w" "\<And>w. w \<in> set vs \<Longrightarrow> c \<notin> set w"
    and "ws \<noteq> []" "vs \<noteq> []" "join [c] ws = join [c] vs"
  shows "ws = vs"
proof -
  have "split_char c (join [c] ws) = ws" using assms(1,3) by (simp add: split_char_join)
  moreover have "split_char c (join [c] vs) = vs" using assms(2,4) by (simp add: split_char_join)
  ultimately show ?thesis using assms(5) by metis
qed

lemma split_bar:
  fixes c :: char
  assumes "c \<notin> set u" "c \<notin> set u'" "u @ [c] @ r = u' @ [c] @ r'"
  shows "u = u' \<and> r = r'"
proof -
  have "split_once c (u @ c # r) = split_once c (u' @ c # r')" using assms(3) by simp
  then show ?thesis
    unfolding split_once_append [OF assms(1)] split_once_append [OF assms(2)] by simp
qed

lemma word_of_nat_neq_0: "0 < n \<Longrightarrow> n < 2 ^ 64 \<Longrightarrow> (of_nat n :: u64) \<noteq> 0"
  by (simp add: word_of_nat_eq_0_iff nat_dvd_not_less)

section \<open>Properties\<close>

text \<open>The policy cache never outgrows its configured number of keys, whatever stores and
  invalidations interleave.\<close>

theorem policy_cache_bounded:
  assumes "policy_run \<lparr>ps_cache = policy_cache_new config, ps_pending = []\<rparr> ls s" "0 < pcc_max_keys config"
  shows "length (pc_entries (ps_cache s)) \<le> pcc_max_keys config"
  using policy_run_capped [OF assms(1), of "pcc_max_keys config"] assms(2)
  by (simp add: policy_cache_new_def policy_entries_inv_def)

text \<open>Invalidation also catches stores under way: after at least one and fewer than $2^{64}$
  invalidations, no look-up is answered by an entry that was stamped before them, though its
  insertion may come later.\<close>

theorem policy_invalidate_hides_earlier:
  assumes "policy_run s ls s'" "length (filter (\<lambda>l. l = Invalidated) ls) = n" "0 < n" "n < 2 ^ 64"
    and "policy_lookup now u d g (ps_cache s') = Some hit"
  shows "\<exists>e. map_of (pc_entries (ps_cache s')) (policy_key u d g) = Some e \<and>
             pe_generation e \<noteq> pc_generation (ps_cache s)"
proof -
  from assms(5) obtain e where e: "map_of (pc_entries (ps_cache s')) (policy_key u d g) = Some e"
    "pe_generation e = pc_generation (ps_cache s')" by (auto simp: policy_lookup_entry)
  moreover have "pc_generation (ps_cache s') = pc_generation (ps_cache s) + of_nat n"
    using policy_run_generation [OF assms(1)] assms(2) by simp
  ultimately show ?thesis using word_of_nat_neq_0 [OF assms(3,4)] by auto
qed

text \<open>A stored decision is found again for the same principal and domain until its lifetime has
  passed or the cache is invalidated, with the categories and sources it was stored with.\<close>

theorem policy_lookup_store:
  assumes "policy_cache_enabled c" "t - now \<le> pcc_ttl (pc_config c)"
  shows "policy_lookup t u d g (policy_store now u d g cats src b c) =
           Some \<lparr>ph_blocking = b, ph_categories = cats, ph_threat_sources = src\<rparr> \<and>
         policy_lookup t u d g (policy_invalidate (policy_store now u d g cats src b c)) = None"
  using assms
  by (simp add: policy_lookup_def policy_store_def policy_insert_def policy_entry_def
      policy_cache_enabled_def policy_invalidate_def)

text \<open>Principals are told apart where names are plain: with no vertical bar in a user name, no comma
  in a group name and no user called by the placeholder, two requests share a key only if user
  and groups agree, the groups up to order.\<close>

theorem principal_key_inject:
  assumes "principal_key u g = principal_key u' g'"
    and "CHR ''|'' \<notin> set (case u of None \<Rightarrow> ''-'' | Some n \<Rightarrow> n)"
    and "CHR ''|'' \<notin> set (case u' of None \<Rightarrow> ''-'' | Some n \<Rightarrow> n)"
    and "u \<noteq> Some ''-''" "u' \<noteq> Some ''-''"
    and "list_all (\<lambda>n. CHR '','' \<notin> set n) g" "list_all (\<lambda>n. CHR '','' \<notin> set n) g'"
  shows "u = u' \<and> mset g = mset g'"
proof -
  let ?u = "case u of None \<Rightarrow> ''-'' | Some n \<Rightarrow> n" and ?u' = "case u' of None \<Rightarrow> ''-'' | Some n \<Rightarrow> n"
  have names: "?u = ?u' \<Longrightarrow> u = u'" using assms(4,5) by (auto split: option.splits)
  have key: "principal_key v h = (case v of None \<Rightarrow> ''-'' | Some n \<Rightarrow> n) @
      (if h = [] then [] else ''|'' @ join '','' (sort h))" for v h
    by (simp add: principal_key_def Let_def)
  show ?thesis
  proof (cases "g = [] \<or> g' = []")
    case True
    have bar: "CHR ''|'' \<in> set (principal_key v h)" if "h \<noteq> []" for v h
      using that unfolding key by simp
    have "g = [] \<and> g' = []"
      using True assms(1-3) bar [of g u] bar [of g' u'] key [of u "[]"] key [of u' "[]"]
      by (cases "g = []"; cases "g' = []") auto
    with assms(1) names show ?thesis unfolding key by simp
  next
    case False
    with assms(1) have "?u @ ''|'' @ join '','' (sort g) = ?u' @ ''|'' @ join '','' (sort g')"
      unfolding key by simp
    from split_bar [OF assms(2,3) this] have "?u = ?u'" "join '','' (sort g) = join '','' (sort g')"
      by auto
    moreover have "sort g \<noteq> []" "sort g' \<noteq> []"
      using False by (metis length_0_conv length_sort)+
    moreover have "sort g = sort g'"
      by (rule join_inject [of _ "CHR '',''"])
        (use assms(6,7) calculation in \<open>auto simp: list_all_iff\<close>)
    then have "mset g = mset g'" by (metis mset_sort)
    ultimately show ?thesis using names by simp
  qed
qed

text \<open>Without that condition different principals share decisions: a user whose name contains a bar
  is taken for another user with a group, an anonymous client for the user called "-", and one
  group with a comma for two groups.\<close>

theorem principal_key_collisions:
  "principal_key (Some (u @ ''|'' @ g)) [] = principal_key (Some u) [g] \<and>
   principal_key None gs = principal_key (Some ''-'') gs \<and>
   principal_key v [''a,b''] = principal_key v [''a'', ''b'']"
proof -
  have "sort [''a'', ''b''] = [''a'', ''b'']" by code_simp
  then show ?thesis by (simp add: principal_key_def)
qed

section \<open>Witnesses\<close>

definition demo_policy_config :: policy_cache_config where
  "demo_policy_config = \<lparr>pcc_ttl = from_secs 120, pcc_max_keys = 2\<rparr>"

definition demo_system :: policy_system where
  "demo_system = \<lparr>ps_cache = policy_cache_new demo_policy_config, ps_pending = []\<rparr>"

definition demo_store :: "policy_system \<Rightarrow> policy_system" where
  "demo_store s = s\<lparr>ps_pending := ps_pending s @
     [(policy_key None ''x'' [], policy_entry 0 [] [] None (ps_cache s))]\<rparr>"

definition demo_invalidated :: policy_system where
  "demo_invalidated = demo_system\<lparr>ps_cache := policy_invalidate (ps_cache demo_system)\<rparr>"

definition demo_served :: policy_system where
  "demo_served = (demo_store demo_invalidated)
     \<lparr>ps_cache := policy_insert (policy_key None ''x'' [])
        (policy_entry 0 [] [] None (ps_cache demo_invalidated)) (ps_cache demo_invalidated),
      ps_pending := []\<rparr>"

lemma demo_invalidated_run: "policy_run demo_system [Invalidated] demo_invalidated"
  using policy_run.more [OF policy_run.start policy_step.invalidate, of demo_system]
  by (simp add: demo_invalidated_def)

lemma demo_served_run: "policy_run demo_system [Invalidated, Store_begun, Store_finished] demo_served"
proof -
  have "policy_step demo_invalidated Store_begun (demo_store demo_invalidated)"
    unfolding demo_store_def
    by (rule policy_step.begin_store) (code_simp)
  moreover have "policy_step (demo_store demo_invalidated) Store_finished demo_served"
    using policy_step.finish_store [of 0 "demo_store demo_invalidated" "policy_key None ''x'' []"
      "policy_entry 0 [] [] None (ps_cache demo_invalidated)"]
    by (simp add: demo_served_def demo_store_def demo_invalidated_def demo_system_def)
  ultimately show ?thesis
    using policy_run.more [OF policy_run.more [OF demo_invalidated_run]] by fastforce
qed

theorem policy_cache_bounded_witness:
  "length (pc_entries (ps_cache demo_invalidated)) \<le> 2"
  using policy_cache_bounded [OF demo_invalidated_run [unfolded demo_system_def]]
  by (simp add: demo_policy_config_def)

theorem policy_invalidate_hides_earlier_witness:
  "\<exists>e. map_of (pc_entries (ps_cache demo_served)) (policy_key None ''x'' []) = Some e \<and>
       pe_generation e \<noteq> pc_generation (ps_cache demo_system)"
proof -
  have "policy_lookup 5 None ''x'' [] (ps_cache demo_served) \<noteq> None" by code_simp
  then obtain hit where "policy_lookup 5 None ''x'' [] (ps_cache demo_served) = Some hit" by blast
  then show ?thesis
    by (intro policy_invalidate_hides_earlier [OF demo_served_run, of 1]) simp_all
qed

theorem policy_lookup_store_witness:
  "policy_lookup 60 (Some ''u'') ''x'' [] (policy_store 0 (Some ''u'') ''x'' [] [''ads''] [] None
      (policy_cache_new demo_policy_config)) =
     Some \<lparr>ph_blocking = None, ph_categories = [''ads''], ph_threat_sources = []\<rparr>"
proof -
  have "policy_cache_enabled (policy_cache_new demo_policy_config)" by code_simp
  moreover have "60 - 0 \<le> pcc_ttl (pc_config (policy_cache_new demo_policy_config))" by code_simp
  ultimately show ?thesis using policy_lookup_store by blast
qed

theorem principal_key_inject_witness:
  "principal_key (Some ''u'') [''b'', ''a''] = principal_key (Some ''u'') [''a'', ''b''] \<and>
   mset [''b'', ''a''] = mset [''a'', ''b'']"
proof -
  have "principal_key (Some ''u'') [''b'', ''a''] = principal_key (Some ''u'') [''a'', ''b'']" by code_simp
  with principal_key_inject [OF this] show ?thesis by simp
qed

end
