(* ===== verification/Threat_Score.thy ===== *)
theory Threat_Score
  imports Acl
begin

text \<open>
  The threat score cache (\<^verbatim>\<open>proxy/src/threat_score_cache.rs\<close>): scores polled from the ml-worker,
  looked up per domain, client and client with domain, and applied to a policy decision.
  \<open>poll\<close> stands for the HTTP request and its JSON body: the rows, or an error.
\<close>

section \<open>Definitions\<close>

record threat_score_hit =
  th_score :: real
  th_severity :: string
  th_model :: string
  th_entity_type :: string
  th_entity_id :: string

record threat_score_config =
  tc_enabled :: bool
  tc_poll_url :: string
  tc_poll_interval :: duration
  tc_cache_ttl :: duration
  tc_warn_threshold :: real
  tc_block_threshold :: real

definition threat_config_from_env :: "(string \<Rightarrow> real option) \<Rightarrow> (string \<Rightarrow> string option) \<Rightarrow> threat_score_config" where
  "threat_config_from_env parse_f64 env =
     \<lparr>tc_enabled = env_flag [''1'', ''true'', ''yes'', ''on''] env ''THREAT_SCORE_ENABLED'',
      tc_poll_url = env_or env ''THREAT_SCORE_POLL_URL'' ''http://127.0.0.1:8091/api/threat-scores'',
      tc_poll_interval = from_secs (env_uint env u64_max ''THREAT_SCORE_POLL_INTERVAL_SECS'' 60),
      tc_cache_ttl = from_secs (env_uint env u64_max ''THREAT_SCORE_CACHE_TTL_SECS'' 300),
      tc_warn_threshold = env_f64 parse_f64 env ''THREAT_SCORE_WARN_THRESHOLD'' (7 / 10),
      tc_block_threshold = env_f64 parse_f64 env ''THREAT_SCORE_BLOCK_THRESHOLD'' 0\<rparr>"

definition block_enabled :: "threat_score_config \<Rightarrow> bool" where
  "block_enabled c \<longleftrightarrow> tc_block_threshold c > 0"

record threat_entry =
  te_hit :: threat_score_hit
  te_cached_at :: time

record threat_score_cache =
  ts_config :: threat_score_config
  ts_entries :: "(string, threat_entry) hash_map"

definition threat_cache_key :: "string \<Rightarrow> string \<Rightarrow> string" where
  "threat_cache_key entity_type entity_id = entity_type @ '':'' @ entity_id"

definition threat_candidates :: "string \<Rightarrow> string \<Rightarrow> string list" where
  "threat_candidates domain client_ip =
     [threat_cache_key ''domain'' domain, threat_cache_key ''client_ip'' client_ip,
      threat_cache_key ''client_domain'' (client_ip @ ''|'' @ domain)]"

fun best_entry ::
  "time \<Rightarrow> threat_score_cache \<Rightarrow> string list \<Rightarrow> threat_entry option \<Rightarrow> threat_entry option" where
  "best_entry now c [] best = best"
| "best_entry now c (key # keys) best =
     (case map_of (ts_entries c) key of
        None \<Rightarrow> best_entry now c keys best
      | Some entry \<Rightarrow>
          (if now - te_cached_at entry > tc_cache_ttl (ts_config c) then best_entry now c keys best
           else if (case best of None \<Rightarrow> True | Some b \<Rightarrow> th_score (te_hit entry) > th_score (te_hit b))
           then best_entry now c keys (Some entry)
           else best_entry now c keys best))"

definition threat_lookup ::
  "time \<Rightarrow> string \<Rightarrow> string \<Rightarrow> threat_score_cache \<Rightarrow> threat_score_hit option" where
  "threat_lookup now domain client_ip c =
     (if \<not> tc_enabled (ts_config c) then None
      else map_option te_hit (best_entry now c (threat_candidates domain client_ip) None))"

text \<open>\<^verbatim>\<open>{:.2}\<close>: two decimals, ties to even.\<close>

definition round_half_even :: "real \<Rightarrow> int" where
  "round_half_even x =
     (let f = \<lfloor>x\<rfloor>; d = x - of_int f in
      if d < 1 / 2 then f else if d > 1 / 2 then f + 1 else if even f then f else f + 1)"

definition fmt_fixed2 :: "real \<Rightarrow> string" where
  "fmt_fixed2 x =
     (let n = nat (round_half_even (\<bar>x\<bar> * 100)) in
      (if x < 0 then ''-'' else []) @ show_nat (n div 100) @ ''.'' @
      show_nat (n mod 100 div 10) @ show_nat (n mod 10))"

definition threat_deny :: "threat_score_hit \<Rightarrow> acl_decision" where
  "threat_deny hit =
     acl_deny ''ml-threat-score''
       (''ML threat score '' @ fmt_fixed2 (th_score hit) @ '' ('' @ th_model hit @ '', '' @
        th_severity hit @ '')'')"

text \<open>Result: the returned flag, the threat sources and the blocking decision afterwards.\<close>

definition apply_to_policy ::
  "time \<Rightarrow> string \<Rightarrow> string \<Rightarrow> string list \<Rightarrow> acl_decision option \<Rightarrow> threat_score_cache \<Rightarrow>
   bool \<times> string list \<times> acl_decision option" where
  "apply_to_policy now domain client_ip threat_sources blocking c =
     (case threat_lookup now domain client_ip c of
        None \<Rightarrow> (False, threat_sources, blocking)
      | Some hit \<Rightarrow>
          (let cfg = ts_config c;
               threat_sources =
                 (if th_score hit \<ge> tc_warn_threshold cfg \<and> \<not> List.member threat_sources ''ml_score''
                  then threat_sources @ [''ml_score''] else threat_sources)
           in if block_enabled cfg \<and> th_score hit \<ge> tc_block_threshold cfg then
                (True, threat_sources,
                 (case blocking of None \<Rightarrow> Some (threat_deny hit) | Some d \<Rightarrow> Some d))
              else (th_score hit \<ge> tc_warn_threshold cfg, threat_sources, blocking)))"

definition threat_replace_all ::
  "time \<Rightarrow> threat_score_hit list \<Rightarrow> threat_score_cache \<Rightarrow> threat_score_cache" where
  "threat_replace_all now rows c =
     c\<lparr>ts_entries :=
         hm_extend [] (map (\<lambda>row. (threat_cache_key (th_entity_type row) (th_entity_id row),
                                   \<lparr>te_hit = row, te_cached_at = now\<rparr>)) rows)\<rparr>"

definition threat_poll_once ::
  "time \<Rightarrow> string + threat_score_hit list \<Rightarrow> threat_score_cache \<Rightarrow> (string + nat) \<times> threat_score_cache"
  where
  "threat_poll_once now poll c =
     (case poll of
        Inl e \<Rightarrow> (Inl e, c)
      | Inr rows \<Rightarrow> (Inr (length rows), threat_replace_all now rows c))"

text \<open>The entries a look-up may use.\<close>

definition threat_fresh :: "time \<Rightarrow> threat_score_cache \<Rightarrow> string \<Rightarrow> threat_entry \<Rightarrow> bool" where
  "threat_fresh now c key e \<longleftrightarrow>
     map_of (ts_entries c) key = Some e \<and> now - te_cached_at e \<le> tc_cache_ttl (ts_config c)"

section \<open>Lemmas\<close>

lemma best_entry_max:
  "best_entry now c keys best = Some e \<Longrightarrow>
     (best = Some e \<or> (\<exists>k \<in> set keys. threat_fresh now c k e)) \<and>
     (\<forall>b. best = Some b \<longrightarrow> th_score (te_hit b) \<le> th_score (te_hit e)) \<and>
     (\<forall>k \<in> set keys. \<forall>e'. threat_fresh now c k e' \<longrightarrow> th_score (te_hit e') \<le> th_score (te_hit e))"
proof (induction keys arbitrary: best)
  case (Cons key keys)
  show ?case
  proof (cases "map_of (ts_entries c) key")
    case None
    with Cons show ?thesis by (auto simp: threat_fresh_def)
  next
    case (Some entry)
    let ?old = "now - te_cached_at entry > tc_cache_ttl (ts_config c)"
    let ?better = "case best of None \<Rightarrow> True | Some b \<Rightarrow> th_score (te_hit entry) > th_score (te_hit b)"
    consider "?old" | "\<not> ?old" "?better" | "\<not> ?old" "\<not> ?better" by blast
    then show ?thesis
    proof cases
      case 1
      with Cons Some show ?thesis by (auto simp: threat_fresh_def)
    next
      case 2
      with Cons.prems Some have "best_entry now c keys (Some entry) = Some e" by simp
      from Cons.IH [OF this] 2 Some show ?thesis
        by (fastforce simp: threat_fresh_def split: option.splits)
    next
      case 3
      with Cons.prems Some have "best_entry now c keys best = Some e" by simp
      from Cons.IH [OF this] 3 Some show ?thesis
        by (fastforce simp: threat_fresh_def split: option.splits)
    qed
  qed
qed simp

lemma best_entry_None:
  "best_entry now c keys best = None \<longleftrightarrow>
     best = None \<and> (\<forall>k \<in> set keys. \<forall>e. \<not> threat_fresh now c k e)"
  by (induction keys arbitrary: best) (auto simp: threat_fresh_def split: option.splits)

lemma threat_lookup_None:
  "threat_lookup now d ip c = None \<longleftrightarrow>
     \<not> tc_enabled (ts_config c) \<or>
     (\<forall>k \<in> set (threat_candidates d ip). \<forall>e. \<not> threat_fresh now c k e)"
  by (auto simp: threat_lookup_def best_entry_None)

section \<open>Properties\<close>

text \<open>A look-up gives the highest score among the fresh entries for the domain, the client and the
  pair of both; it gives none exactly when the cache is off or there is no fresh entry.\<close>

theorem threat_lookup_highest:
  "(case threat_lookup now d ip c of
      None \<Rightarrow> \<not> (tc_enabled (ts_config c) \<and>
                (\<exists>k e. k \<in> set (threat_candidates d ip) \<and> threat_fresh now c k e))
    | Some hit \<Rightarrow>
        tc_enabled (ts_config c) \<and>
        (\<exists>k e. k \<in> set (threat_candidates d ip) \<and> threat_fresh now c k e \<and> te_hit e = hit) \<and>
        \<not> (\<exists>k e. k \<in> set (threat_candidates d ip) \<and> threat_fresh now c k e \<and>
                 th_score hit < th_score (te_hit e)))"
proof (cases "threat_lookup now d ip c")
  case None
  then show ?thesis using threat_lookup_None [of now d ip c] by auto
next
  case (Some hit)
  then obtain e where e: "best_entry now c (threat_candidates d ip) None = Some e" "te_hit e = hit"
    and on: "tc_enabled (ts_config c)"
    by (auto simp: threat_lookup_def split: if_splits)
  with best_entry_max [OF e(1)] Some show ?thesis by (force simp: not_less)
qed

text \<open>Scores only tighten a decision: an existing block is kept as it is, a new one is a denial and
  appears exactly when blocking is configured and the score reaches its threshold, the warning
  source is added at most once, and the flag says whether either threshold was reached.\<close>

theorem apply_to_policy_tightens:
  "(case apply_to_policy now d ip src blocking c of
      (flag, src', blocking') \<Rightarrow>
        (case threat_lookup now d ip c of
           None \<Rightarrow> \<not> flag \<and> src' = src \<and> blocking' = blocking
         | Some hit \<Rightarrow>
             (let blocks = block_enabled (ts_config c) \<and> tc_block_threshold (ts_config c) \<le> th_score hit;
                  warns = tc_warn_threshold (ts_config c) \<le> th_score hit
              in flag = (blocks \<or> warns) \<and>
                 blocking' = (if blocking = None \<and> blocks then Some (threat_deny hit) else blocking) \<and>
                 src' = (if warns \<and> ''ml_score'' \<notin> set src then src @ [''ml_score''] else src))))"
  by (auto simp: apply_to_policy_def Let_def split: option.splits)

text \<open>A successful poll replaces the whole cache: every entry afterwards is a polled row of that
  moment, the last of those with the same type and identifier. A failed poll changes nothing.\<close>

theorem threat_poll_replaces:
  "(case poll of
      Inl e \<Rightarrow> threat_poll_once now poll c = (Inl e, c)
    | Inr rows \<Rightarrow>
        fst (threat_poll_once now poll c) = Inr (length rows) \<and>
        map_of (ts_entries (snd (threat_poll_once now poll c))) k =
          map_option (\<lambda>row. \<lparr>te_hit = row, te_cached_at = now\<rparr>)
            (find (\<lambda>row. threat_cache_key (th_entity_type row) (th_entity_id row) = k) (rev rows)))"
proof (cases poll)
  case (Inr rows)
  have "map_of (map (\<lambda>row. (threat_cache_key (th_entity_type row) (th_entity_id row),
            \<lparr>te_hit = row, te_cached_at = now\<rparr>)) rs) k =
          map_option (\<lambda>row. \<lparr>te_hit = row, te_cached_at = now\<rparr>)
            (find (\<lambda>row. threat_cache_key (th_entity_type row) (th_entity_id row) = k) rs)" for rs
    by (induction rs) auto
  from this [of "rev rows"] Inr show ?thesis
    by (simp add: threat_poll_once_def threat_replace_all_def hm_get_extend rev_map split: option.splits)
qed (simp add: threat_poll_once_def)

end
