(* ===== verification/Categorization.thy ===== *)
theory Categorization
  imports Prelude
begin

text \<open>
  URL categorisation (\<^verbatim>\<open>proxy/src/categorization.rs\<close>): categories and their names, the chain of parent
  domains, the local blacklist, the custom database, the RKN register, the cache in front of them
  and the answers of online services put into it. Sets of categories are duplicate-free lists.
  \<open>url_host\<close> is the URL parser: \<^const>\<open>None\<close> for an invalid URL, else the host, empty when there is none.
\<close>

section \<open>Definitions\<close>

datatype category =
  Adult | Gambling | Violence | Weapons | Drugs | Hacking | Malware | Phishing | Spyware | Adv
| Redirector | Tracker | News | Education | Finance | Shopping | Social | Entertainment | Sports
| Technology | Business | Government | Health | Custom string | Unknown | Rkn

fun category_debug :: "category \<Rightarrow> string" where
  "category_debug Adult = ''Adult''"
| "category_debug Gambling = ''Gambling''"
| "category_debug Violence = ''Violence''"
| "category_debug Weapons = ''Weapons''"
| "category_debug Drugs = ''Drugs''"
| "category_debug Hacking = ''Hacking''"
| "category_debug Malware = ''Malware''"
| "category_debug Phishing = ''Phishing''"
| "category_debug Spyware = ''Spyware''"
| "category_debug Adv = ''Adv''"
| "category_debug Redirector = ''Redirector''"
| "category_debug Tracker = ''Tracker''"
| "category_debug News = ''News''"
| "category_debug Education = ''Education''"
| "category_debug Finance = ''Finance''"
| "category_debug Shopping = ''Shopping''"
| "category_debug Social = ''Social''"
| "category_debug Entertainment = ''Entertainment''"
| "category_debug Sports = ''Sports''"
| "category_debug Technology = ''Technology''"
| "category_debug Business = ''Business''"
| "category_debug Government = ''Government''"
| "category_debug Health = ''Health''"
| "category_debug (Custom s) = ''Custom('' @ s @ '')''"
| "category_debug Unknown = ''Unknown''"
| "category_debug Rkn = ''Rkn''"

definition acl_name :: "category \<Rightarrow> string" where
  "acl_name c =
     (case c of
        Custom s \<Rightarrow> s
      | Unknown \<Rightarrow> []
      | _ \<Rightarrow> to_lowercase (category_debug c))"

definition category_aliases :: "(string list \<times> category) list" where
  "category_aliases =
    [([''adult'', ''porn''], Adult),
     ([''gambling'', ''gamble''], Gambling),
     ([''violence'', ''aggressive'', ''agressif''], Violence),
     ([''weapons'', ''warez'', ''dangerous_material''], Weapons),
     ([''drugs'', ''alcohol'', ''drogue''], Drugs),
     ([''hacking'', ''hacker'', ''ddos''], Hacking),
     ([''malware'', ''virus'', ''cryptojacking'', ''stalkerware''], Malware),
     ([''phishing'', ''phish''], Phishing),
     ([''spyware'', ''spy''], Spyware),
     ([''adv'', ''advertising'', ''ads'', ''publicite'', ''marketingware''], Adv),
     ([''redirector'', ''redirect'', ''strict_redirector'', ''strong_redirector''], Redirector),
     ([''tracker'', ''tracking''], Tracker),
     ([''news'', ''press''], News),
     ([''education'', ''schools'', ''child'', ''liste_bu''], Education),
     ([''finance'', ''banking'', ''bank'', ''financial''], Finance),
     ([''shopping'', ''shops''], Shopping),
     ([''social'', ''socialnet'', ''social_networks''], Social),
     ([''entertainment'', ''movies'', ''music'', ''games'', ''manga'', ''audio-video''], Entertainment),
     ([''sports''], Sports),
     ([''technology'', ''tech'', ''ai''], Technology),
     ([''business'', ''jobsearch''], Business),
     ([''government'', ''military'', ''arjel''], Government),
     ([''health'', ''medical''], Health)]"

definition category_from_str :: "string \<Rightarrow> category" where
  "category_from_str s =
     (let l = to_lowercase s in
      case find (\<lambda>(names, _). List.member names l) category_aliases of
        Some (_, c) \<Rightarrow> c
      | None \<Rightarrow>
          (if List.member [''vpn'', ''doh'', ''residential-proxies'', ''dynamic-dns'', ''shortener''] l then Custom s
           else if l = ''fakenews'' then Custom ''fakenews''
           else if l = ''rkn'' then Rkn
           else Custom s))"

definition domain_suffixes :: "string \<Rightarrow> string list" where
  "domain_suffixes d =
     (let domain = to_ascii_lowercase (trim d);
          parts = filter (\<lambda>p. p \<noteq> []) (split_char CHR ''.'' domain)
      in if length parts < 2 then [domain]
         else map (\<lambda>n. join ''.'' (drop (length parts - n) parts)) (rev [2..<length parts + 1]))"

type_synonym category_db = "(string, category list) hash_map"

record category_cache =
  cc_categories :: "category list"
  cc_source :: string
  cc_cached_at :: time
  cc_ttl :: duration

definition cc_is_expired :: "time \<Rightarrow> category_cache \<Rightarrow> bool" where
  "cc_is_expired now c \<longleftrightarrow> now - cc_cached_at c > cc_ttl c"

record categorization_config =
  cz_enabled :: bool
  cz_cache_ttl :: duration
  cz_ut1_enabled :: bool
  cz_urlhaus_enabled :: bool
  cz_phishtank_enabled :: bool
  cz_custom_db_enabled :: bool
  cz_rkn_sync_enabled :: bool

record categorization_engine =
  ce_config :: categorization_config
  ce_cache :: "(string, category_cache) hash_map"
  ce_local_db :: "category_db option"
  ce_custom_db :: "category_db option"
  ce_rkn_domains :: "string list"

record categorization_result =
  cr_url :: string
  cr_domain :: string
  cr_categories :: "category list"
  cr_confidence :: real
  cr_source :: string
  cr_cached :: bool

definition create_result ::
  "string \<Rightarrow> string \<Rightarrow> category list \<Rightarrow> string \<Rightarrow> bool \<Rightarrow> categorization_result" where
  "create_result url domain categories source cached =
     \<lparr>cr_url = url, cr_domain = domain, cr_categories = categories,
      cr_confidence = (if categories = [] then 0 else 9 / 10), cr_source = source, cr_cached = cached\<rparr>"

definition online_enrichment_enabled :: "categorization_engine \<Rightarrow> bool" where
  "online_enrichment_enabled e \<longleftrightarrow> cz_urlhaus_enabled (ce_config e) \<or> cz_phishtank_enabled (ce_config e)"

definition get_cached :: "time \<Rightarrow> string \<Rightarrow> categorization_engine \<Rightarrow> category_cache option" where
  "get_cached now domain e =
     (case map_of (ce_cache e) domain of
        None \<Rightarrow> None
      | Some c \<Rightarrow> (if cc_is_expired now c then None else Some c))"

definition cache_categories ::
  "time \<Rightarrow> string \<Rightarrow> category list \<Rightarrow> string \<Rightarrow> categorization_engine \<Rightarrow> categorization_engine" where
  "cache_categories now domain categories source e =
     e\<lparr>ce_cache :=
         AList.update domain
           \<lparr>cc_categories = categories, cc_source = source, cc_cached_at = now,
            cc_ttl = cz_cache_ttl (ce_config e)\<rparr> (ce_cache e)\<rparr>"

fun first_known :: "category_db \<Rightarrow> string list \<Rightarrow> category list option" where
  "first_known db [] = None"
| "first_known db (s # ss) = (case map_of db s of Some cats \<Rightarrow> Some cats | None \<Rightarrow> first_known db ss)"

definition check_local_db :: "string \<Rightarrow> categorization_engine \<Rightarrow> category list option" where
  "check_local_db domain e =
     (case ce_local_db e of None \<Rightarrow> None | Some db \<Rightarrow> first_known db (domain_suffixes domain))"

definition check_custom_db :: "string \<Rightarrow> categorization_engine \<Rightarrow> category list option" where
  "check_custom_db domain e = (case ce_custom_db e of None \<Rightarrow> None | Some db \<Rightarrow> map_of db domain)"

definition add_source :: "string \<Rightarrow> string \<Rightarrow> string" where
  "add_source name source = (if source = ''unknown'' then name else ''multiple'')"

text \<open>The categories of a domain by the databases, with the name of their source.\<close>

definition local_categories :: "string \<Rightarrow> categorization_engine \<Rightarrow> category list \<times> string" where
  "local_categories domain e =
     (let (cats, source) =
            (case (if cz_ut1_enabled (ce_config e) then check_local_db domain e else None) of
               None \<Rightarrow> ([], ''unknown'')
             | Some cs \<Rightarrow> (List.union cs [], ''ut1''));
          (cats, source) =
            (case (if cz_custom_db_enabled (ce_config e) then check_custom_db domain e else None) of
               None \<Rightarrow> (cats, source)
             | Some cs \<Rightarrow> (List.union cs cats, add_source ''custom'' source))
      in (if cz_rkn_sync_enabled (ce_config e) \<and>
             list_ex (\<lambda>d. List.member (ce_rkn_domains e) d) (domain_suffixes domain)
          then (List.insert Rkn cats, add_source ''rkn'' source)
          else (cats, source)))"

definition categorize_local ::
  "(string \<Rightarrow> string option) \<Rightarrow> time \<Rightarrow> string \<Rightarrow> categorization_engine \<Rightarrow>
   categorization_result \<times> categorization_engine" where
  "categorize_local url_host now url e =
     (case url_host url of
        None \<Rightarrow> (create_result url url [] ''error'' False, e)
      | Some domain \<Rightarrow>
          (case get_cached now domain e of
             Some cached \<Rightarrow> (create_result url domain (cc_categories cached) (cc_source cached) True, e)
           | None \<Rightarrow>
               (let (categories, source) = local_categories domain e
                in (create_result url domain categories source False,
                    (if categories \<noteq> [] then cache_categories now domain categories source e else e)))))"

text \<open>\<open>urlhaus\<close> and \<open>phishtank\<close> are the services' answers for a URL.\<close>

definition enrich_online ::
  "(string \<Rightarrow> string option) \<Rightarrow> (string \<Rightarrow> category list option) \<Rightarrow> (string \<Rightarrow> category list option) \<Rightarrow>
   time \<Rightarrow> string \<Rightarrow> categorization_engine \<Rightarrow> categorization_engine" where
  "enrich_online url_host urlhaus phishtank now url e =
     (case url_host url of
        None \<Rightarrow> e
      | Some domain \<Rightarrow>
          (if (case get_cached now domain e of Some c \<Rightarrow> cc_categories c \<noteq> [] | None \<Rightarrow> False) then e
           else
             (let (cats, source) =
                    (case (if cz_urlhaus_enabled (ce_config e) then urlhaus url else None) of
                       None \<Rightarrow> ([], ''unknown'')
                     | Some cs \<Rightarrow> (List.union cs [], ''urlhaus''));
                  (cats, source) =
                    (case (if cz_phishtank_enabled (ce_config e) then phishtank url else None) of
                       None \<Rightarrow> (cats, source)
                     | Some cs \<Rightarrow> (List.union cs cats, add_source ''phishtank'' source))
              in if cats = [] then e else cache_categories now domain cats source e)))"

definition cleanup_cache :: "time \<Rightarrow> categorization_engine \<Rightarrow> categorization_engine" where
  "cleanup_cache now e = e\<lparr>ce_cache := filter (\<lambda>(_, c). \<not> cc_is_expired now c) (ce_cache e)\<rparr>"

text \<open>One line of the register: the second field, without a leading wildcard.\<close>

definition rkn_line :: "string \<Rightarrow> string option" where
  "rkn_line line =
     (case split_char CHR '';'' line of
        _ # domain # _ \<Rightarrow>
          (let d = to_ascii_lowercase (trim domain);
               d = (if starts_with d ''*.'' then drop 2 d else d)
           in if d \<noteq> [] \<and> d \<noteq> ''domain'' then Some d else None)
      | _ \<Rightarrow> None)"

definition rkn_sync :: "string \<Rightarrow> categorization_engine \<Rightarrow> categorization_engine" where
  "rkn_sync decoded e = e\<lparr>ce_rkn_domains := remdups (List.map_filter rkn_line (lines decoded))\<rparr>"

text \<open>One file of the blacklist: its category, and its lines.\<close>

definition load_ut1_line :: "category \<Rightarrow> string \<Rightarrow> category_db \<Rightarrow> category_db" where
  "load_ut1_line c line db =
     (let domain = to_ascii_lowercase (trim line) in
      if domain = [] \<or> starts_with domain ''#'' then db
      else AList.update domain
             (List.insert c (case map_of db domain of None \<Rightarrow> [] | Some cs \<Rightarrow> cs)) db)"

definition load_ut1_blacklists ::
  "(string \<times> string) list \<Rightarrow> categorization_engine \<Rightarrow> (string + nat) \<times> categorization_engine" where
  "load_ut1_blacklists files e =
     (let db = fold (\<lambda>(name, content). fold (load_ut1_line (category_from_str name)) (lines content)) files []
      in if db = [] then (Inl ''No UT1 categories loaded'', e)
         else (Inr (length db), e\<lparr>ce_local_db := Some db\<rparr>))"

definition load_custom_db ::
  "(string \<times> string list) list \<Rightarrow> categorization_engine \<Rightarrow> nat \<times> categorization_engine" where
  "load_custom_db data e =
     (let db = fold (\<lambda>(domain, cats). AList.update domain (remdups (map category_from_str cats))) data []
      in (length db, e\<lparr>ce_custom_db := Some db\<rparr>))"

definition phishtank_form_fields :: "string \<Rightarrow> string option \<Rightarrow> (string \<times> string) list" where
  "phishtank_form_fields url api_key =
     [(''url'', url), (''format'', ''json'')] @
     (case api_key of Some (c # cs) \<Rightarrow> [(''app_key'', c # cs)] | _ \<Rightarrow> [])"

subsection \<open>Specification\<close>

text \<open>A domain name in normal form: lower case labels, none empty.\<close>

definition normal_domain :: "string \<Rightarrow> bool" where
  "normal_domain d \<longleftrightarrow>
     to_ascii_lowercase (trim d) = d \<and> list_all (\<lambda>p. p \<noteq> []) (split_char CHR ''.'' d) \<and>
     length (split_char CHR ''.'' d) \<ge> 2"

text \<open>\<open>d\<close> is \<open>p\<close> or a subdomain of it, and \<open>p\<close> has at least two labels.\<close>

definition parent_domain :: "string \<Rightarrow> string \<Rightarrow> bool" where
  "parent_domain p d \<longleftrightarrow> (d = p \<or> ends_with d (CHR ''.'' # p)) \<and> CHR ''.'' \<in> set p"

section \<open>Lemmas\<close>

lemma split_char_length: "length (split_char c s) \<ge> 2 \<longleftrightarrow> c \<in> set s"
proof (induction s)
  case (Cons x s)
  have "split_char c s \<noteq> []" by simp
  with Cons show ?case by (cases "split_char c s") (auto simp: Suc_le_eq)
qed simp

lemma suffixes_are_parents:
  assumes "normal_domain d"
  shows "set (domain_suffixes d) = {p. parent_domain p d}"
proof -
  let ?ps = "split_char CHR ''.'' d"
  have d: "to_ascii_lowercase (trim d) = d" "filter (\<lambda>p. p \<noteq> []) ?ps = ?ps" "2 \<le> length ?ps"
    using assms by (auto simp: normal_domain_def list_all_iff intro: filter_True)
  have pieces: "\<And>w. w \<in> set ?ps \<Longrightarrow> CHR ''.'' \<notin> set w" by (rule split_char_pieces)
  have set_eq: "set (domain_suffixes d) = {join ''.'' (drop k ?ps) |k. k + 2 \<le> length ?ps}"
  proof -
    have "set (domain_suffixes d) = (\<lambda>n. join ''.'' (drop (length ?ps - n) ?ps)) ` {2..length ?ps}"
      using d by (simp add: domain_suffixes_def Let_def atLeastLessThanSuc_atLeastAtMost del: upt_Suc)
    also have "\<dots> = {join ''.'' (drop k ?ps) |k. k + 2 \<le> length ?ps}"
    proof (intro set_eqI iffI; clarsimp)
      fix n assume "2 \<le> n" "n \<le> length ?ps"
      then show "\<exists>k. join ''.'' (drop (length ?ps - n) ?ps) = join ''.'' (drop k ?ps) \<and> Suc (Suc k) \<le> length ?ps"
        by (intro exI [of _ "length ?ps - n"]) auto
    next
      fix k assume "Suc (Suc k) \<le> length ?ps"
      then show "join ''.'' (drop k ?ps) \<in> (\<lambda>n. join ''.'' (drop (length ?ps - n) ?ps)) ` {2..length ?ps}"
        by (intro image_eqI [of _ _ "length ?ps - k"]) auto
    qed
    finally show ?thesis .
  qed
  have up: "parent_domain (join ''.'' (drop k ?ps)) d" if k: "k + 2 \<le> length ?ps" for k
  proof -
    have "split_char CHR ''.'' (join ''.'' (drop k ?ps)) = drop k ?ps"
      using k pieces by (intro split_char_join) (auto dest!: in_set_dropD)
    then have "CHR ''.'' \<in> set (join ''.'' (drop k ?ps))" using k split_char_length [of "CHR ''.''"] by fastforce
    moreover have "d = join ''.'' ?ps" by (simp add: join_split_char)
    moreover have "join ''.'' ?ps = join ''.'' (take k ?ps) @ CHR ''.'' # join ''.'' (drop k ?ps)" if "0 < k"
      using join_append [of "take k ?ps" "drop k ?ps" "CHR ''.''"] k that by simp
    ultimately show ?thesis by (cases "k = 0") (auto simp: parent_domain_def ends_with_def suffix_def join_split_char)
  qed
  have down: "\<exists>k. p = join ''.'' (drop k ?ps) \<and> k + 2 \<le> length ?ps" if p: "parent_domain p d" for p
  proof (cases "d = p")
    case True
    then show ?thesis using d(3) by (intro exI [of _ 0]) (simp add: join_split_char)
  next
    case False
    then obtain x where "d = x @ CHR ''.'' # p" using p by (auto simp: parent_domain_def ends_with_def suffix_def)
    then have ps: "?ps = split_char CHR ''.'' x @ split_char CHR ''.'' p" by (simp add: split_char_append)
    moreover have "2 \<le> length (split_char CHR ''.'' p)" using p by (simp add: split_char_length parent_domain_def)
    ultimately show ?thesis
      by (intro exI [of _ "length (split_char CHR ''.'' x)"]) (simp add: join_split_char)
  qed
  show ?thesis using set_eq up down by auto
qed

lemma first_known_cases:
  "first_known db ss = None \<longleftrightarrow> (\<forall>s \<in> set ss. map_of db s = None)"
  "first_known db ss = Some cs \<Longrightarrow>
     \<exists>pre s post. ss = pre @ s # post \<and> map_of db s = Some cs \<and> (\<forall>t \<in> set pre. map_of db t = None)"
proof -
  show "first_known db ss = None \<longleftrightarrow> (\<forall>s \<in> set ss. map_of db s = None)"
    by (induction ss) (auto split: option.splits)
  show "first_known db ss = Some cs \<Longrightarrow>
     \<exists>pre s post. ss = pre @ s # post \<and> map_of db s = Some cs \<and> (\<forall>t \<in> set pre. map_of db t = None)"
  proof (induction ss)
    case (Cons s ss)
    show ?case
    proof (cases "map_of db s")
      case None
      with Cons obtain pre t post where "ss = pre @ t # post" "map_of db t = Some cs" "\<forall>t \<in> set pre. map_of db t = None"
        by auto
      with None show ?thesis by (intro exI [of _ "s # pre"]) auto
    next
      case (Some a)
      with Cons.prems show ?thesis by (intro exI [of _ "[] :: string list"] exI [of _ s] exI [of _ ss]) auto
    qed
  qed simp
qed

lemma length_join_drop:
  "k \<le> k' \<Longrightarrow> length (join ''.'' (drop k' ps)) \<le> length (join ''.'' (drop k ps))"
proof (induction k' rule: dec_induct)
  case (step n)
  have "length (join ''.'' (drop (Suc n) ps)) \<le> length (join ''.'' (drop n ps))"
  proof (cases "n < length ps")
    case True
    then have "drop n ps = ps ! n # drop (Suc n) ps" by (rule Cons_nth_drop_Suc [symmetric])
    then show ?thesis by (cases "drop (Suc n) ps") auto
  qed simp
  with step show ?case by simp
qed simp

lemma suffixes_decreasing:
  "sorted_wrt (\<lambda>a b. length b \<le> length a) (domain_suffixes d)"
proof -
  have "sorted_wrt (\<lambda>a b. length (b :: string) \<le> length a)
      (map (\<lambda>n. join ''.'' (drop (length ps - n) ps)) (rev [2..<length ps + 1]))" for ps :: "string list"
    unfolding sorted_wrt_map sorted_wrt_rev
    by (rule sorted_wrt_mono_rel [of _ "(\<le>)"]) (auto intro!: length_join_drop simp del: upt_Suc)
  then show ?thesis by (simp add: domain_suffixes_def Let_def del: upt_Suc)
qed

lemma get_cached_cache [simp]:
  "get_cached t d (cache_categories now d cats src e) =
     (if t - now > cz_cache_ttl (ce_config e) then None
      else Some \<lparr>cc_categories = cats, cc_source = src, cc_cached_at = now, cc_ttl = cz_cache_ttl (ce_config e)\<rparr>)"
  by (simp add: get_cached_def cache_categories_def cc_is_expired_def)

section \<open>Properties\<close>

text \<open>The local blacklist covers a domain exactly when the domain or a parent of it with at least
  two labels is listed; parents are found at label boundaries only, and the longest listed one
  gives the categories.\<close>

theorem check_local_db_parents:
  assumes "normal_domain d" "ce_local_db e = Some db"
  shows "case check_local_db d e of
      None \<Rightarrow> \<forall>p. parent_domain p d \<longrightarrow> map_of db p = None
    | Some cats \<Rightarrow> \<exists>p. parent_domain p d \<and> map_of db p = Some cats \<and>
        (\<forall>q. parent_domain q d \<and> length p < length q \<longrightarrow> map_of db q = None)"
proof (cases "first_known db (domain_suffixes d)")
  case None
  then have "\<forall>p. parent_domain p d \<longrightarrow> map_of db p = None"
    using suffixes_are_parents [OF assms(1)] by (simp add: first_known_cases(1))
  with None show ?thesis using assms(2) by (simp add: check_local_db_def)
next
  case (Some cats)
  then obtain pre s post where s: "domain_suffixes d = pre @ s # post" "map_of db s = Some cats"
    "\<forall>t \<in> set pre. map_of db t = None"
    using first_known_cases(2) by blast
  have "map_of db q = None" if "parent_domain q d" "length s < length q" for q
  proof -
    have "q \<in> set (pre @ s # post)" using that(1) suffixes_are_parents [OF assms(1)] s(1) by auto
    moreover have "\<forall>t \<in> set post. length t \<le> length s"
      using suffixes_decreasing [of d] s(1) by (simp add: sorted_wrt_append)
    ultimately show ?thesis using that(2) s(3) by auto
  qed
  moreover have "parent_domain s d" using suffixes_are_parents [OF assms(1)] s(1) by auto
  ultimately show ?thesis using assms(2) Some s(2) by (auto simp: check_local_db_def)
qed

text \<open>The cache in front of the databases is transparent while an entry lives: a lookup that found
  categories is repeated by any later lookup of the same host within the time to live, with the
  same categories and source, marked as cached.\<close>

theorem categorize_local_repeats:
  assumes "url_host url = Some d" "url_host url' = Some d"
    and "categorize_local url_host now url e = (res, e')" "cr_categories res \<noteq> []" "\<not> cr_cached res"
    and "t - now \<le> cz_cache_ttl (ce_config e)"
  shows "fst (categorize_local url_host t url' e') =
    \<lparr>cr_url = url', cr_domain = d, cr_categories = cr_categories res, cr_confidence = 9 / 10,
     cr_source = cr_source res, cr_cached = True\<rparr>"
proof -
  have "get_cached now d e = None"
    using assms(1,3,5) by (auto simp: categorize_local_def create_result_def split: option.splits)
  then obtain cats src where "local_categories d e = (cats, src)"
    "res = create_result url d cats src False"
    "e' = (if cats \<noteq> [] then cache_categories now d cats src e else e)"
    using assms(1,3) by (auto simp: categorize_local_def split: prod.splits)
  then show ?thesis using assms(2,4,6) by (auto simp: categorize_local_def create_result_def)
qed

text \<open>Every category but the unknown one is read back from its ACL name, so a rule on a category name
  and a blacklist directory of that name mean the same category; custom
  categories, which keep the text they were read from, are left out.\<close>

theorem category_names_round_trip:
  "(\<exists>s. c = Custom s) \<or> c = Unknown \<or> category_from_str (acl_name c) = c"
  by (cases c) (simp_all add: acl_name_def, code_simp+)

section \<open>Witnesses\<close>

definition demo_engine_cz :: categorization_engine where
  "demo_engine_cz =
     \<lparr>ce_config = \<lparr>cz_enabled = True, cz_cache_ttl = 3600, cz_ut1_enabled = True, cz_urlhaus_enabled = False,
        cz_phishtank_enabled = False, cz_custom_db_enabled = False, cz_rkn_sync_enabled = False\<rparr>,
      ce_cache = [], ce_local_db = Some [(''example.com'', [Adult])], ce_custom_db = None,
      ce_rkn_domains = []\<rparr>"

theorem check_local_db_parents_witness:
  "\<exists>p. parent_domain p ''www.example.com'' \<and> map_of [(''example.com'', [Adult])] p = Some [Adult]"
proof -
  have n: "normal_domain ''www.example.com''" by code_simp
  have c: "check_local_db ''www.example.com'' demo_engine_cz = Some [Adult]" by code_simp
  show ?thesis
    using check_local_db_parents [OF n, of demo_engine_cz "[(''example.com'', [Adult])]"]
    unfolding c by (auto simp: demo_engine_cz_def split: if_splits)
qed

theorem categorize_local_repeats_witness:
  "cr_cached (fst (categorize_local (\<lambda>u. Some ''example.com'') 10 ''http://example.com/b''
      (snd (categorize_local (\<lambda>u. Some ''example.com'') 0 ''http://example.com/a'' demo_engine_cz))))"
  using categorize_local_repeats [of "\<lambda>u. Some ''example.com''" "''http://example.com/a''" "''example.com''"
      "''http://example.com/b''" 0 demo_engine_cz
      "fst (categorize_local (\<lambda>u. Some ''example.com'') 0 ''http://example.com/a'' demo_engine_cz)"
      "snd (categorize_local (\<lambda>u. Some ''example.com'') 0 ''http://example.com/a'' demo_engine_cz)" 10]
  by code_simp

end
