(* ===== verification/Pinning.thy ===== *)
theory Pinning
  imports Prelude
begin

text \<open>
  Certificate-pinning exceptions (\<^verbatim>\<open>proxy/src/pinning.rs\<close>): validation, matching and the audited reload.
  The parsed file is an input of a reload, as is the fault of the audit log, if any: the number of
  records written before the error. The log is the list of its records.
\<close>

section \<open>Definitions\<close>

definition default_exceptions :: string where
  "default_exceptions = ''.slack.com,.teams.microsoft.com,.zoom.us''"

definition max_exceptions :: nat where "max_exceptions = 10000"

record pinning_exception =
  pe_domain :: string
  pe_reason :: string
  pe_owner :: string
  pe_ticket :: "string option"
  pe_expires_at_unix :: "nat option"

definition active_at :: "nat \<Rightarrow> pinning_exception \<Rightarrow> bool" where
  "active_at now e \<longleftrightarrow> (case pe_expires_at_unix e of None \<Rightarrow> True | Some expires \<Rightarrow> expires > now)"

definition label_ok :: "string \<Rightarrow> bool" where
  "label_ok label \<longleftrightarrow>
     label \<noteq> [] \<and> length label \<le> 63 \<and> \<not> starts_with label ''-'' \<and> \<not> ends_with label ''-'' \<and>
     list_all (\<lambda>c. is_ascii_alphanumeric c \<or> c = CHR ''-'') label"

definition normalize_domain :: "string \<Rightarrow> string + string" where
  "normalize_domain v =
     (let value = to_ascii_lowercase (trim_end_matches CHR ''.'' (trim v));
          body = (case strip_prefix value ''.'' of Some b \<Rightarrow> b | None \<Rightarrow> value);
          bad = Inl (''invalid pinning exception domain: '' @ value)
      in if body = [] \<or> length body > 253 \<or> CHR ''.'' \<notin> set body then bad
         else if CHR ''/'' \<in> set value \<or> CHR '':'' \<in> set value \<or> CHR ''*'' \<in> set value \<or> \<not> list_all is_ascii value then bad
         else if list_ex (\<lambda>l. \<not> label_ok l) (split_char CHR ''.'' body) then bad
         else Inr value)"

text \<open>Control characters in UTF-8: the ASCII ones, and U+0080 to U+009F, which take two bytes.\<close>

fun has_control :: "string \<Rightarrow> bool" where
  "has_control [] \<longleftrightarrow> False"
| "has_control (c # cs) \<longleftrightarrow>
     (of_char c :: nat) < 32 \<or> (of_char c :: nat) = 127 \<or>
     ((of_char c :: nat) = 194 \<and> (case cs of d # _ \<Rightarrow> 128 \<le> (of_char d :: nat) \<and> (of_char d :: nat) < 160 | [] \<Rightarrow> False)) \<or>
     has_control cs"

definition validate_audit_text :: "string \<Rightarrow> string \<Rightarrow> nat \<Rightarrow> string option" where
  "validate_audit_text field value mx =
     (if trim value = [] \<or> length value > mx \<or> has_control value
      then Some (field @ '' must be 1..='' @ show_nat mx @ '' printable characters'') else None)"

fun validate_loop :: "pinning_exception list \<Rightarrow> string list \<Rightarrow> string + pinning_exception list" where
  "validate_loop [] seen = Inr []"
| "validate_loop (e # es) seen =
     (case normalize_domain (pe_domain e) of
        Inl err \<Rightarrow> Inl err
      | Inr d \<Rightarrow>
          (case validate_audit_text ''exception reason'' (pe_reason e) 512 of
             Some err \<Rightarrow> Inl err
           | None \<Rightarrow>
               (case validate_audit_text ''exception owner'' (pe_owner e) 128 of
                  Some err \<Rightarrow> Inl err
                | None \<Rightarrow>
                    (case (case pe_ticket e of
                             None \<Rightarrow> None
                           | Some ticket \<Rightarrow> validate_audit_text ''exception ticket'' ticket 128) of
                       Some err \<Rightarrow> Inl err
                     | None \<Rightarrow>
                         (if List.member seen d then Inl (''duplicate pinning exception: '' @ d)
                          else
                            (case validate_loop es (d # seen) of
                               Inl err \<Rightarrow> Inl err
                             | Inr rest \<Rightarrow> Inr (e\<lparr>pe_domain := d\<rparr> # rest)))))))"

definition validate_entries :: "pinning_exception list \<Rightarrow> string + pinning_exception list" where
  "validate_entries entries =
     (if length entries > max_exceptions then Inl ''too many pinning exceptions (max 10000)''
      else
        (case validate_loop entries [] of
           Inl err \<Rightarrow> Inl err
         | Inr es \<Rightarrow> Inr (sort_key pe_domain es)))"

definition parse_legacy_env :: "string \<Rightarrow> string + pinning_exception list" where
  "parse_legacy_env value =
     validate_entries
       (map (\<lambda>d. \<lparr>pe_domain = d, pe_reason = ''legacy PINNING_EXCEPTIONS configuration'', pe_owner = ''operator'',
                  pe_ticket = None, pe_expires_at_unix = None\<rparr>)
          (filter (\<lambda>d. d \<noteq> []) (map trim (split_char CHR '','' value))))"

text \<open>The contents of the file as parsed, its version and entries, or the error.\<close>

definition load_file :: "string + (nat \<times> pinning_exception list) \<Rightarrow> string + pinning_exception list" where
  "load_file parsed =
     (case parsed of
        Inl err \<Rightarrow> Inl err
      | Inr (version, exceptions) \<Rightarrow>
          (if version \<noteq> 1 then Inl (''unsupported pinning exception file version '' @ show_nat version)
           else validate_entries exceptions))"

record pinning_registry =
  pg_entries :: "pinning_exception list"
  pg_source_path :: "string option"
  pg_audit_path :: "string option"

definition pinning_from_env ::
  "(string \<Rightarrow> string option) \<Rightarrow> (string \<Rightarrow> string + (nat \<times> pinning_exception list)) \<Rightarrow> string + pinning_registry" where
  "pinning_from_env env read_file =
     (case (case env ''PINNING_EXCEPTIONS_PATH'' of
              Some p \<Rightarrow> (if trim p \<noteq> [] then Some p else None) | None \<Rightarrow> None) of
        Some path \<Rightarrow>
          (case load_file (read_file path) of
             Inl err \<Rightarrow> Inl err
           | Inr entries \<Rightarrow>
               (let audit_path =
                      (case (case env ''PINNING_AUDIT_LOG_PATH'' of
                               Some p \<Rightarrow> (if trim p \<noteq> [] then Some p else None) | None \<Rightarrow> None) of
                         Some p \<Rightarrow> p
                       | None \<Rightarrow> path @ ''.audit.jsonl'')
                in Inr \<lparr>pg_entries = entries, pg_source_path = Some path, pg_audit_path = Some audit_path\<rparr>))
      | None \<Rightarrow>
          (case parse_legacy_env (env_or env ''PINNING_EXCEPTIONS'' default_exceptions) of
             Inl err \<Rightarrow> Inl err
           | Inr entries \<Rightarrow> Inr \<lparr>pg_entries = entries, pg_source_path = None, pg_audit_path = None\<rparr>))"

definition trim_start_dots :: "string \<Rightarrow> string" where
  "trim_start_dots s = dropWhile (\<lambda>c. c = CHR ''.'') s"

definition entry_matches :: "nat \<Rightarrow> string \<Rightarrow> pinning_exception \<Rightarrow> bool" where
  "entry_matches now domain e \<longleftrightarrow>
     active_at now e \<and>
     (if starts_with (pe_domain e) ''.''
      then domain = trim_start_dots (pe_domain e) \<or> ends_with domain (pe_domain e)
      else domain = pe_domain e)"

definition pinning_matches :: "nat \<Rightarrow> string \<Rightarrow> pinning_registry \<Rightarrow> bool" where
  "pinning_matches now d r =
     (case normalize_domain d of
        Inl _ \<Rightarrow> False
      | Inr domain \<Rightarrow> list_ex (entry_matches now domain) (pg_entries r))"

definition active_domains :: "nat \<Rightarrow> pinning_registry \<Rightarrow> string list" where
  "active_domains now r = map pe_domain (filter (active_at now) (pg_entries r))"

record audit_record =
  ar_timestamp_unix :: nat
  ar_actor :: string
  ar_change_reason :: string
  ar_action :: string
  ar_domain :: string
  ar_exception :: pinning_exception
  ar_source_path :: string

record pinning_report =
  pn_source :: string
  pn_active :: nat
  pn_total :: nat
  pn_added :: "string list"
  pn_removed :: "string list"
  pn_updated :: "string list"
  pn_audited_at :: string

definition by_domain :: "pinning_exception list \<Rightarrow> string \<Rightarrow> pinning_exception option" where
  "by_domain es d = find (\<lambda>e. pe_domain e = d) (rev es)"

definition domains_of :: "pinning_exception list \<Rightarrow> string list" where
  "domains_of es = sort (remdups (map pe_domain es))"

definition audit_records ::
  "nat \<Rightarrow> string \<Rightarrow> string \<Rightarrow> string \<Rightarrow> string \<Rightarrow> string list \<Rightarrow> pinning_exception list \<Rightarrow> audit_record list" where
  "audit_records now source actor reason action domains es =
     List.map_filter (\<lambda>d.
       case by_domain es d of
         None \<Rightarrow> None
       | Some e \<Rightarrow>
           Some \<lparr>ar_timestamp_unix = now, ar_actor = actor, ar_change_reason = reason, ar_action = action,
                 ar_domain = d, ar_exception = e, ar_source_path = source\<rparr>) domains"

text \<open>Appending to the log: the log afterwards and the error, if any.\<close>

definition append_audit ::
  "(nat \<times> string) option \<Rightarrow> audit_record list \<Rightarrow> audit_record list \<Rightarrow> audit_record list \<times> string option" where
  "append_audit fault records trail =
     (if records = [] then (trail, None)
      else
        (case fault of
           None \<Rightarrow> (trail @ records, None)
         | Some (n, err) \<Rightarrow> (trail @ take n records, Some err)))"

definition reload ::
  "nat \<Rightarrow> string + (nat \<times> pinning_exception list) \<Rightarrow> (nat \<times> string) option \<Rightarrow> string \<Rightarrow> string \<Rightarrow>
   pinning_registry \<times> audit_record list \<Rightarrow> (string + pinning_report) \<times> pinning_registry \<times> audit_record list" where
  "reload now parsed fault actor change_reason s =
     (case s of (r, trail) \<Rightarrow>
       (case validate_audit_text ''actor'' actor 128 of
          Some err \<Rightarrow> (Inl err, s)
        | None \<Rightarrow>
            (case validate_audit_text ''reason'' change_reason 512 of
               Some err \<Rightarrow> (Inl err, s)
             | None \<Rightarrow>
                 (case pg_source_path r of
                    None \<Rightarrow> (Inl ''PINNING_EXCEPTIONS_PATH is not configured'', s)
                  | Some source \<Rightarrow>
                      (case pg_audit_path r of
                         None \<Rightarrow> (Inl ''PINNING_AUDIT_LOG_PATH is not configured'', s)
                       | Some audit_path \<Rightarrow>
                           (case load_file parsed of
                              Inl err \<Rightarrow> (Inl err, s)
                            | Inr nxt \<Rightarrow>
                                (let old = domains_of (pg_entries r);
                                     new = domains_of nxt;
                                     added = filter (\<lambda>d. \<not> List.member old d) new;
                                     removed = filter (\<lambda>d. \<not> List.member new d) old;
                                     updated = filter (\<lambda>d. List.member new d \<and>
                                                 by_domain (pg_entries r) d \<noteq> by_domain nxt d) old;
                                     records =
                                       audit_records now source actor change_reason ''added'' added nxt @
                                       audit_records now source actor change_reason ''removed'' removed (pg_entries r) @
                                       audit_records now source actor change_reason ''updated'' updated nxt
                                 in case append_audit fault records trail of
                                      (trail', Some err) \<Rightarrow> (Inl err, r, trail')
                                    | (trail', None) \<Rightarrow>
                                        (Inr \<lparr>pn_source = source, pn_active = length (filter (active_at now) nxt),
                                              pn_total = length nxt, pn_added = added, pn_removed = removed,
                                              pn_updated = updated, pn_audited_at = audit_path\<rparr>,
                                         r\<lparr>pg_entries := nxt\<rparr>, trail'))))))))"

subsection \<open>Specification\<close>

definition entries_ok :: "pinning_exception list \<Rightarrow> bool" where
  "entries_ok es \<longleftrightarrow>
     sorted (map pe_domain es) \<and> distinct (map pe_domain es) \<and>
     list_all (\<lambda>e. normalize_domain (pe_domain e) = Inr (pe_domain e)) es"

definition change_action :: "pinning_exception option \<Rightarrow> pinning_exception option \<Rightarrow> (string \<times> pinning_exception) option" where
  "change_action old new =
     (case (old, new) of
        (None, Some e) \<Rightarrow> Some (''added'', e)
      | (Some e, None) \<Rightarrow> Some (''removed'', e)
      | (Some e, Some e') \<Rightarrow> (if e = e' then None else Some (''updated'', e'))
      | (None, None) \<Rightarrow> None)"

section \<open>Lemmas\<close>

definition host_char :: "char \<Rightarrow> bool" where
  "host_char c \<longleftrightarrow> is_ascii_alphanumeric c \<or> c = CHR ''-'' \<or> c = CHR ''.''"

lemma host_char_not_white: "host_char c \<Longrightarrow> c \<notin> set (concat white_space)"
  by (auto simp: host_char_def white_space_def is_ascii_alphanumeric_def)

lemma host_char_plain:
  "\<not> host_char CHR ''/''" "\<not> host_char CHR '':''" "\<not> host_char CHR ''*''" "host_char c \<Longrightarrow> is_ascii c"
  by (auto simp: host_char_def is_ascii_alphanumeric_def is_ascii_def Let_def)

lemma set_join: "set (join sep ws) \<subseteq> set sep \<union> \<Union> (set ` set ws)"
  by (induction sep ws rule: join.induct) auto

lemma labels_host: "list_all label_ok (split_char CHR ''.'' b) \<Longrightarrow> c \<in> set b \<Longrightarrow> host_char c"
proof -
  assume ok: "list_all label_ok (split_char CHR ''.'' b)" and "c \<in> set b"
  then have "c \<in> set (join ''.'' (split_char CHR ''.'' b))" by (simp add: join_split_char)
  then have "c = CHR ''.'' \<or> (\<exists>w \<in> set (split_char CHR ''.'' b). c \<in> set w)"
    using set_join [of "''.''" "split_char CHR ''.'' b"] by auto
  with ok show ?thesis by (auto simp: host_char_def label_ok_def list_all_iff)
qed

lemma last_split_char: "last (split_char c (s @ [c])) = []"
  using split_char_append [of c s "[]"] by simp

lemma labels_last: "list_all label_ok (split_char CHR ''.'' b) \<Longrightarrow> b \<noteq> [] \<and> last b \<noteq> CHR ''.''"
proof (cases b rule: rev_cases)
  case (snoc s c)
  assume ok: "list_all label_ok (split_char CHR ''.'' b)"
  have "c \<noteq> CHR ''.''"
  proof
    assume "c = CHR ''.''"
    then have "[] \<in> set (split_char CHR ''.'' b)"
      using last_split_char [of "CHR ''.''" s] snoc last_in_set [of "split_char CHR ''.'' b"] by simp
    with ok show False by (auto simp: list_all_iff label_ok_def)
  qed
  with snoc show ?thesis by simp
qed (simp add: label_ok_def)

lemma labels_first: "list_all label_ok (split_char CHR ''.'' (c # b)) \<Longrightarrow> c \<noteq> CHR ''.''"
  by (auto simp: label_ok_def)

text \<open>What a normalised domain looks like: an optional leading dot and labels.\<close>

lemma normalize_domain_shape:
  assumes "normalize_domain v = Inr d"
  obtains b where "d = b \<or> d = CHR ''.'' # b" "list_all label_ok (split_char CHR ''.'' b)"
    "length b \<le> 253" "CHR ''.'' \<in> set b" "to_ascii_lowercase d = d"
proof -
  let ?b = "case strip_prefix d ''.'' of Some b \<Rightarrow> b | None \<Rightarrow> d"
  have d: "d = to_ascii_lowercase (trim_end_matches CHR ''.'' (trim v))"
    using assms by (simp add: normalize_domain_def Let_def split: if_splits)
  have "list_all label_ok (split_char CHR ''.'' ?b)" "length ?b \<le> 253" "CHR ''.'' \<in> set ?b"
    using assms unfolding normalize_domain_def Let_def d [symmetric]
    by (auto simp: list_all_iff list_ex_iff split: if_splits)
  moreover have "d = ?b \<or> d = CHR ''.'' # ?b"
    by (auto simp: strip_prefix_def split: option.splits if_splits elim!: prefixE)
  moreover have "to_ascii_lowercase d = d" unfolding d by simp
  ultimately show thesis using that by blast
qed

lemma normalize_shape_id:
  assumes "d = b \<or> d = CHR ''.'' # b" "list_all label_ok (split_char CHR ''.'' b)"
    "length b \<le> 253" "CHR ''.'' \<in> set b" "to_ascii_lowercase d = d"
  shows "normalize_domain d = Inr d"
proof -
  have host: "host_char c" if "c \<in> set d" for c
    using assms(1) that labels_host [OF assms(2), of c] by (auto simp: host_char_def [of "CHR ''.''"])
  then have "trim d = d" using host_char_not_white by (intro trim_id) auto
  moreover have "trim_end_matches CHR ''.'' d = d"
  proof -
    have "d \<noteq> []" "last d \<noteq> CHR ''.''" using labels_last [OF assms(2)] assms(1) by auto
    then show ?thesis by (cases d rule: rev_cases) (auto simp: trim_end_matches_def)
  qed
  moreover have "(case strip_prefix d ''.'' of Some b \<Rightarrow> b | None \<Rightarrow> d) = b"
    using assms(1,2) labels_first [of "hd b" "tl b"] labels_last [OF assms(2)]
    by (cases b) (auto simp: strip_prefix_def)
  moreover have "CHR ''/'' \<notin> set d" "CHR '':'' \<notin> set d" "CHR ''*'' \<notin> set d" "list_all is_ascii d"
    using host host_char_plain by (auto simp: list_all_iff)
  ultimately show ?thesis
    using assms(2-5) by (auto simp: normalize_domain_def Let_def list_ex_iff list_all_iff)
qed

lemma normalize_domain_idem: "normalize_domain v = Inr d \<Longrightarrow> normalize_domain d = Inr d"
  by (metis normalize_domain_shape normalize_shape_id)

lemma validate_loop_ok:
  "validate_loop es seen = Inr rs \<Longrightarrow>
     distinct (map pe_domain rs) \<and> set (map pe_domain rs) \<inter> set seen = {} \<and> length rs = length es \<and>
     list_all (\<lambda>e. normalize_domain (pe_domain e) = Inr (pe_domain e)) rs"
proof (induction es arbitrary: seen rs)
  case (Cons e es)
  then obtain d rest where d: "normalize_domain (pe_domain e) = Inr d" "\<not> List.member seen d"
    "validate_loop es (d # seen) = Inr rest" "rs = e\<lparr>pe_domain := d\<rparr> # rest"
    by (auto split: sum.splits option.splits if_splits)
  then show ?case using Cons.IH [OF d(3)] by (auto simp: normalize_domain_idem)
qed simp

lemma validate_entries_ok: "validate_entries es = Inr rs \<Longrightarrow> entries_ok rs"
  by (auto simp: validate_entries_def entries_ok_def list_all_iff distinct_map
      split: if_splits sum.splits dest!: validate_loop_ok)

lemma load_file_ok: "load_file p = Inr rs \<Longrightarrow> entries_ok rs"
  by (auto simp: load_file_def split: sum.splits if_splits intro: validate_entries_ok)

lemma by_domain_None: "by_domain es d = None \<longleftrightarrow> \<not> List.member (domains_of es) d"
  by (auto simp: by_domain_def domains_of_def find_None_iff)

lemma audit_records_simps [simp]:
  "audit_records now src ac re act [] es = []"
  "audit_records now src ac re act (d # ds) es =
     (case by_domain es d of
        None \<Rightarrow> audit_records now src ac re act ds es
      | Some e \<Rightarrow>
          \<lparr>ar_timestamp_unix = now, ar_actor = ac, ar_change_reason = re, ar_action = act,
           ar_domain = d, ar_exception = e, ar_source_path = src\<rparr> # audit_records now src ac re act ds es)"
  by (simp_all add: audit_records_def List.map_filter_simps split: option.splits)

lemma audit_records_map:
  "map_of (map (\<lambda>a. (ar_domain a, (ar_action a, ar_exception a))) (audit_records now src ac re act ds es)) d =
     (if d \<in> set ds then map_option (Pair act) (by_domain es d) else None)"
  by (induction ds) (auto split: option.splits)

lemma audit_records_domains:
  "set (map ar_domain (audit_records now src ac re act ds es)) \<subseteq> set ds"
  "distinct ds \<Longrightarrow> distinct (map ar_domain (audit_records now src ac re act ds es))"
proof -
  show sub: "set (map ar_domain (audit_records now src ac re act ds es)) \<subseteq> set ds" for ds
    by (induction ds) (auto split: option.splits)
  show "distinct ds \<Longrightarrow> distinct (map ar_domain (audit_records now src ac re act ds es))"
  proof (induction ds)
    case (Cons a ds)
    then show ?case
      using sub [of ds] by (auto split: option.splits)
  qed simp
qed

lemma domains_of_distinct: "distinct (domains_of es)"
  by (simp add: domains_of_def)

lemma labels_suffix:
  "d = b \<or> ends_with d (c # b) \<longleftrightarrow> suffix (split_char c b) (split_char c d)"
proof
  assume "d = b \<or> ends_with d (c # b)"
  then show "suffix (split_char c b) (split_char c d)"
    by (auto simp: ends_with_def suffix_def split_char_append)
next
  assume "suffix (split_char c b) (split_char c d)"
  then obtain ws where ws: "split_char c d = ws @ split_char c b" by (auto simp: suffix_def)
  have "d = join [c] (ws @ split_char c b)" using ws join_split_char [of c d] by simp
  then show "d = b \<or> ends_with d (c # b)"
    using join_append [of ws "split_char c b" c]
    by (cases "ws = []") (auto simp: join_split_char ends_with_def suffix_def)
qed

section \<open>Properties\<close>

text \<open>An exception covers whole labels only: a host is excepted exactly when some active exception
  names it, or is a dotted exception whose labels are the last labels of the host. So
  \<open>.slack.com\<close> covers \<open>slack.com\<close> and \<open>files.slack.com\<close> and never \<open>notslack.com\<close>.\<close>

theorem pinning_matches_labels:
  assumes "entries_ok (pg_entries r)" "normalize_domain host = Inr d"
  shows "pinning_matches now host r \<longleftrightarrow>
    (\<exists>e \<in> set (pg_entries r). active_at now e \<and>
       (case strip_prefix (pe_domain e) ''.'' of
          None \<Rightarrow> d = pe_domain e
        | Some b \<Rightarrow> suffix (split_char CHR ''.'' b) (split_char CHR ''.'' d)))"
proof -
  have "entry_matches now d e \<longleftrightarrow> active_at now e \<and>
       (case strip_prefix (pe_domain e) ''.'' of
          None \<Rightarrow> d = pe_domain e
        | Some b \<Rightarrow> suffix (split_char CHR ''.'' b) (split_char CHR ''.'' d))"
    if e: "e \<in> set (pg_entries r)" for e
  proof (cases "strip_prefix (pe_domain e) ''.''")
    case None
    then show ?thesis by (auto simp: entry_matches_def strip_prefix_def starts_with_def split: if_splits)
  next
    case (Some b)
    then have eb: "pe_domain e = CHR ''.'' # b"
      by (auto simp: strip_prefix_def split: if_splits elim!: prefixE)
    have "normalize_domain (pe_domain e) = Inr (pe_domain e)"
      using assms(1) e by (auto simp: entries_ok_def list_all_iff)
    then obtain b' where b': "pe_domain e = b' \<or> pe_domain e = CHR ''.'' # b'"
      "list_all label_ok (split_char CHR ''.'' b')"
      by (rule normalize_domain_shape)
    then have "list_all label_ok (split_char CHR ''.'' b)"
      using eb labels_first [of "CHR ''.''" b] by auto
    then have "trim_start_dots (pe_domain e) = b"
      using eb labels_first [of "hd b" "tl b"] labels_last [of b] by (cases b) (auto simp: trim_start_dots_def)
    moreover have "d = b \<or> ends_with d (CHR ''.'' # b) \<longleftrightarrow> suffix (split_char CHR ''.'' b) (split_char CHR ''.'' d)"
      by (rule labels_suffix)
    ultimately show ?thesis using Some eb by (simp add: entry_matches_def starts_with_def)
  qed
  then show ?thesis using assms(2) by (auto simp: pinning_matches_def list_ex_iff)
qed

text \<open>Every change of the exceptions in force is audited. After a successful reload the registry holds
  the validated contents of the file, and the log has grown by exactly one record for each domain
  whose exception was added, removed or changed, with the right action and exception. A reload
  that fails, also by a fault of the log, leaves the exceptions in force as they were.\<close>

theorem reload_audited:
  assumes "reload now parsed fault actor reason (r, trail) = (res, r', trail')"
  shows "case res of
      Inl _ \<Rightarrow> r' = r
    | Inr _ \<Rightarrow> load_file parsed = Inr (pg_entries r') \<and> entries_ok (pg_entries r') \<and>
        (\<exists>recs. trail' = trail @ recs \<and> distinct (map ar_domain recs) \<and>
           (\<forall>d. map_of (map (\<lambda>a. (ar_domain a, (ar_action a, ar_exception a))) recs) d =
                change_action (by_domain (pg_entries r) d) (by_domain (pg_entries r') d)))"
proof (cases res)
  case (Inl err)
  then show ?thesis
    using assms by (auto simp: reload_def Let_def append_audit_def split: option.splits sum.splits if_splits prod.splits)
next
  case (Inr rep)
  let ?old = "domains_of (pg_entries r)" and ?new = "domains_of (pg_entries r')"
  obtain src where lf: "load_file parsed = Inr (pg_entries r')"
    and tr: "trail' = trail @
      (audit_records now src actor reason ''added'' (filter (\<lambda>d. \<not> List.member ?old d) ?new) (pg_entries r') @
       audit_records now src actor reason ''removed'' (filter (\<lambda>d. \<not> List.member ?new d) ?old) (pg_entries r) @
       audit_records now src actor reason ''updated''
         (filter (\<lambda>d. List.member ?new d \<and> by_domain (pg_entries r) d \<noteq> by_domain (pg_entries r') d) ?old)
         (pg_entries r'))" (is "_ = _ @ (?a @ ?b @ ?c)")
    using assms Inr
    by (auto simp: reload_def Let_def append_audit_def split: option.splits sum.splits if_splits prod.splits)
  have "distinct (map ar_domain ?a)" "distinct (map ar_domain ?b)" "distinct (map ar_domain ?c)"
    by (intro audit_records_domains(2) distinct_filter domains_of_distinct)+
  then have "distinct (map ar_domain (?a @ ?b @ ?c))"
    using audit_records_domains(1) [of now src actor reason "''added''" "filter (\<lambda>d. \<not> List.member ?old d) ?new" "pg_entries r'"]
      audit_records_domains(1) [of now src actor reason "''removed''" "filter (\<lambda>d. \<not> List.member ?new d) ?old" "pg_entries r"]
      audit_records_domains(1) [of now src actor reason "''updated''"
        "filter (\<lambda>d. List.member ?new d \<and> by_domain (pg_entries r) d \<noteq> by_domain (pg_entries r') d) ?old" "pg_entries r'"]
    by fastforce
  moreover have "map_of (map (\<lambda>a. (ar_domain a, (ar_action a, ar_exception a))) (?a @ ?b @ ?c)) d =
      change_action (by_domain (pg_entries r) d) (by_domain (pg_entries r') d)" for d
    using by_domain_None [of "pg_entries r" d] by_domain_None [of "pg_entries r'" d]
    by (auto simp: map_add_def audit_records_map change_action_def split: option.splits)
  ultimately show ?thesis using lf tr Inr load_file_ok [OF lf] by auto
qed

section \<open>Witnesses\<close>

definition demo_pin :: "string \<Rightarrow> pinning_exception" where
  "demo_pin d = \<lparr>pe_domain = d, pe_reason = ''r'', pe_owner = ''o'', pe_ticket = None, pe_expires_at_unix = None\<rparr>"

definition demo_pins :: pinning_registry where
  "demo_pins = \<lparr>pg_entries = [demo_pin ''.slack.com''], pg_source_path = Some ''pins.json'', pg_audit_path = Some ''log''\<rparr>"

theorem pinning_matches_labels_witness:
  "pinning_matches 0 ''Files.slack.com.'' demo_pins \<and> \<not> pinning_matches 0 ''notslack.com'' demo_pins"
proof -
  have ok: "entries_ok (pg_entries demo_pins)" by code_simp
  have n: "normalize_domain ''Files.slack.com.'' = Inr ''files.slack.com''"
    "normalize_domain ''notslack.com'' = Inr ''notslack.com''" by code_simp+
  show ?thesis
    using pinning_matches_labels [OF ok n(1), of 0] pinning_matches_labels [OF ok n(2), of 0]
    by (simp add: demo_pins_def demo_pin_def active_at_def strip_prefix_def suffix_Cons)
qed

theorem reload_audited_witness:
  "\<exists>recs. snd (snd (reload 0 (Inr (1, [demo_pin ''.zoom.us''])) None ''ops'' ''ticket'' (demo_pins, []))) = recs \<and>
     map_of (map (\<lambda>a. (ar_domain a, (ar_action a, ar_exception a))) recs) ''.slack.com'' =
       Some (''removed'', demo_pin ''.slack.com'')"
proof -
  have ok: "case fst (reload 0 (Inr (1, [demo_pin ''.zoom.us''])) None ''ops'' ''ticket'' (demo_pins, [])) of Inr _ \<Rightarrow> True | Inl _ \<Rightarrow> False"
    by code_simp
  have es: "pg_entries (fst (snd (reload 0 (Inr (1, [demo_pin ''.zoom.us''])) None ''ops'' ''ticket'' (demo_pins, [])))) = [demo_pin ''.zoom.us'']"
    by code_simp
  have "change_action (by_domain (pg_entries demo_pins) ''.slack.com'') (by_domain [demo_pin ''.zoom.us''] ''.slack.com'') =
      Some (''removed'', demo_pin ''.slack.com'')" by code_simp
  with ok es reload_audited [of 0 "Inr (1, [demo_pin ''.zoom.us''])" None "''ops''" "''ticket''" demo_pins "[]"
      "fst (reload 0 (Inr (1, [demo_pin ''.zoom.us''])) None ''ops'' ''ticket'' (demo_pins, []))"
      "fst (snd (reload 0 (Inr (1, [demo_pin ''.zoom.us''])) None ''ops'' ''ticket'' (demo_pins, [])))"
      "snd (snd (reload 0 (Inr (1, [demo_pin ''.zoom.us''])) None ''ops'' ''ticket'' (demo_pins, [])))"]
  show ?thesis by (auto split: sum.splits)
qed

end
