(* ===== verification/Rate_Limit.thy ===== *)
theory Rate_Limit
  imports Cache_Freshness
begin

text \<open>
  Rate limiting (\<^verbatim>\<open>proxy/src/rate_limit.rs\<close>): token buckets per client address, user and API key.

  Tokens, rates and bursts are real numbers. A full bucket map loses the first key of its
  iteration order; \<open>ord\<close> is that order's choice, the index of the key that goes. Redis is a
  parameter: the answer of \<^verbatim>\<open>INCR\<close> for a key, \<^const>\<open>None\<close> for an error. \<open>to_str\<close> is \<^verbatim>\<open>HeaderValue::to_str\<close>.
\<close>

section \<open>Definitions\<close>

datatype rate_limit_violation = Ip | User | ApiKey | ApiKeyMissing

record token_bucket =
  tb_tokens :: real
  tb_last_refill :: time

definition bucket_new :: "time \<Rightarrow> real \<Rightarrow> token_bucket" where
  "bucket_new now burst = \<lparr>tb_tokens = burst, tb_last_refill = now\<rparr>"

definition as_secs_f64 :: "duration \<Rightarrow> real" where
  "as_secs_f64 d = real d / 1000000000"

definition bucket_try_acquire :: "time \<Rightarrow> real \<Rightarrow> real \<Rightarrow> token_bucket \<Rightarrow> bool \<times> token_bucket" where
  "bucket_try_acquire now rate burst b =
     (let elapsed = as_secs_f64 (now - tb_last_refill b);
          tokens = min (tb_tokens b + elapsed * rate) burst
      in if tokens \<ge> 1 then (True, \<lparr>tb_tokens = tokens - 1, tb_last_refill = now\<rparr>)
         else (False, \<lparr>tb_tokens = tokens, tb_last_refill = now\<rparr>))"

record rate_limit_config =
  rc_enabled :: bool
  rc_ip_rps :: real
  rc_ip_burst :: real
  rc_user_rps :: real
  rc_user_burst :: real
  rc_api_key_rps :: real
  rc_api_key_burst :: real
  rc_api_key_header :: string
  rc_api_key_bearer :: bool
  rc_api_key_required :: bool
  rc_max_keys :: nat

definition rate_limit_default :: rate_limit_config where
  "rate_limit_default =
     \<lparr>rc_enabled = False, rc_ip_rps = 100, rc_ip_burst = 200, rc_user_rps = 50, rc_user_burst = 100,
      rc_api_key_rps = 20, rc_api_key_burst = 40, rc_api_key_header = ''x-api-key'',
      rc_api_key_bearer = True, rc_api_key_required = False, rc_max_keys = 10000\<rparr>"

definition parse_positive_f64 :: "(string \<Rightarrow> real option) \<Rightarrow> (string \<Rightarrow> string option) \<Rightarrow> string \<Rightarrow> real \<Rightarrow> real" where
  "parse_positive_f64 parse_f64 env name d =
     (case Option.bind (env name) parse_f64 of
        None \<Rightarrow> d
      | Some v \<Rightarrow> (if v > 0 then v else d))"

definition rate_limit_from_env :: "(string \<Rightarrow> real option) \<Rightarrow> (string \<Rightarrow> string option) \<Rightarrow> rate_limit_config" where
  "rate_limit_from_env parse_f64 env =
     (let pos = parse_positive_f64 parse_f64 env;
          ip_rps = pos ''RATE_LIMIT_IP_RPS'' 100;
          user_rps = pos ''RATE_LIMIT_USER_RPS'' 50;
          api_key_rps = pos ''RATE_LIMIT_API_KEY_RPS'' 20;
          header = (case env ''RATE_LIMIT_API_KEY_HEADER'' of
                      None \<Rightarrow> []
                    | Some s \<Rightarrow> to_ascii_lowercase (trim s))
      in \<lparr>rc_enabled = env_flag [''1'', ''true'', ''yes''] env ''RATE_LIMIT_ENABLED'',
          rc_ip_rps = ip_rps, rc_ip_burst = pos ''RATE_LIMIT_IP_BURST'' (ip_rps * 2),
          rc_user_rps = user_rps, rc_user_burst = pos ''RATE_LIMIT_USER_BURST'' (user_rps * 2),
          rc_api_key_rps = api_key_rps, rc_api_key_burst = pos ''RATE_LIMIT_API_KEY_BURST'' (api_key_rps * 2),
          rc_api_key_header = (if header \<noteq> [] then header else ''x-api-key''),
          rc_api_key_bearer = env_on env ''RATE_LIMIT_API_KEY_BEARER'',
          rc_api_key_required = env_flag [''1'', ''true'', ''yes''] env ''RATE_LIMIT_API_KEY_REQUIRED'',
          rc_max_keys = max 1 (env_uint env u64_max ''RATE_LIMIT_MAX_KEYS'' 10000)\<rparr>)"

text \<open>The first usable value of the configured header, then the bearer token.\<close>

definition nonempty_trim :: "string \<Rightarrow> string option" where
  "nonempty_trim v = (let key = trim v in if key \<noteq> [] then Some key else None)"

fun api_key_from_header ::
  "(string \<Rightarrow> string option) \<Rightarrow> string \<Rightarrow> headers \<Rightarrow> string option" where
  "api_key_from_header to_str header_name [] = None"
| "api_key_from_header to_str header_name ((name, value) # hs) =
     (case (if eq_ignore_ascii_case name header_name
            then (case to_str value of None \<Rightarrow> None | Some v \<Rightarrow> nonempty_trim v) else None) of
        Some key \<Rightarrow> Some key
      | None \<Rightarrow> api_key_from_header to_str header_name hs)"

definition extract_api_key ::
  "(string \<Rightarrow> string option) \<Rightarrow> headers \<Rightarrow> rate_limit_config \<Rightarrow> string option" where
  "extract_api_key to_str hs config =
     (case api_key_from_header to_str (rc_api_key_header config) hs of
        Some key \<Rightarrow> Some key
      | None \<Rightarrow>
          (if rc_api_key_bearer config then
             (case (case map_of hs ''authorization'' of None \<Rightarrow> None | Some v \<Rightarrow> to_str v) of
                None \<Rightarrow> None
              | Some value \<Rightarrow>
                  (case (case strip_prefix value ''Bearer '' of
                           Some t \<Rightarrow> Some t | None \<Rightarrow> strip_prefix value ''bearer '') of
                     None \<Rightarrow> None
                   | Some token \<Rightarrow> nonempty_trim token))
           else None))"

type_synonym buckets = "(string, token_bucket) hash_map"

record rate_limiter =
  rl_config :: rate_limit_config
  rl_ip_buckets :: buckets
  rl_user_buckets :: buckets
  rl_api_key_buckets :: buckets

definition limiter_new :: "rate_limit_config \<Rightarrow> rate_limiter" where
  "limiter_new config =
     \<lparr>rl_config = config, rl_ip_buckets = [], rl_user_buckets = [], rl_api_key_buckets = []\<rparr>"

definition evict_key :: "nat \<Rightarrow> buckets \<Rightarrow> string option" where
  "evict_key ord m = (if m = [] then None else Some (fst (m ! (ord mod length m))))"

definition bucket_for :: "time \<Rightarrow> real \<Rightarrow> string \<Rightarrow> buckets \<Rightarrow> token_bucket" where
  "bucket_for now burst key m = (case map_of m key of Some b \<Rightarrow> b | None \<Rightarrow> bucket_new now burst)"

definition try_acquire ::
  "nat \<Rightarrow> nat \<Rightarrow> time \<Rightarrow> string \<Rightarrow> real \<Rightarrow> real \<Rightarrow> buckets \<Rightarrow> bool \<times> buckets" where
  "try_acquire max_keys ord now key rate burst m =
     (let m = hm_make_room max_keys (evict_key ord) key m;
          (ok, b) = bucket_try_acquire now rate burst (bucket_for now burst key m)
      in (ok, AList.update key b m))"

definition nonempty :: "string option \<Rightarrow> string option" where
  "nonempty s = (case s of Some (c # cs) \<Rightarrow> Some (c # cs) | _ \<Rightarrow> None)"

definition check ::
  "nat \<Rightarrow> time \<Rightarrow> string \<Rightarrow> string option \<Rightarrow> string option \<Rightarrow> rate_limiter \<Rightarrow>
   rate_limit_violation option \<times> rate_limiter" where
  "check ord now client_ip username api_key l =
     (let cfg = rl_config l in
      if \<not> rc_enabled cfg then (None, l)
      else if rc_api_key_required cfg \<and> nonempty api_key = None then (Some ApiKeyMissing, l)
      else
        (let (ok, ips) = try_acquire (rc_max_keys cfg) ord now client_ip (rc_ip_rps cfg)
                           (rc_ip_burst cfg) (rl_ip_buckets l);
             l = l\<lparr>rl_ip_buckets := ips\<rparr>
         in if \<not> ok then (Some Ip, l)
            else
              (let (ok, l) =
                     (case nonempty username of
                        None \<Rightarrow> (True, l)
                      | Some user \<Rightarrow>
                          (let (ok, us) = try_acquire (rc_max_keys cfg) ord now user (rc_user_rps cfg)
                                            (rc_user_burst cfg) (rl_user_buckets l)
                           in (ok, l\<lparr>rl_user_buckets := us\<rparr>)))
               in if \<not> ok then (Some User, l)
                  else
                    (let (ok, l) =
                           (case nonempty api_key of
                              None \<Rightarrow> (True, l)
                            | Some key \<Rightarrow>
                                (let (ok, ks) = try_acquire (rc_max_keys cfg) ord now key
                                                  (rc_api_key_rps cfg) (rc_api_key_burst cfg)
                                                  (rl_api_key_buckets l)
                                 in (ok, l\<lparr>rl_api_key_buckets := ks\<rparr>)))
                     in if \<not> ok then (Some ApiKey, l) else (None, l)))))"

text \<open>One Redis counter: whether it is beyond the burst, and the commands sent. An error of Redis lets
  the request pass.\<close>

datatype redis_command = Incr string | Expire string nat

definition redis_over :: "(string \<Rightarrow> int option) \<Rightarrow> string \<Rightarrow> real \<Rightarrow> bool \<times> redis_command list" where
  "redis_over incr key burst =
     (case incr key of
        None \<Rightarrow> (False, [Incr key])
      | Some n \<Rightarrow> (real_of_int n > burst, Incr key # (if n = 1 then [Expire key 1] else [])))"

definition redis_over_opt ::
  "(string \<Rightarrow> int option) \<Rightarrow> string \<Rightarrow> string option \<Rightarrow> real \<Rightarrow> bool \<times> redis_command list" where
  "redis_over_opt incr pre key burst =
     (case nonempty key of None \<Rightarrow> (False, []) | Some k \<Rightarrow> redis_over incr (pre @ k) burst)"

definition check_async ::
  "(string \<Rightarrow> int option) option \<Rightarrow> nat \<Rightarrow> time \<Rightarrow> string \<Rightarrow> string option \<Rightarrow> string option \<Rightarrow>
   rate_limiter \<Rightarrow> (rate_limit_violation option \<times> redis_command list) \<times> rate_limiter" where
  "check_async redis ord now client_ip username api_key l =
     (let cfg = rl_config l in
      if \<not> rc_enabled cfg then ((None, []), l)
      else if rc_api_key_required cfg \<and> nonempty api_key = None then ((Some ApiKeyMissing, []), l)
      else
        (case redis of
           Some incr \<Rightarrow>
             (let (ip_over, c1) = redis_over incr (''bsdm:ratelimit:ip:'' @ client_ip) (rc_ip_burst cfg) in
              if ip_over then ((Some Ip, c1), l)
              else
                (let (user_over, c2) =
                       redis_over_opt incr ''bsdm:ratelimit:user:'' username (rc_user_burst cfg) in
                 if user_over then ((Some User, c1 @ c2), l)
                 else
                   (let (key_over, c3) =
                          redis_over_opt incr ''bsdm:ratelimit:apikey:'' api_key (rc_api_key_burst cfg) in
                    ((if key_over then Some ApiKey else None, c1 @ c2 @ c3), l))))
         | None \<Rightarrow> (let (v, l') = check ord now client_ip username api_key l in ((v, []), l'))))"

subsection \<open>Runs\<close>

text \<open>Attempts on one bucket at the given times: how many were let through, and the bucket after.\<close>

fun acquire_run :: "real \<Rightarrow> real \<Rightarrow> time list \<Rightarrow> token_bucket \<Rightarrow> nat \<times> token_bucket" where
  "acquire_run rate burst [] b = (0, b)"
| "acquire_run rate burst (t # ts) b =
     (let (ok, b') = bucket_try_acquire t rate burst b;
          (n, b'') = acquire_run rate burst ts b'
      in ((if ok then Suc n else n), b''))"

text \<open>A request as the limiter sees it, and a run of requests with the number of those from one
  address that were let through.\<close>

record limited_request =
  lq_ord :: nat
  lq_time :: time
  lq_ip :: string
  lq_user :: "string option"
  lq_api_key :: "string option"

definition check_request :: "limited_request \<Rightarrow> rate_limiter \<Rightarrow> rate_limit_violation option \<times> rate_limiter" where
  "check_request q l = check (lq_ord q) (lq_time q) (lq_ip q) (lq_user q) (lq_api_key q) l"

fun passed :: "string \<Rightarrow> limited_request list \<Rightarrow> rate_limiter \<Rightarrow> nat" where
  "passed ip [] l = 0"
| "passed ip (q # qs) l =
     (if lq_ip q = ip \<and> fst (check_request q l) = None then 1 else 0) +
     passed ip qs (snd (check_request q l))"

definition bucket_inv :: "real \<Rightarrow> token_bucket \<Rightarrow> bool" where
  "bucket_inv burst b \<longleftrightarrow> 0 \<le> tb_tokens b \<and> tb_tokens b \<le> burst"

definition buckets_inv :: "buckets \<Rightarrow> bool" where
  "buckets_inv m \<longleftrightarrow> hm_inv m"

text \<open>Writing a bucket the way \<^verbatim>\<open>try_acquire\<close> does.\<close>

definition bucket_put :: "nat \<Rightarrow> nat \<Rightarrow> string \<Rightarrow> token_bucket \<Rightarrow> buckets \<Rightarrow> buckets" where
  "bucket_put max_keys ord key b m =
     AList.update key b (hm_make_room max_keys (evict_key ord) key m)"

section \<open>Lemmas\<close>

lemma as_secs_nonneg [simp]: "0 \<le> as_secs_f64 d"
  by (simp add: as_secs_f64_def)

lemma bucket_try_acquire_inv:
  "bucket_inv burst b \<Longrightarrow> 0 \<le> rate \<Longrightarrow> bucket_inv burst (snd (bucket_try_acquire now rate burst b))"
  by (auto simp: bucket_try_acquire_def bucket_inv_def Let_def)

lemma bucket_try_acquire_refill [simp]:
  "tb_last_refill (snd (bucket_try_acquire now rate burst b)) = now"
  by (simp add: bucket_try_acquire_def Let_def)

lemma bucket_try_acquire_budget:
  "(if fst (bucket_try_acquire now rate burst b) then 1 else 0) +
     tb_tokens (snd (bucket_try_acquire now rate burst b)) \<le>
   tb_tokens b + as_secs_f64 (now - tb_last_refill b) * rate"
  by (simp add: bucket_try_acquire_def Let_def)

lemma as_secs_add:
  "a \<le> b \<Longrightarrow> b \<le> c \<Longrightarrow> as_secs_f64 (b - a) + as_secs_f64 (c - b) = as_secs_f64 (c - a)"
  by (simp add: as_secs_f64_def add_divide_distrib [symmetric] of_nat_diff)

text \<open>Tokens let through and tokens left never exceed what was there and what flowed in.\<close>

lemma acquire_run_budget:
  assumes "sorted (tb_last_refill b # ts)" "\<forall>t \<in> set ts. t \<le> end" "tb_last_refill b \<le> end" "0 \<le> rate"
  shows "real (fst (acquire_run rate burst ts b)) + tb_tokens (snd (acquire_run rate burst ts b)) \<le>
           tb_tokens b + as_secs_f64 (end - tb_last_refill b) * rate"
  using assms
proof (induction ts arbitrary: b)
  case (Cons t ts)
  let ?b = "snd (bucket_try_acquire t rate burst b)"
  have "real (fst (acquire_run rate burst ts ?b)) + tb_tokens (snd (acquire_run rate burst ts ?b)) \<le>
          tb_tokens ?b + as_secs_f64 (end - t) * rate"
    using Cons.IH [of ?b] Cons.prems by simp
  moreover have "(as_secs_f64 (t - tb_last_refill b) + as_secs_f64 (end - t)) * rate =
          as_secs_f64 (end - tb_last_refill b) * rate"
    using Cons.prems by (simp add: as_secs_add)
  ultimately show ?case
    using bucket_try_acquire_budget [of t rate burst b]
    by (simp add: case_prod_beta distrib_right split: if_splits)
qed simp

lemma acquire_run_inv:
  "bucket_inv burst b \<Longrightarrow> 0 \<le> rate \<Longrightarrow> bucket_inv burst (snd (acquire_run rate burst ts b))"
  by (induction ts arbitrary: b) (auto simp: case_prod_beta intro: bucket_try_acquire_inv)

lemma evict_key_has: "m \<noteq> [] \<Longrightarrow> \<exists>e. evict_key ord m = Some e \<and> hm_has m e"
  by (auto simp: evict_key_def hm_has_iff)

text \<open>The bucket maps keep within the configured number of keys.\<close>

interpretation bucket_map: capped_map "bucket_put (Suc n) ord" map_of length buckets_inv "Suc n" for n ord
proof (unfold_locales, goal_cases)
  case (1 s k v)
  then show ?case by (simp add: bucket_put_def buckets_inv_def)
next
  case (2 s k v)
  show ?case by (simp add: bucket_put_def)
next
  case (3 s k' k v)
  then show ?case
    using hm_make_room_get [of "Suc n" "evict_key ord" k s k'] by (simp add: bucket_put_def)
next
  case (4 s k v)
  then show ?case
    using hm_make_room_length [of s "Suc n" "evict_key ord" k v] evict_key_has
    by (simp add: bucket_put_def buckets_inv_def)
qed

lemma try_acquire_put:
  "try_acquire mx ord now key rate burst m =
     (let (ok, b) = bucket_try_acquire now rate burst (bucket_for now burst key m)
      in (ok, bucket_put mx ord key b m))"
  by (simp add: try_acquire_def bucket_put_def bucket_for_def hm_make_room_same Let_def split: prod.splits)

lemma try_acquire_bounded:
  assumes "hm_inv m" "length m \<le> mx" "0 < mx"
  shows "hm_inv (snd (try_acquire mx ord now key rate burst m)) \<and>
         length (snd (try_acquire mx ord now key rate burst m)) \<le> mx"
proof -
  obtain n where mx: "mx = Suc n" using assms(3) gr0_conv_Suc by auto
  show ?thesis
    using assms bucket_map.put_inv [of m n] bucket_map.entries_put [of m n]
    by (simp add: try_acquire_put mx case_prod_beta Let_def buckets_inv_def)
qed

lemma try_acquire_other:
  assumes "hm_inv m" "key' \<noteq> key"
  shows "map_of (snd (try_acquire mx ord now key rate burst m)) key' \<in> {None, map_of m key'}"
  using hm_make_room_get [of mx "evict_key ord" key m key'] assms
  by (simp add: try_acquire_put case_prod_beta Let_def bucket_put_def)

subsection \<open>The address buckets during a run\<close>

lemma check_config [simp]: "rl_config (snd (check ord now ip u k l)) = rl_config l"
  by (simp add: check_def Let_def case_prod_beta split: option.splits)

lemma check_ip_buckets:
  "rl_ip_buckets (snd (check ord now ip u k l)) =
     (let cfg = rl_config l in
      if rc_enabled cfg \<and> \<not> (rc_api_key_required cfg \<and> nonempty k = None)
      then snd (try_acquire (rc_max_keys cfg) ord now ip (rc_ip_rps cfg) (rc_ip_burst cfg) (rl_ip_buckets l))
      else rl_ip_buckets l)"
  by (simp add: check_def Let_def case_prod_beta split: option.splits)

lemma check_passes:
  "fst (check ord now ip u k l) = None \<Longrightarrow> rc_enabled (rl_config l) \<Longrightarrow>
     \<not> (rc_api_key_required (rl_config l) \<and> nonempty k = None) \<and>
     fst (try_acquire (rc_max_keys (rl_config l)) ord now ip (rc_ip_rps (rl_config l))
            (rc_ip_burst (rl_config l)) (rl_ip_buckets l))"
  by (auto simp: check_def Let_def case_prod_beta split: option.splits if_splits)

text \<open>The keys in the map and the addresses still to come leave room: nothing is evicted.\<close>

definition room :: "string set \<Rightarrow> rate_limiter \<Rightarrow> bool" where
  "room ips l \<longleftrightarrow>
     hm_inv (rl_ip_buckets l) \<and> finite ips \<and>
     card (fst ` set (rl_ip_buckets l) \<union> ips) \<le> rc_max_keys (rl_config l)"

lemma hm_length_card: "hm_inv m \<Longrightarrow> length m = card (fst ` set m)"
  by (metis distinct_card hm_inv_def length_map list.set_map)

lemma no_eviction:
  assumes "hm_inv m" "key \<in> ips" "finite ips" "card (fst ` set m \<union> ips) \<le> mx"
  shows "hm_make_room mx evict key m = m"
proof (cases "hm_has m key")
  case False
  then have "fst ` set m \<subset> fst ` set m \<union> ips" using assms(2) by (auto simp: hm_has_iff)
  with assms(3,4) have "card (fst ` set m) < mx"
    by (meson List.finite_set finite_UnI finite_imageI order_less_le_trans psubset_card_mono)
  with assms(1) show ?thesis by (simp add: hm_make_room_def hm_length_card)
qed (simp add: hm_make_room_def)

lemma try_acquire_room:
  assumes "hm_inv m" "key \<in> ips" "finite ips" "card (fst ` set m \<union> ips) \<le> mx"
  shows "try_acquire mx ord now key rate burst m =
    (let (ok, b) = bucket_try_acquire now rate burst (bucket_for now burst key m)
     in (ok, AList.update key b m))"
  by (simp add: try_acquire_def no_eviction [OF assms])

lemma room_check:
  assumes "room ips l" "lq_ip q \<in> ips"
  shows "room ips (snd (check_request q l))"
proof -
  have "fst ` set (AList.update (lq_ip q) b (rl_ip_buckets l)) \<union> ips = fst ` set (rl_ip_buckets l) \<union> ips"
    for b using assms by (auto simp: room_def hm_set_update)
  then show ?thesis
    using assms
    by (auto simp: room_def check_request_def check_ip_buckets Let_def try_acquire_room
        case_prod_beta)
qed

text \<open>What the bucket of an address holds at most by a time: a missing bucket will be a full one.\<close>

definition budget :: "time \<Rightarrow> time \<Rightarrow> string \<Rightarrow> rate_limiter \<Rightarrow> real" where
  "budget start end ip l =
     (case map_of (rl_ip_buckets l) ip of
        Some b \<Rightarrow> tb_tokens b + as_secs_f64 (end - tb_last_refill b) * rc_ip_rps (rl_config l)
      | None \<Rightarrow> rc_ip_burst (rl_config l) + as_secs_f64 (end - start) * rc_ip_rps (rl_config l))"

definition bucket_before :: "time \<Rightarrow> string \<Rightarrow> rate_limiter \<Rightarrow> bool" where
  "bucket_before t ip l \<longleftrightarrow>
     (case map_of (rl_ip_buckets l) ip of
        Some b \<Rightarrow> tb_last_refill b \<le> t \<and> bucket_inv (rc_ip_burst (rl_config l)) b
      | None \<Rightarrow> True)"

lemma as_secs_mono: "a \<le> b \<Longrightarrow> as_secs_f64 a \<le> as_secs_f64 b"
  by (simp add: as_secs_f64_def divide_right_mono)

lemma check_request_get:
  assumes "room ips l" "lq_ip q \<in> ips"
  shows "map_of (rl_ip_buckets (snd (check_request q l))) ip =
    (if rc_enabled (rl_config l) \<and> \<not> (rc_api_key_required (rl_config l) \<and> nonempty (lq_api_key q) = None) \<and>
        lq_ip q = ip
     then Some (snd (bucket_try_acquire (lq_time q) (rc_ip_rps (rl_config l)) (rc_ip_burst (rl_config l))
            (bucket_for (lq_time q) (rc_ip_burst (rl_config l)) ip (rl_ip_buckets l))))
     else map_of (rl_ip_buckets l) ip)"
  using assms
  by (auto simp: room_def check_request_def check_ip_buckets Let_def try_acquire_room case_prod_beta)

lemma check_request_passes:
  assumes "room ips l" "lq_ip q \<in> ips" "rc_enabled (rl_config l)" "fst (check_request q l) = None"
  shows "\<not> (rc_api_key_required (rl_config l) \<and> nonempty (lq_api_key q) = None) \<and>
    fst (bucket_try_acquire (lq_time q) (rc_ip_rps (rl_config l)) (rc_ip_burst (rl_config l))
           (bucket_for (lq_time q) (rc_ip_burst (rl_config l)) (lq_ip q) (rl_ip_buckets l)))"
  using check_passes [OF assms(4) [unfolded check_request_def] assms(3)] assms(1,2)
  by (auto simp: room_def try_acquire_room case_prod_beta Let_def)

lemma budget_later:
  assumes "0 \<le> rc_ip_rps (rl_config l)" "start \<le> t"
  shows "budget t end ip l \<le> budget start end ip l"
  using assms by (auto simp: budget_def as_secs_mono mult_right_mono split: option.splits)

lemma budget_acquire:
  assumes "bucket_before t ip l" "start \<le> t" "t \<le> end" "0 \<le> rc_ip_rps (rl_config l)"
  shows "tb_tokens (bucket_for t (rc_ip_burst (rl_config l)) ip (rl_ip_buckets l)) +
         as_secs_f64 (t - tb_last_refill (bucket_for t (rc_ip_burst (rl_config l)) ip (rl_ip_buckets l))) *
           rc_ip_rps (rl_config l) + as_secs_f64 (end - t) * rc_ip_rps (rl_config l) \<le>
         budget start end ip l"
proof (cases "map_of (rl_ip_buckets l) ip")
  case None
  with budget_later [OF assms(4,2), of "end" ip] show ?thesis
    by (simp add: bucket_for_def bucket_new_def budget_def as_secs_f64_def)
next
  case (Some b)
  have "as_secs_f64 (t - tb_last_refill b) * r + as_secs_f64 (end - t) * r =
          as_secs_f64 (end - tb_last_refill b) * r" for r
    using Some assms(1,3) as_secs_add [of "tb_last_refill b" t "end"]
    by (simp add: bucket_before_def flip: distrib_right)
  with Some show ?thesis by (simp add: bucket_for_def budget_def)
qed

lemma budget_step:
  assumes "room ips l" "lq_ip q \<in> ips" "rc_enabled (rl_config l)" "0 \<le> rc_ip_rps (rl_config l)"
    "start \<le> lq_time q" "lq_time q \<le> end" "bucket_before (lq_time q) ip l"
  shows "(if lq_ip q = ip \<and> fst (check_request q l) = None then 1 else 0) +
           budget (lq_time q) end ip (snd (check_request q l)) \<le> budget start end ip l"
proof -
  let ?l = "snd (check_request q l)" and ?t = "lq_time q"
  let ?b = "bucket_for ?t (rc_ip_burst (rl_config l)) ip (rl_ip_buckets l)"
  let ?missing = "rc_api_key_required (rl_config l) \<and> nonempty (lq_api_key q) = None"
  have cfg: "rl_config ?l = rl_config l" by (simp add: check_request_def)
  show ?thesis
  proof (cases "lq_ip q = ip \<and> \<not> ?missing")
    case True
    with assms have "map_of (rl_ip_buckets ?l) ip =
        Some (snd (bucket_try_acquire ?t (rc_ip_rps (rl_config l)) (rc_ip_burst (rl_config l)) ?b))"
      by (simp add: check_request_get)
    then have "budget ?t end ip ?l =
        tb_tokens (snd (bucket_try_acquire ?t (rc_ip_rps (rl_config l)) (rc_ip_burst (rl_config l)) ?b)) +
        as_secs_f64 (end - ?t) * rc_ip_rps (rl_config l)"
      by (simp add: budget_def cfg)
    moreover have "fst (check_request q l) = None \<Longrightarrow>
        fst (bucket_try_acquire ?t (rc_ip_rps (rl_config l)) (rc_ip_burst (rl_config l)) ?b)"
      using check_request_passes [OF assms(1-3)] True by simp
    ultimately show ?thesis
      using budget_acquire [OF assms(7,5,6,4)]
        bucket_try_acquire_budget [of ?t "rc_ip_rps (rl_config l)" "rc_ip_burst (rl_config l)" ?b]
      by (auto split: if_splits)
  next
    case False
    then have "map_of (rl_ip_buckets ?l) ip = map_of (rl_ip_buckets l) ip"
      unfolding check_request_get [OF assms(1,2)] by auto
    then have "budget ?t end ip ?l = budget ?t end ip l" unfolding budget_def cfg by simp
    moreover have "lq_ip q = ip \<Longrightarrow> fst (check_request q l) \<noteq> None"
      using False check_request_passes [OF assms(1-3)] by blast
    ultimately show ?thesis
      using budget_later [OF assms(4,5), of "end" ip] by auto
  qed
qed

lemma bucket_before_step:
  assumes "room ips l" "lq_ip q \<in> ips" "bucket_before (lq_time q) ip l" "lq_time q \<le> t"
    "0 \<le> rc_ip_rps (rl_config l)" "0 \<le> rc_ip_burst (rl_config l)"
  shows "bucket_before t ip (snd (check_request q l))"
proof -
  have "bucket_inv (rc_ip_burst (rl_config l))
          (bucket_for (lq_time q) (rc_ip_burst (rl_config l)) ip (rl_ip_buckets l))"
    using assms(3,6) by (auto simp: bucket_before_def bucket_for_def bucket_new_def bucket_inv_def split: option.splits)
  moreover have "rl_config (snd (check_request q l)) = rl_config l" by (simp add: check_request_def)
  ultimately show ?thesis
    using assms(3-5) check_request_get [OF assms(1,2), of ip]
    by (auto simp: bucket_before_def bucket_try_acquire_inv split: option.splits)
qed

lemma budget_nonneg:
  "bucket_before t ip l \<Longrightarrow> 0 \<le> rc_ip_rps (rl_config l) \<Longrightarrow> 0 \<le> rc_ip_burst (rl_config l) \<Longrightarrow>
     0 \<le> budget start end ip l"
  by (auto simp: budget_def bucket_before_def bucket_inv_def split: option.splits)

lemma passed_budget:
  assumes "room ips l" "lq_ip ` set qs \<subseteq> ips" "rc_enabled (rl_config l)" "0 \<le> rc_ip_rps (rl_config l)"
    "0 \<le> rc_ip_burst (rl_config l)" "sorted (start # map lq_time qs @ [end])" "bucket_before start ip l"
  shows "real (passed ip qs l) \<le> budget start end ip l"
  using assms
proof (induction qs arbitrary: l start)
  case Nil
  then show ?case by (simp add: budget_nonneg)
next
  case (Cons q qs)
  let ?l = "snd (check_request q l)"
  have cfg: "rl_config ?l = rl_config l" by (simp add: check_request_def)
  have before: "bucket_before (lq_time q) ip l"
    using Cons.prems(6,7) by (auto simp: bucket_before_def split: option.splits)
  have "real (passed ip qs ?l) \<le> budget (lq_time q) end ip ?l"
    using Cons.prems before
    by (intro Cons.IH) (auto simp: cfg intro: room_check bucket_before_step)
  moreover have "(if lq_ip q = ip \<and> fst (check_request q l) = None then 1 else 0) +
      budget (lq_time q) end ip ?l \<le> budget start end ip l"
    using Cons.prems before by (intro budget_step) auto
  ultimately show ?case by (auto split: if_splits)
qed

section \<open>Properties\<close>

text \<open>(C28) The bucket keeps its promise: of the attempts on a full bucket at non-decreasing times, no
  more pass than the burst and what the rate adds between the first moment and the last, and
  the tokens stay between zero and the burst.\<close>

theorem acquire_run_bound:
  assumes "sorted (t\<^sub>0 # ts @ [end])" "0 \<le> rate" "0 \<le> burst"
  shows "real (fst (acquire_run rate burst ts (bucket_new t\<^sub>0 burst))) \<le>
           burst + as_secs_f64 (end - t\<^sub>0) * rate \<and>
         bucket_inv burst (snd (acquire_run rate burst ts (bucket_new t\<^sub>0 burst)))"
proof -
  have inv: "bucket_inv burst (snd (acquire_run rate burst ts (bucket_new t\<^sub>0 burst)))"
    using assms by (intro acquire_run_inv) (auto simp: bucket_inv_def bucket_new_def)
  have "real (fst (acquire_run rate burst ts (bucket_new t\<^sub>0 burst))) +
        tb_tokens (snd (acquire_run rate burst ts (bucket_new t\<^sub>0 burst))) \<le>
        burst + as_secs_f64 (end - t\<^sub>0) * rate"
    using acquire_run_budget [of "bucket_new t\<^sub>0 burst" ts "end" rate burst] assms
    by (auto simp: bucket_new_def sorted_append)
  with inv show ?thesis by (simp add: bucket_inv_def)
qed

text \<open>The limiter as a whole keeps the bound per address: in any run of requests, with whatever
  users and API keys, no more requests of one address pass than its burst and its rate times
  the duration allow, as long as the addresses seen fit into the bucket map.\<close>

theorem check_bounds_address:
  assumes "rc_enabled config" "0 \<le> rc_ip_rps config" "0 \<le> rc_ip_burst config"
    and "card (set (map lq_ip qs)) \<le> rc_max_keys config"
    and "sorted (start # map lq_time qs @ [end])"
  shows "real (passed ip qs (limiter_new config)) \<le>
           rc_ip_burst config + as_secs_f64 (end - start) * rc_ip_rps config"
proof -
  have "room (set (map lq_ip qs)) (limiter_new config)"
    using assms(4) by (simp add: room_def limiter_new_def)
  from passed_budget [OF this, of qs start "end" ip] assms show ?thesis
    by (simp add: budget_def bucket_before_def limiter_new_def)
qed

text \<open>A patient client gets through: with a burst of at least one token, an attempt at least one
  refill period after the last is always granted.\<close>

theorem acquire_after_wait:
  assumes "bucket_inv burst b" "1 \<le> burst" "0 < rate" "1 / rate \<le> as_secs_f64 (now - tb_last_refill b)"
  shows "fst (bucket_try_acquire now rate burst b)"
proof -
  have "1 \<le> as_secs_f64 (now - tb_last_refill b) * rate"
    using assms(3,4) by (simp add: pos_divide_le_eq)
  with assms(1,2) show ?thesis by (simp add: bucket_try_acquire_def bucket_inv_def Let_def)
qed

text \<open>The number of buckets per map stays within the configured number of keys, and an attempt on
  one key leaves every other bucket as it was or evicts it.\<close>

theorem try_acquire_capped:
  assumes "hm_inv m" "length m \<le> max_keys" "0 < max_keys" "other \<noteq> key"
  shows "length (snd (try_acquire max_keys ord now key rate burst m)) \<le> max_keys \<and>
         hm_inv (snd (try_acquire max_keys ord now key rate burst m)) \<and>
         map_of (snd (try_acquire max_keys ord now key rate burst m)) other \<in> {None, map_of m other}"
  using try_acquire_bounded [OF assms(1-3)] try_acquire_other [OF assms(1,4)] by blast

section \<open>Witnesses\<close>

definition demo_limits :: rate_limit_config where
  "demo_limits = rate_limit_default\<lparr>rc_enabled := True, rc_ip_burst := 1, rc_ip_rps := 1\<rparr>"

definition demo_request :: "time \<Rightarrow> limited_request" where
  "demo_request t = \<lparr>lq_ord = 0, lq_time = t, lq_ip = ''10.0.0.1'', lq_user = None, lq_api_key = None\<rparr>"

theorem acquire_run_bound_witness:
  "real (fst (acquire_run 1 1 [0, 0, 500000000] (bucket_new 0 1))) \<le> 1 + as_secs_f64 (1000000000 - 0) * 1"
  using acquire_run_bound [of 0 "[0, 0, 500000000]" 1000000000 1 1] by simp

theorem check_bounds_address_witness:
  "real (passed ''10.0.0.1'' [demo_request 0, demo_request 0] (limiter_new demo_limits)) \<le>
     rc_ip_burst demo_limits + as_secs_f64 (0 - 0) * rc_ip_rps demo_limits"
  by (rule check_bounds_address) (simp_all add: demo_limits_def rate_limit_default_def demo_request_def)

theorem acquire_after_wait_witness:
  "fst (bucket_try_acquire 2000000000 1 1 \<lparr>tb_tokens = 0, tb_last_refill = 0\<rparr>)"
  by (rule acquire_after_wait) (simp_all add: bucket_inv_def as_secs_f64_def)

theorem try_acquire_capped_witness:
  "length (snd (try_acquire 1 0 5 ''b'' 1 1 [(''a'', bucket_new 0 1)])) \<le> 1"
  using try_acquire_capped [of "[(''a'', bucket_new 0 1)]" 1 "''a''" "''b''" 0 5 1 1]
  by (simp add: hm_inv_def)

end
