(* ===== verification/Proxy_Policy.thy ===== *)
theory Proxy_Policy
  imports Policy_Cache Threat_Score Categorization Pinning Rate_Limit Wire Cache_Entry
begin

text \<open>
  The policy decisions of the proxy (\<^verbatim>\<open>proxy/src/proxy_service.rs\<close>, \<^verbatim>\<open>proxy/src/policy_config.rs\<close>): the TLS
  inspection mode, categorisation, access control, the decision cache and threat scores composed
  into one decision per request, and the responses made from decisions. What the calls need from
  outside is the record \<open>policy_env\<close>: the regular expressions, the clock, the local time of day and the
  URL parser. Metrics and logging are left out.
\<close>

section \<open>Definitions\<close>

subsection \<open>Modes\<close>

datatype policy_mode = Sni | SelectiveMitm | FullMitm

datatype deployment_profile = Production | Development | Test

fun policy_mode_str :: "policy_mode \<Rightarrow> string" where
  "policy_mode_str Sni = ''sni''"
| "policy_mode_str SelectiveMitm = ''selective-mitm''"
| "policy_mode_str FullMitm = ''full-mitm''"

fun deployment_profile_str :: "deployment_profile \<Rightarrow> string" where
  "deployment_profile_str Production = ''production''"
| "deployment_profile_str Development = ''development''"
| "deployment_profile_str Test = ''test''"

definition policy_mode_from_str :: "string \<Rightarrow> string + policy_mode" where
  "policy_mode_from_str s =
     (let l = to_ascii_lowercase s in
      if l = ''sni'' then Inr Sni
      else if List.member [''selective-mitm'', ''selective''] l then Inr SelectiveMitm
      else if List.member [''full-mitm'', ''full''] l then Inr FullMitm
      else Inl (''Unknown policy mode: '' @ l))"

definition deployment_profile_from_str :: "string \<Rightarrow> string + deployment_profile" where
  "deployment_profile_from_str s =
     (let l = to_ascii_lowercase s in
      if List.member [''production'', ''prod''] l then Inr Production
      else if List.member [''development'', ''dev''] l then Inr Development
      else if l = ''test'' then Inr Test
      else Inl (''Unknown deployment profile: '' @ l))"

definition configured_policy_mode :: "(string \<Rightarrow> string option) \<Rightarrow> policy_mode" where
  "configured_policy_mode env =
     (case env ''POLICY_MODE'' of
        None \<Rightarrow> SelectiveMitm
      | Some s \<Rightarrow> (case policy_mode_from_str s of Inl _ \<Rightarrow> SelectiveMitm | Inr m \<Rightarrow> m))"

definition validate_mitm_policy_values :: "policy_mode \<Rightarrow> deployment_profile \<Rightarrow> bool \<Rightarrow> string option" where
  "validate_mitm_policy_values mode profile allow_full_mitm =
     (if mode \<noteq> FullMitm then None
      else if profile = Production then
        Some ''POLICY_MODE=full-mitm is forbidden with DEPLOYMENT_PROFILE=production; use selective-mitm or sni''
      else if \<not> allow_full_mitm then
        Some ''POLICY_MODE=full-mitm requires ALLOW_FULL_MITM=true in development or test environments''
      else None)"

definition validate_mitm_policy :: "(string \<Rightarrow> string option) \<Rightarrow> policy_mode \<Rightarrow> string + deployment_profile" where
  "validate_mitm_policy env mode =
     (case deployment_profile_from_str (env_or env ''DEPLOYMENT_PROFILE'' ''production'') of
        Inl err \<Rightarrow> Inl err
      | Inr profile \<Rightarrow>
          (case validate_mitm_policy_values mode profile
                  (env_flag [''1'', ''true'', ''yes''] env ''ALLOW_FULL_MITM'') of
             Some err \<Rightarrow> Inl err
           | None \<Rightarrow> Inr profile))"

definition configured_mitm_categories :: "(string \<Rightarrow> string option) \<Rightarrow> string list" where
  "configured_mitm_categories env =
     filter (\<lambda>s. s \<noteq> [])
       (map (\<lambda>s. to_ascii_lowercase (trim s))
          (split_char CHR '','' (env_or env ''MITM_CATEGORIES'' ''malware,phishing,illegal-content'')))"

subsection \<open>TLS inspection\<close>

record tls_policy_decision =
  tp_mitm :: bool
  tp_decision_source :: string
  tp_bypass_reason :: "string option"

definition classify_tls_policy_decision :: "bool \<Rightarrow> bool \<Rightarrow> policy_mode \<Rightarrow> bool \<Rightarrow> tls_policy_decision" where
  "classify_tls_policy_decision mitm_enabled pinned mode selective =
     (if mode = Sni then
        \<lparr>tp_mitm = False, tp_decision_source = ''sni'', tp_bypass_reason = Some ''policy_mode_sni''\<rparr>
      else if \<not> mitm_enabled then
        \<lparr>tp_mitm = False, tp_decision_source = ''sni'', tp_bypass_reason = Some ''mitm_disabled''\<rparr>
      else if pinned then
        \<lparr>tp_mitm = False, tp_decision_source = ''pinning-bypass'',
         tp_bypass_reason = Some ''certificate_pinning_exception''\<rparr>
      else
        (case mode of
           FullMitm \<Rightarrow> \<lparr>tp_mitm = True, tp_decision_source = ''mitm'', tp_bypass_reason = None\<rparr>
         | SelectiveMitm \<Rightarrow>
             \<lparr>tp_mitm = selective, tp_decision_source = (if selective then ''mitm'' else ''sni''),
              tp_bypass_reason = (if selective then None else Some ''category_not_selected_for_mitm'')\<rparr>
         | Sni \<Rightarrow>
             \<lparr>tp_mitm = False, tp_decision_source = ''sni'', tp_bypass_reason = Some ''policy_mode_sni''\<rparr>))"

definition request_decision_source :: "string \<Rightarrow> string" where
  "request_decision_source url = (if starts_with url ''https://'' then ''mitm'' else ''sni'')"

definition should_mitm_port :: "nat \<Rightarrow> bool" where
  "should_mitm_port port \<longleftrightarrow> port = 443 \<or> port = 8443"

subsection \<open>The service\<close>

record 're policy_env =
  pv_is_match :: "'re \<Rightarrow> string \<Rightarrow> bool"
  pv_now :: time
  pv_unix_now :: nat
  pv_local_minutes :: nat
  pv_url_host :: "string \<Rightarrow> string option"

record 're policy_service =
  sv_acl_engine :: "'re acl_engine option"
  sv_categorization :: "categorization_engine option"
  sv_policy_cache :: policy_decision_cache
  sv_threat_score_cache :: threat_score_cache
  sv_policy_mode :: policy_mode
  sv_mitm_enabled :: bool
  sv_mitm_categories :: "string list"
  sv_pinning_registry :: pinning_registry

text \<open>Categories and threat sources of a URL, and whether an online lookup was scheduled.\<close>

definition categorize_url ::
  "'re policy_env \<Rightarrow> string \<Rightarrow> 're policy_service \<Rightarrow> (string list \<times> string list \<times> bool) \<times> 're policy_service" where
  "categorize_url env url sv =
     (case sv_categorization sv of
        None \<Rightarrow> (([], [], False), sv)
      | Some engine \<Rightarrow>
          (let (result, engine') = categorize_local (pv_url_host env) (pv_now env) url engine;
               scheduled = (cr_categories result = [] \<and> online_enrichment_enabled engine);
               categories = filter (\<lambda>name. name \<noteq> []) (map acl_name (cr_categories result));
               threat_sources = (if cr_source result \<noteq> ''unknown'' \<and> categories \<noteq> [] then [cr_source result] else [])
           in ((categories, threat_sources, scheduled), sv\<lparr>sv_categorization := Some engine'\<rparr>)))"

definition tls_policy_decision ::
  "'re policy_env \<Rightarrow> string \<Rightarrow> 're policy_service \<Rightarrow> tls_policy_decision \<times> 're policy_service" where
  "tls_policy_decision env domain sv =
     (if sv_policy_mode sv = Sni then
        (classify_tls_policy_decision (sv_mitm_enabled sv) False Sni False, sv)
      else
        (let pinned = pinning_matches (pv_unix_now env) domain (sv_pinning_registry sv);
             (selective, sv') =
               (if sv_mitm_enabled sv \<and> \<not> pinned \<and> sv_policy_mode sv = SelectiveMitm then
                  (let ((categories, _, _), sv') = categorize_url env (''https://'' @ domain) sv
                   in (list_ex (\<lambda>cat. List.member (sv_mitm_categories sv) (to_ascii_lowercase cat)) categories, sv'))
                else (False, sv))
         in (classify_tls_policy_decision (sv_mitm_enabled sv) pinned (sv_policy_mode sv) selective, sv')))"

definition parse_client_ip :: "string \<Rightarrow> ip_addr option" where
  "parse_client_ip s =
     (case parse_ipv4 s of
        Some v \<Rightarrow> Some (V4 v)
      | None \<Rightarrow> map_option V6 (parse_ipv6 s))"

definition check_acl ::
  "'re policy_env \<Rightarrow> string \<Rightarrow> string \<Rightarrow> string list \<Rightarrow> string option \<Rightarrow> string list \<Rightarrow> string \<Rightarrow>
   're policy_service \<Rightarrow> acl_decision option" where
  "check_acl env url domain category_names username groups client_ip sv =
     (case sv_acl_engine sv of
        None \<Rightarrow> None
      | Some engine \<Rightarrow>
          (let decision = check_access (pv_is_match env) (pv_local_minutes env) engine url domain category_names
                            username groups (parse_client_ip client_ip)
           in if ad_action decision = Allow then None else Some decision))"

text \<open>A decision made afresh: categories, then the access rules.\<close>

definition evaluate_policy ::
  "'re policy_env \<Rightarrow> string \<Rightarrow> string \<Rightarrow> string option \<Rightarrow> string list \<Rightarrow> string \<Rightarrow> 're policy_service \<Rightarrow>
   (acl_decision option \<times> string list \<times> string list) \<times> 're policy_service" where
  "evaluate_policy env url domain username groups client_ip sv =
     (let ((category_names, threat_sources, _), sv') = categorize_url env url sv
      in ((check_acl env url domain category_names username groups client_ip sv', category_names, threat_sources), sv'))"

definition check_policy ::
  "'re policy_env \<Rightarrow> string \<Rightarrow> string \<Rightarrow> string option \<Rightarrow> string list \<Rightarrow> string \<Rightarrow> 're policy_service \<Rightarrow>
   (acl_decision option \<times> string list \<times> string list) \<times> 're policy_service" where
  "check_policy env url domain username groups client_ip sv =
     (let policy_active = (sv_acl_engine sv \<noteq> None \<or> sv_categorization sv \<noteq> None);
          cached = (if policy_active \<and> policy_cache_enabled (sv_policy_cache sv)
                    then policy_lookup (pv_now env) username domain groups (sv_policy_cache sv) else None);
          ((blocking, category_names, threat_sources), sv1) =
            (case cached of
               Some hit \<Rightarrow> ((ph_blocking hit, ph_categories hit, ph_threat_sources hit), sv)
             | None \<Rightarrow> evaluate_policy env url domain username groups client_ip sv);
          (_, threat_sources, blocking) =
            apply_to_policy (pv_now env) domain client_ip threat_sources blocking (sv_threat_score_cache sv1);
          sv2 = (if policy_active \<and> policy_cache_enabled (sv_policy_cache sv1) \<and> cached = None
                 then sv1\<lparr>sv_policy_cache :=
                        policy_store (pv_now env) username domain groups category_names threat_sources blocking
                          (sv_policy_cache sv1)\<rparr>
                 else sv1)
      in ((blocking, category_names, threat_sources), sv2))"

subsection \<open>Responses\<close>

text \<open>\<open>header_ok\<close> tells which texts the HTTP library accepts as a header value; a builder that
  failed is replaced by a plain response with status 200.\<close>

definition policy_response :: "(string \<Rightarrow> bool) \<Rightarrow> acl_decision \<Rightarrow> response" where
  "policy_response header_ok decision =
     (case ad_action decision of
        Deny \<Rightarrow>
          \<lparr>rs_status = 403, rs_headers = [(''content-type'', ''text/plain; charset=utf-8'')],
           rs_body = ''403 Forbidden: '' @ ad_reason decision\<rparr>
      | Redirect \<Rightarrow>
          (let target = (case ad_redirect_url decision of Some (c # cs) \<Rightarrow> c # cs | _ \<Rightarrow> ''about:blank'')
           in if header_ok target
              then \<lparr>rs_status = 302, rs_headers = [(''location'', target)], rs_body = []\<rparr>
              else \<lparr>rs_status = 200, rs_headers = [], rs_body = []\<rparr>)
      | Allow \<Rightarrow> \<lparr>rs_status = 200, rs_headers = [], rs_body = []\<rparr>)"

definition rate_limit_response :: "nat \<Rightarrow> string \<Rightarrow> response" where
  "rate_limit_response status body =
     \<lparr>rs_status = status,
      rs_headers = (''content-type'', ''text/plain; charset=utf-8'') #
        (if status = 429 then [(''retry-after'', ''1'')] else []),
      rs_body = body\<rparr>"

fun violation_response :: "rate_limit_violation \<Rightarrow> response" where
  "violation_response Ip = rate_limit_response 429 ''429 Too Many Requests: rate limit exceeded''"
| "violation_response User = rate_limit_response 429 ''429 Too Many Requests: rate limit exceeded''"
| "violation_response ApiKey = rate_limit_response 429 ''429 Too Many Requests: API key rate limit exceeded''"
| "violation_response ApiKeyMissing = rate_limit_response 401 ''401 Unauthorized: API key required''"

definition check_rate_limit ::
  "(string \<Rightarrow> string option) \<Rightarrow> nat \<Rightarrow> time \<Rightarrow> string \<Rightarrow> string option \<Rightarrow> headers \<Rightarrow> rate_limiter \<Rightarrow>
   response option \<times> rate_limiter" where
  "check_rate_limit to_str ord now client_ip username hs limiter =
     (let api_key = extract_api_key to_str hs (rl_config limiter);
          (violation, limiter') = check ord now client_ip username api_key limiter
      in (map_option violation_response violation, limiter'))"

section \<open>Lemmas\<close>

lemma categorize_url_keeps [simp]:
  "sv_policy_cache (snd (categorize_url env url sv)) = sv_policy_cache sv"
  "sv_threat_score_cache (snd (categorize_url env url sv)) = sv_threat_score_cache sv"
  "sv_acl_engine (snd (categorize_url env url sv)) = sv_acl_engine sv"
  "sv_categorization (snd (categorize_url env url sv)) = None \<longleftrightarrow> sv_categorization sv = None"
  by (simp_all add: categorize_url_def Let_def case_prod_beta split: option.splits)

lemma evaluate_policy_keeps [simp]:
  "sv_policy_cache (snd (evaluate_policy env url d u g ip sv)) = sv_policy_cache sv"
  "sv_threat_score_cache (snd (evaluate_policy env url d u g ip sv)) = sv_threat_score_cache sv"
  "sv_acl_engine (snd (evaluate_policy env url d u g ip sv)) = sv_acl_engine sv"
  "sv_categorization (snd (evaluate_policy env url d u g ip sv)) = None \<longleftrightarrow> sv_categorization sv = None"
  by (simp_all add: evaluate_policy_def Let_def case_prod_beta)

definition policy_active :: "'re policy_service \<Rightarrow> bool" where
  "policy_active sv \<longleftrightarrow> sv_acl_engine sv \<noteq> None \<or> sv_categorization sv \<noteq> None"

definition policy_cached :: "'re policy_env \<Rightarrow> string option \<Rightarrow> string \<Rightarrow> string list \<Rightarrow> 're policy_service \<Rightarrow> policy_cache_hit option" where
  "policy_cached env u d g sv =
     (if policy_active sv \<and> policy_cache_enabled (sv_policy_cache sv)
      then policy_lookup (pv_now env) u d g (sv_policy_cache sv) else None)"

definition tighten ::
  "'re policy_env \<Rightarrow> string \<Rightarrow> string \<Rightarrow> threat_score_cache \<Rightarrow>
   acl_decision option \<times> string list \<times> string list \<Rightarrow> acl_decision option \<times> string list \<times> string list" where
  "tighten env d ip c r =
     (case r of (b, cats, src) \<Rightarrow>
       (case apply_to_policy (pv_now env) d ip src b c of (_, src', b') \<Rightarrow> (b', cats, src')))"

text \<open>The two ways through \<^const>\<open>check_policy\<close>.\<close>

lemma check_policy_hit:
  "policy_cached env u d g sv = Some hit \<Longrightarrow>
     check_policy env url d u g ip sv =
       (tighten env d ip (sv_threat_score_cache sv) (ph_blocking hit, ph_categories hit, ph_threat_sources hit), sv)"
  by (auto simp: check_policy_def policy_cached_def policy_active_def tighten_def Let_def
      split: if_splits prod.splits)

lemma check_policy_miss:
  assumes "policy_cached env u d g sv = None"
  shows "check_policy env url d u g ip sv =
    (let e = evaluate_policy env url d u g ip sv;
         r = tighten env d ip (sv_threat_score_cache sv) (fst e)
     in (r, if policy_active sv \<and> policy_cache_enabled (sv_policy_cache sv)
            then (snd e)\<lparr>sv_policy_cache :=
                   policy_store (pv_now env) u d g (fst (snd r)) (snd (snd r)) (fst r) (sv_policy_cache sv)\<rparr>
            else snd e))"
proof -
  obtain b cats src sv1 where e: "evaluate_policy env url d u g ip sv = ((b, cats, src), sv1)"
    by (metis prod.collapse)
  have keep: "sv_policy_cache sv1 = sv_policy_cache sv" "sv_threat_score_cache sv1 = sv_threat_score_cache sv"
    using evaluate_policy_keeps [of env url d u g ip sv] e by simp_all
  obtain f src' b' where t: "apply_to_policy (pv_now env) d ip src b (sv_threat_score_cache sv) = (f, src', b')"
    by (metis prod.collapse)
  have m: "(if (sv_acl_engine sv \<noteq> None \<or> sv_categorization sv \<noteq> None) \<and> policy_cache_enabled (sv_policy_cache sv)
      then policy_lookup (pv_now env) u d g (sv_policy_cache sv) else None) = None"
    using assms by (simp add: policy_cached_def policy_active_def)
  show ?thesis
    unfolding check_policy_def Let_def m
    by (simp add: e keep t tighten_def policy_active_def)
qed

text \<open>A decision made afresh is what later requests of the same principal to the domain find.\<close>

lemma check_policy_cached:
  assumes "policy_active sv" "policy_cache_enabled (sv_policy_cache sv)"
    and "policy_cached env u d g sv = None"
    and "pv_now env' - pv_now env \<le> pcc_ttl (pc_config (sv_policy_cache sv))"
    and "check_policy env url d u g ip sv = (res, sv')"
  shows "policy_cached env' u d g sv' =
      Some \<lparr>ph_blocking = fst res, ph_categories = fst (snd res), ph_threat_sources = snd (snd res)\<rparr>"
    and "sv_threat_score_cache sv' = sv_threat_score_cache sv"
proof -
  obtain e where e: "e = evaluate_policy env url d u g ip sv" by simp
  have res: "res = tighten env d ip (sv_threat_score_cache sv) (fst e)"
    and sv': "sv' = (snd e)\<lparr>sv_policy_cache :=
        policy_store (pv_now env) u d g (fst (snd res)) (snd (snd res)) (fst res) (sv_policy_cache sv)\<rparr>"
    using assms(1,2,5) check_policy_miss [OF assms(3), of url ip] by (auto simp: e Let_def)
  show "sv_threat_score_cache sv' = sv_threat_score_cache sv" by (simp add: sv' e)
  have "policy_active sv'" using assms(1) by (simp add: sv' e policy_active_def)
  then show "policy_cached env' u d g sv' =
      Some \<lparr>ph_blocking = fst res, ph_categories = fst (snd res), ph_threat_sources = snd (snd res)\<rparr>"
    using assms(2) policy_lookup_store [OF assms(2,4)]
    by (simp add: policy_cached_def sv' policy_cache_enabled_def policy_store_def policy_insert_def)
qed

lemma tighten_blocks:
  assumes "threat_lookup (pv_now env) d ip c = Some hit" "block_enabled (ts_config c)"
    "tc_block_threshold (ts_config c) \<le> th_score hit"
  shows "fst (tighten env d ip c r) \<noteq> None"
  using assms by (cases r) (auto simp: tighten_def apply_to_policy_def Let_def split: option.splits)

lemma tighten_none:
  "fst (tighten env d ip c (b, cats, src)) = None \<longleftrightarrow>
     b = None \<and>
     (case threat_lookup (pv_now env) d ip c of
        None \<Rightarrow> True
      | Some hit \<Rightarrow> \<not> (block_enabled (ts_config c) \<and> tc_block_threshold (ts_config c) \<le> th_score hit))"
  by (auto simp: tighten_def apply_to_policy_def Let_def split: option.splits)

section \<open>Properties\<close>

text \<open>A current threat score is never bypassed: when blocking by score is on and the best fresh
  score of the domain or the client reaches the threshold, the request is blocked, whether or not
  the decision cache holds an earlier permission.\<close>

theorem threat_score_never_bypassed:
  assumes "threat_lookup (pv_now env) d ip (sv_threat_score_cache sv) = Some hit"
    and "block_enabled (ts_config (sv_threat_score_cache sv))"
    and "tc_block_threshold (ts_config (sv_threat_score_cache sv)) \<le> th_score hit"
  shows "fst (fst (check_policy env url d u g ip sv)) \<noteq> None"
proof (cases "policy_cached env u d g sv")
  case None
  then show ?thesis by (simp only: check_policy_miss Let_def fst_conv) (rule tighten_blocks [OF assms])
next
  case (Some h)
  then show ?thesis by (simp only: check_policy_hit fst_conv) (rule tighten_blocks [OF assms])
qed

text \<open>A decision made afresh lets a request pass exactly when the access rules allow it with the
  categories of its URL and no fresh threat score blocks it; and it is then put into the decision
  cache, when that is on, for the same principal and domain.\<close>

theorem check_policy_fresh:
  assumes "policy_cached env u d g sv = None"
  shows "(fst (fst (check_policy env url d u g ip sv)) = None) =
      (check_acl env url d (fst (fst (categorize_url env url sv))) u g ip sv = None \<and>
       (case threat_lookup (pv_now env) d ip (sv_threat_score_cache sv) of
          None \<Rightarrow> True
        | Some hit \<Rightarrow> \<not> (block_enabled (ts_config (sv_threat_score_cache sv)) \<and>
                        tc_block_threshold (ts_config (sv_threat_score_cache sv)) \<le> th_score hit))) \<and>
    (policy_active sv \<and> policy_cache_enabled (sv_policy_cache sv) \<longrightarrow>
      map_option ph_blocking (policy_cached env u d g (snd (check_policy env url d u g ip sv))) =
        Some (fst (fst (check_policy env url d u g ip sv))))"
    (is "?passes \<and> ?cached")
proof
  have acl: "check_acl env url d cats u g ip (snd (categorize_url env url sv)) = check_acl env url d cats u g ip sv" for cats
    by (simp add: check_acl_def)
  have e: "fst (evaluate_policy env url d u g ip sv) =
      (check_acl env url d (fst (fst (categorize_url env url sv))) u g ip sv,
       fst (fst (categorize_url env url sv)), fst (snd (fst (categorize_url env url sv))))"
    by (simp add: evaluate_policy_def Let_def case_prod_beta acl)
  show ?passes unfolding check_policy_miss [OF assms] Let_def fst_conv e tighten_none ..
  show ?cached
    using policy_lookup_store [of "sv_policy_cache sv" "pv_now env" "pv_now env"]
    by (auto simp: check_policy_miss [OF assms] Let_def policy_cached_def policy_active_def
        policy_store_def policy_cache_enabled_def)
qed

text \<open>The decision cache ignores the URL and the client address: once a decision for a domain has been
  made, every request of the same principal to that domain within the lifetime gets that decision,
  whatever its URL and address, tightened only by threat scores. A rule on a URL prefix, a
  regular expression, an address range or a time window is then not consulted.\<close>

theorem policy_cache_ignores_url:
  assumes "policy_active sv" "policy_cache_enabled (sv_policy_cache sv)"
    and "policy_cached env u d g sv = None"
    and "pv_now env' - pv_now env \<le> pcc_ttl (pc_config (sv_policy_cache sv))"
    and "check_policy env url d u g ip sv = (res, sv')"
  shows "check_policy env' url' d u g ip' sv' = (tighten env' d ip' (sv_threat_score_cache sv) res, sv')"
  using check_policy_cached [OF assms] check_policy_hit [of env' u d g sv' _ url' ip'] by simp

text \<open>TLS is terminated exactly when the mode is not SNI-only, interception is on, the host is no
  pinning exception, and the mode is full interception or one of the host's categories is
  selected.\<close>

theorem tls_inspection_characterised:
  "tp_mitm (fst (tls_policy_decision env domain sv)) =
     (sv_policy_mode sv \<noteq> Sni \<and> sv_mitm_enabled sv \<and>
      \<not> pinning_matches (pv_unix_now env) domain (sv_pinning_registry sv) \<and>
      (sv_policy_mode sv = FullMitm \<or>
       list_ex (\<lambda>cat. List.member (sv_mitm_categories sv) (to_ascii_lowercase cat))
         (fst (fst (categorize_url env (''https://'' @ domain) sv)))))"
  by (cases "sv_policy_mode sv")
    (auto simp: tls_policy_decision_def classify_tls_policy_decision_def Let_def case_prod_beta)

text \<open>In production no host is intercepted without cause: a configuration that passes the start-up check
  with the production profile terminates TLS only for hosts with a selected category that are no
  pinning exceptions.\<close>

theorem production_intercepts_selected_only:
  assumes "validate_mitm_policy conf (sv_policy_mode sv) = Inr Production"
    and "tp_mitm (fst (tls_policy_decision env domain sv))"
  shows "\<not> pinning_matches (pv_unix_now env) domain (sv_pinning_registry sv) \<and>
    (\<exists>cat \<in> set (fst (fst (categorize_url env (''https://'' @ domain) sv))).
      to_ascii_lowercase cat \<in> set (sv_mitm_categories sv))"
proof -
  have "sv_policy_mode sv \<noteq> FullMitm"
    using assms(1)
    by (auto simp: validate_mitm_policy_def validate_mitm_policy_values_def split: sum.splits option.splits if_splits)
  moreover have "sv_policy_mode sv \<noteq> Sni"
    using assms(2) by (auto simp: tls_policy_decision_def classify_tls_policy_decision_def)
  ultimately have "sv_policy_mode sv = SelectiveMitm" by (cases "sv_policy_mode sv") auto
  with assms(2) show ?thesis
    by (auto simp: tls_policy_decision_def classify_tls_policy_decision_def Let_def case_prod_beta
        list_ex_iff split: if_splits)
qed

section \<open>Witnesses\<close>

definition demo_penv :: "time \<Rightarrow> string policy_env" where
  "demo_penv t =
     \<lparr>pv_is_match = demo_is_match, pv_now = t, pv_unix_now = 0, pv_local_minutes = 0,
      pv_url_host = \<lambda>u. Some ''www.example.com''\<rparr>"

definition demo_threats :: threat_score_cache where
  "demo_threats =
     \<lparr>ts_config = \<lparr>tc_enabled = True, tc_poll_url = [], tc_poll_interval = 60, tc_cache_ttl = 300,
        tc_warn_threshold = 1 / 2, tc_block_threshold = 9 / 10\<rparr>,
      ts_entries = [(''domain:x'', \<lparr>te_hit = \<lparr>th_score = 1, th_severity = ''high'', th_model = ''m'', th_entity_type = ''domain'', th_entity_id = ''x''\<rparr>, te_cached_at = 0\<rparr>)]\<rparr>"

definition demo_service :: "string policy_service" where
  "demo_service =
     \<lparr>sv_acl_engine = load_rules demo_regex_new [demo_rule ''r'' 1 Deny (UrlPrefix ''http://x/secret'')] (acl_new Allow),
      sv_categorization = Some demo_engine_cz,
      sv_policy_cache = policy_cache_new \<lparr>pcc_ttl = 100, pcc_max_keys = 10\<rparr>,
      sv_threat_score_cache = demo_threats\<lparr>ts_entries := []\<rparr>, sv_policy_mode = SelectiveMitm, sv_mitm_enabled = True,
      sv_mitm_categories = [''adult''],
      sv_pinning_registry = \<lparr>pg_entries = [], pg_source_path = None, pg_audit_path = None\<rparr>\<rparr>"

theorem threat_score_never_bypassed_witness:
  "fst (fst (check_policy (demo_penv 5) ''http://x/'' ''x'' None [] ''10.0.0.1''
     (demo_service\<lparr>sv_threat_score_cache := demo_threats\<rparr>))) \<noteq> None"
  by (rule threat_score_never_bypassed
      [where hit = "\<lparr>th_score = 1, th_severity = ''high'', th_model = ''m'', th_entity_type = ''domain'', th_entity_id = ''x''\<rparr>"])
    (simp_all add: threat_lookup_def demo_threats_def threat_candidates_def threat_cache_key_def demo_penv_def block_enabled_def)

theorem check_policy_fresh_witness:
  "fst (fst (check_policy (demo_penv 0) ''http://x/secret'' ''x'' None [] ''10.0.0.1'' demo_service)) \<noteq> None"
proof -
  have n: "policy_cached (demo_penv 0) None ''x'' [] demo_service = None" by code_simp
  have "check_acl (demo_penv 0) ''http://x/secret'' ''x''
      (fst (fst (categorize_url (demo_penv 0) ''http://x/secret'' demo_service))) None [] ''10.0.0.1'' demo_service \<noteq> None"
    by code_simp
  then show ?thesis using check_policy_fresh [OF n, of "''http://x/secret''" "''10.0.0.1''"] by simp
qed

text \<open>The first URL is allowed and cached; the second, which the rules deny, passes.\<close>

theorem policy_cache_ignores_url_witness:
  "fst (fst (check_policy (demo_penv 5) ''http://x/secret'' ''x'' None [] ''10.0.0.2''
      (snd (check_policy (demo_penv 0) ''http://x/ok'' ''x'' None [] ''10.0.0.1'' demo_service)))) = None \<and>
   check_acl (demo_penv 5) ''http://x/secret'' ''x'' [] None [] ''10.0.0.2'' demo_service =
     Some (acl_deny ''r'' ''Blocked by rule: r'')"
proof
  let ?first = "check_policy (demo_penv 0) ''http://x/ok'' ''x'' None [] ''10.0.0.1'' demo_service"
  have n: "policy_cached (demo_penv 0) None ''x'' [] demo_service = None" by code_simp
  have p: "policy_active demo_service" "policy_cache_enabled (sv_policy_cache demo_service)" by code_simp+
  have acl: "check_acl (demo_penv 0) ''http://x/ok'' ''x''
      (fst (fst (categorize_url (demo_penv 0) ''http://x/ok'' demo_service))) None [] ''10.0.0.1'' demo_service = None"
    by code_simp
  have no_threat: "threat_lookup t ''x'' ip (sv_threat_score_cache demo_service) = None" for t ip
    by (simp add: threat_lookup_def demo_service_def demo_threats_def threat_candidates_def)
  have "fst (fst ?first) = None"
    using check_policy_fresh [OF n, of "''http://x/ok''" "''10.0.0.1''"] acl by (simp add: no_threat)
  moreover have "check_policy (demo_penv 5) ''http://x/secret'' ''x'' None [] ''10.0.0.2'' (snd ?first) =
      (tighten (demo_penv 5) ''x'' ''10.0.0.2'' (sv_threat_score_cache demo_service) (fst ?first), snd ?first)"
    using policy_cache_ignores_url [OF p n, of "demo_penv 5" "''http://x/ok''" "''10.0.0.1''" "fst ?first" "snd ?first"
        "''http://x/secret''" "''10.0.0.2''"]
    by (simp add: demo_penv_def demo_service_def policy_cache_new_def)
  ultimately show "fst (fst (check_policy (demo_penv 5) ''http://x/secret'' ''x'' None [] ''10.0.0.2'' (snd ?first))) = None"
    by (cases "fst ?first") (simp add: tighten_none no_threat)
  show "check_acl (demo_penv 5) ''http://x/secret'' ''x'' [] None [] ''10.0.0.2'' demo_service =
     Some (acl_deny ''r'' ''Blocked by rule: r'')" by code_simp
qed

theorem production_intercepts_selected_only_witness:
  "\<exists>cat \<in> set (fst (fst (categorize_url (demo_penv 0) ''https://www.example.com'' demo_service))).
      to_ascii_lowercase cat \<in> set (sv_mitm_categories demo_service)"
proof -
  have v: "validate_mitm_policy (\<lambda>_. None) (sv_policy_mode demo_service) = Inr Production" by code_simp
  have m: "tp_mitm (fst (tls_policy_decision (demo_penv 0) ''www.example.com'' demo_service))" by code_simp
  show ?thesis using production_intercepts_selected_only [OF v m] by simp
qed

end
