(* ===== verification/Session.thy ===== *)
theory Session
  imports Prelude
begin

text \<open>
  Sessions: the correlator of requests into browsing sessions and redirect chains
  (\<^verbatim>\<open>proxy/src/session.rs\<close>), and the store of login sessions shared through Redis
  (\<^verbatim>\<open>proxy/src/session_store.rs\<close>). Random identifiers are inputs. The URL library is the record
  \<open>url_lib\<close>: parsing with the fragment dropped and the host in lower case, printed again, and joining
  a relative reference. \<open>sha\<close> is the hexadecimal SHA-256 of a text.
\<close>

section \<open>Definitions\<close>

subsection \<open>Correlator\<close>

record url_lib =
  ul_canon :: "string \<Rightarrow> string option"
  ul_join :: "string \<Rightarrow> string \<Rightarrow> string option"

record session_correlation =
  sx_session_id :: string
  sx_parent_event_id :: "string option"

record session_entry =
  se_session_id :: string
  se_last_seen :: time

record pending_redirect =
  pr_event_id :: string
  pr_expires_at :: time

record session_correlator =
  sc_sessions :: "(string, session_entry) hash_map"
  sc_redirects :: "(string, pending_redirect) hash_map"
  sc_idle :: duration
  sc_redirect_ttl :: duration
  sc_max_sessions :: nat
  sc_max_redirects :: nat

definition correlator_new :: "duration \<Rightarrow> duration \<Rightarrow> nat \<Rightarrow> nat \<Rightarrow> session_correlator" where
  "correlator_new idle redirect_ttl max_sessions max_redirects =
     \<lparr>sc_sessions = [], sc_redirects = [], sc_idle = idle, sc_redirect_ttl = redirect_ttl,
      sc_max_sessions = max_sessions, sc_max_redirects = max_redirects\<rparr>"

definition correlator_from_env :: "(string \<Rightarrow> string option) \<Rightarrow> session_correlator" where
  "correlator_from_env env =
     correlator_new
       (from_secs (max (env_uint env u64_max ''SESSION_IDLE_SECONDS'' 1800) 60))
       (from_secs (max (env_uint env u64_max ''SESSION_REDIRECT_TTL_SECONDS'' 60) 5))
       (max (env_uint env u64_max ''SESSION_MAX_KEYS'' 50000) 100)
       (max (env_uint env u64_max ''SESSION_MAX_REDIRECTS'' 20000) 100)"

definition is_redirect_status :: "nat \<Rightarrow> bool" where
  "is_redirect_status status \<longleftrightarrow> List.member [301, 302, 303, 307, 308] status"

definition header_ci :: "headers \<Rightarrow> string \<Rightarrow> string option" where
  "header_ci hs name = map_option snd (find (\<lambda>(k, _). eq_ignore_ascii_case k name) hs)"

definition normalize_url :: "url_lib \<Rightarrow> string \<Rightarrow> string" where
  "normalize_url lib raw =
     (case ul_canon lib raw of None \<Rightarrow> trim_end_matches CHR ''#'' raw | Some u \<Rightarrow> u)"

definition resolve_location :: "url_lib \<Rightarrow> string \<Rightarrow> string \<Rightarrow> string" where
  "resolve_location lib request_url location =
     (let loc = trim location in
      if starts_with loc ''http://'' \<or> starts_with loc ''https://'' then normalize_url lib loc
      else
        (case ul_join lib request_url loc of
           Some joined \<Rightarrow> normalize_url lib joined
         | None \<Rightarrow> normalize_url lib loc))"

definition or_empty :: "string option \<Rightarrow> string" where
  "or_empty s = (case s of None \<Rightarrow> [] | Some x \<Rightarrow> x)"

definition session_key_text :: "string \<Rightarrow> string option \<Rightarrow> string option \<Rightarrow> string" where
  "session_key_text client_ip username user_agent =
     client_ip @ [CHR 0x00] @ or_empty username @ [CHR 0x00] @ or_empty user_agent"

definition session_key :: "(string \<Rightarrow> string) \<Rightarrow> string \<Rightarrow> string option \<Rightarrow> string option \<Rightarrow> string" where
  "session_key sha client_ip username user_agent = sha (session_key_text client_ip username user_agent)"

definition redirect_key :: "url_lib \<Rightarrow> string \<Rightarrow> string \<Rightarrow> string" where
  "redirect_key lib client_ip url = client_ip @ [CHR 0x00] @ normalize_url lib url"

definition evict_idle_sessions ::
  "duration \<Rightarrow> time \<Rightarrow> (string, session_entry) hash_map \<Rightarrow> (string, session_entry) hash_map" where
  "evict_idle_sessions idle now m = filter (\<lambda>(_, e). now - se_last_seen e \<le> idle) m"

definition evict_expired_redirects ::
  "time \<Rightarrow> (string, pending_redirect) hash_map \<Rightarrow> (string, pending_redirect) hash_map" where
  "evict_expired_redirects now m = filter (\<lambda>(_, p). pr_expires_at p > now) m"

definition get_or_create_session ::
  "nat \<Rightarrow> time \<Rightarrow> string \<Rightarrow> string \<Rightarrow> session_correlator \<Rightarrow> string \<times> session_correlator" where
  "get_or_create_session ord now new_id key c =
     (let fresh =
            (let m = hm_drop_one ord (sc_max_sessions c) (evict_idle_sessions (sc_idle c) now (sc_sessions c))
             in (new_id,
                 c\<lparr>sc_sessions := AList.update key \<lparr>se_session_id = new_id, se_last_seen = now\<rparr> m\<rparr>))
      in case map_of (sc_sessions c) key of
           Some entry \<Rightarrow>
             (if now - se_last_seen entry \<le> sc_idle c
              then (se_session_id entry,
                    c\<lparr>sc_sessions := AList.update key (entry\<lparr>se_last_seen := now\<rparr>) (sc_sessions c)\<rparr>)
              else fresh)
         | None \<Rightarrow> fresh)"

definition take_pending_redirect ::
  "url_lib \<Rightarrow> time \<Rightarrow> string \<Rightarrow> string \<Rightarrow> session_correlator \<Rightarrow> string option \<times> session_correlator" where
  "take_pending_redirect lib now client_ip request_url c =
     (let key = redirect_key lib client_ip request_url;
          m = evict_expired_redirects now (sc_redirects c)
      in (map_option pr_event_id (map_of m key), c\<lparr>sc_redirects := AList.delete key m\<rparr>))"

record session_request =
  sq_client_ip :: string
  sq_username :: "string option"
  sq_user_agent :: "string option"
  sq_url :: string

definition request_key :: "(string \<Rightarrow> string) \<Rightarrow> session_request \<Rightarrow> string" where
  "request_key sha q = session_key sha (sq_client_ip q) (sq_username q) (sq_user_agent q)"

definition begin_request ::
  "url_lib \<Rightarrow> (string \<Rightarrow> string) \<Rightarrow> nat \<Rightarrow> time \<Rightarrow> string \<Rightarrow> session_request \<Rightarrow> session_correlator \<Rightarrow>
   session_correlation \<times> session_correlator" where
  "begin_request lib sha ord now new_id q c =
     (let (session_id, c1) = get_or_create_session ord now new_id (request_key sha q) c;
          (parent, c2) = take_pending_redirect lib now (sq_client_ip q) (sq_url q) c1
      in (\<lparr>sx_session_id = session_id, sx_parent_event_id = parent\<rparr>, c2))"

definition note_redirect ::
  "url_lib \<Rightarrow> nat \<Rightarrow> time \<Rightarrow> string \<Rightarrow> string \<Rightarrow> nat \<Rightarrow> string \<Rightarrow> string option \<Rightarrow> session_correlator \<Rightarrow>
   session_correlator" where
  "note_redirect lib ord now client_ip event_id status request_url location c =
     (if \<not> is_redirect_status status then c
      else
        (case location of
           None \<Rightarrow> c
         | Some loc \<Rightarrow>
             (if loc = [] then c
              else
                (let key = redirect_key lib client_ip (resolve_location lib request_url loc);
                     m = hm_drop_one ord (sc_max_redirects c) (evict_expired_redirects now (sc_redirects c))
                 in c\<lparr>sc_redirects :=
                        AList.update key \<lparr>pr_event_id = event_id, pr_expires_at = now + sc_redirect_ttl c\<rparr> m\<rparr>))))"

subsection \<open>Store of login sessions\<close>

text \<open>
  One node's local map and the Redis server, which the nodes share: a value with the time its
  lifetime ends. \<open>up\<close> tells whether Redis answers; an error is treated as no answer.
\<close>

type_synonym redis_db = "(string, string \<times> time) hash_map"

record session_node =
  sn_local_sessions :: "(string, string) hash_map"
  sn_redis_conn :: bool
  sn_key_prefix :: string
  sn_ttl_secs :: nat

definition store_new :: "(string \<Rightarrow> string option) \<Rightarrow> bool \<Rightarrow> session_node" where
  "store_new env redis_conn =
     \<lparr>sn_local_sessions = [], sn_redis_conn = redis_conn,
      sn_key_prefix = env_or env ''REDIS_SESSION_PREFIX'' ''bsdm:session:'',
      sn_ttl_secs = env_uint env u64_max ''REDIS_SESSION_TTL'' 86400\<rparr>"

definition redis_get :: "time \<Rightarrow> string \<Rightarrow> redis_db \<Rightarrow> string option" where
  "redis_get now k db =
     (case map_of db k of None \<Rightarrow> None | Some (v, expires) \<Rightarrow> if now < expires then Some v else None)"

definition get_session ::
  "bool \<Rightarrow> time \<Rightarrow> string \<Rightarrow> session_node \<times> redis_db \<Rightarrow> string option \<times> session_node \<times> redis_db" where
  "get_session up now sid s =
     (case s of (n, db) \<Rightarrow>
       (case map_of (sn_local_sessions n) sid of
          Some user \<Rightarrow> (Some user, s)
        | None \<Rightarrow>
            (if sn_redis_conn n \<and> up then
               (case redis_get now (sn_key_prefix n @ sid) db of
                  Some user \<Rightarrow>
                    (Some user, n\<lparr>sn_local_sessions := AList.update sid user (sn_local_sessions n)\<rparr>, db)
                | None \<Rightarrow> (None, s))
             else (None, s))))"

definition create_session ::
  "bool \<Rightarrow> time \<Rightarrow> string \<Rightarrow> string \<Rightarrow> session_node \<times> redis_db \<Rightarrow> string \<times> session_node \<times> redis_db" where
  "create_session up now sid username s =
     (case s of (n, db) \<Rightarrow>
       (sid, n\<lparr>sn_local_sessions := AList.update sid username (sn_local_sessions n)\<rparr>,
        (if sn_redis_conn n \<and> up
         then AList.update (sn_key_prefix n @ sid) (username, now + from_secs (sn_ttl_secs n)) db else db)))"

definition remove_session ::
  "bool \<Rightarrow> time \<Rightarrow> string \<Rightarrow> session_node \<times> redis_db \<Rightarrow> bool \<times> session_node \<times> redis_db" where
  "remove_session up now sid s =
     (case s of (n, db) \<Rightarrow>
       (let removed = hm_has (sn_local_sessions n) sid;
            n' = n\<lparr>sn_local_sessions := AList.delete sid (sn_local_sessions n)\<rparr>
        in if sn_redis_conn n \<and> up
           then (removed \<or> redis_get now (sn_key_prefix n @ sid) db \<noteq> None, n',
                 AList.delete (sn_key_prefix n @ sid) db)
           else (removed, n', db)))"

subsection \<open>Specification\<close>

definition correlator_inv :: "session_correlator \<Rightarrow> bool" where
  "correlator_inv c \<longleftrightarrow>
     hm_inv (sc_sessions c) \<and> hm_inv (sc_redirects c) \<and>
     length (sc_sessions c) \<le> sc_max_sessions c \<and> length (sc_redirects c) \<le> sc_max_redirects c \<and>
     0 < sc_max_sessions c \<and> 0 < sc_max_redirects c"

datatype correlator_op =
  Begin nat time string session_request
| Note nat time string string nat string "string option"

fun correlator_step ::
  "url_lib \<Rightarrow> (string \<Rightarrow> string) \<Rightarrow> correlator_op \<Rightarrow> session_correlator \<Rightarrow> session_correlator" where
  "correlator_step lib sha (Begin ord now new_id q) c = snd (begin_request lib sha ord now new_id q c)"
| "correlator_step lib sha (Note ord now ip ev status url loc) c = note_redirect lib ord now ip ev status url loc c"

text \<open>What any number of nodes do to a store: one node acts, Redis is shared.\<close>

datatype store_op = Create nat bool time string string | Get nat bool time string | Remove nat bool time string

fun store_step :: "store_op \<Rightarrow> session_node list \<times> redis_db \<Rightarrow> session_node list \<times> redis_db" where
  "store_step (Create i up now sid u) (ns, db) =
     (if i < length ns then (case create_session up now sid u (ns ! i, db) of (_, n, db') \<Rightarrow> (ns[i := n], db')) else (ns, db))"
| "store_step (Get i up now sid) (ns, db) =
     (if i < length ns then (case get_session up now sid (ns ! i, db) of (_, n, db') \<Rightarrow> (ns[i := n], db')) else (ns, db))"
| "store_step (Remove i up now sid) (ns, db) =
     (if i < length ns then (case remove_session up now sid (ns ! i, db) of (_, n, db') \<Rightarrow> (ns[i := n], db')) else (ns, db))"

fun op_removes :: "nat \<Rightarrow> string \<Rightarrow> store_op \<Rightarrow> bool" where
  "op_removes i sid (Remove j _ _ sid') \<longleftrightarrow> j = i \<and> sid' = sid"
| "op_removes i sid _ \<longleftrightarrow> False"

fun op_creates :: "string \<Rightarrow> store_op \<Rightarrow> bool" where
  "op_creates sid (Create _ _ _ sid' _) \<longleftrightarrow> sid' = sid"
| "op_creates sid _ \<longleftrightarrow> False"

section \<open>Lemmas\<close>

lemma evict_idle_inv [simp]: "hm_inv m \<Longrightarrow> hm_inv (evict_idle_sessions idle now m)"
  by (simp add: evict_idle_sessions_def)

lemma evict_idle_length: "length (evict_idle_sessions idle now m) \<le> length m"
  by (simp add: evict_idle_sessions_def)

lemma evict_expired_inv [simp]: "hm_inv m \<Longrightarrow> hm_inv (evict_expired_redirects now m)"
  by (simp add: evict_expired_redirects_def)

lemma evict_expired_length: "length (evict_expired_redirects now m) \<le> length m"
  by (simp add: evict_expired_redirects_def)

lemma evict_idle_get:
  "hm_inv m \<Longrightarrow> map_of (evict_idle_sessions idle now m) k =
     (case map_of m k of None \<Rightarrow> None | Some e \<Rightarrow> if now - se_last_seen e \<le> idle then Some e else None)"
  unfolding evict_idle_sessions_def by (rule hm_get_filter)

lemma evict_expired_get:
  "hm_inv m \<Longrightarrow> map_of (evict_expired_redirects now m) k =
     (case map_of m k of None \<Rightarrow> None | Some p \<Rightarrow> if pr_expires_at p > now then Some p else None)"
  unfolding evict_expired_redirects_def by (rule hm_get_filter)

lemma begin_request_simps:
  "sc_sessions (snd (begin_request lib sha ord now i q c)) =
     sc_sessions (snd (get_or_create_session ord now i (request_key sha q) c))"
  "sc_redirects (snd (begin_request lib sha ord now i q c)) =
     AList.delete (redirect_key lib (sq_client_ip q) (sq_url q)) (evict_expired_redirects now (sc_redirects c))"
  "sx_session_id (fst (begin_request lib sha ord now i q c)) =
     fst (get_or_create_session ord now i (request_key sha q) c)"
  "sx_parent_event_id (fst (begin_request lib sha ord now i q c)) =
     map_option pr_event_id (map_of (evict_expired_redirects now (sc_redirects c)) (redirect_key lib (sq_client_ip q) (sq_url q)))"
  "sc_idle (snd (begin_request lib sha ord now i q c)) = sc_idle c"
  "sc_redirect_ttl (snd (begin_request lib sha ord now i q c)) = sc_redirect_ttl c"
  "sc_max_sessions (snd (begin_request lib sha ord now i q c)) = sc_max_sessions c"
  "sc_max_redirects (snd (begin_request lib sha ord now i q c)) = sc_max_redirects c"
  by (simp_all add: begin_request_def take_pending_redirect_def get_or_create_session_def Let_def case_prod_beta
      split: option.splits)

lemma session_map_inv:
  "hm_inv (sc_sessions c) \<Longrightarrow> hm_inv (sc_sessions (snd (get_or_create_session ord now i key c)))"
  by (simp add: get_or_create_session_def Let_def split: option.splits)

lemma session_map_length:
  assumes "hm_inv (sc_sessions c)" "length (sc_sessions c) \<le> sc_max_sessions c" "0 < sc_max_sessions c"
  shows "length (sc_sessions (snd (get_or_create_session ord now i key c))) \<le> sc_max_sessions c"
proof -
  have "length (AList.update key v (hm_drop_one ord (sc_max_sessions c)
      (evict_idle_sessions (sc_idle c) now (sc_sessions c)))) \<le> sc_max_sessions c" for v
    using assms evict_idle_length [of "sc_idle c" now "sc_sessions c"] by (intro hm_drop_one_length) auto
  then show ?thesis
    using assms(2) by (auto simp: get_or_create_session_def Let_def hm_length_update hm_has_def split: option.splits)
qed

lemma correlator_step_inv: "correlator_inv c \<Longrightarrow> correlator_inv (correlator_step lib sha op c)"
proof (cases op)
  case (Begin ord now i q)
  assume inv: "correlator_inv c"
  have "length (AList.delete k (evict_expired_redirects now (sc_redirects c))) \<le> sc_max_redirects c" for k
    using inv evict_expired_length [of now "sc_redirects c"] hm_length_delete_le [of k "evict_expired_redirects now (sc_redirects c)"]
    by (simp add: correlator_inv_def)
  with inv Begin session_map_inv session_map_length show ?thesis
    by (auto simp: correlator_inv_def begin_request_simps)
next
  case (Note ord now ip ev st url loc)
  assume inv: "correlator_inv c"
  have "length (AList.update k v (hm_drop_one ord (sc_max_redirects c) (evict_expired_redirects now (sc_redirects c)))) \<le> sc_max_redirects c" for k v
    using inv evict_expired_length [of now "sc_redirects c"] by (intro hm_drop_one_length) (auto simp: correlator_inv_def)
  with inv Note show ?thesis
    by (auto simp: correlator_inv_def note_redirect_def Let_def split: option.splits)
qed

text \<open>Another key's request leaves a live session alone while there is room.\<close>

lemma other_request_keeps:
  assumes "hm_inv (sc_sessions c)" "key \<noteq> k" "map_of (sc_sessions c) k = Some e" "now - se_last_seen e \<le> sc_idle c"
    "length (sc_sessions c) < sc_max_sessions c"
  shows "map_of (sc_sessions (snd (get_or_create_session ord now i key c))) k = Some e"
proof -
  have "hm_drop_one ord (sc_max_sessions c) (evict_idle_sessions (sc_idle c) now (sc_sessions c)) =
      evict_idle_sessions (sc_idle c) now (sc_sessions c)"
    using assms(5) evict_idle_length [of "sc_idle c" now "sc_sessions c"] by (intro hm_drop_one_room) simp
  then show ?thesis
    using assms by (simp add: get_or_create_session_def Let_def evict_idle_get split: option.splits)
qed

lemma other_request_grows:
  "length (sc_sessions (snd (get_or_create_session ord now i key c))) \<le> Suc (length (sc_sessions c))"
proof -
  have "length (hm_drop_one ord mx m) \<le> length m" for mx and m :: "(string, session_entry) hash_map"
    by (simp add: hm_drop_one_def hm_length_delete_le)
  then have "length (hm_drop_one ord (sc_max_sessions c) (evict_idle_sessions (sc_idle c) now (sc_sessions c))) \<le> length (sc_sessions c)"
    using evict_idle_length le_trans by blast
  then show ?thesis
    by (auto simp: get_or_create_session_def Let_def hm_length_update hm_has_def split: option.splits)
qed

lemma session_after:
  assumes "hm_inv (sc_sessions c)"
  shows "map_of (sc_sessions (snd (get_or_create_session ord now i key c))) key =
    Some \<lparr>se_session_id = fst (get_or_create_session ord now i key c), se_last_seen = now\<rparr>"
  by (auto simp: get_or_create_session_def Let_def split: option.splits)

lemma session_again:
  assumes "hm_inv (sc_sessions c)" "map_of (sc_sessions c) key = Some \<lparr>se_session_id = s, se_last_seen = t\<rparr>"
  shows "fst (get_or_create_session ord now i key c) = (if now - t \<le> sc_idle c then s else i)"
  using assms by (simp add: get_or_create_session_def Let_def)

lemma others_keep_session:
  assumes "hm_inv (sc_sessions c)" "map_of (sc_sessions c) k = Some \<lparr>se_session_id = s, se_last_seen = t\<rparr>"
    and "\<forall>(ord, now, i, q) \<in> set others. request_key sha q \<noteq> k \<and> now - t \<le> sc_idle c"
    and "length (sc_sessions c) + length others \<le> sc_max_sessions c"
  shows "hm_inv (sc_sessions (fold (\<lambda>(ord, now, i, q). snd \<circ> begin_request lib sha ord now i q) others c)) \<and>
    map_of (sc_sessions (fold (\<lambda>(ord, now, i, q). snd \<circ> begin_request lib sha ord now i q) others c)) k =
      Some \<lparr>se_session_id = s, se_last_seen = t\<rparr> \<and>
    sc_idle (fold (\<lambda>(ord, now, i, q). snd \<circ> begin_request lib sha ord now i q) others c) = sc_idle c"
  using assms
proof (induction others arbitrary: c)
  case (Cons x others)
  obtain ord now i q where x: "x = (ord, now, i, q)" by (cases x) auto
  let ?c = "snd (begin_request lib sha ord now i q c)"
  have "map_of (sc_sessions ?c) k = Some \<lparr>se_session_id = s, se_last_seen = t\<rparr>"
    using Cons.prems x by (auto simp: begin_request_simps intro!: other_request_keeps)
  moreover have "length (sc_sessions ?c) \<le> Suc (length (sc_sessions c))"
    by (simp add: begin_request_simps other_request_grows)
  moreover have "hm_inv (sc_sessions ?c)"
    using Cons.prems(1) by (simp add: begin_request_simps session_map_inv)
  ultimately show ?case
    using Cons.IH [of ?c] Cons.prems(3,4) x by (simp add: begin_request_simps)
qed simp

lemma normalize_url_idem:
  assumes "\<And>u v. ul_canon lib u = Some v \<Longrightarrow> ul_canon lib v = Some v" "ul_canon lib u = Some v"
  shows "normalize_url lib (normalize_url lib u) = normalize_url lib u"
  using assms by (simp add: normalize_url_def)

lemma get_keeps_local:
  "map_of (sn_local_sessions (fst (snd (get_session up now sid' (n, db))))) sid =
     (case map_of (sn_local_sessions n) sid of
        Some u \<Rightarrow> Some u
      | None \<Rightarrow> (if sid' = sid then fst (get_session up now sid' (n, db)) else None))"
  by (auto simp: get_session_def split: option.splits)

section \<open>Properties\<close>

text \<open>A browsing session lasts as long as its requests are no further apart than the idle time: a request
  with the same address, user and agent gets the session of the previous one, whatever other
  clients did in between while the table had room for them; and after a longer pause it gets a new
  session.\<close>

theorem session_continues:
  assumes "correlator_inv c" "begin_request lib sha ord t i q c = (r, c1)"
    and "\<forall>(ord, now, i, q') \<in> set others. request_key sha q' \<noteq> request_key sha q \<and> now - t \<le> sc_idle c"
    and "length (sc_sessions c1) + length others \<le> sc_max_sessions c"
    and "request_key sha q2 = request_key sha q"
  shows "sx_session_id (fst (begin_request lib sha ord2 t2 i2 q2
      (fold (\<lambda>(ord, now, i, q). snd \<circ> begin_request lib sha ord now i q) others c1))) =
    (if t2 - t \<le> sc_idle c then sx_session_id r else i2)"
proof -
  have c1: "c1 = snd (begin_request lib sha ord t i q c)" "r = fst (begin_request lib sha ord t i q c)"
    using assms(2) by simp_all
  have inv: "hm_inv (sc_sessions c)" using assms(1) by (simp add: correlator_inv_def)
  have "map_of (sc_sessions c1) (request_key sha q) = Some \<lparr>se_session_id = sx_session_id r, se_last_seen = t\<rparr>"
    unfolding c1 begin_request_simps by (rule session_after [OF inv])
  moreover have "hm_inv (sc_sessions c1)" unfolding c1 begin_request_simps by (rule session_map_inv [OF inv])
  moreover have "sc_idle c1 = sc_idle c" "sc_max_sessions c1 = sc_max_sessions c"
    by (simp_all add: c1 begin_request_simps)
  ultimately show ?thesis
    using others_keep_session [of c1 "request_key sha q" "sx_session_id r" t others sha lib] assms(3-5)
      session_again [of _ "request_key sha q"]
    by (simp add: begin_request_simps)
qed

text \<open>The tables of the correlator stay within their limits, and hold one entry per key, for every
  sequence of requests and redirects from start-up.\<close>

theorem correlator_bounded:
  "correlator_inv (fold (correlator_step lib sha) ops (correlator_from_env env))"
proof -
  have "correlator_inv (correlator_from_env env)"
    by (simp add: correlator_inv_def correlator_from_env_def correlator_new_def less_max_iff_disj)
  moreover have "correlator_inv c \<Longrightarrow> correlator_inv (fold (correlator_step lib sha) ops c)" for c
    by (induction ops arbitrary: c) (simp_all add: correlator_step_inv)
  ultimately show ?thesis by blast
qed

text \<open>A redirect is linked to the request that follows it: after a redirect response, the client's next
  request for the target, in any spelling with the same normal form, names the redirect's event as
  its parent if it comes before the entry expires, and only the first such request does.\<close>

theorem redirect_links_next:
  assumes "correlator_inv c" "is_redirect_status status" "loc \<noteq> []"
    and "normalize_url lib (sq_url q) = normalize_url lib (resolve_location lib url loc)"
    and "t2 - t < sc_redirect_ttl c"
    and "begin_request lib sha ord2 t2 i2 q (note_redirect lib ord t (sq_client_ip q) ev status url (Some loc) c) = (r, c')"
  shows "sx_parent_event_id r = Some ev \<and>
    sx_parent_event_id (fst (begin_request lib sha ord3 t3 i3 q c')) = None"
proof -
  let ?n = "note_redirect lib ord t (sq_client_ip q) ev status url (Some loc) c"
  let ?k = "redirect_key lib (sq_client_ip q) (sq_url q)"
  have k: "?k = redirect_key lib (sq_client_ip q) (resolve_location lib url loc)"
    using assms(4) by (simp add: redirect_key_def)
  have inv: "hm_inv (sc_redirects ?n)"
    using correlator_step_inv [OF assms(1), of lib sha "Note ord t (sq_client_ip q) ev status url (Some loc)"]
    by (simp add: correlator_inv_def)
  have "map_of (sc_redirects ?n) ?k = Some \<lparr>pr_event_id = ev, pr_expires_at = t + sc_redirect_ttl c\<rparr>"
    using assms(2,3) by (simp add: note_redirect_def Let_def k)
  then have "map_of (evict_expired_redirects t2 (sc_redirects ?n)) ?k =
      Some \<lparr>pr_event_id = ev, pr_expires_at = t + sc_redirect_ttl c\<rparr>"
    using assms(5) by (auto simp: evict_expired_get [OF inv])
  moreover have "r = fst (begin_request lib sha ord2 t2 i2 q ?n)" "c' = snd (begin_request lib sha ord2 t2 i2 q ?n)"
    using assms(6) by simp_all
  moreover have "map_of (evict_expired_redirects t3 (AList.delete ?k (evict_expired_redirects t2 (sc_redirects ?n)))) ?k = None"
    using inv by (simp add: evict_expired_get)
  ultimately show ?thesis by (simp add: begin_request_simps)
qed

text \<open>Login sessions outlive their end on other nodes: a node that has once seen a session keeps
  answering with its user, at any later time, whatever the other nodes do, until the session is
  removed on that very node. Neither the lifetime given to Redis nor a logout elsewhere ends it.\<close>

theorem session_outlives_logout:
  assumes "j < length ns" "map_of (sn_local_sessions (ns ! j)) sid = Some u"
    and "list_all (\<lambda>op. \<not> op_removes j sid op \<and> \<not> op_creates sid op) ops"
  shows "fst (get_session up now sid (fst (fold store_step ops (ns, db)) ! j, snd (fold store_step ops (ns, db)))) = Some u"
proof -
  have "map_of (sn_local_sessions (fst (fold store_step ops (ns, db)) ! j)) sid = Some u"
    using assms
  proof (induction ops arbitrary: ns db)
    case (Cons op ops)
    obtain ns' db' where s: "store_step op (ns, db) = (ns', db')" by fastforce
    have "length ns' = length ns \<and> map_of (sn_local_sessions (ns' ! j)) sid = Some u"
      using s Cons.prems
    proof (cases op)
      case (Get i up t sid')
      then show ?thesis
        using s Cons.prems get_keeps_local [of up t sid' "ns ! i" db sid]
        by (auto simp: nth_list_update case_prod_beta split: if_splits)
    qed (auto simp: create_session_def remove_session_def nth_list_update Let_def split: if_splits)
    then show ?case using Cons.IH [of ns' db'] Cons.prems s by simp
  qed simp
  then show ?thesis by (simp add: get_session_def)
qed

text \<open>A logout whose deletion in Redis fails is undone by the next use: the session is gone locally and
  reported as removed, but a later lookup on the same node fetches it from Redis again while its
  lifetime there lasts.\<close>

theorem failed_logout_resurrects:
  assumes "sn_redis_conn n" "map_of (sn_local_sessions n) sid = Some u"
    and "redis_get now (sn_key_prefix n @ sid) db = Some u"
    and "remove_session False t sid (n, db) = (ok, n', db')"
  shows "ok \<and> fst (get_session True now sid (n', db')) = Some u"
  using assms by (auto simp: remove_session_def get_session_def hm_has_def Let_def)

section \<open>Witnesses\<close>

definition demo_url_lib :: url_lib where
  "demo_url_lib = \<lparr>ul_canon = \<lambda>u. Some u, ul_join = \<lambda>b r. None\<rparr>"

definition demo_sq :: "string \<Rightarrow> string \<Rightarrow> session_request" where
  "demo_sq ip url = \<lparr>sq_client_ip = ip, sq_username = None, sq_user_agent = None, sq_url = url\<rparr>"

definition demo_correlator :: session_correlator where
  "demo_correlator = correlator_new 100 50 10 10"

lemma demo_correlator_inv: "correlator_inv demo_correlator"
  by (simp add: correlator_inv_def demo_correlator_def correlator_new_def)

theorem session_continues_witness:
  "sx_session_id (fst (begin_request demo_url_lib id 0 60 ''s2'' (demo_sq ''a'' ''v'')
     (snd (begin_request demo_url_lib id 0 30 ''s3'' (demo_sq ''b'' ''u'')
       (snd (begin_request demo_url_lib id 0 0 ''s1'' (demo_sq ''a'' ''u'') demo_correlator)))))) = ''s1''"
proof -
  obtain r c1 where b: "begin_request demo_url_lib id 0 0 ''s1'' (demo_sq ''a'' ''u'') demo_correlator = (r, c1)"
    by fastforce
  have r: "sx_session_id (fst (begin_request demo_url_lib id 0 0 ''s1'' (demo_sq ''a'' ''u'') demo_correlator)) = ''s1''"
    "length (sc_sessions (snd (begin_request demo_url_lib id 0 0 ''s1'' (demo_sq ''a'' ''u'') demo_correlator))) = 1"
    by code_simp+
  have k: "request_key id (demo_sq ''b'' ''u'') \<noteq> request_key id (demo_sq ''a'' ''u'')"
    "request_key id (demo_sq ''a'' ''v'') = request_key id (demo_sq ''a'' ''u'')"
    by (simp_all add: request_key_def demo_sq_def session_key_def session_key_text_def)
  have "sc_idle demo_correlator = 100" "sc_max_sessions demo_correlator = 10"
    by (simp_all add: demo_correlator_def correlator_new_def)
  with session_continues [OF demo_correlator_inv b, of "[(0, 30, ''s3'', demo_sq ''b'' ''u'')]"
      "demo_sq ''a'' ''v''" 0 60 "''s2''"] r b k
  show ?thesis by simp
qed

theorem redirect_links_next_witness:
  "sx_parent_event_id (fst (begin_request demo_url_lib id 0 10 ''s'' (demo_sq ''a'' ''http://t/'')
     (note_redirect demo_url_lib 0 0 ''a'' ''ev'' 302 ''http://u/'' (Some ''http://t/'') demo_correlator))) = Some ''ev''"
proof -
  obtain r c' where b: "begin_request demo_url_lib id 0 10 ''s'' (demo_sq ''a'' ''http://t/'')
     (note_redirect demo_url_lib 0 0 (sq_client_ip (demo_sq ''a'' ''http://t/'')) ''ev'' 302 ''http://u/'' (Some ''http://t/'') demo_correlator) = (r, c')"
    by fastforce
  have u: "normalize_url demo_url_lib (sq_url (demo_sq ''a'' ''http://t/'')) =
      normalize_url demo_url_lib (resolve_location demo_url_lib ''http://u/'' ''http://t/'')" by code_simp
  have "sx_parent_event_id r = Some ''ev''"
    using redirect_links_next [OF demo_correlator_inv _ _ u _ b]
    by (simp add: is_redirect_status_def demo_correlator_def correlator_new_def)
  then show ?thesis using b by (simp add: demo_sq_def)
qed

definition demo_nodes :: "session_node list \<times> redis_db" where
  "demo_nodes =
     fold store_step [Create 0 True 0 ''s'' ''alice'', Get 1 True 1 ''s'']
       ([store_new (\<lambda>_. None) True, store_new (\<lambda>_. None) True], [])"

theorem session_outlives_logout_witness:
  "fst (get_session True 999999999999999999 ''s''
      (fst (fold store_step [Remove 0 True 2 ''s''] demo_nodes) ! 1, snd (fold store_step [Remove 0 True 2 ''s''] demo_nodes))) =
     Some ''alice''"
proof -
  have "1 < length (fst demo_nodes)" "map_of (sn_local_sessions (fst demo_nodes ! 1)) ''s'' = Some ''alice''"
    by code_simp+
  from session_outlives_logout [OF this, of "[Remove 0 True 2 ''s'']" True 999999999999999999 "snd demo_nodes"]
  show ?thesis by simp
qed

theorem failed_logout_resurrects_witness:
  "fst (get_session True 5 ''s'' (snd (remove_session False 3 ''s'' (fst demo_nodes ! 0, snd demo_nodes)))) = Some ''alice''"
proof -
  obtain ok n' db' where r: "remove_session False 3 ''s'' (fst demo_nodes ! 0, snd demo_nodes) = (ok, n', db')"
    by (metis prod.collapse)
  have "sn_redis_conn (fst demo_nodes ! 0)" "map_of (sn_local_sessions (fst demo_nodes ! 0)) ''s'' = Some ''alice''"
    "redis_get 5 (sn_key_prefix (fst demo_nodes ! 0) @ ''s'') (snd demo_nodes) = Some ''alice''"
    by code_simp+
  from failed_logout_resurrects [OF this r] r show ?thesis by simp
qed

end
