(* ===== verification/Security.thy ===== *)
theory Security
  imports Wire
begin

text \<open>
  Security helpers and content inspection: the comparison of secrets in \<^verbatim>\<open>security_util.rs\<close>, the
  monitored providers of \<^verbatim>\<open>casb.rs\<close> and the scan of request bodies in \<^verbatim>\<open>dlp.rs\<close> (all under
  \<^verbatim>\<open>proxy/src\<close>).

  The multi-pattern search library is the parameter \<open>ac\<close>: given the patterns and a text, the index of
  the pattern of the match it reports, if any. The predicate \<open>find_spec\<close> states its documented
  behaviour.
\<close>

section \<open>Definitions\<close>

subsection \<open>Comparison of secrets\<close>

unbundle bit_operations_syntax

definition constant_time_eq :: "bytes \<Rightarrow> bytes \<Rightarrow> bool" where
  "constant_time_eq a b \<longleftrightarrow>
     (if length a \<noteq> length b then False
      else foldl (\<lambda>diff (x, y). diff OR (x XOR y)) (0 :: u8) (zip a b) = 0)"

definition secret_eq :: "string \<Rightarrow> string \<Rightarrow> bool" where
  "secret_eq a b \<longleftrightarrow> constant_time_eq (char_bytes a) (char_bytes b)"

subsection \<open>Monitored providers\<close>

definition casb_new :: "string set" where
  "casb_new = {''api.openai.com'', ''chatgpt.com'', ''api.anthropic.com'', ''claude.ai'', ''copilot.microsoft.com''}"

definition casb_get_domains :: "string set \<Rightarrow> string list" where
  "casb_get_domains llm_domains = sorted_list_of_set llm_domains"

definition casb_set_domains :: "string list \<Rightarrow> string set \<Rightarrow> string set" where
  "casb_set_domains new_domains llm_domains = fold insert new_domains {}"

definition is_llm_provider :: "string set \<Rightarrow> string \<Rightarrow> bool" where
  "is_llm_provider llm_domains domain \<longleftrightarrow> (\<exists>d \<in> llm_domains. domain = d \<or> ends_with domain d)"

subsection \<open>Data leak prevention\<close>

record dlp_violation =
  dv_category :: string
  dv_detail :: string

definition dlp_violation_display :: "dlp_violation \<Rightarrow> string" where
  "dlp_violation_display v = ''DLP Violation: '' @ dv_category v @ '' ('' @ dv_detail v @ '')''"

record dlp_state =
  dl_patterns :: "(string \<times> string) list"
  dl_enabled :: bool

type_synonym pattern_search = "bytes list \<Rightarrow> bytes \<Rightarrow> nat option"

definition empty_state :: dlp_state where
  "empty_state = \<lparr>dl_patterns = [], dl_enabled = False\<rparr>"

definition default_patterns :: "(string \<times> string) list" where
  "default_patterns =
     [(''sk-ant-api'', ''Anthropic API Key''), (''sk-proj-'', ''OpenAI Project Key''),
      (''ghp_'', ''GitHub Personal Access Token''), (''xoxb-'', ''Slack Bot Token''),
      (''BEGIN RSA PRIVATE KEY'', ''RSA Private Key''),
      (''BEGIN OPENSSH PRIVATE KEY'', ''OpenSSH Private Key'')]"

definition state_from_patterns :: "(string \<times> string) list \<Rightarrow> dlp_state" where
  "state_from_patterns patterns =
     (if patterns = [] then empty_state else \<lparr>dl_patterns = patterns, dl_enabled = True\<rparr>)"

definition dlp_from_env :: "(string \<Rightarrow> string option) \<Rightarrow> dlp_state" where
  "dlp_from_env env =
     (if env_flag [''1'', ''true'', ''yes''] env ''DLP_ENABLED'' then state_from_patterns default_patterns else empty_state)"

definition dlp_is_enabled :: "dlp_state \<Rightarrow> bool" where
  "dlp_is_enabled s \<longleftrightarrow> dl_enabled s \<and> dl_patterns s \<noteq> []"

definition dlp_set_patterns :: "(string \<times> string) list \<Rightarrow> dlp_state \<Rightarrow> dlp_state" where
  "dlp_set_patterns new_patterns s = state_from_patterns new_patterns"

definition pattern_bytes :: "dlp_state \<Rightarrow> bytes list" where
  "pattern_bytes s = map (\<lambda>(k, _). char_bytes k) (dl_patterns s)"

definition scan_chunk :: "pattern_search \<Rightarrow> dlp_state \<Rightarrow> bytes \<Rightarrow> dlp_violation option" where
  "scan_chunk ac s chunk =
     (if \<not> dl_enabled s \<or> dl_patterns s = [] then None
      else
        (case ac (pattern_bytes s) chunk of
           Some i \<Rightarrow> (let p = dl_patterns s ! i in Some \<lparr>dv_category = snd p, dv_detail = fst p\<rparr>)
         | None \<Rightarrow> None))"

text \<open>One frame of a body, and the errors of the scanned stream.\<close>

datatype frame = Data bytes | Trailers headers

datatype stream_error = Upstream string | Violation dlp_violation

definition dlp_poll_frame :: "pattern_search \<Rightarrow> dlp_state \<Rightarrow> string + frame \<Rightarrow> stream_error + frame" where
  "dlp_poll_frame ac s item =
     (case item of
        Inr (Data data) \<Rightarrow>
          (case scan_chunk ac s data of Some v \<Rightarrow> Inl (Violation v) | None \<Rightarrow> Inr (Data data))
      | Inr (Trailers t) \<Rightarrow> Inr (Trailers t)
      | Inl e \<Rightarrow> Inl (Upstream e))"

text \<open>\<^verbatim>\<open>BodyExt::collect\<close> on the scanned stream: all data, or the first error.\<close>

fun dlp_collect :: "pattern_search \<Rightarrow> dlp_state \<Rightarrow> (string + frame) list \<Rightarrow> stream_error + bytes" where
  "dlp_collect ac s [] = Inr []"
| "dlp_collect ac s (item # rest) =
     (case dlp_poll_frame ac s item of
        Inl e \<Rightarrow> Inl e
      | Inr f \<Rightarrow>
          (case dlp_collect ac s rest of
             Inl e \<Rightarrow> Inl e
           | Inr body \<Rightarrow> Inr ((case f of Data d \<Rightarrow> d | Trailers _ \<Rightarrow> []) @ body)))"

definition find_spec :: "pattern_search \<Rightarrow> bool" where
  "find_spec ac \<longleftrightarrow>
     (\<forall>pats text. (\<forall>i. ac pats text = Some i \<longrightarrow> i < length pats \<and> sublist (pats ! i) text) \<and>
                  (ac pats text = None \<longrightarrow> (\<forall>p \<in> set pats. \<not> sublist p text)))"

text \<open>A search that meets the specification, for the witnesses: the first pattern that occurs.\<close>

definition first_pattern :: pattern_search where
  "first_pattern pats text = find (\<lambda>i. sublist (pats ! i) text) [0..<length pats]"

section \<open>Lemmas\<close>

lemma xor_zero_iff: "x XOR y = 0 \<longleftrightarrow> x = (y :: u8)"
  by (auto simp: bit_eq_iff bit_simps)

lemma foldl_or_zero_iff:
  "foldl (\<lambda>diff (x, y). diff OR (x XOR y)) (acc :: u8) ps = 0 \<longleftrightarrow> acc = 0 \<and> (\<forall>(x, y) \<in> set ps. x = y)"
  by (induction ps arbitrary: acc) (auto simp: or_eq_0_iff xor_zero_iff)

lemma zip_all_eq: "length a = length b \<Longrightarrow> (\<forall>(x, y) \<in> set (zip a b). x = y) \<longleftrightarrow> a = b"
  by (induction a b rule: list_induct2) auto

lemma constant_time_eq_eq: "constant_time_eq a b \<longleftrightarrow> a = b"
  by (auto simp: constant_time_eq_def foldl_or_zero_iff zip_all_eq)

lemma char_bytes_inj: "char_bytes a = char_bytes b \<longleftrightarrow> a = b"
  by (metis byte_chars_char_bytes)

lemma secret_eq_eq [simp]: "secret_eq a b \<longleftrightarrow> a = b"
  by (simp add: secret_eq_def constant_time_eq_eq char_bytes_inj)

lemma fold_insert_set: "fold insert xs A = set xs \<union> A"
  by (induction xs arbitrary: A) auto

lemma first_pattern_find_spec: "find_spec first_pattern"
  by (auto simp: find_spec_def first_pattern_def find_Some_iff find_None_iff in_set_conv_nth)

lemma find_specD:
  "find_spec ac \<Longrightarrow> ac pats data = Some i \<Longrightarrow> i < length pats \<and> sublist (pats ! i) data"
  "find_spec ac \<Longrightarrow> ac pats data = None \<Longrightarrow> p \<in> set pats \<Longrightarrow> \<not> sublist p data"
  unfolding find_spec_def by blast+

definition leaks :: "dlp_state \<Rightarrow> bytes \<Rightarrow> bool" where
  "leaks s data \<longleftrightarrow> dlp_is_enabled s \<and> (\<exists>p \<in> set (pattern_bytes s). sublist p data)"

lemma scan_chunk_None: "find_spec ac \<Longrightarrow> scan_chunk ac s data = None \<longleftrightarrow> \<not> leaks s data"
  using find_specD [of ac "pattern_bytes s" data] unfolding scan_chunk_def leaks_def dlp_is_enabled_def
  by (cases "ac (pattern_bytes s) data") (auto simp: Let_def intro: nth_mem)

lemma scan_chunk_Some:
  assumes "find_spec ac" "scan_chunk ac s data = Some v"
  shows "(dv_detail v, dv_category v) \<in> set (dl_patterns s) \<and> sublist (char_bytes (dv_detail v)) data"
proof -
  from assms(2) obtain i where i: "ac (pattern_bytes s) data = Some i"
    and v: "v = \<lparr>dv_category = snd (dl_patterns s ! i), dv_detail = fst (dl_patterns s ! i)\<rparr>"
    by (auto simp: scan_chunk_def Let_def split: if_splits option.splits)
  from find_specD(1) [OF assms(1) i] have "i < length (dl_patterns s)" "sublist (pattern_bytes s ! i) data"
    by (auto simp: pattern_bytes_def)
  with v show ?thesis by (auto simp: pattern_bytes_def case_prod_beta)
qed

text \<open>The data of a frame, and when a frame passes: it is no error and contains no pattern.\<close>

definition frame_data :: "string + frame \<Rightarrow> bytes" where
  "frame_data item = (case item of Inr (Data d) \<Rightarrow> d | _ \<Rightarrow> [])"

definition frame_passes :: "dlp_state \<Rightarrow> string + frame \<Rightarrow> bool" where
  "frame_passes s item \<longleftrightarrow> (case item of Inl _ \<Rightarrow> False | Inr (Data d) \<Rightarrow> \<not> leaks s d | Inr (Trailers _) \<Rightarrow> True)"

lemma dlp_poll_frame_passes:
  "find_spec ac \<Longrightarrow> (\<exists>f. dlp_poll_frame ac s item = Inr f) \<longleftrightarrow> frame_passes s item"
  "dlp_poll_frame ac s item = Inr f \<Longrightarrow> (case f of Data d \<Rightarrow> d | Trailers _ \<Rightarrow> []) = frame_data item"
  by (auto simp: dlp_poll_frame_def frame_passes_def frame_data_def scan_chunk_None [symmetric]
      split: sum.splits frame.splits option.splits)

lemma dlp_collect_Inr:
  assumes "find_spec ac"
  shows "dlp_collect ac s items = Inr body \<longleftrightarrow>
           list_all (frame_passes s) items \<and> body = concat (map frame_data items)"
proof (induction items arbitrary: body)
  case (Cons item items)
  from dlp_poll_frame_passes(1) [OF assms, of s item] dlp_poll_frame_passes(2) [of ac s item] Cons.IH show ?case
    by (cases "dlp_poll_frame ac s item"; cases "dlp_collect ac s items") auto
qed auto

lemma dlp_collect_violation:
  assumes "find_spec ac" "dlp_collect ac s items = Inl (Violation v)"
  shows "(dv_detail v, dv_category v) \<in> set (dl_patterns s) \<and>
         (\<exists>d. Inr (Data d) \<in> set items \<and> sublist (char_bytes (dv_detail v)) d)"
  using assms(2)
proof (induction items)
  case (Cons item items)
  show ?case
  proof (cases "dlp_poll_frame ac s item")
    case (Inl e)
    with Cons.prems obtain d where "item = Inr (Data d)" "scan_chunk ac s d = Some v"
      by (auto simp: dlp_poll_frame_def split: sum.splits frame.splits option.splits)
    with scan_chunk_Some [OF assms(1)] show ?thesis by auto
  next
    case (Inr f)
    with Cons.prems Cons.IH show ?thesis by (auto split: sum.splits)
  qed
qed simp

section \<open>Properties\<close>

text \<open>
  The comparison of secrets looks at every byte whatever the difference, and is equality all the same: the
  accumulated difference is zero exactly when the two byte strings are the same.
\<close>

theorem constant_time_eq_correct: "constant_time_eq a b \<longleftrightarrow> a = b"
  by (rule constant_time_eq_eq)

text \<open>
  A request body passes the scan with result b exactly when the stream has no error of its own, no single
  data frame contains a configured pattern, and b is the concatenation of the data frames. A violation that
  is reported names a configured pattern that occurs in one of the frames.
\<close>

theorem dlp_collect_characterised:
  assumes "find_spec ac"
  shows "(dlp_collect ac s items = Inr body \<longleftrightarrow>
            list_all (frame_passes s) items \<and> body = concat (map frame_data items)) \<and>
         (\<forall>v. dlp_collect ac s items = Inl (Violation v) \<longrightarrow>
            (dv_detail v, dv_category v) \<in> set (dl_patterns s) \<and>
            (\<exists>d. Inr (Data d) \<in> set items \<and> sublist (char_bytes (dv_detail v)) d))"
  using dlp_collect_Inr [OF assms] dlp_collect_violation [OF assms] by blast

text \<open>
  The scan looks at one frame at a time, so a secret that straddles two frames passes: for every enabled
  pattern of at least two bytes of which neither half contains a pattern, the body that contains it is
  accepted.
\<close>

theorem dlp_split_secret_passes:
  assumes "find_spec ac" "p1 @ p2 \<in> set (pattern_bytes s)" "\<not> leaks s p1" "\<not> leaks s p2"
  shows "dlp_collect ac s [Inr (Data p1), Inr (Data p2)] = Inr (p1 @ p2) \<and>
         (dlp_is_enabled s \<longrightarrow> dlp_collect ac s [Inr (Data (p1 @ p2))] \<noteq> Inr (p1 @ p2))"
  using assms(2-4) by (auto simp: dlp_collect_Inr [OF assms(1)] frame_passes_def frame_data_def leaks_def simp del: dlp_collect.simps)

theorem dlp_split_secret_passes_witness:
  "dlp_collect first_pattern (state_from_patterns default_patterns)
     [Inr (Data (char_bytes ''gh'')), Inr (Data (char_bytes ''p_''))] = Inr (char_bytes ''ghp_'')"
proof -
  let ?s = "state_from_patterns default_patterns"
  have "char_bytes ''gh'' @ char_bytes ''p_'' \<in> set (pattern_bytes ?s)"
    "\<not> leaks ?s (char_bytes ''gh'')" "\<not> leaks ?s (char_bytes ''p_'')"
    by (simp_all add: leaks_def pattern_bytes_def state_from_patterns_def default_patterns_def char_bytes_def sublist_code)
  from dlp_split_secret_passes [OF first_pattern_find_spec this] show ?thesis by (simp add: char_bytes_def)
qed

theorem dlp_collect_characterised_witness:
  "dlp_collect first_pattern (state_from_patterns default_patterns) [Inr (Data (char_bytes ''ok'')), Inr (Trailers [])] =
     Inr (char_bytes ''ok'')"
  using dlp_collect_characterised [OF first_pattern_find_spec, of "state_from_patterns default_patterns"
      "[Inr (Data (char_bytes ''ok'')), Inr (Trailers [])]" "char_bytes ''ok''"]
  by (simp add: frame_passes_def frame_data_def leaks_def pattern_bytes_def state_from_patterns_def
      default_patterns_def char_bytes_def sublist_code)

text \<open>
  A host is reported as a monitored provider whenever its name ends with a monitored name, also when the
  characters before it continue the label: the match has no boundary at a dot.
\<close>

theorem llm_provider_no_boundary:
  "d \<in> llm_domains \<Longrightarrow> is_llm_provider llm_domains (pre @ d)"
  unfolding is_llm_provider_def ends_with_def by (blast intro: suffixI)

theorem llm_provider_no_boundary_witness: "is_llm_provider casb_new ''notclaude.ai''"
  using llm_provider_no_boundary [of "''claude.ai''" casb_new "''not''"] by (simp add: casb_new_def)

end
