(* ===== verification/Auth.thy ===== *)
theory Auth
  imports Security
begin

text \<open>
  Proxy authentication (\<^verbatim>\<open>proxy/src/auth.rs\<close>): Basic credentials against local users or LDAP, the
  multi-round handshake of NTLM and Kerberos, and the caches of users, connections and client
  addresses.

  Parameters: \<open>sha\<close>, the hexadecimal SHA-256 of a byte string; Base64 decoding and header text
  conversion; the LDAP client library, the record \<open>ldap_lib\<close>, whose operations report transport
  errors with \<^const>\<open>Inl\<close> and the server's result code with \<^const>\<open>Inr\<close>; and the security library of the
  handshake, the record \<open>sspi_engine\<close>.
\<close>

section \<open>Definitions\<close>

subsection \<open>Data\<close>

datatype auth_backend = BasicBackend | LdapBackend | NtlmBackend | KerberosBackend

record user_info =
  ui_username :: string
  ui_display_name :: "string option"
  ui_email :: "string option"
  ui_groups :: "string list"
  ui_authenticated_at :: time

record cached_user =
  cu_user_info :: user_info
  cu_password_hash :: string
  cu_cached_at :: time
  cu_ttl :: duration

definition cu_is_expired :: "time \<Rightarrow> cached_user \<Rightarrow> bool" where
  "cu_is_expired now c \<longleftrightarrow> now - cu_cached_at c > cu_ttl c"

definition hash_password :: "(string \<Rightarrow> string) \<Rightarrow> string \<Rightarrow> string \<Rightarrow> string" where
  "hash_password sha password salt = sha (salt @ password)"

definition verify_password :: "(string \<Rightarrow> string) \<Rightarrow> string \<Rightarrow> string \<Rightarrow> cached_user \<Rightarrow> bool" where
  "verify_password sha password salt c \<longleftrightarrow> secret_eq (cu_password_hash c) (hash_password sha password salt)"

record ldap_config =
  lc_servers :: "string list"
  lc_base_dn :: string
  lc_bind_dn :: "string option"
  lc_bind_password :: "string option"
  lc_user_filter :: string
  lc_group_filter :: "string option"
  lc_timeout :: duration
  lc_use_tls :: bool
  lc_group_enrichment :: bool

definition ldap_config_default :: ldap_config where
  "ldap_config_default =
     \<lparr>lc_servers = [''ldap://localhost:389''], lc_base_dn = ''dc=example,dc=com'', lc_bind_dn = None,
      lc_bind_password = None, lc_user_filter = ''(sAMAccountName={username})'',
      lc_group_filter = Some ''(member={user_dn})'', lc_timeout = from_secs 5, lc_use_tls = False,
      lc_group_enrichment = False\<rparr>"

record ldap_user_attrs =
  la_display_name :: "string option"
  la_email :: "string option"
  la_groups :: "string list"

datatype proxy_auth_outcome = Anonymous | Authenticated user_info | Challenge string

record auth_config =
  ac_enabled :: bool
  ac_backend :: auth_backend
  ac_realm :: string
  ac_cache_ttl :: duration
  ac_conn_cache_ttl :: duration
  ac_basic_users_file :: "string option"
  ac_ldap :: "ldap_config option"

definition auth_config_default :: auth_config where
  "auth_config_default =
     \<lparr>ac_enabled = False, ac_backend = BasicBackend, ac_realm = ''BSDM-Proxy'', ac_cache_ttl = from_secs 300,
      ac_conn_cache_ttl = from_secs 300, ac_basic_users_file = None, ac_ldap = None\<rparr>"

record basic_user =
  bu_username :: string
  bu_password_hash :: string
  bu_role :: string

subsection \<open>The cache of a connection\<close>

record conn_auth_entry =
  cn_user :: user_info
  cn_cred_fingerprint :: "string option"
  cn_authenticated_at :: time

record conn_auth_cache =
  cn_ttl :: duration
  cn_inner :: "conn_auth_entry option"

definition conn_new :: "duration \<Rightarrow> conn_auth_cache" where
  "conn_new ttl = \<lparr>cn_ttl = ttl, cn_inner = None\<rparr>"

definition conn_get :: "time \<Rightarrow> string option \<Rightarrow> conn_auth_cache \<Rightarrow> user_info option" where
  "conn_get now cred_fingerprint c =
     (if cn_ttl c = 0 then None
      else
        (case cn_inner c of
           None \<Rightarrow> None
         | Some entry \<Rightarrow>
             (if now - cn_authenticated_at entry > cn_ttl c then None
              else
                (case (cred_fingerprint, cn_cred_fingerprint entry) of
                   (None, _) \<Rightarrow> Some (cn_user entry)
                 | (Some fp, Some cached) \<Rightarrow> (if fp = cached then Some (cn_user entry) else None)
                 | (Some _, None) \<Rightarrow> Some (cn_user entry)))))"

definition conn_store :: "time \<Rightarrow> user_info \<Rightarrow> string option \<Rightarrow> conn_auth_cache \<Rightarrow> conn_auth_cache" where
  "conn_store now user fp c =
     (if cn_ttl c = 0 then c
      else c\<lparr>cn_inner := Some \<lparr>cn_user = user, cn_cred_fingerprint = fp, cn_authenticated_at = now\<rparr>\<rparr>)"

definition conn_invalidate :: "conn_auth_cache \<Rightarrow> conn_auth_cache" where
  "conn_invalidate c = c\<lparr>cn_inner := None\<rparr>"

subsection \<open>Libraries\<close>

type_synonym ldap_entry = "string \<times> (string \<times> string list) list"

record 'c ldap_lib =
  ll_connect :: "string \<Rightarrow> string + 'c"
  ll_simple_bind :: "string \<Rightarrow> string \<Rightarrow> 'c \<Rightarrow> (string + nat) \<times> 'c"
  ll_search :: "string \<Rightarrow> string \<Rightarrow> 'c \<Rightarrow> (string + (nat \<times> ldap_entry list)) \<times> 'c"

datatype sspi_step_result =
  Complete string "string option" | ChallengeToken string | Failed string

record 's sspi_engine =
  sg_scheme :: string
  sg_begin_session :: "string + 's"
  sg_process_token :: "'s \<Rightarrow> bytes option \<Rightarrow> 's \<times> (string + sspi_step_result)"

record auth_lib =
  al_sha :: "string \<Rightarrow> string"
  al_base64 :: "string \<Rightarrow> bytes option"
  al_to_str :: "string \<Rightarrow> string option"

subsection \<open>LDAP\<close>

definition ldap_account_name_from_principal :: "string \<Rightarrow> string" where
  "ldap_account_name_from_principal pname =
     (case split_once (CHR 0x5C) pname of
        Some (_, user) \<Rightarrow> user
      | None \<Rightarrow> (case split_once CHR ''@'' pname of None \<Rightarrow> pname | Some (user, _) \<Rightarrow> user))"

text \<open>\<^verbatim>\<open>str::replace\<close> for a pattern that is not empty.\<close>

function replace_str :: "string \<Rightarrow> string \<Rightarrow> string \<Rightarrow> string" where
  "replace_str pat rep s =
     (if pat = [] then s
      else if prefix pat s then rep @ replace_str pat rep (drop (length pat) s)
      else (case s of [] \<Rightarrow> [] | c # cs \<Rightarrow> c # replace_str pat rep cs))"
  by auto
termination
  by (relation "measure (\<lambda>(pat, rep, s). length s)") (auto simp: prefix_def)

declare replace_str.simps [simp del]

definition ldap_service_bind :: "'c ldap_lib \<Rightarrow> ldap_config \<Rightarrow> 'c \<Rightarrow> string option \<times> 'c" where
  "ldap_service_bind lib config ldap =
     (case (lc_bind_dn config, lc_bind_password config) of
        (Some dn, Some pw) \<Rightarrow>
          (case ll_simple_bind lib dn pw ldap of
             (Inl e, ldap') \<Rightarrow> (Some (''LDAP bind failed: '' @ e), ldap')
           | (Inr _, ldap') \<Rightarrow> (None, ldap'))
      | _ \<Rightarrow> (None, ldap))"

definition ldap_attrs_from_entry :: "ldap_entry \<Rightarrow> ldap_user_attrs" where
  "ldap_attrs_from_entry entry =
     (let first = (\<lambda>k. case map_of (snd entry) k of Some (v # _) \<Rightarrow> Some v | _ \<Rightarrow> None) in
      \<lparr>la_display_name = first ''cn'', la_email = first ''mail'',
       la_groups = (case map_of (snd entry) ''memberOf'' of None \<Rightarrow> [] | Some vs \<Rightarrow> vs)\<rparr>)"

definition ldap_search_first ::
  "'c ldap_lib \<Rightarrow> ldap_config \<Rightarrow> string \<Rightarrow> 'c \<Rightarrow> (string + ldap_entry option) \<times> 'c" where
  "ldap_search_first lib config flt ldap =
     (case ll_search lib (lc_base_dn config) flt ldap of
        (Inl e, ldap') \<Rightarrow> (Inl (''LDAP search failed: '' @ e), ldap')
      | (Inr (rc, entries), ldap') \<Rightarrow>
          (if rc \<noteq> 0 then (Inl ''LDAP search error'', ldap')
           else (Inr (case entries of [] \<Rightarrow> None | e # _ \<Rightarrow> Some e), ldap')))"

definition ldap_search_user_entry ::
  "'c ldap_lib \<Rightarrow> ldap_config \<Rightarrow> string \<Rightarrow> string option \<Rightarrow> 'c \<Rightarrow> (string + ldap_entry) \<times> 'c" where
  "ldap_search_user_entry lib config pname filter_username ldap =
     (let account = (case filter_username of Some u \<Rightarrow> u | None \<Rightarrow> ldap_account_name_from_principal pname);
          flt = replace_str ''{username}'' account (lc_user_filter config);
          not_found = Inl (''User not found in LDAP for principal '' @ [CHR 0x27] @ pname @ [CHR 0x27])
      in case ldap_search_first lib config flt ldap of
           (Inl e, ldap1) \<Rightarrow> (Inl e, ldap1)
         | (Inr (Some entry), ldap1) \<Rightarrow> (Inr entry, ldap1)
         | (Inr None, ldap1) \<Rightarrow>
             (if CHR ''@'' \<in> set pname then
                (case ldap_search_first lib config (''(userPrincipalName='' @ pname @ '')'') ldap1 of
                   (Inl e, ldap2) \<Rightarrow> (Inl e, ldap2)
                 | (Inr (Some entry), ldap2) \<Rightarrow> (Inr entry, ldap2)
                 | (Inr None, ldap2) \<Rightarrow> (not_found, ldap2))
              else (not_found, ldap1)))"

definition try_ldap_server ::
  "'c ldap_lib \<Rightarrow> time \<Rightarrow> string \<Rightarrow> ldap_config \<Rightarrow> string \<Rightarrow> string \<Rightarrow> string + user_info" where
  "try_ldap_server lib now server config username password =
     (case ll_connect lib server of
        Inl e \<Rightarrow> Inl (''LDAP connection failed: '' @ e)
      | Inr ldap \<Rightarrow>
          (case ldap_service_bind lib config ldap of
             (Some e, _) \<Rightarrow> Inl e
           | (None, ldap1) \<Rightarrow>
               (case ldap_search_user_entry lib config username (Some username) ldap1 of
                  (Inl e, _) \<Rightarrow> Inl e
                | (Inr entry, ldap2) \<Rightarrow>
                    (case fst (ll_simple_bind lib (fst entry) password ldap2) of
                       Inl _ \<Rightarrow> Inl ''Invalid credentials''
                     | Inr _ \<Rightarrow>
                         (let attrs = ldap_attrs_from_entry entry in
                          Inr \<lparr>ui_username = username, ui_display_name = la_display_name attrs,
                               ui_email = la_email attrs, ui_groups = la_groups attrs,
                               ui_authenticated_at = now\<rparr>)))))"

fun first_ok :: "('a \<Rightarrow> 'e + 'b) \<Rightarrow> 'a list \<Rightarrow> 'b option" where
  "first_ok f [] = None"
| "first_ok f (x # xs) = (case f x of Inr y \<Rightarrow> Some y | Inl _ \<Rightarrow> first_ok f xs)"

definition authenticate_ldap ::
  "'c ldap_lib \<Rightarrow> time \<Rightarrow> auth_config \<Rightarrow> string \<Rightarrow> string \<Rightarrow> string + user_info" where
  "authenticate_ldap lib now config username password =
     (case ac_ldap config of
        None \<Rightarrow> Inl ''LDAP not configured''
      | Some lc \<Rightarrow>
          (case first_ok (\<lambda>server. try_ldap_server lib now server lc username password) (lc_servers lc) of
             Some user \<Rightarrow> Inr user
           | None \<Rightarrow> Inl ''All LDAP servers failed''))"

definition try_ldap_lookup_server :: "'c ldap_lib \<Rightarrow> string \<Rightarrow> ldap_config \<Rightarrow> string \<Rightarrow> string + ldap_user_attrs" where
  "try_ldap_lookup_server lib server config pname =
     (case ll_connect lib server of
        Inl e \<Rightarrow> Inl (''LDAP connection failed: '' @ e)
      | Inr ldap \<Rightarrow>
          (case ldap_service_bind lib config ldap of
             (Some e, _) \<Rightarrow> Inl e
           | (None, ldap1) \<Rightarrow>
               (case ldap_search_user_entry lib config pname None ldap1 of
                  (Inl e, _) \<Rightarrow> Inl e
                | (Inr entry, _) \<Rightarrow> Inr (ldap_attrs_from_entry entry))))"

definition should_enrich_groups_from_ldap :: "auth_config \<Rightarrow> bool" where
  "should_enrich_groups_from_ldap config \<longleftrightarrow>
     ac_enabled config \<and> (case ac_ldap config of None \<Rightarrow> False | Some l \<Rightarrow> lc_group_enrichment l) \<and>
     (ac_backend config = NtlmBackend \<or> ac_backend config = KerberosBackend)"

definition lookup_ldap_user_attrs :: "'c ldap_lib \<Rightarrow> ldap_config \<Rightarrow> string \<Rightarrow> ldap_user_attrs option" where
  "lookup_ldap_user_attrs lib config pname =
     first_ok (\<lambda>server. try_ldap_lookup_server lib server config pname) (lc_servers config)"

definition apply_ldap_group_enrichment :: "'c ldap_lib \<Rightarrow> auth_config \<Rightarrow> user_info \<Rightarrow> user_info" where
  "apply_ldap_group_enrichment lib config user =
     (if \<not> should_enrich_groups_from_ldap config then user
      else
        (case ac_ldap config of
           None \<Rightarrow> user
         | Some lc \<Rightarrow>
             (case lookup_ldap_user_attrs lib lc (ui_username user) of
                None \<Rightarrow> user
              | Some attrs \<Rightarrow>
                  user\<lparr>ui_display_name := (case ui_display_name user of None \<Rightarrow> la_display_name attrs | d \<Rightarrow> d),
                       ui_email := (case ui_email user of None \<Rightarrow> la_email attrs | m \<Rightarrow> m),
                       ui_groups := la_groups attrs\<rparr>)))"

subsection \<open>The manager\<close>

record 's auth_manager =
  am_config :: auth_config
  am_user_cache :: "(string, cached_user) hash_map"
  am_basic_users :: "(string, basic_user) hash_map"
  am_salt :: string
  am_handshake_sessions :: "(string, 's \<times> time) hash_map"
  am_sspi_engine :: "'s sspi_engine option"
  am_principal_cache :: "(string, user_info) hash_map"

text \<open>\<open>file\<close> is the parsed contents of the users file, if it could be read and parsed.\<close>

definition auth_new ::
  "auth_config \<Rightarrow> basic_user list option \<Rightarrow> string \<Rightarrow> 's sspi_engine option \<Rightarrow> 's auth_manager" where
  "auth_new config file salt engine =
     \<lparr>am_config = config, am_user_cache = [],
      am_basic_users =
        (case ac_basic_users_file config of
           None \<Rightarrow> []
         | Some _ \<Rightarrow>
             (case file of
                None \<Rightarrow> []
              | Some users \<Rightarrow> hm_extend [] (map (\<lambda>u. (bu_username u, u)) users))),
      am_salt = salt, am_handshake_sessions = [], am_sspi_engine = engine, am_principal_cache = []\<rparr>"

definition auth_header_name :: "bool \<Rightarrow> string" where
  "auth_header_name reverse_proxy = (if reverse_proxy then ''authorization'' else ''proxy-authorization'')"

definition auth_header :: "auth_lib \<Rightarrow> string \<Rightarrow> headers \<Rightarrow> string option" where
  "auth_header lib name hs = Option.bind (map_of hs name) (al_to_str lib)"

definition extract_credentials ::
  "auth_lib \<Rightarrow> auth_config \<Rightarrow> headers \<Rightarrow> bool \<Rightarrow> (string \<times> string) option" where
  "extract_credentials lib config hs reverse_proxy =
     (case auth_header lib (auth_header_name reverse_proxy) hs of
        None \<Rightarrow> None
      | Some auth_str \<Rightarrow>
          (if ac_backend config = BasicBackend \<or> ac_backend config = LdapBackend then
             (case strip_prefix auth_str ''Basic '' of
                None \<Rightarrow> None
              | Some encoded \<Rightarrow>
                  (case al_base64 lib encoded of
                     None \<Rightarrow> None
                   | Some decoded \<Rightarrow>
                       (case from_utf8 decoded of
                          None \<Rightarrow> None
                        | Some credentials \<Rightarrow> split_once CHR '':'' credentials)))
           else None))"

definition extract_proxy_token :: "auth_lib \<Rightarrow> headers \<Rightarrow> bool \<Rightarrow> (string \<times> bytes) option" where
  "extract_proxy_token lib hs reverse_proxy =
     (case auth_header lib (auth_header_name reverse_proxy) hs of
        None \<Rightarrow> None
      | Some auth_str \<Rightarrow>
          (case split_once CHR '' '' auth_str of
             None \<Rightarrow> None
           | Some (scheme, encoded) \<Rightarrow> map_option (Pair scheme) (al_base64 lib (trim encoded))))"

definition proxy_auth_fingerprint :: "auth_lib \<Rightarrow> string \<Rightarrow> headers \<Rightarrow> string option" where
  "proxy_auth_fingerprint lib salt hs =
     map_option (\<lambda>value. hash_password (al_sha lib) value salt) (auth_header lib ''proxy-authorization'' hs)"

definition initial_auth_header :: "auth_config \<Rightarrow> bool \<Rightarrow> string" where
  "initial_auth_header config reverse_proxy =
     (if reverse_proxy then ''WWW-Authenticate'' else ''Proxy-Authenticate'') @ '': '' @
     (case ac_backend config of
        BasicBackend \<Rightarrow> ''Basic realm='' @ [CHR 0x22] @ ac_realm config @ [CHR 0x22]
      | LdapBackend \<Rightarrow> ''Basic realm='' @ [CHR 0x22] @ ac_realm config @ [CHR 0x22]
      | NtlmBackend \<Rightarrow> ''NTLM''
      | KerberosBackend \<Rightarrow> ''Negotiate'')"

text \<open>The status and the value of the challenge header.\<close>

definition create_auth_challenge_response :: "string \<Rightarrow> bool \<Rightarrow> nat \<times> string \<times> string" where
  "create_auth_challenge_response authenticate_header reverse_proxy =
     (let value = (case find (\<lambda>i. prefix '': '' (drop i authenticate_header)) [0..<length authenticate_header] of
                     None \<Rightarrow> authenticate_header
                   | Some i \<Rightarrow> drop (i + 2) authenticate_header)
      in if reverse_proxy then (401, ''www-authenticate'', value) else (407, ''proxy-authenticate'', value))"

definition hash_password_stable :: "(string \<Rightarrow> string) \<Rightarrow> string \<Rightarrow> string" where
  "hash_password_stable sha password = sha password"

definition authenticate_basic ::
  "auth_lib \<Rightarrow> time \<Rightarrow> string \<Rightarrow> string \<Rightarrow> 's auth_manager \<Rightarrow> string + user_info" where
  "authenticate_basic lib now username password m =
     (let user = (\<lambda>groups. \<lparr>ui_username = username, ui_display_name = Some username, ui_email = None,
                            ui_groups = groups, ui_authenticated_at = now\<rparr>)
      in if am_basic_users m = [] \<and> ac_basic_users_file (am_config m) = None then Inr (user [])
         else
           (case map_of (am_basic_users m) username of
              Some u \<Rightarrow>
                (if bu_password_hash u = hash_password_stable (al_sha lib) password then Inr (user [bu_role u])
                 else Inl ''Invalid username or password'')
            | None \<Rightarrow> Inl ''Invalid username or password''))"

definition cache_user ::
  "auth_lib \<Rightarrow> time \<Rightarrow> string \<Rightarrow> string \<Rightarrow> user_info \<Rightarrow> 's auth_manager \<Rightarrow> 's auth_manager" where
  "cache_user lib now username password user m =
     m\<lparr>am_user_cache :=
         AList.update username
           \<lparr>cu_user_info = user, cu_password_hash = hash_password (al_sha lib) password (am_salt m),
            cu_cached_at = now, cu_ttl = ac_cache_ttl (am_config m)\<rparr> (am_user_cache m)\<rparr>"

definition authenticate ::
  "auth_lib \<Rightarrow> 'c ldap_lib \<Rightarrow> time \<Rightarrow> string \<Rightarrow> string \<Rightarrow> 's auth_manager \<Rightarrow> (string + user_info) \<times> 's auth_manager" where
  "authenticate lib ldap now username password m =
     (case (case map_of (am_user_cache m) username of
              Some cached \<Rightarrow>
                (if \<not> cu_is_expired now cached \<and> verify_password (al_sha lib) password (am_salt m) cached
                 then Some (cu_user_info cached) else None)
            | None \<Rightarrow> None) of
        Some user \<Rightarrow> (Inr user, m)
      | None \<Rightarrow>
          (case (case ac_backend (am_config m) of
                   BasicBackend \<Rightarrow> authenticate_basic lib now username password m
                 | LdapBackend \<Rightarrow> authenticate_ldap ldap now (am_config m) username password
                 | NtlmBackend \<Rightarrow> Inl ''NTLM uses multi-round handshake; call handle_proxy_auth()''
                 | KerberosBackend \<Rightarrow> Inl ''Kerberos uses multi-round handshake; call handle_proxy_auth()'') of
             Inl e \<Rightarrow> (Inl e, m)
           | Inr user \<Rightarrow> (Inr user, cache_user lib now username password user m)))"

text \<open>Local users; \<open>disk\<close> is the outcome of writing the file, an error or nothing.\<close>

definition put_basic_user ::
  "auth_lib \<Rightarrow> string option \<Rightarrow> string \<Rightarrow> string option \<Rightarrow> string \<Rightarrow> 's auth_manager \<Rightarrow> string option \<times> 's auth_manager" where
  "put_basic_user lib disk username password role m =
     (case (case password of
              Some p \<Rightarrow> Some (hash_password_stable (al_sha lib) p)
            | None \<Rightarrow> map_option bu_password_hash (map_of (am_basic_users m) username)) of
        None \<Rightarrow> (Some ''Password is required for new users'', m)
      | Some h \<Rightarrow>
          ((if ac_basic_users_file (am_config m) = None then None else disk),
           m\<lparr>am_basic_users :=
               AList.update username \<lparr>bu_username = username, bu_password_hash = h, bu_role = role\<rparr> (am_basic_users m)\<rparr>))"

definition remove_basic_user ::
  "string option \<Rightarrow> string \<Rightarrow> 's auth_manager \<Rightarrow> (string + bool) \<times> 's auth_manager" where
  "remove_basic_user disk username m =
     (let removed = hm_has (am_basic_users m) username;
          m' = m\<lparr>am_basic_users := AList.delete username (am_basic_users m)\<rparr>
      in if removed then
           ((case (if ac_basic_users_file (am_config m) = None then None else disk) of
               Some e \<Rightarrow> Inl e | None \<Rightarrow> Inr True), m')
         else (Inr False, m'))"

definition get_basic_users :: "'s auth_manager \<Rightarrow> basic_user list" where
  "get_basic_users m = map (\<lambda>(_, u). u\<lparr>bu_password_hash := []\<rparr>) (am_basic_users m)"

definition auth_cleanup_cache :: "time \<Rightarrow> 's auth_manager \<Rightarrow> 's auth_manager" where
  "auth_cleanup_cache now m =
     m\<lparr>am_user_cache := filter (\<lambda>(_, u). \<not> cu_is_expired now u) (am_user_cache m),
       am_handshake_sessions :=
         filter (\<lambda>(_, (s, t)). now - t < ac_cache_ttl (am_config m)) (am_handshake_sessions m),
       am_principal_cache :=
         filter (\<lambda>(_, u). now - ui_authenticated_at u < ac_cache_ttl (am_config m)) (am_principal_cache m)\<rparr>"

definition conn_lookup :: "time \<Rightarrow> string option \<Rightarrow> conn_auth_cache option \<Rightarrow> user_info option" where
  "conn_lookup now fp conn = Option.bind conn (conn_get now fp)"

text \<open>The handshake, one request at a time, keyed by the client address.\<close>

definition handle_sspi_auth ::
  "auth_lib \<Rightarrow> 'c ldap_lib \<Rightarrow> time \<Rightarrow> string \<Rightarrow> headers \<Rightarrow> bool \<Rightarrow> conn_auth_cache option \<Rightarrow> 's auth_manager \<Rightarrow>
   proxy_auth_outcome \<times> conn_auth_cache option \<times> 's auth_manager" where
  "handle_sspi_auth lib ldap now client_key hs reverse_proxy conn m =
     (let start = Challenge (initial_auth_header (am_config m) reverse_proxy) in
      case am_sspi_engine m of
        None \<Rightarrow> (start, conn, m)
      | Some engine \<Rightarrow>
          (let token = (case extract_proxy_token lib hs reverse_proxy of
                          Some (scheme, bs) \<Rightarrow> (if eq_ignore_ascii_case scheme (sg_scheme engine) then Some bs else None)
                        | None \<Rightarrow> None);
               known = (if token \<noteq> None then None
                        else
                          (case conn_lookup now None conn of
                             Some user \<Rightarrow> Some user
                           | None \<Rightarrow>
                               (case map_of (am_principal_cache m) client_key of
                                  Some u \<Rightarrow>
                                    (if now - ui_authenticated_at u < ac_cache_ttl (am_config m) then Some u else None)
                                | None \<Rightarrow> None)))
           in case known of
                Some user \<Rightarrow> (Authenticated user, conn, m)
              | None \<Rightarrow>
                  (case (case map_of (am_handshake_sessions m) client_key of
                           Some e \<Rightarrow> Inr e
                         | None \<Rightarrow>
                             (case sg_begin_session engine of Inl err \<Rightarrow> Inl err | Inr session \<Rightarrow> Inr (session, now))) of
                     Inl _ \<Rightarrow> (start, conn, m)
                   | Inr (session, created) \<Rightarrow>
                       (let (session', step) = sg_process_token engine session token;
                            m1 = m\<lparr>am_handshake_sessions :=
                                   AList.update client_key (session', created) (am_handshake_sessions m)\<rparr>;
                            ended = m\<lparr>am_handshake_sessions := AList.delete client_key (am_handshake_sessions m)\<rparr>
                        in case step of
                             Inr (Complete username display) \<Rightarrow>
                               (let user = apply_ldap_group_enrichment ldap (am_config m)
                                             \<lparr>ui_username = username, ui_display_name = display, ui_email = None,
                                              ui_groups = [], ui_authenticated_at = now\<rparr>
                                in (Authenticated user, map_option (conn_store now user None) conn,
                                    ended\<lparr>am_principal_cache := AList.update client_key user (am_principal_cache m)\<rparr>))
                           | Inr (ChallengeToken token_b64) \<Rightarrow>
                               (Challenge (sg_scheme engine @ '' '' @ token_b64), conn, m1)
                           | Inr (Failed _) \<Rightarrow> (start, map_option conn_invalidate conn, ended)
                           | Inl _ \<Rightarrow> (start, conn, ended)))))"

definition handle_proxy_auth ::
  "auth_lib \<Rightarrow> 'c ldap_lib \<Rightarrow> time \<Rightarrow> string \<Rightarrow> headers \<Rightarrow> bool \<Rightarrow> conn_auth_cache option \<Rightarrow> 's auth_manager \<Rightarrow>
   proxy_auth_outcome \<times> conn_auth_cache option \<times> 's auth_manager" where
  "handle_proxy_auth lib ldap now client_key hs reverse_proxy conn m =
     (if am_sspi_engine m \<noteq> None then handle_sspi_auth lib ldap now client_key hs reverse_proxy conn m
      else
        (let cred_fp = proxy_auth_fingerprint lib (am_salt m) hs;
             start = Challenge (initial_auth_header (am_config m) reverse_proxy)
         in case conn_lookup now cred_fp conn of
              Some user \<Rightarrow> (Authenticated user, conn, m)
            | None \<Rightarrow>
                (case extract_credentials lib (am_config m) hs reverse_proxy of
                   None \<Rightarrow> (start, conn, m)
                 | Some (username, password) \<Rightarrow>
                     (case authenticate lib ldap now username password m of
                        (Inr user, m') \<Rightarrow> (Authenticated user, map_option (conn_store now user cred_fp) conn, m')
                      | (Inl _, m') \<Rightarrow> (start, map_option conn_invalidate conn, m')))))"

text \<open>\<^verbatim>\<open>ProxyService::authenticate_proxy\<close>: the user, or the challenge response.\<close>

definition authenticate_proxy ::
  "auth_lib \<Rightarrow> 'c ldap_lib \<Rightarrow> time \<Rightarrow> string \<Rightarrow> headers \<Rightarrow> conn_auth_cache option \<Rightarrow> 's auth_manager option \<Rightarrow>
   ((nat \<times> string \<times> string) + user_info option) \<times> conn_auth_cache option \<times> 's auth_manager option" where
  "authenticate_proxy lib ldap now client_ip hs conn auth =
     (case auth of
        None \<Rightarrow> (Inr None, conn, auth)
      | Some m \<Rightarrow>
          (if \<not> ac_enabled (am_config m) then (Inr None, conn, auth)
           else
             (case handle_proxy_auth lib ldap now client_ip hs False conn m of
                (Anonymous, conn', m') \<Rightarrow> (Inr None, conn', Some m')
              | (Authenticated user, conn', m') \<Rightarrow> (Inr (Some user), conn', Some m')
              | (Challenge h, conn', m') \<Rightarrow>
                  (Inl (create_auth_challenge_response h False), map_option conn_invalidate conn', Some m'))))"

text \<open>\<^verbatim>\<open>ProxyService::user_fields\<close>.\<close>

definition user_fields :: "user_info option \<Rightarrow> string option \<times> string option" where
  "user_fields user = (case user of None \<Rightarrow> (None, None) | Some u \<Rightarrow> (Some (ui_username u), Some (ui_username u)))"

text \<open>What the backend itself says, without the cache, and the operations on a manager as events.\<close>

definition backend_check ::
  "auth_lib \<Rightarrow> 'c ldap_lib \<Rightarrow> time \<Rightarrow> string \<Rightarrow> string \<Rightarrow> 's auth_manager \<Rightarrow> string + user_info" where
  "backend_check lib ldap now username password m =
     (case ac_backend (am_config m) of
        BasicBackend \<Rightarrow> authenticate_basic lib now username password m
      | LdapBackend \<Rightarrow> authenticate_ldap ldap now (am_config m) username password
      | _ \<Rightarrow> Inl ''multi-round handshake'')"

datatype auth_event =
    Attempt time string string
  | PutUser "string option" string "string option" string
  | RemoveUser "string option" string
  | Sweep time

fun auth_step :: "auth_lib \<Rightarrow> 'c ldap_lib \<Rightarrow> auth_event \<Rightarrow> 's auth_manager \<Rightarrow> 's auth_manager" where
  "auth_step lib ldap (Attempt now u p) m = snd (authenticate lib ldap now u p m)"
| "auth_step lib ldap (PutUser disk u p role) m = snd (put_basic_user lib disk u p role m)"
| "auth_step lib ldap (RemoveUser disk u) m = snd (remove_basic_user disk u m)"
| "auth_step lib ldap (Sweep now) m = auth_cleanup_cache now m"

definition auth_exec :: "auth_lib \<Rightarrow> 'c ldap_lib \<Rightarrow> auth_event list \<Rightarrow> 's auth_manager \<Rightarrow> 's auth_manager" where
  "auth_exec lib ldap evs m = fold (auth_step lib ldap) evs m"

section \<open>Lemmas\<close>

lemma authenticate_uncached:
  assumes "authenticate lib ldap now u p m = (Inr user, m')"
  shows "(\<exists>c. map_of (am_user_cache m) u = Some c \<and> \<not> cu_is_expired now c \<and> verify_password (al_sha lib) p (am_salt m) c \<and>
            user = cu_user_info c \<and> m' = m) \<or>
         backend_check lib ldap now u p m = Inr user \<and> m' = cache_user lib now u p user m"
  using assms
  by (auto simp: authenticate_def backend_check_def split: option.splits auth_backend.splits sum.splits if_splits)

lemma authenticate_failed: "authenticate lib ldap now u p m = (Inl e, m') \<Longrightarrow> m' = m"
  by (auto simp: authenticate_def split: option.splits sum.splits)

lemma auth_step_config [simp]:
  "am_config (auth_step lib ldap e m) = am_config m" "am_salt (auth_step lib ldap e m) = am_salt m"
  by (cases e; auto simp: authenticate_def cache_user_def put_basic_user_def remove_basic_user_def
        auth_cleanup_cache_def Let_def split: option.splits sum.splits)+

lemma auth_exec_config [simp]:
  "am_config (auth_exec lib ldap evs m) = am_config m" "am_salt (auth_exec lib ldap evs m) = am_salt m"
  by (induction evs arbitrary: m) (auto simp: auth_exec_def)

lemma auth_exec_snoc: "auth_exec lib ldap (evs @ [e]) m = auth_step lib ldap e (auth_exec lib ldap evs m)"
  by (simp add: auth_exec_def)

text \<open>Every entry of the user cache goes back to an attempt the backend accepted.\<close>

definition entry_backed ::
  "auth_lib \<Rightarrow> 'c ldap_lib \<Rightarrow> 's auth_manager \<Rightarrow> auth_event list \<Rightarrow> string \<Rightarrow> cached_user \<Rightarrow> bool" where
  "entry_backed lib ldap m0 evs u c \<longleftrightarrow>
     (\<exists>es1 es2 p. evs = es1 @ Attempt (cu_cached_at c) u p # es2 \<and>
        backend_check lib ldap (cu_cached_at c) u p (auth_exec lib ldap es1 m0) = Inr (cu_user_info c) \<and>
        cu_password_hash c = hash_password (al_sha lib) p (am_salt m0)) \<and>
     cu_ttl c = ac_cache_ttl (am_config m0)"

lemma entry_backed_snoc: "entry_backed lib ldap m0 evs u c \<Longrightarrow> entry_backed lib ldap m0 (evs @ [e]) u c"
  unfolding entry_backed_def by fastforce

lemma user_cache_filter:
  "map_of (filter (\<lambda>(_, c). P c) xs) u = Some c \<Longrightarrow> distinct (map fst xs) \<Longrightarrow> map_of xs u = Some c"
  by (auto dest!: map_of_SomeD)

lemma remove_basic_user_cache [simp]:
  "am_user_cache (snd (remove_basic_user disk u m)) = am_user_cache m"
  "am_config (snd (remove_basic_user disk u m)) = am_config m" "am_salt (snd (remove_basic_user disk u m)) = am_salt m"
  by (auto simp: remove_basic_user_def Let_def)

lemma user_cache_distinct:
  "distinct (map fst (am_user_cache m)) \<Longrightarrow> distinct (map fst (am_user_cache (auth_step lib ldap e m)))"
  by (cases e) (auto simp: authenticate_def cache_user_def put_basic_user_def remove_basic_user_def
        auth_cleanup_cache_def Let_def distinct_update distinct_map_filter split: option.splits sum.splits)

lemma attempt_backed:
  assumes backed: "\<And>u c. map_of (am_user_cache (auth_exec lib ldap evs m0)) u = Some c \<Longrightarrow> entry_backed lib ldap m0 evs u c"
    and now: "map_of (am_user_cache (snd (authenticate lib ldap t v p (auth_exec lib ldap evs m0)))) u = Some c"
  shows "entry_backed lib ldap m0 (evs @ [Attempt t v p]) u c"
proof -
  let ?m = "auth_exec lib ldap evs m0"
  obtain r m' where r: "authenticate lib ldap t v p ?m = (r, m')" by (cases "authenticate lib ldap t v p ?m")
  show ?thesis
  proof (cases "m' = ?m")
    case True
    with now r show ?thesis by (auto intro: entry_backed_snoc backed)
  next
    case False
    with r obtain user where user: "r = Inr user"
      by (cases r) (auto dest: authenticate_failed)
    with authenticate_uncached [of lib ldap t v p ?m user m'] r False
    have ok: "backend_check lib ldap t v p ?m = Inr user" and m': "m' = cache_user lib t v p user ?m" by auto
    show ?thesis
    proof (cases "u = v")
      case True
      with now r m' have "c = \<lparr>cu_user_info = user, cu_password_hash = hash_password (al_sha lib) p (am_salt m0),
          cu_cached_at = t, cu_ttl = ac_cache_ttl (am_config m0)\<rparr>"
        by (simp add: cache_user_def update_conv')
      with True ok show ?thesis by (fastforce simp: entry_backed_def)
    next
      case False
      with now r m' have "map_of (am_user_cache ?m) u = Some c" by (simp add: cache_user_def update_conv')
      then show ?thesis by (intro entry_backed_snoc backed)
    qed
  qed
qed

lemma auth_exec_backed:
  assumes "am_user_cache m0 = []"
  shows "distinct (map fst (am_user_cache (auth_exec lib ldap evs m0))) \<and>
         (\<forall>u c. map_of (am_user_cache (auth_exec lib ldap evs m0)) u = Some c \<longrightarrow> entry_backed lib ldap m0 evs u c)"
proof (induction evs rule: rev_induct)
  case Nil
  with assms show ?case by (simp add: auth_exec_def)
next
  case (snoc e evs)
  let ?m = "auth_exec lib ldap evs m0"
  have "entry_backed lib ldap m0 (evs @ [e]) u c"
    if c: "map_of (am_user_cache (auth_step lib ldap e ?m)) u = Some c" for u c
  proof (cases e)
    case (Attempt t v p)
    with c snoc.IH show ?thesis by (auto intro: attempt_backed)
  next
    case PutUser
    with c snoc.IH show ?thesis by (auto simp: put_basic_user_def intro!: entry_backed_snoc split: option.splits)
  next
    case RemoveUser
    with c snoc.IH show ?thesis by (auto intro!: entry_backed_snoc)
  next
    case Sweep
    with c snoc.IH show ?thesis
      by (auto simp: auth_cleanup_cache_def intro!: entry_backed_snoc dest: user_cache_filter)
  qed
  with snoc.IH show ?case by (auto simp: auth_exec_snoc intro: user_cache_distinct)
qed

lemma authenticate_cached:
  assumes "authenticate lib ldap t u p m = (Inr user, m1)" "map_of (am_user_cache m) u = None"
    and "now - t \<le> ac_cache_ttl (am_config m)"
    and same: "am_user_cache m2 = am_user_cache m1" "am_salt m2 = am_salt m"
  shows "authenticate lib ldap now u p m2 = (Inr user, m2)"
proof -
  from authenticate_uncached [OF assms(1)] assms(2) have "m1 = cache_user lib t u p user m" by auto
  with same have "map_of (am_user_cache m2) u = Some \<lparr>cu_user_info = user,
      cu_password_hash = hash_password (al_sha lib) p (am_salt m2), cu_cached_at = t, cu_ttl = ac_cache_ttl (am_config m)\<rparr>"
    by (simp add: cache_user_def)
  with assms(3) show ?thesis by (simp add: authenticate_def cu_is_expired_def verify_password_def)
qed

lemma try_ldap_server_password:
  assumes "\<And>dn pw c. \<exists>rc c'. ll_simple_bind ldap dn pw c = (Inr rc, c')"
  shows "try_ldap_server ldap now server config u p = try_ldap_server ldap now server config u q"
proof -
  have answered: "fst (ll_simple_bind ldap dn pw c) \<noteq> Inl e" for dn pw c e
    using assms [of dn pw c] by (metis Inl_Inr_False fst_conv)
  show ?thesis unfolding try_ldap_server_def
    by (auto simp: answered split: sum.split prod.split option.split)
qed

lemma enrichment_keeps_time [simp]:
  "ui_authenticated_at (apply_ldap_group_enrichment ldap config user) = ui_authenticated_at user"
  by (auto simp: apply_ldap_group_enrichment_def split: option.splits)

lemma challenge_value:
  "CHR '':'' \<notin> set name \<Longrightarrow>
   create_auth_challenge_response (name @ '': '' @ v) rp =
     (if rp then 401 else 407, if rp then ''www-authenticate'' else ''proxy-authenticate'', v)"
proof -
  assume name: "CHR '':'' \<notin> set name"
  let ?s = "name @ '': '' @ v"
  have "find (\<lambda>i. prefix '': '' (drop i ?s)) [0..<length ?s] = Some (length name)"
  proof (subst find_Some_iff, intro exI conjI allI impI)
    show "length name < length [0..<length ?s]" by simp
    show "prefix '': '' (drop ([0..<length ?s] ! length name) ?s)" by (simp del: upt_Suc)
    show "length name = [0..<length ?s] ! length name" by (simp del: upt_Suc)
    show "\<not> prefix '': '' (drop ([0..<length ?s] ! j) ?s)" if j: "j < length name" for j
    proof
      assume "prefix '': '' (drop ([0..<length ?s] ! j) ?s)"
      with j have "name ! j = CHR '':''" by (auto simp: Cons_nth_drop_Suc [symmetric] simp del: upt_Suc)
      with name j show False by (metis nth_mem)
    qed
  qed
  then show ?thesis by (simp add: create_auth_challenge_response_def)
qed

section \<open>Properties\<close>

text \<open>A concrete library, directory and engine for the witnesses.\<close>

definition sample_lib :: auth_lib where
  "sample_lib = \<lparr>al_sha = (\<lambda>s. s), al_base64 = (\<lambda>s. Some (char_bytes s)), al_to_str = Some\<rparr>"

definition sample_ldap :: "unit ldap_lib" where
  "sample_ldap =
     \<lparr>ll_connect = (\<lambda>_. Inr ()),
      ll_simple_bind = (\<lambda>dn pw c. (Inr (if pw = ''s3cret'' then 0 else 49), c)),
      ll_search = (\<lambda>base flt c. (Inr (0, [(''uid=ann'', [(''cn'', [''Ann''])])]), c))\<rparr>"

definition sample_engine :: "unit sspi_engine" where
  "sample_engine =
     \<lparr>sg_scheme = ''NTLM'', sg_begin_session = Inr (),
      sg_process_token = (\<lambda>s t. (s, Inr (case t of None \<Rightarrow> ChallengeToken ''c'' | Some _ \<Rightarrow> Complete ''ann'' None)))\<rparr>"

definition sample_user :: basic_user where
  "sample_user = \<lparr>bu_username = ''ann'', bu_password_hash = ''pw'', bu_role = ''staff''\<rparr>"

definition sample_manager :: "unit sspi_engine option \<Rightarrow> unit auth_manager" where
  "sample_manager engine =
     auth_new (auth_config_default\<lparr>ac_enabled := True, ac_basic_users_file := Some ''u''\<rparr>) (Some [sample_user]) ''salt'' engine"

definition sample_info :: user_info where
  "sample_info = \<lparr>ui_username = ''ann'', ui_display_name = Some ''ann'', ui_email = None,
                  ui_groups = [''staff''], ui_authenticated_at = 5\<rparr>"

lemmas sample_auth_defs = sample_lib_def sample_ldap_def sample_engine_def sample_user_def sample_manager_def
  sample_info_def auth_new_def auth_config_default_def hm_extend_def from_secs_def

lemma sample_first_attempt:
  "authenticate sample_lib sample_ldap 5 ''ann'' ''pw'' (sample_manager None) =
     (Inr sample_info, cache_user sample_lib 5 ''ann'' ''pw'' sample_info (sample_manager None))"
  by (simp add: sample_auth_defs authenticate_def authenticate_basic_def hash_password_stable_def)

text \<open>(C8) The manager never grants access on its cache alone. After any sequence of attempts, user changes and
  cache sweeps that starts from an empty cache, an accepted attempt is either accepted by the backend
  itself now, or goes back to an earlier attempt in that sequence for the same user name that the backend
  accepted, at most the cache lifetime ago, with a password of the same salted digest.
\<close>

theorem authenticate_backed:
  assumes "am_user_cache m0 = []"
    and "fst (authenticate lib ldap now u p (auth_exec lib ldap evs m0)) = Inr user"
  shows "backend_check lib ldap now u p (auth_exec lib ldap evs m0) = Inr user \<or>
         (\<exists>es1 es2 t q. evs = es1 @ Attempt t u q # es2 \<and> now - t \<le> ac_cache_ttl (am_config m0) \<and>
            backend_check lib ldap t u q (auth_exec lib ldap es1 m0) = Inr user \<and>
            hash_password (al_sha lib) q (am_salt m0) = hash_password (al_sha lib) p (am_salt m0))"
proof -
  let ?m = "auth_exec lib ldap evs m0"
  obtain m' where "authenticate lib ldap now u p ?m = (Inr user, m')"
    using assms(2) by (cases "authenticate lib ldap now u p ?m") auto
  from authenticate_uncached [OF this] show ?thesis
  proof (elim disjE exE conjE)
    fix c
    assume c: "map_of (am_user_cache ?m) u = Some c" "\<not> cu_is_expired now c"
      "verify_password (al_sha lib) p (am_salt ?m) c" "user = cu_user_info c"
    from auth_exec_backed [OF assms(1)] c(1) have "entry_backed lib ldap m0 evs u c" by blast
    with c(2-4) show ?thesis
      by (fastforce simp: entry_backed_def cu_is_expired_def verify_password_def)
  qed simp
qed

theorem authenticate_backed_witness:
  "\<exists>es1 es2 t q. [Attempt 5 ''ann'' ''pw'', RemoveUser None ''ann''] = es1 @ Attempt t ''ann'' q # es2 \<and>
     10 - t \<le> ac_cache_ttl (am_config (sample_manager None)) \<and>
     backend_check sample_lib sample_ldap t ''ann'' q (auth_exec sample_lib sample_ldap es1 (sample_manager None)) =
       Inr sample_info"
proof -
  let ?evs = "[Attempt 5 ''ann'' ''pw'', RemoveUser None ''ann'']"
  let ?m = "auth_exec sample_lib sample_ldap ?evs (sample_manager None)"
  have m: "?m = snd (remove_basic_user None ''ann'' (cache_user sample_lib 5 ''ann'' ''pw'' sample_info (sample_manager None)))"
    by (simp add: auth_exec_def sample_first_attempt)
  have "am_user_cache (sample_manager None) = []" by (simp add: sample_auth_defs)
  moreover have "fst (authenticate sample_lib sample_ldap 10 ''ann'' ''pw'' ?m) = Inr sample_info"
    unfolding m by (simp add: sample_auth_defs authenticate_def cache_user_def cu_is_expired_def verify_password_def
        remove_basic_user_def Let_def hm_has_def)
  moreover have "backend_check sample_lib sample_ldap 10 ''ann'' ''pw'' ?m \<noteq> Inr sample_info"
    unfolding m by (simp add: sample_auth_defs backend_check_def cache_user_def authenticate_basic_def Let_def
        remove_basic_user_def hm_has_def)
  ultimately show ?thesis
    using authenticate_backed [of "sample_manager None" sample_lib sample_ldap 10 "''ann''" "''pw''" ?evs sample_info]
    by blast
qed

text \<open>
  A local user who was just accepted keeps access after being removed: an attempt with the same password
  within the cache lifetime is accepted from the cache, because removing a user does not touch it.
\<close>

theorem removed_user_still_authenticates:
  assumes "authenticate lib ldap t u p m = (Inr user, m1)" and "map_of (am_user_cache m) u = None"
    and "now - t \<le> ac_cache_ttl (am_config m)"
  shows "map_of (am_basic_users (snd (remove_basic_user disk u m1))) u = None \<and>
         fst (authenticate lib ldap now u p (snd (remove_basic_user disk u m1))) = Inr user"
proof -
  from authenticate_uncached [OF assms(1)] assms(2) have "am_salt m1 = am_salt m" by (auto simp: cache_user_def)
  then have "authenticate lib ldap now u p (snd (remove_basic_user disk u m1)) =
      (Inr user, snd (remove_basic_user disk u m1))"
    by (intro authenticate_cached [OF assms]) simp_all
  then show ?thesis by (auto simp: remove_basic_user_def Let_def delete_conv)
qed

theorem removed_user_still_authenticates_witness:
  "fst (authenticate sample_lib sample_ldap 10 ''ann'' ''pw''
     (snd (remove_basic_user None ''ann'' (cache_user sample_lib 5 ''ann'' ''pw'' sample_info (sample_manager None))))) =
   Inr sample_info"
  using removed_user_still_authenticates [OF sample_first_attempt, of 10 None]
  by (simp add: sample_auth_defs)

text \<open>(C37) The LDAP backend does not check the password. When the directory answers the bind at all, with whatever
  result code, the outcome of authenticating a user is the same for every password.
\<close>

theorem ldap_password_ignored:
  assumes "\<And>dn pw c. \<exists>rc c'. ll_simple_bind ldap dn pw c = (Inr rc, c')"
  shows "authenticate_ldap ldap now config u p = authenticate_ldap ldap now config u q"
proof -
  have "(\<lambda>server. try_ldap_server ldap now server lc u p) = (\<lambda>server. try_ldap_server ldap now server lc u q)" for lc
    using try_ldap_server_password [OF assms] by blast
  then show ?thesis by (cases "ac_ldap config") (simp_all add: authenticate_ldap_def cong: option.case_cong)
qed

theorem ldap_password_ignored_witness:
  "authenticate_ldap sample_ldap 5 (auth_config_default\<lparr>ac_ldap := Some ldap_config_default\<rparr>) ''ann'' ''wrong'' =
     Inr \<lparr>ui_username = ''ann'', ui_display_name = Some ''Ann'', ui_email = None, ui_groups = [], ui_authenticated_at = 5\<rparr>"
proof -
  have "\<exists>rc c'. ll_simple_bind sample_ldap dn pw c = (Inr rc, c')" for dn pw c by (simp add: sample_ldap_def)
  note same = ldap_password_ignored [of sample_ldap 5 _ "''ann''" "''wrong''" "''s3cret''", OF this]
  show ?thesis
    by (subst same) (simp add: authenticate_ldap_def sample_auth_defs ldap_config_default_def try_ldap_server_def
        ldap_service_bind_def ldap_search_user_entry_def ldap_search_first_def ldap_attrs_from_entry_def Let_def)
qed

text \<open>
  With NTLM or Kerberos, a finished handshake authenticates the client address: a later request from the
  same address that carries no token, on a connection that never took part in the handshake, is accepted as
  the same user until the cache lifetime is over.
\<close>

theorem handshake_authenticates_address:
  assumes "am_sspi_engine m = Some engine"
    and "handle_sspi_auth lib ldap t addr hs False None m = (Authenticated user, conn, m1)"
    and "extract_proxy_token lib hs False = Some (sg_scheme engine, token)"
    and "extract_proxy_token lib hs' False = None" "now - t < ac_cache_ttl (am_config m)"
  shows "fst (handle_proxy_auth lib ldap now addr hs' False (Some (conn_new ttl)) m1) = Authenticated user"
proof -
  from assms(1-3) have "map_of (am_principal_cache m1) addr = Some user" "am_sspi_engine m1 = Some engine"
    "am_config m1 = am_config m" "ui_authenticated_at user = t"
    by (auto simp: handle_sspi_auth_def Let_def case_prod_beta
        split: option.splits sum.splits sspi_step_result.splits if_splits)
  with assms(4,5) show ?thesis
    by (simp add: handle_proxy_auth_def handle_sspi_auth_def conn_lookup_def conn_get_def conn_new_def)
qed

theorem handshake_authenticates_address_witness:
  "fst (handle_proxy_auth sample_lib sample_ldap 9 ''10.0.0.1'' [] False (Some (conn_new 300))
     (snd (snd (handle_sspi_auth sample_lib sample_ldap 5 ''10.0.0.1'' [(''proxy-authorization'', ''NTLM x'')] False None
        (sample_manager (Some sample_engine)))))) =
   Authenticated \<lparr>ui_username = ''ann'', ui_display_name = None, ui_email = None, ui_groups = [], ui_authenticated_at = 5\<rparr>"
proof -
  let ?hs = "[(''proxy-authorization'', ''NTLM x'')]"
  have "trim ''x'' = ''x''" by code_simp
  then have token: "extract_proxy_token sample_lib ?hs False = Some (sg_scheme sample_engine, [0x78])"
    by (simp add: extract_proxy_token_def auth_header_def auth_header_name_def sample_auth_defs
        char_bytes_def)
  have first: "handle_sspi_auth sample_lib sample_ldap 5 ''10.0.0.1'' ?hs False None (sample_manager (Some sample_engine)) =
      (Authenticated \<lparr>ui_username = ''ann'', ui_display_name = None, ui_email = None, ui_groups = [], ui_authenticated_at = 5\<rparr>,
       None, snd (snd (handle_sspi_auth sample_lib sample_ldap 5 ''10.0.0.1'' ?hs False None (sample_manager (Some sample_engine)))))"
    unfolding handle_sspi_auth_def token by (simp add: Let_def sample_auth_defs apply_ldap_group_enrichment_def
        should_enrich_groups_from_ldap_def)
  show ?thesis
    by (rule handshake_authenticates_address [OF _ first token])
       (simp_all add: sample_auth_defs extract_proxy_token_def auth_header_def)
qed

text \<open>
  Setting a password and then authenticating: the new password is accepted with the role that was set, and
  any password with another digest is refused.
\<close>

theorem put_then_authenticate:
  "authenticate_basic lib now u q (snd (put_basic_user lib disk u (Some p) role m)) =
     (if al_sha lib q = al_sha lib p
      then Inr \<lparr>ui_username = u, ui_display_name = Some u, ui_email = None, ui_groups = [role], ui_authenticated_at = now\<rparr>
      else Inl ''Invalid username or password'')"
proof -
  have "AList.update u x (am_basic_users m) \<noteq> []" for x by (cases "am_basic_users m") auto
  then show ?thesis by (auto simp: authenticate_basic_def put_basic_user_def hash_password_stable_def)
qed

text \<open>
  The challenge response carries the header value without the header name that the manager puts in front of
  it, with status 407 for the proxy and 401 for the reverse proxy, for every backend and realm.
\<close>

theorem challenge_header_stripped:
  "create_auth_challenge_response (initial_auth_header config rp) rp =
     (if rp then 401 else 407, if rp then ''www-authenticate'' else ''proxy-authenticate'',
      case ac_backend config of
        NtlmBackend \<Rightarrow> ''NTLM'' | KerberosBackend \<Rightarrow> ''Negotiate''
      | _ \<Rightarrow> ''Basic realm='' @ [CHR 0x22] @ ac_realm config @ [CHR 0x22])"
proof -
  have "CHR '':'' \<notin> set (if rp then ''WWW-Authenticate'' else ''Proxy-Authenticate'')" by simp
  from challenge_value [OF this, of _ rp] show ?thesis by (cases "ac_backend config") (simp_all add: initial_auth_header_def)
qed

end
