(* ===== verification/Device_Registry.thy ===== *)
theory Device_Registry
  imports Security
begin

text \<open>
  Managed devices (\<^verbatim>\<open>proxy/src/device_registry.rs\<close>), the revocation list of their certificates
  (\<^verbatim>\<open>agent_crl.rs\<close>), the certificate status (\<^verbatim>\<open>check_status\<close> in \<^verbatim>\<open>agent_ocsp.rs\<close>) and the handlers that
  combine them (\<^verbatim>\<open>agent_api.rs\<close>).

  Several nodes share one Redis database. A node is a \<open>registry\<close> and a \<open>crl\<close>, the database a
  \<open>device_db\<close> and a \<open>crl_db\<close> that the operations pass along. The argument \<open>ok\<close> says which Redis
  commands succeed. A stored value that is not the JSON text of a device is \<^const>\<open>None\<close>. \<open>sha\<close> is the
  hexadecimal SHA-256 of a text. Times are in seconds.
\<close>

section \<open>Definitions\<close>

subsection \<open>Devices\<close>

record registered_device =
  rd_id :: string
  rd_name :: string
  rd_ip :: string
  rd_device_type :: string
  rd_agent_status :: string
  rd_agent_version :: "string option"
  rd_policy_version :: "string option"
  rd_cert_subject :: "string option"
  rd_cert_fingerprint :: "string option"
  rd_cert_serial :: "string option"
  rd_trust_score :: "nat option"
  rd_last_seen :: nat
  rd_revoked :: bool
  rd_platform :: "string option"
  rd_user_identity :: "string option"
  rd_enrolled_at :: "nat option"
  rd_device_token_hash :: "string option"
  rd_capabilities :: "string list"

text \<open>The fields of a row of the device list that are computed from the device.\<close>

record api_row =
  row_device :: registered_device
  row_status :: string
  row_connection :: string
  row_enrolled :: bool

definition to_api_row :: "registered_device \<Rightarrow> api_row" where
  "to_api_row d =
     \<lparr>row_device = d,
      row_status = (if rd_revoked d then ''Revoked''
                    else if eq_ignore_ascii_case (rd_agent_status d) ''healthy'' then ''Secured'' else ''Flagged''),
      row_connection = show_nat (rd_last_seen d),
      row_enrolled = (rd_device_token_hash d \<noteq> None \<or> rd_enrolled_at d \<noteq> None)\<rparr>"

record enroll_request =
  eq_device_id :: "string option"
  eq_platform :: string
  eq_name :: "string option"
  eq_user_identity :: "string option"
  eq_capabilities :: "string list"
  eq_device_type :: "string option"
  eq_cert_subject :: "string option"
  eq_cert_fingerprint :: "string option"
  eq_cert_serial :: "string option"

record enroll_result =
  er_device_id :: string
  er_device_token :: string
  er_platform :: string
  er_enrolled_at :: nat
  er_persisted :: bool
  er_reenrolled :: bool
  er_cert_subject :: "string option"
  er_cert_fingerprint :: "string option"
  er_cert_serial :: "string option"

datatype enroll_error = InvalidPlatform | EnrollEmptyDeviceId | RevokedDevice

fun enroll_error_message :: "enroll_error \<Rightarrow> string" where
  "enroll_error_message InvalidPlatform = ''platform must be linux|macos|windows''"
| "enroll_error_message EnrollEmptyDeviceId = ''device_id must not be empty when provided''"
| "enroll_error_message RevokedDevice = ''device is revoked; clear revoke before re-enroll''"

record heartbeat_update =
  hb_device_id :: string
  hb_status :: "string option"
  hb_agent_version :: "string option"
  hb_policy_version :: "string option"
  hb_name :: "string option"
  hb_ip :: "string option"
  hb_device_type :: "string option"
  hb_cert_subject :: "string option"
  hb_cert_fingerprint :: "string option"
  hb_trust_score :: "nat option"

datatype heartbeat_error = EmptyDeviceId | InvalidTrustScore

fun heartbeat_error_message :: "heartbeat_error \<Rightarrow> string" where
  "heartbeat_error_message EmptyDeviceId = ''device_id must not be empty''"
| "heartbeat_error_message InvalidTrustScore = ''trust_score must be between 0 and 100''"

datatype revoke_error = InvalidId | NotFound

fun revoke_error_message :: "revoke_error \<Rightarrow> string" where
  "revoke_error_message InvalidId = ''invalid device id''"
| "revoke_error_message NotFound = ''device not found''"

subsection \<open>The file\<close>

definition max_devices :: nat where "max_devices = 10000"

text \<open>What reading the file gives; the version and the devices of a file that parses.\<close>

datatype file_state =
    NoFile | Unreadable string | Blank | Malformed string
  | Parsed nat "registered_device list"

definition load :: "file_state \<Rightarrow> string + (string, registered_device) hash_map" where
  "load file =
     (case file of
        NoFile \<Rightarrow> Inr []
      | Unreadable e \<Rightarrow> Inl e
      | Blank \<Rightarrow> Inr []
      | Malformed e \<Rightarrow> Inl e
      | Parsed version devices \<Rightarrow>
          (if version \<noteq> 1 then Inl ''unsupported agent devices file version''
           else if length devices > max_devices then Inl ''too many entries''
           else Inr (hm_extend [] (map (\<lambda>d. (rd_id d, d)) (filter (\<lambda>d. trim (rd_id d) \<noteq> []) devices)))))"

text \<open>\<open>io\<close> is the first failing file operation, if any: the new contents appear by a rename at the end.\<close>

definition save :: "string option \<Rightarrow> (string, registered_device) hash_map \<Rightarrow> file_state \<Rightarrow> string option \<times> file_state" where
  "save io devices file =
     (if length devices > max_devices then (Some ''refusing to persist'', file)
      else
        (case io of
           Some e \<Rightarrow> (Some e, file)
         | None \<Rightarrow> (None, Parsed 1 (sort_key rd_id (map snd devices)))))"

subsection \<open>The shared database\<close>

record device_db =
  db_devices :: "(string, registered_device option) hash_map"
  db_tok :: "(string, string) hash_map"
  db_fp :: "(string, string) hash_map"
  db_ser :: "(string, string) hash_map"

datatype redis_op =
    HGetAllDevices | HSetDevice string | HGetDevice string
  | GetTok string | SetTok string | DelTok string
  | GetFp string | SetFp string | GetSer string | SetSer string
  | HGetAllCrl | HSetCrl string | GetCrlNumber | SetCrlNumber

type_synonym redis_faults = "redis_op \<Rightarrow> bool"

record registry =
  rg_devices :: "(string, registered_device) hash_map"
  rg_path :: bool
  rg_file :: file_state
  rg_redis :: bool

definition memory_only :: registry where
  "memory_only = \<lparr>rg_devices = [], rg_path = False, rg_file = NoFile, rg_redis = False\<rparr>"

definition registry_from_env :: "bool \<Rightarrow> file_state \<Rightarrow> registry" where
  "registry_from_env path file =
     (if \<not> path then memory_only
      else
        (case load file of
           Inr loaded \<Rightarrow> \<lparr>rg_devices = loaded, rg_path = True, rg_file = file, rg_redis = False\<rparr>
         | Inl _ \<Rightarrow> \<lparr>rg_devices = [], rg_path = True, rg_file = file, rg_redis = False\<rparr>))"

definition is_persistent :: "registry \<Rightarrow> bool" where
  "is_persistent r \<longleftrightarrow> rg_path r \<or> rg_redis r"

definition persist_locked :: "string option \<Rightarrow> registry \<Rightarrow> bool \<times> registry" where
  "persist_locked io r =
     (if \<not> rg_path r then (False, r)
      else (case save io (rg_devices r) (rg_file r) of
              (None, file) \<Rightarrow> (True, r\<lparr>rg_file := file\<rparr>)
            | (Some _, file) \<Rightarrow> (False, r\<lparr>rg_file := file\<rparr>)))"

definition cache_device :: "registered_device \<Rightarrow> registry \<Rightarrow> registry" where
  "cache_device d r = r\<lparr>rg_devices := AList.update (rd_id d) d (rg_devices r)\<rparr>"

fun pull_merge ::
  "(string \<times> registered_device option) list \<Rightarrow> nat \<times> (string, registered_device) hash_map \<Rightarrow>
   nat \<times> (string, registered_device) hash_map" where
  "pull_merge [] acc = acc"
| "pull_merge ((_, json) # rest) (merged, devices) =
     (case json of
        None \<Rightarrow> pull_merge rest (merged, devices)
      | Some dev \<Rightarrow>
          (if trim (rd_id dev) = [] then pull_merge rest (merged, devices)
           else
             (case map_of devices (rd_id dev) of
                Some l \<Rightarrow>
                  (if rd_last_seen l \<ge> rd_last_seen dev then pull_merge rest (merged, devices)
                   else pull_merge rest (merged + 1, AList.update (rd_id dev) dev devices))
              | None \<Rightarrow> pull_merge rest (merged + 1, AList.update (rd_id dev) dev devices))))"

definition pull_from_redis :: "redis_faults \<Rightarrow> device_db \<Rightarrow> registry \<Rightarrow> nat \<times> registry" where
  "pull_from_redis ok db r =
     (if \<not> rg_redis r \<or> \<not> ok HGetAllDevices then (0, r)
      else (case pull_merge (db_devices db) (0, rg_devices r) of
              (merged, devices) \<Rightarrow> (merged, r\<lparr>rg_devices := devices\<rparr>)))"

definition attach_redis :: "redis_faults \<Rightarrow> device_db \<Rightarrow> registry \<Rightarrow> nat \<times> registry" where
  "attach_redis ok db r = pull_from_redis ok db (r\<lparr>rg_redis := True\<rparr>)"

definition del_tok :: "redis_faults \<Rightarrow> string \<Rightarrow> device_db \<Rightarrow> device_db" where
  "del_tok ok h db = (if ok (DelTok h) then db\<lparr>db_tok := AList.delete h (db_tok db)\<rparr> else db)"

definition set_tok :: "redis_faults \<Rightarrow> string \<Rightarrow> string \<Rightarrow> device_db \<Rightarrow> device_db" where
  "set_tok ok h i db = (if ok (SetTok h) then db\<lparr>db_tok := AList.update h i (db_tok db)\<rparr> else db)"

definition redis_put_device ::
  "redis_faults \<Rightarrow> registered_device \<Rightarrow> string option \<Rightarrow> registry \<Rightarrow> device_db \<Rightarrow> bool \<times> device_db" where
  "redis_put_device ok device old_token_hash r db =
     (if \<not> rg_redis r then (False, db)
      else if \<not> ok (HSetDevice (rd_id device)) then (False, db)
      else
        (let db0 = db\<lparr>db_devices := AList.update (rd_id device) (Some device) (db_devices db)\<rparr>;
             db1 = (case old_token_hash of
                      Some old \<Rightarrow> (if rd_device_token_hash device \<noteq> Some old then del_tok ok old db0 else db0)
                    | None \<Rightarrow> db0);
             db2 = (case (rd_device_token_hash device, old_token_hash) of
                      (Some h, _) \<Rightarrow> set_tok ok h (rd_id device) db1
                    | (None, Some old) \<Rightarrow> del_tok ok old db1
                    | (None, None) \<Rightarrow> db1);
             db3 = (case rd_cert_fingerprint device of
                      Some fp \<Rightarrow>
                        (let k = to_ascii_lowercase fp in
                         if ok (SetFp k) then db2\<lparr>db_fp := AList.update k (rd_id device) (db_fp db2)\<rparr> else db2)
                    | None \<Rightarrow> db2);
             db4 = (case rd_cert_serial device of
                      Some ser \<Rightarrow>
                        (let k = to_ascii_lowercase ser in
                         if ok (SetSer k) then db3\<lparr>db_ser := AList.update k (rd_id device) (db_ser db3)\<rparr> else db3)
                    | None \<Rightarrow> db3)
         in (True, db4)))"

definition redis_get_device :: "redis_faults \<Rightarrow> device_db \<Rightarrow> registry \<Rightarrow> string \<Rightarrow> registered_device option" where
  "redis_get_device ok db r i =
     (if rg_redis r \<and> ok (HGetDevice i) then Option.bind (map_of (db_devices db) i) id else None)"

definition redis_get_by_token_hash :: "redis_faults \<Rightarrow> device_db \<Rightarrow> registry \<Rightarrow> string \<Rightarrow> registered_device option" where
  "redis_get_by_token_hash ok db r h =
     (if rg_redis r \<and> ok (GetTok h) then Option.bind (map_of (db_tok db) h) (redis_get_device ok db r) else None)"

definition redis_get_by_fp :: "redis_faults \<Rightarrow> device_db \<Rightarrow> registry \<Rightarrow> string \<Rightarrow> registered_device option" where
  "redis_get_by_fp ok db r fp =
     (if rg_redis r \<and> ok (GetFp fp) then Option.bind (map_of (db_fp db) fp) (redis_get_device ok db r) else None)"

definition redis_get_by_serial :: "redis_faults \<Rightarrow> device_db \<Rightarrow> registry \<Rightarrow> string \<Rightarrow> registered_device option" where
  "redis_get_by_serial ok db r ser =
     (if rg_redis r \<and> ok (GetSer ser) then Option.bind (map_of (db_ser db) ser) (redis_get_device ok db r) else None)"

subsection \<open>Heartbeat, enrolment, revocation\<close>

definition nonblank :: "string option \<Rightarrow> string option" where
  "nonblank v = (case v of Some s \<Rightarrow> (if trim s = [] then None else Some s) | None \<Rightarrow> None)"

definition trimmed :: "string option \<Rightarrow> string option" where
  "trimmed v = (case v of Some s \<Rightarrow> (if trim s = [] then None else Some (trim s)) | None \<Rightarrow> None)"

definition known_type :: "string option \<Rightarrow> string option" where
  "known_type v = (case v of Some s \<Rightarrow> (if s \<in> {''desktop'', ''phone''} then Some s else None) | None \<Rightarrow> None)"

definition or_else :: "'a option \<Rightarrow> 'a option \<Rightarrow> 'a option" where
  "or_else a b = (case a of None \<Rightarrow> b | Some x \<Rightarrow> Some x)"

definition unwrap_or :: "'a option \<Rightarrow> 'a \<Rightarrow> 'a" where
  "unwrap_or a d = (case a of None \<Rightarrow> d | Some x \<Rightarrow> x)"

definition heartbeat_device :: "nat \<Rightarrow> heartbeat_update \<Rightarrow> registered_device option \<Rightarrow> registered_device" where
  "heartbeat_device now hb previous =
     \<lparr>rd_id = hb_device_id hb,
      rd_name = unwrap_or (or_else (nonblank (hb_name hb)) (map_option rd_name previous)) (hb_device_id hb),
      rd_ip = unwrap_or (or_else (hb_ip hb) (map_option rd_ip previous)) [],
      rd_device_type = unwrap_or (or_else (known_type (hb_device_type hb)) (map_option rd_device_type previous)) ''desktop'',
      rd_agent_status = unwrap_or (hb_status hb) ''healthy'',
      rd_agent_version = or_else (hb_agent_version hb) (Option.bind previous rd_agent_version),
      rd_policy_version = or_else (hb_policy_version hb) (Option.bind previous rd_policy_version),
      rd_cert_subject = or_else (hb_cert_subject hb) (Option.bind previous rd_cert_subject),
      rd_cert_fingerprint = or_else (hb_cert_fingerprint hb) (Option.bind previous rd_cert_fingerprint),
      rd_cert_serial = Option.bind previous rd_cert_serial,
      rd_trust_score = or_else (hb_trust_score hb) (Option.bind previous rd_trust_score),
      rd_last_seen = now,
      rd_revoked = (case previous of None \<Rightarrow> False | Some d \<Rightarrow> rd_revoked d),
      rd_platform = Option.bind previous rd_platform,
      rd_user_identity = Option.bind previous rd_user_identity,
      rd_enrolled_at = Option.bind previous rd_enrolled_at,
      rd_device_token_hash = Option.bind previous rd_device_token_hash,
      rd_capabilities = unwrap_or (map_option rd_capabilities previous) []\<rparr>"

definition store_device ::
  "redis_faults \<Rightarrow> string option \<Rightarrow> registered_device \<Rightarrow> string option \<Rightarrow> registry \<Rightarrow> device_db \<Rightarrow>
   bool \<times> registry \<times> device_db" where
  "store_device ok io device old_token r db =
     (let (file_ok, r1) = persist_locked io (cache_device device r);
          (redis_ok, db1) = redis_put_device ok device old_token r1 db
      in (file_ok \<or> redis_ok, r1, db1))"

definition apply_heartbeat ::
  "redis_faults \<Rightarrow> string option \<Rightarrow> nat \<Rightarrow> heartbeat_update \<Rightarrow> registry \<Rightarrow> device_db \<Rightarrow>
   (heartbeat_error + bool) \<times> registry \<times> device_db" where
  "apply_heartbeat ok io now hb r db =
     (if trim (hb_device_id hb) = [] then (Inl EmptyDeviceId, r, db)
      else if (case hb_trust_score hb of Some score \<Rightarrow> score > 100 | None \<Rightarrow> False) then (Inl InvalidTrustScore, r, db)
      else
        (let device = heartbeat_device now hb (map_of (rg_devices r) (hb_device_id hb));
             (persisted, r1, db1) = store_device ok io device None r db
         in (Inr persisted, r1, db1)))"

definition enroll_device :: "nat \<Rightarrow> string \<Rightarrow> string \<Rightarrow> enroll_request \<Rightarrow> string \<Rightarrow> registered_device option \<Rightarrow> registered_device" where
  "enroll_device now device_id platform req token_hash previous =
     \<lparr>rd_id = device_id,
      rd_name = unwrap_or (or_else (nonblank (eq_name req)) (map_option rd_name previous)) device_id,
      rd_ip = unwrap_or (map_option rd_ip previous) [],
      rd_device_type = unwrap_or (or_else (known_type (eq_device_type req)) (map_option rd_device_type previous)) ''desktop'',
      rd_agent_status = unwrap_or (map_option rd_agent_status previous) ''healthy'',
      rd_agent_version = Option.bind previous rd_agent_version,
      rd_policy_version = Option.bind previous rd_policy_version,
      rd_cert_subject = or_else (nonblank (eq_cert_subject req)) (Option.bind previous rd_cert_subject),
      rd_cert_fingerprint = or_else (nonblank (eq_cert_fingerprint req)) (Option.bind previous rd_cert_fingerprint),
      rd_cert_serial = or_else (nonblank (eq_cert_serial req)) (Option.bind previous rd_cert_serial),
      rd_trust_score = Option.bind previous rd_trust_score,
      rd_last_seen = now,
      rd_revoked = False,
      rd_platform = Some platform,
      rd_user_identity = or_else (nonblank (eq_user_identity req)) (Option.bind previous rd_user_identity),
      rd_enrolled_at = Some now,
      rd_device_token_hash = Some token_hash,
      rd_capabilities =
        (if eq_capabilities req = [] then unwrap_or (map_option rd_capabilities previous) [''local-proxy'']
         else eq_capabilities req)\<rparr>"

definition hash_device_token :: "(string \<Rightarrow> string) \<Rightarrow> string \<Rightarrow> string" where
  "hash_device_token sha token = sha token"

text \<open>\<open>fresh\<close> is the random part of a device id in hexadecimal, \<open>token\<close> the random device token.\<close>

definition enroll ::
  "(string \<Rightarrow> string) \<Rightarrow> redis_faults \<Rightarrow> string option \<Rightarrow> nat \<Rightarrow> string \<Rightarrow> string \<Rightarrow> enroll_request \<Rightarrow> registry \<Rightarrow> device_db \<Rightarrow>
   (enroll_error + enroll_result) \<times> registry \<times> device_db" where
  "enroll sha ok io now fresh token req r db =
     (let platform = to_ascii_lowercase (eq_platform req) in
      if platform \<notin> {''linux'', ''macos'', ''windows''} then (Inl InvalidPlatform, r, db)
      else
        (case (case eq_device_id req of
                 Some i \<Rightarrow> (if trim i = [] \<or> CHR ''/'' \<in> set (trim i) then None else Some (trim i))
               | None \<Rightarrow> Some (''dev-'' @ fresh)) of
           None \<Rightarrow> (Inl EnrollEmptyDeviceId, r, db)
         | Some device_id \<Rightarrow>
             (let previous = map_of (rg_devices r) device_id in
              if (case previous of Some d \<Rightarrow> rd_revoked d | None \<Rightarrow> False) then (Inl RevokedDevice, r, db)
              else
                (let device = enroll_device now device_id platform req (hash_device_token sha token) previous;
                     (persisted, r1, db1) =
                       store_device ok io device (Option.bind previous rd_device_token_hash) r db
                 in (Inr \<lparr>er_device_id = device_id, er_device_token = token, er_platform = platform,
                          er_enrolled_at = now, er_persisted = persisted, er_reenrolled = (previous \<noteq> None),
                          er_cert_subject = rd_cert_subject device, er_cert_fingerprint = rd_cert_fingerprint device,
                          er_cert_serial = rd_cert_serial device\<rparr>, r1, db1)))))"

text \<open>The four checks look at the local devices first and then at an index of the database.\<close>

definition check_device ::
  "(registered_device \<Rightarrow> bool) \<Rightarrow> registered_device option \<Rightarrow> registry \<Rightarrow> bool \<times> registry" where
  "check_device matches remote r =
     (if \<exists>(_, d) \<in> set (rg_devices r). \<not> rd_revoked d \<and> matches d then (True, r)
      else
        (case remote of
           Some dev \<Rightarrow> (if \<not> rd_revoked dev then (True, cache_device dev r) else (False, r))
         | None \<Rightarrow> (False, r)))"

definition device_token_valid :: "(string \<Rightarrow> string) \<Rightarrow> redis_faults \<Rightarrow> device_db \<Rightarrow> string \<Rightarrow> registry \<Rightarrow> bool \<times> registry" where
  "device_token_valid sha ok db token r =
     (if token = [] then (False, r)
      else
        (let h = hash_device_token sha token in
         check_device (\<lambda>d. case rd_device_token_hash d of Some k \<Rightarrow> secret_eq k h | None \<Rightarrow> False)
           (redis_get_by_token_hash ok db r h) r))"

definition field_matches :: "string option \<Rightarrow> string \<Rightarrow> bool" where
  "field_matches v s \<longleftrightarrow> (case v of Some k \<Rightarrow> secret_eq (to_ascii_lowercase k) s | None \<Rightarrow> False)"

definition cert_fingerprint_valid :: "redis_faults \<Rightarrow> device_db \<Rightarrow> string \<Rightarrow> registry \<Rightarrow> bool \<times> registry" where
  "cert_fingerprint_valid ok db fingerprint r =
     (if fingerprint = [] then (False, r)
      else
        (let fp = to_ascii_lowercase fingerprint in
         check_device (\<lambda>d. field_matches (rd_cert_fingerprint d) fp) (redis_get_by_fp ok db r fp) r))"

definition cert_fingerprint_known :: "redis_faults \<Rightarrow> device_db \<Rightarrow> string \<Rightarrow> registry \<Rightarrow> bool" where
  "cert_fingerprint_known ok db fingerprint r =
     (if fingerprint = [] then False
      else
        (let fp = to_ascii_lowercase fingerprint in
         (\<exists>(_, d) \<in> set (rg_devices r). field_matches (rd_cert_fingerprint d) fp) \<or> redis_get_by_fp ok db r fp \<noteq> None))"

definition cert_serial_valid :: "redis_faults \<Rightarrow> device_db \<Rightarrow> string \<Rightarrow> registry \<Rightarrow> bool \<times> registry" where
  "cert_serial_valid ok db serial_hex r =
     (if serial_hex = [] then (False, r)
      else
        (let s = to_ascii_lowercase serial_hex in
         check_device (\<lambda>d. field_matches (rd_cert_serial d) s) (redis_get_by_serial ok db r s) r))"

definition cert_serial_known :: "redis_faults \<Rightarrow> device_db \<Rightarrow> string \<Rightarrow> registry \<Rightarrow> bool" where
  "cert_serial_known ok db serial_hex r =
     (if serial_hex = [] then False
      else
        (let s = to_ascii_lowercase serial_hex in
         (\<exists>(_, d) \<in> set (rg_devices r). field_matches (rd_cert_serial d) s) \<or> redis_get_by_serial ok db r s \<noteq> None))"

definition revoke ::
  "redis_faults \<Rightarrow> string option \<Rightarrow> string \<Rightarrow> registry \<Rightarrow> device_db \<Rightarrow>
   (revoke_error + (bool \<times> string option \<times> string option)) \<times> registry \<times> device_db" where
  "revoke ok io device_id r db =
     (if device_id = [] \<or> CHR ''/'' \<in> set device_id then (Inl InvalidId, r, db)
      else
        (let r0 = (if map_of (rg_devices r) device_id = None
                   then (case redis_get_device ok db r device_id of Some remote \<Rightarrow> cache_device remote r | None \<Rightarrow> r)
                   else r)
         in case map_of (rg_devices r0) device_id of
              None \<Rightarrow> (Inl NotFound, r0, db)
            | Some device \<Rightarrow>
                (let stored = device\<lparr>rd_revoked := True, rd_device_token_hash := None\<rparr>;
                     (file_ok, r1) = persist_locked io (r0\<lparr>rg_devices := AList.update device_id stored (rg_devices r0)\<rparr>);
                     (redis_ok, db1) = redis_put_device ok stored (rd_device_token_hash device) r1 db
                 in (Inr (file_ok \<or> redis_ok, rd_cert_fingerprint device, rd_cert_serial device), r1, db1))))"

definition list_api_rows :: "redis_faults \<Rightarrow> device_db \<Rightarrow> registry \<Rightarrow> api_row list \<times> registry" where
  "list_api_rows ok db r =
     (let r1 = snd (pull_from_redis ok db r)
      in (sort_key (\<lambda>row. - int (rd_last_seen (row_device row))) (map (\<lambda>(_, d). to_api_row d) (rg_devices r1)), r1))"

definition sni_deny_patterns_from_env :: "(string \<Rightarrow> string option) \<Rightarrow> string list" where
  "sni_deny_patterns_from_env env =
     (case env ''AGENT_SNI_DENY_PATTERNS'' of
        Some raw \<Rightarrow>
          (if trim raw \<noteq> [] then filter (\<lambda>part. part \<noteq> []) (map trim (split_char CHR '','' raw))
           else [''*.evil.com'', ''badsite.test''])
      | None \<Rightarrow> [''*.evil.com'', ''badsite.test''])"

definition redis_url_from_env :: "(string \<Rightarrow> string option) \<Rightarrow> string option" where
  "redis_url_from_env env =
     (case (case env ''AGENT_DEVICES_REDIS_URL'' of Some url \<Rightarrow> trim url | None \<Rightarrow> []) of
        [] \<Rightarrow>
          (if \<not> env_flag [''1'', ''true'', ''yes'', ''on''] env ''AGENT_DEVICES_REDIS'' then None
           else (case env ''REDIS_URL'' of
                   Some s \<Rightarrow> (if trim s = [] then None else Some (trim s))
                 | None \<Rightarrow> None))
      | url \<Rightarrow> Some url)"

subsection \<open>The revocation list\<close>

record crl_entry =
  ce_fingerprint :: string
  ce_serial_hex :: "string option"
  ce_device_id :: string
  ce_revoked_at :: nat
  ce_reason :: string

record crl_db =
  cd_entries :: "(string, crl_entry option) hash_map"
  cd_number :: "nat option"

record crl =
  cr_entries :: "crl_entry list"
  cr_number :: nat
  cr_redis :: bool
  cr_path :: bool
  cr_file :: "(crl_entry list \<times> nat) option"

definition crl_memory_only :: crl where
  "crl_memory_only = \<lparr>cr_entries = [], cr_number = 1, cr_redis = False, cr_path = False, cr_file = None\<rparr>"

fun crl_merge :: "(string \<times> crl_entry option) list \<Rightarrow> crl_entry list \<Rightarrow> crl_entry list" where
  "crl_merge [] entries = entries"
| "crl_merge ((_, json) # rest) entries =
     (case json of
        None \<Rightarrow> crl_merge rest entries
      | Some entry \<Rightarrow>
          (if \<exists>e \<in> set entries. ce_fingerprint e = ce_fingerprint entry then crl_merge rest entries
           else crl_merge rest (entries @ [entry])))"

definition crl_pull :: "redis_faults \<Rightarrow> crl_db \<Rightarrow> crl \<Rightarrow> crl" where
  "crl_pull ok db c =
     (if \<not> cr_redis c \<or> \<not> ok HGetAllCrl then c
      else
        (let number = max 1 (if ok GetCrlNumber then unwrap_or (cd_number db) 1 else 1)
         in c\<lparr>cr_entries := crl_merge (cd_entries db) (cr_entries c), cr_number := max number (cr_number c)\<rparr>))"

definition crl_attach_redis :: "redis_faults \<Rightarrow> crl_db \<Rightarrow> crl \<Rightarrow> crl" where
  "crl_attach_redis ok db c = crl_pull ok db (c\<lparr>cr_redis := True\<rparr>)"

definition entry_by_fingerprint :: "redis_faults \<Rightarrow> crl_db \<Rightarrow> string \<Rightarrow> crl \<Rightarrow> crl_entry option \<times> crl" where
  "entry_by_fingerprint ok db fingerprint c =
     (if fingerprint = [] then (None, c)
      else
        (let c1 = crl_pull ok db c
         in (find (\<lambda>e. secret_eq (to_ascii_lowercase (ce_fingerprint e)) (to_ascii_lowercase fingerprint)) (cr_entries c1), c1)))"

definition entry_by_serial :: "redis_faults \<Rightarrow> crl_db \<Rightarrow> string \<Rightarrow> crl \<Rightarrow> crl_entry option \<times> crl" where
  "entry_by_serial ok db serial_hex c =
     (if serial_hex = [] then (None, c)
      else
        (let c1 = crl_pull ok db c
         in (find (\<lambda>e. field_matches (ce_serial_hex e) (to_ascii_lowercase serial_hex)) (cr_entries c1), c1)))"

definition is_fingerprint_revoked :: "redis_faults \<Rightarrow> crl_db \<Rightarrow> string \<Rightarrow> crl \<Rightarrow> bool \<times> crl" where
  "is_fingerprint_revoked ok db fingerprint c =
     (if fingerprint = [] then (False, c)
      else
        (let c1 = crl_pull ok db c
         in (\<exists>e \<in> set (cr_entries c1). secret_eq (to_ascii_lowercase (ce_fingerprint e)) (to_ascii_lowercase fingerprint), c1)))"

definition is_serial_revoked :: "redis_faults \<Rightarrow> crl_db \<Rightarrow> string \<Rightarrow> crl \<Rightarrow> bool \<times> crl" where
  "is_serial_revoked ok db serial_hex c =
     (if serial_hex = [] then (False, c)
      else
        (let c1 = crl_pull ok db c
         in (\<exists>e \<in> set (cr_entries c1). field_matches (ce_serial_hex e) (to_ascii_lowercase serial_hex), c1)))"

definition crl_persist_locked :: "string option \<Rightarrow> crl \<Rightarrow> crl" where
  "crl_persist_locked io c =
     (if cr_path c \<and> io = None then c\<lparr>cr_file := Some (cr_entries c, cr_number c)\<rparr> else c)"

definition redis_put_entry :: "redis_faults \<Rightarrow> crl_entry \<Rightarrow> nat \<Rightarrow> crl \<Rightarrow> crl_db \<Rightarrow> crl_db" where
  "redis_put_entry ok entry number c db =
     (if \<not> cr_redis c \<or> \<not> ok (HSetCrl (ce_fingerprint entry)) then db
      else
        (let db1 = db\<lparr>cd_entries := AList.update (ce_fingerprint entry) (Some entry) (cd_entries db)\<rparr>
         in if ok SetCrlNumber then db1\<lparr>cd_number := Some number\<rparr> else db1))"

definition crl_revoke ::
  "redis_faults \<Rightarrow> string option \<Rightarrow> nat \<Rightarrow> string \<Rightarrow> string option \<Rightarrow> string option \<Rightarrow> string \<Rightarrow> crl \<Rightarrow> crl_db \<Rightarrow> bool \<times> crl \<times> crl_db" where
  "crl_revoke ok io now device_id fingerprint serial_hex reason c db =
     (case trimmed fingerprint of
        None \<Rightarrow> (False, c, db)
      | Some f \<Rightarrow>
          (let fp = to_ascii_lowercase f;
               c1 = crl_pull ok db c
           in if \<exists>e \<in> set (cr_entries c1). secret_eq (ce_fingerprint e) fp then (False, c1, db)
              else
                (let entry = \<lparr>ce_fingerprint = fp,
                              ce_serial_hex = map_option to_ascii_lowercase (trimmed serial_hex),
                              ce_device_id = device_id, ce_revoked_at = now,
                              ce_reason = (if reason = [] then ''unspecified'' else reason)\<rparr>;
                     c2 = c1\<lparr>cr_entries := cr_entries c1 @ [entry], cr_number := cr_number c1 + 1\<rparr>;
                     c3 = crl_persist_locked io c2
                 in (True, c3, redis_put_entry ok entry (cr_number c3) c3 db))))"

definition crl_list :: "redis_faults \<Rightarrow> crl_db \<Rightarrow> crl \<Rightarrow> crl_entry list \<times> crl" where
  "crl_list ok db c = (let c1 = crl_pull ok db c in (cr_entries c1, c1))"

definition crl_load :: "(nat \<times> nat \<times> crl_entry list) option \<Rightarrow> string + (crl_entry list \<times> nat)" where
  "crl_load file =
     (case file of
        None \<Rightarrow> Inr ([], 1)
      | Some (version, number, entries) \<Rightarrow>
          (if version \<noteq> 1 then Inl ''unsupported CRL file version'' else Inr (entries, max number 1)))"

subsection \<open>Certificate status\<close>

datatype ocsp_cert_status = Good | Revoked | Unknown

record ocsp_status_response =
  os_status :: ocsp_cert_status
  os_fingerprint :: "string option"
  os_serial :: "string option"
  os_device_id :: "string option"
  os_this_update :: nat
  os_next_update :: nat
  os_revoked_at :: "nat option"
  os_reason :: "string option"

definition revoked_response :: "string option \<Rightarrow> crl_entry \<Rightarrow> nat \<Rightarrow> nat \<Rightarrow> ocsp_status_response" where
  "revoked_response ser entry now next_update =
     \<lparr>os_status = Revoked, os_fingerprint = Some (ce_fingerprint entry),
      os_serial = or_else (ce_serial_hex entry) (map_option to_ascii_lowercase ser),
      os_device_id = Some (ce_device_id entry), os_this_update = now, os_next_update = next_update,
      os_revoked_at = Some (ce_revoked_at entry), os_reason = Some (ce_reason entry)\<rparr>"

definition check_status ::
  "redis_faults \<Rightarrow> nat \<Rightarrow> crl_db \<Rightarrow> device_db \<Rightarrow> string option \<Rightarrow> string option \<Rightarrow> crl \<Rightarrow> registry \<Rightarrow>
   (string + ocsp_status_response) \<times> crl \<times> registry" where
  "check_status ok now cdb ddb fingerprint serial c r =
     (let fp = trimmed fingerprint;
          ser = trimmed serial;
          plain = (\<lambda>st revoked_at reason. Inr \<lparr>os_status = st, os_fingerprint = map_option to_ascii_lowercase fp,
                    os_serial = map_option to_ascii_lowercase ser, os_device_id = None, os_this_update = now,
                    os_next_update = now + 300, os_revoked_at = revoked_at, os_reason = reason\<rparr>);
          by_fp = (\<lambda>c. case fp of Some f \<Rightarrow> entry_by_fingerprint ok cdb f c | None \<Rightarrow> (None, c));
          by_ser = (\<lambda>c. case ser of Some s \<Rightarrow> entry_by_serial ok cdb s c | None \<Rightarrow> (None, c))
      in if fp = None \<and> ser = None then (Inl ''fingerprint or serial query parameter required'', c, r)
         else
           (case by_fp c of
              (Some entry, c1) \<Rightarrow> (Inr (revoked_response ser entry now (now + 300)), c1, r)
            | (None, c1) \<Rightarrow>
                (case by_ser c1 of
                   (Some entry, c2) \<Rightarrow> (Inr (revoked_response ser entry now (now + 300)), c2, r)
                 | (None, c2) \<Rightarrow>
                     (let (good_fp, r1) = (case fp of Some f \<Rightarrow> cert_fingerprint_valid ok ddb f r | None \<Rightarrow> (False, r));
                          (good, r2) = (if good_fp then (True, r1)
                                        else (case ser of Some s \<Rightarrow> cert_serial_valid ok ddb s r1 | None \<Rightarrow> (False, r1)))
                      in if good then (plain Good None None, c2, r2)
                         else if (case fp of Some f \<Rightarrow> cert_fingerprint_known ok ddb f r2 | None \<Rightarrow> False) \<or>
                                 (case ser of Some s \<Rightarrow> cert_serial_known ok ddb s r2 | None \<Rightarrow> False)
                              then (plain Revoked (Some now) (Some ''device-revoked''), c2, r2)
                         else (plain Unknown None None, c2, r2)))))"

text \<open>The handler that revokes a device: the registry first, then the list.\<close>

definition revoke_device ::
  "redis_faults \<Rightarrow> string option \<Rightarrow> nat \<Rightarrow> string \<Rightarrow> registry \<Rightarrow> device_db \<Rightarrow> crl \<Rightarrow> crl_db \<Rightarrow>
   (nat \<times> (bool \<times> bool) option) \<times> (registry \<times> device_db) \<times> crl \<times> crl_db" where
  "revoke_device ok io now device_id r db c cdb =
     (case revoke ok io device_id r db of
        (Inr (persisted, fingerprint, serial), r1, db1) \<Rightarrow>
          (let (crl_added, c1, cdb1) = crl_revoke ok io now device_id fingerprint serial ''cessationOfOperation'' c cdb
           in ((200, Some (persisted, crl_added)), (r1, db1), c1, cdb1))
      | (Inl InvalidId, r1, db1) \<Rightarrow> ((400, None), (r1, db1), c, cdb)
      | (Inl NotFound, r1, db1) \<Rightarrow> ((404, None), (r1, db1), c, cdb))"

text \<open>The operations as steps of one node, and of several nodes that share a database.\<close>

datatype device_op =
    Heartbeat redis_faults "string option" nat heartbeat_update
  | Enroll redis_faults "string option" nat string string enroll_request
  | RevokeOp redis_faults "string option" string
  | TokenCheck redis_faults string
  | FingerprintCheck redis_faults string
  | SerialCheck redis_faults string
  | ListRows redis_faults

fun device_step :: "(string \<Rightarrow> string) \<Rightarrow> device_op \<Rightarrow> registry \<times> device_db \<Rightarrow> registry \<times> device_db" where
  "device_step sha (Heartbeat ok io now hb) (r, db) = snd (apply_heartbeat ok io now hb r db)"
| "device_step sha (Enroll ok io now fresh token req) (r, db) = snd (enroll sha ok io now fresh token req r db)"
| "device_step sha (RevokeOp ok io i) (r, db) = snd (revoke ok io i r db)"
| "device_step sha (TokenCheck ok token) (r, db) = (snd (device_token_valid sha ok db token r), db)"
| "device_step sha (FingerprintCheck ok fp) (r, db) = (snd (cert_fingerprint_valid ok db fp r), db)"
| "device_step sha (SerialCheck ok ser) (r, db) = (snd (cert_serial_valid ok db ser r), db)"
| "device_step sha (ListRows ok) (r, db) = (snd (list_api_rows ok db r), db)"

fun cluster_step ::
  "(string \<Rightarrow> string) \<Rightarrow> nat \<times> device_op \<Rightarrow> registry list \<times> device_db \<Rightarrow> registry list \<times> device_db" where
  "cluster_step sha (i, e) (nodes, db) =
     (if i < length nodes
      then (let (r, db') = device_step sha e (nodes ! i, db) in (nodes[i := r], db'))
      else (nodes, db))"

definition empty_db :: device_db where
  "empty_db = \<lparr>db_devices = [], db_tok = [], db_fp = [], db_ser = []\<rparr>"

section \<open>Lemmas\<close>

lemmas option_ops = nonblank_def trimmed_def or_else_def unwrap_or_def

definition key_matches :: "string \<times> registered_device \<Rightarrow> bool" where
  "key_matches p \<longleftrightarrow> rd_id (snd p) = fst p \<and> trim (fst p) \<noteq> []"

definition devices_wf :: "(string, registered_device) hash_map \<Rightarrow> bool" where
  "devices_wf m \<longleftrightarrow> hm_inv m \<and> (\<forall>p \<in> set m. key_matches p)"

definition registry_wf :: "registry \<Rightarrow> bool" where
  "registry_wf r \<longleftrightarrow> devices_wf (rg_devices r)"

definition db_wf :: "device_db \<Rightarrow> bool" where
  "db_wf db \<longleftrightarrow> hm_inv (db_devices db) \<and>
     (\<forall>k d. (k, Some d) \<in> set (db_devices db) \<longrightarrow> key_matches (k, d))"

lemma devices_wf_update: "devices_wf m \<Longrightarrow> key_matches (k, d) \<Longrightarrow> devices_wf (AList.update k d m)"
  by (auto simp: devices_wf_def hm_set_update)

lemma registry_wf_update:
  "registry_wf r \<Longrightarrow> key_matches (k, d) \<Longrightarrow> registry_wf (r\<lparr>rg_devices := AList.update k d (rg_devices r)\<rparr>)"
  by (simp add: registry_wf_def devices_wf_update)

lemma cache_device_wf: "registry_wf r \<Longrightarrow> trim (rd_id d) \<noteq> [] \<Longrightarrow> registry_wf (cache_device d r)"
  unfolding cache_device_def by (rule registry_wf_update) (simp_all add: key_matches_def)

lemma registry_wf_get: "registry_wf r \<Longrightarrow> map_of (rg_devices r) k = Some d \<Longrightarrow> rd_id d = k \<and> trim k \<noteq> []"
  by (auto simp: registry_wf_def devices_wf_def key_matches_def dest!: map_of_SomeD)

lemma db_wf_get: "db_wf db \<Longrightarrow> map_of (db_devices db) k = Some (Some d) \<Longrightarrow> rd_id d = k \<and> trim k \<noteq> []"
  by (auto simp: db_wf_def key_matches_def dest!: map_of_SomeD)

lemma persist_locked_devices [simp]:
  "rg_devices (snd (persist_locked io r)) = rg_devices r" "rg_redis (snd (persist_locked io r)) = rg_redis r"
  "registry_wf (snd (persist_locked io r)) = registry_wf r"
  by (auto simp: persist_locked_def registry_wf_def split: prod.splits option.splits)

lemma del_tok_devices [simp]: "db_devices (del_tok ok h db) = db_devices db"
  by (simp add: del_tok_def)

lemma set_tok_devices [simp]: "db_devices (set_tok ok h i db) = db_devices db"
  by (simp add: set_tok_def)

lemma redis_put_device_devices:
  "db_devices (snd (redis_put_device ok d old r db)) =
     (if rg_redis r \<and> ok (HSetDevice (rd_id d)) then AList.update (rd_id d) (Some d) (db_devices db) else db_devices db)"
  by (auto simp: redis_put_device_def Let_def split: option.splits)

lemma redis_put_device_wf:
  "db_wf db \<Longrightarrow> trim (rd_id d) \<noteq> [] \<Longrightarrow> db_wf (snd (redis_put_device ok d old r db))"
  by (auto simp: db_wf_def redis_put_device_devices hm_set_update key_matches_def)

lemma store_device_simps:
  "rg_devices (fst (snd (store_device ok io d old r db))) = AList.update (rd_id d) d (rg_devices r)"
  "rg_redis (fst (snd (store_device ok io d old r db))) = rg_redis r"
  "db_devices (snd (snd (store_device ok io d old r db))) =
     (if rg_redis r \<and> ok (HSetDevice (rd_id d)) then AList.update (rd_id d) (Some d) (db_devices db) else db_devices db)"
  by (auto simp: store_device_def case_prod_beta Let_def redis_put_device_devices cache_device_def)

lemma heartbeat_device_simps [simp]:
  "rd_id (heartbeat_device now hb prev) = hb_device_id hb"
  "rd_last_seen (heartbeat_device now hb prev) = now"
  "rd_revoked (heartbeat_device now hb (Some d)) = rd_revoked d"
  "rd_device_token_hash (heartbeat_device now hb (Some d)) = rd_device_token_hash d"
  by (simp_all add: heartbeat_device_def)

lemma enroll_device_simps [simp]:
  "rd_id (enroll_device now i pf req h prev) = i"
  "rd_revoked (enroll_device now i pf req h prev) = False"
  "rd_device_token_hash (enroll_device now i pf req h prev) = Some h"
  by (simp_all add: enroll_device_def)

lemma store_device_wf:
  assumes "registry_wf r" "db_wf db" "trim (rd_id d) \<noteq> []"
  shows "registry_wf (fst (snd (store_device ok io d old r db))) \<and> db_wf (snd (snd (store_device ok io d old r db)))"
  using assms by (auto simp: store_device_def case_prod_beta Let_def cache_device_wf redis_put_device_wf)

lemma apply_heartbeat_wf:
  "registry_wf r \<Longrightarrow> db_wf db \<Longrightarrow>
   registry_wf (fst (snd (apply_heartbeat ok io now hb r db))) \<and> db_wf (snd (snd (apply_heartbeat ok io now hb r db)))"
  using store_device_wf [of r db "heartbeat_device now hb (map_of (rg_devices r) (hb_device_id hb))" ok io None]
  by (auto simp: apply_heartbeat_def Let_def case_prod_beta)

lemma dev_prefix_nonblank: "trim (''dev-'' @ s) \<noteq> []"
proof -
  have "CHR ''d'' \<in> set (trim (''dev-'' @ s))" by (rule trim_keeps) (simp_all add: white_space_def)
  then show ?thesis by auto
qed

lemma enroll_wf:
  assumes "registry_wf r" "db_wf db"
  shows "registry_wf (fst (snd (enroll sha ok io now fresh token req r db))) \<and>
         db_wf (snd (snd (enroll sha ok io now fresh token req r db)))"
  using assms dev_prefix_nonblank [of fresh]
  by (auto simp: enroll_def Let_def case_prod_beta store_device_wf split: option.splits)

lemma redis_get_device_wf:
  "db_wf db \<Longrightarrow> redis_get_device ok db r i = Some d \<Longrightarrow> trim (rd_id d) \<noteq> []"
  by (auto simp: redis_get_device_def Option.bind_eq_Some_conv dest: db_wf_get split: if_splits)

lemma revoke_wf:
  assumes "registry_wf r" "db_wf db"
  shows "registry_wf (fst (snd (revoke ok io i r db))) \<and> db_wf (snd (snd (revoke ok io i r db)))"
proof -
  have fetch: "registry_wf (case redis_get_device ok db r i of Some remote \<Rightarrow> cache_device remote r | None \<Rightarrow> r)"
    using assms by (auto simp: cache_device_wf dest: redis_get_device_wf split: option.splits)
  have step: "registry_wf (r'\<lparr>rg_devices := AList.update i (d\<lparr>rd_revoked := True, rd_device_token_hash := None\<rparr>) (rg_devices r')\<rparr>)"
    "trim (rd_id d) \<noteq> []" if "registry_wf r'" "map_of (rg_devices r') i = Some d" for r' d
    using that registry_wf_get [OF that] by (auto intro!: registry_wf_update simp: key_matches_def)
  show ?thesis using assms fetch step
    by (auto simp: revoke_def Let_def case_prod_beta redis_put_device_wf split: option.splits)
qed

lemma check_device_wf:
  "registry_wf r \<Longrightarrow> (\<And>d. remote = Some d \<Longrightarrow> trim (rd_id d) \<noteq> []) \<Longrightarrow> registry_wf (snd (check_device P remote r))"
  by (auto simp: check_device_def cache_device_wf split: option.splits)

lemma pull_merge_wf: "devices_wf devices \<Longrightarrow> devices_wf (snd (pull_merge remote (n, devices)))"
proof (induction remote arbitrary: n devices)
  case (Cons item rest)
  have "devices_wf (AList.update (rd_id d) d devices)" if "trim (rd_id d) \<noteq> []" for d
    using that Cons.prems by (simp add: devices_wf_update key_matches_def)
  with Cons show ?case by (cases item) (simp split: option.splits)
qed simp

lemma pull_wf: "registry_wf r \<Longrightarrow> registry_wf (snd (pull_from_redis ok db r))"
  by (simp add: pull_from_redis_def registry_wf_def case_prod_beta pull_merge_wf)

lemma index_lookup_wf:
  assumes "db_wf db"
  shows "redis_get_by_token_hash ok db r h = Some d \<Longrightarrow> trim (rd_id d) \<noteq> []"
    "redis_get_by_fp ok db r h = Some d \<Longrightarrow> trim (rd_id d) \<noteq> []"
    "redis_get_by_serial ok db r h = Some d \<Longrightarrow> trim (rd_id d) \<noteq> []"
  using redis_get_device_wf [OF assms]
  by (auto simp: redis_get_by_token_hash_def redis_get_by_fp_def redis_get_by_serial_def Option.bind_eq_Some_conv
      split: if_splits)

lemma device_step_wf:
  "registry_wf r \<Longrightarrow> db_wf db \<Longrightarrow>
   registry_wf (fst (device_step sha e (r, db))) \<and> db_wf (snd (device_step sha e (r, db)))"
proof (cases e)
  case (TokenCheck ok token)
  then show "registry_wf r \<Longrightarrow> db_wf db \<Longrightarrow> ?thesis"
    by (auto simp: device_token_valid_def Let_def intro!: check_device_wf dest: index_lookup_wf)
next
  case (FingerprintCheck ok fp)
  then show "registry_wf r \<Longrightarrow> db_wf db \<Longrightarrow> ?thesis"
    by (auto simp: cert_fingerprint_valid_def Let_def intro!: check_device_wf dest: index_lookup_wf)
next
  case (SerialCheck ok ser)
  then show "registry_wf r \<Longrightarrow> db_wf db \<Longrightarrow> ?thesis"
    by (auto simp: cert_serial_valid_def Let_def intro!: check_device_wf dest: index_lookup_wf)
qed (use apply_heartbeat_wf enroll_wf revoke_wf in \<open>auto simp: list_api_rows_def pull_wf Let_def\<close>)

lemma cluster_run_wf:
  "list_all registry_wf nodes \<Longrightarrow> db_wf db \<Longrightarrow>
   list_all registry_wf (fst (fold (cluster_step sha) steps (nodes, db))) \<and>
   db_wf (snd (fold (cluster_step sha) steps (nodes, db)))"
proof (induction steps arbitrary: nodes db)
  case (Cons s steps)
  obtain i e where s: "s = (i, e)" by (cases s)
  show ?case
  proof (cases "i < length nodes")
    case True
    with Cons.prems(1) have "registry_wf (nodes ! i)" by (simp add: list_all_length)
    from device_step_wf [OF this Cons.prems(2), of sha e] Cons.prems(1)
    have "list_all registry_wf (nodes[i := fst (device_step sha e (nodes ! i, db))])"
      "db_wf (snd (device_step sha e (nodes ! i, db)))"
      using set_update_subset_insert [of nodes i] by (auto simp: list_all_iff)
    from Cons.IH [OF this] True s show ?thesis by (simp add: case_prod_beta)
  next
    case False
    with Cons s show ?thesis by simp
  qed
qed simp

text \<open>A revoked device stays revoked on a node without a shared database.\<close>

definition revoked_in :: "string \<Rightarrow> registry \<Rightarrow> bool" where
  "revoked_in i r \<longleftrightarrow> \<not> rg_redis r \<and>
     (\<exists>d. map_of (rg_devices r) i = Some d \<and> rd_revoked d \<and> rd_device_token_hash d = None)"

lemma no_redis_lookup [simp]:
  "\<not> rg_redis r \<Longrightarrow> redis_get_device ok db r i = None" "\<not> rg_redis r \<Longrightarrow> redis_get_by_token_hash ok db r h = None"
  "\<not> rg_redis r \<Longrightarrow> redis_get_by_fp ok db r h = None" "\<not> rg_redis r \<Longrightarrow> redis_get_by_serial ok db r h = None"
  "\<not> rg_redis r \<Longrightarrow> pull_from_redis ok db r = (0, r)"
  by (simp_all add: redis_get_device_def redis_get_by_token_hash_def redis_get_by_fp_def redis_get_by_serial_def
      pull_from_redis_def)

lemma check_device_hit:
  "map_of (rg_devices r) k = Some d \<Longrightarrow> \<not> rd_revoked d \<Longrightarrow> P d \<Longrightarrow> check_device P remote r = (True, r)"
  unfolding check_device_def by (auto dest!: map_of_SomeD)

lemma check_device_local [simp]: "snd (check_device P None r) = r"
  by (simp add: check_device_def)

lemma revoked_in_heartbeat:
  "revoked_in i r \<Longrightarrow> revoked_in i (fst (snd (apply_heartbeat ok io now hb r db)))"
  by (auto simp: revoked_in_def apply_heartbeat_def Let_def case_prod_beta store_device_simps)

lemma revoked_in_enroll:
  "revoked_in i r \<Longrightarrow> revoked_in i (fst (snd (enroll sha ok io now fresh token req r db)))"
  by (auto simp: revoked_in_def enroll_def Let_def case_prod_beta store_device_simps split: option.splits)

lemma revoked_in_revoke: "revoked_in i r \<Longrightarrow> revoked_in i (fst (snd (revoke ok io j r db)))"
  by (auto simp: revoked_in_def revoke_def Let_def case_prod_beta split: option.splits)

lemma revoked_in_step: "revoked_in i r \<Longrightarrow> revoked_in i (fst (device_step sha e (r, db)))"
proof -
  assume r: "revoked_in i r"
  then have local: "\<not> rg_redis r" by (simp add: revoked_in_def)
  show ?thesis
    by (cases e) (simp_all add: r local revoked_in_heartbeat revoked_in_enroll revoked_in_revoke device_token_valid_def
        cert_fingerprint_valid_def cert_serial_valid_def list_api_rows_def Let_def)
qed

lemma revoked_in_run: "revoked_in i r \<Longrightarrow> revoked_in i (fst (fold (device_step sha) es (r, db)))"
proof (induction es arbitrary: r db)
  case (Cons e es)
  from revoked_in_step [OF Cons.prems, of sha e db] show ?case
    by (cases "device_step sha e (r, db)") (auto intro: Cons.IH)
qed simp

definition self_keyed :: "(string \<times> registered_device option) list \<Rightarrow> bool" where
  "self_keyed remote \<longleftrightarrow> (\<forall>(k, j) \<in> set remote. case j of None \<Rightarrow> True | Some e \<Rightarrow> rd_id e = k)"

lemma self_keyed_Cons [simp]:
  "self_keyed ((k, j) # rest) \<longleftrightarrow> (case j of None \<Rightarrow> True | Some e \<Rightarrow> rd_id e = k) \<and> self_keyed rest"
  by (simp add: self_keyed_def)

lemma pull_merge_other:
  "i \<notin> fst ` set rest \<Longrightarrow> self_keyed rest \<Longrightarrow> map_of (snd (pull_merge rest (n, devices))) i = map_of devices i"
proof (induction rest arbitrary: n devices)
  case (Cons q rest)
  obtain k j where q: "q = (k, j)" by (cases q)
  with Cons.prems have "k \<noteq> i" "i \<notin> fst ` set rest" "self_keyed rest" by auto
  with Cons.IH Cons.prems(2) q show ?case by (cases j; cases "map_of devices k") auto
qed simp

lemma pull_merge_newer:
  assumes "rd_id d = i" "trim i \<noteq> []"
  shows "map_of remote i = Some (Some d) \<Longrightarrow> hm_inv remote \<Longrightarrow> self_keyed remote \<Longrightarrow>
         (\<And>l. map_of devices i = Some l \<Longrightarrow> rd_last_seen l < rd_last_seen d) \<Longrightarrow>
         map_of (snd (pull_merge remote (n, devices))) i = Some d"
proof (induction remote arbitrary: n devices)
  case (Cons item rest)
  obtain k j where item: "item = (k, j)" by (cases item)
  show ?case
  proof (cases "k = i")
    case True
    with Cons.prems item have j: "j = Some d" and rest: "i \<notin> fst ` set rest" "self_keyed rest" by (auto simp: hm_inv_def)
    have "pull_merge (item # rest) (n, devices) = pull_merge rest (n + 1, AList.update i d devices)"
      using Cons.prems(4) assms by (cases "map_of devices i") (auto simp: item j not_le)
    then show ?thesis by (simp add: pull_merge_other [OF rest])
  next
    case False
    with Cons.prems item have "map_of rest i = Some (Some d)" "hm_inv rest" "self_keyed rest" by (auto simp: hm_inv_def)
    note IH = Cons.IH [OF this]
    from Cons.prems(3) item have "j = Some e \<Longrightarrow> rd_id e = k" for e by simp
    with IH [OF Cons.prems(4)] IH [of "AList.update k _ devices"] Cons.prems(4) item False show ?thesis
      by (simp split: option.splits)
  qed
qed simp

lemma sorted_devices_load:
  assumes "registry_wf r" "length (rg_devices r) \<le> max_devices"
  shows "\<exists>loaded. load (Parsed 1 (sort_key rd_id (map snd (rg_devices r)))) = Inr loaded \<and>
           map_of loaded = map_of (rg_devices r)"
proof -
  let ?ds = "sort_key rd_id (map snd (rg_devices r))" and ?pair = "\<lambda>d. (rd_id d, d)"
  have key: "rd_id d = k \<and> trim k \<noteq> []" if "(k, d) \<in> set (rg_devices r)" for k d
    using assms(1) that by (auto simp: registry_wf_def devices_wf_def key_matches_def)
  then have keys: "map rd_id (map snd (rg_devices r)) = map fst (rg_devices r)" by (auto simp: case_prod_beta)
  have "mset (map rd_id ?ds) = mset (map fst (rg_devices r))" by (simp add: keys [symmetric] multiset.map_comp)
  then have dist: "distinct (map rd_id ?ds)"
    using assms(1) by (metis devices_wf_def hm_inv_def mset_eq_imp_distinct_iff registry_wf_def)
  have "set (rev (map ?pair ?ds)) = set (rg_devices r)" using key by (force simp: image_iff)
  then have "map_of (rev (map ?pair ?ds)) = map_of (rg_devices r)"
    using dist assms(1)
    by (subst map_of_inject_set) (auto simp: registry_wf_def devices_wf_def hm_inv_def rev_map [symmetric] comp_def)
  moreover have "filter (\<lambda>d. trim (rd_id d) \<noteq> []) ?ds = ?ds" using key by (auto simp: filter_id_conv)
  ultimately show ?thesis
    using assms(2) by (simp add: load_def hm_get_extend fun_eq_iff split: option.split)
qed

lemma enroll_Inr:
  assumes "enroll sha ok io now fresh token req r db = (Inr res, r1, db1)"
  shows "\<exists>dev old. rd_id dev = er_device_id res \<and> \<not> rd_revoked dev \<and> rd_device_token_hash dev = Some (sha token) \<and>
           snd (store_device ok io dev old r db) = (r1, db1)"
proof -
  obtain i pf old prev where "er_device_id res = i"
    "snd (store_device ok io (enroll_device now i pf req (sha token) prev) old r db) = (r1, db1)"
    using assms
    by (auto simp: enroll_def Let_def case_prod_beta hash_device_token_def simp del: insert_iff
        split: if_splits option.splits)
  then show ?thesis using enroll_device_simps by blast
qed

definition on_list :: "string \<Rightarrow> crl_entry list \<Rightarrow> bool" where
  "on_list fp es \<longleftrightarrow> (\<exists>e \<in> set es. ce_fingerprint e = fp)"

lemma crl_merge_keeps: "on_list fp es \<Longrightarrow> on_list fp (crl_merge remote es)"
  by (induction remote es rule: crl_merge.induct) (auto simp: on_list_def split: option.splits)

lemma crl_merge_adds: "(k, Some e) \<in> set remote \<Longrightarrow> on_list (ce_fingerprint e) (crl_merge remote es)"
proof (induction remote es rule: crl_merge.induct)
  case (2 k' json rest es)
  then show ?case by (auto simp: on_list_def intro: crl_merge_keeps [unfolded on_list_def] split: option.splits)
qed simp

lemma crl_revoke_published:
  assumes "crl_revoke ok io now i (Some fp) ser reason c db = (True, c1, db1)" "cr_redis c" "\<And>e. ok e"
  shows "\<exists>e k. (k, Some e) \<in> set (cd_entries db1) \<and> ce_fingerprint e = to_ascii_lowercase (trim fp)"
proof -
  have redis: "cr_redis (crl_pull ok db c)" using assms(2) by (simp add: crl_pull_def Let_def)
  then obtain entry n c3 where "db1 = redis_put_entry ok entry n c3 db" "cr_redis c3"
    "ce_fingerprint entry = to_ascii_lowercase (trim fp)"
    using assms(1) by (fastforce simp: crl_revoke_def trimmed_def Let_def crl_persist_locked_def split: if_splits)
  then show ?thesis
    using assms(3) by (intro exI [of _ entry] exI [of _ "ce_fingerprint entry"])
      (auto simp: redis_put_entry_def Let_def intro!: map_of_SomeD)
qed

lemma entry_by_fingerprint_found:
  assumes "(k, Some e) \<in> set (cd_entries db)" "cr_redis c" "ok HGetAllCrl" "fp \<noteq> []"
    and "ce_fingerprint e = to_ascii_lowercase fp"
  shows "\<exists>entry. fst (entry_by_fingerprint ok db fp c) = Some entry"
proof -
  from crl_merge_adds [OF assms(1)] have "on_list (to_ascii_lowercase fp) (cr_entries (crl_pull ok db c))"
    using assms(2,3,5) by (simp add: crl_pull_def Let_def)
  then have "find (\<lambda>e. secret_eq (to_ascii_lowercase (ce_fingerprint e)) (to_ascii_lowercase fp)) (cr_entries (crl_pull ok db c)) \<noteq> None"
    by (auto simp: on_list_def find_None_iff)
  with assms(4) show ?thesis by (auto simp: entry_by_fingerprint_def Let_def)
qed

section \<open>Properties\<close>

text \<open>(C12) However the operations of several nodes that share a database interleave, and whichever Redis commands
  fail, every device is filed under its own non-blank identifier, at most once, on every node and in the
  database.
\<close>

theorem cluster_consistent:
  "list_all registry_wf (fst (fold (cluster_step sha) steps (replicate n (memory_only\<lparr>rg_redis := shared\<rparr>), empty_db))) \<and>
   db_wf (snd (fold (cluster_step sha) steps (replicate n (memory_only\<lparr>rg_redis := shared\<rparr>), empty_db)))"
  by (rule cluster_run_wf)
     (simp_all add: list_all_length registry_wf_def devices_wf_def memory_only_def empty_db_def db_wf_def)

text \<open>(C13) On a single node revocation is final: whatever heartbeats, enrolments, revocations and checks follow, the
  device stays revoked, has no token, and enrolling it again is refused.
\<close>

theorem revocation_final:
  assumes "\<not> rg_redis r" "fst (revoke ok io i r db) = Inr x"
  shows "(let (r1, db1) = fold (device_step sha) es (snd (revoke ok io i r db)) in
          (\<exists>d. map_of (rg_devices r1) i = Some d \<and> rd_revoked d \<and> rd_device_token_hash d = None) \<and>
          (eq_device_id req = Some i \<longrightarrow> trim i = i \<longrightarrow>
           to_ascii_lowercase (eq_platform req) \<in> {''linux'', ''macos'', ''windows''} \<longrightarrow>
           fst (enroll sha ok' io' now fresh token req r1 db1) = Inl RevokedDevice))"
proof -
  obtain r' db' where s: "snd (revoke ok io i r db) = (r', db')" by (cases "snd (revoke ok io i r db)")
  from assms s have "revoked_in i r'"
    by (auto simp: revoked_in_def revoke_def Let_def case_prod_beta split: option.splits if_splits)
  then have "revoked_in i (fst (fold (device_step sha) es (r', db')))" by (rule revoked_in_run)
  moreover from assms(2) have "i \<noteq> []" "CHR ''/'' \<notin> set i" by (auto simp: revoke_def split: if_splits)
  ultimately show ?thesis
    unfolding s by (cases "fold (device_step sha) es (r', db')") (auto simp: revoked_in_def enroll_def Let_def)
qed

text \<open>(C14) Between nodes that share a database revocation is not final. Suppose two nodes know a device and its
  token, and one of them revokes it. A heartbeat of the device at the other node, which still has the old
  record, writes that record back to the database, and when the first node next refreshes its list the
  device is trusted there again and its old token is valid.
\<close>

theorem revocation_undone:
  assumes nodes: "rg_redis a" "rg_redis b" "map_of (rg_devices a) i = Some d" "map_of (rg_devices b) i = Some d"
    and device: "rd_id d = i" "\<not> rd_revoked d" "rd_device_token_hash d = Some (sha token)" "token \<noteq> []"
    and ids: "trim i \<noteq> []" "CHR ''/'' \<notin> set i" and db: "db_wf db" "\<And>e. ok e"
    and hb: "hb_device_id hb = i" "hb_trust_score hb = None" "rd_last_seen d < now"
  shows "(let (_, a1, db1) = revoke ok io i a db;
              (_, b1, db2) = apply_heartbeat ok io now hb b db1;
              a2 = snd (list_api_rows ok db2 a1)
          in (\<exists>d1. map_of (rg_devices a1) i = Some d1 \<and> rd_revoked d1) \<and>
             (\<exists>d2. map_of (rg_devices a2) i = Some d2 \<and> \<not> rd_revoked d2) \<and>
             fst (device_token_valid sha ok db2 token a2))"
proof -
  obtain x a1 db1 where rev: "revoke ok io i a db = (x, a1, db1)" by (cases "revoke ok io i a db")
  obtain y b1 db2 where beat: "apply_heartbeat ok io now hb b db1 = (y, b1, db2)"
    by (cases "apply_heartbeat ok io now hb b db1")
  let ?d1 = "d\<lparr>rd_revoked := True, rd_device_token_hash := None\<rparr>"
  let ?d2 = "heartbeat_device now hb (Some d)"
  let ?a2 = "snd (list_api_rows ok db2 a1)"
  have "i \<noteq> []" using ids(1) trim_id [of "[]"] by auto
  with rev nodes ids have a1: "rg_devices a1 = AList.update i ?d1 (rg_devices a)" "rg_redis a1"
    and db1: "db_devices db1 = AList.update i (Some ?d1) (db_devices db)"
    using db(2) device(1)
    by (auto simp: revoke_def Let_def case_prod_beta redis_put_device_devices)
  from beat nodes hb ids have "db2 = snd (snd (store_device ok io ?d2 None b db1))"
    by (auto simp: apply_heartbeat_def Let_def case_prod_beta)
  with nodes(2) hb(1) db(2) have db2: "db_devices db2 = AList.update i (Some ?d2) (db_devices db1)"
    by (simp add: store_device_simps)
  have "map_of (rg_devices ?a2) i = Some ?d2"
  proof -
    have dw: "hm_inv (db_devices db2)" "self_keyed (db_devices db2)"
      using db(1) device(1) hb(1)
      by (auto simp: db2 db1 db_wf_def hm_set_update key_matches_def self_keyed_def split: option.splits)
    have "map_of (snd (pull_merge (db_devices db2) (0, rg_devices a1))) i = Some ?d2"
      by (rule pull_merge_newer) (use dw ids hb a1 device in \<open>auto simp: db2\<close>)
    then show ?thesis using a1(2) db(2) by (simp add: list_api_rows_def pull_from_redis_def case_prod_beta)
  qed
  moreover from this device have "fst (device_token_valid sha ok db2 token ?a2)"
    by (simp add: device_token_valid_def hash_device_token_def check_device_hit Let_def)
  ultimately show ?thesis using a1 device by (simp add: rev beat)
qed

text \<open>
  Saving and loading: when the file is written, loading it gives back every device of the registry and
  nothing else. When it cannot be written, the file keeps its old contents.
\<close>

theorem save_load_devices:
  assumes "registry_wf r"
  shows "(case save io (rg_devices r) file of
            (None, file') \<Rightarrow> (\<exists>loaded. load file' = Inr loaded \<and> map_of loaded = map_of (rg_devices r))
          | (Some _, file') \<Rightarrow> file' = file)"
  using sorted_devices_load [OF assms] by (auto simp: save_def split: option.split)

text \<open>
  Enrolling on a single node makes the new token valid and the previous one invalid: afterwards a token is
  accepted exactly when it has the digest of the new token or of the token of another device that is not
  revoked.
\<close>

theorem enroll_token_valid:
  assumes "\<not> rg_redis r" "hm_inv (rg_devices r)"
    and "enroll sha ok io now fresh token req r db = (Inr res, r1, db1)"
  shows "fst (device_token_valid sha ok' db' t r1) \<longleftrightarrow>
           t \<noteq> [] \<and> (sha t = sha token \<or>
             (\<exists>k d. map_of (rg_devices r) k = Some d \<and> k \<noteq> er_device_id res \<and> \<not> rd_revoked d \<and>
                    rd_device_token_hash d = Some (sha t)))"
proof -
  from enroll_Inr [OF assms(3)] obtain dev old where dev: "rd_id dev = er_device_id res" "\<not> rd_revoked dev"
    "rd_device_token_hash dev = Some (sha token)" "snd (store_device ok io dev old r db) = (r1, db1)" by blast
  from store_device_simps(1,2) [of ok io dev old r db] dev(1,4) assms(1)
  have r1: "rg_devices r1 = AList.update (er_device_id res) dev (rg_devices r)" "\<not> rg_redis r1" by auto
  with assms(2) have "hm_inv (rg_devices r1)" by simp
  then have devs: "(\<exists>(_, d) \<in> set (rg_devices r1). P d) \<longleftrightarrow> (\<exists>k d. map_of (rg_devices r1) k = Some d \<and> P d)" for P
    by (auto simp: hm_mem_get [symmetric])
  have "fst (device_token_valid sha ok' db' t r1) \<longleftrightarrow>
      t \<noteq> [] \<and> (\<exists>(_, d) \<in> set (rg_devices r1). \<not> rd_revoked d \<and> rd_device_token_hash d = Some (sha t))"
    using r1(2)
    by (auto simp: device_token_valid_def check_device_def hash_device_token_def Let_def split: option.splits)
  also have "\<dots> \<longleftrightarrow> t \<noteq> [] \<and> (\<exists>k d. map_of (rg_devices r1) k = Some d \<and> \<not> rd_revoked d \<and> rd_device_token_hash d = Some (sha t))"
    by (subst devs) blast
  finally show ?thesis using dev(2,3) by (auto simp: r1(1) split: if_splits)
qed

text \<open>
  Certificate status across nodes: after a device with a client certificate is revoked and the entry was
  added to the revocation list, every node that shares the database answers that the certificate is
  revoked, whatever its own lists hold and however the fingerprint is capitalised.
\<close>

theorem revoked_certificate_status:
  assumes "revoke_device ok io now i r db c cdb = ((200, Some (persisted, True)), (r1, db1), c1, cdb1)"
    and "map_of (rg_devices r) i = Some d" "rd_cert_fingerprint d = Some fp" "trim fp \<noteq> []"
    and "cr_redis c" "cr_redis c'" "\<And>e. ok e"
    and "to_ascii_lowercase (trim asked) = to_ascii_lowercase (trim fp)"
  shows "\<exists>resp. fst (check_status ok now' cdb1 db' (Some asked) ser c' r') = Inr resp \<and> os_status resp = Revoked"
proof -
  let ?x = "crl_revoke ok io now i (Some fp) (rd_cert_serial d) ''cessationOfOperation'' c cdb"
  have "?x = (True, c1, cdb1)"
    using assms(1-3)
    by (cases ?x) (auto simp: revoke_device_def revoke_def Let_def case_prod_beta split: if_splits option.splits)
  from crl_revoke_published [OF this assms(5,7)] obtain e k
    where e: "(k, Some e) \<in> set (cd_entries cdb1)" "ce_fingerprint e = to_ascii_lowercase (trim asked)"
    using assms(8) by auto
  have asked: "trim asked \<noteq> []" using assms(4,8) to_ascii_lowercase_eq_Nil by metis
  from entry_by_fingerprint_found [OF e(1) assms(6), of ok, OF assms(7) asked e(2)] obtain entry c2
    where "entry_by_fingerprint ok cdb1 (trim asked) c' = (Some entry, c2)" by (metis prod.collapse)
  moreover have "trimmed (Some asked) = Some (trim asked)" using asked by (simp add: trimmed_def)
  ultimately have "fst (check_status ok now' cdb1 db' (Some asked) ser c' r') =
      Inr (revoked_response (trimmed ser) entry now' (now' + 300))"
    by (simp add: check_status_def)
  then show ?thesis by (simp add: revoked_response_def)
qed

text \<open>Concrete devices and nodes for the witnesses.\<close>

definition sample_device :: registered_device where
  "sample_device =
     \<lparr>rd_id = ''pc1'', rd_name = ''pc1'', rd_ip = [], rd_device_type = ''desktop'', rd_agent_status = ''healthy'',
      rd_agent_version = None, rd_policy_version = None, rd_cert_subject = None, rd_cert_fingerprint = Some ''AB'',
      rd_cert_serial = None, rd_trust_score = None, rd_last_seen = 5, rd_revoked = False, rd_platform = None,
      rd_user_identity = None, rd_enrolled_at = None, rd_device_token_hash = Some ''tok'', rd_capabilities = []\<rparr>"

definition sample_registry :: "bool \<Rightarrow> registry" where
  "sample_registry shared = \<lparr>rg_devices = [(''pc1'', sample_device)], rg_path = False, rg_file = NoFile, rg_redis = shared\<rparr>"

definition sample_beat :: heartbeat_update where
  "sample_beat = \<lparr>hb_device_id = ''pc1'', hb_status = None, hb_agent_version = None, hb_policy_version = None,
     hb_name = None, hb_ip = None, hb_device_type = None, hb_cert_subject = None, hb_cert_fingerprint = None,
     hb_trust_score = None\<rparr>"

definition sample_enroll :: enroll_request where
  "sample_enroll = \<lparr>eq_device_id = Some ''pc1'', eq_platform = ''Linux'', eq_name = None, eq_user_identity = None,
     eq_capabilities = [], eq_device_type = None, eq_cert_subject = None, eq_cert_fingerprint = None, eq_cert_serial = None\<rparr>"

lemmas sample_device_defs = sample_device_def sample_registry_def sample_beat_def sample_enroll_def empty_db_def

lemma sample_texts:
  "trim ''pc1'' = ''pc1''" "trim ''AB'' = ''AB''" "trim ''ab'' = ''ab''"
  "to_ascii_lowercase ''Linux'' = ''linux''" "to_ascii_lowercase ''AB'' = ''ab''" "to_ascii_lowercase ''ab'' = ''ab''"
  by code_simp+

theorem revocation_final_witness:
  "fst (enroll (\<lambda>s. s) (\<lambda>_. True) None 9 ''0'' ''t'' sample_enroll
     (fst (snd (revoke (\<lambda>_. True) None ''pc1'' (sample_registry False) empty_db)))
     (snd (snd (revoke (\<lambda>_. True) None ''pc1'' (sample_registry False) empty_db)))) = Inl RevokedDevice"
proof -
  have ok: "\<not> rg_redis (sample_registry False)"
    "fst (revoke (\<lambda>_. True) None ''pc1'' (sample_registry False) empty_db) = Inr (False, Some ''AB'', None)"
    by (simp_all add: sample_device_defs revoke_def persist_locked_def redis_put_device_def)
  have "eq_device_id sample_enroll = Some ''pc1''"
    "to_ascii_lowercase (eq_platform sample_enroll) = ''linux''"
    by (simp_all add: sample_enroll_def sample_texts)
  with revocation_final [OF ok, of "\<lambda>s. s" "[]" sample_enroll "\<lambda>_. True" None 9 "''0''" "''t''"] sample_texts
  show ?thesis by (simp add: case_prod_beta)
qed

theorem revocation_undone_witness:
  "(let (_, a1, db1) = revoke (\<lambda>_. True) None ''pc1'' (sample_registry True) empty_db;
        (_, b1, db2) = apply_heartbeat (\<lambda>_. True) None 9 sample_beat (sample_registry True) db1
    in fst (device_token_valid (\<lambda>s. s) (\<lambda>_. True) db2 ''tok'' (snd (list_api_rows (\<lambda>_. True) db2 a1))))"
  using revocation_undone [of "sample_registry True" "sample_registry True" "''pc1''" sample_device "\<lambda>s. s" "''tok''"
      empty_db "\<lambda>_. True" sample_beat 9 None]
  by (simp add: sample_device_defs sample_texts db_wf_def case_prod_beta Let_def)

theorem save_load_devices_witness:
  "\<exists>loaded. load (snd (save None (rg_devices (sample_registry False)) NoFile)) = Inr loaded \<and>
     map_of loaded = map_of (rg_devices (sample_registry False))"
proof -
  have "registry_wf (sample_registry False)"
    by (simp add: registry_wf_def devices_wf_def sample_device_defs key_matches_def sample_texts hm_inv_def)
  moreover have "fst (save None (rg_devices (sample_registry False)) NoFile) = None"
    by (simp add: save_def sample_device_defs max_devices_def)
  ultimately show ?thesis
    using save_load_devices [of "sample_registry False" NoFile None] by (auto simp: case_prod_beta split: option.splits)
qed

theorem enroll_token_valid_witness:
  "fst (device_token_valid (\<lambda>s. s) (\<lambda>_. True) empty_db ''new''
     (fst (snd (enroll (\<lambda>s. s) (\<lambda>_. True) None 9 ''0'' ''new'' sample_enroll (sample_registry False) empty_db)))) \<and>
   \<not> fst (device_token_valid (\<lambda>s. s) (\<lambda>_. True) empty_db ''tok''
     (fst (snd (enroll (\<lambda>s. s) (\<lambda>_. True) None 9 ''0'' ''new'' sample_enroll (sample_registry False) empty_db))))"
proof -
  have r: "\<not> rg_redis (sample_registry False)" "hm_inv (rg_devices (sample_registry False))"
    by (simp_all add: sample_device_defs hm_inv_def)
  obtain res r1 db1 where e:
    "enroll (\<lambda>s. s) (\<lambda>_. True) None 9 ''0'' ''new'' sample_enroll (sample_registry False) empty_db = (Inr res, r1, db1)"
    and res: "er_device_id res = ''pc1''"
    by (cases "enroll (\<lambda>s. s) (\<lambda>_. True) None 9 ''0'' ''new'' sample_enroll (sample_registry False) empty_db")
       (auto simp: enroll_def sample_device_defs sample_texts case_prod_beta Let_def)
  have "map_of (rg_devices (sample_registry False)) k = Some d \<Longrightarrow> k = ''pc1''" for k d
    by (simp add: sample_registry_def split: if_splits)
  with enroll_token_valid [OF r e, of "\<lambda>_. True" empty_db] res show ?thesis unfolding e by auto
qed

theorem revoked_certificate_status_witness:
  "\<exists>resp. fst (check_status (\<lambda>_. True) 9
       (snd (snd (snd (revoke_device (\<lambda>_. True) None 7 ''pc1'' (sample_registry True) empty_db
          (crl_memory_only\<lparr>cr_redis := True\<rparr>) \<lparr>cd_entries = [], cd_number = None\<rparr>))))
       empty_db (Some ''ab'') None (crl_memory_only\<lparr>cr_redis := True\<rparr>) memory_only) = Inr resp \<and> os_status resp = Revoked"
proof -
  let ?x = "revoke_device (\<lambda>_. True) None 7 ''pc1'' (sample_registry True) empty_db
          (crl_memory_only\<lparr>cr_redis := True\<rparr>) \<lparr>cd_entries = [], cd_number = None\<rparr>"
  have "fst ?x = (200, Some (True, True))"
    by (simp add: revoke_device_def revoke_def sample_device_defs persist_locked_def redis_put_device_def crl_revoke_def
        trimmed_def sample_texts crl_pull_def crl_memory_only_def Let_def case_prod_beta)
  then have "?x = ((200, Some (True, True)), (fst (fst (snd ?x)), snd (fst (snd ?x))), fst (snd (snd ?x)), snd (snd (snd ?x)))"
    by (metis prod.collapse)
  from revoked_certificate_status [OF this, of sample_device "''AB''" "crl_memory_only\<lparr>cr_redis := True\<rparr>" "''ab''"]
  show ?thesis
    by (simp add: sample_registry_def sample_device_def sample_texts)
qed

end
