(* ===== verification/Acl_Api.thy ===== *)
theory Acl_Api
  imports Proxy_Policy Security
begin

text \<open>
  Production defaults of the control plane (\<^verbatim>\<open>proxy/src/security_defaults.rs\<close>), the rules file
  (\<^verbatim>\<open>acl_config.rs\<close>) and the interface that changes the rules of a running proxy (\<^verbatim>\<open>acl_api.rs\<close>).

  JSON parsing is the parameter \<open>parse\<close>: the rule in a request body, or the text of an error. The
  parsed contents of the rules file and the outcome of writing it are inputs. A handler that panics
  has the result \<^const>\<open>None\<close>.
\<close>

section \<open>Definitions\<close>

subsection \<open>Defaults\<close>

definition control_flag :: "(string \<Rightarrow> string option) \<Rightarrow> string \<Rightarrow> bool" where
  "control_flag env name = env_flag [''1'', ''true'', ''yes''] env name"

definition configured_deployment_profile :: "(string \<Rightarrow> string option) \<Rightarrow> deployment_profile" where
  "configured_deployment_profile env =
     (case deployment_profile_from_str (case env ''DEPLOYMENT_PROFILE'' of Some v \<Rightarrow> v | None \<Rightarrow> ''production'') of
        Inr p \<Rightarrow> p | Inl _ \<Rightarrow> Production)"

definition control_api_allow_insecure :: "(string \<Rightarrow> string option) \<Rightarrow> bool" where
  "control_api_allow_insecure env = control_flag env ''CONTROL_API_ALLOW_INSECURE''"

definition control_api_fail_closed :: "(string \<Rightarrow> string option) \<Rightarrow> bool" where
  "control_api_fail_closed env =
     (if control_api_allow_insecure env then False
      else
        (case configured_deployment_profile env of
           Production \<Rightarrow> True
         | Development \<Rightarrow> control_flag env ''CONTROL_API_REQUIRE_TOKEN''
         | Test \<Rightarrow> control_flag env ''CONTROL_API_REQUIRE_TOKEN''))"

definition nonempty_var :: "(string \<Rightarrow> string option) \<Rightarrow> string \<Rightarrow> string option" where
  "nonempty_var env name = (case env name of Some t \<Rightarrow> (if t = [] then None else Some t) | None \<Rightarrow> None)"

definition control_api_token_from_env :: "(string \<Rightarrow> string option) \<Rightarrow> string option" where
  "control_api_token_from_env env =
     (case nonempty_var env ''CONTROL_API_TOKEN'' of
        Some t \<Rightarrow> Some t
      | None \<Rightarrow> nonempty_var env ''ACL_API_TOKEN'')"

definition validate_control_plane_security :: "(string \<Rightarrow> string option) \<Rightarrow> string + unit" where
  "validate_control_plane_security env =
     (case (configured_deployment_profile env, control_api_token_from_env env \<noteq> None, control_api_allow_insecure env) of
        (Production, False, False) \<Rightarrow>
          Inl ''CONTROL_API_TOKEN is required in production; set the token or CONTROL_API_ALLOW_INSECURE=true (lab only)''
      | _ \<Rightarrow> Inr ())"

definition metrics_bind_host :: "(string \<Rightarrow> string option) \<Rightarrow> string" where
  "metrics_bind_host env =
     (case env ''METRICS_BIND'' of
        Some s \<Rightarrow> (if trim s = [] then ''0.0.0.0'' else trim s)
      | None \<Rightarrow> ''0.0.0.0'')"

definition metrics_bind_addr :: "(string \<Rightarrow> string option) \<Rightarrow> nat \<Rightarrow> string" where
  "metrics_bind_addr env port = metrics_bind_host env @ '':'' @ show_nat port"

text \<open>The \<^verbatim>\<open>Bearer\<close> token of a request; \<open>to_str\<close> is the header library's conversion to text.\<close>

definition extract_bearer :: "(string \<Rightarrow> string option) \<Rightarrow> headers \<Rightarrow> string option" where
  "extract_bearer to_str hs =
     Option.bind (Option.bind (map_of hs ''authorization'') to_str) (\<lambda>v. strip_prefix v ''Bearer '')"

definition bearer_authorized :: "string option \<Rightarrow> bool \<Rightarrow> string option \<Rightarrow> bool" where
  "bearer_authorized api_token fail_closed bearer =
     (case api_token of
        Some expected \<Rightarrow> (case bearer of Some token \<Rightarrow> secret_eq token expected | None \<Rightarrow> False)
      | None \<Rightarrow> \<not> fail_closed)"

subsection \<open>The rules file\<close>

definition parse_acl_action :: "string \<Rightarrow> acl_action" where
  "parse_acl_action value =
     (if to_ascii_lowercase value = ''deny'' then Deny
      else if to_ascii_lowercase value = ''redirect'' then Redirect else Allow)"

fun action_to_str :: "acl_action \<Rightarrow> string" where
  "action_to_str Allow = ''allow''"
| "action_to_str Deny = ''deny''"
| "action_to_str Redirect = ''redirect''"

record acl_rules_document =
  doc_default_action :: "string option"
  doc_rules :: "acl_rule list"

definition load_acl_engine_from_file ::
  "(string \<Rightarrow> 're option) \<Rightarrow> string + acl_rules_document \<Rightarrow> acl_action \<Rightarrow> (string + 're acl_engine) option" where
  "load_acl_engine_from_file regex_new file fallback_default =
     (case file of
        Inl e \<Rightarrow> Some (Inl e)
      | Inr doc \<Rightarrow>
          (let default_action =
                 (case doc_default_action doc of Some a \<Rightarrow> parse_acl_action a | None \<Rightarrow> fallback_default)
           in map_option Inr (load_rules regex_new (doc_rules doc) (acl_new default_action))))"

definition save_acl_engine_to_file ::
  "string option \<Rightarrow> 're acl_engine \<Rightarrow> string + acl_rules_document \<Rightarrow> string option \<times> (string + acl_rules_document)" where
  "save_acl_engine_to_file io engine file =
     (case io of
        Some e \<Rightarrow> (Some e, file)
      | None \<Rightarrow>
          (None, Inr \<lparr>doc_default_action = Some (action_to_str (en_default_action engine)), doc_rules = en_rules engine\<rparr>))"

subsection \<open>The interface\<close>

record acl_api_config =
  aa_default_action :: acl_action
  aa_rules_path :: "string option"
  aa_api_token :: "string option"
  aa_fail_closed :: bool

definition acl_api_config_from_env :: "(string \<Rightarrow> string option) \<Rightarrow> string option \<Rightarrow> acl_api_config" where
  "acl_api_config_from_env env rules_path =
     \<lparr>aa_default_action = (case env ''ACL_DEFAULT_ACTION'' of Some v \<Rightarrow> parse_acl_action v | None \<Rightarrow> Allow),
      aa_rules_path = rules_path,
      aa_api_token = (case nonempty_var env ''ACL_API_TOKEN'' of
                        Some t \<Rightarrow> Some t | None \<Rightarrow> control_api_token_from_env env),
      aa_fail_closed = control_api_fail_closed env\<rparr>"

record 're acl_api_state =
  as_engine :: "'re acl_engine"
  as_config :: acl_api_config
  as_policy_cache :: "policy_decision_cache option"
  as_file :: "string + acl_rules_document"

text \<open>What a handler answers: the status, and what the body carries.\<close>

datatype api_body =
    ErrorText string | StatusText string | RuleBody acl_rule | Deleted string
  | RuleList nat acl_action "acl_rule list" | Counted string nat

type_synonym api_response = "nat \<times> api_body"

definition acl_api_authorized :: "(string \<Rightarrow> string option) \<Rightarrow> headers \<Rightarrow> 're acl_api_state \<Rightarrow> bool" where
  "acl_api_authorized to_str hs st =
     bearer_authorized (aa_api_token (as_config st)) (aa_fail_closed (as_config st)) (extract_bearer to_str hs)"

definition invalidate_policy_cache :: "'re acl_api_state \<Rightarrow> 're acl_api_state" where
  "invalidate_policy_cache st = st\<lparr>as_policy_cache := map_option policy_invalidate (as_policy_cache st)\<rparr>"

definition list_rules :: "'re acl_api_state \<Rightarrow> api_response" where
  "list_rules st =
     (200, RuleList (rule_count (as_engine st)) (en_default_action (as_engine st)) (en_rules (as_engine st)))"

text \<open>Escaping in error messages: four replacements, one after the other.\<close>

definition replace_char :: "char \<Rightarrow> string \<Rightarrow> string \<Rightarrow> string" where
  "replace_char c r s = concat (map (\<lambda>x. if x = c then r else [x]) s)"

definition escape_json :: "string \<Rightarrow> string" where
  "escape_json value =
     replace_char (CHR 0x0D) [CHR 0x5C, CHR ''r'']
       (replace_char (CHR 0x0A) [CHR 0x5C, CHR ''n'']
          (replace_char (CHR 0x22) [CHR 0x5C, CHR 0x22]
             (replace_char (CHR 0x5C) [CHR 0x5C, CHR 0x5C] value)))"

definition add_rule_body ::
  "(string \<Rightarrow> 're option) \<Rightarrow> bool \<Rightarrow> string + acl_rule \<Rightarrow> 're acl_api_state \<Rightarrow> (api_response \<times> 're acl_api_state) option" where
  "add_rule_body regex_new unique body st =
     (case body of
        Inl e \<Rightarrow> Some ((400, ErrorText (''invalid json: '' @ escape_json e)), st)
      | Inr rule \<Rightarrow>
          (if trim (rl_id rule) = [] then Some ((400, ErrorText ''rule id is required''), st)
           else if has_rule (as_engine st) (rl_id rule)
                then Some ((409, ErrorText (''rule id already exists: '' @ escape_json (rl_id rule))), st)
           else
             (case mutate regex_new unique (add_rule regex_new rule) (as_engine st) of
                None \<Rightarrow> None
              | Some e \<Rightarrow> Some ((201, RuleBody rule), invalidate_policy_cache (st\<lparr>as_engine := e\<rparr>)))))"

text \<open>The flag that \<^verbatim>\<open>update_rule\<close> and \<^verbatim>\<open>remove_rule\<close> return to the closure.\<close>

definition outcome :: "(bool \<times> 're acl_engine) option \<Rightarrow> bool" where
  "outcome r = (case r of Some (b, _) \<Rightarrow> b | None \<Rightarrow> False)"

definition update_rule_body ::
  "(string \<Rightarrow> 're option) \<Rightarrow> bool \<Rightarrow> string \<Rightarrow> string + acl_rule \<Rightarrow> 're acl_api_state \<Rightarrow> (api_response \<times> 're acl_api_state) option" where
  "update_rule_body regex_new unique i body st =
     (case body of
        Inl e \<Rightarrow> Some ((400, ErrorText (''invalid json: '' @ escape_json e)), st)
      | Inr rule0 \<Rightarrow>
          (let rule = (if trim (rl_id rule0) = [] then rule0\<lparr>rl_id := i\<rparr> else rule0) in
           if rl_id rule \<noteq> i then Some ((400, ErrorText ''path id must match rule.id''), st)
           else
             (case mutate regex_new unique (\<lambda>e. map_option snd (update_rule regex_new rule e)) (as_engine st) of
                None \<Rightarrow> None
              | Some e \<Rightarrow>
                  (if \<not> outcome (update_rule regex_new rule (as_engine st))
                   then Some ((404, ErrorText ''rule not found''), st\<lparr>as_engine := e\<rparr>)
                   else Some ((200, RuleBody rule), invalidate_policy_cache (st\<lparr>as_engine := e\<rparr>))))))"

definition delete_rule ::
  "(string \<Rightarrow> 're option) \<Rightarrow> bool \<Rightarrow> string \<Rightarrow> 're acl_api_state \<Rightarrow> (api_response \<times> 're acl_api_state) option" where
  "delete_rule regex_new unique i st =
     (case mutate regex_new unique (\<lambda>e. map_option snd (remove_rule regex_new i e)) (as_engine st) of
        None \<Rightarrow> None
      | Some e \<Rightarrow>
          (if \<not> outcome (remove_rule regex_new i (as_engine st))
           then Some ((404, ErrorText ''rule not found''), st\<lparr>as_engine := e\<rparr>)
           else Some ((200, Deleted (escape_json i)), invalidate_policy_cache (st\<lparr>as_engine := e\<rparr>))))"

definition reload_from_disk ::
  "(string \<Rightarrow> 're option) \<Rightarrow> 're acl_api_state \<Rightarrow> ((string + nat) \<times> 're acl_api_state) option" where
  "reload_from_disk regex_new st =
     (case aa_rules_path (as_config st) of
        None \<Rightarrow> Some (Inl ''ACL_RULES_PATH is not configured'', st)
      | Some _ \<Rightarrow>
          (case load_acl_engine_from_file regex_new (as_file st) (aa_default_action (as_config st)) of
             None \<Rightarrow> None
           | Some (Inl e) \<Rightarrow> Some (Inl e, st)
           | Some (Inr loaded) \<Rightarrow>
               Some (Inr (rule_count loaded), invalidate_policy_cache (st\<lparr>as_engine := loaded\<rparr>))))"

definition reload_rules ::
  "(string \<Rightarrow> 're option) \<Rightarrow> 're acl_api_state \<Rightarrow> (api_response \<times> 're acl_api_state) option" where
  "reload_rules regex_new st =
     (if aa_rules_path (as_config st) = None then Some ((400, ErrorText ''ACL_RULES_PATH is not configured''), st)
      else
        (case reload_from_disk regex_new st of
           None \<Rightarrow> None
         | Some (Inr n, st') \<Rightarrow> Some ((200, Counted ''reloaded'' n), st')
         | Some (Inl e, st') \<Rightarrow> Some ((500, ErrorText (escape_json e)), st')))"

definition persist_rules :: "string option \<Rightarrow> 're acl_api_state \<Rightarrow> api_response \<times> 're acl_api_state" where
  "persist_rules io st =
     (if aa_rules_path (as_config st) = None then ((400, ErrorText ''ACL_RULES_PATH is not configured''), st)
      else
        (case save_acl_engine_to_file io (as_engine st) (as_file st) of
           (None, file) \<Rightarrow> ((200, Counted ''persisted'' (rule_count (as_engine st))), st\<lparr>as_file := file\<rparr>)
         | (Some e, file) \<Rightarrow> ((500, ErrorText (escape_json e)), st\<lparr>as_file := file\<rparr>)))"

text \<open>
  Percent decoding of the identifier in the path. Each decoded byte is pushed as the character with
  that code, so a byte from 0x80 on becomes two bytes of UTF-8.
\<close>

definition from_hex :: "char \<Rightarrow> nat option" where
  "from_hex c =
     (let b = of_char c :: nat in
      if 48 \<le> b \<and> b \<le> 57 then Some (b - 48)
      else if 97 \<le> b \<and> b \<le> 102 then Some (b - 97 + 10)
      else if 65 \<le> b \<and> b \<le> 70 then Some (b - 65 + 10)
      else None)"

definition push_latin1 :: "nat \<Rightarrow> string" where
  "push_latin1 b = (if b < 128 then [char_of b] else [char_of (192 + b div 64), char_of (128 + b mod 64)])"

fun percent_decode :: "string \<Rightarrow> string" where
  "percent_decode [] = []"
| "percent_decode (c # h # l # cs) =
     (case (if c = CHR ''%'' then (from_hex h, from_hex l) else (None, None)) of
        (Some x, Some y) \<Rightarrow> push_latin1 (x * 16 + y) @ percent_decode cs
      | _ \<Rightarrow> push_latin1 (of_char c) @ percent_decode (h # l # cs))"
| "percent_decode (c # cs) = push_latin1 (of_char c) @ percent_decode cs"

datatype api_method = GET | POST | PUT | DELETE | OPTIONS | OtherMethod string

definition acl_api_dispatch ::
  "(string \<Rightarrow> 're option) \<Rightarrow> (bytes \<Rightarrow> string + acl_rule) \<Rightarrow> (string \<Rightarrow> string option) \<Rightarrow> bool \<Rightarrow> string option \<Rightarrow>
   api_method \<Rightarrow> string \<Rightarrow> bytes \<Rightarrow> headers \<Rightarrow> 're acl_api_state \<Rightarrow> (api_response \<times> 're acl_api_state) option" where
  "acl_api_dispatch regex_new parse to_str unique io method path body hs st =
     (if \<not> acl_api_authorized to_str hs st then Some ((401, ErrorText ''unauthorized''), st)
      else
        (case strip_prefix path ''/api/acl/rules/'' of
           Some raw \<Rightarrow>
             (let i = percent_decode raw in
              case method of
                PUT \<Rightarrow> update_rule_body regex_new unique i (parse body) st
              | DELETE \<Rightarrow> delete_rule regex_new unique i st
              | _ \<Rightarrow> Some ((405, ErrorText ''method not allowed''), st))
         | None \<Rightarrow>
             (if method = GET \<and> path = ''/api/acl/rules'' then Some (list_rules st, st)
              else if method = POST \<and> path = ''/api/acl/rules'' then add_rule_body regex_new unique (parse body) st
              else if method = POST \<and> path = ''/api/acl/reload'' then reload_rules regex_new st
              else if method = POST \<and> path = ''/api/acl/persist'' then Some (persist_rules io st)
              else Some ((404, ErrorText ''not found''), st))))"

text \<open>The proxy service that shares the engine and the decision cache with this interface.\<close>

definition serve_with :: "'re acl_api_state \<Rightarrow> 're policy_service \<Rightarrow> 're policy_service" where
  "serve_with st sv =
     sv\<lparr>sv_acl_engine := Some (as_engine st),
        sv_policy_cache := (case as_policy_cache st of Some c \<Rightarrow> c | None \<Rightarrow> sv_policy_cache sv)\<rparr>"

section \<open>Lemmas\<close>

lemma policy_cached_invalidated:
  "as_policy_cache st = Some c \<Longrightarrow> pc_entries c = [] \<Longrightarrow> policy_cached env u d g (serve_with st sv) = None"
  by (simp add: policy_cached_def serve_with_def policy_lookup_def Let_def)

lemma invalidate_empties:
  "as_policy_cache st = Some c \<Longrightarrow> \<exists>c'. as_policy_cache (invalidate_policy_cache st) = Some c' \<and> pc_entries c' = []"
  by (simp add: invalidate_policy_cache_def policy_invalidate_def)

lemma update_rule_missing:
  "update_rule regex_new rule e = Some (b, e') \<Longrightarrow> \<not> b \<Longrightarrow> e' = e"
  by (auto simp: update_rule_def split: option.splits)

lemma remove_rule_missing:
  assumes "remove_rule regex_new i e = Some (b, e')" "\<not> b"
  shows "e' = e"
proof -
  from assms have "length (filter (\<lambda>r. rl_id r \<noteq> i) (en_rules e)) = length (en_rules e)" and
    e': "e' = e\<lparr>en_rules := filter (\<lambda>r. rl_id r \<noteq> i) (en_rules e)\<rparr>"
    by (auto simp: remove_rule_def Let_def split: if_splits)
  then have "filter (\<lambda>r. rl_id r \<noteq> i) (en_rules e) = en_rules e"
    by (metis filter_True filter_id_conv length_filter_less less_irrefl)
  then show ?thesis by (simp add: e')
qed

text \<open>A handler that changes the engine leaves an empty decision cache.\<close>

definition cache_reset :: "'re acl_api_state \<Rightarrow> 're acl_api_state \<Rightarrow> bool" where
  "cache_reset st st' \<longleftrightarrow> as_engine st' = as_engine st \<or> (\<exists>c. as_policy_cache st' = Some c \<and> pc_entries c = [])"

lemma invalidate_reset:
  "as_policy_cache st = Some c \<Longrightarrow> cache_reset st (invalidate_policy_cache (st\<lparr>as_engine := e\<rparr>))"
  using invalidate_empties [of "st\<lparr>as_engine := e\<rparr>" c] by (auto simp: cache_reset_def)

lemma add_rule_body_reset:
  "as_policy_cache st = Some c \<Longrightarrow> add_rule_body regex_new unique body st = Some (resp, st') \<Longrightarrow> cache_reset st st'"
  using invalidate_reset [of st c]
  by (auto simp: add_rule_body_def split: sum.splits if_splits option.splits) (simp_all add: cache_reset_def)

lemma update_rule_body_reset:
  assumes "as_policy_cache st = Some c" "acl_inv regex_new (as_engine st)"
    and "update_rule_body regex_new unique i body st = Some (resp, st')"
  shows "cache_reset st st'"
  using assms(3) invalidate_reset [OF assms(1)] update_rule_missing
  by (fastforce simp: update_rule_body_def mutate_eq [OF assms(2)] cache_reset_def outcome_def Let_def
      split: sum.splits if_splits option.splits)

lemma delete_rule_reset:
  assumes "as_policy_cache st = Some c" "acl_inv regex_new (as_engine st)"
    and "delete_rule regex_new unique i st = Some (resp, st')"
  shows "cache_reset st st'"
  using assms(3) invalidate_reset [OF assms(1)] remove_rule_missing
  by (fastforce simp: delete_rule_def mutate_eq [OF assms(2)] cache_reset_def outcome_def
      split: if_splits option.splits)

lemma reload_rules_reset:
  "as_policy_cache st = Some c \<Longrightarrow> reload_rules regex_new st = Some (resp, st') \<Longrightarrow> cache_reset st st'"
  using invalidate_reset [of st c]
  by (auto simp: reload_rules_def reload_from_disk_def split: if_splits option.splits sum.splits prod.splits)
     (auto simp: cache_reset_def)

lemma persist_rules_reset: "cache_reset st (snd (persist_rules io st))"
  by (auto simp: persist_rules_def cache_reset_def split: prod.splits option.splits)

lemma dispatch_reset:
  assumes "as_policy_cache st = Some c" "acl_inv regex_new (as_engine st)"
    and "acl_api_dispatch regex_new parse to_str unique io method path body hs st = Some (resp, st')"
  shows "cache_reset st st'"
proof -
  have same: "cache_reset st st" by (simp add: cache_reset_def)
  from assms(3) show ?thesis
    using same persist_rules_reset [of st io] add_rule_body_reset [OF assms(1)] reload_rules_reset [OF assms(1)]
      update_rule_body_reset [OF assms(1,2)] delete_rule_reset [OF assms(1,2)]
    by (auto simp: acl_api_dispatch_def Let_def split: if_splits option.splits api_method.splits)
qed

lemma escape_json_chars:
  "escape_json s = concat (map (\<lambda>x. if x = CHR 0x5C then [CHR 0x5C, CHR 0x5C] else if x = CHR 0x22 then [CHR 0x5C, CHR 0x22]
     else if x = CHR 0x0A then [CHR 0x5C, CHR ''n''] else if x = CHR 0x0D then [CHR 0x5C, CHR ''r''] else [x]) s)"
  unfolding escape_json_def replace_char_def by (induction s) auto

text \<open>Reading a JSON string back: the escapes that are used.\<close>

fun json_unescape :: "string \<Rightarrow> string option" where
  "json_unescape [] = Some []"
| "json_unescape (c # cs) =
     (if c = CHR 0x22 then None
      else if c = CHR 0x5C then
        (case cs of
           [] \<Rightarrow> None
         | d # ds \<Rightarrow>
             map_option (Cons (if d = CHR ''n'' then CHR 0x0A else if d = CHR ''r'' then CHR 0x0D else d)) (json_unescape ds))
      else map_option (Cons c) (json_unescape cs))"

definition hex_digit :: "nat \<Rightarrow> char" where
  "hex_digit n = (if n < 10 then char_of (48 + n) else char_of (55 + n))"

definition percent_encode :: "string \<Rightarrow> string" where
  "percent_encode s = concat (map (\<lambda>c. [CHR ''%'', hex_digit (of_char c div 16), hex_digit (of_char c mod 16)]) s)"

lemma from_hex_digit: "n < 16 \<Longrightarrow> from_hex (hex_digit n) = Some n"
  by (auto simp: from_hex_def hex_digit_def Let_def)

lemma percent_decode_encode: "percent_decode (percent_encode s) = concat (map (\<lambda>c. push_latin1 (of_char c)) s)"
proof (induction s)
  case (Cons c s)
  have "(of_char c :: nat) < 16 * 16" by simp
  then have "(of_char c :: nat) div 16 < 16" by (rule less_mult_imp_div_less)
  then have "from_hex (hex_digit (of_char c div 16)) = Some (of_char c div 16)"
    "from_hex (hex_digit (of_char c mod 16)) = Some (of_char c mod 16)"
    by (auto intro!: from_hex_digit)
  with Cons show ?case by (simp add: percent_encode_def)
qed (simp add: percent_encode_def)

lemma push_latin1_length: "length (push_latin1 b) = (if b < 128 then 1 else 2)"
  by (simp add: push_latin1_def)

lemma push_all_length:
  "length (concat (map (\<lambda>c. push_latin1 (of_char c)) s)) = length s + length (filter (\<lambda>c. \<not> (of_char c :: nat) < 128) s)"
  by (induction s) (auto simp: push_latin1_length)

section \<open>Properties\<close>


text \<open>
  In production the interface is closed without the right token. When the configuration passes the start-up
  validation in the production profile and the insecure override is off, a request whose token is not the
  configured one is answered with 401 and changes nothing.
\<close>

theorem production_requires_token:
  assumes "validate_control_plane_security env = Inr ()" "configured_deployment_profile env = Production"
    and "\<not> control_api_allow_insecure env" "as_config st = acl_api_config_from_env env rules_path"
    and "extract_bearer to_str hs \<noteq> aa_api_token (as_config st)"
  shows "acl_api_dispatch regex_new parse to_str unique io method path body hs st =
         Some ((401, ErrorText ''unauthorized''), st)"
proof -
  from assms(1-3) obtain t where "control_api_token_from_env env = Some t"
    by (cases "control_api_token_from_env env") (auto simp: validate_control_plane_security_def)
  then obtain t' where t': "aa_api_token (as_config st) = Some t'"
    using assms(4) by (cases "nonempty_var env ''ACL_API_TOKEN''") (auto simp: acl_api_config_from_env_def)
  with assms(5) show ?thesis
    by (auto simp: acl_api_dispatch_def acl_api_authorized_def bearer_authorized_def split: option.splits)
qed

text \<open>
  Persisting the rules and reloading them gives back the same engine: rules in the same order, default action
  and compiled patterns.
\<close>

theorem persist_reload_engine:
  assumes "acl_reachable regex_new (as_engine st)" "aa_rules_path (as_config st) = Some path"
  shows "\<exists>resp st'. reload_rules regex_new (snd (persist_rules None st)) = Some (resp, st') \<and>
           as_engine st' = as_engine st \<and> resp = (200, Counted ''reloaded'' (rule_count (as_engine st)))"
proof -
  let ?e = "as_engine st"
  have "parse_acl_action (action_to_str a) = a" for a
    by (cases a) (simp_all add: parse_acl_action_def, code_simp+)
  moreover have "load_rules regex_new (en_rules ?e) (acl_new (en_default_action ?e)) = Some ?e"
    using fork_from_id [OF acl_reachable_inv [OF assms(1)]] by (simp add: fork_from_def)
  ultimately show ?thesis
    using assms(2)
    by (simp add: persist_rules_def save_acl_engine_to_file_def reload_rules_def reload_from_disk_def
        load_acl_engine_from_file_def invalidate_policy_cache_def)
qed

text \<open>
  Text in an error message is escaped so that it stays inside its JSON string and reads back as the original,
  whatever it contains.
\<close>

theorem escape_json_roundtrip: "json_unescape (escape_json s) = Some s"
  unfolding escape_json_chars by (induction s) auto

text \<open>
  The identifier in a path is decoded correctly exactly when it is ASCII: percent decoding takes each byte for
  a character of its own, so a rule whose identifier has any other character cannot be addressed.
\<close>

theorem percent_decode_only_ascii:
  "percent_decode (percent_encode s) = s \<longleftrightarrow> list_all (\<lambda>c. (of_char c :: nat) < 128) s"
proof
  assume "percent_decode (percent_encode s) = s"
  with push_all_length [of s] have "filter (\<lambda>c. \<not> (of_char c :: nat) < 128) s = []"
    by (simp add: percent_decode_encode)
  then show "list_all (\<lambda>c. (of_char c :: nat) < 128) s" by (auto simp: filter_empty_conv list_all_iff)
next
  assume "list_all (\<lambda>c. (of_char c :: nat) < 128) s"
  then show "percent_decode (percent_encode s) = s"
    unfolding percent_decode_encode by (induction s) (auto simp: push_latin1_def)
qed

text \<open>A concrete interface for the witnesses: no token, no rules, a decision cache in use.\<close>

definition demo_api :: "string acl_api_state" where
  "demo_api =
     \<lparr>as_engine = acl_new Allow,
      as_config = \<lparr>aa_default_action = Allow, aa_rules_path = Some ''rules.json'', aa_api_token = None, aa_fail_closed = False\<rparr>,
      as_policy_cache = Some (sv_policy_cache demo_service), as_file = Inl ''missing''\<rparr>"

definition demo_block_rule :: acl_rule where
  "demo_block_rule = demo_rule ''b'' 1 Deny (Domain ''x'')"

lemma demo_api_add:
  "acl_api_dispatch Some (\<lambda>_. Inr demo_block_rule) Some True None POST ''/api/acl/rules'' [] [] demo_api =
     Some ((201, RuleBody demo_block_rule),
       invalidate_policy_cache (demo_api\<lparr>as_engine := \<lparr>en_rules = [demo_block_rule], en_default_action = Allow, en_compiled_regex = []\<rparr>\<rparr>))"
proof -
  have "trim ''b'' = ''b''" by code_simp
  then show ?thesis
    by (simp add: acl_api_dispatch_def demo_api_def demo_block_rule_def demo_rule_def acl_api_authorized_def bearer_authorized_def strip_prefix_def
        add_rule_body_def has_rule_def acl_new_def mutate_def add_rule_def sort_rules_def rebuild_regex_cache_def)
qed


theorem production_requires_token_witness:
  "(let env = (\<lambda>n. if n = ''CONTROL_API_TOKEN'' then Some ''t'' else None);
        st = demo_api\<lparr>as_config := acl_api_config_from_env env None\<rparr>
    in acl_api_dispatch Some (\<lambda>_. Inr demo_block_rule) Some True None POST ''/api/acl/rules'' [] [] st =
       Some ((401, ErrorText ''unauthorized''), st))"
proof -
  let ?env = "\<lambda>n. if n = ''CONTROL_API_TOKEN'' then Some ''t'' else None"
  have env: "validate_control_plane_security ?env = Inr ()" "configured_deployment_profile ?env = Production"
    "\<not> control_api_allow_insecure ?env"
    "aa_api_token (acl_api_config_from_env ?env None) = Some ''t''" by code_simp+
  show ?thesis
    unfolding Let_def by (rule production_requires_token [OF env(1-3)]) (simp_all add: env(4) extract_bearer_def)
qed

theorem persist_reload_engine_witness:
  "\<exists>resp st'. reload_rules Some (snd (persist_rules None demo_api)) = Some (resp, st') \<and> as_engine st' = as_engine demo_api"
proof -
  have "acl_reachable Some (as_engine demo_api)" by (simp add: demo_api_def acl_reachable.init)
  from persist_reload_engine [OF this, of "''rules.json''"] show ?thesis by (auto simp: demo_api_def)
qed

end
