(* ===== verification/Rpz_Api.thy ===== *)
theory Rpz_Api
  imports Acl_Api Dns_Sinkhole
begin

text \<open>
  The interface that manages DNS block lists (\<^verbatim>\<open>proxy/src/rpz_api.rs\<close>): lists, custom rules, and the
  compilation of the zone file that the DNS sinkhole (theory \<open>Dns_Sinkhole\<close>) loads.

  The directory of list contents is an association list from list identifiers to texts. Faults of
  the file system, the fetched text of a feed, parsed request bodies and the clock are inputs.
\<close>

section \<open>Definitions\<close>

subsection \<open>Data\<close>

datatype rpz_action = Nxdomain | Nodata | Passthru | Drop | SinkholeAction

fun rpz_action_as_api :: "rpz_action \<Rightarrow> string" where
  "rpz_action_as_api Nxdomain = ''NXDOMAIN''"
| "rpz_action_as_api Nodata = ''NODATA''"
| "rpz_action_as_api Passthru = ''PASSTHRU''"
| "rpz_action_as_api Drop = ''DROP''"
| "rpz_action_as_api SinkholeAction = ''SINKHOLE''"

datatype rpz_list_source = Upload | UrlFeed | Inline

datatype rpz_list_format = RpzZone | Hosts | DomainList

record rpz_list =
  rz_id :: string
  rz_name :: string
  rz_description :: string
  rz_source :: rpz_list_source
  rz_format :: rpz_list_format
  rz_url :: "string option"
  rz_default_action :: rpz_action
  rz_rule_count :: nat
  rz_active :: bool
  rz_priority :: int
  rz_last_updated :: string
  rz_sync_error :: "string option"
  rz_tags :: "string list"

record rpz_rule =
  zr_id :: string
  zr_list_id :: string
  zr_list_name :: string
  zr_domain :: string
  zr_action :: rpz_action
  zr_target_ip :: "string option"
  zr_target_cname :: "string option"
  zr_comment :: "string option"
  zr_created_at :: string

record dns_sinkhole_config =
  ds_enabled :: bool
  ds_default_action :: rpz_action
  ds_sinkhole_ipv4 :: string
  ds_sinkhole_ipv6 :: string
  ds_sinkhole_cname :: string
  ds_log_blocks :: bool
  ds_wildcard_matching :: bool
  ds_upstream_dns :: "string list"
  ds_doh_enabled :: bool
  ds_doh_bind :: string
  ds_doh_path :: string
  ds_dot_enabled :: bool
  ds_dot_bind :: string

definition dns_sinkhole_config_default :: dns_sinkhole_config where
  "dns_sinkhole_config_default =
     \<lparr>ds_enabled = True, ds_default_action = SinkholeAction, ds_sinkhole_ipv4 = ''127.0.0.1'', ds_sinkhole_ipv6 = ''::1'',
      ds_sinkhole_cname = [], ds_log_blocks = True, ds_wildcard_matching = True, ds_upstream_dns = [''1.1.1.1''],
      ds_doh_enabled = False, ds_doh_bind = ''0.0.0.0:8443'', ds_doh_path = ''/dns-query'', ds_dot_enabled = False,
      ds_dot_bind = ''0.0.0.0:853''\<rparr>"

record rpz_state_file =
  rs_lists :: "rpz_list list"
  rs_custom_rules :: "rpz_rule list"
  rs_config :: dns_sinkhole_config

text \<open>The running interface, and the files it writes.\<close>

record rpz_api_state =
  rp_inner :: rpz_state_file
  rp_contents :: "(string, string) hash_map"
  rp_state_file :: "rpz_state_file option"
  rp_zone_file :: "string option"

subsection \<open>Compilation of the zone\<close>

definition nl :: string where "nl = [CHR 0x0A]"

definition count_rules :: "string \<Rightarrow> nat" where
  "count_rules content =
     length (filter (\<lambda>l. let t = trim l in
                t \<noteq> [] \<and> \<not> starts_with t ''#'' \<and> \<not> starts_with t '';'' \<and> \<not> starts_with t ''$'') (lines content))"

definition domain_policy_line :: "string \<Rightarrow> rpz_action \<Rightarrow> string" where
  "domain_policy_line domain action =
     (case action of
        Passthru \<Rightarrow> ''; passthru '' @ domain @ nl
      | _ \<Rightarrow> domain @ ''. CNAME .'' @ nl)"

definition normalize_line :: "rpz_list_format \<Rightarrow> rpz_action \<Rightarrow> string \<Rightarrow> string" where
  "normalize_line fmt action line =
     (let t = trim line in
      if t = [] \<or> starts_with t ''#'' \<or> starts_with t '';'' \<or> starts_with t ''$'' then []
      else
        (case fmt of
           RpzZone \<Rightarrow> t @ nl
         | Hosts \<Rightarrow>
             (case split_whitespace t of
                _ # p # _ \<Rightarrow> domain_policy_line (trim_end_matches CHR ''.'' p) action
              | _ \<Rightarrow> [])
         | DomainList \<Rightarrow>
             (let dom = trim_end_matches CHR ''.'' (case split_whitespace t of [] \<Rightarrow> [] | p # _ \<Rightarrow> p)
              in if dom = [] then [] else domain_policy_line dom action)))"

definition normalize_list_content :: "string \<Rightarrow> rpz_list_format \<Rightarrow> rpz_action \<Rightarrow> string" where
  "normalize_list_content content fmt action = concat (map (normalize_line fmt action) (lines content))"

definition rule_to_zone_line :: "rpz_rule \<Rightarrow> string" where
  "rule_to_zone_line rule =
     (if zr_action rule = Passthru
      then ''; passthru '' @ zr_domain rule @ '' # '' @ (case zr_comment rule of Some c \<Rightarrow> c | None \<Rightarrow> [])
      else trim_end_matches CHR ''.'' (zr_domain rule) @ ''. CNAME .'')"

definition active_lists :: "rpz_state_file \<Rightarrow> rpz_list list" where
  "active_lists st = sort_key (\<lambda>l. - rz_priority l) (filter rz_active (rs_lists st))"

definition zone_head :: "(string, string) hash_map \<Rightarrow> rpz_state_file \<Rightarrow> string" where
  "zone_head contents st =
     ''; Generated by BSDM RPZ API '' @ [CHR 0xE2, CHR 0x80, CHR 0x94] @ '' do not edit by hand'' @ nl @ ''$TTL 300'' @ nl @ nl @
     concat (map (\<lambda>l. ''; list '' @ rz_id l @ '' ('' @ rz_name l @ '')'' @ nl @
               (case map_of contents (rz_id l) of
                  Some content \<Rightarrow> normalize_list_content content (rz_format l) (rz_default_action l)
                | None \<Rightarrow> []) @ nl) (active_lists st))"

definition zone_text :: "(string, string) hash_map \<Rightarrow> rpz_state_file \<Rightarrow> string" where
  "zone_text contents st =
     zone_head contents st @ ''; custom rules'' @ nl @ concat (map (\<lambda>r. rule_to_zone_line r @ nl) (rs_custom_rules st))"

definition compile_zone :: "string option \<Rightarrow> rpz_api_state \<Rightarrow> string option \<times> rpz_api_state" where
  "compile_zone io api =
     (case io of
        Some e \<Rightarrow> (Some e, api)
      | None \<Rightarrow> (None, api\<lparr>rp_zone_file := Some (zone_text (rp_contents api) (rp_inner api))\<rparr>))"

text \<open>\<open>io_state\<close> is the first fault while writing the state, \<open>io_zone\<close> while writing the zone.\<close>

definition persist :: "string option \<Rightarrow> string option \<Rightarrow> rpz_api_state \<Rightarrow> string option \<times> rpz_api_state" where
  "persist io_state io_zone api =
     (case io_state of
        Some e \<Rightarrow> (Some e, api)
      | None \<Rightarrow> compile_zone io_zone (api\<lparr>rp_state_file := Some (rp_inner api)\<rparr>))"

subsection \<open>Handlers\<close>

datatype rpz_body =
    RpzError string | RpzStatus string | Lists "rpz_list list" | OneList rpz_list
  | Rules "rpz_rule list" | OneRule rpz_rule | Config dns_sinkhole_config
  | TestResult string bool string "(string \<times> string) option" string
  | RpzStats nat nat nat

type_synonym rpz_response = "nat \<times> rpz_body"

definition respond :: "rpz_body \<Rightarrow> string option \<times> rpz_api_state \<Rightarrow> rpz_response \<times> rpz_api_state" where
  "respond ok r = (case r of (None, api) \<Rightarrow> ((200, ok), api) | (Some e, api) \<Rightarrow> ((500, RpzError e), api))"

record list_input =
  li_name :: string
  li_description :: string
  li_source :: rpz_list_source
  li_format :: rpz_list_format
  li_url :: "string option"
  li_content :: "string option"
  li_default_action :: rpz_action
  li_priority :: "int option"

fun format_tag :: "rpz_list_format \<Rightarrow> string" where
  "format_tag RpzZone = ''rpzzone''"
| "format_tag Hosts = ''hosts''"
| "format_tag DomainList = ''domainlist''"

record rpz_faults =
  pf_state :: "string option"
  pf_zone :: "string option"
  pf_write :: "string option"

definition add_list ::
  "(string \<Rightarrow> string + string) \<Rightarrow> rpz_faults \<Rightarrow> nat \<Rightarrow> string \<Rightarrow> string + list_input \<Rightarrow> rpz_api_state \<Rightarrow>
   rpz_response \<times> rpz_api_state" where
  "add_list fetch_url io millis now body api =
     (case body of
        Inl e \<Rightarrow> ((400, RpzError e), api)
      | Inr inp \<Rightarrow>
          (let i = ''rpz-'' @ show_nat millis;
               given = (case li_content inp of Some c \<Rightarrow> c | None \<Rightarrow> [])
           in case (if given = [] then (case li_url inp of Some url \<Rightarrow> fetch_url url | None \<Rightarrow> Inr []) else Inr given) of
                Inl e \<Rightarrow> ((502, RpzError (''fetch feed: '' @ e)), api)
              | Inr content \<Rightarrow>
                  (let l = \<lparr>rz_id = i, rz_name = li_name inp, rz_description = li_description inp,
                            rz_source = li_source inp, rz_format = li_format inp, rz_url = li_url inp,
                            rz_default_action = li_default_action inp, rz_rule_count = count_rules content,
                            rz_active = True, rz_priority = (case li_priority inp of Some p \<Rightarrow> p | None \<Rightarrow> 10),
                            rz_last_updated = now, rz_sync_error = None, rz_tags = [format_tag (li_format inp)]\<rparr>
                   in case pf_write io of
                        Some e \<Rightarrow> ((500, RpzError e), api)
                      | None \<Rightarrow>
                          respond (OneList l) (persist (pf_state io) (pf_zone io)
                            (api\<lparr>rp_contents := AList.update i content (rp_contents api),
                                 rp_inner := (rp_inner api)\<lparr>rs_lists := l # rs_lists (rp_inner api)\<rparr>\<rparr>)))))"

text \<open>The first list with an identifier is changed in place.\<close>

fun update_first :: "('a \<Rightarrow> bool) \<Rightarrow> ('a \<Rightarrow> 'a) \<Rightarrow> 'a list \<Rightarrow> 'a list" where
  "update_first P f [] = []"
| "update_first P f (x # xs) = (if P x then f x # xs else x # update_first P f xs)"

definition with_list ::
  "string \<Rightarrow> (rpz_list \<Rightarrow> rpz_list) \<Rightarrow> rpz_api_state \<Rightarrow> rpz_api_state" where
  "with_list i f api =
     api\<lparr>rp_inner := (rp_inner api)\<lparr>rs_lists := update_first (\<lambda>l. rz_id l = i) f (rs_lists (rp_inner api))\<rparr>\<rparr>"

definition toggle_list ::
  "rpz_faults \<Rightarrow> string \<Rightarrow> string \<Rightarrow> string + bool \<Rightarrow> rpz_api_state \<Rightarrow> rpz_response \<times> rpz_api_state" where
  "toggle_list io now i body api =
     (case body of
        Inl e \<Rightarrow> ((400, RpzError e), api)
      | Inr active \<Rightarrow>
          (case find (\<lambda>l. rz_id l = i) (rs_lists (rp_inner api)) of
             None \<Rightarrow> ((404, RpzError ''list not found''), api)
           | Some _ \<Rightarrow>
               respond (RpzStatus ''ok'') (persist (pf_state io) (pf_zone io)
                 (with_list i (\<lambda>l. l\<lparr>rz_active := active, rz_last_updated := now\<rparr>) api))))"

definition sync_list ::
  "(string \<Rightarrow> string + string) \<Rightarrow> rpz_faults \<Rightarrow> string \<Rightarrow> string \<Rightarrow> rpz_api_state \<Rightarrow> rpz_response \<times> rpz_api_state" where
  "sync_list fetch_url io now i api =
     (case find (\<lambda>l. rz_id l = i) (rs_lists (rp_inner api)) of
        None \<Rightarrow> ((404, RpzError ''list not found''), api)
      | Some l \<Rightarrow>
          (let (l', api1) =
             (case rz_url l of
                None \<Rightarrow> (l\<lparr>rz_last_updated := now\<rparr>, api)
              | Some url \<Rightarrow>
                  (case fetch_url url of
                     Inr content \<Rightarrow>
                       (l\<lparr>rz_rule_count := count_rules content, rz_last_updated := now, rz_sync_error := None\<rparr>,
                        if pf_write io = None then api\<lparr>rp_contents := AList.update i content (rp_contents api)\<rparr> else api)
                   | Inl e \<Rightarrow> (l\<lparr>rz_sync_error := Some e, rz_last_updated := now\<rparr>, api)))
           in respond (OneList l') (persist (pf_state io) (pf_zone io) (with_list i (\<lambda>_. l') api1))))"

definition delete_list :: "rpz_faults \<Rightarrow> string \<Rightarrow> rpz_api_state \<Rightarrow> rpz_response \<times> rpz_api_state" where
  "delete_list io i api =
     (let kept = filter (\<lambda>l. rz_id l \<noteq> i) (rs_lists (rp_inner api)) in
      if length kept = length (rs_lists (rp_inner api)) then ((404, RpzError ''list not found''), api)
      else
        respond (RpzStatus ''deleted'') (persist (pf_state io) (pf_zone io)
          (api\<lparr>rp_inner := (rp_inner api)\<lparr>rs_lists := kept\<rparr>,
               rp_contents := (if pf_write io = None then AList.delete i (rp_contents api) else rp_contents api)\<rparr>)))"

definition put_config ::
  "rpz_faults \<Rightarrow> string + dns_sinkhole_config \<Rightarrow> rpz_api_state \<Rightarrow> rpz_response \<times> rpz_api_state" where
  "put_config io body api =
     (case body of
        Inl e \<Rightarrow> ((400, RpzError e), api)
      | Inr cfg \<Rightarrow>
          respond (Config cfg) (persist (pf_state io) (pf_zone io)
            (api\<lparr>rp_inner := (rp_inner api)\<lparr>rs_config := cfg\<rparr>\<rparr>)))"

definition trim_start_matches :: "char \<Rightarrow> string \<Rightarrow> string" where
  "trim_start_matches c s = dropWhile (\<lambda>x. x = c) s"

definition domain_matches :: "string \<Rightarrow> string \<Rightarrow> bool" where
  "domain_matches q pattern \<longleftrightarrow>
     (let p = to_ascii_lowercase (trim_start_matches CHR ''.'' (trim_start_matches CHR ''*'' (trim pattern)))
      in q = p \<or> ends_with q (''.'' @ p))"

definition content_has_domain :: "string \<Rightarrow> string \<Rightarrow> bool" where
  "content_has_domain content domain \<longleftrightarrow>
     (\<exists>line \<in> set (lines content). let t = to_ascii_lowercase (trim line) in
        \<not> (t = [] \<or> starts_with t ''#'' \<or> starts_with t '';'') \<and> sublist domain t)"

definition action_response :: "rpz_action \<Rightarrow> dns_sinkhole_config \<Rightarrow> string" where
  "action_response action cfg =
     (case action of
        SinkholeAction \<Rightarrow> ''A '' @ ds_sinkhole_ipv4 cfg @ '' / AAAA '' @ ds_sinkhole_ipv6 cfg
      | Nxdomain \<Rightarrow> ''NXDOMAIN (Name Error)''
      | Nodata \<Rightarrow> ''NODATA''
      | Drop \<Rightarrow> ''DROP''
      | Passthru \<Rightarrow> ''PASSTHRU (Allowed to Upstream DNS)'')"

text \<open>The answer to a test query for a decoded domain name.\<close>

definition test_domain :: "string \<Rightarrow> rpz_api_state \<Rightarrow> rpz_response" where
  "test_domain raw api =
     (let domain = to_ascii_lowercase raw; st = rp_inner api in
      case find (\<lambda>r. domain_matches domain (zr_domain r)) (rs_custom_rules st) of
        Some r \<Rightarrow>
          (200, TestResult domain True (rpz_action_as_api (zr_action r)) (Some (zr_list_id r, zr_domain r))
                  (action_response (zr_action r) (rs_config st)))
      | None \<Rightarrow>
          (case find (\<lambda>l. case map_of (rp_contents api) (rz_id l) of
                            Some content \<Rightarrow> content_has_domain content domain | None \<Rightarrow> False) (active_lists st) of
             Some l \<Rightarrow>
               (200, TestResult domain True (rpz_action_as_api (rz_default_action l)) (Some (rz_id l, domain))
                       (action_response (rz_default_action l) (rs_config st)))
           | None \<Rightarrow>
               (200, TestResult domain False ''PASSTHRU'' None
                       (''Allowed (upstream '' @
                        (case ds_upstream_dns (rs_config st) of u # _ \<Rightarrow> u | [] \<Rightarrow> ''1.1.1.1'') @ '')''))))"

definition rpz_stats :: "rpz_api_state \<Rightarrow> rpz_response" where
  "rpz_stats api =
     (let st = rp_inner api; active = filter rz_active (rs_lists st) in
      (200, RpzStats (length (rs_lists st)) (length active)
              (sum_list (map rz_rule_count active) + length (rs_custom_rules st))))"

record rule_input =
  ru_domain :: string
  ru_action :: rpz_action
  ru_comment :: "string option"

definition add_custom_rule ::
  "rpz_faults \<Rightarrow> nat \<Rightarrow> string \<Rightarrow> string + rule_input \<Rightarrow> rpz_api_state \<Rightarrow> rpz_response \<times> rpz_api_state" where
  "add_custom_rule io millis now body api =
     (case body of
        Inl e \<Rightarrow> ((400, RpzError e), api)
      | Inr inp \<Rightarrow>
          (let rule = \<lparr>zr_id = ''rule-'' @ show_nat millis, zr_list_id = ''custom-inline'',
                       zr_list_name = ''Custom Overrides'',
                       zr_domain = to_ascii_lowercase (trim_end_matches CHR ''.'' (trim (ru_domain inp))),
                       zr_action = ru_action inp, zr_target_ip = None, zr_target_cname = None,
                       zr_comment = ru_comment inp, zr_created_at = now\<rparr>
           in respond (OneRule rule) (persist (pf_state io) (pf_zone io)
                (api\<lparr>rp_inner := (rp_inner api)\<lparr>rs_custom_rules := rule # rs_custom_rules (rp_inner api)\<rparr>\<rparr>))))"

definition delete_custom_rule :: "rpz_faults \<Rightarrow> string \<Rightarrow> rpz_api_state \<Rightarrow> rpz_response \<times> rpz_api_state" where
  "delete_custom_rule io i api =
     (let kept = filter (\<lambda>r. zr_id r \<noteq> i) (rs_custom_rules (rp_inner api)) in
      if length kept = length (rs_custom_rules (rp_inner api)) then ((404, RpzError ''rule not found''), api)
      else
        respond (RpzStatus ''deleted'') (persist (pf_state io) (pf_zone io)
          (api\<lparr>rp_inner := (rp_inner api)\<lparr>rs_custom_rules := kept\<rparr>\<rparr>)))"

section \<open>Lemmas\<close>

subsection \<open>Lines and words\<close>

lemma lines_step: "CHR 0x0A \<notin> set l \<Longrightarrow> lines (l @ nl @ rest) = strip_cr l # lines rest"
proof -
  assume "CHR 0x0A \<notin> set l"
  then have "split_char (CHR 0x0A) (l @ nl @ rest) = l # split_char (CHR 0x0A) rest"
    by (simp add: nl_def split_char_append_sep)
  moreover have "line_pieces (l # split_char (CHR 0x0A) rest) = strip_cr l # line_pieces (split_char (CHR 0x0A) rest)"
    by (cases "split_char (CHR 0x0A) rest") auto
  ultimately show ?thesis by (simp add: lines_def)
qed

lemma lines_Nil [simp]: "lines [] = []"
  by (simp add: lines_def)

lemma lines_append: "lines (t @ nl @ rest) = lines (t @ nl) @ lines rest"
proof (induction "length t" arbitrary: t rule: less_induct)
  case less
  show ?case
  proof (cases "CHR 0x0A \<in> set t")
    case True
    then obtain w t' where t: "t = w @ nl @ t'" and w: "CHR 0x0A \<notin> set w"
      by (metis append_Cons append_Nil nl_def split_list_first)
    from less [of t'] t have "lines (t' @ nl @ rest) = lines (t' @ nl) @ lines rest" by (simp add: nl_def)
    with lines_step [OF w, of "t' @ nl @ rest"] lines_step [OF w, of "t' @ nl"] show ?thesis by (simp add: t)
  next
    case False
    with lines_step [of t rest] lines_step [of t "[]"] show ?thesis by simp
  qed
qed

lemma lines_concat:
  "list_all (\<lambda>l. CHR 0x0A \<notin> set l) ls \<Longrightarrow> lines (concat (map (\<lambda>l. l @ nl) ls)) = map strip_cr ls"
  by (induction ls) (auto simp: lines_step)

lemma trim_same_ends:
  assumes "s \<noteq> []" "hd s \<notin> set (concat white_space)" "last s \<notin> set (concat white_space)"
  shows "trim s = s"
proof -
  have front: "head_len ws t = 0" if "[] \<notin> set ws" "t \<noteq> []" "hd t \<notin> set (concat ws)" for ws t
  proof (subst head_len_0_iff [OF that(1)], rule ballI, rule notI)
    fix w
    assume w: "w \<in> set ws" "prefix w t"
    then have "w \<noteq> []" using that(1) by metis
    then have "hd t \<in> set w" using w(2) by (auto simp: prefix_def neq_Nil_conv)
    with w(1) that(3) show False by auto
  qed
  have "head_len white_space s = 0" by (rule front) (use assms white_space_nonempty in auto)
  then have "trim_start s = s" by (simp add: trim_start_def drop_words_same)
  moreover have "head_len (map rev white_space) (rev s) = 0"
    by (rule front) (use assms white_space_nonempty in \<open>auto simp: hd_rev\<close>)
  then have "trim_end s = s" by (simp add: trim_end_def drop_words_same)
  ultimately show ?thesis by (simp add: trim_def)
qed

lemma split_ws_word:
  "set w \<inter> set (concat white_space) = {} \<Longrightarrow> split_ws_acc acc (w @ rest) = split_ws_acc (rev w @ acc) rest"
proof (induction w arbitrary: acc)
  case (Cons c w)
  have "head_len white_space (c # w @ rest) = 0"
    unfolding head_len_0_iff [OF white_space_nonempty(1)]
  proof (intro ballI notI)
    fix v
    assume v: "v \<in> set white_space" "prefix v (c # w @ rest)"
    then have "v \<noteq> []" using white_space_nonempty(1) by metis
    then have "c \<in> set v" using v(2) by (auto simp: prefix_def neq_Nil_conv)
    with v(1) Cons.prems show False by auto
  qed
  with Cons show ?case by (subst split_ws_acc.simps) simp
qed simp

lemma split_ws_space: "split_ws_acc w (CHR '' '' # s) = (if w = [] then [] else [rev w]) @ split_ws_acc [] s"
proof -
  have "head_len white_space (CHR '' '' # s) = 1" by (simp add: head_len_def white_space_def)
  then show ?thesis by (subst split_ws_acc.simps) simp
qed

lemma split_ws_end: "split_ws_acc w [] = (if w = [] then [] else [rev w])"
  by (subst split_ws_acc.simps) simp

subsection \<open>Parsing the compiled zone\<close>

lemma parse_zone_lines_append:
  "parse_zone_lines n (xs @ ys) z =
     (case parse_zone_lines n xs z of Inl e \<Rightarrow> Inl e | Inr z' \<Rightarrow> parse_zone_lines (n + length xs) ys z')"
  by (induction xs arbitrary: n z) (auto simp: Let_def split: sum.splits)

definition host_chars :: string where
  "host_chars = ''abcdefghijklmnopqrstuvwxyz0123456789-._''"

definition plain_domain :: "string \<Rightarrow> bool" where
  "plain_domain d \<longleftrightarrow> d \<noteq> [] \<and> set d \<subseteq> set host_chars \<and> hd d \<noteq> CHR ''.'' \<and> last d \<noteq> CHR ''.''"

lemma host_chars_plain:
  "set host_chars \<inter> set (concat white_space) = {}"
  "CHR '';'' \<notin> set host_chars" "CHR ''#'' \<notin> set host_chars" "CHR 0x22 \<notin> set host_chars" "CHR 0x0A \<notin> set host_chars"
  "CHR ''*'' \<notin> set host_chars" "CHR ''$'' \<notin> set host_chars"
  "list_all (\<lambda>c. ascii_lower c = c) host_chars"
  by code_simp+

lemma plain_lower: "plain_domain d \<Longrightarrow> to_ascii_lowercase d = d"
  using host_chars_plain(8) by (auto simp: plain_domain_def to_ascii_lowercase_def list_all_iff intro!: map_idI)

lemma plain_normalize: "plain_domain d \<Longrightarrow> normalize_name (d @ ''.'') = d \<and> normalize_name d = d"
proof -
  assume d: "plain_domain d"
  then have "set d \<inter> set (concat white_space) = {}" using host_chars_plain(1) by (auto simp: plain_domain_def)
  then have t: "trim d = d" "trim (d @ ''.'') = d @ ''.''"
    by (auto intro!: trim_id simp: white_space_def)
  have "trim_end_matches CHR ''.'' d = d" using d by (intro trim_end_matches_last) (auto simp: plain_domain_def)
  then show ?thesis by (simp add: normalize_name_def t trim_end_matches_snoc plain_lower [OF d])
qed

lemma plain_domain_matches: "plain_domain d \<Longrightarrow> domain_matches d d"
proof -
  assume d: "plain_domain d"
  then have "set d \<inter> set (concat white_space) = {}" "CHR ''*'' \<notin> set d"
    using host_chars_plain(1,6) by (auto simp: plain_domain_def)
  then have "trim d = d" "trim_start_matches CHR ''*'' d = d" "trim_start_matches CHR ''.'' d = d"
    using d by (auto simp: trim_start_matches_def plain_domain_def neq_Nil_conv intro!: trim_id)
  with plain_lower [OF d] show ?thesis by (simp add: domain_matches_def)
qed

lemma strip_comment_id:
  "CHR '';'' \<notin> set s \<Longrightarrow> CHR ''#'' \<notin> set s \<Longrightarrow> CHR 0x22 \<notin> set s \<Longrightarrow> strip_comment s = s"
  unfolding strip_comment_def by (induction s) auto

lemma parse_block_line:
  assumes "plain_domain d"
  shows "parse_line z (d @ ''. CNAME .'') = Inr (z\<lparr>zn_exact := AList.update d Policy (zn_exact z)\<rparr>)"
proof -
  have chars: "set d \<inter> set (concat white_space) = {}" "CHR ''*'' \<notin> set d"
    using assms host_chars_plain by (auto simp: plain_domain_def)
  have "d @ ''. CNAME .'' = (d @ ''.'') @ CHR '' '' # ''CNAME'' @ CHR '' '' # ''.'' @ []" by simp
  moreover have "set (d @ ''.'') \<inter> set (concat white_space) = {}" "set ''CNAME'' \<inter> set (concat white_space) = {}"
    "set ''.'' \<inter> set (concat white_space) = {}"
    using chars(1) by (auto simp: white_space_def)
  ultimately have words: "split_whitespace (d @ ''. CNAME .'') = [d @ ''.'', ''CNAME'', ''.'']"
    unfolding split_whitespace_def
    by (simp only: split_ws_word split_ws_space split_ws_end) simp
  have "skip_ttl_class [''CNAME'', ''.''] = [''CNAME'', ''.'']" "to_ascii_uppercase ''CNAME'' = ''CNAME''" by code_simp+
  moreover have "strip_prefix (d @ ''.'') ''*.'' = None"
    using chars(2) assms by (cases d) (auto simp: strip_prefix_None_iff plain_domain_def)
  ultimately show ?thesis
    using plain_normalize [OF assms] by (simp add: parse_line_def words Dns_Sinkhole.rr_action_def)
qed

text \<open>A custom rule that stays on one line of the zone.\<close>

definition rule_ok :: "rpz_rule \<Rightarrow> bool" where
  "rule_ok r \<longleftrightarrow>
     (if zr_action r = Passthru then CHR 0x0A \<notin> set (rule_to_zone_line r) else plain_domain (zr_domain r))"

definition blocks_name :: "rpz_rule list \<Rightarrow> string \<Rightarrow> bool" where
  "blocks_name rules d \<longleftrightarrow> (\<exists>r \<in> set rules. zr_action r \<noteq> Passthru \<and> zr_domain r = d)"

lemma rule_line_block: "rule_ok r \<Longrightarrow> zr_action r \<noteq> Passthru \<Longrightarrow> rule_to_zone_line r = zr_domain r @ ''. CNAME .''"
  by (auto simp: rule_ok_def rule_to_zone_line_def plain_domain_def trim_end_matches_last)

lemma rule_line_no_nl: "rule_ok r \<Longrightarrow> CHR 0x0A \<notin> set (rule_to_zone_line r)"
proof (cases "zr_action r = Passthru")
  case False
  assume ok: "rule_ok r"
  with False have "CHR 0x0A \<notin> set (zr_domain r)"
    using host_chars_plain(5) by (auto simp: rule_ok_def plain_domain_def)
  then show ?thesis by (simp add: rule_line_block [OF ok False])
qed (simp add: rule_ok_def)

lemma rule_line_parse:
  assumes "rule_ok r"
  shows "parse_zone_lines n (strip_cr (rule_to_zone_line r) # ls) z =
           parse_zone_lines (n + 1) ls
             (if zr_action r = Passthru then z else z\<lparr>zn_exact := AList.update (zr_domain r) Policy (zn_exact z)\<rparr>)"
proof (cases "zr_action r = Passthru")
  case True
  have "strip_cr ('';'' @ x) = '';'' @ strip_cr x" for x
    by (auto simp: strip_cr_def split: if_splits)
  then have "strip_comment (strip_cr (rule_to_zone_line r)) = []"
    using True by (simp add: rule_to_zone_line_def strip_comment_def)
  moreover have "trim [] = []" by (rule trim_id) simp
  ultimately show ?thesis using True by simp
next
  case False
  let ?d = "zr_domain r"
  from assms False have d: "plain_domain ?d" by (simp add: rule_ok_def)
  then have sub: "set ?d \<subseteq> set host_chars" "hd ?d \<in> set host_chars" "?d \<noteq> []" by (auto simp: plain_domain_def)
  then have chars: "CHR '';'' \<notin> set ?d" "CHR ''#'' \<notin> set ?d" "CHR 0x22 \<notin> set ?d" "hd ?d \<notin> set (concat white_space)"
    using host_chars_plain(1-4) by blast+
  have dollar: "\<not> starts_with (?d @ ''. CNAME .'') ''$''"
    using sub(2,3) host_chars_plain(7) by (auto simp: starts_with_def prefix_def neq_Nil_conv)
  have "strip_cr (?d @ ''. CNAME .'') = ?d @ ''. CNAME .''" by (simp add: strip_cr_def)
  moreover have "strip_comment (?d @ ''. CNAME .'') = ?d @ ''. CNAME .''"
    using chars by (intro strip_comment_id) auto
  moreover have "trim (?d @ ''. CNAME .'') = ?d @ ''. CNAME .''"
    using chars(4) d by (intro trim_same_ends) (auto simp: plain_domain_def white_space_def)
  ultimately show ?thesis
    using False dollar parse_block_line [OF d] by (simp add: rule_line_block [OF assms False] Let_def)
qed

lemma rules_parse:
  "list_all rule_ok rules \<Longrightarrow>
   \<exists>z'. parse_zone_lines n (map (\<lambda>r. strip_cr (rule_to_zone_line r)) rules) z = Inr z' \<and> zn_suffixes z' = zn_suffixes z \<and>
        (\<forall>d. map_of (zn_exact z') d = (if blocks_name rules d then Some Policy else map_of (zn_exact z) d))"
proof (induction rules arbitrary: n z)
  case (Cons r rules)
  let ?z = "if zr_action r = Passthru then z else z\<lparr>zn_exact := AList.update (zr_domain r) Policy (zn_exact z)\<rparr>"
  from Cons.IH [of "n + 1" ?z] Cons.prems obtain z' where
    "parse_zone_lines (n + 1) (map (\<lambda>r. strip_cr (rule_to_zone_line r)) rules) ?z = Inr z'"
    "zn_suffixes z' = zn_suffixes ?z"
    "\<forall>d. map_of (zn_exact z') d = (if blocks_name rules d then Some Policy else map_of (zn_exact ?z) d)" by auto
  with rule_line_parse [of r n "map (\<lambda>r. strip_cr (rule_to_zone_line r)) rules" z] Cons.prems show ?case
    by (intro exI [of _ z']) (auto simp: blocks_name_def)
qed (auto simp: blocks_name_def)

lemma zone_head_newline: "\<exists>h. zone_head contents st = h @ nl"
proof -
  have "zone_head contents st \<noteq> [] \<and> last (zone_head contents st) = CHR 0x0A"
    by (cases "active_lists st" rule: rev_cases) (simp_all add: zone_head_def nl_def)
  then show ?thesis using append_butlast_last_id by (metis nl_def)
qed

lemma zone_text_lines:
  assumes "list_all rule_ok (rs_custom_rules st)"
  shows "lines (zone_text contents st) =
           lines (zone_head contents st) @ ''; custom rules'' # map (\<lambda>r. strip_cr (rule_to_zone_line r)) (rs_custom_rules st)"
proof -
  obtain h where h: "zone_head contents st = h @ nl" using zone_head_newline by blast
  have "lines (''; custom rules'' @ nl @ x) = ''; custom rules'' # lines x" for x
    by (subst lines_step) (simp_all add: strip_cr_def)
  moreover have "lines (concat (map (\<lambda>r. rule_to_zone_line r @ nl) (rs_custom_rules st))) =
      map (\<lambda>r. strip_cr (rule_to_zone_line r)) (rs_custom_rules st)"
    using lines_concat [of "map rule_to_zone_line (rs_custom_rules st)"] assms rule_line_no_nl
    by (auto simp: list_all_iff comp_def)
  ultimately show ?thesis by (simp add: zone_text_def h lines_append)
qed

lemma custom_rules_parse:
  assumes "list_all rule_ok (rs_custom_rules st)"
    and "parse_zone_lines 0 (lines (zone_head contents st)) zone_default = Inr z0"
  shows "\<exists>z. zone_parse (zone_text contents st) = Inr z \<and> zn_suffixes z = zn_suffixes z0 \<and>
           (\<forall>d. map_of (zn_exact z) d = (if blocks_name (rs_custom_rules st) d then Some Policy else map_of (zn_exact z0) d))"
proof -
  have skip: "parse_zone_lines n (''; custom rules'' # ls) z = parse_zone_lines (n + 1) ls z" for n ls z
  proof -
    have "trim [] = []" by (rule trim_id) simp
    then show ?thesis by (simp add: strip_comment_def)
  qed
  from rules_parse [OF assms(1), of "length (lines (zone_head contents st)) + 1" z0] show ?thesis
    by (auto simp: zone_parse_def zone_text_lines [OF assms(1)] parse_zone_lines_append assms(2) skip
        simp del: parse_zone_lines.simps)
qed

definition lists_zone :: "(string, string) hash_map \<Rightarrow> rpz_state_file \<Rightarrow> string + zone" where
  "lists_zone contents st = parse_zone_lines 0 (lines (zone_head contents st)) zone_default"

lemma custom_rules_lookup:
  assumes "list_all rule_ok (rs_custom_rules st)" "lists_zone contents st = Inr z0"
  shows "\<exists>z. zone_parse (zone_text contents st) = Inr z \<and>
           (\<forall>q. zone_lookup z q =
              (if blocks_name (rs_custom_rules st) (normalize_name q) then Some Policy else zone_lookup z0 q))"
proof -
  from custom_rules_parse [OF assms(1) assms(2) [unfolded lists_zone_def]] obtain z where
    "zone_parse (zone_text contents st) = Inr z" "zn_suffixes z = zn_suffixes z0"
    "\<forall>d. map_of (zn_exact z) d = (if blocks_name (rs_custom_rules st) d then Some Policy else map_of (zn_exact z0) d)"
    by blast
  then show ?thesis by (intro exI [of _ z]) (auto simp: zone_lookup_def Let_def cong: option.case_cong)
qed

lemma zone_head_custom [simp]: "zone_head contents (st\<lparr>rs_custom_rules := rs\<rparr>) = zone_head contents st"
  by (simp add: zone_head_def active_lists_def)

lemma lists_zone_custom [simp]: "lists_zone contents (st\<lparr>rs_custom_rules := rs\<rparr>) = lists_zone contents st"
  by (simp add: lists_zone_def)

lemma add_custom_rule_written:
  assumes "fst (fst (add_custom_rule io millis now (Inr inp) api)) = 200"
  shows "\<exists>rule. zr_domain rule = to_ascii_lowercase (trim_end_matches CHR ''.'' (trim (ru_domain inp))) \<and>
           zr_action rule = ru_action inp \<and> zr_comment rule = ru_comment inp \<and>
           rp_zone_file (snd (add_custom_rule io millis now (Inr inp) api)) =
             Some (zone_text (rp_contents api) ((rp_inner api)\<lparr>rs_custom_rules := rule # rs_custom_rules (rp_inner api)\<rparr>))"
proof -
  let ?rule = "\<lparr>zr_id = ''rule-'' @ show_nat millis, zr_list_id = ''custom-inline'', zr_list_name = ''Custom Overrides'',
     zr_domain = to_ascii_lowercase (trim_end_matches CHR ''.'' (trim (ru_domain inp))), zr_action = ru_action inp,
     zr_target_ip = None, zr_target_cname = None, zr_comment = ru_comment inp, zr_created_at = now\<rparr>"
  show ?thesis
    using assms by (intro exI [of _ ?rule])
      (auto simp: add_custom_rule_def respond_def persist_def compile_zone_def Let_def split: option.splits)
qed

section \<open>Properties\<close>


text \<open>
  A custom rule that allows a name does nothing. Adding it leaves every look-up of the compiled zone as it was,
  so a name on a block list stays blocked, although the test query for that name answers PASSTHRU.
\<close>

theorem passthru_rule_has_no_effect:
  assumes "list_all rule_ok (r # rs_custom_rules (rp_inner api))" "zr_action r = Passthru" "plain_domain (zr_domain r)"
    and "lists_zone (rp_contents api) (rp_inner api) = Inr z0"
    and "zone_parse (zone_text (rp_contents api) (rp_inner api)) = Inr z"
  shows "(let api' = api\<lparr>rp_inner := (rp_inner api)\<lparr>rs_custom_rules := r # rs_custom_rules (rp_inner api)\<rparr>\<rparr> in
          (\<exists>z'. zone_parse (zone_text (rp_contents api') (rp_inner api')) = Inr z' \<and> (\<forall>q. zone_lookup z' q = zone_lookup z q)) \<and>
          (\<exists>rule resp. test_domain (zr_domain r) api' = (200, TestResult (zr_domain r) True ''PASSTHRU'' rule resp)))"
proof -
  let ?st = "(rp_inner api)\<lparr>rs_custom_rules := r # rs_custom_rules (rp_inner api)\<rparr>"
  from assms(1) have rest: "list_all rule_ok (rs_custom_rules (rp_inner api))" by simp
  from custom_rules_lookup [OF rest assms(4)] assms(5)
  have z: "zone_lookup z q = (if blocks_name (rs_custom_rules (rp_inner api)) (normalize_name q) then Some Policy else zone_lookup z0 q)" for q
    by auto
  from custom_rules_lookup [of ?st "rp_contents api" z0] assms(1,4) obtain z'
    where z': "zone_parse (zone_text (rp_contents api) ?st) = Inr z'"
      "\<forall>q. zone_lookup z' q = (if blocks_name (rs_custom_rules ?st) (normalize_name q) then Some Policy else zone_lookup z0 q)"
    by auto
  moreover have "blocks_name (rs_custom_rules ?st) d = blocks_name (rs_custom_rules (rp_inner api)) d" for d
    using assms(2) by (auto simp: blocks_name_def)
  ultimately have same: "zone_lookup z' q = zone_lookup z q" for q using z by simp
  have "domain_matches (zr_domain r) (zr_domain r)" by (rule plain_domain_matches [OF assms(3)])
  with same z'(1) assms(2) plain_lower [OF assms(3)] show ?thesis by (auto simp: test_domain_def Let_def)
qed

text \<open>
  One record of another type spoils the zone: when any line of an active list has a record the sinkhole does not
  support, such as the SOA record that every response policy zone begins with, the whole compiled zone is
  rejected, with all other lists and custom rules.
\<close>

theorem unsupported_record_rejects_zone:
  assumes "lines (zone_head contents st) = before @ line # after" "parse_zone_lines 0 before zone_default = Inr z1"
    and "trim (strip_comment line) = ''@ SOA ns.example. root.example. 1 2 3 4 5''"
    and "list_all rule_ok (rs_custom_rules st)"
  shows "\<exists>e. zone_parse (zone_text contents st) = Inl e"
proof -
  let ?t = "''@ SOA ns.example. root.example. 1 2 3 4 5''"
  have "parse_line z ?t = Inl ''unsupported RR type SOA''" for z
  proof -
    have "split_whitespace ?t = [''@'', ''SOA'', ''ns.example.'', ''root.example.'', ''1'', ''2'', ''3'', ''4'', ''5'']"
      "skip_ttl_class [''SOA'', ''ns.example.'', ''root.example.'', ''1'', ''2'', ''3'', ''4'', ''5''] =
       [''SOA'', ''ns.example.'', ''root.example.'', ''1'', ''2'', ''3'', ''4'', ''5'']"
      "to_ascii_uppercase ''SOA'' = ''SOA''" by code_simp+
    then show ?thesis by (simp add: parse_line_def Dns_Sinkhole.rr_action_def)
  qed
  then show ?thesis
    by (simp add: zone_parse_def zone_text_lines [OF assms(4)] assms(1,3) parse_zone_lines_append assms(2) starts_with_def)
qed

text \<open>A concrete interface with one block list, for the witnesses.\<close>

definition demo_rpz_list :: "rpz_list_format \<Rightarrow> rpz_list" where
  "demo_rpz_list fmt =
     \<lparr>rz_id = ''l'', rz_name = ''l'', rz_description = [], rz_source = Upload, rz_format = fmt, rz_url = None,
      rz_default_action = Nxdomain, rz_rule_count = 1, rz_active = True, rz_priority = 1, rz_last_updated = [],
      rz_sync_error = None, rz_tags = []\<rparr>"

definition demo_rpz_api :: rpz_api_state where
  "demo_rpz_api =
     \<lparr>rp_inner = \<lparr>rs_lists = [demo_rpz_list DomainList], rs_custom_rules = [], rs_config = dns_sinkhole_config_default\<rparr>,
      rp_contents = [(''l'', ''ads.test'')], rp_state_file = None, rp_zone_file = None\<rparr>"

definition demo_rule_input :: rule_input where
  "demo_rule_input = \<lparr>ru_domain = ''bad.test'', ru_action = Nxdomain, ru_comment = None\<rparr>"

definition demo_passthru :: rpz_rule where
  "demo_passthru = \<lparr>zr_id = ''p'', zr_list_id = [], zr_list_name = [], zr_domain = ''ads.test'', zr_action = Passthru,
     zr_target_ip = None, zr_target_cname = None, zr_comment = None, zr_created_at = []\<rparr>"

definition no_faults :: rpz_faults where
  "no_faults = \<lparr>pf_state = None, pf_zone = None, pf_write = None\<rparr>"

lemma demo_lists_zone:
  "lists_zone (rp_contents demo_rpz_api) (rp_inner demo_rpz_api) = Inr \<lparr>zn_exact = [(''ads.test'', Policy)], zn_suffixes = []\<rparr>"
  by code_simp


theorem passthru_rule_has_no_effect_witness:
  "\<exists>z'. zone_parse (zone_text (rp_contents demo_rpz_api) ((rp_inner demo_rpz_api)\<lparr>rs_custom_rules := [demo_passthru]\<rparr>)) = Inr z' \<and>
     zone_lookup z' ''ads.test'' = Some Policy"
proof -
  have facts: "list_all rule_ok (demo_passthru # rs_custom_rules (rp_inner demo_rpz_api))" "zr_action demo_passthru = Passthru"
    "plain_domain (zr_domain demo_passthru)"
    "zone_parse (zone_text (rp_contents demo_rpz_api) (rp_inner demo_rpz_api)) = Inr \<lparr>zn_exact = [(''ads.test'', Policy)], zn_suffixes = []\<rparr>"
    "zone_lookup \<lparr>zn_exact = [(''ads.test'', Policy)], zn_suffixes = []\<rparr> ''ads.test'' = Some Policy" by code_simp+
  from passthru_rule_has_no_effect [OF facts(1-3) demo_lists_zone facts(4)] facts(5) show ?thesis
    by (auto simp: Let_def demo_rpz_api_def)
qed

theorem unsupported_record_rejects_zone_witness:
  "\<exists>e. zone_parse (zone_text [(''l'', ''@ SOA ns.example. root.example. 1 2 3 4 5'')]
     ((rp_inner demo_rpz_api)\<lparr>rs_lists := [demo_rpz_list RpzZone]\<rparr>)) = Inl e"
proof -
  let ?c = "[(''l'', ''@ SOA ns.example. root.example. 1 2 3 4 5'')]"
  let ?st = "(rp_inner demo_rpz_api)\<lparr>rs_lists := [demo_rpz_list RpzZone]\<rparr>"
  let ?line = "''@ SOA ns.example. root.example. 1 2 3 4 5''"
  have facts: "lines (zone_head ?c ?st) = take 4 (lines (zone_head ?c ?st)) @ ?line # drop 5 (lines (zone_head ?c ?st))"
    "parse_zone_lines 0 (take 4 (lines (zone_head ?c ?st))) zone_default = Inr zone_default"
    "trim (strip_comment ?line) = ?line" "list_all rule_ok (rs_custom_rules ?st)" by code_simp+
  show ?thesis by (rule unsupported_record_rejects_zone [OF facts])
qed

end
