(* ===== verification/L2_Cache.thy ===== *)
theory L2_Cache
  imports Sharded_Cache Session
begin

text \<open>
  The Redis cache that proxy instances share (\<^verbatim>\<open>proxy/src/l2_cache.rs\<close>). Base64 and the JSON
  serialisation of an entry are the parameter \<open>l2_lib\<close>, with \<open>l2_law\<close> for what they document. The
  Redis server is the shared key space of theory Session; \<open>up\<close> tells whether a command succeeds.
  The replies to a scan are an input, and \<open>scan_law\<close> states what Redis guarantees of them.
\<close>

section \<open>Definitions\<close>

record l2_config =
  lc_enabled :: bool
  lc_url :: string
  lc_key_prefix :: string

definition l2_config_from_env :: "(string \<Rightarrow> string option) \<Rightarrow> l2_config" where
  "l2_config_from_env env =
     \<lparr>lc_enabled = env_flag [''1'', ''true'', ''yes''] env ''REDIS_L2_ENABLED'',
      lc_url = env_or env ''REDIS_URL'' ''redis://127.0.0.1:6379'',
      lc_key_prefix = env_or env ''REDIS_KEY_PREFIX'' ''bsdm:http:''\<rparr>"

record cached_response_wire =
  cw_status :: nat
  cw_headers :: headers
  cw_body_b64 :: string
  cw_body_encoding :: "string option"
  cw_uncompressed_len :: "nat option"
  cw_cached_at_secs :: nat
  cw_ttl_secs :: nat
  cw_etag :: "string option"
  cw_last_modified :: "string option"
  cw_is_negative :: bool
  cw_must_revalidate :: bool

record l2_lib =
  b64_encode :: "string \<Rightarrow> string"
  b64_decode :: "string \<Rightarrow> string option"
  wire_to_string :: "cached_response_wire \<Rightarrow> string option"
  wire_from_str :: "string \<Rightarrow> cached_response_wire option"

definition as_secs :: "duration \<Rightarrow> nat" where
  "as_secs d = d div 1000000000"

text \<open>A time is representable while its seconds fit a signed 64-bit number.\<close>

definition max_time_secs :: nat where "max_time_secs = 2 ^ 63"

definition from_cached :: "l2_lib \<Rightarrow> cached_response \<Rightarrow> cached_response_wire" where
  "from_cached lib r =
     \<lparr>cw_status = cr_status r, cw_headers = cr_headers r,
      cw_body_b64 = b64_encode lib (to_bytes (cr_body r)),
      cw_body_encoding = (if cr_body_encoding r = Raw then None else Some (wire_name (cr_body_encoding r))),
      cw_uncompressed_len = Some (cr_uncompressed_len r),
      cw_cached_at_secs = as_secs (cr_cached_at r), cw_ttl_secs = as_secs (cr_ttl r),
      cw_etag = cr_etag r, cw_last_modified = cr_last_modified r,
      cw_is_negative = cr_is_negative r, cw_must_revalidate = cr_must_revalidate r\<rparr>"

text \<open>\<^const>\<open>None\<close> is a panic, which adding to \<^verbatim>\<open>UNIX_EPOCH\<close> past the last representable time is.\<close>

definition into_cached :: "l2_lib \<Rightarrow> cached_response_wire \<Rightarrow> cached_response option option" where
  "into_cached lib w =
     (case b64_decode lib (cw_body_b64 w) of
        None \<Rightarrow> Some None
      | Some body \<Rightarrow>
          (if cw_cached_at_secs w \<ge> max_time_secs then None
           else Some (Some
             \<lparr>cr_status = cw_status w, cr_headers = cw_headers w, cr_body = Inline body,
              cr_body_encoding =
                (case Option.bind (cw_body_encoding w) from_wire of Some e \<Rightarrow> e | None \<Rightarrow> Raw),
              cr_uncompressed_len =
                (case cw_uncompressed_len w of Some n \<Rightarrow> n | None \<Rightarrow> length body),
              cr_cached_at = from_secs (cw_cached_at_secs w), cr_ttl = from_secs (cw_ttl_secs w),
              cr_etag = cw_etag w, cr_last_modified = cw_last_modified w,
              cr_is_negative = cw_is_negative w, cr_must_revalidate = cw_must_revalidate w\<rparr>)))"

text \<open>What the two libraries document, for an entry: decoding inverts encoding, parsing inverts
  serialising, and serialising a record of texts and numbers succeeds.\<close>

definition l2_law :: "l2_lib \<Rightarrow> cached_response \<Rightarrow> bool" where
  "l2_law lib r \<longleftrightarrow>
     b64_decode lib (b64_encode lib (to_bytes (cr_body r))) = Some (to_bytes (cr_body r)) \<and>
     Option.bind (wire_to_string lib (from_cached lib r)) (wire_from_str lib) = Some (from_cached lib r)"

definition encode_cached_response :: "l2_lib \<Rightarrow> cached_response \<Rightarrow> string option" where
  "encode_cached_response lib value = wire_to_string lib (from_cached lib value)"

definition decode_cached_response :: "l2_lib \<Rightarrow> string \<Rightarrow> cached_response option option" where
  "decode_cached_response lib payload =
     (case wire_from_str lib payload of None \<Rightarrow> Some None | Some w \<Rightarrow> into_cached lib w)"

definition redis_key :: "string \<Rightarrow> string \<Rightarrow> string" where
  "redis_key key_prefix cache_key = key_prefix @ cache_key"

definition remaining_ttl_secs :: "time \<Rightarrow> cached_response \<Rightarrow> nat" where
  "remaining_ttl_secs now value =
     (let expires = cr_cached_at value + cr_ttl value in
      if as_secs expires \<ge> max_time_secs \<or> expires < now then 1
      else max (as_secs (expires - now)) 1)"

text \<open>The first flag answers for \<^verbatim>\<open>GET\<close>, the second for the \<^verbatim>\<open>DEL\<close> of an expired entry.\<close>

definition l2_get ::
  "l2_lib \<Rightarrow> bool \<times> bool \<Rightarrow> time \<Rightarrow> string \<Rightarrow> string \<Rightarrow> redis_db \<Rightarrow> (cached_response option \<times> redis_db) option" where
  "l2_get lib up now key_prefix cache_key db =
     (let key = redis_key key_prefix cache_key in
      if \<not> fst up then Some (None, db)
      else
        (case redis_get now key db of
           None \<Rightarrow> Some (None, db)
         | Some payload \<Rightarrow>
             (case decode_cached_response lib payload of
                None \<Rightarrow> None
              | Some None \<Rightarrow> Some (None, db)
              | Some (Some v) \<Rightarrow>
                  (if can_serve_fresh now v then Some (Some v, db)
                   else Some (None, if snd up then AList.delete key db else db)))))"

definition l2_set ::
  "l2_lib \<Rightarrow> bool \<Rightarrow> time \<Rightarrow> string \<Rightarrow> string \<Rightarrow> cached_response \<Rightarrow> redis_db \<Rightarrow> redis_db" where
  "l2_set lib up now key_prefix cache_key value db =
     (case encode_cached_response lib value of
        None \<Rightarrow> db
      | Some payload \<Rightarrow>
          (if up
           then AList.update (redis_key key_prefix cache_key)
                  (payload, now + from_secs (remaining_ttl_secs now value)) db
           else db))"

definition l2_delete :: "bool \<Rightarrow> string \<Rightarrow> string \<Rightarrow> redis_db \<Rightarrow> redis_db" where
  "l2_delete up key_prefix cache_key db =
     (if up then AList.delete (redis_key key_prefix cache_key) db else db)"

text \<open>
  One reply to \<^verbatim>\<open>SCAN\<close>: an error, or the next cursor, the keys of this page, and whether the
  \<^verbatim>\<open>DEL\<close> of them succeeds. Without a further reply the loop is still waiting, \<^const>\<open>None\<close>.
\<close>

type_synonym scan_reply = "(nat \<times> string list \<times> bool) option"

fun flush_loop :: "scan_reply list \<Rightarrow> redis_db \<Rightarrow> redis_db option" where
  "flush_loop [] db = None"
| "flush_loop (None # replies) db = Some db"
| "flush_loop (Some (cursor, keys, del_ok) # replies) db =
     (let db' = (if keys \<noteq> [] \<and> del_ok then fold AList.delete keys db else db) in
      if cursor = 0 then Some db' else flush_loop replies db')"

definition flush_prefix :: "scan_reply list \<Rightarrow> redis_db \<Rightarrow> redis_db option" where
  "flush_prefix replies db = flush_loop replies db"

text \<open>
  A complete scan for \<open>key_prefix*\<close> ends with cursor 0, reports only matching keys, and reports
  every matching key that is there throughout. \<open>scanned\<close> are the keys it reports.
\<close>

fun scan_complete :: "scan_reply list \<Rightarrow> bool" where
  "scan_complete [Some (cursor, keys, del_ok)] \<longleftrightarrow> cursor = 0 \<and> del_ok"
| "scan_complete (Some (cursor, keys, del_ok) # replies) \<longleftrightarrow> cursor \<noteq> 0 \<and> del_ok \<and> scan_complete replies"
| "scan_complete _ \<longleftrightarrow> False"

definition scanned :: "scan_reply list \<Rightarrow> string list" where
  "scanned replies = concat (map (\<lambda>r. case r of Some (_, keys, _) \<Rightarrow> keys | None \<Rightarrow> []) replies)"

definition scan_law :: "string \<Rightarrow> redis_db \<Rightarrow> scan_reply list \<Rightarrow> bool" where
  "scan_law key_prefix db replies \<longleftrightarrow>
     scan_complete replies \<and>
     (\<forall>k \<in> set (scanned replies). starts_with k key_prefix) \<and>
     (\<forall>k v. map_of db k = Some v \<and> starts_with k key_prefix \<longrightarrow> k \<in> set (scanned replies))"

section \<open>Lemmas\<close>

lemma from_wire_name [simp]: "e \<noteq> Raw \<Longrightarrow> from_wire (wire_name e) = Some e"
proof (cases e)
  case Zstd
  have "from_wire (wire_name Zstd) = Some Zstd" by code_simp
  with Zstd show ?thesis by simp
next
  case Brotli
  have "from_wire (wire_name Brotli) = Some Brotli" by code_simp
  with Brotli show ?thesis by simp
qed simp

lemma as_secs_floor: "from_secs (as_secs d) \<le> d"
  by (simp add: from_secs_def as_secs_def)

text \<open>What an entry is after a trip through Redis.\<close>

definition second_hand :: "cached_response \<Rightarrow> cached_response" where
  "second_hand r =
     r\<lparr>cr_body := Inline (to_bytes (cr_body r)), cr_cached_at := from_secs (as_secs (cr_cached_at r)),
       cr_ttl := from_secs (as_secs (cr_ttl r))\<rparr>"

lemma decode_encode:
  assumes "l2_law lib r" "as_secs (cr_cached_at r) < max_time_secs"
  obtains s where "encode_cached_response lib r = Some s"
    "decode_cached_response lib s = Some (Some (second_hand r))"
proof -
  obtain s where s: "wire_to_string lib (from_cached lib r) = Some s" "wire_from_str lib s = Some (from_cached lib r)"
    using assms(1) by (auto simp: l2_law_def bind_eq_Some_conv)
  have "into_cached lib (from_cached lib r) = Some (Some (second_hand r))"
    using assms by (auto simp: into_cached_def from_cached_def second_hand_def l2_law_def)
  with s that show ?thesis by (simp add: encode_cached_response_def decode_cached_response_def)
qed

lemma scanned_simps [simp]:
  "scanned [] = []" "scanned (Some (cursor, keys, del_ok) # replies) = keys @ scanned replies"
  by (simp_all add: scanned_def)

lemma fold_delete_map: "map_of (fold AList.delete ks db) k = (if k \<in> set ks then None else map_of db k)"
  by (induction ks arbitrary: db) (auto simp: delete_conv')

lemma flush_loop_complete:
  "scan_complete replies \<Longrightarrow>
     \<exists>db'. flush_loop replies db = Some db' \<and>
       (\<forall>k. map_of db' k = (if k \<in> set (scanned replies) then None else map_of db k))"
proof (induction replies arbitrary: db rule: scan_complete.induct)
  case (1 cursor keys del_ok)
  then show ?case by (auto simp: fold_delete_map)
next
  case (2 cursor keys del_ok r rs)
  let ?db = "if keys \<noteq> [] then fold AList.delete keys db else db"
  from "2.prems" have c: "cursor \<noteq> 0" "del_ok" "scan_complete (r # rs)" by auto
  from "2.IH" [OF c(3), of ?db] obtain db' where "flush_loop (r # rs) ?db = Some db'"
    "\<forall>k. map_of db' k = (if k \<in> set (scanned (r # rs)) then None else map_of ?db k)" by auto
  with c show ?case by (auto simp: fold_delete_map)
qed auto

section \<open>Properties\<close>

text \<open>(C25) A response shared through Redis is the response: what one instance stores another instance
  reads back with the same status, headers, validators and body, as long as it is fresh by
  the entry's own clock and Redis still has it. The rounding to seconds only shortens its life: at
  a moment not before the entry was made, it is served only if the original could be.\<close>

theorem l2_roundtrip:
  assumes "l2_law lib r" "as_secs (cr_cached_at r) < max_time_secs"
    "now \<le> later" "later < now + from_secs (remaining_ttl_secs now r)" "can_serve_fresh later (second_hand r)"
  shows "\<exists>r'. l2_get lib (True, up) later p k (l2_set lib True now p k r db) =
               Some (Some r', l2_set lib True now p k r db) \<and>
           cr_status r' = cr_status r \<and> cr_headers r' = cr_headers r \<and> cr_etag r' = cr_etag r \<and>
           cr_last_modified r' = cr_last_modified r \<and> response_body codec r' = response_body codec r \<and>
           (\<forall>t \<ge> cr_cached_at r. can_serve_fresh t r' \<longrightarrow> can_serve_fresh t r)"
proof -
  obtain s where s: "encode_cached_response lib r = Some s" "decode_cached_response lib s = Some (Some (second_hand r))"
    by (rule decode_encode [OF assms(1,2)])
  have "redis_get later (redis_key p k) (l2_set lib True now p k r db) = Some s"
    using assms(4) by (simp add: l2_set_def s(1) redis_get_def)
  then have "l2_get lib (True, up) later p k (l2_set lib True now p k r db) =
      Some (Some (second_hand r), l2_set lib True now p k r db)"
    using s(2) assms(5) by (simp add: l2_get_def Let_def)
  moreover have "response_body codec (second_hand r) = response_body codec r"
    by (simp add: second_hand_def response_body_def decoded_body_def split: body_encoding.splits option.splits)
  moreover have "can_serve_fresh t (second_hand r) \<longrightarrow> can_serve_fresh t r" if "t \<ge> cr_cached_at r" for t
    using that as_secs_floor [of "cr_cached_at r"] as_secs_floor [of "cr_ttl r"]
    by (auto simp: can_serve_fresh_def is_expired_def second_hand_def)
  ultimately show ?thesis by (intro exI [of _ "second_hand r"]) (auto simp: second_hand_def)
qed

text \<open>Redis never makes the proxy serve a stale response: whatever the key holds, an entry that is
  returned can be served without revalidation.\<close>

theorem l2_get_only_fresh:
  assumes "l2_get lib up now p k db = Some (Some r, db')"
  shows "can_serve_fresh now r \<and> db' = db"
  using assms by (auto simp: l2_get_def Let_def split: if_splits option.splits)

text \<open>Flushing removes exactly the cache's own keys: when the scan runs to its end, no key with the
  cache's prefix is left, and no other key of the shared Redis server is touched.\<close>

theorem flush_prefix_exact:
  assumes "scan_law p db replies"
  shows "\<exists>db'. flush_prefix replies db = Some db' \<and>
           (\<forall>k. map_of db' k = (if starts_with k p then None else map_of db k))"
proof -
  obtain db' where db': "flush_loop replies db = Some db'"
    and got: "\<And>k. map_of db' k = (if k \<in> set (scanned replies) then None else map_of db k)"
    using flush_loop_complete assms unfolding scan_law_def by blast
  have "map_of db' k = (if starts_with k p then None else map_of db k)" for k
  proof (cases "k \<in> set (scanned replies)")
    case True
    with assms got show ?thesis by (simp add: scan_law_def)
  next
    case False
    with assms have "starts_with k p \<Longrightarrow> map_of db k = None" by (cases "map_of db k") (auto simp: scan_law_def)
    with False got show ?thesis by simp
  qed
  with db' show ?thesis by (simp add: flush_prefix_def)
qed

section \<open>Witnesses\<close>

definition demo_entry :: cached_response where
  "demo_entry =
     \<lparr>cr_status = 200, cr_headers = [(''content-type'', ''text/plain'')], cr_body = Mmap ''hi'',
      cr_body_encoding = Raw, cr_uncompressed_len = 2, cr_cached_at = from_secs 5 + 7, cr_ttl = from_secs 60,
      cr_etag = Some ''v1'', cr_last_modified = None, cr_is_negative = False, cr_must_revalidate = False\<rparr>"

text \<open>Libraries that know one entry.\<close>

definition demo_wire_lib :: l2_lib where
  "demo_wire_lib =
     \<lparr>b64_encode = (\<lambda>s. s), b64_decode = Some, wire_to_string = (\<lambda>_. Some ''w''),
      wire_from_str = (\<lambda>_. Some
        \<lparr>cw_status = 200, cw_headers = [(''content-type'', ''text/plain'')], cw_body_b64 = ''hi'',
         cw_body_encoding = None, cw_uncompressed_len = Some 2, cw_cached_at_secs = 5, cw_ttl_secs = 60,
         cw_etag = Some ''v1'', cw_last_modified = None, cw_is_negative = False, cw_must_revalidate = False\<rparr>)\<rparr>"

lemma demo_wire_law: "l2_law demo_wire_lib demo_entry"
  by (simp add: l2_law_def demo_wire_lib_def demo_entry_def from_cached_def as_secs_def from_secs_def)

lemma demo_entry_fresh: "can_serve_fresh (from_secs 30) (second_hand demo_entry)"
  by (simp add: can_serve_fresh_def is_expired_def second_hand_def demo_entry_def as_secs_def from_secs_def)

theorem l2_roundtrip_witness:
  "\<exists>r'. l2_get demo_wire_lib (True, True) (from_secs 30) ''p:'' ''k''
      (l2_set demo_wire_lib True (from_secs 6) ''p:'' ''k'' demo_entry []) =
        Some (Some r', l2_set demo_wire_lib True (from_secs 6) ''p:'' ''k'' demo_entry []) \<and>
      response_body demo_codec r' = ''hi''"
proof -
  have "as_secs (cr_cached_at demo_entry) < max_time_secs"
    by (simp add: demo_entry_def as_secs_def from_secs_def max_time_secs_def)
  moreover have "remaining_ttl_secs (from_secs 6) demo_entry = 59"
    by (simp add: remaining_ttl_secs_def demo_entry_def as_secs_def from_secs_def max_time_secs_def)
  moreover have "response_body demo_codec demo_entry = ''hi''"
    by (simp add: response_body_def demo_entry_def)
  ultimately show ?thesis
    using l2_roundtrip [OF demo_wire_law, of "from_secs 6" "from_secs 30" True "''p:''" "''k''" "[]" demo_codec]
      demo_entry_fresh by (force simp: from_secs_def)
qed

theorem l2_get_only_fresh_witness: "can_serve_fresh (from_secs 30) (second_hand demo_entry)"
proof -
  have "l2_get demo_wire_lib (True, True) (from_secs 30) [] ''k'' [(''k'', ''w'', from_secs 60)] =
      Some (Some (second_hand demo_entry), [(''k'', ''w'', from_secs 60)])"
    using demo_entry_fresh
    by (simp add: l2_get_def redis_key_def redis_get_def decode_cached_response_def demo_wire_lib_def into_cached_def
        max_time_secs_def second_hand_def demo_entry_def as_secs_def from_secs_def)
  from l2_get_only_fresh [OF this] show ?thesis by simp
qed

theorem flush_prefix_exact_witness:
  "\<exists>db'. flush_prefix [Some (7, [''p:a''], True), Some (0, [''p:b'', ''p:a''], True)]
      [(''p:a'', ''x'', 1), (''q:a'', ''y'', 1), (''p:b'', ''z'', 1)] = Some db' \<and>
     map_of db' ''p:b'' = None \<and> map_of db' ''q:a'' = Some (''y'', 1)"
proof -
  have "scan_law ''p:'' [(''p:a'', ''x'', 1), (''q:a'', ''y'', 1), (''p:b'', ''z'', 1)]
      [Some (7, [''p:a''], True), Some (0, [''p:b'', ''p:a''], True)]"
    by (auto simp: scan_law_def starts_with_def split: if_splits)
  from flush_prefix_exact [OF this] obtain db' where
    "flush_prefix [Some (7, [''p:a''], True), Some (0, [''p:b'', ''p:a''], True)]
      [(''p:a'', ''x'', 1), (''q:a'', ''y'', 1), (''p:b'', ''z'', 1)] = Some db'"
    "\<forall>k. map_of db' k = (if starts_with k ''p:'' then None else
      map_of [(''p:a'', ''x'', 1), (''q:a'', ''y'', 1), (''p:b'', ''z'', 1)] k)" by blast
  then show ?thesis by (auto simp: starts_with_def)
qed

end
