(* ===== verification/Streaming_Miss.thy ===== *)
theory Streaming_Miss
  imports Cache_Entry
begin

text \<open>
  Streaming a cache miss (\<^verbatim>\<open>proxy/src/streaming_miss.rs\<close>): a task reads the upstream body, hands every
  frame to the client and keeps a copy for the cache. The upstream body is the list of what
  polling it yields, each a frame or an error, and ends with the list. \<open>sends\<close> tells for each
  frame handed over whether the client still takes it; once one send fails no other is tried.
\<close>

section \<open>Definitions\<close>

datatype body_frame = DataFrame string | TrailerFrame headers

record tee_state =
  ts_acc :: string
  ts_attempt_cache :: bool
  ts_client_gone :: bool
  ts_forwarded :: "(string + body_frame) list"

definition tee_frame :: "nat \<Rightarrow> bool \<Rightarrow> body_frame \<Rightarrow> tee_state \<Rightarrow> tee_state" where
  "tee_frame max_body sent frame st =
     (let st1 =
            (case frame of
               DataFrame chunk \<Rightarrow>
                 (if ts_attempt_cache st then
                    (if length (ts_acc st) + length chunk > max_body
                     then st\<lparr>ts_attempt_cache := False, ts_acc := []\<rparr>
                     else st\<lparr>ts_acc := ts_acc st @ chunk\<rparr>)
                  else st)
             | TrailerFrame _ \<Rightarrow> st)
      in if ts_client_gone st1 then st1
         else if sent then st1\<lparr>ts_forwarded := ts_forwarded st1 @ [Inr frame]\<rparr>
         else st1\<lparr>ts_client_gone := True\<rparr>)"

text \<open>An error is sent even when the client has gone, and ends the loop.\<close>

fun drain_loop :: "nat \<Rightarrow> bool list \<Rightarrow> (string + body_frame) list \<Rightarrow> tee_state \<Rightarrow> tee_state" where
  "drain_loop max_body sends [] st = st"
| "drain_loop max_body sends (Inl e # rest) st =
     (if ts_client_gone st then st else st\<lparr>ts_forwarded := ts_forwarded st @ [Inl e]\<rparr>)"
| "drain_loop max_body sends (Inr frame # rest) st =
     drain_loop max_body (tl sends) rest (tee_frame max_body (sends = [] \<or> hd sends) frame st)"

text \<open>What the client receives, and the body and flag the completion callback is given.\<close>

definition spawn_upstream_drain ::
  "bool \<Rightarrow> nat \<Rightarrow> bool list \<Rightarrow> (string + body_frame) list \<Rightarrow> (string + body_frame) list \<times> string \<times> bool" where
  "spawn_upstream_drain attempt_cache max_body sends upstream =
     (let st = drain_loop max_body sends upstream
                 \<lparr>ts_acc = [], ts_attempt_cache = attempt_cache, ts_client_gone = False, ts_forwarded = []\<rparr>
      in (ts_forwarded st, if ts_attempt_cache st then ts_acc st else [], ts_attempt_cache st))"

subsection \<open>Specification\<close>

text \<open>The frames before the first error, and the bytes they carry.\<close>

fun good_frames :: "(string + body_frame) list \<Rightarrow> body_frame list" where
  "good_frames (Inr f # rest) = f # good_frames rest"
| "good_frames _ = []"

definition frame_bytes :: "body_frame \<Rightarrow> string" where
  "frame_bytes f = (case f of DataFrame b \<Rightarrow> b | TrailerFrame _ \<Rightarrow> [])"

definition good_bytes :: "(string + body_frame) list \<Rightarrow> string" where
  "good_bytes upstream = concat (map frame_bytes (good_frames upstream))"

fun up_to_error :: "(string + body_frame) list \<Rightarrow> (string + body_frame) list" where
  "up_to_error (Inr f # rest) = Inr f # up_to_error rest"
| "up_to_error (Inl e # rest) = [Inl e]"
| "up_to_error [] = []"

section \<open>Lemmas\<close>

lemma good_bytes_simps [simp]:
  "good_bytes [] = []" "good_bytes (Inl e # rest) = []"
  "good_bytes (Inr f # rest) = frame_bytes f @ good_bytes rest"
  by (simp_all add: good_bytes_def)

lemma good_frames_map [simp]: "good_frames (map Inr frames) = frames"
  by (induction frames) auto

lemma good_frames_error [simp]: "good_frames (map Inr frames @ Inl e # rest) = frames"
  by (induction frames) auto

lemma up_to_error_map [simp]: "up_to_error (map Inr frames) = map Inr frames"
  by (induction frames) auto

lemma tee_frame_fields:
  "length (ts_acc st) \<le> m \<Longrightarrow> ts_attempt_cache (tee_frame m sent frame st) \<longleftrightarrow>
     ts_attempt_cache st \<and> length (ts_acc st) + length (frame_bytes frame) \<le> m"
  "ts_acc (tee_frame m sent frame st) =
     (if ts_attempt_cache st then
        (if ts_attempt_cache (tee_frame m sent frame st) then ts_acc st @ frame_bytes frame else [])
      else ts_acc st)"
  "ts_client_gone (tee_frame m sent frame st) \<longleftrightarrow> ts_client_gone st \<or> \<not> sent"
  "ts_forwarded (tee_frame m sent frame st) =
     ts_forwarded st @ (if ts_client_gone st \<or> \<not> sent then [] else [Inr frame])"
  by (cases frame; simp add: tee_frame_def Let_def frame_bytes_def)+

lemma tee_frame_attempt: "ts_attempt_cache (tee_frame m sent frame st) \<Longrightarrow> ts_attempt_cache st"
  by (cases frame) (auto simp: tee_frame_def Let_def split: if_splits)

lemma drain_attempt:
  "ts_attempt_cache (drain_loop m sends up st) \<longleftrightarrow>
     ts_attempt_cache st \<and> (good_bytes up = [] \<or> length (ts_acc st) + length (good_bytes up) \<le> m)"
  if "length (ts_acc st) \<le> m"
  using that
proof (induction m sends up st rule: drain_loop.induct)
  case (3 m sends frame rest st)
  let ?st = "tee_frame m (sends = [] \<or> hd sends) frame st"
  have "length (ts_acc ?st) \<le> m" using "3.prems" by (simp add: tee_frame_fields)
  from "3.IH" [OF this] tee_frame_fields(1) [of st m "sends = [] \<or> hd sends" frame]
    tee_frame_fields(2) [of m "sends = [] \<or> hd sends" frame st] "3.prems"
  show ?case by (cases "ts_attempt_cache ?st") auto
qed auto

lemma drain_acc:
  "ts_attempt_cache (drain_loop m sends up st) \<Longrightarrow> ts_acc (drain_loop m sends up st) = ts_acc st @ good_bytes up"
proof (induction m sends up st rule: drain_loop.induct)
  case (3 m sends frame rest st)
  have "ts_attempt_cache t" if "ts_attempt_cache (drain_loop m s up' t)" for s up' t
    using that by (induction m s up' t rule: drain_loop.induct) (auto split: if_splits dest: tee_frame_attempt)
  with "3.prems" have "ts_attempt_cache (tee_frame m (sends = [] \<or> hd sends) frame st)" by simp
  with tee_frame_attempt [OF this] 3 show ?case
    using tee_frame_fields(2) [of m "sends = [] \<or> hd sends" frame st] by simp
qed auto

lemma drain_forwarded:
  "\<not> ts_client_gone st \<Longrightarrow> list_all (\<lambda>b. b) sends \<Longrightarrow>
     ts_forwarded (drain_loop m sends up st) = ts_forwarded st @ up_to_error up"
proof (induction m sends up st rule: drain_loop.induct)
  case (3 m sends frame rest st)
  let ?st = "tee_frame m (sends = [] \<or> hd sends) frame st"
  have "sends = [] \<or> hd sends" using "3.prems"(2) by (cases sends) auto
  then have "\<not> ts_client_gone ?st" "ts_forwarded ?st = ts_forwarded st @ [Inr frame]"
    using "3.prems"(1) by (simp_all add: tee_frame_fields)
  moreover have "list_all (\<lambda>b. b) (tl sends)" using "3.prems"(2) by (cases sends) auto
  ultimately show ?case using "3.IH" by simp
qed auto

lemma drain_result:
  "spawn_upstream_drain attempt m sends up =
     (fst (spawn_upstream_drain attempt m sends up),
      if attempt \<and> length (good_bytes up) \<le> m then (good_bytes up, True) else ([], False))"
proof -
  let ?st = "\<lparr>ts_acc = [], ts_attempt_cache = attempt, ts_client_gone = False, ts_forwarded = []\<rparr>"
  have "ts_attempt_cache (drain_loop m sends up ?st) \<longleftrightarrow> attempt \<and> length (good_bytes up) \<le> m"
    using drain_attempt [of ?st m sends up] by auto
  with drain_acc [of m sends up ?st] show ?thesis by (auto simp: spawn_upstream_drain_def Let_def)
qed

section \<open>Properties\<close>

text \<open>Streaming a miss changes nothing the client sees and loses nothing the cache needs: a client
  that keeps reading receives exactly the frames upstream sent, up to and including an
  error; when upstream ends without an error the completion is given the whole body if it was
  to be cached and is not larger than the limit, and is told not to store otherwise. What the cache
  gets does not depend on how long the client stays.\<close>

theorem tee_transparent:
  "(list_all (\<lambda>b. b) sends \<longrightarrow> fst (spawn_upstream_drain attempt m sends (map Inr frames)) = map Inr frames) \<and>
   snd (spawn_upstream_drain attempt m sends (map Inr frames)) =
     (let body = concat (map frame_bytes frames) in
      if attempt \<and> length body \<le> m then (body, True) else ([], False))"
proof -
  have "fst (spawn_upstream_drain attempt m sends (map Inr frames)) = map Inr frames" if "list_all (\<lambda>b. b) sends"
    using drain_forwarded [OF _ that] by (simp add: spawn_upstream_drain_def Let_def)
  with drain_result [of attempt m sends "map Inr frames"] show ?thesis
    by (metis good_frames_map good_bytes_def snd_conv)
qed

text \<open>A body cut off by an upstream error is completed like a whole one: the callback is given the
  bytes that arrived before the error and the flag to store them, exactly as if upstream had ended
  there, so that a truncated response can enter the cache.\<close>

theorem cut_off_body_completes:
  "snd (spawn_upstream_drain attempt m sends (map Inr frames @ Inl e # rest)) =
     snd (spawn_upstream_drain attempt m sends' (map Inr frames))"
proof -
  have "good_bytes (map Inr frames @ Inl e # rest) = good_bytes (map Inr frames)"
    by (simp add: good_bytes_def good_frames_error)
  then show ?thesis
    by (metis drain_result snd_conv)
qed

section \<open>Witnesses\<close>

theorem tee_transparent_witness:
  "spawn_upstream_drain True 10 [] [Inr (DataFrame ''ab''), Inr (DataFrame ''c''), Inr (TrailerFrame [])] =
     ([Inr (DataFrame ''ab''), Inr (DataFrame ''c''), Inr (TrailerFrame [])], ''abc'', True)"
  using tee_transparent [of "[]" True 10 "[DataFrame ''ab'', DataFrame ''c'', TrailerFrame []]"]
  by (simp add: frame_bytes_def prod_eq_iff)

end
