(* ===== verification/Icap.thy ===== *)
theory Icap
  imports Wire
begin

text \<open>
  The ICAP client (\<^verbatim>\<open>proxy/src/icap.rs\<close>), which lets an external service adapt requests and
  responses. Messages are their bytes, one \<^typ>\<open>char\<close> each.

  Name resolution and the URL library are parameters: \<open>resolve\<close> gives an address or an error,
  \<open>parse_url\<close> the host, port, path and query of a URL. What the network does is an input:
  an error on connecting or writing, and the pieces that reading yields, an empty piece being
  the end of the stream. When no piece is left the service is silent and the timeout strikes.
  A result \<^const>\<open>None\<close> is a panic. The offset that a UTF-8 error message names is left out.
\<close>

section \<open>Definitions\<close>

subsection \<open>Configuration\<close>

record icap_config =
  ic_enabled :: bool
  ic_url :: string
  ic_timeout :: duration
  ic_fail_open :: bool
  ic_reqmod :: bool
  ic_respmod :: bool
  ic_max_body_bytes :: nat

definition icap_env_bool :: "(string \<Rightarrow> string option) \<Rightarrow> string \<Rightarrow> bool \<Rightarrow> bool" where
  "icap_env_bool env key dflt =
     (case env key of
        Some v \<Rightarrow> List.member [''1'', ''true'', ''yes''] (to_ascii_lowercase v)
      | None \<Rightarrow> dflt)"

definition icap_config_from_env :: "(string \<Rightarrow> string option) \<Rightarrow> icap_config" where
  "icap_config_from_env env =
     \<lparr>ic_enabled = icap_env_bool env ''ICAP_ENABLED'' False,
      ic_url = env_or env ''ICAP_URL'' ''icap://127.0.0.1:1344/echo'',
      ic_timeout = from_millis (max (env_uint env u64_max ''ICAP_TIMEOUT_MS'' 5000) 1),
      ic_fail_open = icap_env_bool env ''ICAP_FAIL_OPEN'' True,
      ic_reqmod = icap_env_bool env ''ICAP_REQMOD'' True,
      ic_respmod = icap_env_bool env ''ICAP_RESPMOD'' True,
      ic_max_body_bytes = env_uint env u64_max ''ICAP_MAX_BODY_BYTES'' 1048576\<rparr>"

record parsed_icap_url =
  iu_host :: string
  iu_port :: nat
  iu_service_path :: string
  iu_addr :: string
  iu_is_tls :: bool

definition icap_scheme :: "string \<Rightarrow> (string \<times> bool) option" where
  "icap_scheme url =
     (case (strip_prefix url ''icaps://'', strip_prefix url ''ICAPS://'',
            strip_prefix url ''icap://'', strip_prefix url ''ICAP://'') of
        (Some r, _, _, _) \<Rightarrow> Some (r, True)
      | (None, Some r, _, _) \<Rightarrow> Some (r, True)
      | (None, None, Some r, _) \<Rightarrow> Some (r, False)
      | (None, None, None, Some r) \<Rightarrow> Some (r, False)
      | (None, None, None, None) \<Rightarrow> None)"

text \<open>\<^verbatim>\<open>rsplit_once(':')\<close>.\<close>

definition rsplit_once :: "char \<Rightarrow> string \<Rightarrow> (string \<times> string) option" where
  "rsplit_once c s = map_option (\<lambda>(a, b). (rev b, rev a)) (split_once c (rev s))"

definition parse_icap_url :: "(string \<Rightarrow> nat \<Rightarrow> string + string) \<Rightarrow> string \<Rightarrow> string + parsed_icap_url" where
  "parse_icap_url resolve url =
     (case icap_scheme url of
        None \<Rightarrow> Inl (''ICAP_URL must start with icap:// or icaps:// (got '' @ url @ '')'')
      | Some (rest, is_tls) \<Rightarrow>
          (let (authority, path) =
                 (case split_once CHR ''/'' rest of Some (a, p) \<Rightarrow> (a, ''/'' @ p) | None \<Rightarrow> (rest, ''/''));
               host_port =
                 (case rsplit_once CHR '':'' authority of
                    Some (h, p) \<Rightarrow>
                      (case parse_uint u16_max p of
                         Some port \<Rightarrow> Inr (h, port)
                       | None \<Rightarrow> Inl (''invalid ICAP port in '' @ url))
                  | None \<Rightarrow> Inr (authority, if is_tls then 11344 else 1344))
           in case host_port of
                Inl e \<Rightarrow> Inl e
              | Inr (host, port) \<Rightarrow>
                  (case resolve host port of
                     Inl e \<Rightarrow> Inl e
                   | Inr addr \<Rightarrow>
                       Inr \<lparr>iu_host = host, iu_port = port, iu_service_path = path, iu_addr = addr,
                            iu_is_tls = is_tls\<rparr>)))"

datatype icap_outcome = IcapAllow | IcapResponse nat headers string

record icap_client =
  ik_cfg :: icap_config
  ik_parsed :: parsed_icap_url

definition icap_from_config ::
  "(string \<Rightarrow> nat \<Rightarrow> string + string) \<Rightarrow> icap_config \<Rightarrow> string + icap_client option" where
  "icap_from_config resolve cfg =
     (if \<not> ic_enabled cfg then Inr None
      else
        (case parse_icap_url resolve (ic_url cfg) of
           Inl e \<Rightarrow> Inl e
         | Inr parsed \<Rightarrow> Inr (Some \<lparr>ik_cfg = cfg, ik_parsed = parsed\<rparr>)))"

definition icap_try_from_env ::
  "(string \<Rightarrow> nat \<Rightarrow> string + string) \<Rightarrow> (string \<Rightarrow> string option) \<Rightarrow> icap_client option" where
  "icap_try_from_env resolve env =
     (case icap_from_config resolve (icap_config_from_env env) of Inr c \<Rightarrow> c | Inl _ \<Rightarrow> None)"

subsection \<open>Encoding\<close>

definition crlf :: string where
  "crlf = [CHR 0x0D, CHR 0x0A]"

definition truncate_body :: "string \<Rightarrow> nat \<Rightarrow> string" where
  "truncate_body body mx = (if mx = 0 then [] else if length body > mx then take mx body else body)"

definition icap_head :: "string \<Rightarrow> parsed_icap_url \<Rightarrow> string \<Rightarrow> string" where
  "icap_head meth parsed encapsulated =
     meth @ '' icap://'' @ iu_host parsed @ '':'' @ show_nat (iu_port parsed) @ iu_service_path parsed @
     '' ICAP/1.0'' @ crlf @
     ''Host: '' @ iu_host parsed @ '':'' @ show_nat (iu_port parsed) @ crlf @
     ''Allow: 204'' @ crlf @ encapsulated @ crlf @ crlf"

definition encapsulated_req :: "string \<Rightarrow> bool \<Rightarrow> string" where
  "encapsulated_req http_req null_body =
     (if null_body then ''Encapsulated: req-hdr=0, null-body='' @ show_nat (length http_req)
      else ''Encapsulated: req-hdr=0, req-body='' @ show_nat (length http_req))"

text \<open>A URL's host, port, path and query.\<close>

type_synonym url_parts = "string option \<times> nat option \<times> string \<times> string option"

definition split_url :: "(string \<Rightarrow> string + url_parts) \<Rightarrow> string \<Rightarrow> string + string \<times> string" where
  "split_url parse_url url =
     (case parse_url url of
        Inl e \<Rightarrow> Inl (''url parse: '' @ e)
      | Inr (None, _) \<Rightarrow> Inl ''URL missing host''
      | Inr (Some host, port, path, query) \<Rightarrow>
          (let host_port = (case port of Some p \<Rightarrow> host @ '':'' @ show_nat p | None \<Rightarrow> host);
               path = (if path = [] then ''/'' else path);
               path_q = (case query of Some q \<Rightarrow> path @ ''?'' @ q | None \<Rightarrow> path)
           in Inr (path_q, host_port)))"

definition header_line :: "string \<times> string \<Rightarrow> string" where
  "header_line h = fst h @ '': '' @ snd h @ crlf"

definition named_any :: "string list \<Rightarrow> string \<times> string \<Rightarrow> bool" where
  "named_any names h \<longleftrightarrow> list_ex (eq_ignore_ascii_case (fst h)) names"

definition encode_http_request ::
  "(string \<Rightarrow> string + url_parts) \<Rightarrow> string \<Rightarrow> string \<Rightarrow> headers \<Rightarrow> string \<Rightarrow> string + string" where
  "encode_http_request parse_url meth url hs body =
     (case split_url parse_url url of
        Inl e \<Rightarrow> Inl e
      | Inr (path, host) \<Rightarrow>
          Inr (meth @ '' '' @ path @ '' HTTP/1.1'' @ crlf @
               concat (map header_line (filter (\<lambda>h. \<not> named_any
                 [''content-length'', ''transfer-encoding'', ''proxy-connection'', ''connection''] h) hs)) @
               (if list_ex (named_any [''host'']) hs then [] else header_line (''Host'', host)) @
               (if body = [] then [] else header_line (''Content-Length'', show_nat (length body))) @ crlf))"

definition http_reason :: "nat \<Rightarrow> string" where
  "http_reason status =
     (if status = 200 then ''OK'' else if status = 204 then ''No Content''
      else if status = 403 then ''Forbidden'' else if status = 502 then ''Bad Gateway''
      else if status = 503 then ''Service Unavailable'' else ''OK'')"

definition encode_http_response_headers :: "nat \<Rightarrow> headers \<Rightarrow> nat \<Rightarrow> string" where
  "encode_http_response_headers status hs body_len =
     ''HTTP/1.1 '' @ show_nat status @ '' '' @ http_reason status @ crlf @
     concat (map header_line (filter (\<lambda>h. \<not> named_any
       [''content-length'', ''transfer-encoding'', ''connection''] h) hs)) @
     (if body_len > 0 then header_line (''Content-Length'', show_nat body_len) else []) @ crlf"

text \<open>\<^verbatim>\<open>{:x}\<close>.\<close>

fun show_hex :: "nat \<Rightarrow> string" where
  "show_hex n =
     (let d = (\<lambda>k. char_of (if k < 10 then 48 + k else 87 + k)) in
      if n < 16 then [d n] else show_hex (n div 16) @ [d (n mod 16)])"

declare show_hex.simps [simp del]

definition encode_chunked :: "string \<Rightarrow> string" where
  "encode_chunked body = show_hex (length body) @ crlf @ body @ crlf @ ''0'' @ crlf @ crlf"

subsection \<open>Decoding\<close>

text \<open>\<^verbatim>\<open>windows(n).position(..)\<close>: where a text first occurs.\<close>

primrec position_of :: "string \<Rightarrow> string \<Rightarrow> nat option" where
  "position_of w [] = (if w = [] then Some 0 else None)"
| "position_of w (c # cs) = (if starts_with (c # cs) w then Some 0 else map_option Suc (position_of w cs))"

definition find_header_end :: "string \<Rightarrow> nat option" where
  "find_header_end buf = map_option (\<lambda>i. i + 4) (position_of (crlf @ crlf) buf)"

text \<open>\<^verbatim>\<open>split("\r\n")\<close>.\<close>

fun split_crlf :: "string \<Rightarrow> string list" where
  "split_crlf [] = [[]]"
| "split_crlf [c] = [[c]]"
| "split_crlf (c # d # cs) =
     (if [c, d] = crlf then [] # split_crlf cs
      else (case split_crlf (d # cs) of [] \<Rightarrow> [[c]] | l # ls \<Rightarrow> (c # l) # ls))"

text \<open>\<^verbatim>\<open>usize::from_str_radix(_, 16)\<close>.\<close>

fun hex_digits :: "nat \<Rightarrow> string \<Rightarrow> nat option" where
  "hex_digits acc [] = Some acc"
| "hex_digits acc (c # cs) =
     (if digit_val c < 16 then
        (let v = acc * 16 + digit_val c in if v \<le> u64_max then hex_digits v cs else None)
      else None)"

definition parse_hex :: "string \<Rightarrow> nat option" where
  "parse_hex s =
     (case s of
        [] \<Rightarrow> None
      | c # cs \<Rightarrow> (if c = CHR ''+'' then (if cs = [] then None else hex_digits 0 cs) else hex_digits 0 s))"

definition utf8_text :: "string \<Rightarrow> string \<Rightarrow> string + string" where
  "utf8_text label s =
     (case from_utf8 (char_bytes s) of Some t \<Rightarrow> Inr t | None \<Rightarrow> Inl (label @ '': invalid utf-8''))"

lemma position_of_less: "position_of w s = Some n \<Longrightarrow> n + length w \<le> length s"
  by (induction s arbitrary: n) (auto simp: starts_with_def split: if_splits dest: prefix_length_le)

text \<open>
  The loop of \<^verbatim>\<open>decode_chunked\<close> at position \<open>i\<close>. Additions on \<^verbatim>\<open>usize\<close> wrap, and a slice whose end
  lies before its start or past the data panics.
\<close>

function decode_chunks :: "string \<Rightarrow> nat \<Rightarrow> string \<Rightarrow> (string + string option) option" where
  "decode_chunks data i out =
     (case position_of crlf (drop i data) of
        None \<Rightarrow> Some (Inr None)
      | Some line_end \<Rightarrow>
          (case utf8_text ''chunk'' (take line_end (drop i data)) of
             Inl e \<Rightarrow> Some (Inl e)
           | Inr line \<Rightarrow>
               (case parse_hex (trim line) of
                  None \<Rightarrow> Some (Inl (''bad chunk size: '' @ line))
                | Some sz \<Rightarrow>
                    (let j = i + line_end + 2 in
                     if sz = 0 then Some (Inr (Some out))
                     else if length data < (j + sz + 2) mod 2 ^ 64 then Some (Inr None)
                     else if (j + sz) mod 2 ^ 64 < j \<or> (j + sz) mod 2 ^ 64 > length data then None
                     else decode_chunks data (j + sz + 2) (out @ take sz (drop j data))))))"
  by pat_completeness auto

termination
proof (relation "measure (\<lambda>(data, i, out). length data - i)", goal_cases)
  case (2 data i out n line sz j)
  then have "i < length data" using position_of_less [of crlf "drop i data" n] by (auto simp: crlf_def)
  then show ?case using 2 by auto
qed simp

declare decode_chunks.simps [simp del]

definition decode_chunked :: "string \<Rightarrow> (string + string option) option" where
  "decode_chunked data = decode_chunks data 0 []"

record http_head_acc =
  ha_headers :: headers
  ha_content_length :: "nat option"
  ha_chunked :: bool

text \<open>\<^verbatim>\<open>contains("chunked")\<close>.\<close>

definition text_contains :: "string \<Rightarrow> string \<Rightarrow> bool" where
  "text_contains s w \<longleftrightarrow> position_of w s \<noteq> None"

definition head_line :: "string \<Rightarrow> http_head_acc \<Rightarrow> http_head_acc" where
  "head_line line acc =
     (case split_once CHR '':'' line of
        None \<Rightarrow> acc
      | Some (k, v) \<Rightarrow>
          (let key = trim k; val = trim v;
               acc1 = (if eq_ignore_ascii_case key ''content-length''
                       then acc\<lparr>ha_content_length := parse_uint u64_max val\<rparr> else acc);
               acc2 = (if eq_ignore_ascii_case key ''transfer-encoding'' \<and>
                          text_contains (to_ascii_lowercase val) ''chunked''
                       then acc1\<lparr>ha_chunked := True\<rparr> else acc1)
           in acc2\<lparr>ha_headers := AList.update (to_ascii_lowercase key) val (ha_headers acc2)\<rparr>))"

definition ends_zero_chunk :: "string \<Rightarrow> bool" where
  "ends_zero_chunk s \<longleftrightarrow> length s \<ge> 5 \<and> ends_with s (''0'' @ crlf @ crlf)"

definition finish_http_response :: "string \<Rightarrow> string \<Rightarrow> (string + icap_outcome option) option" where
  "finish_http_response hdr body_rest =
     (let ls = split_crlf hdr; status_line = hd ls in
      case split_whitespace status_line of
        (_ # code # _) \<Rightarrow>
          (case parse_uint u16_max code of
             None \<Rightarrow> Some (Inl (''bad HTTP code in ICAP: '' @ status_line))
           | Some status \<Rightarrow>
               (let acc = fold head_line (takeWhile (\<lambda>l. l \<noteq> []) (tl ls))
                            \<lparr>ha_headers = [], ha_content_length = None, ha_chunked = False\<rparr>;
                    answer = (\<lambda>body. IcapResponse status (ha_headers acc) body)
                in if ha_chunked acc then map_option (map_sum id (map_option answer)) (decode_chunked body_rest)
                   else
                     (case ha_content_length acc of
                        Some n \<Rightarrow>
                          (if length body_rest < n then Some (Inr None)
                           else Some (Inr (Some (answer (take n body_rest)))))
                      | None \<Rightarrow>
                          (if body_rest = [] then Some (Inr (Some (answer [])))
                           else
                             (case decode_chunked body_rest of
                                Some (Inr None) \<Rightarrow>
                                  (if ends_zero_chunk body_rest then Some (Inr None)
                                   else Some (Inr (Some (answer body_rest))))
                              | r \<Rightarrow> map_option (map_sum id (map_option answer)) r)))))
      | _ \<Rightarrow> Some (Inl (''bad HTTP status in ICAP: '' @ status_line)))"

definition parse_encapsulated_http_response :: "string \<Rightarrow> (string + icap_outcome option) option" where
  "parse_encapsulated_http_response data =
     (case find_header_end data of
        None \<Rightarrow> Some (Inr None)
      | Some pos \<Rightarrow>
          (case utf8_text ''utf8'' (take pos data) of
             Inl e \<Rightarrow> Some (Inl e)
           | Inr hdr \<Rightarrow> finish_http_response hdr (drop pos data)))"

definition encapsulated_line :: "string \<Rightarrow> string \<Rightarrow> string" where
  "encapsulated_line line cur =
     (case split_once CHR '':'' line of
        Some (k, v) \<Rightarrow> (if eq_ignore_ascii_case k ''Encapsulated'' then trim v else cur)
      | None \<Rightarrow> cur)"

definition parse_after_headers :: "string \<Rightarrow> nat \<Rightarrow> (string + icap_outcome option) option" where
  "parse_after_headers buf hdr_end =
     (case utf8_text ''utf8'' (take hdr_end buf) of
        Inl e \<Rightarrow> Some (Inl e)
      | Inr headers_raw \<Rightarrow>
          (let ls = split_crlf headers_raw; status_line = hd ls in
           case split_whitespace status_line of
             (_ # code # _) \<Rightarrow>
               (case parse_uint u16_max code of
                  None \<Rightarrow> Some (Inl (''bad ICAP status code: '' @ status_line))
                | Some code \<Rightarrow>
                    (let encapsulated = fold encapsulated_line (takeWhile (\<lambda>l. l \<noteq> []) (tl ls)) [] in
                     if code = 204 then Some (Inr (Some IcapAllow))
                     else if \<not> (200 \<le> code \<and> code < 300) then Some (Inl (''ICAP error status '' @ show_nat code))
                     else if encapsulated = [] then Some (Inr (Some IcapAllow))
                     else if \<not> list_ex (\<lambda>p. starts_with (trim p) ''res-hdr'') (split_char CHR '','' encapsulated)
                     then Some (Inr (Some IcapAllow))
                     else parse_encapsulated_http_response (drop hdr_end buf)))
           | _ \<Rightarrow> Some (Inl (''bad ICAP status: '' @ status_line))))"

definition try_parse_icap_response :: "string \<Rightarrow> (string + icap_outcome option) option" where
  "try_parse_icap_response buf =
     (case find_header_end buf of None \<Rightarrow> Some (Inr None) | Some hdr_end \<Rightarrow> parse_after_headers buf hdr_end)"

subsection \<open>Exchanges\<close>

record icap_io =
  io_connect :: "string option"
  io_write :: "string option"
  io_reads :: "(string + string) list"

definition icap_timeout :: "icap_client \<Rightarrow> string" where
  "icap_timeout client = ''ICAP timeout after '' @ show_nat (as_millis (ic_timeout (ik_cfg client))) @ ''ms''"

fun read_loop :: "icap_client \<Rightarrow> (string + string) list \<Rightarrow> string \<Rightarrow> (string + icap_outcome) option" where
  "read_loop client [] buf = Some (Inl (icap_timeout client))"
| "read_loop client (Inl e # rest) buf = Some (Inl (''ICAP read: '' @ e))"
| "read_loop client (Inr piece # rest) buf =
     (if piece = [] then
        (case try_parse_icap_response buf of
           None \<Rightarrow> None
         | Some (Inl e) \<Rightarrow> Some (Inl e)
         | Some (Inr (Some o1)) \<Rightarrow> Some (Inr o1)
         | Some (Inr None) \<Rightarrow> Some (Inl ''incomplete ICAP response''))
      else if length (buf @ piece) > 16 * 2 ^ 20 then Some (Inl ''ICAP response too large'')
      else
        (case try_parse_icap_response (buf @ piece) of
           None \<Rightarrow> None
         | Some (Inl e) \<Rightarrow> Some (Inl e)
         | Some (Inr (Some o1)) \<Rightarrow> Some (Inr o1)
         | Some (Inr None) \<Rightarrow> read_loop client rest (buf @ piece)))"

text \<open>\<open>service\<close> is the ICAP service: what the network does in answer to a message.\<close>

type_synonym icap_service = "string \<Rightarrow> icap_io"

definition exchange :: "icap_service \<Rightarrow> icap_client \<Rightarrow> string \<Rightarrow> (string + icap_outcome) option" where
  "exchange service client request =
     (let io = service request in
      case io_connect io of
        Some e \<Rightarrow> Some (Inl (''ICAP connect '' @ iu_addr (ik_parsed client) @ '': '' @ e))
      | None \<Rightarrow>
          (case io_write io of
             Some e \<Rightarrow> Some (Inl (''ICAP write: '' @ e))
           | None \<Rightarrow> read_loop client (io_reads io) []))"

definition reqmod_message ::
  "(string \<Rightarrow> string + url_parts) \<Rightarrow> icap_client \<Rightarrow> string \<Rightarrow> string \<Rightarrow> headers \<Rightarrow> string \<Rightarrow> string + string" where
  "reqmod_message parse_url client meth url hs body =
     (let body = truncate_body body (ic_max_body_bytes (ik_cfg client)) in
      map_sum id (\<lambda>http_req.
        icap_head ''REQMOD'' (ik_parsed client) (encapsulated_req http_req (body = [])) @ http_req @
        (if body = [] then [] else encode_chunked body))
        (encode_http_request parse_url meth url hs body))"

definition reqmod ::
  "(string \<Rightarrow> string + url_parts) \<Rightarrow> icap_service \<Rightarrow> icap_client \<Rightarrow> string \<Rightarrow> string \<Rightarrow> headers \<Rightarrow> string \<Rightarrow>
   (string + icap_outcome) option" where
  "reqmod parse_url service client meth url hs body =
     (if \<not> ic_reqmod (ik_cfg client) then Some (Inr IcapAllow)
      else
        (case reqmod_message parse_url client meth url hs body of
           Inl e \<Rightarrow> Some (Inl e)
         | Inr msg \<Rightarrow> exchange service client msg))"

definition respmod_message ::
  "(string \<Rightarrow> string + url_parts) \<Rightarrow> icap_client \<Rightarrow> string \<Rightarrow> string \<Rightarrow> headers \<Rightarrow> nat \<Rightarrow> headers \<Rightarrow> string \<Rightarrow>
   string + string" where
  "respmod_message parse_url client meth url req_hs status hs body =
     (let body = truncate_body body (ic_max_body_bytes (ik_cfg client)) in
      map_sum id (\<lambda>http_req.
        (let http_resp_hdr = encode_http_response_headers status hs (length body);
             res_hdr_off = length http_req;
             body_off = res_hdr_off + length http_resp_hdr;
             enc = ''Encapsulated: req-hdr=0, res-hdr='' @ show_nat res_hdr_off @
                   (if body = [] then '', null-body='' else '', res-body='') @ show_nat body_off
         in icap_head ''RESPMOD'' (ik_parsed client) enc @ http_req @ http_resp_hdr @
            (if body = [] then [] else encode_chunked body)))
        (encode_http_request parse_url meth url req_hs []))"

definition respmod ::
  "(string \<Rightarrow> string + url_parts) \<Rightarrow> icap_service \<Rightarrow> icap_client \<Rightarrow> string \<Rightarrow> string \<Rightarrow> headers \<Rightarrow> nat \<Rightarrow> headers \<Rightarrow>
   string \<Rightarrow> (string + icap_outcome) option" where
  "respmod parse_url service client meth url req_hs status hs body =
     (if \<not> ic_respmod (ik_cfg client) then Some (Inr IcapAllow)
      else
        (case respmod_message parse_url client meth url req_hs status hs body of
           Inl e \<Rightarrow> Some (Inl e)
         | Inr msg \<Rightarrow> exchange service client msg))"

section \<open>Lemmas\<close>

definition hex_char :: "nat \<Rightarrow> char" where
  "hex_char k = char_of (if k < 10 then 48 + k else 87 + k)"

lemma show_hex_rec: "show_hex n = (if n < 16 then [hex_char n] else show_hex (n div 16) @ [hex_char (n mod 16)])"
  by (simp add: show_hex.simps [of n] hex_char_def Let_def)

lemma of_hex_char: "k < 16 \<Longrightarrow> of_char (hex_char k) = (if k < 10 then 48 + k else 87 + k)"
  by (simp add: hex_char_def)

lemma digit_val_hex [simp]: "k < 16 \<Longrightarrow> digit_val (hex_char k) = k"
  by (auto simp: digit_val_def of_hex_char Let_def)

lemma hex_digits_append:
  "hex_digits acc (s @ t) = (case hex_digits acc s of None \<Rightarrow> None | Some v \<Rightarrow> hex_digits v t)"
  by (induction s arbitrary: acc) (auto simp: Let_def)

lemma hex_digits_show: "n \<le> u64_max \<Longrightarrow> hex_digits 0 (show_hex n) = Some n"
proof (induction n rule: show_hex.induct)
  case (1 n)
  show ?case
  proof (cases "n < 16")
    case False
    with 1 have "hex_digits 0 (show_hex (n div 16)) = Some (n div 16)" by simp
    moreover have "n div 16 * 16 + n mod 16 = n" by simp
    ultimately show ?thesis using False "1.prems" by (simp add: show_hex_rec [of n] hex_digits_append Let_def)
  qed (use "1.prems" in \<open>simp add: show_hex_rec [of n]\<close>)
qed

lemma show_hex_chars: "c \<in> set (show_hex n) \<Longrightarrow> \<exists>k < 16. c = hex_char k"
proof (induction n rule: show_hex.induct)
  case (1 n)
  show ?case
  proof (cases "n < 16")
    case False
    with "1.prems" have "c \<in> set (show_hex (n div 16)) \<or> c = hex_char (n mod 16)" by (auto simp: show_hex_rec [of n])
    moreover have "n mod 16 < 16" by simp
    ultimately show ?thesis using "1.IH" [OF _ False] by blast
  qed (use "1.prems" in \<open>auto simp: show_hex_rec [of n]\<close>)
qed

lemma show_hex_nonempty: "show_hex n \<noteq> []"
  by (simp add: show_hex_rec [of n])

lemma show_hex_length: "length (show_hex n) \<le> n + 1"
proof (induction n rule: show_hex.induct)
  case (1 n)
  then show ?case by (cases "n < 16") (auto simp: show_hex_rec [of n])
qed

lemma show_hex_plain: "c \<in> set (show_hex n) \<Longrightarrow> 48 \<le> (of_char c :: nat) \<and> (of_char c :: nat) < 103"
  using show_hex_chars by (fastforce simp: of_hex_char)

lemma parse_show_hex: "n \<le> u64_max \<Longrightarrow> parse_hex (show_hex n) = Some n"
proof -
  assume n: "n \<le> u64_max"
  obtain c cs where hex: "show_hex n = c # cs" using show_hex_nonempty by (cases "show_hex n") auto
  then have "c \<noteq> CHR ''+''" using show_hex_plain [of c n] by auto
  with hex hex_digits_show [OF n] show ?thesis by (simp add: parse_hex_def)
qed

lemma trim_show_hex: "trim (show_hex n) = show_hex n"
proof (rule trim_id)
  have "list_all (\<lambda>c. (of_char c :: nat) < 48 \<or> 102 < (of_char c :: nat)) (concat white_space)" by code_simp
  then have "\<not> (48 \<le> (of_char c :: nat) \<and> (of_char c :: nat) < 103)" if "c \<in> set (concat white_space)" for c
    using that unfolding list_all_iff by fastforce
  then show "set (show_hex n) \<inter> set (concat white_space) = {}" using show_hex_plain by blast
qed

lemma utf8_text_ascii: "\<forall>c \<in> set s. (of_char c :: nat) < 128 \<Longrightarrow> utf8_text label s = Inr s"
proof -
  assume "\<forall>c \<in> set s. (of_char c :: nat) < 128"
  then have "\<forall>b \<in> set (char_bytes s). unat b < 128" by (auto simp: char_bytes_def unat_of_nat)
  from from_utf8_ascii [OF this] show ?thesis by (simp add: utf8_text_def)
qed

lemma position_of_crlf: "CHR 0x0D \<notin> set l \<Longrightarrow> position_of crlf (l @ crlf @ r) = Some (length l)"
  by (induction l) (auto simp: crlf_def starts_with_def)

lemma decode_last_chunk:
  assumes "drop i data = ''0'' @ crlf @ r"
  shows "decode_chunks data i out = Some (Inr (Some out))"
proof -
  have "position_of crlf (drop i data) = Some 1" using position_of_crlf [of "''0''" r] assms by simp
  moreover have "take 1 (drop i data) = ''0''" using assms by simp
  moreover have "utf8_text ''chunk'' ''0'' = Inr ''0''" by (rule utf8_text_ascii) simp
  moreover have "parse_hex (trim ''0'') = Some 0" by code_simp
  ultimately show ?thesis by (simp add: decode_chunks.simps [of data i])
qed

lemma decode_one_chunk:
  assumes data: "drop i data = show_hex n @ crlf @ chunk @ crlf @ r" "i \<le> length data"
    and n: "length chunk = n" "0 < n" "length data < 2 ^ 63"
  shows "decode_chunks data i out = decode_chunks data (i + length (show_hex n) + n + 4) (out @ chunk)"
proof -
  let ?h = "length (show_hex n)"
  have len: "length data = i + (?h + n + 4 + length r)"
    using arg_cong [OF data(1), of length] data(2) n(1) by (simp add: crlf_def)
  have "CHR 0x0D \<notin> set (show_hex n)" using show_hex_plain [of "CHR 0x0D" n] by auto
  from position_of_crlf [OF this, of "chunk @ crlf @ r"]
  have "position_of crlf (drop i data) = Some ?h" by (simp add: data(1))
  moreover have "utf8_text ''chunk'' (take ?h (drop i data)) = Inr (show_hex n)"
    using utf8_text_ascii [of "show_hex n"] show_hex_plain by (fastforce simp: data(1))
  moreover have "parse_hex (trim (show_hex n)) = Some n"
    using parse_show_hex [of n] len n(3) by (simp add: trim_show_hex u64_max_def)
  moreover have "take n (drop (i + ?h + 2) data) = chunk"
  proof -
    have "drop (?h + 2) (drop i data) = chunk @ crlf @ r" unfolding data(1) by (simp add: crlf_def)
    then have "drop (i + ?h + 2) data = chunk @ crlf @ r" by (simp add: add.assoc add.commute)
    with n(1) show ?thesis by simp
  qed
  ultimately show ?thesis
    using len n by (simp add: decode_chunks.simps [of data i] Let_def del: add_2_eq_Suc add_2_eq_Suc')
      (simp only: ac_simps)
qed

lemma decode_encoded:
  assumes "length body < 2 ^ 61"
  shows "decode_chunked (encode_chunked body) = Some (Inr (Some body))"
proof -
  let ?d = "encode_chunked body" and ?n = "length body"
  show ?thesis
  proof (cases "body = []")
    case True
    have "show_hex 0 = ''0''" by code_simp
    with True have "drop 0 ?d = ''0'' @ crlf @ crlf @ ''0'' @ crlf @ crlf" by (simp add: encode_chunked_def)
    from decode_last_chunk [OF this] True show ?thesis by (simp add: decode_chunked_def)
  next
    case False
    have "length ?d < 2 ^ 63" using assms show_hex_length [of ?n] by (simp add: encode_chunked_def crlf_def)
    then have "decode_chunked ?d = decode_chunks ?d (length (show_hex ?n) + ?n + 4) body"
      using decode_one_chunk [of 0 ?d ?n body "''0'' @ crlf @ crlf" "[]"] False
      by (simp add: decode_chunked_def encode_chunked_def)
    moreover have "drop (length (show_hex ?n) + ?n + 4) ?d = ''0'' @ crlf @ crlf"
    proof -
      let ?p = "show_hex ?n @ crlf @ body @ crlf"
      have "?d = ?p @ ''0'' @ crlf @ crlf" by (simp add: encode_chunked_def)
      then have "drop (length ?p) ?d = ''0'' @ crlf @ crlf" by (metis append_eq_conv_conj)
      moreover have "length ?p = length (show_hex ?n) + ?n + 4" by (simp add: crlf_def)
      ultimately show ?thesis by (simp only:)
    qed
    ultimately show ?thesis using decode_last_chunk by simp
  qed
qed

text \<open>An answer that blocks a request: the head of the ICAP message and the HTTP head in it.\<close>

definition block_icap_head :: string where
  "block_icap_head = ''ICAP/1.0 200 OK'' @ crlf @ ''Encapsulated: res-hdr=0, res-body=26'' @ crlf @ crlf"

definition block_http_head :: string where
  "block_http_head = ''HTTP/1.1 403 Forbidden'' @ crlf @ crlf"

definition replies :: "(string + string) list \<Rightarrow> icap_service" where
  "replies pieces = (\<lambda>_. \<lparr>io_connect = None, io_write = None, io_reads = pieces\<rparr>)"

lemma position_of_append: "position_of w s = Some n \<Longrightarrow> position_of w (s @ r) = Some n"
proof (induction s arbitrary: n)
  case Nil
  then show ?case by (cases r) (auto simp: starts_with_def split: if_splits)
next
  case (Cons c s)
  show ?case
  proof (cases "prefix w (c # s)")
    case True
    with Cons.prems have "n = 0" by (simp add: starts_with_def)
    moreover have "prefix w (c # s @ r)" using True by (metis append_Cons prefix_prefix)
    ultimately show ?thesis by (simp add: starts_with_def)
  next
    case False
    with Cons.prems obtain k where k: "n = Suc k" "position_of w s = Some k" by (auto simp: starts_with_def)
    have "\<not> prefix w ((c # s) @ r)"
      using False position_of_less [OF k(2)] unfolding prefix_append by auto
    with k Cons.IH [OF k(2)] show ?thesis by (simp add: starts_with_def)
  qed
qed

lemma find_header_end_append: "find_header_end h = Some (length h) \<Longrightarrow> find_header_end (h @ r) = Some (length h)"
  by (auto simp: find_header_end_def dest: position_of_append)

lemma block_head_parse:
  "try_parse_icap_response (block_icap_head @ block_http_head @ r) = finish_http_response block_http_head r"
proof -
  let ?h = block_icap_head and ?g = block_http_head
  have "find_header_end ?h = Some (length ?h)" "find_header_end ?g = Some (length ?g)" by code_simp+
  note find = this [THEN find_header_end_append]
  have utf8: "utf8_text ''utf8'' ?h = Inr ?h" "utf8_text ''utf8'' ?g = Inr ?g" by code_simp+
  have "split_whitespace (hd (split_crlf ?h)) = [''ICAP/1.0'', ''200'', ''OK'']" by code_simp
  moreover have "parse_uint u16_max ''200'' = Some 200" by code_simp
  moreover have "fold encapsulated_line (takeWhile (\<lambda>l. l \<noteq> []) (tl (split_crlf ?h))) [] = ''res-hdr=0, res-body=26''"
    by code_simp
  moreover have "list_ex (\<lambda>p. starts_with (trim p) ''res-hdr'') (split_char CHR '','' ''res-hdr=0, res-body=26'')" by code_simp
  ultimately have "parse_after_headers (?h @ ?g @ r) (length ?h) = parse_encapsulated_http_response (?g @ r)"
    using utf8(1) by (simp add: parse_after_headers_def Let_def)
  then show ?thesis
    using find utf8(2) by (simp add: try_parse_icap_response_def parse_encapsulated_http_response_def)
qed

lemma block_finish:
  "finish_http_response block_http_head [] = Some (Inr (Some (IcapResponse 403 [] [])))"
  "decode_chunked r = Some (Inr (Some body)) \<Longrightarrow> r \<noteq> [] \<Longrightarrow>
     finish_http_response block_http_head r = Some (Inr (Some (IcapResponse 403 [] body)))"
proof -
  have "split_whitespace (hd (split_crlf block_http_head)) = [''HTTP/1.1'', ''403'', ''Forbidden'']" by code_simp
  moreover have "parse_uint u16_max ''403'' = Some 403" by code_simp
  moreover have "takeWhile (\<lambda>l. l \<noteq> []) (tl (split_crlf block_http_head)) = []" by code_simp
  ultimately show
    "finish_http_response block_http_head [] = Some (Inr (Some (IcapResponse 403 [] [])))"
    "decode_chunked r = Some (Inr (Some body)) \<Longrightarrow> r \<noteq> [] \<Longrightarrow>
       finish_http_response block_http_head r = Some (Inr (Some (IcapResponse 403 [] body)))"
    by (simp_all add: finish_http_response_def Let_def)
qed

section \<open>Properties\<close>

text \<open>Chunked bodies survive the trip: decoding what the client's own chunk encoder writes gives the
  body back, for every body that fits in memory.\<close>

theorem chunked_roundtrip:
  assumes "length body < 2 ^ 61"
  shows "decode_chunked (encode_chunked body) = Some (Inr (Some body))"
  using assms by (rule decode_encoded)

text \<open>A service can crash the task that talks to it: a chunk size of all ones followed by any byte
  wraps the bounds check around and makes the slice panic, so that the exchange yields neither
  an outcome nor an error and the choice between failing open and closed is never made.\<close>

theorem chunk_size_overflow_panics:
  assumes "rest \<noteq> []"
  shows "decode_chunked (replicate 16 CHR ''f'' @ crlf @ rest) = None"
proof -
  let ?l = "replicate 16 CHR ''f''" and ?d = "replicate 16 CHR ''f'' @ crlf @ rest"
  have "CHR 0x0D \<notin> set ?l" by simp
  from position_of_crlf [OF this, of rest] have "position_of crlf (drop 0 ?d) = Some 16" by simp
  moreover have "utf8_text ''chunk'' (take 16 (drop 0 ?d)) = Inr ?l" using utf8_text_ascii [of ?l] by simp
  moreover have "parse_hex (trim ?l) = Some (2 ^ 64 - 1)" by code_simp
  moreover have "19 \<le> length ?d" using assms by (cases rest) (simp_all add: crlf_def)
  ultimately show ?thesis by (simp add: decode_chunked_def decode_chunks.simps [of ?d 0] Let_def)
qed

text \<open>What the client receives depends on how the network cuts the answer into pieces: a blocking
  answer whose HTTP head names no length is delivered with its body when it arrives in one
  piece, and with an empty body when the body arrives in a second piece.\<close>

theorem icap_answer_depends_on_pieces:
  assumes "length body \<le> 4000000"
  shows "exchange (replies [Inr (block_icap_head @ block_http_head @ encode_chunked body)]) client msg =
           Some (Inr (IcapResponse 403 [] body)) \<and>
         exchange (replies [Inr (block_icap_head @ block_http_head), Inr (encode_chunked body)]) client msg =
           Some (Inr (IcapResponse 403 [] []))"
proof -
  have r: "encode_chunked body \<noteq> []" by (simp add: encode_chunked_def crlf_def)
  have decode: "decode_chunked (encode_chunked body) = Some (Inr (Some body))"
    using assms by (intro decode_encoded) simp
  have "length (block_icap_head @ block_http_head) \<le> 200" by code_simp
  then have len: "length (block_icap_head @ block_http_head @ encode_chunked body) \<le> 16 * 2 ^ 20"
    using assms show_hex_length [of "length body"] by (simp add: encode_chunked_def crlf_def)
  have ne: "block_icap_head \<noteq> []" by code_simp
  have parse: "try_parse_icap_response (block_icap_head @ block_http_head @ encode_chunked body) =
      Some (Inr (Some (IcapResponse 403 [] body)))"
    "try_parse_icap_response (block_icap_head @ block_http_head) = Some (Inr (Some (IcapResponse 403 [] [])))"
    using block_head_parse [of "encode_chunked body"] block_head_parse [of "[]"] block_finish(1) block_finish(2) [OF decode r]
    by simp_all
  show ?thesis using len ne parse by (simp add: exchange_def replies_def Let_def)
qed

section \<open>Witnesses\<close>

theorem chunked_roundtrip_witness:
  "encode_chunked ''hello'' = ''5'' @ crlf @ ''hello'' @ crlf @ ''0'' @ crlf @ crlf \<and>
   decode_chunked (encode_chunked ''hello'') = Some (Inr (Some ''hello''))"
proof -
  have "encode_chunked ''hello'' = ''5'' @ crlf @ ''hello'' @ crlf @ ''0'' @ crlf @ crlf" by code_simp
  then show ?thesis using chunked_roundtrip [of "''hello''"] by simp
qed

theorem chunk_size_overflow_panics_witness:
  "decode_chunked (replicate 16 CHR ''f'' @ crlf @ ''x'') = None"
  using chunk_size_overflow_panics [of "''x''"] by simp

definition demo_icap :: icap_client where
  "demo_icap =
     \<lparr>ik_cfg = icap_config_from_env (\<lambda>_. None),
      ik_parsed = \<lparr>iu_host = ''av'', iu_port = 1344, iu_service_path = ''/'', iu_addr = ''10.0.0.9'', iu_is_tls = False\<rparr>\<rparr>"

theorem icap_answer_depends_on_pieces_witness:
  "exchange (replies [Inr (block_icap_head @ block_http_head @ encode_chunked ''no'')]) demo_icap [] \<noteq>
   exchange (replies [Inr (block_icap_head @ block_http_head), Inr (encode_chunked ''no'')]) demo_icap []"
  using icap_answer_depends_on_pieces [of "''no''" demo_icap "[]"] by simp

end
