(* ===== verification/Semantic_Cache.thy ===== *)
theory Semantic_Cache
  imports Cache_Freshness
begin

text \<open>
  The cache for answers of language models (\<^verbatim>\<open>proxy/src/semantic_cache.rs\<close>): which requests it serves,
  the key made from the body, the embedding of a prompt and the index of similar prompts.

  Parameters: \<open>json_lib\<close> for the serde\_json crate, \<open>sha\<close> for SHA-256, \<open>tokens\<close> for splitting a
  text at characters that are not alphanumeric by Unicode, \<open>http_embed\<close> and \<open>qdrant\<close> for the
  answers of the embedding service and of the vector database. An \<^verbatim>\<open>f32\<close> is a real number.
\<close>

section \<open>Definitions\<close>

subsection \<open>Configuration\<close>

datatype vector_backend_kind = LocalVectors | QdrantVectors

datatype embed_provider_kind = LocalEmbed | HttpEmbed

record semantic_cache_config =
  sm_enabled :: bool
  sm_path_prefixes :: "string list"
  sm_ttl :: duration
  sm_similarity_threshold :: real
  sm_embed_dims :: nat
  sm_max_index_entries :: nat
  sm_vector_backend :: vector_backend_kind
  sm_vector_url :: "string option"
  sm_vector_collection :: string
  sm_vector_api_key :: "string option"
  sm_embed_provider :: embed_provider_kind
  sm_embed_url :: "string option"

definition default_prefixes :: "string list" where
  "default_prefixes = [''/v1/chat/completions'', ''/v1/completions'', ''/chat/completions'']"

definition semantic_default :: semantic_cache_config where
  "semantic_default =
     \<lparr>sm_enabled = False, sm_path_prefixes = default_prefixes, sm_ttl = from_secs 3600,
      sm_similarity_threshold = 1, sm_embed_dims = 64, sm_max_index_entries = 10000,
      sm_vector_backend = LocalVectors, sm_vector_url = None, sm_vector_collection = ''bsdm_semantic'',
      sm_vector_api_key = None, sm_embed_provider = LocalEmbed, sm_embed_url = None\<rparr>"

definition env_opt :: "(string \<Rightarrow> string option) \<Rightarrow> string \<Rightarrow> string option" where
  "env_opt env name =
     (case env name of Some s \<Rightarrow> (if trim s = [] then None else Some (trim s)) | None \<Rightarrow> None)"

definition path_prefixes_of :: "string \<Rightarrow> string list" where
  "path_prefixes_of s =
     map (\<lambda>p. if starts_with p ''/'' then p else ''/'' @ p)
       (filter (\<lambda>p. p \<noteq> []) (map trim (split_char CHR '','' s)))"

definition semantic_from_env ::
  "(string \<Rightarrow> real option) \<Rightarrow> (string \<Rightarrow> string option) \<Rightarrow> semantic_cache_config" where
  "semantic_from_env parse_f32 env =
     \<lparr>sm_enabled = env_flag [''1'', ''true'', ''yes''] env ''SEMANTIC_CACHE_ENABLED'',
      sm_path_prefixes =
        (case env ''SEMANTIC_CACHE_PATH_PREFIXES'' of
           Some s \<Rightarrow> (if path_prefixes_of s = [] then default_prefixes else path_prefixes_of s)
         | None \<Rightarrow> default_prefixes),
      sm_ttl = from_secs (max (env_uint env u64_max ''SEMANTIC_CACHE_TTL_SECONDS'' 3600) 1),
      sm_similarity_threshold = max 0 (min 1 (env_f64 parse_f32 env ''SEMANTIC_CACHE_SIMILARITY'' 1)),
      sm_embed_dims = max 8 (min 512 (env_uint env u64_max ''SEMANTIC_CACHE_EMBED_DIMS'' 64)),
      sm_max_index_entries = max (env_uint env u64_max ''SEMANTIC_CACHE_MAX_INDEX'' 10000) 1,
      sm_vector_backend =
        (if to_ascii_lowercase (env_or env ''SEMANTIC_VECTOR_BACKEND'' ''local'') = ''qdrant''
         then QdrantVectors else LocalVectors),
      sm_vector_url = env_opt env ''SEMANTIC_VECTOR_URL'',
      sm_vector_collection =
        (case env_opt env ''SEMANTIC_VECTOR_COLLECTION'' of Some c \<Rightarrow> c | None \<Rightarrow> ''bsdm_semantic''),
      sm_vector_api_key = env_opt env ''SEMANTIC_VECTOR_API_KEY'',
      sm_embed_provider =
        (if to_ascii_lowercase (env_or env ''SEMANTIC_EMBED_PROVIDER'' ''local'') = ''http''
         then HttpEmbed else LocalEmbed),
      sm_embed_url = env_opt env ''SEMANTIC_EMBED_URL''\<rparr>"

text \<open>\<^verbatim>\<open>find('/')\<close> and what follows, and the part before a question mark.\<close>

definition before_query :: "string \<Rightarrow> string" where
  "before_query s = takeWhile (\<lambda>c. c \<noteq> CHR ''?'') s"

definition url_path :: "string \<Rightarrow> string" where
  "url_path url =
     (case (strip_prefix url ''http://'', strip_prefix url ''https://'') of
        (None, None) \<Rightarrow> before_query url
      | (a, b) \<Rightarrow>
          (let rest = (case a of Some r \<Rightarrow> r | None \<Rightarrow> (case b of Some r \<Rightarrow> r | None \<Rightarrow> url));
               path = dropWhile (\<lambda>c. c \<noteq> CHR ''/'') rest
           in before_query (if path = [] then ''/'' else path)))"

definition path_matches :: "string \<Rightarrow> string list \<Rightarrow> bool" where
  "path_matches url ps \<longleftrightarrow>
     list_ex (\<lambda>p. url_path url = p \<or> starts_with (url_path url) (p @ ''/'')) ps"

definition applies :: "semantic_cache_config \<Rightarrow> string \<Rightarrow> string \<Rightarrow> bool" where
  "applies cfg meth url \<longleftrightarrow>
     sm_enabled cfg \<and> eq_ignore_ascii_case meth ''POST'' \<and> path_matches url (sm_path_prefixes cfg)"

definition near_hit_enabled :: "semantic_cache_config \<Rightarrow> bool" where
  "near_hit_enabled cfg \<longleftrightarrow> sm_similarity_threshold cfg < 1"

subsection \<open>Keys\<close>

datatype json = JString string | JArray "json list" | JObject "(string \<times> json) list" | JOther string

record json_lib =
  json_parse :: "string \<Rightarrow> json option"
  json_print :: "json \<Rightarrow> string"

definition json_get :: "string \<Rightarrow> json \<Rightarrow> json option" where
  "json_get k v = (case v of JObject fs \<Rightarrow> map_of fs k | _ \<Rightarrow> None)"

definition normalize_llm_body :: "json_lib \<Rightarrow> string \<Rightarrow> string" where
  "normalize_llm_body lib body =
     (case json_parse lib body of
        Some (JObject fs) \<Rightarrow>
          (let model = (case map_of fs ''model'' of Some m \<Rightarrow> [(''model'', m)] | None \<Rightarrow> []) in
           case map_of fs ''messages'' of
             Some messages \<Rightarrow> json_print lib (JObject (model @ [(''messages'', messages)]))
           | None \<Rightarrow>
               (case map_of fs ''prompt'' of
                  Some prompt \<Rightarrow> json_print lib (JObject (model @ [(''prompt'', prompt)]))
                | None \<Rightarrow> body))
      | _ \<Rightarrow> body)"

definition content_cache_key :: "(string \<Rightarrow> string) \<Rightarrow> string \<Rightarrow> string \<Rightarrow> string \<Rightarrow> string" where
  "content_cache_key sha_hex meth url normalized_body = sha_hex (meth @ '':'' @ url @ '':'' @ normalized_body)"

definition json_text :: "json_lib \<Rightarrow> json \<Rightarrow> string" where
  "json_text lib v = (case v of JString s \<Rightarrow> s | other \<Rightarrow> json_print lib other)"

definition extract_embed_text :: "json_lib \<Rightarrow> (string \<Rightarrow> string) \<Rightarrow> string \<Rightarrow> string" where
  "extract_embed_text lib lossy body =
     (case json_parse lib body of
        None \<Rightarrow> lossy body
      | Some value \<Rightarrow>
          (let model = (case json_get ''model'' value of Some (JString s) \<Rightarrow> [s] | _ \<Rightarrow> []);
               parts = model @
                 (case json_get ''messages'' value of
                    Some (JArray messages) \<Rightarrow>
                      map (json_text lib) (List.map_filter (json_get ''content'') messages)
                  | _ \<Rightarrow> (case json_get ''prompt'' value of Some p \<Rightarrow> [json_text lib p] | None \<Rightarrow> []))
           in if parts = [] then lossy body else join [CHR 0x0A] parts))"

subsection \<open>Embeddings\<close>

definition vec_norm :: "real list \<Rightarrow> real" where
  "vec_norm v = sqrt (sum_list (map (\<lambda>x. x * x) v))"

definition token_slot :: "(string \<Rightarrow> nat list) \<Rightarrow> nat \<Rightarrow> string \<Rightarrow> nat \<times> real" where
  "token_slot sha dims token =
     (let digest = sha (to_ascii_lowercase token) in
      ((digest ! 0 + digest ! 1 * 2 ^ 8 + digest ! 2 * 2 ^ 16 + digest ! 3 * 2 ^ 24) mod dims,
       if even (digest ! 4) then 1 else -1))"

definition hash_embed :: "(string \<Rightarrow> nat list) \<Rightarrow> (string \<Rightarrow> string list) \<Rightarrow> string \<Rightarrow> nat \<Rightarrow> real list" where
  "hash_embed sha tokens text dims =
     (let dims = max dims 1;
          vec = foldl (\<lambda>v t. case token_slot sha dims t of (i, s) \<Rightarrow> v[i := v ! i + s])
                  (replicate dims 0) (tokens text);
          norm = vec_norm vec
      in if norm > 0 then map (\<lambda>x. x / norm) vec else vec)"

definition cosine_similarity :: "real list \<Rightarrow> real list \<Rightarrow> real" where
  "cosine_similarity a b =
     (if length a \<noteq> length b \<or> a = [] then 0
      else max (-1) (min 1 (sum_list (map2 (*) a b))))"

definition embed ::
  "(string \<Rightarrow> nat list) \<Rightarrow> (string \<Rightarrow> string list) \<Rightarrow> (string \<Rightarrow> string \<Rightarrow> string + real list) \<Rightarrow>
   semantic_cache_config \<Rightarrow> string \<Rightarrow> string + real list" where
  "embed sha tokens http_embed cfg text =
     (case sm_embed_provider cfg of
        LocalEmbed \<Rightarrow> Inr (hash_embed sha tokens text (sm_embed_dims cfg))
      | HttpEmbed \<Rightarrow>
          (case sm_embed_url cfg of
             None \<Rightarrow> Inl ''SEMANTIC_EMBED_URL required for http embed provider''
           | Some url \<Rightarrow>
               (case http_embed url text of
                  Inl e \<Rightarrow> Inl e
                | Inr out \<Rightarrow>
                    (if length out \<noteq> sm_embed_dims cfg
                     then Inl (''embed dims mismatch: got '' @ show_nat (length out) @ '' want '' @ show_nat (sm_embed_dims cfg))
                     else Inr out))))"

subsection \<open>Index\<close>

record index_entry =
  ie_embedding :: "real list"
  ie_cache_key :: string

record local_index =
  li_inner :: "index_entry list"
  li_max_entries :: nat

definition local_new :: "nat \<Rightarrow> local_index" where
  "local_new max_entries = \<lparr>li_inner = [], li_max_entries = max max_entries 1\<rparr>"

text \<open>\<^verbatim>\<open>while len > max { pop_front }\<close>.\<close>

fun pop_front_while :: "nat \<Rightarrow> 'a list \<Rightarrow> 'a list" where
  "pop_front_while mx [] = []"
| "pop_front_while mx (x # xs) = (if length (x # xs) > mx then pop_front_while mx xs else x # xs)"

definition local_insert :: "real list \<Rightarrow> string \<Rightarrow> local_index \<Rightarrow> local_index" where
  "local_insert embedding cache_key ix =
     ix\<lparr>li_inner := pop_front_while (li_max_entries ix)
          (filter (\<lambda>e. ie_cache_key e \<noteq> cache_key) (li_inner ix) @
           [\<lparr>ie_embedding = embedding, ie_cache_key = cache_key\<rparr>])\<rparr>"

fun best_similar :: "real list \<Rightarrow> real \<Rightarrow> index_entry list \<Rightarrow> (real \<times> string) option \<Rightarrow> (real \<times> string) option" where
  "best_similar emb threshold [] best = best"
| "best_similar emb threshold (e # es) best =
     (let s = cosine_similarity emb (ie_embedding e) in
      best_similar emb threshold es
        (if s \<ge> threshold \<and> (case best of Some (b, _) \<Rightarrow> s > b | None \<Rightarrow> True)
         then Some (s, ie_cache_key e) else best))"

definition local_find_similar :: "real list \<Rightarrow> real \<Rightarrow> local_index \<Rightarrow> string option" where
  "local_find_similar emb threshold ix = map_option snd (best_similar emb threshold (li_inner ix) None)"

text \<open>\<open>qdrant\<close> stands for the database's answer to a search or an upsert.\<close>

datatype semantic_index = LocalIx local_index | QdrantIx

definition semantic_from_config :: "semantic_cache_config \<Rightarrow> semantic_index" where
  "semantic_from_config cfg =
     (case sm_vector_backend cfg of
        LocalVectors \<Rightarrow> LocalIx (local_new (sm_max_index_entries cfg))
      | QdrantVectors \<Rightarrow>
          (case sm_vector_url cfg of
             Some _ \<Rightarrow> QdrantIx
           | None \<Rightarrow> LocalIx (local_new (sm_max_index_entries cfg))))"

definition semantic_insert :: "string option \<Rightarrow> real list \<Rightarrow> string \<Rightarrow> semantic_index \<Rightarrow> string option \<times> semantic_index" where
  "semantic_insert qdrant emb key ix =
     (case ix of
        LocalIx l \<Rightarrow> (None, LocalIx (local_insert emb key l))
      | QdrantIx \<Rightarrow> (qdrant, ix))"

definition find_similar ::
  "(real list \<Rightarrow> real \<Rightarrow> string + string option) \<Rightarrow> real list \<Rightarrow> real \<Rightarrow> semantic_index \<Rightarrow> string + string option" where
  "find_similar qdrant emb threshold ix =
     (case ix of LocalIx l \<Rightarrow> Inr (local_find_similar emb threshold l) | QdrantIx \<Rightarrow> qdrant emb threshold)"

definition evaluate_llm_store :: "nat \<Rightarrow> nat \<Rightarrow> nat \<Rightarrow> duration \<Rightarrow> cache_store_decision" where
  "evaluate_llm_store status body_size max_body_size ttl =
     (if status \<noteq> 200 \<or> body_size = 0 \<or> body_size > max_body_size then decision_bypass
      else \<lparr>sd_store = True, sd_ttl = ttl, sd_is_negative = False, sd_must_revalidate = False,
            sd_etag = None, sd_last_modified = None\<rparr>)"

section \<open>Lemmas\<close>

lemma pop_front_while_drop: "pop_front_while mx xs = drop (length xs - mx) xs"
  by (induction mx xs rule: pop_front_while.induct) (auto simp: Suc_diff_le)

lemma best_similar_spec:
  "best_similar emb th es best = r \<Longrightarrow>
     (case best of Some (b, _) \<Rightarrow> b \<ge> th | None \<Rightarrow> True) \<Longrightarrow>
     (case r of
        None \<Rightarrow> best = None \<and> (\<forall>e \<in> set es. cosine_similarity emb (ie_embedding e) < th)
      | Some (s, k) \<Rightarrow>
          s \<ge> th \<and>
          (best = Some (s, k) \<or> (\<exists>e \<in> set es. ie_cache_key e = k \<and> cosine_similarity emb (ie_embedding e) = s)) \<and>
          (\<forall>e \<in> set es. cosine_similarity emb (ie_embedding e) \<le> s \<or> cosine_similarity emb (ie_embedding e) < th) \<and>
          (case best of Some (b, _) \<Rightarrow> b \<le> s | None \<Rightarrow> True))"
proof (induction es arbitrary: best r)
  case Nil
  then show ?case by (auto split: option.splits)
next
  case (Cons e es)
  let ?s = "cosine_similarity emb (ie_embedding e)"
  let ?b = "if ?s \<ge> th \<and> (case best of Some (b, _) \<Rightarrow> ?s > b | None \<Rightarrow> True) then Some (?s, ie_cache_key e) else best"
  have "best_similar emb th es ?b = r" using Cons.prems(1) by (simp add: Let_def)
  moreover have "case ?b of Some (b, _) \<Rightarrow> b \<ge> th | None \<Rightarrow> True"
    using Cons.prems(2) by (auto split: option.splits if_splits)
  ultimately have ih: "case r of
      None \<Rightarrow> ?b = None \<and> (\<forall>e \<in> set es. cosine_similarity emb (ie_embedding e) < th)
    | Some (s, k) \<Rightarrow>
        s \<ge> th \<and>
        (?b = Some (s, k) \<or> (\<exists>e \<in> set es. ie_cache_key e = k \<and> cosine_similarity emb (ie_embedding e) = s)) \<and>
        (\<forall>e \<in> set es. cosine_similarity emb (ie_embedding e) \<le> s \<or> cosine_similarity emb (ie_embedding e) < th) \<and>
        (case ?b of Some (b, _) \<Rightarrow> b \<le> s | None \<Rightarrow> True)"
    by (rule Cons.IH)
  show ?case
  proof (cases "?s \<ge> th \<and> (case best of Some (b, _) \<Rightarrow> ?s > b | None \<Rightarrow> True)")
    case True
    then have b: "?b = Some (?s, ie_cache_key e)" by (rule if_P)
    from ih True show ?thesis unfolding b by (auto split: option.splits)
  next
    case False
    then have b: "?b = best" by (rule if_not_P)
    from ih False show ?thesis unfolding b by (auto split: option.splits)
  qed
qed

lemma self_product: "sum_list (map2 (*) v v) = sum_list (map (\<lambda>x. x * x) (v :: real list))"
  by (induction v) auto

lemma sum_squares_scale:
  "sum_list (map (\<lambda>x. x * x) (map (\<lambda>x. x / c) v)) = sum_list (map (\<lambda>x. x * x) v) / (c * c)" for c :: real
  by (induction v) (auto simp: add_divide_distrib)

lemma sum_squares_nonneg: "sum_list (map (\<lambda>x. x * x) (v :: real list)) \<ge> 0"
  by (induction v) auto

lemma length_token_fold: "length (foldl (\<lambda>v t. case token_slot sha d t of (i, s) \<Rightarrow> v[i := v ! i + s]) v ts) = length v"
  by (induction ts arbitrary: v) (auto split: prod.splits)

lemma self_similar:
  assumes "\<exists>x \<in> set (hash_embed sha tokens text dims). x \<noteq> 0"
  shows "cosine_similarity (hash_embed sha tokens text dims) (hash_embed sha tokens text dims) = 1"
proof -
  let ?d = "max dims 1"
  define v where "v = foldl (\<lambda>v t. case token_slot sha ?d t of (i, s) \<Rightarrow> v[i := v ! i + s]) (replicate ?d 0) (tokens text)"
  let ?S = "sum_list (map (\<lambda>x. x * x) v)"
  have h: "hash_embed sha tokens text dims = (if vec_norm v > 0 then map (\<lambda>x. x / vec_norm v) v else v)"
    by (simp add: hash_embed_def v_def Let_def)
  have "?S \<noteq> 0"
  proof
    assume "?S = 0"
    then have "\<forall>x \<in> set v. x * x = 0" by (subst (asm) sum_list_nonneg_eq_0_iff) auto
    with assms h show False by (auto split: if_splits)
  qed
  then have pos: "vec_norm v > 0" "vec_norm v * vec_norm v = ?S"
    using sum_squares_nonneg [of v] by (auto simp: vec_norm_def)
  have "v \<noteq> []" using \<open>?S \<noteq> 0\<close> by auto
  with pos \<open>?S \<noteq> 0\<close> show ?thesis
    by (simp add: h cosine_similarity_def self_product sum_squares_scale del: map_map)
qed

section \<open>Properties\<close>

text \<open>The key of a model's answer keeps only the model and the messages: two requests to one address
  that agree on these fs share a cached answer, whatever else they ask for, a stream instead
  of a single document, another temperature, other tools, another user.\<close>

theorem llm_key_ignores_parameters:
  assumes "json_parse lib a = Some (JObject fs)" "json_parse lib b = Some (JObject gs)"
    "map_of fs ''model'' = map_of gs ''model''" "map_of fs ''messages'' = map_of gs ''messages''"
    "map_of fs ''messages'' \<noteq> None"
  shows "content_cache_key sha_hex meth url (normalize_llm_body lib a) =
         content_cache_key sha_hex meth url (normalize_llm_body lib b)"
  using assms by (auto simp: normalize_llm_body_def Let_def)

text \<open>The look-up by similarity returns the best match: a key is returned exactly if some indexed
  prompt reaches the threshold, and then it is the key of a prompt that no indexed prompt
  surpasses.\<close>

theorem local_find_similar_best:
  "case local_find_similar emb th ix of
     None \<Rightarrow> (\<forall>e \<in> set (li_inner ix). cosine_similarity emb (ie_embedding e) < th)
   | Some k \<Rightarrow> (\<exists>e \<in> set (li_inner ix). ie_cache_key e = k \<and> th \<le> cosine_similarity emb (ie_embedding e) \<and>
        (\<forall>e' \<in> set (li_inner ix). cosine_similarity emb (ie_embedding e') \<le> cosine_similarity emb (ie_embedding e)))"
proof -
  obtain r where r: "best_similar emb th (li_inner ix) None = r" by blast
  show ?thesis
    using best_similar_spec [OF r] by (auto simp: local_find_similar_def r split: option.splits prod.splits) force
qed

text \<open>An indexed prompt finds itself: after an answer has been indexed under the embedding of a
  prompt with at least one word that does not cancel out, looking up the same prompt finds an
  entry at every threshold up to 1.\<close>

theorem indexed_prompt_is_found:
  assumes "\<exists>x \<in> set (hash_embed sha tokens text dims). x \<noteq> 0" "th \<le> 1" "0 < li_max_entries ix"
  shows "local_find_similar (hash_embed sha tokens text dims) th
           (local_insert (hash_embed sha tokens text dims) key ix) \<noteq> None"
proof -
  let ?h = "hash_embed sha tokens text dims" and ?ix = "local_insert (hash_embed sha tokens text dims) key ix"
  have "\<lparr>ie_embedding = ?h, ie_cache_key = key\<rparr> \<in> set (li_inner ?ix)"
    using assms(3) by (auto simp: local_insert_def pop_front_while_drop)
  moreover have "cosine_similarity ?h ?h \<ge> th" using self_similar [OF assms(1)] assms(2) by simp
  moreover have "\<forall>e \<in> set (li_inner ?ix). cosine_similarity ?h (ie_embedding e) < th"
    if "best_similar ?h th (li_inner ?ix) None = None" using best_similar_spec [OF that] by simp
  ultimately have "best_similar ?h th (li_inner ?ix) None \<noteq> None" by force
  then show ?thesis by (simp add: local_find_similar_def)
qed

text \<open>An answer is stored exactly if its status is 200 and its body is not empty and not too large.
  In particular, before the body has been read, with its size given as 0, the answer is that
  nothing will be stored.\<close>

theorem evaluate_llm_store_characterised:
  "sd_store (evaluate_llm_store status n mx ttl) \<longleftrightarrow> status = 200 \<and> 0 < n \<and> n \<le> mx"
  by (auto simp: evaluate_llm_store_def decision_bypass_def)

section \<open>Witnesses\<close>

text \<open>A parser that knows two bodies, which differ in a field besides the messages.\<close>

definition demo_json :: json_lib where
  "demo_json =
     \<lparr>json_parse = (\<lambda>s. Some (JObject ((if s = ''a'' then [(''stream'', JOther ''true'')] else []) @
        [(''messages'', JArray [])]))),
      json_print = (\<lambda>_. ''{}'')\<rparr>"

theorem llm_key_ignores_parameters_witness:
  "content_cache_key id ''POST'' ''/v1'' (normalize_llm_body demo_json ''a'') =
   content_cache_key id ''POST'' ''/v1'' (normalize_llm_body demo_json ''b'')"
  by (rule llm_key_ignores_parameters
      [of _ _ "[(''stream'', JOther ''true''), (''messages'', JArray [])]" _ "[(''messages'', JArray [])]"])
    (simp_all add: demo_json_def)

theorem indexed_prompt_is_found_witness:
  "local_find_similar (hash_embed (\<lambda>_. [1, 0, 0, 0, 0]) (\<lambda>t. [t]) ''hi'' 2) (9 / 10)
     (local_insert (hash_embed (\<lambda>_. [1, 0, 0, 0, 0]) (\<lambda>t. [t]) ''hi'' 2) ''k'' (local_new 5)) \<noteq> None"
  by (rule indexed_prompt_is_found)
    (simp_all add: hash_embed_def token_slot_def vec_norm_def local_new_def Let_def)

theorem local_find_similar_best_witness:
  "local_find_similar [1, 0] (1 / 2)
     \<lparr>li_inner = [\<lparr>ie_embedding = [0, 1], ie_cache_key = ''a''\<rparr>, \<lparr>ie_embedding = [1, 0], ie_cache_key = ''b''\<rparr>],
      li_max_entries = 5\<rparr> = Some ''b''"
  using local_find_similar_best [of
      "\<lparr>li_inner = [\<lparr>ie_embedding = [0, 1], ie_cache_key = ''a''\<rparr>, \<lparr>ie_embedding = [1, 0], ie_cache_key = ''b''\<rparr>],
        li_max_entries = 5\<rparr>" "[1, 0]" "1 / 2"]
  by (auto simp: cosine_similarity_def split: option.splits)

end
