(* ===== verification/Reverse_Proxy.thy ===== *)
theory Reverse_Proxy
  imports Auth Cache_Entry
begin

text \<open>
  The authenticating reverse proxy (\<^verbatim>\<open>proxy/src/reverse_proxy.rs\<close>) and the part of
  \<^verbatim>\<open>ProxyService::handle_request\<close> that puts it in front of every request.

  Parameters: the http crate (\<open>http_lib\<close>), Base64 and JSON of a token (\<open>jwt_lib\<close>), URI parsing,
  and the identity provider: what it answers to the exchange of a code. Random identifiers and
  clock readings, in seconds, are arguments. \<^const>\<open>None\<close> is a panic.
\<close>

section \<open>Definitions\<close>

subsection \<open>Configuration and requests\<close>

record oidc_config =
  oc_client_id :: string
  oc_client_secret :: string
  oc_issuer_url :: string
  oc_redirect_uri :: string

definition oidc_from_env :: "(string \<Rightarrow> string option) \<Rightarrow> oidc_config option" where
  "oidc_from_env env =
     (case (env ''OIDC_CLIENT_ID'', env ''OIDC_CLIENT_SECRET'', env ''OIDC_ISSUER_URL'') of
        (Some c, Some s, Some i) \<Rightarrow>
          Some \<lparr>oc_client_id = c, oc_client_secret = s, oc_issuer_url = i,
                oc_redirect_uri = env_or env ''OIDC_REDIRECT_URI'' ''http://localhost:1488/-/callback''\<rparr>
      | _ \<Rightarrow> None)"

record reverse_proxy =
  rp_upstream_url :: string
  rp_oidc :: "oidc_config option"
  rp_admin_group :: "string option"
  rp_sessions :: "(string, string) hash_map"
  rp_states :: "(string, nat) hash_map"

definition nonempty_env :: "(string \<Rightarrow> string option) \<Rightarrow> string \<Rightarrow> string option" where
  "nonempty_env env k = (case env k of Some s \<Rightarrow> (if s = [] then None else Some s) | None \<Rightarrow> None)"

definition reverse_proxy_from_env :: "(string \<Rightarrow> string option) \<Rightarrow> reverse_proxy option" where
  "reverse_proxy_from_env env =
     map_option (\<lambda>u. \<lparr>rp_upstream_url = u, rp_oidc = oidc_from_env env,
                      rp_admin_group = nonempty_env env ''REVERSE_PROXY_ADMIN_GROUP'',
                      rp_sessions = [], rp_states = []\<rparr>)
       (nonempty_env env ''REVERSE_PROXY_UPSTREAM'')"

text \<open>A request; a header may occur several times, and its body is what polling it yields.\<close>

record http_request =
  rq_method :: string
  rq_uri :: string
  rq_path :: string
  rq_query :: "string option"
  rq_headers :: headers
  rq_body :: "(string + frame) list"

definition path_and_query :: "http_request \<Rightarrow> string" where
  "path_and_query req = rq_path req @ (case rq_query req of Some q \<Rightarrow> ''?'' @ q | None \<Rightarrow> [])"

text \<open>\<^verbatim>\<open>HeaderMap::insert\<close> replaces every value the name had.\<close>

definition header_insert :: "string \<Rightarrow> string \<Rightarrow> headers \<Rightarrow> headers" where
  "header_insert name v hs = filter (\<lambda>(k, _). k \<noteq> name) hs @ [(name, v)]"

subsection \<open>Sessions and states\<close>

definition cookie_value :: "(string \<Rightarrow> string option) \<Rightarrow> string \<Rightarrow> http_request \<Rightarrow> string option" where
  "cookie_value to_str name req =
     (case Option.bind (map_of (rq_headers req) ''cookie'') to_str of
        None \<Rightarrow> None
      | Some v \<Rightarrow>
          (case List.map_filter (\<lambda>p. strip_prefix (trim p) name) (split_char CHR '';'' v) of
             [] \<Rightarrow> None | c # _ \<Rightarrow> Some c))"

definition extract_session_cookie :: "(string \<Rightarrow> string option) \<Rightarrow> http_request \<Rightarrow> string option" where
  "extract_session_cookie to_str req = cookie_value to_str ''bsdm_session='' req"

definition extract_oidc_state_cookie :: "(string \<Rightarrow> string option) \<Rightarrow> http_request \<Rightarrow> string option" where
  "extract_oidc_state_cookie to_str req = cookie_value to_str ''bsdm_oidc_state='' req"

definition rp_get_session :: "string \<Rightarrow> reverse_proxy \<Rightarrow> string option" where
  "rp_get_session session_id rp = map_of (rp_sessions rp) session_id"

definition rp_create_session :: "string \<Rightarrow> string \<Rightarrow> reverse_proxy \<Rightarrow> reverse_proxy" where
  "rp_create_session session_id username rp =
     rp\<lparr>rp_sessions := AList.update session_id username (rp_sessions rp)\<rparr>"

definition generate_state :: "nat \<Rightarrow> string \<Rightarrow> reverse_proxy \<Rightarrow> reverse_proxy" where
  "generate_state now state rp = rp\<lparr>rp_states := AList.update state now (rp_states rp)\<rparr>"

definition verify_and_remove_state :: "nat \<Rightarrow> string \<Rightarrow> reverse_proxy \<Rightarrow> bool \<times> reverse_proxy" where
  "verify_and_remove_state now state rp =
     (case map_of (rp_states rp) state of
        None \<Rightarrow> (False, rp)
      | Some created_at \<Rightarrow> (now - created_at \<le> 600, rp\<lparr>rp_states := AList.delete state (rp_states rp)\<rparr>))"

subsection \<open>Responses\<close>

definition plain :: "nat \<Rightarrow> string \<Rightarrow> response" where
  "plain status body = \<lparr>rs_status = status, rs_headers = [], rs_body = body\<rparr>"

definition handle_unauthenticated ::
  "http_lib \<Rightarrow> nat \<Rightarrow> string \<Rightarrow> reverse_proxy \<Rightarrow> (response \<times> reverse_proxy) option" where
  "handle_unauthenticated lib now state rp =
     (case rp_oidc rp of
        None \<Rightarrow> Some (plain 401 ''401 Unauthorized (OIDC not configured)'', rp)
      | Some oidc \<Rightarrow>
          (let auth_url = trim_end_matches CHR ''/'' (oc_issuer_url oidc) @
                 ''/authorize?response_type=code&client_id='' @ oc_client_id oidc @ ''&redirect_uri='' @
                 oc_redirect_uri oidc @ ''&scope=openid profile email&state='' @ state;
               cookie = ''bsdm_oidc_state='' @ state @ ''; HttpOnly; Path=/; SameSite=Lax; Max-Age=600''
           in case (header_value_from_str lib auth_url, header_value_from_str lib cookie) of
                (Some l, Some c) \<Rightarrow>
                  Some (\<lparr>rs_status = 302, rs_headers = [(''location'', l), (''set-cookie'', c)], rs_body = []\<rparr>,
                        generate_state now state rp)
              | _ \<Rightarrow> None))"

datatype idp_reply = SendFailed string | ErrorReply | InvalidReply | IdToken string

datatype jwt_aud = AudText string | AudList "string option list" | AudOther

record jwt_payload =
  jp_iss :: "string option"
  jp_aud :: "jwt_aud option"
  jp_email :: "string option"
  jp_sub :: string
  jp_exp :: "nat option"

record jwt_lib =
  jl_b64 :: "string \<Rightarrow> string option"
  jl_json :: "string \<Rightarrow> jwt_payload option"

definition query_param :: "string \<Rightarrow> string \<Rightarrow> string option" where
  "query_param k query =
     fold (\<lambda>param found. case split_once CHR ''='' param of
                           Some (k', v) \<Rightarrow> if k' = k then Some v else found
                         | None \<Rightarrow> found) (split_char CHR ''&'' query) None"

text \<open>The payload of a token: the middle of three parts, Base64 with the URL alphabet and no padding.\<close>

definition jwt_decode :: "jwt_lib \<Rightarrow> string \<Rightarrow> string + jwt_payload" where
  "jwt_decode lib token =
     (case split_char CHR ''.'' token of
        [_, p, _] \<Rightarrow>
          (let std = map (\<lambda>c. if c = CHR ''-'' then CHR ''+'' else if c = CHR ''_'' then CHR ''/'' else c) p;
               padded = (if length std mod 4 = 2 then std @ ''=='' else if length std mod 4 = 3 then std @ ''='' else std)
           in case jl_b64 lib padded of
                None \<Rightarrow> Inl ''Invalid JWT base64''
              | Some d \<Rightarrow> (case jl_json lib d of None \<Rightarrow> Inl ''Invalid JWT JSON'' | Some j \<Rightarrow> Inr j))
      | _ \<Rightarrow> Inl ''Invalid JWT'')"

definition aud_matches :: "string \<Rightarrow> jwt_aud \<Rightarrow> bool" where
  "aud_matches client_id aud =
     (case aud of AudText s \<Rightarrow> s = client_id | AudList vs \<Rightarrow> Some client_id \<in> set vs | AudOther \<Rightarrow> False)"

definition jwt_error :: "nat \<Rightarrow> oidc_config \<Rightarrow> jwt_payload \<Rightarrow> string option" where
  "jwt_error now oidc jwt =
     (if (case jp_iss jwt of Some iss \<Rightarrow> trim_end_matches CHR ''/'' iss \<noteq> trim_end_matches CHR ''/'' (oc_issuer_url oidc)
                           | None \<Rightarrow> False) then Some ''JWT issuer mismatch''
      else if (case jp_aud jwt of Some aud \<Rightarrow> \<not> aud_matches (oc_client_id oidc) aud | None \<Rightarrow> False)
      then Some ''JWT audience mismatch''
      else if (case jp_exp jwt of Some e \<Rightarrow> e \<le> now | None \<Rightarrow> False) then Some ''JWT expired''
      else None)"

definition jwt_username :: "jwt_payload \<Rightarrow> string" where
  "jwt_username jwt = (case jp_email jwt of Some m \<Rightarrow> m | None \<Rightarrow> jp_sub jwt)"

definition request_query :: "http_request \<Rightarrow> string" where
  "request_query req = (case rq_query req of Some q \<Rightarrow> q | None \<Rightarrow> [])"

definition handle_oidc_callback ::
  "http_lib \<Rightarrow> (string \<Rightarrow> string option) \<Rightarrow> jwt_lib \<Rightarrow> (oidc_config \<Rightarrow> string \<Rightarrow> idp_reply) \<Rightarrow> nat \<Rightarrow> string \<Rightarrow>
   http_request \<Rightarrow> reverse_proxy \<Rightarrow> (response \<times> reverse_proxy) option" where
  "handle_oidc_callback lib to_str jl idp now session_id req rp =
     (case rp_oidc rp of
        None \<Rightarrow> Some (plain 404 ''OIDC not configured'', rp)
      | Some oidc \<Rightarrow>
          (let query = request_query req in
           case query_param ''code'' query of
             None \<Rightarrow> Some (plain 400 ''Missing code parameter'', rp)
           | Some code \<Rightarrow>
               (case query_param ''state'' query of
                  None \<Rightarrow> Some (plain 400 ''Missing state parameter'', rp)
                | Some state \<Rightarrow>
                    (let (ok, rp1) =
                           (if extract_oidc_state_cookie to_str req \<noteq> Some state then (False, rp)
                            else verify_and_remove_state now state rp)
                     in if \<not> ok then Some (plain 400 ''CSRF state mismatch or state expired'', rp1)
                        else
                          (case idp oidc code of
                             SendFailed e \<Rightarrow> Some (plain 502 (''IDP Error: '' @ e), rp1)
                           | ErrorReply \<Rightarrow> Some (plain 502 ''IDP returned error'', rp1)
                           | InvalidReply \<Rightarrow> Some (plain 502 ''Invalid response from IDP'', rp1)
                           | IdToken token \<Rightarrow>
                               (case jwt_decode jl token of
                                  Inl e \<Rightarrow> Some (plain 502 e, rp1)
                                | Inr jwt \<Rightarrow>
                                    (case jwt_error now oidc jwt of
                                       Some e \<Rightarrow> Some (plain 401 e, rp1)
                                     | None \<Rightarrow>
                                         (let username = jwt_username jwt;
                                              rp2 = rp_create_session session_id username rp1;
                                              cookie = ''bsdm_session='' @ session_id @ ''; HttpOnly; Path=/; SameSite=Lax''
                                          in case header_value_from_str lib cookie of
                                               None \<Rightarrow> None
                                             | Some c \<Rightarrow>
                                                 Some (\<lparr>rs_status = 302,
                                                        rs_headers = [(''location'', ''/''), (''set-cookie'', c)],
                                                        rs_body = []\<rparr>, rp2)))))))))"

subsection \<open>In front of a request\<close>

datatype gate = Respond response | Pass http_request "user_info option"

definition session_user :: "time \<Rightarrow> string \<Rightarrow> user_info" where
  "session_user at_time user =
     \<lparr>ui_username = user, ui_display_name = None, ui_email = None,
      ui_groups = [''reverse_proxy_users''], ui_authenticated_at = at_time\<rparr>"

definition rewrite_request ::
  "http_lib \<Rightarrow> (string \<Rightarrow> string option) \<Rightarrow> reverse_proxy \<Rightarrow> string \<Rightarrow> http_request \<Rightarrow> http_request" where
  "rewrite_request lib parse_uri rp user req =
     (let new_uri_str = trim_end_matches CHR ''/'' (rp_upstream_url rp) @ path_and_query req;
          req1 = (case parse_uri new_uri_str of Some u \<Rightarrow> req\<lparr>rq_uri := u\<rparr> | None \<Rightarrow> req)
      in case header_value_from_str lib user of
           Some v \<Rightarrow> req1\<lparr>rq_headers := header_insert ''x-forwarded-user'' v (rq_headers req1)\<rparr>
         | None \<Rightarrow> req1)"

record gate_input =
  gi_now :: time
  gi_now_secs :: nat
  gi_session_id :: string
  gi_state :: string
  gi_client_ip :: string

definition login_redirect :: "http_lib \<Rightarrow> http_request \<Rightarrow> string \<Rightarrow> response option" where
  "login_redirect lib req session_id =
     (case (header_value_from_str lib (path_and_query req),
            header_value_from_str lib (''bsdm_session='' @ session_id @ ''; Path=/; HttpOnly'')) of
        (Some l, Some c) \<Rightarrow>
          Some \<lparr>rs_status = 302, rs_headers = [(''location'', l), (''set-cookie'', c)], rs_body = []\<rparr>
      | _ \<Rightarrow> None)"

definition reverse_gate ::
  "http_lib \<Rightarrow> auth_lib \<Rightarrow> 'c ldap_lib \<Rightarrow> (string \<Rightarrow> string option) \<Rightarrow> (string \<Rightarrow> string option) \<Rightarrow> jwt_lib \<Rightarrow>
   (oidc_config \<Rightarrow> string \<Rightarrow> idp_reply) \<Rightarrow> gate_input \<Rightarrow> http_request \<Rightarrow> reverse_proxy \<Rightarrow> 's auth_manager option \<Rightarrow>
   (gate \<times> reverse_proxy \<times> 's auth_manager option) option" where
  "reverse_gate lib alib ldap to_str parse_uri jl idp i req rp auth =
     (let unauth = (\<lambda>auth'. map_option (\<lambda>(r, rp'). (Respond r, rp', auth'))
                              (handle_unauthenticated lib (gi_now_secs i) (gi_state i) rp)) in
      if rq_path req = ''/-/callback'' then
        map_option (\<lambda>(r, rp'). (Respond r, rp', auth))
          (handle_oidc_callback lib to_str jl idp (gi_now_secs i) (gi_session_id i) req rp)
      else
        (case Option.bind (extract_session_cookie to_str req) (\<lambda>s. rp_get_session s rp) of
           Some user \<Rightarrow>
             Some (Pass (rewrite_request lib parse_uri rp user req) (Some (session_user (gi_now i) user)), rp, auth)
         | None \<Rightarrow>
             (case auth of
                None \<Rightarrow> unauth auth
              | Some m \<Rightarrow>
                  (if \<not> ac_enabled (am_config m) then unauth auth
                   else
                     (case handle_proxy_auth alib ldap (gi_now i) (gi_client_ip i) (rq_headers req) True None m of
                        (Authenticated user, _, m') \<Rightarrow>
                          (if (case rp_admin_group rp of Some g \<Rightarrow> List.member (ui_groups user) g | None \<Rightarrow> True)
                           then map_option (\<lambda>r. (Respond r, rp_create_session (gi_session_id i) (ui_username user) rp, Some m'))
                                  (login_redirect lib req (gi_session_id i))
                           else Some (Respond (plain 403 ''403 Forbidden: User not in required AD group''), rp, Some m'))
                      | (Challenge h, _, m') \<Rightarrow>
                          (case create_auth_challenge_response h True of
                             (st, n, v) \<Rightarrow> Some (Respond \<lparr>rs_status = st, rs_headers = [(n, v)], rs_body = []\<rparr>, rp, Some m'))
                      | (Anonymous, _, m') \<Rightarrow> unauth (Some m'))))))"

section \<open>Lemmas\<close>

lemma verify_state_sessions:
  "rp_sessions (snd (verify_and_remove_state now st rp)) = rp_sessions rp"
  "fst (verify_and_remove_state now st rp) \<longleftrightarrow> (\<exists>c. map_of (rp_states rp) st = Some c \<and> now - c \<le> 600)"
  "map_of (rp_states (snd (verify_and_remove_state now st rp))) st = None"
  by (auto simp: verify_and_remove_state_def split: option.splits)

lemma handle_unauthenticated_states:
  "handle_unauthenticated lib now st rp = Some (r, rp') \<Longrightarrow>
     rp_oidc rp' = rp_oidc rp \<and> rp_states rp' = (if rp_oidc rp = None then rp_states rp else AList.update st now (rp_states rp))"
  by (auto simp: handle_unauthenticated_def generate_state_def Let_def split: option.splits)

definition knock :: "http_lib \<Rightarrow> nat \<times> string \<Rightarrow> reverse_proxy \<Rightarrow> reverse_proxy" where
  "knock lib q rp =
     (case handle_unauthenticated lib (fst q) (snd q) rp of Some (_, rp') \<Rightarrow> rp' | None \<Rightarrow> rp)"

lemma update_keys: "set (map fst (AList.update k v m)) = insert k (set (map fst m))"
  by (simp add: AList.dom_update)

lemma knock_states:
  assumes "handle_unauthenticated lib (fst q) (snd q) rp \<noteq> None" "rp_oidc rp \<noteq> None"
  shows "rp_states (knock lib q rp) = AList.update (snd q) (fst q) (rp_states rp) \<and> rp_oidc (knock lib q rp) = rp_oidc rp"
  using assms handle_unauthenticated_states [of lib "fst q" "snd q" rp] by (auto simp: knock_def)

lemma unauthenticated_defined:
  "rp_oidc rp' = rp_oidc rp \<Longrightarrow> handle_unauthenticated lib n st rp \<noteq> None \<Longrightarrow> handle_unauthenticated lib n' st rp' \<noteq> None"
  by (auto simp: handle_unauthenticated_def Let_def split: option.splits)

lemma knocks_states:
  assumes "rp_oidc rp \<noteq> None" "\<forall>q \<in> set qs. handle_unauthenticated lib (fst q) (snd q) rp \<noteq> None"
    "distinct (map snd qs)" "set (map snd qs) \<inter> fst ` set (rp_states rp) = {}"
  shows "length (rp_states (fold (knock lib) qs rp)) = length (rp_states rp) + length qs"
  using assms
proof (induction qs arbitrary: rp)
  case (Cons q qs)
  from Cons.prems have k: "rp_states (knock lib q rp) = AList.update (snd q) (fst q) (rp_states rp)"
    "rp_oidc (knock lib q rp) = rp_oidc rp" using knock_states [of lib q rp] by auto
  have new: "snd q \<notin> fst ` set (rp_states rp)" using Cons.prems(4) by auto
  have "length (AList.update (snd q) (fst q) m) = Suc (length m)" if "snd q \<notin> fst ` set m" for m
    using that by (induction m) auto
  with new have "length (rp_states (knock lib q rp)) = Suc (length (rp_states rp))" by (simp add: k)
  moreover have "fst ` set (rp_states (knock lib q rp)) = insert (snd q) (fst ` set (rp_states rp))"
    using update_keys [of "snd q" "fst q" "rp_states rp"] by (simp add: k)
  moreover have "\<forall>p \<in> set qs. handle_unauthenticated lib (fst p) (snd p) (knock lib q rp) \<noteq> None"
    using Cons.prems(2) unauthenticated_defined [OF k(2)] by (metis list.set_intros(2))
  ultimately show ?case using Cons.IH [of "knock lib q rp"] Cons.prems k by auto
qed simp

section \<open>Properties\<close>


text \<open>The group that the reverse proxy requires is not required of users who log in through the
  identity provider: the callback does the same whatever group is configured.\<close>

theorem callback_ignores_admin_group:
  "handle_oidc_callback lib to_str jl idp now sid req (rp\<lparr>rp_admin_group := g\<rparr>) =
     map_option (\<lambda>(r, rp'). (r, rp'\<lparr>rp_admin_group := g\<rparr>)) (handle_oidc_callback lib to_str jl idp now sid req rp)"
proof -
  have "verify_and_remove_state now st (rp\<lparr>rp_admin_group := g\<rparr>) =
      map_prod id (\<lambda>rp'. rp'\<lparr>rp_admin_group := g\<rparr>) (verify_and_remove_state now st rp)" for st
    by (simp add: verify_and_remove_state_def split: option.splits)
  then show ?thesis unfolding handle_oidc_callback_def
    by (auto simp: Let_def case_prod_beta rp_create_session_def
        split: option.splits idp_reply.splits sum.splits if_splits)
qed

text \<open>Requests without a session use up memory for good: every one adds a state that only a
  completed login removes, so that after any number of them as many states are kept.\<close>

theorem unauthenticated_states_accumulate:
  assumes "rp_oidc rp \<noteq> None" "\<forall>q \<in> set qs. handle_unauthenticated lib (fst q) (snd q) rp \<noteq> None"
    "distinct (map snd qs)" "rp_states rp = []"
  shows "length (rp_states (fold (knock lib) qs rp)) = length qs"
  using knocks_states [OF assms(1-3)] assms(4) by simp

text \<open>The upstream is told the session's user: a forwarded request carries exactly one
  X-Forwarded-User header, with the name of the session's user, provided the name is a
  legal header value. If it is not, what the client itself sent under that name is passed on.\<close>

theorem forwarded_user_header:
  "map snd (filter (\<lambda>(k, _). k = ''x-forwarded-user'') (rq_headers (rewrite_request lib parse_uri rp user req))) =
     (case header_value_from_str lib user of
        Some v \<Rightarrow> [v]
      | None \<Rightarrow> map snd (filter (\<lambda>(k, _). k = ''x-forwarded-user'') (rq_headers req)))"
  by (auto simp: rewrite_request_def header_insert_def Let_def filter_empty_conv split: option.splits)

section \<open>Witnesses\<close>

definition demo_oidc :: oidc_config where
  "demo_oidc = \<lparr>oc_client_id = ''cid'', oc_client_secret = ''x'', oc_issuer_url = ''https://idp'', oc_redirect_uri = ''/cb''\<rparr>"

definition demo_reverse :: reverse_proxy where
  "demo_reverse =
     \<lparr>rp_upstream_url = ''http://app'', rp_oidc = Some demo_oidc, rp_admin_group = Some ''admins'',
      rp_sessions = [], rp_states = [(''s1'', 100)]\<rparr>"

definition any_http :: http_lib where
  "any_http = \<lparr>status_from_u16 = Some, header_name_from_bytes = Some, header_value_from_str = Some\<rparr>"

definition demo_jwt :: jwt_lib where
  "demo_jwt =
     \<lparr>jl_b64 = Some, jl_json = (\<lambda>_. Some \<lparr>jp_iss = Some ''https://idp/'', jp_aud = Some (AudText ''cid''),
        jp_email = None, jp_sub = ''alice'', jp_exp = Some 1000\<rparr>)\<rparr>"

definition demo_callback :: http_request where
  "demo_callback =
     \<lparr>rq_method = ''GET'', rq_uri = ''/-/callback?code=c&state=s1'', rq_path = ''/-/callback'',
      rq_query = Some ''code=c&state=s1'', rq_headers = [(''cookie'', ''a=b; bsdm_oidc_state=s1'')], rq_body = []\<rparr>"

lemma demo_callback_login:
  "handle_oidc_callback any_http Some demo_jwt (\<lambda>_ _. IdToken ''h.p.s'') 200 ''new'' demo_callback demo_reverse =
     Some (\<lparr>rs_status = 302, rs_headers = [(''location'', ''/''),
              (''set-cookie'', ''bsdm_session=new; HttpOnly; Path=/; SameSite=Lax'')], rs_body = []\<rparr>,
           demo_reverse\<lparr>rp_sessions := [(''new'', ''alice'')], rp_states := []\<rparr>)"
proof -
  have "extract_oidc_state_cookie Some demo_callback = Some ''s1''"
    "query_param ''code'' (request_query demo_callback) = Some ''c''"
    "query_param ''state'' (request_query demo_callback) = Some ''s1''"
    "split_char CHR ''.'' ''h.p.s'' = [''h'', ''p'', ''s'']"
    "trim_end_matches CHR ''/'' ''https://idp/'' = trim_end_matches CHR ''/'' ''https://idp''" by code_simp+
  then show ?thesis
    by (simp add: handle_oidc_callback_def verify_and_remove_state_def demo_reverse_def jwt_decode_def jwt_error_def
        demo_jwt_def demo_oidc_def jwt_username_def aud_matches_def any_http_def rp_create_session_def Let_def)
qed


theorem unauthenticated_states_accumulate_witness:
  "length (rp_states (fold (knock any_http) [(1, ''a''), (2, ''b''), (3, ''c'')] (demo_reverse\<lparr>rp_states := []\<rparr>))) = 3"
  using unauthenticated_states_accumulate [of "demo_reverse\<lparr>rp_states := []\<rparr>" "[(1, ''a''), (2, ''b''), (3, ''c'')]" any_http]
  by (simp add: demo_reverse_def handle_unauthenticated_def any_http_def Let_def)

end
