(* ===== verification/Request_Pipeline.thy ===== *)
theory Request_Pipeline
  imports Reverse_Proxy Proxy_Policy L2_Cache Streaming_Miss Icap Semantic_Cache Hierarchy Miss_Coalesce
    "HOL-Library.Monad_Syntax"
begin

text \<open>
  One request through the proxy (\<^verbatim>\<open>ProxyService::handle_request\<close> in \<^verbatim>\<open>proxy/src/proxy_service.rs\<close>,
  the settings of \<^verbatim>\<open>proxy/src/perf.rs\<close>): the login gate, rate limits, plug-in, policy, the two caches,
  coalescing, body inspection, content adaptation, the cache hierarchy and the origin, the
  store, composed from the theories of those parts.

  \<open>pipe_lib\<close> holds the libraries, \<open>pipe_io\<close> what the outside does during this request: the answers of
  origin, peers and services, the times at which the request arrives, is answered upstream and is
  completed, and \<open>io_others\<close>, what concurrent requests do to the shared state while this one waits
  at one of four points. \<open>ps_sent\<close> is a history of the requests that left for a peer or an origin. Tasks
  spawned without waiting for them take effect at once. \<^const>\<open>None\<close> is a panic. Events for the log
  and metrics are left out, and with them the session correlation they carry.
\<close>

section \<open>Definitions\<close>

subsection \<open>Settings\<close>

record perf_config =
  px_fast_cache_hit :: bool
  px_worker_count :: nat
  px_http_preserve_header_case :: bool
  px_kafka_sample_rate :: nat
  px_metrics_sample_rate :: nat
  px_streaming_miss_enabled :: bool
  px_miss_coalesce_enabled :: bool

definition env_truthy :: "string \<Rightarrow> bool" where
  "env_truthy v \<longleftrightarrow> List.member [''1'', ''true'', ''yes'', ''on''] (to_ascii_lowercase (trim v))"

definition perf_env_bool :: "(string \<Rightarrow> string option) \<Rightarrow> string \<Rightarrow> bool \<Rightarrow> bool" where
  "perf_env_bool env key d = (case env key of Some v \<Rightarrow> env_truthy v | None \<Rightarrow> d)"

definition perf_from_env :: "(string \<Rightarrow> string option) \<Rightarrow> perf_config" where
  "perf_from_env env =
     \<lparr>px_fast_cache_hit = perf_env_bool env ''PERF_FAST_CACHE_HIT'' False \<or> perf_env_bool env ''BSM_PERF_MODE'' False,
      px_worker_count =
        (case Option.bind (env ''WORKER_COUNT'') (parse_uint u64_max) of Some n \<Rightarrow> if n > 0 then n else 1 | None \<Rightarrow> 1),
      px_http_preserve_header_case = perf_env_bool env ''HTTP_PRESERVE_HEADER_CASE'' True,
      px_kafka_sample_rate =
        (case Option.bind (env ''KAFKA_SAMPLE_RATE'') (parse_uint u32_max) of Some n \<Rightarrow> n | None \<Rightarrow> 0),
      px_metrics_sample_rate =
        (case Option.bind (env ''METRICS_SAMPLE_RATE'') (parse_uint u32_max) of Some n \<Rightarrow> n | None \<Rightarrow> 0),
      px_streaming_miss_enabled = perf_env_bool env ''STREAMING_MISS_ENABLED'' True,
      px_miss_coalesce_enabled = perf_env_bool env ''MISS_COALESCE_ENABLED'' True\<rparr>"

subsection \<open>State and surroundings\<close>

record outgoing =
  og_method :: string
  og_uri :: string
  og_headers :: headers
  og_body :: string

record upstream_response =
  ur_status :: nat
  ur_headers :: headers
  ur_body :: "(string + body_frame) list"

record ('re, 'c, 's) proxy_state =
  ps_reverse :: "reverse_proxy option"
  ps_auth :: "'s auth_manager option"
  ps_limiter :: rate_limiter
  ps_policy :: "'re policy_service"
  ps_l1 :: "'c http_l1_cache"
  ps_redis :: redis_db
  ps_hierarchy :: "hierarchy_manager option"
  ps_flights :: miss_flight_map
  ps_semantic :: semantic_index
  ps_sent :: "outgoing list"

record wasm_request =
  wq_method :: string
  wq_url :: string
  wq_client_ip :: string
  wq_username :: "string option"
  wq_headers :: headers

datatype wasm_decision = WasmAllow headers | WasmDeny string

record wasm_engine =
  we_evaluate :: "wasm_request \<Rightarrow> string + wasm_decision"
  we_evaluate_response :: "wasm_request \<Rightarrow> nat \<Rightarrow> headers \<Rightarrow> string + headers"
  we_fail_open :: bool

record proxy_config =
  cg_cache :: cache_config
  cg_l2_prefix :: "string option"
  cg_perf :: perf_config
  cg_semantic :: semantic_cache_config
  cg_icap :: "icap_client option"
  cg_wasm :: "wasm_engine option"
  cg_dlp :: dlp_state

record ('c, 'l) pipe_lib =
  pl_http :: http_lib
  pl_codec :: codec_lib
  pl_spill_io :: "string \<Rightarrow> string option"
  pl_qc :: "'c quick_cache_lib"
  pl_hash :: "string \<Rightarrow> u64"
  pl_l2 :: l2_lib
  pl_sha256 :: "string \<Rightarrow> string"
  pl_hex :: "string \<Rightarrow> string"
  pl_base64 :: "string \<Rightarrow> bytes option"
  pl_to_str :: "string \<Rightarrow> string option"
  pl_url_host :: "string \<Rightarrow> string option"
  pl_url_parts :: "string \<Rightarrow> string + url_parts"
  pl_parse_uri :: "string \<Rightarrow> string option"
  pl_search :: pattern_search
  pl_json :: json_lib
  pl_lossy :: "string \<Rightarrow> string"
  pl_token_hash :: "string \<Rightarrow> nat list"
  pl_tokens :: "string \<Rightarrow> string list"
  pl_auth :: auth_lib
  pl_ldap :: "'l ldap_lib"
  pl_jwt :: jwt_lib

datatype await = Revalidating | Waiting | Fetching | Streaming

record ('re, 'c, 's, 'a) pipe_io =
  io_gate :: gate_input
  io_idp :: "oidc_config \<Rightarrow> string \<Rightarrow> idp_reply"
  io_policy :: "'re policy_env"
  io_evict :: nat
  io_origin :: "outgoing \<Rightarrow> string + upstream_response"
  io_peer :: "cache_peer \<Rightarrow> outgoing \<Rightarrow> upstream_response option"
  io_net :: "'a sibling_net"
  io_icap :: icap_service
  io_l2_up :: "bool \<times> bool"
  io_l2_set_up :: bool
  io_embed :: "string \<Rightarrow> string \<Rightarrow> string + real list"
  io_vector_search :: "real list \<Rightarrow> real \<Rightarrow> string + string option"
  io_vector_upsert :: "string option"
  io_waited :: "cached_response option"
  io_sends :: "bool list"
  io_arrived :: time
  io_answered :: time
  io_completed :: time
  io_others :: "await \<Rightarrow> ('re, 'c, 's) proxy_state \<Rightarrow> ('re, 'c, 's) proxy_state"

datatype reply = Full response | Streamed nat headers "(string + body_frame) list"

datatype 'a flow = Return reply | Continue 'a

subsection \<open>Headers and users\<close>

text \<open>Headers collected into a hash map: the last value of a name that is text.\<close>

definition headers_map :: "(string \<Rightarrow> string option) \<Rightarrow> headers \<Rightarrow> headers" where
  "headers_map to_str hs =
     fold (\<lambda>(k, v) m. case to_str v of Some t \<Rightarrow> AList.update k t m | None \<Rightarrow> m) hs []"

definition headers_map_from_response :: "(string \<Rightarrow> string option) \<Rightarrow> upstream_response \<Rightarrow> headers" where
  "headers_map_from_response to_str r = headers_map to_str (ur_headers r)"

definition apply_response_headers :: "http_lib \<Rightarrow> headers \<Rightarrow> headers \<Rightarrow> headers" where
  "apply_response_headers lib hm hs =
     fold (\<lambda>(key, value) acc.
             case (header_name_from_bytes lib key, header_value_from_str lib value) of
               (Some n, Some v) \<Rightarrow> header_insert n v acc
             | _ \<Rightarrow> acc) hm hs"

definition attach_x_cache_status :: "http_lib \<Rightarrow> string \<Rightarrow> headers \<Rightarrow> headers" where
  "attach_x_cache_status lib label hs =
     (case header_value_from_str lib label of Some v \<Rightarrow> header_insert ''x-cache-status'' v hs | None \<Rightarrow> hs)"

definition extract_domain :: "(string \<Rightarrow> string option) \<Rightarrow> string \<Rightarrow> string" where
  "extract_domain url_host url = (case url_host url of Some h \<Rightarrow> h | None \<Rightarrow> ''unknown'')"

definition extract_user_info ::
  "(string \<Rightarrow> string option) \<Rightarrow> (string \<Rightarrow> bytes option) \<Rightarrow> headers \<Rightarrow> string option" where
  "extract_user_info to_str base64 hs =
     do { raw \<leftarrow> map_of hs ''authorization'';
          auth_str \<leftarrow> to_str raw;
          encoded \<leftarrow> strip_prefix auth_str ''Basic '';
          decoded_bytes \<leftarrow> base64 encoded;
          credentials \<leftarrow> from_utf8 decoded_bytes;
          (username, _) \<leftarrow> split_once CHR '':'' credentials;
          Some username }"

definition request_username :: "('c, 'l) pipe_lib \<Rightarrow> user_info option \<Rightarrow> http_request \<Rightarrow> string option" where
  "request_username lib proxy_user req =
     (case proxy_user of
        Some u \<Rightarrow> snd (user_fields (Some u))
      | None \<Rightarrow> extract_user_info (pl_to_str lib) (pl_base64 lib) (rq_headers req))"

subsection \<open>Plug-in and content adaptation\<close>

definition text_response :: "nat \<Rightarrow> headers \<Rightarrow> string \<Rightarrow> response" where
  "text_response status hs body =
     \<lparr>rs_status = status, rs_headers = (''content-type'', ''text/plain; charset=utf-8'') # hs, rs_body = body\<rparr>"

definition wasm_headers :: "(string \<Rightarrow> string option) \<Rightarrow> headers \<Rightarrow> headers" where
  "wasm_headers to_str hs = headers_map to_str (map (\<lambda>(k, v). (to_ascii_lowercase k, v)) hs)"

definition run_wasm_hook ::
  "http_lib \<Rightarrow> (string \<Rightarrow> string option) \<Rightarrow> wasm_engine option \<Rightarrow> string \<Rightarrow> string \<Rightarrow> string \<Rightarrow> string option \<Rightarrow>
   headers \<Rightarrow> response option \<times> headers" where
  "run_wasm_hook lib to_str hook meth url client_ip username hs =
     (case hook of
        None \<Rightarrow> (None, hs)
      | Some h \<Rightarrow>
          (case we_evaluate h \<lparr>wq_method = meth, wq_url = url, wq_client_ip = client_ip, wq_username = username,
                               wq_headers = wasm_headers to_str hs\<rparr> of
             Inl e \<Rightarrow>
               (if we_fail_open h then (None, hs)
                else (Some (text_response 502 [] (''502 Bad Gateway: wasm hook: '' @ e)), hs))
           | Inr (WasmAllow set_headers) \<Rightarrow> (None, apply_response_headers lib set_headers hs)
           | Inr (WasmDeny reason) \<Rightarrow>
               (Some (text_response 403 [(''x-wasm-hook'', ''deny'')] (''403 Forbidden: '' @ reason)), hs)))"

text \<open>The hook on a response may set headers; an error is only logged.\<close>

definition run_wasm_hook_response ::
  "http_lib \<Rightarrow> (string \<Rightarrow> string option) \<Rightarrow> wasm_engine option \<Rightarrow> string \<Rightarrow> string \<Rightarrow> string \<Rightarrow> string option \<Rightarrow>
   headers \<Rightarrow> nat \<Rightarrow> headers \<Rightarrow> headers" where
  "run_wasm_hook_response lib to_str hook meth url client_ip username req_hs status hs =
     (case hook of
        None \<Rightarrow> hs
      | Some h \<Rightarrow>
          (case we_evaluate_response h
                  \<lparr>wq_method = meth, wq_url = url, wq_client_ip = client_ip, wq_username = username,
                   wq_headers = wasm_headers to_str req_hs\<rparr> status (wasm_headers to_str hs) of
             Inl _ \<Rightarrow> hs
           | Inr set_headers \<Rightarrow> apply_response_headers lib set_headers hs))"

definition icap_to_response :: "http_lib \<Rightarrow> icap_client option \<Rightarrow> string + icap_outcome \<Rightarrow> response option" where
  "icap_to_response lib icap outcome =
     (case outcome of
        Inr IcapAllow \<Rightarrow> None
      | Inr (IcapResponse status hs body) \<Rightarrow>
          Some \<lparr>rs_status = (case status_from_u16 lib status of Some c \<Rightarrow> c | None \<Rightarrow> 403),
                rs_headers = header_insert ''x-icap-action'' ''adapted'' (apply_response_headers lib hs []),
                rs_body = body\<rparr>
      | Inl e \<Rightarrow>
          (case icap of
             None \<Rightarrow> None
           | Some client \<Rightarrow>
               (if ic_fail_open (ik_cfg client) then None
                else Some (text_response 502 [(''x-icap-action'', ''error'')] (''502 Bad Gateway: icap: '' @ e)))))"

definition run_icap_reqmod ::
  "('c, 'l) pipe_lib \<Rightarrow> icap_service \<Rightarrow> icap_client option \<Rightarrow> string \<Rightarrow> string \<Rightarrow> headers \<Rightarrow> string \<Rightarrow> response option option" where
  "run_icap_reqmod lib service icap meth url hs body =
     (case icap of
        None \<Rightarrow> Some None
      | Some client \<Rightarrow>
          (if \<not> ic_reqmod (ik_cfg client) then Some None
           else map_option (icap_to_response (pl_http lib) icap)
                  (reqmod (pl_url_parts lib) service client meth url hs body)))"

definition run_icap_respmod ::
  "('c, 'l) pipe_lib \<Rightarrow> icap_service \<Rightarrow> icap_client option \<Rightarrow> string \<Rightarrow> string \<Rightarrow> headers \<Rightarrow> nat \<Rightarrow> headers \<Rightarrow> string \<Rightarrow>
   (nat \<times> headers \<times> string) option option" where
  "run_icap_respmod lib service icap meth url req_hs status resp_hs body =
     (case icap of
        None \<Rightarrow> Some None
      | Some client \<Rightarrow>
          (if \<not> ic_respmod (ik_cfg client) then Some None
           else
             (case respmod (pl_url_parts lib) service client meth url req_hs status resp_hs body of
                None \<Rightarrow> None
              | Some (Inr IcapAllow) \<Rightarrow> Some None
              | Some (Inr (IcapResponse st hs b)) \<Rightarrow> Some (Some (st, hs, b))
              | Some (Inl e) \<Rightarrow>
                  (if ic_fail_open (ik_cfg client) then Some None
                   else Some (Some (502, [(''content-type'', ''text/plain; charset=utf-8'')],
                                    ''502 Bad Gateway: icap: '' @ e))))))"

subsection \<open>The caches\<close>

definition generate_cache_key :: "('c, 'l) pipe_lib \<Rightarrow> string \<Rightarrow> string \<Rightarrow> string" where
  "generate_cache_key lib meth url = http_cache_key (pl_sha256 lib) (pl_hex lib) meth url"

definition l1_lookup :: "('c, 'l) pipe_lib \<Rightarrow> string \<Rightarrow> ('re, 'c, 's) proxy_state \<Rightarrow> cached_response option option" where
  "l1_lookup lib key s =
     (case l1_get (pl_qc lib) (pl_hash lib) (ps_l1 s) key of Inr r \<Rightarrow> Some r | Inl _ \<Rightarrow> None)"

definition announce_key :: "(bytes \<Rightarrow> bytes) \<Rightarrow> string \<Rightarrow> hierarchy_manager \<Rightarrow> hierarchy_manager" where
  "announce_key sha key m =
     m\<lparr>hmg_digest_registry :=
         map_option (\<lambda>r. case insert_cache_key sha key r of Some r' \<Rightarrow> r' | None \<Rightarrow> r) (hmg_digest_registry m)\<rparr>"

definition store_in_l1_and_l2 ::
  "('c, 'l) pipe_lib \<Rightarrow> ('re, 'c, 's, 'a) pipe_io \<Rightarrow> proxy_config \<Rightarrow> time \<Rightarrow> string \<Rightarrow> cached_response \<Rightarrow>
   ('re, 'c, 's) proxy_state \<Rightarrow> ('re, 'c, 's) proxy_state" where
  "store_in_l1_and_l2 lib io cfg now key cached s =
     (let s1 = s\<lparr>ps_l1 := l1_insert (pl_qc lib) (pl_hash lib) key cached (ps_l1 s),
                 ps_hierarchy := map_option (announce_key (sn_sha256 (io_net io)) key) (ps_hierarchy s)\<rparr>
      in case cg_l2_prefix cfg of
           None \<Rightarrow> s1
         | Some p \<Rightarrow> s1\<lparr>ps_redis := l2_set (pl_l2 lib) (io_l2_set_up io) now p key cached (ps_redis s1)\<rparr>)"

definition try_l2_cache_get ::
  "('c, 'l) pipe_lib \<Rightarrow> ('re, 'c, 's, 'a) pipe_io \<Rightarrow> proxy_config \<Rightarrow> string \<Rightarrow> ('re, 'c, 's) proxy_state \<Rightarrow>
   (cached_response option \<times> ('re, 'c, 's) proxy_state) option" where
  "try_l2_cache_get lib io cfg key s =
     (case cg_l2_prefix cfg of
        None \<Rightarrow> Some (None, s)
      | Some p \<Rightarrow>
          map_option (\<lambda>(r, db). (r, s\<lparr>ps_redis := db\<rparr>))
            (l2_get (pl_l2 lib) (io_l2_up io) (io_arrived io) p key (ps_redis s)))"

definition serve_l1_hit :: "('c, 'l) pipe_lib \<Rightarrow> cached_response \<Rightarrow> string \<Rightarrow> reply" where
  "serve_l1_hit lib cached x_cache_status =
     Full (to_response_with_cache_status (pl_codec lib) (pl_http lib) x_cache_status cached)"

text \<open>The builder appends, so the client's own conditions stay in front.\<close>

definition build_conditional_request :: "http_lib \<Rightarrow> http_request \<Rightarrow> cached_response \<Rightarrow> outgoing option" where
  "build_conditional_request lib req cached =
     do { e \<leftarrow> (case cr_etag cached of
                  None \<Rightarrow> Some [] | Some t \<Rightarrow> map_option (\<lambda>v. [(''if-none-match'', v)]) (header_value_from_str lib t));
          l \<leftarrow> (case cr_last_modified cached of
                  None \<Rightarrow> Some [] | Some t \<Rightarrow> map_option (\<lambda>v. [(''if-modified-since'', v)]) (header_value_from_str lib t));
          Some \<lparr>og_method = rq_method req, og_uri = rq_uri req, og_headers = rq_headers req @ e @ l, og_body = []\<rparr> }"

definition try_revalidate_stale ::
  "('c, 'l) pipe_lib \<Rightarrow> ('re, 'c, 's, 'a) pipe_io \<Rightarrow> proxy_config \<Rightarrow> http_request \<Rightarrow> string \<Rightarrow> cached_response \<Rightarrow>
   ('re, 'c, 's) proxy_state \<Rightarrow> reply option \<times> ('re, 'c, 's) proxy_state" where
  "try_revalidate_stale lib io cfg req key cached s =
     (if \<not> cc_honor_cache_control (cg_cache cfg) \<or> \<not> has_validators cached then (None, s)
      else
        (case build_conditional_request (pl_http lib) req cached of
           None \<Rightarrow> (None, s)
         | Some cond_req \<Rightarrow>
             (let s1 = io_others io Revalidating (s\<lparr>ps_sent := cond_req # ps_sent s\<rparr>) in
              case io_origin io cond_req of
                Inl _ \<Rightarrow> (None, s1)
              | Inr response \<Rightarrow>
                  (if ur_status response = 304 then
                     (let ttl = refresh_ttl_from_headers (headers_map_from_response (pl_to_str lib) response)
                                  (cc_default_ttl (cg_cache cfg));
                          refreshed = refreshed_after_not_modified (io_answered io) ttl cached
                      in (Some (serve_l1_hit lib refreshed ''REVALIDATED''),
                          store_in_l1_and_l2 lib io cfg (io_answered io) key refreshed s1))
                   else (None, s1)))))"

text \<open>The look-up in both caches; \<open>negative_label\<close> is what a fresh entry of the first cache that is
  negative is called.\<close>

definition l1_serve ::
  "('c, 'l) pipe_lib \<Rightarrow> ('re, 'c, 's, 'a) pipe_io \<Rightarrow> proxy_config \<Rightarrow> string \<Rightarrow> http_request \<Rightarrow> string \<Rightarrow>
   cached_response option \<Rightarrow> ('re, 'c, 's) proxy_state \<Rightarrow> reply option \<times> ('re, 'c, 's) proxy_state" where
  "l1_serve lib io cfg negative_label req key found s =
     (case found of
        None \<Rightarrow> (None, s)
      | Some cached \<Rightarrow>
          (if can_serve_fresh (io_arrived io) cached
           then (Some (serve_l1_hit lib cached (if cr_is_negative cached then negative_label else ''HIT'')), s)
           else try_revalidate_stale lib io cfg req key cached s))"

definition l2_serve ::
  "('c, 'l) pipe_lib \<Rightarrow> ('re, 'c, 's, 'a) pipe_io \<Rightarrow> proxy_config \<Rightarrow> string \<Rightarrow>
   ('re, 'c, 's) proxy_state \<Rightarrow> (reply option \<times> ('re, 'c, 's) proxy_state) option" where
  "l2_serve lib io cfg key s =
     do { (found, s1) \<leftarrow> try_l2_cache_get lib io cfg key s;
          Some (case found of
            None \<Rightarrow> (None, s1)
          | Some cached \<Rightarrow>
              (Some (serve_l1_hit lib cached (if cr_is_negative cached then ''NEGATIVE-HIT'' else ''L2-HIT'')),
               s1\<lparr>ps_l1 := l1_insert (pl_qc lib) (pl_hash lib) key cached (ps_l1 s1)\<rparr>)) }"

definition cache_lookup ::
  "('c, 'l) pipe_lib \<Rightarrow> ('re, 'c, 's, 'a) pipe_io \<Rightarrow> proxy_config \<Rightarrow> string \<Rightarrow> http_request \<Rightarrow> string \<Rightarrow>
   ('re, 'c, 's) proxy_state \<Rightarrow> (reply option \<times> ('re, 'c, 's) proxy_state) option" where
  "cache_lookup lib io cfg negative_label req key s =
     do { found \<leftarrow> l1_lookup lib key s;
          case l1_serve lib io cfg negative_label req key found s of
            (Some reply, s1) \<Rightarrow> Some (Some reply, s1)
          | (None, s1) \<Rightarrow> l2_serve lib io cfg key s1 }"

definition try_serve_cache_before_policy ::
  "('c, 'l) pipe_lib \<Rightarrow> ('re, 'c, 's, 'a) pipe_io \<Rightarrow> proxy_config \<Rightarrow> http_request \<Rightarrow> string \<Rightarrow>
   ('re, 'c, 's) proxy_state \<Rightarrow> (reply option \<times> ('re, 'c, 's) proxy_state) option" where
  "try_serve_cache_before_policy lib io cfg req key s = cache_lookup lib io cfg ''NEGATIVE-HIT'' req key s"

subsection \<open>The end of a miss\<close>

text \<open>\<open>llm\<close> is the normalised body of a prompt, when the miss is one.\<close>

definition index_prompt ::
  "('c, 'l) pipe_lib \<Rightarrow> ('re, 'c, 's, 'a) pipe_io \<Rightarrow> proxy_config \<Rightarrow> string option \<Rightarrow> string \<Rightarrow> semantic_index \<Rightarrow> semantic_index" where
  "index_prompt lib io cfg llm key ix =
     (case llm of
        None \<Rightarrow> ix
      | Some normalized \<Rightarrow>
          (case embed (pl_token_hash lib) (pl_tokens lib) (io_embed io) (cg_semantic cfg)
                  (extract_embed_text (pl_json lib) (pl_lossy lib) normalized) of
             Inl _ \<Rightarrow> ix
           | Inr emb \<Rightarrow> snd (semantic_insert (io_vector_upsert io) emb key ix)))"

definition complete_cache_miss ::
  "('c, 'l) pipe_lib \<Rightarrow> ('re, 'c, 's, 'a) pipe_io \<Rightarrow> proxy_config \<Rightarrow> string option \<Rightarrow> time \<Rightarrow> string \<Rightarrow> nat \<Rightarrow> headers \<Rightarrow>
   string \<Rightarrow> cache_store_decision \<Rightarrow> bool \<Rightarrow> cache_peer option \<Rightarrow> ('re, 'c, 's) proxy_state \<Rightarrow> ('re, 'c, 's) proxy_state" where
  "complete_cache_miss lib io cfg llm now key status hs body decision stored peer s =
     (let s1 = (case peer of
                  None \<Rightarrow> s
                | Some p \<Rightarrow>
                    s\<lparr>ps_hierarchy := map_option (\<lambda>m. m\<lparr>hmg_peer_registry :=
                         record_peer_hit now (cp_id p) (length body) (hmg_peer_registry m)\<rparr>) (ps_hierarchy s)\<rparr>)
      in if stored \<and> sd_store decision then
           (let cached = from_upstream (pl_codec lib) (pl_spill_io lib) now status hs body (sd_ttl decision)
                           (cc_compression (cg_cache cfg)) (cc_spill_threshold_bytes (cg_cache cfg))
                           (sd_etag decision) (sd_last_modified decision) (sd_is_negative decision)
                           (sd_must_revalidate decision);
                s2 = store_in_l1_and_l2 lib io cfg now key cached s1
            in s2\<lparr>ps_semantic := index_prompt lib io cfg llm key (ps_semantic s2),
                  ps_flights := complete key (Some cached) (ps_flights s2)\<rparr>)
         else s1\<lparr>ps_flights := complete key None (ps_flights s1)\<rparr>)"

subsection \<open>Request bodies\<close>

definition stream_error_text :: "stream_error \<Rightarrow> string" where
  "stream_error_text e = (case e of Upstream t \<Rightarrow> t | Violation v \<Rightarrow> dlp_violation_display v)"

definition body_error_response :: "stream_error \<Rightarrow> response" where
  "body_error_response e =
     (if text_contains (stream_error_text e) ''DLP Violation''
      then plain 403 ''403 Forbidden: DLP Violation'' else plain 400 ''400 Bad Request'')"

definition collect_request_body ::
  "('c, 'l) pipe_lib \<Rightarrow> proxy_config \<Rightarrow> http_request \<Rightarrow> response + string" where
  "collect_request_body lib cfg req =
     (case dlp_collect (pl_search lib) (cg_dlp cfg) (rq_body req) of
        Inl e \<Rightarrow> Inl (body_error_response e)
      | Inr b \<Rightarrow> Inr (byte_chars b))"

subsection \<open>Prompts\<close>

definition near_key ::
  "('c, 'l) pipe_lib \<Rightarrow> ('re, 'c, 's, 'a) pipe_io \<Rightarrow> proxy_config \<Rightarrow> string \<Rightarrow> ('re, 'c, 's) proxy_state \<Rightarrow> string option" where
  "near_key lib io cfg normalized s =
     (if \<not> near_hit_enabled (cg_semantic cfg) then None
      else
        (case embed (pl_token_hash lib) (pl_tokens lib) (io_embed io) (cg_semantic cfg)
                (extract_embed_text (pl_json lib) (pl_lossy lib) normalized) of
           Inl _ \<Rightarrow> None
         | Inr emb \<Rightarrow>
             (case find_similar (io_vector_search io) emb (sm_similarity_threshold (cg_semantic cfg)) (ps_semantic s) of
                Inr (Some k) \<Rightarrow> Some k
              | _ \<Rightarrow> None)))"

definition fresh_l1 ::
  "('c, 'l) pipe_lib \<Rightarrow> ('re, 'c, 's, 'a) pipe_io \<Rightarrow> string \<Rightarrow> ('re, 'c, 's) proxy_state \<Rightarrow> cached_response option option" where
  "fresh_l1 lib io key s =
     map_option (\<lambda>found. case found of
         Some c \<Rightarrow> if can_serve_fresh (io_arrived io) c then Some c else None
       | None \<Rightarrow> None) (l1_lookup lib key s)"

text \<open>The answer, or the key, the body and its normal form to go on with.\<close>

definition llm_lookup ::
  "('c, 'l) pipe_lib \<Rightarrow> ('re, 'c, 's, 'a) pipe_io \<Rightarrow> proxy_config \<Rightarrow> http_request \<Rightarrow> ('re, 'c, 's) proxy_state \<Rightarrow>
   (string \<times> string \<times> string) flow option" where
  "llm_lookup lib io cfg req s =
     (case collect_request_body lib cfg req of
        Inl r \<Rightarrow> Some (Return (Full r))
      | Inr body \<Rightarrow>
          (let normalized = normalize_llm_body (pl_json lib) body;
               key = content_cache_key (\<lambda>t. pl_hex lib (pl_sha256 lib t)) (rq_method req) (rq_uri req) normalized
           in do { exact \<leftarrow> fresh_l1 lib io key s;
                   case exact of
                     Some cached \<Rightarrow> Some (Return (serve_l1_hit lib cached ''LLM-HIT''))
                   | None \<Rightarrow>
                       (case near_key lib io cfg normalized s of
                          None \<Rightarrow> Some (Continue (key, body, normalized))
                        | Some k \<Rightarrow>
                            do { near \<leftarrow> fresh_l1 lib io k s;
                                 Some (case near of
                                   Some cached \<Rightarrow> Return (serve_l1_hit lib cached ''SEMANTIC-HIT'')
                                 | None \<Rightarrow> Continue (key, body, normalized)) }) }))"

subsection \<open>Coalescing\<close>

text \<open>The answer, or whether this request leads the flight.\<close>

definition join_miss ::
  "('c, 'l) pipe_lib \<Rightarrow> ('re, 'c, 's, 'a) pipe_io \<Rightarrow> string \<Rightarrow> ('re, 'c, 's) proxy_state \<Rightarrow>
   (bool flow \<times> ('re, 'c, 's) proxy_state) option" where
  "join_miss lib io key s =
     (case join_flight key (ps_flights s) of
        (Leader _, flights) \<Rightarrow> Some (Continue True, s\<lparr>ps_flights := flights\<rparr>)
      | (Follower _, flights) \<Rightarrow>
          (let s1 = io_others io Waiting (s\<lparr>ps_flights := flights\<rparr>) in
           case io_waited io of
             Some cached \<Rightarrow> Some (Return (serve_l1_hit lib cached ''COALESCED-HIT''), s1)
           | None \<Rightarrow>
               do { found \<leftarrow> fresh_l1 lib io key s1;
                    Some (case found of
                      Some cached \<Rightarrow> (Return (serve_l1_hit lib cached ''HIT''), s1)
                    | None \<Rightarrow> (Continue False, s1)) }))"

definition coalesce ::
  "('c, 'l) pipe_lib \<Rightarrow> ('re, 'c, 's, 'a) pipe_io \<Rightarrow> proxy_config \<Rightarrow> http_request \<Rightarrow> ('re, 'c, 's) proxy_state \<Rightarrow>
   (bool flow \<times> ('re, 'c, 's) proxy_state) option" where
  "coalesce lib io cfg req s =
     (if px_miss_coalesce_enabled (cg_perf cfg) \<and> List.member cacheable_methods (rq_method req)
      then join_miss lib io (generate_cache_key lib (rq_method req) (rq_uri req)) s
      else Some (Continue False, s))"

definition give_up :: "bool \<Rightarrow> string \<Rightarrow> ('re, 'c, 's) proxy_state \<Rightarrow> ('re, 'c, 's) proxy_state" where
  "give_up leads key s = (if leads then s\<lparr>ps_flights := complete key None (ps_flights s)\<rparr> else s)"

subsection \<open>Fetching\<close>

fun collect_upstream_body :: "(string + body_frame) list \<Rightarrow> string + string" where
  "collect_upstream_body [] = Inr []"
| "collect_upstream_body (Inl e # rest) = Inl e"
| "collect_upstream_body (Inr f # rest) =
     (case collect_upstream_body rest of Inl e \<Rightarrow> Inl e | Inr b \<Rightarrow> Inr (frame_bytes f @ b))"

definition miss_decision ::
  "proxy_config \<Rightarrow> bool \<Rightarrow> string \<Rightarrow> nat \<Rightarrow> headers \<Rightarrow> nat \<Rightarrow> cache_store_decision" where
  "miss_decision cfg llm meth status hs n =
     (if llm then evaluate_llm_store status n (cc_max_body_size (cg_cache cfg)) (sm_ttl (cg_semantic cfg))
      else evaluate_store meth status hs n (cg_cache cfg))"

definition stream_miss ::
  "('c, 'l) pipe_lib \<Rightarrow> ('re, 'c, 's, 'a) pipe_io \<Rightarrow> proxy_config \<Rightarrow> string option \<Rightarrow> string \<Rightarrow> string \<Rightarrow>
   upstream_response \<Rightarrow> cache_peer option \<Rightarrow> ('re, 'c, 's) proxy_state \<Rightarrow> reply \<times> ('re, 'c, 's) proxy_state" where
  "stream_miss lib io cfg llm key meth response peer s =
     (let status = ur_status response;
          hm = headers_map_from_response (pl_to_str lib) response;
          precheck = (if llm \<noteq> None then miss_decision cfg True meth status hm 0
                      else evaluate_store_precheck meth status hm (cg_cache cfg));
          x_cache = (if llm \<noteq> None \<and> sd_store precheck then ''LLM-MISS-STREAMING''
                     else miss_x_cache_status_header True precheck);
          (forwarded, body, stored) =
            spawn_upstream_drain (sd_store precheck) (cc_max_body_size (cg_cache cfg)) (io_sends io) (ur_body response);
          decision = (if \<not> stored then decision_bypass
                      else miss_decision cfg (llm \<noteq> None) meth status hm (length body))
      in (Streamed status (attach_x_cache_status (pl_http lib) x_cache (apply_response_headers (pl_http lib) hm [])) forwarded,
          complete_cache_miss lib io cfg llm (io_completed io) key status hm body decision (stored \<and> sd_store decision) peer
            (io_others io Streaming s)))"

definition buffer_miss ::
  "('c, 'l) pipe_lib \<Rightarrow> ('re, 'c, 's, 'a) pipe_io \<Rightarrow> proxy_config \<Rightarrow> string option \<Rightarrow> bool \<Rightarrow> string \<Rightarrow> string \<Rightarrow> string \<Rightarrow>
   headers \<Rightarrow> upstream_response \<Rightarrow> cache_peer option \<Rightarrow> ('re, 'c, 's) proxy_state \<Rightarrow>
   (reply \<times> ('re, 'c, 's) proxy_state) option" where
  "buffer_miss lib io cfg llm leads key meth url req_hs response peer s =
     (let s1 = io_others io Streaming s;
          hm = headers_map_from_response (pl_to_str lib) response in
      case collect_upstream_body (ur_body response) of
        Inl _ \<Rightarrow> Some (Full (plain 502 ''502 Bad Gateway''), give_up leads key s1)
      | Inr body \<Rightarrow>
          do { adapted \<leftarrow> run_icap_respmod lib (io_icap io) (cg_icap cfg) meth url req_hs (ur_status response) hm body;
               let (status_code, hm, body) = (case adapted of Some a \<Rightarrow> a | None \<Rightarrow> (ur_status response, hm, body));
               let decision = miss_decision cfg (llm \<noteq> None) meth status_code hm (length body);
               let label = (if llm \<noteq> None \<and> sd_store decision then ''LLM-MISS''
                            else miss_x_cache_status_header False decision);
               Some (Full \<lparr>rs_status = (case status_from_u16 (pl_http lib) status_code of Some c \<Rightarrow> c | None \<Rightarrow> 200),
                           rs_headers = attach_x_cache_status (pl_http lib) label
                                          (apply_response_headers (pl_http lib) hm []),
                           rs_body = body\<rparr>,
                     complete_cache_miss lib io cfg llm (io_completed io) key status_code hm body decision
                       (sd_store decision) peer s1) })"

text \<open>A peer of the hierarchy for anything but a prompt, else the origin.\<close>

definition fetch ::
  "('re, 'c, 's, 'a) pipe_io \<Rightarrow> bool \<Rightarrow> outgoing \<Rightarrow> ('re, 'c, 's) proxy_state \<Rightarrow>
   ((string + cache_peer option \<times> upstream_response) \<times> ('re, 'c, 's) proxy_state) option" where
  "fetch io llm out s =
     (let s1 = s\<lparr>ps_sent := out # ps_sent s\<rparr> in
      do { (from_peer, h) \<leftarrow>
             (if llm then Some (None, ps_hierarchy s1)
              else try_fetch_via_hierarchy (io_net io) (\<lambda>p. io_peer io p out) (og_method out) (og_uri out) (ps_hierarchy s1));
           Some (case from_peer of
                   Some (p, r) \<Rightarrow> Inr (Some p, r)
                 | None \<Rightarrow> (case io_origin io out of Inl e \<Rightarrow> Inl e | Inr r \<Rightarrow> Inr (None, r)),
                 io_others io Fetching (s1\<lparr>ps_hierarchy := h\<rparr>)) })"

definition finish_fetch ::
  "('c, 'l) pipe_lib \<Rightarrow> ('re, 'c, 's, 'a) pipe_io \<Rightarrow> proxy_config \<Rightarrow> string option \<Rightarrow> bool \<Rightarrow> string \<Rightarrow> http_request \<Rightarrow>
   string + cache_peer option \<times> upstream_response \<Rightarrow> ('re, 'c, 's) proxy_state \<Rightarrow>
   (reply \<times> ('re, 'c, 's) proxy_state) option" where
  "finish_fetch lib io cfg llm leads key req result s =
     (case result of
        Inl _ \<Rightarrow> Some (Full (plain 502 ''502 Bad Gateway''), give_up leads key s)
      | Inr (peer, response) \<Rightarrow>
          (if px_streaming_miss_enabled (cg_perf cfg)
           then Some (stream_miss lib io cfg llm key (rq_method req) response peer s)
           else buffer_miss lib io cfg llm leads key (rq_method req) (rq_uri req)
                  (headers_map (pl_to_str lib) (rq_headers req)) response peer s))"

definition miss_body ::
  "('c, 'l) pipe_lib \<Rightarrow> proxy_config \<Rightarrow> (string \<times> string) option \<Rightarrow> http_request \<Rightarrow> response + string" where
  "miss_body lib cfg early req =
     (case early of Some (body, _) \<Rightarrow> Inr body | None \<Rightarrow> collect_request_body lib cfg req)"

definition fetch_miss ::
  "('c, 'l) pipe_lib \<Rightarrow> ('re, 'c, 's, 'a) pipe_io \<Rightarrow> proxy_config \<Rightarrow> (string \<times> string) option \<Rightarrow> bool \<Rightarrow> string \<Rightarrow>
   http_request \<Rightarrow> ('re, 'c, 's) proxy_state \<Rightarrow> (reply \<times> ('re, 'c, 's) proxy_state) option" where
  "fetch_miss lib io cfg early leads key req s =
     (case miss_body lib cfg early req of
        Inl r \<Rightarrow> Some (Full r, give_up leads key s)
      | Inr body \<Rightarrow>
          do { adapted \<leftarrow> run_icap_reqmod lib (io_icap io) (cg_icap cfg) (rq_method req) (rq_uri req)
                 (headers_map (pl_to_str lib) (rq_headers req)) body;
               case adapted of
                 Some r \<Rightarrow> Some (Full r, give_up leads key s)
               | None \<Rightarrow>
                   do { (result, s1) \<leftarrow> fetch io (early \<noteq> None)
                          \<lparr>og_method = rq_method req, og_uri = rq_uri req, og_headers = rq_headers req, og_body = body\<rparr> s;
                        finish_fetch lib io cfg (map_option snd early) leads key req result s1 } })"

text \<open>After the policy has let the request pass.\<close>

definition serve_or_fetch ::
  "('c, 'l) pipe_lib \<Rightarrow> ('re, 'c, 's, 'a) pipe_io \<Rightarrow> proxy_config \<Rightarrow> http_request \<Rightarrow> ('re, 'c, 's) proxy_state \<Rightarrow>
   (reply \<times> ('re, 'c, 's) proxy_state) option" where
  "serve_or_fetch lib io cfg req s =
     (if applies (cg_semantic cfg) (rq_method req) (rq_uri req) then
        do { looked \<leftarrow> llm_lookup lib io cfg req s;
             case looked of
               Return r \<Rightarrow> Some (r, s)
             | Continue (key, body, normalized) \<Rightarrow> fetch_miss lib io cfg (Some (body, normalized)) False key req s }
      else
        do { (hit, s1) \<leftarrow> cache_lookup lib io cfg ''HIT'' req (generate_cache_key lib (rq_method req) (rq_uri req)) s;
             case hit of
               Some r \<Rightarrow> Some (r, s1)
             | None \<Rightarrow>
                 do { (joined, s2) \<leftarrow> coalesce lib io cfg req s1;
                      case joined of
                        Return r \<Rightarrow> Some (r, s2)
                      | Continue leads \<Rightarrow>
                          fetch_miss lib io cfg None leads (generate_cache_key lib (rq_method req) (rq_uri req)) req s2 } })"

text \<open>The judgements before the caches: the limiter, the plug-in and the policy.\<close>

definition user_groups :: "user_info option \<Rightarrow> string list" where
  "user_groups proxy_user = (case proxy_user of Some u \<Rightarrow> ui_groups u | None \<Rightarrow> [])"

definition limit_verdict ::
  "('c, 'l) pipe_lib \<Rightarrow> ('re, 'c, 's, 'a) pipe_io \<Rightarrow> http_request \<Rightarrow> string \<Rightarrow> user_info option \<Rightarrow>
   ('re, 'c, 's) proxy_state \<Rightarrow> response option \<times> rate_limiter" where
  "limit_verdict lib io req client_ip proxy_user s =
     check_rate_limit (pl_to_str lib) (io_evict io) (io_arrived io) client_ip (request_username lib proxy_user req)
       (rq_headers req) (ps_limiter s)"

definition hook_verdict ::
  "('c, 'l) pipe_lib \<Rightarrow> proxy_config \<Rightarrow> http_request \<Rightarrow> string \<Rightarrow> user_info option \<Rightarrow> response option \<times> headers" where
  "hook_verdict lib cfg req client_ip proxy_user =
     run_wasm_hook (pl_http lib) (pl_to_str lib) (cg_wasm cfg) (rq_method req) (rq_uri req) client_ip
       (request_username lib proxy_user req) (rq_headers req)"

definition policy_verdict ::
  "('c, 'l) pipe_lib \<Rightarrow> ('re, 'c, 's, 'a) pipe_io \<Rightarrow> http_request \<Rightarrow> string \<Rightarrow> user_info option \<Rightarrow>
   ('re, 'c, 's) proxy_state \<Rightarrow> (acl_decision option \<times> string list \<times> string list) \<times> 're policy_service" where
  "policy_verdict lib io req client_ip proxy_user s =
     check_policy (io_policy io) (rq_uri req) (extract_domain (pl_url_host lib) (rq_uri req))
       (request_username lib proxy_user req) (user_groups proxy_user) client_ip (ps_policy s)"

definition judge_and_serve ::
  "('c, 'l) pipe_lib \<Rightarrow> ('re, 'c, 's, 'a) pipe_io \<Rightarrow> proxy_config \<Rightarrow> http_request \<Rightarrow> string \<Rightarrow> user_info option \<Rightarrow>
   ('re, 'c, 's) proxy_state \<Rightarrow> (reply \<times> ('re, 'c, 's) proxy_state) option" where
  "judge_and_serve lib io cfg req client_ip proxy_user s =
     (case hook_verdict lib cfg req client_ip proxy_user of
        (Some r, _) \<Rightarrow> Some (Full r, s)
      | (None, hs) \<Rightarrow>
          (case policy_verdict lib io req client_ip proxy_user s of
             ((Some d, _), sv) \<Rightarrow>
               Some (Full (policy_response (\<lambda>t. header_value_from_str (pl_http lib) t \<noteq> None) d), s\<lparr>ps_policy := sv\<rparr>)
           | ((None, _), sv) \<Rightarrow> serve_or_fetch lib io cfg (req\<lparr>rq_headers := hs\<rparr>) (s\<lparr>ps_policy := sv\<rparr>)))"

definition fast_lookup ::
  "('c, 'l) pipe_lib \<Rightarrow> ('re, 'c, 's, 'a) pipe_io \<Rightarrow> proxy_config \<Rightarrow> http_request \<Rightarrow>
   ('re, 'c, 's) proxy_state \<Rightarrow> (reply option \<times> ('re, 'c, 's) proxy_state) option" where
  "fast_lookup lib io cfg req s =
     (if px_fast_cache_hit (cg_perf cfg) \<and> \<not> applies (cg_semantic cfg) (rq_method req) (rq_uri req)
      then try_serve_cache_before_policy lib io cfg req (generate_cache_key lib (rq_method req) (rq_uri req)) s
      else Some (None, s))"

definition handle_passed ::
  "('c, 'l) pipe_lib \<Rightarrow> ('re, 'c, 's, 'a) pipe_io \<Rightarrow> proxy_config \<Rightarrow> http_request \<Rightarrow> string \<Rightarrow> user_info option \<Rightarrow>
   ('re, 'c, 's) proxy_state \<Rightarrow> (reply \<times> ('re, 'c, 's) proxy_state) option" where
  "handle_passed lib io cfg req client_ip proxy_user s =
     (case limit_verdict lib io req client_ip proxy_user s of
        (Some r, limiter) \<Rightarrow> Some (Full r, s\<lparr>ps_limiter := limiter\<rparr>)
      | (None, limiter) \<Rightarrow>
          do { (fast, s1) \<leftarrow> fast_lookup lib io cfg req (s\<lparr>ps_limiter := limiter\<rparr>);
               case fast of
                 Some r \<Rightarrow> Some (r, s1)
               | None \<Rightarrow> judge_and_serve lib io cfg req client_ip proxy_user s1 })"

definition handle_request ::
  "('c, 'l) pipe_lib \<Rightarrow> ('re, 'c, 's, 'a) pipe_io \<Rightarrow> proxy_config \<Rightarrow> http_request \<Rightarrow> string \<Rightarrow> user_info option \<Rightarrow>
   ('re, 'c, 's) proxy_state \<Rightarrow> (reply \<times> ('re, 'c, 's) proxy_state) option" where
  "handle_request lib io cfg req client_ip proxy_user s =
     (case ps_reverse s of
        None \<Rightarrow> handle_passed lib io cfg req client_ip proxy_user s
      | Some rp \<Rightarrow>
          do { (g, rp', auth) \<leftarrow> reverse_gate (pl_http lib) (pl_auth lib) (pl_ldap lib) (pl_to_str lib) (pl_parse_uri lib)
                 (pl_jwt lib) (io_idp io) (io_gate io) req rp (ps_auth s);
               let s1 = s\<lparr>ps_reverse := Some rp', ps_auth := auth\<rparr>;
               case g of
                 Respond r \<Rightarrow> Some (Full r, s1)
               | Pass req' user \<Rightarrow>
                   handle_passed lib io cfg req' client_ip (case user of Some u \<Rightarrow> Some u | None \<Rightarrow> proxy_user) s1 })"

section \<open>Lemmas\<close>

subsection \<open>What an operation leaves alone\<close>

lemma try_revalidate_stale_cases:
  obtains "try_revalidate_stale lib io cfg req key cached s = (None, s)"
  | cond where "build_conditional_request (pl_http lib) req cached = Some cond"
      "try_revalidate_stale lib io cfg req key cached s =
         (None, io_others io Revalidating (s\<lparr>ps_sent := cond # ps_sent s\<rparr>))"
  | cond response ttl where "build_conditional_request (pl_http lib) req cached = Some cond"
      "io_origin io cond = Inr response" "ur_status response = 304"
      "try_revalidate_stale lib io cfg req key cached s =
         (Some (serve_l1_hit lib (refreshed_after_not_modified (io_answered io) ttl cached) ''REVALIDATED''),
          store_in_l1_and_l2 lib io cfg (io_answered io) key (refreshed_after_not_modified (io_answered io) ttl cached)
            (io_others io Revalidating (s\<lparr>ps_sent := cond # ps_sent s\<rparr>)))"
proof (cases "build_conditional_request (pl_http lib) req cached")
  case None
  then show ?thesis using that(1) by (simp add: try_revalidate_stale_def)
next
  case (Some cond)
  show ?thesis
  proof (cases "cc_honor_cache_control (cg_cache cfg) \<and> has_validators cached")
    case False
    then show ?thesis using that(1) by (auto simp: try_revalidate_stale_def)
  next
    case True
    show ?thesis
    proof (cases "\<exists>response. io_origin io cond = Inr response \<and> ur_status response = 304")
      case True
      with \<open>_ \<and> _\<close> Some that(3) show ?thesis by (auto simp: try_revalidate_stale_def Let_def)
    next
      case False
      with \<open>_ \<and> _\<close> Some that(2) show ?thesis
        by (cases "io_origin io cond") (auto simp: try_revalidate_stale_def Let_def)
    qed
  qed
qed

lemma store_fields [simp]:
  "ps_sent (store_in_l1_and_l2 lib io cfg now key c s) = ps_sent s"
  "ps_flights (store_in_l1_and_l2 lib io cfg now key c s) = ps_flights s"
  "ps_semantic (store_in_l1_and_l2 lib io cfg now key c s) = ps_semantic s"
  "ps_l1 (store_in_l1_and_l2 lib io cfg now key c s) = l1_insert (pl_qc lib) (pl_hash lib) key c (ps_l1 s)"
  by (simp_all add: store_in_l1_and_l2_def Let_def split: option.splits)

lemma give_up_fields [simp]:
  "ps_l1 (give_up leads key s) = ps_l1 s" "ps_sent (give_up leads key s) = ps_sent s"
  by (simp_all add: give_up_def)

lemma complete_cache_miss_l1:
  "ps_l1 (complete_cache_miss lib io cfg llm now key status hs body d stored peer s) =
     (if stored \<and> sd_store d
      then l1_insert (pl_qc lib) (pl_hash lib) key
             (from_upstream (pl_codec lib) (pl_spill_io lib) now status hs body (sd_ttl d)
                (cc_compression (cg_cache cfg)) (cc_spill_threshold_bytes (cg_cache cfg)) (sd_etag d)
                (sd_last_modified d) (sd_is_negative d) (sd_must_revalidate d)) (ps_l1 s)
      else ps_l1 s)"
  by (simp add: complete_cache_miss_def Let_def split: option.splits)

lemma complete_cache_miss_flights:
  "\<exists>result. ps_flights (complete_cache_miss lib io cfg llm now key status hs body d stored peer s) =
     complete key result (ps_flights s)"
  by (auto simp: complete_cache_miss_def Let_def split: option.splits)

lemma complete_cache_miss_sent [simp]:
  "ps_sent (complete_cache_miss lib io cfg llm now key status hs body d stored peer s) = ps_sent s"
  by (simp add: complete_cache_miss_def Let_def split: option.splits)

subsection \<open>Headers\<close>

lemma fold_map_last:
  "map_of (fold (\<lambda>(k, v) m. case to_str v of Some t \<Rightarrow> AList.update k t m | None \<Rightarrow> m) hs m) n =
     (case List.map_filter (\<lambda>(k, v). if k = n then to_str v else None) hs of
        [] \<Rightarrow> map_of m n | xs \<Rightarrow> Some (last xs))"
proof (induction hs arbitrary: m)
  case (Cons p hs)
  obtain k v where p: "p = (k, v)" by (cases p)
  show ?case
    by (cases "to_str v"; cases "k = n")
      (auto simp: p Cons List.map_filter_simps update_conv' split: list.splits)
qed (simp add: List.map_filter_simps)

lemma map_filter_app: "List.map_filter f (xs @ ys) = List.map_filter f xs @ List.map_filter f ys"
  by (simp add: List.map_filter_def)

lemma headers_map_get:
  "map_of (headers_map to_str hs) n =
     (case List.map_filter (\<lambda>(k, v). if k = n then to_str v else None) hs of [] \<Rightarrow> None | xs \<Rightarrow> Some (last xs))"
  by (auto simp: headers_map_def fold_map_last split: list.splits)

lemma headers_map_distinct [simp]: "distinct (map fst (headers_map to_str hs))"
proof -
  have "distinct (map fst m) \<Longrightarrow>
    distinct (map fst (fold (\<lambda>(k, v) m. case to_str v of Some t \<Rightarrow> AList.update k t m | None \<Rightarrow> m) hs m))" for m
    by (induction hs arbitrary: m) (auto simp: distinct_update split: option.splits)
  then show ?thesis by (simp add: headers_map_def)
qed

lemma headers_map_keys: "fst ` set (headers_map to_str hs) \<subseteq> fst ` set hs"
proof -
  have "fst ` set (fold (\<lambda>(k, v) m. case to_str v of Some t \<Rightarrow> AList.update k t m | None \<Rightarrow> m) hs m) \<subseteq>
      fst ` set hs \<union> fst ` set m" for m
  proof (induction hs arbitrary: m)
    case (Cons p hs)
    obtain k v where p: "p = (k, v)" by (cases p)
    show ?case
    proof (cases "to_str v")
      case None
      with Cons [of m] p show ?thesis by auto
    next
      case (Some t)
      with Cons [of "AList.update k t m"] p show ?thesis by (auto simp: dom_update)
    qed
  qed simp
  from this [of "[]"] show ?thesis by (simp add: headers_map_def)
qed

subsection \<open>Well-formed state\<close>

definition pipe_inv :: "('c, 'l) pipe_lib \<Rightarrow> ('re, 'c, 's) proxy_state \<Rightarrow> bool" where
  "pipe_inv lib s \<longleftrightarrow> l1_inv (pl_qc lib) (pl_hash lib) (ps_l1 s) \<and> flights_inv (ps_flights s)"

definition others_keep :: "('c, 'l) pipe_lib \<Rightarrow> ('re, 'c, 's, 'a) pipe_io \<Rightarrow> bool" where
  "others_keep lib io \<longleftrightarrow> (\<forall>p s. pipe_inv lib s \<longrightarrow> pipe_inv lib (io_others io p s))"

lemma pipe_inv_cong:
  "ps_l1 s' = ps_l1 s \<Longrightarrow> ps_flights s' = ps_flights s \<Longrightarrow> pipe_inv lib s' = pipe_inv lib s"
  by (simp add: pipe_inv_def)

lemma l1_lookup_inv: "pipe_inv lib s \<Longrightarrow> l1_lookup lib key s = Some (l1_map (pl_qc lib) (pl_hash lib) (ps_l1 s) key)"
  using l1_inv_index by (auto simp: l1_lookup_def pipe_inv_def l1_get_def l1_map_def)

lemma pipe_inv_insert:
  "qc_law (pl_qc lib) \<Longrightarrow> pipe_inv lib s \<Longrightarrow>
     pipe_inv lib (s\<lparr>ps_l1 := l1_insert (pl_qc lib) (pl_hash lib) key c (ps_l1 s)\<rparr>)"
  by (simp add: pipe_inv_def l1_insert_inv)

lemma pipe_inv_store:
  "qc_law (pl_qc lib) \<Longrightarrow> pipe_inv lib s \<Longrightarrow> pipe_inv lib (store_in_l1_and_l2 lib io cfg now key c s)"
  by (simp add: pipe_inv_def l1_insert_inv)

lemma pipe_inv_give_up: "pipe_inv lib s \<Longrightarrow> pipe_inv lib (give_up leads key s)"
  by (simp add: pipe_inv_def give_up_def flights_complete)

lemma pipe_inv_complete:
  assumes "qc_law (pl_qc lib)" "pipe_inv lib s"
  shows "pipe_inv lib (complete_cache_miss lib io cfg llm now key status hs body d stored peer s)"
  using assms complete_cache_miss_flights [of lib io cfg llm now key status hs body d stored peer s]
  by (auto simp: pipe_inv_def complete_cache_miss_l1 l1_insert_inv flights_complete)

lemma pipe_inv_sent [simp]: "pipe_inv lib (s\<lparr>ps_sent := x\<rparr>) = pipe_inv lib s"
  by (simp add: pipe_inv_def)

lemma pipe_inv_revalidate:
  assumes "qc_law (pl_qc lib)" "others_keep lib io" "pipe_inv lib s"
  shows "pipe_inv lib (snd (try_revalidate_stale lib io cfg req key c s))"
  using assms by (cases rule: try_revalidate_stale_cases [of lib io cfg req key c s])
    (auto simp: others_keep_def intro!: pipe_inv_store)

lemma try_l2_fields:
  "try_l2_cache_get lib io cfg key s = Some (r, s') \<Longrightarrow>
     ps_l1 s' = ps_l1 s \<and> ps_flights s' = ps_flights s \<and> ps_sent s' = ps_sent s \<and>
     (\<forall>c. r = Some c \<longrightarrow> can_serve_fresh (io_arrived io) c)"
  by (auto simp: try_l2_cache_get_def l2_get_def Let_def split: option.splits if_splits)

lemma cache_lookup_cases:
  assumes "cache_lookup lib io cfg label req key s = Some (r, s')"
  obtains (hit) c x where "l1_lookup lib key s = Some (Some c)" "can_serve_fresh (io_arrived io) c"
      "r = Some (serve_l1_hit lib c x)" "s' = s"
  | (revalidated) c reply where "l1_lookup lib key s = Some (Some c)"
      "try_revalidate_stale lib io cfg req key c s = (Some reply, s')" "r = Some reply"
  | (l2) s1 c x s2 where "s1 = s \<or> (\<exists>c'. try_revalidate_stale lib io cfg req key c' s = (None, s1))"
      "try_l2_cache_get lib io cfg key s1 = Some (Some c, s2)" "r = Some (serve_l1_hit lib c x)"
      "s' = s2\<lparr>ps_l1 := l1_insert (pl_qc lib) (pl_hash lib) key c (ps_l1 s2)\<rparr>"
  | (miss) s1 where "s1 = s \<or> (\<exists>c'. try_revalidate_stale lib io cfg req key c' s = (None, s1))"
      "try_l2_cache_get lib io cfg key s1 = Some (None, s')" "r = None"
proof -
  obtain found where f: "l1_lookup lib key s = Some found"
    using assms by (auto simp: cache_lookup_def bind_eq_Some_conv)
  obtain q s1 where q: "l1_serve lib io cfg label req key found s = (q, s1)" by (metis prod.collapse)
  show thesis
  proof (cases q)
    case None
    have s1: "s1 = s \<or> (\<exists>c'. try_revalidate_stale lib io cfg req key c' s = (None, s1))"
      using q None by (auto simp: l1_serve_def split: option.splits if_splits)
    have "l2_serve lib io cfg key s1 = Some (r, s')" using assms f q None by (simp add: cache_lookup_def)
    then obtain g s2 where g: "try_l2_cache_get lib io cfg key s1 = Some (g, s2)"
      and e: "l2_serve lib io cfg key s1 = Some (r, s')" by (auto simp: l2_serve_def bind_eq_Some_conv)
    show thesis
    proof (cases g)
      case None
      with e g miss [OF s1] show thesis by (simp add: l2_serve_def)
    next
      case (Some c)
      with e g have "r = Some (serve_l1_hit lib c (if cr_is_negative c then ''NEGATIVE-HIT'' else ''L2-HIT''))"
        "s' = s2\<lparr>ps_l1 := l1_insert (pl_qc lib) (pl_hash lib) key c (ps_l1 s2)\<rparr>" by (auto simp: l2_serve_def)
      with g Some show thesis using l2 [OF s1] by blast
    qed
  next
    case (Some reply)
    have e: "r = Some reply" "s' = s1" using assms f q Some by (simp_all add: cache_lookup_def)
    obtain c where c: "found = Some c" using q Some by (auto simp: l1_serve_def split: option.splits)
    show thesis
    proof (cases "can_serve_fresh (io_arrived io) c")
      case True
      with q Some c have "s1 = s" "reply = serve_l1_hit lib c (if cr_is_negative c then label else ''HIT'')"
        by (simp_all add: l1_serve_def)
      with hit [of c] f c e True show thesis by blast
    next
      case False
      with q Some c revalidated [of c reply] f e show thesis by (simp add: l1_serve_def)
    qed
  qed
qed

lemma pipe_inv_lookup:
  assumes "qc_law (pl_qc lib)" "others_keep lib io" "pipe_inv lib s"
    "cache_lookup lib io cfg label req key s = Some (r, s')"
  shows "pipe_inv lib s'"
proof -
  have kept: "pipe_inv lib s1" if "s1 = s \<or> (\<exists>c'. try_revalidate_stale lib io cfg req key c' s = (None, s1))" for s1
    using that pipe_inv_revalidate [OF assms(1-3), of cfg req key] assms(3) by (metis snd_conv)
  from assms(4) show ?thesis
  proof (cases rule: cache_lookup_cases)
    case (revalidated c reply)
    then show ?thesis using pipe_inv_revalidate [OF assms(1-3), of cfg req key c] by simp
  next
    case (l2 s1 c x s2)
    then have "pipe_inv lib s2" using kept [of s1] try_l2_fields pipe_inv_cong by metis
    then show ?thesis unfolding l2(4) by (rule pipe_inv_insert [OF assms(1)])
  next
    case (miss s1)
    then show ?thesis using kept [of s1] try_l2_fields pipe_inv_cong by metis
  qed (use assms(3) in simp)
qed

lemma pipe_inv_join:
  assumes "others_keep lib io" "pipe_inv lib s" "join_miss lib io key s = Some (r, s')"
  shows "pipe_inv lib s'"
proof (cases "join_flight key (ps_flights s)")
  case (Pair j flights)
  show ?thesis
  proof (cases j)
    case (Leader k)
    with Pair assms show ?thesis by (auto simp: join_miss_def pipe_inv_def intro: flights_join)
  next
    case (Follower f)
    with Pair have "flights = ps_flights s" by (auto simp: join_follower)
    with Pair Follower assms have "s' = io_others io Waiting s"
      by (auto simp: join_miss_def Let_def bind_eq_Some_conv split: option.splits)
    with assms show ?thesis by (simp add: others_keep_def)
  qed
qed

lemma fetch_state:
  "fetch io llm out s = Some (r, s') \<Longrightarrow>
     \<exists>h. s' = io_others io Fetching (s\<lparr>ps_sent := out # ps_sent s, ps_hierarchy := h\<rparr>)"
  by (auto simp: fetch_def Let_def bind_eq_Some_conv)

lemma pipe_inv_fetch:
  "others_keep lib io \<Longrightarrow> pipe_inv lib s \<Longrightarrow> fetch io llm out s = Some (r, s') \<Longrightarrow> pipe_inv lib s'"
  by (auto dest!: fetch_state simp: others_keep_def pipe_inv_def)

lemma drain_snd:
  "snd (spawn_upstream_drain attempt m sends up) =
     (if attempt \<and> length (good_bytes up) \<le> m then (good_bytes up, True) else ([], False))"
  by (subst drain_result) simp

lemma stream_miss_state:
  "snd (stream_miss lib io cfg llm key meth response peer s) =
     (let status = ur_status response;
          hm = headers_map_from_response (pl_to_str lib) response;
          precheck = (if llm \<noteq> None then miss_decision cfg True meth status hm 0
                      else evaluate_store_precheck meth status hm (cg_cache cfg));
          stored = (sd_store precheck \<and> length (good_bytes (ur_body response)) \<le> cc_max_body_size (cg_cache cfg));
          body = (if stored then good_bytes (ur_body response) else []);
          decision = (if \<not> stored then decision_bypass
                      else miss_decision cfg (llm \<noteq> None) meth status hm (length body))
      in complete_cache_miss lib io cfg llm (io_completed io) key status hm body decision (stored \<and> sd_store decision) peer
           (io_others io Streaming s))"
  by (simp add: stream_miss_def Let_def case_prod_beta drain_snd decision_bypass_def)

lemma pipe_inv_stream:
  assumes "qc_law (pl_qc lib)" "others_keep lib io" "pipe_inv lib s"
  shows "pipe_inv lib (snd (stream_miss lib io cfg llm key meth response peer s))"
  unfolding stream_miss_state Let_def
  by (rule pipe_inv_complete [OF assms(1)]) (use assms in \<open>simp add: others_keep_def\<close>)

lemma buffer_miss_cases:
  assumes "buffer_miss lib io cfg llm leads key meth url req_hs response peer s = Some (r, s')"
  obtains (failed) "s' = give_up leads key (io_others io Streaming s)" "r = Full (plain 502 ''502 Bad Gateway'')"
  | (stored) status hm body d stored q where "r = Full q"
      "s' = complete_cache_miss lib io cfg llm (io_completed io) key status hm body d stored peer (io_others io Streaming s)"
  using assms
  by (cases "collect_upstream_body (ur_body response)")
    (auto simp: buffer_miss_def Let_def bind_eq_Some_conv case_prod_beta)

lemma fetch_miss_cases:
  assumes "fetch_miss lib io cfg early leads key req s = Some (r, s')"
  obtains (refused) q where "s' = give_up leads key s" "r = Full q"
  | (failed) x s1 out q where "fetch io (early \<noteq> None) out s = Some (x, s1)" "s' = give_up leads key s1" "r = Full q"
  | (streamed) x s1 out llm response peer where "fetch io (early \<noteq> None) out s = Some (x, s1)"
      "s' = snd (stream_miss lib io cfg llm key (rq_method req) response peer s1)"
  | (buffered) x s1 out llm url req_hs response peer where "fetch io (early \<noteq> None) out s = Some (x, s1)"
      "buffer_miss lib io cfg llm leads key (rq_method req) url req_hs response peer s1 = Some (r, s')"
proof (cases "miss_body lib cfg early req")
  case (Inl resp)
  with assms refused [of resp] show thesis by (simp add: fetch_miss_def)
next
  case (Inr body)
  let ?hs = "headers_map (pl_to_str lib) (rq_headers req)"
  let ?out = "\<lparr>og_method = rq_method req, og_uri = rq_uri req, og_headers = rq_headers req, og_body = body\<rparr>"
  obtain a where a: "run_icap_reqmod lib (io_icap io) (cg_icap cfg) (rq_method req) (rq_uri req) ?hs body = Some a"
    using assms Inr by (auto simp: fetch_miss_def bind_eq_Some_conv)
  show thesis
  proof (cases a)
    case (Some resp)
    with assms Inr a refused [of resp] show thesis by (simp add: fetch_miss_def)
  next
    case None
    with assms Inr a obtain x s1 where f: "fetch io (early \<noteq> None) ?out s = Some (x, s1)"
      and e: "finish_fetch lib io cfg (map_option snd early) leads key req x s1 = Some (r, s')"
      by (simp add: fetch_miss_def bind_eq_Some_conv del: not_None_eq) blast
    show thesis
    proof (cases x)
      case (Inl m)
      with e failed [OF f, of "plain 502 ''502 Bad Gateway''"] show thesis by (simp add: finish_fetch_def)
    next
      case (Inr pr)
      obtain peer response where pr: "pr = (peer, response)" by (cases pr)
      show thesis
      proof (cases "px_streaming_miss_enabled (cg_perf cfg)")
        case True
        with e Inr pr have "s' = snd (stream_miss lib io cfg (map_option snd early) key (rq_method req) response peer s1)"
          by (simp add: finish_fetch_def)
        then show thesis by (rule streamed [OF f])
      next
        case False
        with e Inr pr show thesis using buffered [OF f] by (simp add: finish_fetch_def)
      qed
    qed
  qed
qed

lemma pipe_inv_fetch_miss:
  assumes "qc_law (pl_qc lib)" "others_keep lib io" "pipe_inv lib s"
    "fetch_miss lib io cfg early leads key req s = Some (r, s')"
  shows "pipe_inv lib s'"
proof -
  note fetched = pipe_inv_fetch [OF assms(2,3)]
  from assms(4) show ?thesis
  proof (cases rule: fetch_miss_cases)
    case refused
    then show ?thesis by (simp add: pipe_inv_give_up assms(3))
  next
    case (failed x s1)
    then show ?thesis using fetched by (auto intro: pipe_inv_give_up)
  next
    case (streamed x s1 out llm response peer)
    then show ?thesis using fetched by (auto intro!: pipe_inv_stream assms(1,2))
  next
    case (buffered x s1 out llm url req_hs response peer)
    have "pipe_inv lib (io_others io Streaming s1)" using fetched [OF buffered(1)] assms(2) by (simp add: others_keep_def)
    with buffered(2) show ?thesis
      by (cases rule: buffer_miss_cases) (auto intro: pipe_inv_give_up pipe_inv_complete [OF assms(1)])
  qed
qed

lemma pipe_inv_serve_or_fetch:
  assumes "qc_law (pl_qc lib)" "others_keep lib io" "pipe_inv lib s"
    "serve_or_fetch lib io cfg req s = Some (r, s')"
  shows "pipe_inv lib s'"
proof (cases "applies (cg_semantic cfg) (rq_method req) (rq_uri req)")
  case True
  then obtain l where l: "llm_lookup lib io cfg req s = Some l"
    using assms(4) by (auto simp: serve_or_fetch_def bind_eq_Some_conv)
  show ?thesis
  proof (cases l)
    case (Return r)
    with l True assms(3,4) show ?thesis by (simp add: serve_or_fetch_def)
  next
    case (Continue k)
    with l True assms(4) show ?thesis
      by (cases k) (auto simp: serve_or_fetch_def intro: pipe_inv_fetch_miss [OF assms(1-3)])
  qed
next
  case False
  let ?key = "generate_cache_key lib (rq_method req) (rq_uri req)"
  obtain h s1 where h: "cache_lookup lib io cfg ''HIT'' req ?key s = Some (h, s1)"
    using assms(4) False by (auto simp: serve_or_fetch_def bind_eq_Some_conv)
  note s1 = pipe_inv_lookup [OF assms(1-3) h]
  show ?thesis
  proof (cases h)
    case (Some r)
    with h False assms(4) s1 show ?thesis by (simp add: serve_or_fetch_def)
  next
    case None
    with h False assms(4) obtain j s2 where j: "coalesce lib io cfg req s1 = Some (j, s2)"
      and e: "(case j of Return r \<Rightarrow> Some (r, s2) | Continue leads \<Rightarrow> fetch_miss lib io cfg None leads ?key req s2) = Some (r, s')"
      by (auto simp: serve_or_fetch_def bind_eq_Some_conv)
    have s2: "pipe_inv lib s2" using j s1 pipe_inv_join [OF assms(2) s1] by (auto simp: coalesce_def split: if_splits)
    from e show ?thesis using s2 by (cases j) (auto intro: pipe_inv_fetch_miss [OF assms(1,2)])
  qed
qed

subsection \<open>The front of the pipeline\<close>

lemma handle_forward: "ps_reverse s = None \<Longrightarrow> handle_request lib io cfg req ip user s = handle_passed lib io cfg req ip user s"
  by (simp add: handle_request_def)

lemma pipe_inv_front [simp]:
  "pipe_inv lib (s\<lparr>ps_limiter := l\<rparr>) = pipe_inv lib s" "pipe_inv lib (s\<lparr>ps_policy := p\<rparr>) = pipe_inv lib s"
  "pipe_inv lib (s\<lparr>ps_reverse := x, ps_auth := y\<rparr>) = pipe_inv lib s"
  by (simp_all add: pipe_inv_def)

lemma pipe_inv_judge:
  assumes "qc_law (pl_qc lib)" "others_keep lib io" "pipe_inv lib s"
    "judge_and_serve lib io cfg req ip user s = Some (r, s')"
  shows "pipe_inv lib s'"
proof (cases "fst (hook_verdict lib cfg req ip user)")
  case None
  obtain d x sv where "policy_verdict lib io req ip user s = ((d, x), sv)" by (metis prod.collapse)
  with None assms(3,4) show ?thesis
    by (cases d) (auto simp: judge_and_serve_def case_prod_beta dest!: pipe_inv_serve_or_fetch [OF assms(1,2), rotated])
next
  case (Some q)
  with assms(3,4) show ?thesis by (auto simp: judge_and_serve_def case_prod_beta)
qed

lemma pipe_inv_handle_passed:
  assumes "qc_law (pl_qc lib)" "others_keep lib io" "pipe_inv lib s"
    "handle_passed lib io cfg req ip user s = Some (r, s')"
  shows "pipe_inv lib s'"
proof -
  obtain v l where v: "limit_verdict lib io req ip user s = (v, l)" by (metis prod.collapse)
  show ?thesis
  proof (cases v)
    case (Some q)
    with v assms(3,4) show ?thesis by (auto simp: handle_passed_def)
  next
    case None
    with assms(4) v obtain f s2 where f: "fast_lookup lib io cfg req (s\<lparr>ps_limiter := l\<rparr>) = Some (f, s2)"
      and e: "(case f of Some r \<Rightarrow> Some (r, s2) | None \<Rightarrow> judge_and_serve lib io cfg req ip user s2) = Some (r, s')"
      by (auto simp: handle_passed_def bind_eq_Some_conv)
    have "pipe_inv lib s2"
      using f assms(3) pipe_inv_lookup [OF assms(1,2), of "s\<lparr>ps_limiter := l\<rparr>"]
      by (auto simp: fast_lookup_def try_serve_cache_before_policy_def split: if_splits)
    with e show ?thesis by (cases f) (auto intro: pipe_inv_judge [OF assms(1,2)])
  qed
qed

subsection \<open>Headers of an answer\<close>

lemma header_insert_distinct: "distinct (map fst hs) \<Longrightarrow> distinct (map fst (header_insert n v hs))"
  by (auto simp: header_insert_def distinct_map_filter)

lemma map_of_header_insert: "map_of (header_insert n v hs) k = (if k = n then Some v else map_of hs k)"
proof -
  have "map_of (filter (\<lambda>(k, _). k \<noteq> n) hs) k = (if k = n then None else map_of hs k)"
    by (induction hs) auto
  then show ?thesis by (auto simp: header_insert_def map_add_def split: option.splits)
qed

lemma apply_headers_distinct:
  "distinct (map fst hs) \<Longrightarrow> distinct (map fst (apply_response_headers lib hm hs))"
  unfolding apply_response_headers_def
  by (induction hm arbitrary: hs) (auto simp: header_insert_distinct split: option.splits)

lemma attach_distinct: "distinct (map fst hs) \<Longrightarrow> distinct (map fst (attach_x_cache_status lib label hs))"
  by (auto simp: attach_x_cache_status_def header_insert_distinct split: option.splits)

lemma filter_fst_distinct:
  "distinct (map fst hs) \<Longrightarrow> map_of hs n = Some v \<Longrightarrow> filter (\<lambda>(k, _). k = n) hs = [(n, v)]"
proof (induction hs)
  case (Cons p hs)
  obtain k w where p: "p = (k, w)" by (cases p)
  show ?case
  proof (cases "k = n")
    case True
    with Cons.prems p have "n \<notin> fst ` set hs" by auto
    then have "filter (\<lambda>(k, _). k = n) hs = []" by (force simp: filter_empty_conv)
    with True Cons.prems p show ?thesis by simp
  qed (use Cons p in auto)
qed simp

lemma apply_headers_get:
  assumes "http_law lib" "header_name_from_bytes lib n = Some n" "header_value_from_str lib v = Some v"
    "distinct (map fst hm)" "map_of hm n = Some v" "\<forall>k \<in> fst ` set hm. to_ascii_lowercase k = k"
  shows "map_of (apply_response_headers lib hm hs) n = Some v"
proof -
  have "map_of (apply_response_headers lib hm hs) n = (if n \<in> fst ` set hm then map_of hm n else map_of hs n)"
    if "distinct (map fst hm)" "\<forall>k \<in> fst ` set hm. to_ascii_lowercase k = k" "map_of hm n \<in> {None, Some v}" for hm hs
    using that
  proof (induction hm arbitrary: hs)
    case (Cons p hm)
    obtain k w where p: "p = (k, w)" by (cases p)
    let ?hs = "case (header_name_from_bytes lib k, header_value_from_str lib w) of
               (Some n, Some v) \<Rightarrow> header_insert n v hs | _ \<Rightarrow> hs"
    have e: "apply_response_headers lib (p # hm) hs = apply_response_headers lib hm ?hs"
      by (simp add: apply_response_headers_def p)
    have k: "m = k" if "header_name_from_bytes lib k = Some m" for m
      using that assms(1) Cons.prems(2) p by (auto simp: http_law_def)
    show ?case
    proof (cases "k = n")
      case True
      with Cons.prems p have w: "w = v" "n \<notin> fst ` set hm" by auto
      with Cons.IH [of ?hs] Cons.prems p True assms(2,3) show ?thesis
        unfolding e by (simp add: map_of_header_insert image_iff map_of_eq_None_iff)
    next
      case False
      then have "map_of ?hs n = map_of hs n" by (auto simp: map_of_header_insert dest: k split: option.splits)
      with Cons.IH [of ?hs] Cons.prems p False show ?thesis unfolding e by simp
    qed
  qed (simp add: apply_response_headers_def)
  moreover have "n \<in> fst ` set hm" using assms(5) by (metis map_of_eq_None_iff option.distinct(1))
  ultimately show ?thesis using assms(4-6) by simp
qed

section \<open>Properties\<close>


text \<open>A fresh entry of the first cache is served to everyone the limiter, the plug-in and the policy let
  pass: the answer is the stored one, nothing is sent upstream and the cache is unchanged. Only the
  method and the URL matter: a request with other credentials, cookies, ranges or accepted
  encodings than the one that filled the entry gets it all the same.\<close>

theorem fresh_hit_for_everyone:
  assumes "ps_reverse s = None" "\<not> applies (cg_semantic cfg) (rq_method req) (rq_uri req)"
    "l1_lookup lib (generate_cache_key lib (rq_method req) (rq_uri req)) s = Some (Some c)"
    "can_serve_fresh (io_arrived io) c"
    "fst (limit_verdict lib io req ip user s) = None" "fst (hook_verdict lib cfg req ip user) = None"
    "fst (fst (policy_verdict lib io req ip user s)) = None"
  shows "\<exists>label s'. handle_request lib io cfg req ip user s = Some (serve_l1_hit lib c label, s') \<and>
           ps_sent s' = ps_sent s \<and> ps_l1 s' = ps_l1 s \<and> ps_redis s' = ps_redis s"
proof -
  have look: "cache_lookup lib io cfg lb q (generate_cache_key lib (rq_method req) (rq_uri req)) s' =
      Some (Some (serve_l1_hit lib c (if cr_is_negative c then lb else ''HIT'')), s')" if "ps_l1 s' = ps_l1 s" for lb q s'
  proof -
    have "l1_lookup lib k s' = l1_lookup lib k s" for k using that by (simp add: l1_lookup_def)
    then show ?thesis using assms(3,4) by (simp add: cache_lookup_def l1_serve_def)
  qed
  obtain l where l: "limit_verdict lib io req ip user s = (None, l)" using assms(5) by (metis prod.collapse)
  obtain hs where hs: "hook_verdict lib cfg req ip user = (None, hs)" using assms(6) by (metis prod.collapse)
  obtain x sv where sv: "policy_verdict lib io req ip user (s\<lparr>ps_limiter := l\<rparr>) = ((None, x), sv)"
    using assms(7) by (simp add: policy_verdict_def) (metis prod.collapse)
  show ?thesis
  proof (cases "px_fast_cache_hit (cg_perf cfg)")
    case True
    with assms(1,2) l look show ?thesis
      by (simp add: handle_forward handle_passed_def fast_lookup_def try_serve_cache_before_policy_def) blast
  next
    case False
    with assms(1,2) l look hs sv show ?thesis
      by (simp add: handle_forward handle_passed_def fast_lookup_def judge_and_serve_def serve_or_fetch_def) blast
  qed
qed


text \<open>(C29) A response cut off by an upstream error is cached and served as a complete one: when the rest of
  the response is storable, what the cache then holds under the key, if it keeps it, is the
  status of the response with the bytes that arrived before the error, and every later hit
  sends just those.\<close>

theorem cut_off_response_is_served:
  assumes "qc_law (pl_qc lib)" "codec_law (pl_codec lib)" "spill_law (pl_spill_io lib)"
    "pipe_inv lib (io_others io Streaming s)"
    "ur_body response = map Inr frames @ Inl e # rest" "body = concat (map frame_bytes frames)"
    "hm = headers_map_from_response (pl_to_str lib) response"
    "sd_store (evaluate_store_precheck meth (ur_status response) hm (cg_cache cfg))"
    "sd_store (evaluate_store meth (ur_status response) hm (length body) (cg_cache cfg))"
    "l1_lookup lib key (snd (stream_miss lib io cfg None key meth response peer s)) = Some (Some c)"
  shows "cr_status c = ur_status response \<and>
    (\<exists>st hs. serve_l1_hit lib c x = Full \<lparr>rs_status = st, rs_headers = hs, rs_body = body\<rparr>)"
proof -
  have g: "good_bytes (ur_body response) = body" by (simp add: assms(5,6) good_bytes_def)
  have n: "length body \<le> cc_max_body_size (cg_cache cfg)"
    using assms(9) by (auto simp: evaluate_store_def decision_bypass_def split: if_splits)
  let ?d = "evaluate_store meth (ur_status response) hm (length body) (cg_cache cfg)"
  let ?c = "from_upstream (pl_codec lib) (pl_spill_io lib) (io_completed io) (ur_status response) hm body (sd_ttl ?d)
      (cc_compression (cg_cache cfg)) (cc_spill_threshold_bytes (cg_cache cfg)) (sd_etag ?d) (sd_last_modified ?d)
      (sd_is_negative ?d) (sd_must_revalidate ?d)"
  let ?s = "io_others io Streaming s"
  have "ps_l1 (snd (stream_miss lib io cfg None key meth response peer s)) =
      l1_insert (pl_qc lib) (pl_hash lib) key ?c (ps_l1 ?s)"
    using assms(8,9) n by (simp add: stream_miss_state Let_def g miss_decision_def complete_cache_miss_l1 assms(7))
  moreover have i: "l1_inv (pl_qc lib) (pl_hash lib) (ps_l1 ?s)" using assms(4) by (simp add: pipe_inv_def)
  ultimately have "l1_map (pl_qc lib) (pl_hash lib) (l1_insert (pl_qc lib) (pl_hash lib) key ?c (ps_l1 ?s)) key = Some c"
    using assms(10) l1_insert_inv [OF assms(1) i, of key ?c] l1_inv_index
    by (auto simp: l1_lookup_def l1_get_def l1_map_def split: if_splits)
  moreover have "l1_map (pl_qc lib) (pl_hash lib) (l1_insert (pl_qc lib) (pl_hash lib) key ?c (ps_l1 ?s)) key \<in> {None, Some ?c}"
    using l1_insert_map [OF assms(1), of "pl_hash lib" "ps_l1 ?s" key key ?c] l1_inv_index [OF i] by simp
  ultimately have "c = ?c" by simp
  then show ?thesis
    using from_upstream_body_eq [OF assms(2,3)]
    by (simp add: serve_l1_hit_def to_response_with_cache_status_def Let_def) (simp add: from_upstream_def Let_def)
qed

text \<open>A header that occurs several times in an upstream response reaches the client once: of the values
  of a name, as of two cookies that are set, only the last is passed on.\<close>

theorem repeated_header_lost:
  assumes "http_law (pl_http lib)" "ur_headers response = before @ (n, v) # after" "n \<notin> fst ` set after"
    "\<forall>k \<in> fst ` set (ur_headers response). to_ascii_lowercase k = k" "n \<noteq> ''x-cache-status''"
    "pl_to_str lib v = Some v" "header_name_from_bytes (pl_http lib) n = Some n"
    "header_value_from_str (pl_http lib) v = Some v"
  shows "\<exists>st hs frames. fst (stream_miss lib io cfg llm key meth response peer s) = Streamed st hs frames \<and>
    filter (\<lambda>(k, _). k = n) hs = [(n, v)]"
proof -
  let ?hm = "headers_map_from_response (pl_to_str lib) response"
  have "List.map_filter (\<lambda>(k, w). if k = n then pl_to_str lib w else None) after = []"
    using assms(3) by (force simp: List.map_filter_def filter_empty_conv)
  then have get: "map_of ?hm n = Some v"
    by (cases "List.map_filter (\<lambda>(k, w). if k = n then pl_to_str lib w else None) before")
      (simp_all add: headers_map_from_response_def headers_map_get assms(2,6) map_filter_app List.map_filter_simps)
  have lower: "\<forall>k \<in> fst ` set ?hm. to_ascii_lowercase k = k"
    using headers_map_keys [of "pl_to_str lib" "ur_headers response"] assms(4)
    unfolding headers_map_from_response_def by blast
  let ?hs = "apply_response_headers (pl_http lib) ?hm []"
  have "map_of ?hs n = Some v"
    by (rule apply_headers_get [OF assms(1,7,8) _ get lower]) (simp add: headers_map_from_response_def)
  then have "map_of (attach_x_cache_status (pl_http lib) x ?hs) n = Some v" for x
    using assms(5) by (auto simp: attach_x_cache_status_def map_of_header_insert split: option.splits)
  moreover have "distinct (map fst (attach_x_cache_status (pl_http lib) x ?hs))" for x
    by (rule attach_distinct [OF apply_headers_distinct]) simp
  ultimately have "filter (\<lambda>(k, _). k = n) (attach_x_cache_status (pl_http lib) x ?hs) = [(n, v)]" for x
    by (intro filter_fst_distinct)
  then show ?thesis by (simp add: stream_miss_def Let_def case_prod_beta)
qed

text \<open>Without proxy authentication the client's word is taken for its name: a request that carries
  credentials meant for the origin is treated by the limiter, the plug-in and the policy exactly
  as one of the authenticated user it names, only without groups. The password is not looked at.\<close>

theorem claimed_user_is_believed:
  assumes "extract_user_info (pl_to_str lib) (pl_base64 lib) (rq_headers req) = Some u"
  shows "handle_passed lib io cfg req ip None s =
    handle_passed lib io cfg req ip
      (Some \<lparr>ui_username = u, ui_display_name = d, ui_email = e, ui_groups = [], ui_authenticated_at = t\<rparr>) s"
proof -
  let ?u = "Some \<lparr>ui_username = u, ui_display_name = d, ui_email = e, ui_groups = [], ui_authenticated_at = t\<rparr>"
  have "request_username lib ?u req = request_username lib None req" "user_groups ?u = user_groups None"
    using assms by (simp_all add: request_username_def user_fields_def user_groups_def)
  then have "limit_verdict lib io req ip ?u s = limit_verdict lib io req ip None s"
    "hook_verdict lib cfg req ip ?u = hook_verdict lib cfg req ip None"
    "policy_verdict lib io req ip ?u s1 = policy_verdict lib io req ip None s1" for s1
    by (simp_all add: limit_verdict_def hook_verdict_def policy_verdict_def)
  note eqs = this
  show ?thesis unfolding handle_passed_def judge_and_serve_def eqs ..
qed

text \<open>A streamed answer to a prompt is never stored: the check before the body is known asks for a body
  that is not empty and is given the length zero, so that with streaming on neither the cache nor
  the index of prompts is ever filled.\<close>

theorem streamed_prompt_never_stored:
  "ps_l1 (snd (stream_miss lib io cfg (Some normalized) key meth response peer s)) = ps_l1 (io_others io Streaming s) \<and>
   ps_redis (snd (stream_miss lib io cfg (Some normalized) key meth response peer s)) = ps_redis (io_others io Streaming s) \<and>
   ps_semantic (snd (stream_miss lib io cfg (Some normalized) key meth response peer s)) =
     ps_semantic (io_others io Streaming s)"
  by (simp add: stream_miss_state Let_def miss_decision_def evaluate_llm_store_def decision_bypass_def
      complete_cache_miss_def split: option.splits)

text \<open>Whoever leads a coalesced fetch ends it: on every way out, refused by body inspection or content
  adaptation, failed upstream, streamed or buffered, no fetch of the key is left pending by the
  leader, so that its followers are released.\<close>

theorem leader_ends_flight:
  assumes "fetch_miss lib io cfg early True key req s = Some (r, s')"
  shows "map_of (mf_inner (ps_flights s')) key = None"
proof -
  have c: "map_of (mf_inner (ps_flights (complete_cache_miss lib io cfg llm now key st hm body d stored peer s))) key = None"
    for llm now st hm body d stored peer s
    using complete_cache_miss_flights [of lib io cfg llm now key st hm body d stored peer s] by (auto simp: complete_get)
  have g: "map_of (mf_inner (ps_flights (give_up True key s))) key = None" for s :: "('a, 'b, 'c) proxy_state"
    by (simp add: give_up_def complete_get)
  from assms show ?thesis
  proof (cases rule: fetch_miss_cases)
    case (streamed x s1 out llm response peer)
    then show ?thesis using c by (simp add: stream_miss_state Let_def)
  next
    case (buffered x s1 out llm url req_hs response peer)
    from buffered(2) show ?thesis by (cases rule: buffer_miss_cases) (simp_all add: c g)
  qed (simp_all add: g)
qed

text \<open>A request that does not lead ends the fetch of whoever does: when its leader failed and it went on
  alone, the completion of its own answer removes the key's fetch that another request has
  started meanwhile and hands its result to that fetch's followers.\<close>

theorem follower_ends_others_flight:
  assumes "fetch_miss lib io cfg early False key req s = Some (Streamed st hs frames, s')"
    "\<And>s1. flights_inv (ps_flights (io_others io Streaming s1)) \<and>
       map_of (mf_inner (ps_flights (io_others io Streaming s1))) key = Some f"
  shows "map_of (mf_inner (ps_flights s')) key = None \<and> mf_chan (ps_flights s') ! f \<noteq> Pending"
proof -
  have c: "map_of (mf_inner (complete key x m)) key = None \<and> mf_chan (complete key x m) ! f \<noteq> Pending"
    if "flights_inv m" "map_of (mf_inner m) key = Some f" for x m
    using that by (auto simp: complete_get) (auto simp: complete_def flights_inv_def)
  obtain s1 peer response llm where s': "s' = snd (stream_miss lib io cfg llm key (rq_method req) response peer s1)"
    using assms(1)
  proof (cases rule: fetch_miss_cases)
    case (buffered x s1 out llm url req_hs response peer)
    from buffered(2) show ?thesis by (cases rule: buffer_miss_cases) auto
  qed (auto intro: that)
  show ?thesis
    using complete_cache_miss_flights c assms(2) unfolding s' stream_miss_state Let_def by metis
qed


section \<open>Witnesses\<close>

definition demo_plib :: "((string, cached_response) hash_map, unit) pipe_lib" where
  "demo_plib =
     \<lparr>pl_http = demo_http, pl_codec = demo_codec, pl_spill_io = Some, pl_qc = demo_qc, pl_hash = demo_hash,
      pl_l2 = demo_wire_lib, pl_sha256 = (\<lambda>s. s), pl_hex = (\<lambda>s. s), pl_base64 = (\<lambda>s. Some (char_bytes s)),
      pl_to_str = Some, pl_url_host = (\<lambda>_. Some ''x''), pl_url_parts = (\<lambda>_. Inl []), pl_parse_uri = Some,
      pl_search = first_pattern, pl_json = demo_json, pl_lossy = (\<lambda>s. s), pl_token_hash = (\<lambda>_. []),
      pl_tokens = (\<lambda>_. []), pl_auth = \<lparr>al_sha = (\<lambda>s. s), al_base64 = (\<lambda>s. Some (char_bytes s)), al_to_str = Some\<rparr>,
      pl_ldap = \<lparr>ll_connect = (\<lambda>_. Inl []), ll_simple_bind = (\<lambda>_ _ c. (Inl [], c)), ll_search = (\<lambda>_ _ c. (Inl [], c))\<rparr>,
      pl_jwt = demo_jwt\<rparr>"

definition demo_pio ::
  "(outgoing \<Rightarrow> string + upstream_response) \<Rightarrow>
   (await \<Rightarrow> (string, (string, cached_response) hash_map, unit) proxy_state \<Rightarrow>
      (string, (string, cached_response) hash_map, unit) proxy_state) \<Rightarrow>
   (string, (string, cached_response) hash_map, unit, string) pipe_io" where
  "demo_pio origin others =
     \<lparr>io_gate = \<lparr>gi_now = 0, gi_now_secs = 0, gi_session_id = [], gi_state = [], gi_client_ip = []\<rparr>,
      io_idp = (\<lambda>_ _. ErrorReply), io_policy = demo_penv 0, io_evict = 0, io_origin = origin,
      io_peer = (\<lambda>_ _. None), io_net = demo_net, io_icap = (\<lambda>_. \<lparr>io_connect = None, io_write = None, io_reads = []\<rparr>),
      io_l2_up = (False, False), io_l2_set_up = False, io_embed = (\<lambda>_ _. Inl []),
      io_vector_search = (\<lambda>_ _. Inr None), io_vector_upsert = None, io_waited = None, io_sends = [],
      io_arrived = 0, io_answered = 0, io_completed = 0, io_others = others\<rparr>"

definition demo_pcfg :: proxy_config where
  "demo_pcfg =
     \<lparr>cg_cache = cache_config_default ''/tmp'', cg_l2_prefix = None, cg_perf = perf_from_env (\<lambda>_. None),
      cg_semantic = semantic_default, cg_icap = None, cg_wasm = None, cg_dlp = empty_state\<rparr>"

definition demo_pstate :: "(string, (string, cached_response) hash_map, unit) proxy_state" where
  "demo_pstate =
     \<lparr>ps_reverse = None, ps_auth = None, ps_limiter = limiter_new rate_limit_default, ps_policy = demo_service,
      ps_l1 = l1_new demo_qc 100 1, ps_redis = [], ps_hierarchy = None, ps_flights = flight_map_new,
      ps_semantic = LocalIx (local_new 10), ps_sent = []\<rparr>"

definition demo_get :: "string \<Rightarrow> http_request" where
  "demo_get url =
     \<lparr>rq_method = ''GET'', rq_uri = url, rq_path = ''/'', rq_query = None,
      rq_headers = [(''authorization'', ''Basic eve:pw'')], rq_body = []\<rparr>"

lemma demo_denied:
  "fst (fst (policy_verdict demo_plib (demo_pio origin others) (demo_get ''http://x/secret'') ''10.0.0.1'' None demo_pstate)) \<noteq> None"
  by code_simp

definition quiet :: "await \<Rightarrow> 'x \<Rightarrow> 'x" where
  "quiet p s = s"

abbreviation demo_answer_io where
  "demo_answer_io hs body \<equiv> demo_pio (\<lambda>_. Inr \<lparr>ur_status = 200, ur_headers = hs, ur_body = body\<rparr>) quiet"

definition demo_filled :: "(string, (string, cached_response) hash_map, unit) proxy_state" where
  "demo_filled = demo_pstate\<lparr>ps_l1 := l1_insert demo_qc demo_hash ''GET:http://x/ok'' demo_tagged (l1_new demo_qc 100 1)\<rparr>"

lemma demo_inv: "pipe_inv demo_plib demo_pstate" "others_keep demo_plib (demo_pio origin quiet)" "qc_law (pl_qc demo_plib)"
proof -
  have "l1_reachable demo_qc demo_hash (l1_new demo_qc 100 1)" by (rule l1_reachable.init) simp
  then show "pipe_inv demo_plib demo_pstate"
    by (simp add: pipe_inv_def demo_plib_def demo_pstate_def l1_reachable_inv demo_qc_law flights_inv_def flight_map_new_def)
qed (simp_all add: others_keep_def demo_pio_def quiet_def demo_plib_def demo_qc_law)

lemma demo_stores:
  "case l1_lookup demo_plib ''k''
      (snd (stream_miss demo_plib (demo_answer_io [] [Inr (DataFrame ''ab''), Inl ''reset'']) demo_pcfg None ''k'' ''GET''
         \<lparr>ur_status = 200, ur_headers = [], ur_body = [Inr (DataFrame ''ab''), Inl ''reset'']\<rparr> None demo_pstate)) of
     Some (Some c) \<Rightarrow> True | _ \<Rightarrow> False"
  unfolding l1_lookup_def stream_miss_state Let_def complete_cache_miss_l1 by code_simp

lemma fetch_no_hierarchy:
  "ps_hierarchy s = None \<Longrightarrow> fetch io llm out s =
     Some (case io_origin io out of Inl e \<Rightarrow> Inl e | Inr r \<Rightarrow> Inr (None, r),
           io_others io Fetching (s\<lparr>ps_sent := out # ps_sent s, ps_hierarchy := None\<rparr>))"
  by (simp add: fetch_def try_fetch_via_hierarchy_def Let_def)

lemmas demo_fetch_simps = fetch_miss_def miss_body_def collect_request_body_def run_icap_reqmod_def
  fetch_no_hierarchy finish_fetch_def demo_get_def demo_pcfg_def demo_pstate_def demo_pio_def


theorem fresh_hit_for_everyone_witness:
  "\<exists>label s'. handle_request demo_plib (demo_answer_io [] []) demo_pcfg (demo_get ''http://x/ok'') ''10.0.0.1'' None demo_filled =
            Some (serve_l1_hit demo_plib demo_tagged label, s') \<and> ps_sent s' = []"
proof -
  let ?io = "demo_answer_io [] []"
  let ?req = "demo_get ''http://x/ok''"
  have "ps_reverse demo_filled = None" "ps_sent demo_filled = []" by (simp_all add: demo_filled_def demo_pstate_def)
  moreover have "\<not> applies (cg_semantic demo_pcfg) (rq_method ?req) (rq_uri ?req)"
    by (simp add: applies_def demo_pcfg_def semantic_default_def)
  moreover have "l1_lookup demo_plib (generate_cache_key demo_plib (rq_method ?req) (rq_uri ?req)) demo_filled =
      Some (Some demo_tagged)" by code_simp
  moreover have "can_serve_fresh (io_arrived ?io) demo_tagged" by code_simp
  moreover have "fst (limit_verdict demo_plib ?io ?req ''10.0.0.1'' None demo_filled) = None" by code_simp
  moreover have "fst (hook_verdict demo_plib demo_pcfg ?req ''10.0.0.1'' None) = None" by code_simp
  moreover have "fst (fst (policy_verdict demo_plib ?io ?req ''10.0.0.1'' None demo_filled)) = None" by code_simp
  ultimately show ?thesis using fresh_hit_for_everyone [of demo_filled demo_pcfg ?req demo_plib demo_tagged ?io] by metis
qed


theorem cut_off_response_is_served_witness:
  "\<exists>c st hs. l1_lookup demo_plib ''k''
      (snd (stream_miss demo_plib (demo_answer_io [] [Inr (DataFrame ''ab''), Inl ''reset'']) demo_pcfg None ''k'' ''GET''
         \<lparr>ur_status = 200, ur_headers = [], ur_body = [Inr (DataFrame ''ab''), Inl ''reset'']\<rparr> None demo_pstate)) = Some (Some c) \<and>
     serve_l1_hit demo_plib c ''HIT'' = Full \<lparr>rs_status = st, rs_headers = hs, rs_body = ''ab''\<rparr>"
proof -
  let ?io = "demo_answer_io [] [Inr (DataFrame ''ab''), Inl ''reset'']"
  let ?r = "\<lparr>ur_status = 200, ur_headers = [], ur_body = [Inr (DataFrame ''ab''), Inl ''reset'']\<rparr>"
  obtain c where c: "l1_lookup demo_plib ''k'' (snd (stream_miss demo_plib ?io demo_pcfg None ''k'' ''GET'' ?r None demo_pstate)) =
      Some (Some c)" using demo_stores by (auto split: option.splits)
  have laws: "codec_law (pl_codec demo_plib)" "spill_law (pl_spill_io demo_plib)"
    by (simp_all add: demo_plib_def demo_laws)
  have i: "pipe_inv demo_plib (io_others ?io Streaming demo_pstate)" by (simp add: demo_pio_def quiet_def demo_inv)
  have hm: "[] = headers_map_from_response (pl_to_str demo_plib) ?r" by (simp add: headers_map_from_response_def headers_map_def)
  have d: "sd_store (evaluate_store_precheck ''GET'' (ur_status ?r) [] (cg_cache demo_pcfg))"
    "sd_store (evaluate_store ''GET'' (ur_status ?r) [] (length ''ab'') (cg_cache demo_pcfg))" by code_simp+
  show ?thesis
    using cut_off_response_is_served [OF demo_inv(3) laws i, of ?r "[DataFrame ''ab'']" "''reset''" "[]" "''ab''" "[]" "''GET''"
        demo_pcfg "''k''" None c "''HIT''"] hm d c by (auto simp: frame_bytes_def)
qed

theorem repeated_header_lost_witness:
  "\<exists>st hs frames. fst (stream_miss demo_plib (demo_answer_io [] []) demo_pcfg None ''k'' ''GET''
       \<lparr>ur_status = 200, ur_headers = [(''set-cookie'', ''a''), (''set-cookie'', ''b'')], ur_body = []\<rparr> None demo_pstate) =
     Streamed st hs frames \<and> filter (\<lambda>(k, _). k = ''set-cookie'') hs = [(''set-cookie'', ''b'')]"
proof -
  have l: "to_ascii_lowercase ''set-cookie'' = ''set-cookie''" by code_simp
  show ?thesis
    using repeated_header_lost [of demo_plib "\<lparr>ur_status = 200, ur_headers = [(''set-cookie'', ''a''), (''set-cookie'', ''b'')], ur_body = []\<rparr>"
        "[(''set-cookie'', ''a'')]" "''set-cookie''" "''b''" "[]"]
    by (simp add: demo_plib_def demo_laws) (simp add: demo_http_def l)
qed

theorem claimed_user_is_believed_witness:
  "handle_passed demo_plib (demo_answer_io [] []) demo_pcfg (demo_get ''http://x/'') ''10.0.0.1'' None demo_pstate =
   handle_passed demo_plib (demo_answer_io [] []) demo_pcfg (demo_get ''http://x/'') ''10.0.0.1''
     (Some \<lparr>ui_username = ''eve'', ui_display_name = None, ui_email = None, ui_groups = [], ui_authenticated_at = 0\<rparr>) demo_pstate"
  by (rule claimed_user_is_believed) code_simp

theorem leader_ends_flight_witness:
  "\<exists>r s'. fetch_miss demo_plib (demo_pio (\<lambda>_. Inl ''down'') quiet) demo_pcfg None True ''k'' (demo_get ''http://x/'')
     (demo_pstate\<lparr>ps_flights := snd (join_flight ''k'' flight_map_new)\<rparr>) = Some (r, s') \<and>
     map_of (mf_inner (ps_flights s')) ''k'' = None"
proof -
  let ?f = "fetch_miss demo_plib (demo_pio (\<lambda>_. Inl ''down'') quiet) demo_pcfg None True ''k'' (demo_get ''http://x/'')
     (demo_pstate\<lparr>ps_flights := snd (join_flight ''k'' flight_map_new)\<rparr>)"
  have "?f \<noteq> None" by (simp add: demo_fetch_simps)
  then obtain r s' where "?f = Some (r, s')" by auto
  with leader_ends_flight [OF this] show ?thesis by blast
qed

definition rival :: "await \<Rightarrow> ('re, 'c, 's) proxy_state \<Rightarrow> ('re, 'c, 's) proxy_state" where
  "rival p s = s\<lparr>ps_flights := snd (join_flight ''k'' flight_map_new)\<rparr>"

theorem follower_ends_others_flight_witness:
  "\<exists>st hs frames s'. fetch_miss demo_plib (demo_pio (\<lambda>_. Inr \<lparr>ur_status = 200, ur_headers = [], ur_body = []\<rparr>) rival)
       demo_pcfg None False ''k'' (demo_get ''http://x/'') demo_pstate = Some (Streamed st hs frames, s') \<and>
     map_of (mf_inner (ps_flights s')) ''k'' = None \<and> mf_chan (ps_flights s') ! 0 \<noteq> Pending"
proof -
  let ?io = "demo_pio (\<lambda>_. Inr \<lparr>ur_status = 200, ur_headers = [], ur_body = []\<rparr>) rival"
  let ?f = "fetch_miss demo_plib ?io demo_pcfg None False ''k'' (demo_get ''http://x/'') demo_pstate"
  have "\<exists>st hs frames s'. ?f = Some (Streamed st hs frames, s')"
    by (simp add: demo_fetch_simps stream_miss_def perf_from_env_def perf_env_bool_def Let_def case_prod_beta)
  then obtain st hs frames s' where f: "?f = Some (Streamed st hs frames, s')" by blast
  have r: "flights_inv (ps_flights (io_others ?io Streaming s1)) \<and>
      map_of (mf_inner (ps_flights (io_others ?io Streaming s1))) ''k'' = Some 0" for s1
    by (auto simp: demo_pio_def rival_def join_flight_def flight_map_new_def flights_inv_def hm_inv_def)
  from follower_ends_others_flight [OF f r] f show ?thesis by blast
qed


end
