(* ===== verification/Connection.thy ===== *)
theory Connection
  imports Request_Pipeline
begin

text \<open>
  A client connection (\<^verbatim>\<open>handle_connection\<close> and \<^verbatim>\<open>handle_connect_mitm\<close> in \<^verbatim>\<open>proxy/src/server.rs\<close>): proxy
  authentication in front of every request, \<^verbatim>\<open>CONNECT\<close> with its own checks, and the requests inside
  an intercepted tunnel. The TLS handshake and the copying of bytes through a tunnel that is not
  intercepted are I/O. Events and metrics are left out.
\<close>

section \<open>Definitions\<close>

definition parse_authority :: "string \<Rightarrow> string \<times> nat" where
  "parse_authority authority =
     (case rsplit_once CHR '':'' authority of
        Some (host, port_str) \<Rightarrow>
          (case parse_uint 65535 port_str of Some port \<Rightarrow> (host, port) | None \<Rightarrow> (authority, 443))
      | None \<Rightarrow> (authority, 443))"

definition mitm_url :: "string \<Rightarrow> string \<Rightarrow> string" where
  "mitm_url authority path =
     (let (domain, port) = parse_authority authority in
      if port = 443 then ''https://'' @ domain @ path
      else ''https://'' @ domain @ '':'' @ show_nat port @ path)"

definition rewrite_mitm_request :: "(string \<Rightarrow> string option) \<Rightarrow> string \<Rightarrow> http_request \<Rightarrow> http_request option" where
  "rewrite_mitm_request parse_uri authority req =
     map_option (\<lambda>u. req\<lparr>rq_uri := u\<rparr>) (parse_uri (mitm_url authority (path_and_query req)))"

datatype served = Answered reply | Tunnelled string tls_policy_decision | Intercepted string "user_info option"

definition challenge_reply :: "nat \<times> string \<times> string \<Rightarrow> reply" where
  "challenge_reply c = (case c of (st, n, v) \<Rightarrow> Full \<lparr>rs_status = st, rs_headers = [(n, v)], rs_body = []\<rparr>)"

text \<open>The decision once the tunnel is up.\<close>

definition connect_tls ::
  "'re policy_env \<Rightarrow> string \<Rightarrow> 're policy_service \<Rightarrow> tls_policy_decision \<times> 're policy_service" where
  "connect_tls env authority sv =
     (let (domain, port) = parse_authority authority in
      if should_mitm_port port then tls_policy_decision env domain sv
      else (\<lparr>tp_mitm = False, tp_decision_source = ''sni'', tp_bypass_reason = Some ''non_mitm_port''\<rparr>, sv))"

definition connect_checked ::
  "('c, 'l) pipe_lib \<Rightarrow> ('re, 'c, 's, 'a) pipe_io \<Rightarrow> proxy_config \<Rightarrow> string \<Rightarrow> http_request \<Rightarrow> string \<Rightarrow> user_info option \<Rightarrow>
   ('re, 'c, 's) proxy_state \<Rightarrow> served \<times> ('re, 'c, 's) proxy_state" where
  "connect_checked lib io cfg authority req client_ip user s =
     (let username = snd (user_fields user);
          url = ''https://'' @ authority;
          (limited, limiter) = check_rate_limit (pl_to_str lib) (io_evict io) (io_arrived io) client_ip username
                                 (rq_headers req) (ps_limiter s);
          s1 = s\<lparr>ps_limiter := limiter\<rparr>
      in case limited of
           Some r \<Rightarrow> (Answered (Full r), s1)
         | None \<Rightarrow>
             (case fst (run_wasm_hook (pl_http lib) (pl_to_str lib) (cg_wasm cfg) ''CONNECT'' url client_ip username []) of
                Some r \<Rightarrow> (Answered (Full r), s1)
              | None \<Rightarrow>
                  (case check_policy (io_policy io) url (fst (parse_authority authority)) username (user_groups user) client_ip
                          (ps_policy s1) of
                     ((Some d, _), sv) \<Rightarrow>
                       (Answered (Full (policy_response (\<lambda>t. header_value_from_str (pl_http lib) t \<noteq> None) d)),
                        s1\<lparr>ps_policy := sv\<rparr>)
                   | ((None, _), sv) \<Rightarrow>
                       (let (tls, sv') = connect_tls (io_policy io) authority sv in
                        (if tp_mitm tls then Intercepted authority user else Tunnelled authority tls,
                         s1\<lparr>ps_policy := sv'\<rparr>)))))"

text \<open>One request of a connection; \<open>authority\<close> is that of its URI.\<close>

definition authenticated ::
  "('c, 'l) pipe_lib \<Rightarrow> ('re, 'c, 's, 'a) pipe_io \<Rightarrow> http_request \<Rightarrow> string \<Rightarrow> conn_auth_cache \<Rightarrow>
   ('re, 'c, 's) proxy_state \<Rightarrow> ((nat \<times> string \<times> string) + user_info option) \<times> conn_auth_cache \<times> ('re, 'c, 's) proxy_state" where
  "authenticated lib io req client_ip conn s =
     (case authenticate_proxy (pl_auth lib) (pl_ldap lib) (io_arrived io) client_ip (rq_headers req) (Some conn) (ps_auth s) of
        (r, conn', auth) \<Rightarrow> (r, (case conn' of Some c \<Rightarrow> c | None \<Rightarrow> conn), s\<lparr>ps_auth := auth\<rparr>))"

definition hooked_reply ::
  "('c, 'l) pipe_lib \<Rightarrow> proxy_config \<Rightarrow> http_request \<Rightarrow> string \<Rightarrow> user_info option \<Rightarrow> reply \<Rightarrow> reply" where
  "hooked_reply lib cfg req client_ip user reply =
     (let hook = run_wasm_hook_response (pl_http lib) (pl_to_str lib) (cg_wasm cfg) (rq_method req) (rq_uri req) client_ip
                   (snd (user_fields user)) (rq_headers req)
      in case reply of
           Full r \<Rightarrow> Full (r\<lparr>rs_headers := hook (rs_status r) (rs_headers r)\<rparr>)
         | Streamed st hs frames \<Rightarrow> Streamed st (hook st hs) frames)"

definition handle_client_request ::
  "('c, 'l) pipe_lib \<Rightarrow> ('re, 'c, 's, 'a) pipe_io \<Rightarrow> proxy_config \<Rightarrow> string option \<Rightarrow> http_request \<Rightarrow> string \<Rightarrow>
   conn_auth_cache \<Rightarrow> ('re, 'c, 's) proxy_state \<Rightarrow> (served \<times> conn_auth_cache \<times> ('re, 'c, 's) proxy_state) option" where
  "handle_client_request lib io cfg authority req client_ip conn s =
     (if rq_method req = ''CONNECT'' then
        (case authority of
           None \<Rightarrow> Some (Answered (Full (plain 400 ''400 Bad Request'')), conn, s)
         | Some a \<Rightarrow>
             (case authenticated lib io req client_ip conn s of
                (Inl c, conn', s1) \<Rightarrow> Some (Answered (challenge_reply c), conn', s1)
              | (Inr user, conn', s1) \<Rightarrow>
                  (case connect_checked lib io cfg a req client_ip user s1 of (r, s2) \<Rightarrow> Some (r, conn', s2))))
      else
        (case authenticated lib io req client_ip conn s of
           (Inl c, conn', s1) \<Rightarrow> Some (Answered (challenge_reply c), conn', s1)
         | (Inr user, conn', s1) \<Rightarrow>
             map_option (\<lambda>(r, s2). (Answered (hooked_reply lib cfg req client_ip user r), conn', s2))
               (handle_request lib io cfg req client_ip user s1)))"

text \<open>A request inside an intercepted tunnel, for the user of its \<^verbatim>\<open>CONNECT\<close>.\<close>

definition handle_mitm_request ::
  "('c, 'l) pipe_lib \<Rightarrow> ('re, 'c, 's, 'a) pipe_io \<Rightarrow> proxy_config \<Rightarrow> string \<Rightarrow> user_info option \<Rightarrow> http_request \<Rightarrow> string \<Rightarrow>
   ('re, 'c, 's) proxy_state \<Rightarrow> (reply \<times> ('re, 'c, 's) proxy_state) option" where
  "handle_mitm_request lib io cfg authority user req client_ip s =
     (case rewrite_mitm_request (pl_parse_uri lib) authority req of
        None \<Rightarrow> Some (Full (plain 400 ''400 Bad Request''), s)
      | Some req' \<Rightarrow>
          map_option (\<lambda>(r, s'). (hooked_reply lib cfg req' client_ip user r, s'))
            (handle_request lib io cfg req' client_ip user s))"

section \<open>Lemmas\<close>

lemma connect_tls_keeps:
  "sv_policy_cache (snd (connect_tls env authority sv)) = sv_policy_cache sv"
  "sv_threat_score_cache (snd (connect_tls env authority sv)) = sv_threat_score_cache sv"
  "policy_active (snd (connect_tls env authority sv)) = policy_active sv"
  by (simp_all add: connect_tls_def tls_policy_decision_def policy_active_def Let_def case_prod_beta del: not_None_eq)

lemma policy_cached_cong:
  "sv_policy_cache sv' = sv_policy_cache sv \<Longrightarrow> policy_active sv' = policy_active sv \<Longrightarrow>
     policy_cached env u d g sv' = policy_cached env u d g sv"
  by (simp add: policy_cached_def)

lemma connect_checked_passed:
  assumes "connect_checked lib io cfg authority req ip user s = (r, s1)" "\<forall>a. r \<noteq> Answered a"
  obtains x sv where "check_policy (io_policy io) (''https://'' @ authority) (fst (parse_authority authority))
      (snd (user_fields user)) (user_groups user) ip (ps_policy s) = ((None, x), sv)"
    "ps_policy s1 = snd (connect_tls (io_policy io) authority sv)"
proof -
  obtain d x sv where d: "check_policy (io_policy io) (''https://'' @ authority) (fst (parse_authority authority))
      (snd (user_fields user)) (user_groups user) ip (ps_policy s) = ((d, x), sv)" by (metis prod.collapse)
  have "d = None \<and> ps_policy s1 = snd (connect_tls (io_policy io) authority sv)"
    using assms d by (cases d) (auto simp: connect_checked_def Let_def case_prod_beta split: option.splits)
  with d that show thesis by blast
qed

section \<open>Properties\<close>

text \<open>(C7) Nothing happens before the login: a request whose proxy authentication fails is answered with the
  challenge, and nothing is sent upstream, no rate is charged, no policy is evaluated and no cache
  is touched.\<close>

theorem challenge_stops_request:
  assumes "authenticated lib io req ip conn s = (Inl c, conn', s1)" "rq_method req = ''CONNECT'' \<Longrightarrow> authority \<noteq> None"
  shows "\<exists>s'. handle_client_request lib io cfg authority req ip conn s = Some (Answered (challenge_reply c), conn', s') \<and>
    ps_sent s' = ps_sent s \<and> ps_limiter s' = ps_limiter s \<and> ps_policy s' = ps_policy s \<and> ps_l1 s' = ps_l1 s \<and>
    ps_redis s' = ps_redis s \<and> ps_flights s' = ps_flights s"
proof -
  have "handle_client_request lib io cfg authority req ip conn s = Some (Answered (challenge_reply c), conn', s1)"
    using assms by (auto simp: handle_client_request_def)
  moreover have "\<exists>auth. s1 = s\<lparr>ps_auth := auth\<rparr>" using assms(1) by (auto simp: authenticated_def split: prod.splits)
  ultimately show ?thesis by auto
qed

text \<open>(C36) The decision on a tunnel stands for everything inside it: once a \<^verbatim>\<open>CONNECT\<close> has been let through
  with a decision made afresh, each request of the same user inside the tunnel is let through
  while that decision is cached, whatever its URL, unless a threat score blocks it. Rules
  on paths, URL prefixes or regular expressions are not consulted for intercepted traffic.\<close>

theorem tunnel_decision_covers_requests:
  assumes "connect_checked lib io cfg authority req ip (Some u) s = (Intercepted authority (Some u), s1)"
    "policy_active (ps_policy s)" "policy_cache_enabled (sv_policy_cache (ps_policy s))"
    "policy_cached (io_policy io) (Some (ui_username u)) domain (ui_groups u) (ps_policy s) = None"
    "pv_now (io_policy io') - pv_now (io_policy io) \<le> pcc_ttl (pc_config (sv_policy_cache (ps_policy s)))"
    "fst (parse_authority authority) = domain" "extract_domain (pl_url_host lib) (rq_uri req') = domain"
  shows "fst (fst (policy_verdict lib io' req' ip' (Some u) s1)) = None \<longleftrightarrow>
    (case threat_lookup (pv_now (io_policy io')) domain ip' (sv_threat_score_cache (ps_policy s)) of
       None \<Rightarrow> True
     | Some hit \<Rightarrow> \<not> (block_enabled (ts_config (sv_threat_score_cache (ps_policy s))) \<and>
                     tc_block_threshold (ts_config (sv_threat_score_cache (ps_policy s))) \<le> th_score hit))"
proof -
  obtain x sv where c: "check_policy (io_policy io) (''https://'' @ authority) domain (Some (ui_username u)) (ui_groups u) ip
      (ps_policy s) = ((None, x), sv)" and s1: "ps_policy s1 = snd (connect_tls (io_policy io) authority sv)"
    by (rule connect_checked_passed [OF assms(1)]) (simp_all add: assms(6) user_fields_def user_groups_def)
  note stored = check_policy_cached [OF assms(2-5) c]
  have "policy_cached (io_policy io') (Some (ui_username u)) domain (ui_groups u) (ps_policy s1) =
      policy_cached (io_policy io') (Some (ui_username u)) domain (ui_groups u) sv"
    unfolding s1 by (rule policy_cached_cong) (simp_all add: connect_tls_keeps)
  with stored(1) have h: "policy_cached (io_policy io') (Some (ui_username u)) domain (ui_groups u) (ps_policy s1) =
      Some \<lparr>ph_blocking = None, ph_categories = fst x, ph_threat_sources = snd x\<rparr>" by simp
  have t: "sv_threat_score_cache (ps_policy s1) = sv_threat_score_cache (ps_policy s)"
    using stored(2) by (simp add: s1 connect_tls_keeps)
  have v: "policy_verdict lib io' req' ip' (Some u) s1 =
      check_policy (io_policy io') (rq_uri req') domain (Some (ui_username u)) (ui_groups u) ip' (ps_policy s1)"
    by (simp add: policy_verdict_def assms(7) request_username_def user_fields_def user_groups_def)
  show ?thesis unfolding v by (simp only: check_policy_hit [OF h] fst_conv tighten_none t) simp
qed

section \<open>Witnesses\<close>

definition demo_locked :: "(string, (string, cached_response) hash_map, unit) proxy_state" where
  "demo_locked = demo_pstate\<lparr>ps_auth := Some (auth_new (auth_config_default\<lparr>ac_enabled := True\<rparr>) None [] None)\<rparr>"

definition demo_user :: user_info where
  "demo_user =
     \<lparr>ui_username = ''eve'', ui_display_name = None, ui_email = None, ui_groups = [], ui_authenticated_at = 0\<rparr>"

theorem challenge_stops_request_witness:
  "\<exists>c conn s'. handle_client_request demo_plib (demo_answer_io [] []) demo_pcfg None (demo_get ''http://x/'') ''10.0.0.1''
     (conn_new 0) demo_locked = Some (Answered (challenge_reply c), conn, s') \<and> ps_sent s' = []"
proof -
  let ?a = "authenticated demo_plib (demo_answer_io [] []) (demo_get ''http://x/'') ''10.0.0.1'' (conn_new 0) demo_locked"
  have "case fst ?a of Inl _ \<Rightarrow> True | Inr _ \<Rightarrow> False" by code_simp
  then obtain c conn s1 where a: "?a = (Inl c, conn, s1)" by (cases ?a) (auto split: sum.splits)
  have "ps_sent demo_locked = []" "rq_method (demo_get ''http://x/'') \<noteq> ''CONNECT''"
    by (simp_all add: demo_locked_def demo_pstate_def demo_get_def)
  with challenge_stops_request [OF a, of None demo_pcfg] show ?thesis by metis
qed

text \<open>The rules deny this URL, and the request passes inside the tunnel.\<close>

theorem tunnel_decision_covers_requests_witness:
  "\<exists>s1. connect_checked demo_plib (demo_answer_io [] []) demo_pcfg ''x:443'' (demo_get ''x:443'') ''10.0.0.1'' (Some demo_user)
       demo_pstate = (Intercepted ''x:443'' (Some demo_user), s1) \<and>
     fst (fst (policy_verdict demo_plib (demo_answer_io [] []) (demo_get ''http://x/secret'') ''10.0.0.1'' (Some demo_user) s1)) = None"
proof -
  let ?io = "demo_answer_io [] []"
  let ?c = "connect_checked demo_plib ?io demo_pcfg ''x:443'' (demo_get ''x:443'') ''10.0.0.1'' (Some demo_user) demo_pstate"
  have "case fst ?c of Intercepted a u \<Rightarrow> a = ''x:443'' \<and> u = Some demo_user | _ \<Rightarrow> False" by code_simp
  then obtain s1 where c: "?c = (Intercepted ''x:443'' (Some demo_user), s1)"
    by (cases ?c) (auto split: served.splits)
  have p: "policy_active (ps_policy demo_pstate)" "policy_cache_enabled (sv_policy_cache (ps_policy demo_pstate))"
    "policy_cached (io_policy ?io) (Some (ui_username demo_user)) ''x'' (ui_groups demo_user) (ps_policy demo_pstate) = None"
    "pv_now (io_policy ?io) - pv_now (io_policy ?io) \<le> pcc_ttl (pc_config (sv_policy_cache (ps_policy demo_pstate)))"
    "fst (parse_authority ''x:443'') = ''x''"
    "extract_domain (pl_url_host demo_plib) (rq_uri (demo_get ''http://x/secret'')) = ''x''" by code_simp+
  have "threat_lookup t ''x'' ip (sv_threat_score_cache (ps_policy demo_pstate)) = None" for t ip
    by (simp add: threat_lookup_def demo_pstate_def demo_service_def demo_threats_def threat_candidates_def)
  with tunnel_decision_covers_requests [OF c p, of "''10.0.0.1''"] c show ?thesis by simp
qed

end
