(* ===== verification/Events.thy ===== *)
theory Events
  imports Wire "HOL-Library.Sublist"
begin

text \<open>
  Events of the proxy: their schema and the rows they become in the event database
  (\<^verbatim>\<open>bsdm-events/src/lib.rs\<close>, \<^verbatim>\<open>clickhouse.rs\<close>), and the bounded queue in front of the senders
  (\<^verbatim>\<open>proxy/src/pipeline.rs\<close>). The calendar and the JSON writer are parameters; a sender's success is an
  input.
\<close>

section \<open>Definitions\<close>

subsection \<open>Events and rows\<close>

record cache_event =
  ev_url :: string
  ev_method :: string
  ev_status :: nat
  ev_cache_key :: string
  ev_cache_status :: string
  ev_timestamp :: nat
  ev_headers :: headers
  ev_user_id :: "string option"
  ev_username :: "string option"
  ev_client_ip :: string
  ev_domain :: string
  ev_response_size :: nat
  ev_request_duration_ms :: nat
  ev_content_type :: "string option"
  ev_user_agent :: "string option"
  ev_categories :: "string list"
  ev_threat_sources :: "string list"
  ev_acl_action :: "string option"
  ev_acl_rule_id :: "string option"
  ev_acl_reason :: "string option"
  ev_session_id :: string
  ev_parent_event_id :: "string option"
  ev_redirect_url :: "string option"
  ev_dlp_violation :: "string option"
  ev_casb_alert :: "string option"
  ev_decision_source :: "string option"
  ev_bypass_reason :: "string option"
  ev_event_id :: string

definition document_id :: "cache_event \<Rightarrow> string" where
  "document_id e =
     (if ev_event_id e \<noteq> [] then ev_event_id e
      else show_nat (ev_timestamp e) @ '':'' @ show_nat (ev_request_duration_ms e) @ '':'' @ ev_client_ip e @ '':'' @
           ev_cache_key e)"

record http_cache_row =
  hw_event_id :: string
  hw_ts :: string
  hw_url :: string
  hw_method :: string
  hw_status :: nat
  hw_cache_key :: string
  hw_cache_status :: string
  hw_user_id :: "string option"
  hw_username :: "string option"
  hw_client_ip :: string
  hw_domain :: string
  hw_response_size :: nat
  hw_request_duration_ms :: nat
  hw_content_type :: "string option"
  hw_user_agent :: string
  hw_categories :: "string list"
  hw_threat_sources :: "string list"
  hw_acl_action :: "string option"
  hw_acl_rule_id :: "string option"
  hw_acl_reason :: "string option"
  hw_session_id :: string
  hw_parent_event_id :: "string option"
  hw_redirect_url :: "string option"
  hw_headers :: string
  hw_dlp_violation :: "string option"
  hw_casb_alert :: "string option"
  hw_decision_source :: "string option"
  hw_bypass_reason :: "string option"

definition show_ipv4 :: "u32 \<Rightarrow> string" where
  "show_ipv4 a = join ''.'' (map (\<lambda>b. show_nat (unat b)) (to_be 4 (unat a)))"

definition normalize_ipv4 :: "string \<Rightarrow> string" where
  "normalize_ipv4 ip = (case parse_ipv4 ip of Some a \<Rightarrow> show_ipv4 a | None \<Rightarrow> ''0.0.0.0'')"

definition headers_json :: "(headers \<Rightarrow> string option) \<Rightarrow> headers \<Rightarrow> string" where
  "headers_json to_json hs =
     (if hs = [] then ''{}'' else (case to_json hs of Some s \<Rightarrow> s | None \<Rightarrow> ''{}''))"

text \<open>\<open>calendar\<close> prints a time in seconds, and the \<^verbatim>\<open>i64\<close> cast wraps; \<^const>\<open>None\<close> is a time it does not know.\<close>

definition epoch_secs_to_clickhouse_ts :: "(int \<Rightarrow> string option) \<Rightarrow> nat \<Rightarrow> string" where
  "epoch_secs_to_clickhouse_ts calendar secs =
     (case calendar (sint (of_nat secs :: u64)) of
        Some s \<Rightarrow> s
      | None \<Rightarrow> (case calendar 0 of Some s \<Rightarrow> s | None \<Rightarrow> [])) @ ''.000''"

definition cache_event_to_row :: "(int \<Rightarrow> string option) \<Rightarrow> (headers \<Rightarrow> string option) \<Rightarrow> cache_event \<Rightarrow> http_cache_row" where
  "cache_event_to_row calendar to_json e =
     \<lparr>hw_event_id = (if ev_event_id e = [] then document_id e else ev_event_id e),
      hw_ts = epoch_secs_to_clickhouse_ts calendar (ev_timestamp e),
      hw_url = ev_url e, hw_method = ev_method e, hw_status = ev_status e,
      hw_cache_key = ev_cache_key e, hw_cache_status = ev_cache_status e,
      hw_user_id = ev_user_id e, hw_username = ev_username e,
      hw_client_ip = normalize_ipv4 (ev_client_ip e), hw_domain = ev_domain e,
      hw_response_size = ev_response_size e,
      hw_request_duration_ms = min (ev_request_duration_ms e) u32_max,
      hw_content_type = ev_content_type e,
      hw_user_agent = (case ev_user_agent e of Some a \<Rightarrow> a | None \<Rightarrow> []),
      hw_categories = ev_categories e, hw_threat_sources = ev_threat_sources e,
      hw_acl_action = ev_acl_action e, hw_acl_rule_id = ev_acl_rule_id e, hw_acl_reason = ev_acl_reason e,
      hw_session_id = ev_session_id e, hw_parent_event_id = ev_parent_event_id e, hw_redirect_url = ev_redirect_url e,
      hw_headers = headers_json to_json (ev_headers e),
      hw_dlp_violation = ev_dlp_violation e, hw_casb_alert = ev_casb_alert e,
      hw_decision_source = ev_decision_source e, hw_bypass_reason = ev_bypass_reason e\<rparr>"

text \<open>The lines of an insert, in order; \<^const>\<open>None\<close> when a row does not serialise.\<close>

fun json_each_row_lines :: "(http_cache_row \<Rightarrow> string option) \<Rightarrow> (cache_event \<Rightarrow> http_cache_row) \<Rightarrow> cache_event list \<Rightarrow> string option" where
  "json_each_row_lines to_string to_row [] = Some []"
| "json_each_row_lines to_string to_row (e # es) =
     (case to_string (to_row e) of
        None \<Rightarrow> None
      | Some l \<Rightarrow> map_option (\<lambda>rest. l @ CHR 0x0A # rest) (json_each_row_lines to_string to_row es))"

subsection \<open>The queue\<close>

definition queue_capacity_from_env :: "(string \<Rightarrow> string option) \<Rightarrow> nat" where
  "queue_capacity_from_env env =
     (case Option.bind (env ''KAFKA_QUEUE_CAPACITY'') (parse_uint u64_max) of
        Some n \<Rightarrow> if n > 0 then n else 8192
      | None \<Rightarrow> 8192)"

record event_pipeline =
  pq_capacity :: nat
  pq_queue :: "cache_event list"
  pq_closed :: bool
  pq_sent :: "cache_event list"
  pq_dropped :: nat
  pq_errors :: nat

definition pipeline_new :: "nat \<Rightarrow> event_pipeline" where
  "pipeline_new n = \<lparr>pq_capacity = n, pq_queue = [], pq_closed = False, pq_sent = [], pq_dropped = 0, pq_errors = 0\<rparr>"

definition try_enqueue :: "cache_event \<Rightarrow> event_pipeline \<Rightarrow> event_pipeline" where
  "try_enqueue e p =
     (if pq_closed p then p\<lparr>pq_errors := pq_errors p + 1\<rparr>
      else if length (pq_queue p) \<ge> pq_capacity p then p\<lparr>pq_dropped := pq_dropped p + 1\<rparr>
      else p\<lparr>pq_queue := pq_queue p @ [e]\<rparr>)"

text \<open>One turn of the background sender; \<open>ok\<close> tells whether the event was delivered.\<close>

definition send_next :: "bool \<Rightarrow> event_pipeline \<Rightarrow> event_pipeline" where
  "send_next ok p =
     (case pq_queue p of
        [] \<Rightarrow> p
      | e # rest \<Rightarrow>
          (if ok then p\<lparr>pq_queue := rest, pq_sent := pq_sent p @ [e]\<rparr>
           else p\<lparr>pq_queue := rest, pq_errors := pq_errors p + 1\<rparr>))"

text \<open>Kafka when it is configured, else the HTTP sink.\<close>

definition dispatch_cache_event ::
  "cache_event \<Rightarrow> event_pipeline option \<times> event_pipeline option \<Rightarrow> event_pipeline option \<times> event_pipeline option" where
  "dispatch_cache_event e ps =
     (case ps of
        (Some kafka, http) \<Rightarrow> (Some (try_enqueue e kafka), http)
      | (None, Some http) \<Rightarrow> (None, Some (try_enqueue e http))
      | (None, None) \<Rightarrow> (None, None))"

datatype pipeline_op = Offer cache_event | Send bool

fun pipeline_step :: "pipeline_op \<Rightarrow> event_pipeline \<Rightarrow> event_pipeline" where
  "pipeline_step (Offer e) p = try_enqueue e p"
| "pipeline_step (Send ok) p = send_next ok p"

definition offered :: "pipeline_op list \<Rightarrow> cache_event list" where
  "offered ops = List.map_filter (\<lambda>op. case op of Offer e \<Rightarrow> Some e | Send _ \<Rightarrow> None) ops"

section \<open>Lemmas\<close>

lemma offered_simps [simp]:
  "offered [] = []" "offered (ops @ [Offer e]) = offered ops @ [e]" "offered (ops @ [Send ok]) = offered ops"
  by (simp_all add: offered_def List.map_filter_def)

lemma subseq_append_mid: "subseq (xs @ y # ys) zs \<Longrightarrow> subseq (xs @ ys) zs"
  by (rule subseq_order.trans [of _ "xs @ y # ys"]) (simp_all add: list_emb_append_mono subseq_order.order_refl list_emb_Cons)

lemma pipeline_run:
  "let p = fold pipeline_step ops (pipeline_new n) in
     \<not> pq_closed p \<and> pq_capacity p = n \<and> length (pq_queue p) \<le> n \<and> subseq (pq_sent p @ pq_queue p) (offered ops) \<and>
     length (offered ops) = length (pq_sent p) + length (pq_queue p) + pq_dropped p + pq_errors p"
proof (induction ops rule: rev_induct)
  case Nil
  show ?case by (simp add: pipeline_new_def)
next
  case (snoc op ops)
  let ?p = "fold pipeline_step ops (pipeline_new n)"
  note IH = snoc [unfolded Let_def]
  show ?case
  proof (cases op)
    case (Offer e)
    have "subseq (pq_sent ?p @ pq_queue ?p) (offered ops @ [e])"
      using IH by (blast intro: list_emb_append2 subseq_order.trans subseq_rev_drop_many)
    moreover have "subseq (pq_sent ?p @ pq_queue ?p @ [e]) (offered ops @ [e])"
      using IH list_emb_append_mono [of "(=)" "pq_sent ?p @ pq_queue ?p" "offered ops" "[e]" "[e]"] by simp
    ultimately show ?thesis using IH Offer by (simp add: try_enqueue_def Let_def)
  next
    case (Send ok)
    show ?thesis
    proof (cases "pq_queue ?p")
      case Nil
      then show ?thesis using IH Send by (simp add: send_next_def Let_def)
    next
      case (Cons e rest)
      then show ?thesis
        using IH Send subseq_append_mid [of "pq_sent ?p" e rest "offered ops"] by (auto simp: send_next_def Let_def)
    qed
  qed
qed

section \<open>Properties\<close>


text \<open>A row of the event database tells a client only by an IPv4 address: all clients with another
  kind of address, and all agents, share the address 0.0.0.0.\<close>

theorem other_clients_share_address:
  assumes "parse_ipv4 (ev_client_ip e) = None"
  shows "hw_client_ip (cache_event_to_row calendar to_json e) = ''0.0.0.0''"
  using assms by (simp add: cache_event_to_row_def normalize_ipv4_def)

section \<open>Witnesses\<close>

definition demo_event :: cache_event where
  "demo_event =
     \<lparr>ev_url = ''https://a.test/'', ev_method = ''GET'', ev_status = 200, ev_cache_key = ''k'', ev_cache_status = ''MISS'',
      ev_timestamp = 1700000000, ev_headers = [], ev_user_id = None, ev_username = None, ev_client_ip = ''2001:db8::7'',
      ev_domain = ''a.test'', ev_response_size = 10, ev_request_duration_ms = 5, ev_content_type = None,
      ev_user_agent = None, ev_categories = [], ev_threat_sources = [], ev_acl_action = None, ev_acl_rule_id = None,
      ev_acl_reason = None, ev_session_id = [], ev_parent_event_id = None, ev_redirect_url = None,
      ev_dlp_violation = None, ev_casb_alert = None, ev_decision_source = None, ev_bypass_reason = None,
      ev_event_id = ''e1''\<rparr>"

theorem other_clients_share_address_witness:
  "hw_client_ip (cache_event_to_row (\<lambda>_. None) (\<lambda>_. None) demo_event) = ''0.0.0.0'' \<and> ev_client_ip demo_event = ''2001:db8::7''"
proof -
  have "parse_ipv4 (ev_client_ip demo_event) = None" by code_simp
  from other_clients_share_address [OF this] show ?thesis by (simp add: demo_event_def)
qed

end
