(* ===== verification/Agent_Api.thy ===== *)
theory Agent_Api
  imports Device_Registry Proxy_Policy Acl_Api Events
begin

text \<open>
  The interface for agents on devices: the published policy and those who wait for it
  (\<^verbatim>\<open>proxy/src/agent_policy_hub.rs\<close>), the decisions agents report (\<^verbatim>\<open>agent_events.rs\<close>) and the handlers
  that change state (\<^verbatim>\<open>agent_api.rs\<close>).

  The waiting tasks are small machines whose steps interleave with publications. A publication
  wakes exactly the tasks that are armed, as \<^verbatim>\<open>notify_waiters\<close> of the runtime does. Parsed bodies, random
  identifiers and times are inputs; the signing of certificates is a parameter.
\<close>

section \<open>Definitions\<close>

subsection \<open>The policy document\<close>

record policy_document =
  pd_policy_version :: string
  pd_policy_mode :: string
  pd_mitm_categories :: "string list"
  pd_pinning_exceptions :: "string list"
  pd_sni_deny_patterns :: "string list"
  pd_sni_rules :: "(string \<times> string) list"
  pd_push_reason :: "string option"
  pd_pushed_at :: "nat option"

definition agent_policy_document ::
  "(string \<Rightarrow> string option) \<Rightarrow> string \<Rightarrow> string list \<Rightarrow> string list \<Rightarrow> policy_document" where
  "agent_policy_document env mode categories exceptions =
     (let sni_deny = sni_deny_patterns_from_env env in
      \<lparr>pd_policy_version = ''v0.1.0'', pd_policy_mode = mode, pd_mitm_categories = categories,
       pd_pinning_exceptions = exceptions, pd_sni_deny_patterns = sni_deny,
       pd_sni_rules = map (\<lambda>p. (p, ''deny'')) sni_deny, pd_push_reason = None, pd_pushed_at = None\<rparr>)"

record policy_snapshot =
  so_version :: string
  so_document :: policy_document
  so_pushed_at :: nat
  so_reason :: string

text \<open>\<open>digest\<close> is the hexadecimal form of the first eight bytes of the hash of the substantive fields,
  the time and the running number.\<close>

type_synonym version_digest = "string \<Rightarrow> string list \<Rightarrow> string list \<Rightarrow> string list \<Rightarrow> nat \<Rightarrow> u64 \<Rightarrow> string"

definition content_version :: "version_digest \<Rightarrow> nat \<Rightarrow> u64 \<Rightarrow> policy_document \<Rightarrow> string" where
  "content_version digest now sequence doc =
     CHR ''v'' # digest (pd_policy_mode doc) (pd_mitm_categories doc) (pd_pinning_exceptions doc)
       (pd_sni_deny_patterns doc) now sequence"

definition snapshot_from_document ::
  "version_digest \<Rightarrow> nat \<Rightarrow> u64 \<Rightarrow> policy_document \<Rightarrow> string \<Rightarrow> policy_snapshot" where
  "snapshot_from_document digest now sequence doc reason =
     (let version = content_version digest now sequence doc in
      \<lparr>so_version = version,
       so_document = doc\<lparr>pd_policy_version := version, pd_push_reason := Some reason, pd_pushed_at := Some now\<rparr>,
       so_pushed_at = now, so_reason = reason\<rparr>)"

record policy_hub =
  ph_state :: policy_snapshot
  ph_push_seq :: u64

definition publish :: "version_digest \<Rightarrow> nat \<Rightarrow> policy_document \<Rightarrow> string \<Rightarrow> policy_hub \<Rightarrow> policy_snapshot \<times> policy_hub" where
  "publish digest now doc reason hub =
     (let s = snapshot_from_document digest now (ph_push_seq hub) doc reason
      in (s, hub\<lparr>ph_state := s, ph_push_seq := ph_push_seq hub + 1\<rparr>))"

definition runtime_document :: "(string \<Rightarrow> string option) \<Rightarrow> nat \<Rightarrow> pinning_registry \<Rightarrow> policy_document" where
  "runtime_document env now pinning =
     agent_policy_document env (policy_mode_str (configured_policy_mode env)) (configured_mitm_categories env)
       (active_domains now pinning)"

definition publish_from_runtime ::
  "version_digest \<Rightarrow> (string \<Rightarrow> string option) \<Rightarrow> nat \<Rightarrow> pinning_registry \<Rightarrow> string \<Rightarrow> policy_hub \<Rightarrow>
   policy_snapshot \<times> policy_hub" where
  "publish_from_runtime digest env now pinning reason hub = publish digest now (runtime_document env now pinning) reason hub"

subsection \<open>Waiting for a change\<close>

text \<open>One call of \<^verbatim>\<open>wait_change\<close>: it looks at the policy, arms the notification, and sleeps until it is
  woken or its time is up.\<close>

datatype watch_phase = Looking | Arming | Sleeping | Woken | Answered_watch policy_snapshot bool

record watch =
  wt_since :: "string option"
  wt_phase :: watch_phase

definition has_changed :: "string option \<Rightarrow> policy_snapshot \<Rightarrow> bool" where
  "has_changed since snap =
     (case since of None \<Rightarrow> True | Some v \<Rightarrow> v = [] \<or> v \<noteq> so_version snap)"

datatype watch_event = Look bool | Arm | Publish nat policy_document string | Resume | Timeout

text \<open>\<open>Look out_of_time\<close>: one pass through the head of the loop, with no time remaining or some.\<close>

fun watch_step :: "version_digest \<Rightarrow> watch_event \<Rightarrow> watch \<times> policy_hub \<Rightarrow> watch \<times> policy_hub" where
  "watch_step digest (Look out_of_time) (w, hub) =
     (case wt_phase w of
        Looking \<Rightarrow>
          (if has_changed (wt_since w) (ph_state hub) then w\<lparr>wt_phase := Answered_watch (ph_state hub) True\<rparr>
           else if out_of_time then w\<lparr>wt_phase := Answered_watch (ph_state hub) False\<rparr>
           else w\<lparr>wt_phase := Arming\<rparr>, hub)
      | _ \<Rightarrow> (w, hub))"
| "watch_step digest Arm (w, hub) = (case wt_phase w of Arming \<Rightarrow> (w\<lparr>wt_phase := Sleeping\<rparr>, hub) | _ \<Rightarrow> (w, hub))"
| "watch_step digest (Publish now doc reason) (w, hub) =
     (case wt_phase w of Sleeping \<Rightarrow> w\<lparr>wt_phase := Woken\<rparr> | _ \<Rightarrow> w, snd (publish digest now doc reason hub))"
| "watch_step digest Resume (w, hub) = (case wt_phase w of Woken \<Rightarrow> (w\<lparr>wt_phase := Looking\<rparr>, hub) | _ \<Rightarrow> (w, hub))"
| "watch_step digest Timeout (w, hub) =
     (case wt_phase w of
        Sleeping \<Rightarrow> (w\<lparr>wt_phase := Answered_watch (ph_state hub) False\<rparr>, hub)
      | Woken \<Rightarrow> (w\<lparr>wt_phase := Answered_watch (ph_state hub) False\<rparr>, hub)
      | _ \<Rightarrow> (w, hub))"

definition watch_run :: "version_digest \<Rightarrow> watch_event list \<Rightarrow> watch \<times> policy_hub \<Rightarrow> watch \<times> policy_hub" where
  "watch_run digest es s = fold (watch_step digest) es s"

text \<open>The query of the long poll: the last version seen and the time to wait, in seconds.\<close>

definition watch_query :: "string option \<Rightarrow> string option \<times> nat" where
  "watch_query q =
     (case q of
        None \<Rightarrow> (None, 30)
      | Some q \<Rightarrow>
          fold (\<lambda>pair (since, secs).
            case split_once CHR ''='' pair of
              None \<Rightarrow> (since, secs)
            | Some (k, v) \<Rightarrow>
                (if k = ''since'' then (if v \<noteq> [] then Some v else since, secs)
                 else if k = ''timeout_secs'' then
                   (since, case parse_uint u64_max v of Some n \<Rightarrow> max 1 (min n 120) | None \<Rightarrow> secs)
                 else (since, secs))) (split_char CHR ''&'' q) (None, 30))"

subsection \<open>The stream of policies\<close>

text \<open>\<^verbatim>\<open>agent_policy_stream\<close>: it reads the version, then the first snapshot, which it sends, and then
  waits for notifications or for the tick of its keep-alive; each turn of the loop arms anew.\<close>

datatype stream_phase = Opening | Opened | Unarmed | Armed | Notified

record policy_stream =
  st_last :: string
  st_phase :: stream_phase
  st_frames :: "policy_snapshot list"

definition stream_new :: policy_stream where
  "stream_new = \<lparr>st_last = [], st_phase = Opening, st_frames = []\<rparr>"

datatype stream_event = ReadVersion | SendFirst | ArmStream | Tick | Deliver | PublishTo nat policy_document string

fun stream_step :: "version_digest \<Rightarrow> stream_event \<Rightarrow> policy_stream \<times> policy_hub \<Rightarrow> policy_stream \<times> policy_hub" where
  "stream_step digest ReadVersion (st, hub) =
     (if st_phase st = Opening then (st\<lparr>st_last := so_version (ph_state hub), st_phase := Opened\<rparr>, hub) else (st, hub))"
| "stream_step digest SendFirst (st, hub) =
     (if st_phase st = Opened then (st\<lparr>st_frames := st_frames st @ [ph_state hub], st_phase := Unarmed\<rparr>, hub) else (st, hub))"
| "stream_step digest ArmStream (st, hub) = (if st_phase st = Unarmed then (st\<lparr>st_phase := Armed\<rparr>, hub) else (st, hub))"
| "stream_step digest Tick (st, hub) = (if st_phase st = Armed then (st\<lparr>st_phase := Unarmed\<rparr>, hub) else (st, hub))"
| "stream_step digest Deliver (st, hub) =
     (if st_phase st = Notified then
        (if so_version (ph_state hub) = st_last st then (st\<lparr>st_phase := Unarmed\<rparr>, hub)
         else (st\<lparr>st_last := so_version (ph_state hub), st_frames := st_frames st @ [ph_state hub], st_phase := Unarmed\<rparr>, hub))
      else (st, hub))"
| "stream_step digest (PublishTo now doc reason) (st, hub) =
     (if st_phase st = Armed then st\<lparr>st_phase := Notified\<rparr> else st, snd (publish digest now doc reason hub))"

definition stream_run :: "version_digest \<Rightarrow> stream_event list \<Rightarrow> policy_stream \<times> policy_hub \<Rightarrow> policy_stream \<times> policy_hub" where
  "stream_run digest es s = fold (stream_step digest) es s"

subsection \<open>Reported decisions\<close>

definition max_batch :: nat where "max_batch = 100"

definition max_recent :: nat where "max_recent = 200"

record agent_event_item =
  ai_domain :: string
  ai_action :: string
  ai_decision_source :: "string option"
  ai_timestamp :: "nat option"
  ai_reason :: "string option"
  ai_policy_version :: "string option"

record agent_event_batch =
  ab_device_id :: string
  ab_events :: "agent_event_item list"

record recent_agent_event =
  re_device_id :: string
  re_domain :: string
  re_action :: string
  re_decision_source :: string
  re_timestamp :: nat
  re_reason :: "string option"
  re_policy_version :: "string option"
  re_event_id :: string

datatype batch_error = EmptyBatchDeviceId | EmptyBatch | BatchTooLarge nat | InvalidEvent nat string

fun batch_error_message :: "batch_error \<Rightarrow> string" where
  "batch_error_message EmptyBatchDeviceId = ''device_id must not be empty''"
| "batch_error_message EmptyBatch = ''events must not be empty''"
| "batch_error_message (BatchTooLarge got) = ''events batch too large ('' @ show_nat got @ '' > '' @ show_nat max_batch @ '')''"
| "batch_error_message (InvalidEvent i message) = ''events['' @ show_nat i @ '']: '' @ message"

definition item_error :: "agent_event_item \<Rightarrow> string option" where
  "item_error item =
     (if trim (ai_domain item) = [] then Some ''domain must not be empty''
      else if length (ai_domain item) > 253 then Some ''domain too long''
      else if \<not> List.member [''allow'', ''deny'', ''bypass'', ''inspect''] (to_ascii_lowercase (ai_action item))
        then Some ''action must be allow|deny|bypass|inspect''
      else
        (case ai_decision_source item of
           None \<Rightarrow> None
         | Some src \<Rightarrow>
             (if List.member [''local-agent'', ''dns'', ''sni'', ''mitm'', ''pinning-bypass''] (to_ascii_lowercase src)
              then None else Some ''unsupported decision_source'')))"

fun first_item_error :: "nat \<Rightarrow> agent_event_item list \<Rightarrow> batch_error option" where
  "first_item_error i [] = None"
| "first_item_error i (item # items) =
     (case item_error item of Some message \<Rightarrow> Some (InvalidEvent i message) | None \<Rightarrow> first_item_error (i + 1) items)"

definition validate_batch :: "agent_event_batch \<Rightarrow> batch_error option" where
  "validate_batch batch =
     (if trim (ab_device_id batch) = [] then Some EmptyBatchDeviceId
      else if ab_events batch = [] then Some EmptyBatch
      else if length (ab_events batch) > max_batch then Some (BatchTooLarge (length (ab_events batch)))
      else first_item_error 0 (ab_events batch))"

definition normalize_source :: "string option \<Rightarrow> string" where
  "normalize_source src =
     (case map_option to_ascii_lowercase src of Some s \<Rightarrow> (if s \<noteq> [] then s else ''local-agent'') | None \<Rightarrow> ''local-agent'')"

definition action_to_status_and_acl :: "string \<Rightarrow> nat \<times> string option \<times> string option" where
  "action_to_status_and_acl action =
     (if action = ''deny'' then (403, Some ''deny'', Some ''agent local deny'') else (200, None, None))"

definition to_events :: "nat \<Rightarrow> string \<Rightarrow> string \<Rightarrow> agent_event_item \<Rightarrow> cache_event \<times> recent_agent_event" where
  "to_events now event_id device_id item =
     (let action = to_ascii_lowercase (ai_action item);
          decision_source = normalize_source (ai_decision_source item);
          timestamp = (case ai_timestamp item of Some t \<Rightarrow> (if t > 0 then t else now) | None \<Rightarrow> now);
          domain = to_ascii_lowercase (trim (ai_domain item));
          (status, acl_action, acl_reason) = action_to_status_and_acl action
      in (\<lparr>ev_url = ''https://'' @ domain @ ''/'', ev_method = ''CONNECT'', ev_status = status,
           ev_cache_key = ''agent:'' @ device_id @ '':'' @ domain @ '':'' @ show_nat timestamp,
           ev_cache_status = ''AGENT'', ev_timestamp = timestamp, ev_headers = [], ev_user_id = None,
           ev_username = None, ev_client_ip = device_id, ev_domain = domain, ev_response_size = 0,
           ev_request_duration_ms = 0, ev_content_type = None, ev_user_agent = Some (''bsdm-agent/'' @ device_id),
           ev_categories = [], ev_threat_sources = [], ev_acl_action = acl_action,
           ev_acl_rule_id = ai_policy_version item, ev_acl_reason = or_else (ai_reason item) acl_reason,
           ev_session_id = ''agent:'' @ device_id, ev_parent_event_id = None, ev_redirect_url = None,
           ev_dlp_violation = None, ev_casb_alert = None, ev_decision_source = Some decision_source,
           ev_bypass_reason =
             (if action = ''bypass'' then or_else (ai_reason item) (Some ''agent_bypass'') else None),
           ev_event_id = event_id\<rparr>,
          \<lparr>re_device_id = device_id, re_domain = domain, re_action = action, re_decision_source = decision_source,
           re_timestamp = timestamp, re_reason = ai_reason item, re_policy_version = ai_policy_version item,
           re_event_id = event_id\<rparr>))"

record event_ingestor =
  ei_recent :: "recent_agent_event list"
  ei_kafka :: "event_pipeline option"
  ei_http :: "event_pipeline option"

definition ingestor_memory_only :: event_ingestor where
  "ingestor_memory_only = \<lparr>ei_recent = [], ei_kafka = None, ei_http = None\<rparr>"

definition recent_snapshot :: "nat \<Rightarrow> event_ingestor \<Rightarrow> recent_agent_event list" where
  "recent_snapshot limit ing = take (max 1 (min limit max_recent)) (ei_recent ing)"

definition push_recent :: "recent_agent_event \<Rightarrow> recent_agent_event list \<Rightarrow> recent_agent_event list" where
  "push_recent e recent = e # (if length recent \<ge> max_recent then butlast recent else recent)"

definition try_enqueue_event :: "cache_event \<Rightarrow> event_ingestor \<Rightarrow> bool \<times> event_ingestor" where
  "try_enqueue_event e ing =
     (case (ei_kafka ing, ei_http ing) of
        (Some k, _) \<Rightarrow> (True, ing\<lparr>ei_kafka := Some (try_enqueue e k)\<rparr>)
      | (None, Some h) \<Rightarrow> (True, ing\<lparr>ei_http := Some (try_enqueue e h)\<rparr>)
      | (None, None) \<Rightarrow> (False, ing))"

text \<open>The identifiers \<open>ids\<close> are random, one for each event.\<close>

fun ingest_items ::
  "nat \<Rightarrow> string \<Rightarrow> agent_event_item list \<Rightarrow> string list \<Rightarrow> nat \<Rightarrow> event_ingestor \<Rightarrow> nat \<times> event_ingestor" where
  "ingest_items now device_id (item # items) (i # ids) enqueued ing =
     (let (event, recent) = to_events now i device_id item;
          (ok, ing1) = try_enqueue_event event ing
      in ingest_items now device_id items ids (if ok then enqueued + 1 else enqueued)
           (ing1\<lparr>ei_recent := push_recent recent (ei_recent ing1)\<rparr>))"
| "ingest_items now device_id _ _ enqueued ing = (enqueued, ing)"

record ingest_report =
  ir_accepted :: nat
  ir_enqueued :: nat

definition ingest ::
  "nat \<Rightarrow> string list \<Rightarrow> agent_event_batch \<Rightarrow> event_ingestor \<Rightarrow> (batch_error + ingest_report) \<times> event_ingestor" where
  "ingest now ids batch ing =
     (case validate_batch batch of
        Some e \<Rightarrow> (Inl e, ing)
      | None \<Rightarrow>
          (case ingest_items now (trim (ab_device_id batch)) (ab_events batch) ids 0 ing of
             (enqueued, ing') \<Rightarrow> (Inr \<lparr>ir_accepted = length (ab_events batch), ir_enqueued = enqueued\<rparr>, ing')))"

subsection \<open>Handlers\<close>

record signed_cert =
  sg_client_cert_pem :: string
  sg_ca_cert_pem :: string
  sg_not_after_unix :: nat
  sg_subject :: string
  sg_fingerprint_sha256 :: string
  sg_serial_hex :: string

record enroll_dto =
  ed_device_id :: "string option"
  ed_platform :: string
  ed_name :: "string option"
  ed_user_identity :: "string option"
  ed_capabilities :: "string list"
  ed_device_type :: "string option"
  ed_csr_pem :: "string option"
  ed_cert_validity_days :: "nat option"

record agent_state =
  ag_devices :: registry
  ag_device_db :: device_db
  ag_crl :: crl
  ag_crl_db :: crl_db
  ag_events :: event_ingestor
  ag_hub :: policy_hub
  ag_pinning :: pinning_registry
  ag_audit :: "audit_record list"

record agent_lib =
  gl_sha :: "string \<Rightarrow> string"
  gl_digest :: version_digest
  gl_env :: "string \<Rightarrow> string option"
  gl_sign :: "(string \<Rightarrow> string \<Rightarrow> string option \<Rightarrow> string \<Rightarrow> nat \<Rightarrow> string + signed_cert) option"
  gl_parse_heartbeat :: "string \<Rightarrow> string + heartbeat_update"
  gl_parse_batch :: "string \<Rightarrow> string + agent_event_batch"
  gl_parse_enroll :: "string \<Rightarrow> string + enroll_dto"
  gl_parse_push :: "string \<Rightarrow> (string option \<times> string option) option"
  gl_parse_reload :: "string \<Rightarrow> string + (string \<times> string)"

record agent_io =
  ax_faults :: redis_faults
  ax_disk :: "string option"
  ax_now :: nat
  ax_fresh :: string
  ax_token :: string
  ax_ids :: "string list"
  ax_pinning_file :: "string + (nat \<times> pinning_exception list)"
  ax_audit_fault :: "(nat \<times> string) option"

datatype agent_reply =
    AgentError nat string
  | Acknowledged bool
  | EventsAccepted ingest_report
  | Enrolled enroll_result "signed_cert option"
  | Pushed policy_snapshot
  | PinningReloaded pinning_report
  | DeviceRevoked bool bool

definition agent_heartbeat :: "agent_lib \<Rightarrow> agent_io \<Rightarrow> string \<Rightarrow> agent_state \<Rightarrow> agent_reply \<times> agent_state" where
  "agent_heartbeat lib io body s =
     (case gl_parse_heartbeat lib body of
        Inl e \<Rightarrow> (AgentError 400 (''invalid heartbeat payload: '' @ escape_json e), s)
      | Inr hb \<Rightarrow>
          (case apply_heartbeat (ax_faults io) (ax_disk io) (ax_now io) hb (ag_devices s) (ag_device_db s) of
             (r, reg, db) \<Rightarrow>
               (case r of Inr persisted \<Rightarrow> Acknowledged persisted | Inl e \<Rightarrow> AgentError 400 (heartbeat_error_message e),
                s\<lparr>ag_devices := reg, ag_device_db := db\<rparr>)))"

definition agent_events_ingest :: "agent_lib \<Rightarrow> agent_io \<Rightarrow> string \<Rightarrow> agent_state \<Rightarrow> agent_reply \<times> agent_state" where
  "agent_events_ingest lib io body s =
     (case gl_parse_batch lib body of
        Inl e \<Rightarrow> (AgentError 400 (''invalid events payload: '' @ escape_json e), s)
      | Inr batch \<Rightarrow>
          (case ingest (ax_now io) (ax_ids io) batch (ag_events s) of
             (r, ing) \<Rightarrow>
               (case r of Inr report \<Rightarrow> EventsAccepted report | Inl e \<Rightarrow> AgentError 400 (batch_error_message e),
                s\<lparr>ag_events := ing\<rparr>)))"

text \<open>A request for a certificate is signed for the identifier the device will have.\<close>

definition enroll_hint :: "agent_io \<Rightarrow> enroll_dto \<Rightarrow> string" where
  "enroll_hint io dto =
     (case ed_device_id dto of
        Some i \<Rightarrow> (if trim i \<noteq> [] then i else ''dev-'' @ ax_fresh io)
      | None \<Rightarrow> ''dev-'' @ ax_fresh io)"

definition enroll_certificate :: "agent_lib \<Rightarrow> enroll_dto \<Rightarrow> string \<Rightarrow> agent_reply + signed_cert option" where
  "enroll_certificate lib dto hint =
     (case trimmed (ed_csr_pem dto) of
        None \<Rightarrow> Inr None
      | Some csr \<Rightarrow>
          (case gl_sign lib of
             None \<Rightarrow> Inl (AgentError 503 ''CSR provided but CA not loaded on control plane'')
           | Some sign \<Rightarrow>
               (case sign csr hint (ed_user_identity dto) (ed_platform dto)
                       (case ed_cert_validity_days dto of Some d \<Rightarrow> d | None \<Rightarrow> 90) of
                  Inl e \<Rightarrow> Inl (AgentError 400 (''CSR sign failed: '' @ e))
                | Inr c \<Rightarrow> Inr (Some c))))"

definition agent_enroll :: "agent_lib \<Rightarrow> agent_io \<Rightarrow> string \<Rightarrow> agent_state \<Rightarrow> agent_reply \<times> agent_state" where
  "agent_enroll lib io body s =
     (case gl_parse_enroll lib body of
        Inl e \<Rightarrow> (AgentError 400 (''invalid enroll payload: '' @ escape_json e), s)
      | Inr dto \<Rightarrow>
          (case enroll_certificate lib dto (enroll_hint io dto) of
             Inl r \<Rightarrow> (r, s)
           | Inr cert \<Rightarrow>
               (case enroll (gl_sha lib) (ax_faults io) (ax_disk io) (ax_now io) (ax_fresh io) (ax_token io)
                       \<lparr>eq_device_id = Some (enroll_hint io dto), eq_platform = ed_platform dto, eq_name = ed_name dto,
                        eq_user_identity = ed_user_identity dto, eq_capabilities = ed_capabilities dto,
                        eq_device_type = ed_device_type dto, eq_cert_subject = map_option sg_subject cert,
                        eq_cert_fingerprint = map_option sg_fingerprint_sha256 cert,
                        eq_cert_serial = map_option sg_serial_hex cert\<rparr>
                       (ag_devices s) (ag_device_db s) of
                  (r, reg, db) \<Rightarrow>
                    (case r of
                       Inr result \<Rightarrow> Enrolled result cert
                     | Inl e \<Rightarrow> AgentError (if e = RevokedDevice then 409 else 400) (enroll_error_message e),
                     s\<lparr>ag_devices := reg, ag_device_db := db\<rparr>))))"

definition agent_policy_push :: "agent_lib \<Rightarrow> agent_io \<Rightarrow> string \<Rightarrow> agent_state \<Rightarrow> agent_reply \<times> agent_state" where
  "agent_policy_push lib io body s =
     (let reason = (case Option.bind (gl_parse_push lib body) fst of
                      Some r \<Rightarrow> (if trim r \<noteq> [] then r else ''manual-push'') | None \<Rightarrow> ''manual-push'');
          (snap, hub) = publish_from_runtime (gl_digest lib) (gl_env lib) (ax_now io) (ag_pinning s) reason (ag_hub s)
      in (Pushed snap, s\<lparr>ag_hub := hub\<rparr>))"

definition pinning_reload :: "agent_lib \<Rightarrow> agent_io \<Rightarrow> string \<Rightarrow> agent_state \<Rightarrow> agent_reply \<times> agent_state" where
  "pinning_reload lib io body s =
     (case gl_parse_reload lib body of
        Inl e \<Rightarrow> (AgentError 400 (''invalid reload payload: '' @ e), s)
      | Inr (actor, reason) \<Rightarrow>
          (case reload (ax_now io) (ax_pinning_file io) (ax_audit_fault io) actor reason (ag_pinning s, ag_audit s) of
             (Inl e, reg, trail) \<Rightarrow> (AgentError 400 e, s\<lparr>ag_pinning := reg, ag_audit := trail\<rparr>)
           | (Inr report, reg, trail) \<Rightarrow>
               (let (_, hub) = publish_from_runtime (gl_digest lib) (gl_env lib) (ax_now io) reg (''pinning-reload:'' @ reason)
                                 (ag_hub s)
                in (PinningReloaded report, s\<lparr>ag_pinning := reg, ag_audit := trail, ag_hub := hub\<rparr>))))"

definition agent_revoke :: "agent_io \<Rightarrow> string \<Rightarrow> agent_state \<Rightarrow> agent_reply \<times> agent_state" where
  "agent_revoke io device_id s =
     (case revoke_device (ax_faults io) (ax_disk io) (ax_now io) device_id (ag_devices s) (ag_device_db s) (ag_crl s) (ag_crl_db s) of
        ((status, res), (r, db), c, cdb) \<Rightarrow>
          (case res of
             Some (persisted, added) \<Rightarrow> DeviceRevoked persisted added
           | None \<Rightarrow> AgentError status (if status = 400 then ''invalid device id'' else ''device not found''),
           s\<lparr>ag_devices := r, ag_device_db := db, ag_crl := c, ag_crl_db := cdb\<rparr>))"

section \<open>Lemmas\<close>

lemma watch_run_simps [simp]:
  "watch_run digest [] s = s" "watch_run digest (e # es) s = watch_run digest es (watch_step digest e s)"
  by (simp_all add: watch_run_def)

lemma stream_run_simps [simp]:
  "stream_run digest [] s = s" "stream_run digest (e # es) s = stream_run digest es (stream_step digest e s)"
  by (simp_all add: stream_run_def)

definition watch_ok :: "string option \<Rightarrow> watch \<Rightarrow> bool" where
  "watch_ok since w \<longleftrightarrow> wt_since w = since \<and> (\<forall>snap. wt_phase w = Answered_watch snap True \<longrightarrow> has_changed since snap)"

lemma watch_step_ok: "watch_ok since w \<Longrightarrow> watch_ok since (fst (watch_step digest e (w, hub)))"
  by (cases e) (auto simp: watch_ok_def split: watch_phase.splits)

lemma watch_run_ok: "watch_ok since w \<Longrightarrow> watch_ok since (fst (watch_run digest es (w, hub)))"
proof (induction es arbitrary: w hub)
  case (Cons e es)
  obtain w' hub' where e: "watch_step digest e (w, hub) = (w', hub')" by (metis prod.collapse)
  show ?case using Cons.IH [of w' hub'] watch_step_ok [OF Cons.prems, of digest e hub] e by simp
qed simp

text \<open>A stream that is not notified sends nothing.\<close>

lemma stream_idle:
  assumes "set es \<subseteq> {ArmStream, Tick, Deliver}" "st_phase st \<in> {Unarmed, Armed}"
  shows "st_frames (fst (stream_run digest es (st, hub))) = st_frames st \<and> snd (stream_run digest es (st, hub)) = hub"
  using assms
proof (induction es arbitrary: st)
  case (Cons e es)
  from Cons.prems have "e \<in> {ArmStream, Tick, Deliver}" by simp
  with Cons.prems(2) obtain st' where
    "stream_step digest e (st, hub) = (st', hub)" "st_frames st' = st_frames st" "st_phase st' \<in> {Unarmed, Armed}"
    by fastforce
  with Cons.IH [of st'] Cons.prems(1) show ?case by simp
qed simp

lemma publish_version:
  "so_version (ph_state (snd (publish digest now doc reason hub))) = content_version digest now (ph_push_seq hub) doc"
  by (simp add: publish_def snapshot_from_document_def Let_def)

lemma push_recent_take: "length r \<le> max_recent \<Longrightarrow> push_recent e r = take max_recent (e # r)"
  by (cases r rule: rev_cases) (auto simp: push_recent_def max_recent_def)

definition item_events :: "nat \<Rightarrow> string \<Rightarrow> agent_event_item list \<Rightarrow> string list \<Rightarrow> recent_agent_event list" where
  "item_events now device_id items ids = map (\<lambda>(item, i). snd (to_events now i device_id item)) (zip items ids)"

lemma try_enqueue_event_recent [simp]: "ei_recent (snd (try_enqueue_event e ing)) = ei_recent ing"
  by (simp add: try_enqueue_event_def split: option.splits)

lemma ingest_items_recent:
  "length (ei_recent ing) \<le> max_recent \<Longrightarrow>
     ei_recent (snd (ingest_items now d items ids n ing)) =
       take max_recent (rev (item_events now d items ids) @ ei_recent ing)"
proof (induction now d items ids n ing rule: ingest_items.induct)
  case (1 now d item items i ids n ing)
  obtain event recent where ev: "to_events now i d item = (event, recent)" by (metis prod.collapse)
  obtain ok ing1 where q: "try_enqueue_event event ing = (ok, ing1)" by (metis prod.collapse)
  have r: "ei_recent ing1 = ei_recent ing" using try_enqueue_event_recent [of event ing] q by simp
  have len: "length (push_recent recent (ei_recent ing)) \<le> max_recent"
    using push_recent_take [OF 1(2), of recent] by simp
  show ?case
    using 1(1) [OF refl ev [symmetric] refl q [symmetric]] ev q r len push_recent_take [OF 1(2), of recent]
    by (simp add: item_events_def take_append)
qed (simp_all add: item_events_def)

text \<open>What a batch adds to the history.\<close>

type_synonym batch_input = "nat \<times> string list \<times> agent_event_batch"

definition batch_events :: "batch_input \<Rightarrow> recent_agent_event list" where
  "batch_events b =
     (case b of (now, ids, batch) \<Rightarrow>
       if validate_batch batch = None then item_events now (trim (ab_device_id batch)) (ab_events batch) ids else [])"

definition ingest_all :: "batch_input list \<Rightarrow> event_ingestor \<Rightarrow> event_ingestor" where
  "ingest_all bs ing = fold (\<lambda>(now, ids, batch) g. snd (ingest now ids batch g)) bs ing"

lemma ingest_recent:
  "length (ei_recent ing) \<le> max_recent \<Longrightarrow>
     ei_recent (snd (ingest now ids batch ing)) = take max_recent (rev (batch_events (now, ids, batch)) @ ei_recent ing)"
  by (cases "validate_batch batch")
    (simp_all add: ingest_def batch_events_def ingest_items_recent case_prod_beta)

lemma ingest_all_recent:
  "ei_recent (ingest_all bs ingestor_memory_only) = take max_recent (rev (concat (map batch_events bs)))"
proof (induction bs rule: rev_induct)
  case Nil
  show ?case by (simp add: ingest_all_def ingestor_memory_only_def)
next
  case (snoc b bs)
  obtain now ids batch where b: "b = (now, ids, batch)" by (cases b)
  let ?g = "ingest_all bs ingestor_memory_only"
  have "ei_recent (ingest_all (bs @ [b]) ingestor_memory_only) = ei_recent (snd (ingest now ids batch ?g))"
    by (simp add: ingest_all_def b)
  also have "\<dots> = take max_recent (rev (batch_events b) @ ei_recent ?g)" using ingest_recent [of ?g] snoc b by simp
  also have "\<dots> = take max_recent (rev (concat (map batch_events (bs @ [b]))))" using snoc by (simp add: take_append)
  finally show ?case .
qed

lemma ingest_items_full:
  assumes "ei_kafka ing = Some p" "\<not> pq_closed p" "pq_capacity p \<le> length (pq_queue p)" "length ids = length items"
  shows "fst (ingest_items now d items ids n ing) = n + length items \<and>
    ei_kafka (snd (ingest_items now d items ids n ing)) = Some (p\<lparr>pq_dropped := pq_dropped p + length items\<rparr>)"
  using assms
proof (induction now d items ids n ing arbitrary: p rule: ingest_items.induct)
  case (1 now d item items i ids n ing)
  obtain event recent where ev: "to_events now i d item = (event, recent)" by (metis prod.collapse)
  have q: "try_enqueue_event event ing = (True, ing\<lparr>ei_kafka := Some (p\<lparr>pq_dropped := pq_dropped p + 1\<rparr>)\<rparr>)"
    using 1(2-4) by (simp add: try_enqueue_event_def try_enqueue_def)
  show ?case
    using 1(1) [OF refl ev [symmetric] refl q [symmetric], of "p\<lparr>pq_dropped := pq_dropped p + 1\<rparr>"] 1(3-5) ev q
    by simp
qed auto

section \<open>Properties\<close>

text \<open>A long poll that reports a change is right: the version it returns differs from the one the agent
  had, whatever publications and wake-ups happen while it waits.\<close>

theorem watch_reports_real_change:
  assumes "wt_phase w = Looking" "wt_phase (fst (watch_run digest es (w, hub))) = Answered_watch snap True"
    "wt_since w = Some v" "v \<noteq> []"
  shows "so_version snap \<noteq> v"
  using watch_run_ok [of "wt_since w" w digest es hub] assms by (auto simp: watch_ok_def has_changed_def)

text \<open>(C39) A long poll can miss a publication: when the policy is published after the poll has looked at the
  version and before it has armed its notification, nobody wakes it, and after its whole waiting time
  it answers that nothing has changed, with the changed policy in its hands.\<close>

theorem wakeup_lost:
  assumes "wt_phase w = Looking" "wt_since w = Some (so_version (ph_state hub))" "so_version (ph_state hub) \<noteq> []"
    "content_version digest now (ph_push_seq hub) doc \<noteq> so_version (ph_state hub)"
  shows "\<exists>snap. wt_phase (fst (watch_run digest [Look False, Publish now doc reason, Arm, Timeout] (w, hub))) =
      Answered_watch snap False \<and> snap = fst (publish digest now doc reason hub) \<and> has_changed (wt_since w) snap"
  using assms
  by (auto simp: has_changed_def publish_def snapshot_from_document_def Let_def)

text \<open>A stream of policies can stay behind: a policy published between the first frame and the arming of
  the notification is not sent, however long the stream stays open, until the next publication.\<close>

theorem stream_misses_publication:
  assumes "content_version digest now (ph_push_seq hub) doc \<noteq> so_version (ph_state hub)"
    "set es \<subseteq> {ArmStream, Tick, Deliver}"
  shows "\<exists>st hub'. stream_run digest ([ReadVersion, SendFirst, PublishTo now doc reason] @ es) (stream_new, hub) = (st, hub') \<and>
    st_frames st = [ph_state hub] \<and> so_version (ph_state hub') \<noteq> so_version (ph_state hub)"
proof -
  let ?st = "\<lparr>st_last = so_version (ph_state hub), st_phase = Unarmed, st_frames = [ph_state hub]\<rparr>"
  let ?hub = "snd (publish digest now doc reason hub)"
  have "stream_run digest ([ReadVersion, SendFirst, PublishTo now doc reason] @ es) (stream_new, hub) =
      stream_run digest es (?st, ?hub)" by (simp add: stream_new_def)
  moreover have "st_frames (fst (stream_run digest es (?st, ?hub))) = [ph_state hub] \<and> snd (stream_run digest es (?st, ?hub)) = ?hub"
    using stream_idle [OF assms(2), of ?st digest ?hub] by simp
  moreover have "so_version (ph_state ?hub) \<noteq> so_version (ph_state hub)" using assms(1) by (simp add: publish_version)
  ultimately show ?thesis by (metis prod.collapse)
qed

text \<open>The list of recent events is the newest two hundred of all events accepted so far, newest first,
  whatever batches arrive; a batch that fails validation leaves it alone.\<close>

theorem recent_events_newest:
  "ei_recent (ingest_all bs ingestor_memory_only) = take max_recent (rev (concat (map batch_events bs)))"
  by (rule ingest_all_recent)

text \<open>The report of a batch does not tell that events were lost: with a full queue every event of the
  batch is dropped, and all of them are reported as handed over.\<close>

theorem dropped_events_reported_enqueued:
  assumes "validate_batch batch = None" "ei_kafka ing = Some p" "\<not> pq_closed p" "pq_capacity p \<le> length (pq_queue p)"
    "length ids = length (ab_events batch)"
  shows "\<exists>ing'. ingest now ids batch ing =
      (Inr \<lparr>ir_accepted = length (ab_events batch), ir_enqueued = length (ab_events batch)\<rparr>, ing') \<and>
    ei_kafka ing' = Some (p\<lparr>pq_dropped := pq_dropped p + length (ab_events batch)\<rparr>)"
  using ingest_items_full [OF assms(2-5), of now "trim (ab_device_id batch)" 0] assms(1)
  by (simp add: ingest_def case_prod_beta)

text \<open>Agents follow the pinning exceptions: after a reload that succeeds, the published policy names
  exactly the exceptions then active; after one that fails, the published policy is the old one.\<close>

theorem pinning_reload_published:
  "case pinning_reload lib io body s of
     (PinningReloaded report, s') \<Rightarrow>
       pd_pinning_exceptions (so_document (ph_state (ag_hub s'))) = active_domains (ax_now io) (ag_pinning s')
   | (r, s') \<Rightarrow> ag_hub s' = ag_hub s \<and> ag_pinning s' = ag_pinning s"
proof (cases "gl_parse_reload lib body")
  case (Inr a)
  obtain actor reason where a: "a = (actor, reason)" by (cases a)
  obtain r reg trail where
    r: "reload (ax_now io) (ax_pinning_file io) (ax_audit_fault io) actor reason (ag_pinning s, ag_audit s) = (r, reg, trail)"
    by (metis prod.collapse)
  have "reg = ag_pinning s" if "r = Inl e" for e
    using r that by (auto simp: reload_def Let_def split: option.splits sum.splits prod.splits)
  then show ?thesis
    using Inr a r
    by (cases r) (auto simp: pinning_reload_def publish_from_runtime_def publish_def snapshot_from_document_def
        runtime_document_def agent_policy_document_def Let_def)
qed (simp add: pinning_reload_def)

section \<open>Witnesses\<close>

definition demo_digest :: version_digest where
  "demo_digest mode cats pins sni now q = (if q = 0 then ''0'' else ''1'')"

definition demo_document :: policy_document where
  "demo_document = agent_policy_document (\<lambda>_. None) ''sni'' [] [''.slack.com'']"

definition demo_hub :: policy_hub where
  "demo_hub = \<lparr>ph_state = snapshot_from_document demo_digest 5 0 demo_document ''startup'', ph_push_seq = 1\<rparr>"

definition demo_watch :: watch where
  "demo_watch = \<lparr>wt_since = Some (so_version (ph_state demo_hub)), wt_phase = Looking\<rparr>"

definition demo_batch :: agent_event_batch where
  "demo_batch =
     \<lparr>ab_device_id = ''dev-1'',
      ab_events = [\<lparr>ai_domain = ''badsite.test'', ai_action = ''deny'', ai_decision_source = None, ai_timestamp = Some 9,
                    ai_reason = None, ai_policy_version = None\<rparr>]\<rparr>"

lemma demo_versions:
  "so_version (ph_state demo_hub) = ''v0''" "content_version demo_digest 6 (ph_push_seq demo_hub) demo_document = ''v1''"
  by (simp_all add: demo_hub_def demo_digest_def snapshot_from_document_def content_version_def Let_def)

theorem watch_reports_real_change_witness:
  "\<exists>snap. wt_phase (fst (watch_run demo_digest [Look False, Arm, Publish 6 demo_document ''x'', Resume, Look False]
       (demo_watch, demo_hub))) = Answered_watch snap True \<and> so_version snap \<noteq> ''v0''"
proof -
  let ?es = "[Look False, Arm, Publish 6 demo_document ''x'', Resume, Look False]"
  let ?snap = "fst (publish demo_digest 6 demo_document ''x'' demo_hub)"
  have a: "wt_phase (fst (watch_run demo_digest ?es (demo_watch, demo_hub))) = Answered_watch ?snap True"
    using demo_versions
    by (simp add: demo_watch_def has_changed_def publish_def snapshot_from_document_def Let_def)
  have "so_version ?snap \<noteq> ''v0''"
    by (rule watch_reports_real_change [OF _ a]) (simp_all add: demo_watch_def demo_versions)
  with a show ?thesis by blast
qed

theorem wakeup_lost_witness:
  "\<exists>snap. wt_phase (fst (watch_run demo_digest [Look False, Publish 6 demo_document ''x'', Arm, Timeout] (demo_watch, demo_hub))) =
      Answered_watch snap False \<and> so_version snap = ''v1''"
proof -
  have "\<exists>snap. wt_phase (fst (watch_run demo_digest [Look False, Publish 6 demo_document ''x'', Arm, Timeout] (demo_watch, demo_hub))) =
      Answered_watch snap False \<and> snap = fst (publish demo_digest 6 demo_document ''x'' demo_hub) \<and>
      has_changed (wt_since demo_watch) snap"
    by (rule wakeup_lost) (simp_all add: demo_watch_def demo_versions)
  then show ?thesis using demo_versions by (auto simp: publish_def snapshot_from_document_def Let_def)
qed

theorem stream_misses_publication_witness:
  "\<exists>st hub'. stream_run demo_digest ([ReadVersion, SendFirst, PublishTo 6 demo_document ''x''] @ [ArmStream, Tick, ArmStream])
      (stream_new, demo_hub) = (st, hub') \<and> map so_version (st_frames st) = [''v0''] \<and> so_version (ph_state hub') \<noteq> ''v0''"
proof -
  have "\<exists>st hub'. stream_run demo_digest ([ReadVersion, SendFirst, PublishTo 6 demo_document ''x''] @ [ArmStream, Tick, ArmStream])
      (stream_new, demo_hub) = (st, hub') \<and> st_frames st = [ph_state demo_hub] \<and>
      so_version (ph_state hub') \<noteq> so_version (ph_state demo_hub)"
    by (rule stream_misses_publication) (simp_all add: demo_versions)
  then show ?thesis using demo_versions by force
qed

theorem dropped_events_reported_enqueued_witness:
  "\<exists>ing'. ingest 9 [''e1''] demo_batch (ingestor_memory_only\<lparr>ei_kafka := Some (pipeline_new 0)\<rparr>) =
      (Inr \<lparr>ir_accepted = 1, ir_enqueued = 1\<rparr>, ing') \<and> map_option pq_queue (ei_kafka ing') = Some []"
proof -
  have v: "validate_batch demo_batch = None" by code_simp
  have "\<exists>ing'. ingest 9 [''e1''] demo_batch (ingestor_memory_only\<lparr>ei_kafka := Some (pipeline_new 0)\<rparr>) =
      (Inr \<lparr>ir_accepted = length (ab_events demo_batch), ir_enqueued = length (ab_events demo_batch)\<rparr>, ing') \<and>
    ei_kafka ing' = Some ((pipeline_new 0)\<lparr>pq_dropped := pq_dropped (pipeline_new 0) + length (ab_events demo_batch)\<rparr>)"
    by (rule dropped_events_reported_enqueued [OF v]) (simp_all add: pipeline_new_def demo_batch_def)
  then show ?thesis by (auto simp: demo_batch_def pipeline_new_def)
qed

end
