(* ===== verification/Threat_Sync.thy ===== *)
theory Threat_Sync
  imports Prelude
begin

text \<open>
  Threat indicators passed between nodes (\<^verbatim>\<open>proxy/src/threat_sync.rs\<close>): recording an event, the list of
  peers seen, broadcasting over Redis. The answer of Redis and the clock are inputs; scores are reals.
\<close>

section \<open>Definitions\<close>

record threat_sync_event =
  te_id :: string
  te_ioc_type :: string
  te_value :: string
  te_threat_score :: real
  te_action :: string
  te_ttl_secs :: nat
  te_origin_node :: string
  te_timestamp :: nat

record threat_sync =
  ty_node_id :: string
  ty_redis :: bool
  ty_recent :: "threat_sync_event list"
  ty_peers :: "string list"
  ty_published :: "threat_sync_event list"

definition threat_sync_new :: "string \<Rightarrow> bool \<Rightarrow> threat_sync" where
  "threat_sync_new node_id redis = \<lparr>ty_node_id = node_id, ty_redis = redis, ty_recent = [], ty_peers = [], ty_published = []\<rparr>"

definition get_peers :: "threat_sync \<Rightarrow> string list" where
  "get_peers t = (if ty_peers t = [] then [''local-node ('' @ ty_node_id t @ '')''] else ty_peers t)"

definition record_event :: "threat_sync_event \<Rightarrow> threat_sync \<Rightarrow> threat_sync" where
  "record_event e t =
     t\<lparr>ty_peers := (if te_origin_node e \<notin> set (ty_peers t) \<and> te_origin_node e \<noteq> ty_node_id t
                     then ty_peers t @ [te_origin_node e] else ty_peers t),
       ty_recent := (if \<exists>o' \<in> set (ty_recent t). te_id o' = te_id e then ty_recent t
                      else (let events = e # ty_recent t in if length events > 50 then butlast events else events))\<rparr>"

text \<open>\<open>now\<close> is in milliseconds; \<open>publish\<close> is an error of serialisation or of Redis.\<close>

definition complete_event :: "nat \<Rightarrow> threat_sync \<Rightarrow> threat_sync_event \<Rightarrow> threat_sync_event" where
  "complete_event now t e =
     e\<lparr>te_id := (if te_id e = [] then ''ioc-'' @ ty_node_id t @ ''-'' @ show_nat now else te_id e),
       te_origin_node := (if te_origin_node e = [] then ty_node_id t else te_origin_node e),
       te_timestamp := (if te_timestamp e = 0 then now div 1000 else te_timestamp e)\<rparr>"

definition broadcast :: "nat \<Rightarrow> string option \<Rightarrow> threat_sync_event \<Rightarrow> threat_sync \<Rightarrow> (string + unit) \<times> threat_sync" where
  "broadcast now publish e t =
     (let e' = complete_event now t e;
          t' = record_event e' t
      in if ty_redis t
         then (case publish of
                 Some err \<Rightarrow> (Inl err, t')
               | None \<Rightarrow> (Inr (), t'\<lparr>ty_published := ty_published t' @ [e']\<rparr>))
         else (Inr (), t'))"

definition threat_sync_inv :: "threat_sync \<Rightarrow> bool" where
  "threat_sync_inv t \<longleftrightarrow>
     length (ty_recent t) \<le> 50 \<and> distinct (map te_id (ty_recent t)) \<and> distinct (ty_peers t) \<and> ty_node_id t \<notin> set (ty_peers t)"

section \<open>Lemmas\<close>

lemma record_event_inv: "threat_sync_inv t \<Longrightarrow> threat_sync_inv (record_event e t)"
proof -
  assume inv: "threat_sync_inv t"
  have "distinct (map te_id (butlast (e # ty_recent t)))" if "\<forall>o' \<in> set (ty_recent t). te_id o' \<noteq> te_id e"
  proof -
    have "distinct (map te_id (e # ty_recent t))" using inv that by (auto simp: threat_sync_inv_def)
    then show ?thesis unfolding map_butlast by (rule distinct_butlast)
  qed
  with inv show ?thesis by (auto simp: threat_sync_inv_def record_event_def Let_def)
qed

section \<open>Properties\<close>

text \<open>Whatever indicators are broadcast and whatever Redis answers, a node remembers at most fifty of
  them, each identifier once, and every peer once, never itself.\<close>

theorem threat_sync_bounded:
  "threat_sync_inv (fold (\<lambda>(now, publish, e) t. snd (broadcast now publish e t)) es (threat_sync_new node redis))"
proof (induction es rule: rev_induct)
  case Nil
  show ?case by (simp add: threat_sync_inv_def threat_sync_new_def)
next
  case (snoc x es)
  obtain now publish e where x: "x = (now, publish, e)" by (cases x)
  have pub: "threat_sync_inv (t\<lparr>ty_published := p\<rparr>) = threat_sync_inv t" for t p by (simp add: threat_sync_inv_def)
  from snoc record_event_inv show ?case
    by (auto simp: x broadcast_def pub Let_def split: option.splits)
qed

text \<open>An indicator sent without an identifier can be lost: a second one broadcast in the same millisecond
  gets the same identifier and is not recorded, though the caller is told it was.\<close>

theorem same_millisecond_lost:
  assumes "te_id e = []" "te_id e' = []" "broadcast now None e t = (Inr (), t1)"
  shows "ty_recent (snd (broadcast now None e' t1)) = ty_recent t1 \<and> fst (broadcast now None e' t1) = Inr ()"
proof -
  let ?e = "complete_event now t e"
  have t1: "ty_recent t1 = ty_recent (record_event ?e t)" "ty_node_id t1 = ty_node_id t"
    using assms(3) by (auto simp: broadcast_def record_event_def Let_def split: if_splits)
  have "\<exists>o' \<in> set (ty_recent (record_event ?e t)). te_id o' = te_id ?e"
    by (auto simp: record_event_def Let_def butlast.simps)
  moreover have "te_id (complete_event now t1 e') = te_id ?e" using assms(1,2) t1(2) by (simp add: complete_event_def)
  ultimately have "record_event (complete_event now t1 e') t1 = t1\<lparr>ty_peers := ty_peers (record_event (complete_event now t1 e') t1)\<rparr>"
    using t1(1) by (auto simp: record_event_def)
  then have "ty_recent (record_event (complete_event now t1 e') t1) = ty_recent t1"
    by (metis threat_sync.select_convs(3) threat_sync.surjective threat_sync.update_convs(4))
  then show ?thesis by (simp add: broadcast_def Let_def)
qed

section \<open>Witnesses\<close>

definition demo_indicator :: "string \<Rightarrow> threat_sync_event" where
  "demo_indicator v =
     \<lparr>te_id = [], te_ioc_type = ''domain'', te_value = v, te_threat_score = 0.9, te_action = ''block'', te_ttl_secs = 60,
      te_origin_node = [], te_timestamp = 0\<rparr>"

theorem same_millisecond_lost_witness:
  "map te_value (ty_recent (snd (broadcast 5 None (demo_indicator ''b.test'')
     (snd (broadcast 5 None (demo_indicator ''a.test'') (threat_sync_new ''n1'' False)))))) = [''a.test'']"
proof -
  let ?t = "threat_sync_new ''n1'' False"
  have "broadcast 5 None (demo_indicator ''a.test'') ?t = (Inr (), snd (broadcast 5 None (demo_indicator ''a.test'') ?t))"
    by (simp add: broadcast_def threat_sync_new_def Let_def)
  from same_millisecond_lost [OF _ _ this, of "demo_indicator ''b.test''"]
  show ?thesis
    by (simp add: demo_indicator_def broadcast_def record_event_def complete_event_def threat_sync_new_def Let_def)
qed

end
