(* ===== verification/Control.thy ===== *)
theory Control
  imports Rpz_Api Agent_Api L2_Cache Auth Threat_Sync
begin

text \<open>
  The control interface (\<^verbatim>\<open>proxy/src/control_api.rs\<close>, \<^verbatim>\<open>agent_api.rs\<close>) and the listeners that
  lead to it (\<^verbatim>\<open>proxy/src/server.rs\<close>): which requests a listener hands on, who is authorised for a
  path, which handler a path has, and the handlers for purging, users, providers, patterns,
  threat indicators and the files of the console; those for agents are in \<^verbatim>\<open>Agent_Api\<close>.

  A reply is a status with its text, without the JSON around it. Parsed request bodies, the
  file system and the faults of Redis are inputs.
\<close>

section \<open>Definitions\<close>

subsection \<open>Purging\<close>

record purge_request =
  pq_all :: bool
  pq_url :: "string option"
  pq_method :: "string option"
  pq_tag :: "string option"
  pq_tags :: "string list"

definition purge_default :: purge_request where
  "purge_default = \<lparr>pq_all = False, pq_url = None, pq_method = None, pq_tag = None, pq_tags = []\<rparr>"

datatype purge_scope = PurgedAll | PurgedTags "string list" | PurgedUrl string

record purge_result =
  pz_scope :: purge_scope
  pz_removed :: nat

definition collect_purge_tags :: "purge_request \<Rightarrow> string list" where
  "collect_purge_tags req =
     fold (\<lambda>t out. let t = trim t in if t \<noteq> [] \<and> t \<notin> set out then out @ [t] else out) (pq_tags req)
       (case pq_tag req of Some t \<Rightarrow> (if trim t \<noteq> [] then [trim t] else []) | None \<Rightarrow> [])"

text \<open>\<open>up\<close> tells whether Redis carries out \<^verbatim>\<open>DEL\<close>, \<open>replies\<close> what it says to a scan.\<close>

fun purge_keys ::
  "'c quick_cache_lib \<Rightarrow> (string \<Rightarrow> u64) \<Rightarrow> string option \<Rightarrow> bool \<Rightarrow> string list \<Rightarrow> nat \<Rightarrow> 'c http_l1_cache \<times> redis_db \<Rightarrow>
   nat \<times> 'c http_l1_cache \<times> redis_db" where
  "purge_keys qc hash l2 up [] removed s = (removed, s)"
| "purge_keys qc hash l2 up (key # keys) removed (c, db) =
     (let (r, c') = l1_remove qc hash key c;
          db' = (case l2 of Some p \<Rightarrow> l2_delete up p key db | None \<Rightarrow> db)
      in purge_keys qc hash l2 up keys (if r \<noteq> None then removed + 1 else removed) (c', db'))"

fun purge_tags ::
  "'c quick_cache_lib \<Rightarrow> (string \<Rightarrow> u64) \<Rightarrow> string option \<Rightarrow> bool \<Rightarrow> string list \<Rightarrow> nat \<Rightarrow> 'c http_l1_cache \<times> redis_db \<Rightarrow>
   nat \<times> 'c http_l1_cache \<times> redis_db" where
  "purge_tags qc hash l2 up [] removed s = (removed, s)"
| "purge_tags qc hash l2 up (t # ts) removed s =
     (let (removed', s') = purge_keys qc hash l2 up (keys_for_tag (l1_tag_index (fst s)) t) removed s
      in purge_tags qc hash l2 up ts removed' s')"

text \<open>\<^const>\<open>None\<close> when the scan of Redis never ends.\<close>

definition purge_payload ::
  "'c quick_cache_lib \<Rightarrow> (string \<Rightarrow> u64) \<Rightarrow> (string \<Rightarrow> string \<Rightarrow> string) \<Rightarrow> string option \<Rightarrow> bool \<Rightarrow> scan_reply list \<Rightarrow>
   purge_request \<Rightarrow> 'c http_l1_cache \<times> redis_db \<Rightarrow> ((string + purge_result) \<times> 'c http_l1_cache \<times> redis_db) option" where
  "purge_payload qc hash cache_key l2 up replies req s =
     (if pq_all req then
        (let (removed, c') = l1_clear qc (fst s) in
         map_option (\<lambda>db'. (Inr \<lparr>pz_scope = PurgedAll, pz_removed = removed\<rparr>, c', db'))
           (case l2 of Some p \<Rightarrow> flush_prefix replies (snd s) | None \<Rightarrow> Some (snd s)))
      else if collect_purge_tags req \<noteq> [] then
        (let (removed, s') = purge_tags qc hash l2 up (collect_purge_tags req) 0 s in
         Some (Inr \<lparr>pz_scope = PurgedTags (collect_purge_tags req), pz_removed = removed\<rparr>, s'))
      else
        (case pq_url req of
           Some (u # us) \<Rightarrow>
             (let key = cache_key (case pq_method req of Some m \<Rightarrow> m | None \<Rightarrow> ''GET'') (u # us);
                  (removed, s') = purge_keys qc hash l2 up [key] 0 s
              in Some (Inr \<lparr>pz_scope = PurgedUrl (u # us), pz_removed = removed\<rparr>, s'))
         | _ \<Rightarrow> Some (Inl ''provide url, tag, tags or all'', s)))"

subsection \<open>State\<close>

record ('c, 's) control_state =
  ct_http_cache :: "'c http_l1_cache"
  ct_l2_prefix :: "string option"
  ct_redis :: redis_db
  ct_api_token :: "string option"
  ct_fail_closed :: bool
  ct_enroll_token :: "string option"
  ct_casb :: "string set"
  ct_dlp :: dlp_state
  ct_auth :: "'s auth_manager option"
  ct_agent :: agent_state
  ct_threats :: threat_sync
  ct_has_rpz :: bool
  ct_admin_console_dir :: "string option"

record put_user =
  pu_username :: string
  pu_password :: "string option"
  pu_role :: string

record 'c control_lib =
  cl_qc :: "'c quick_cache_lib"
  cl_hash :: "string \<Rightarrow> u64"
  cl_cache_key :: "string \<Rightarrow> string \<Rightarrow> string"
  cl_to_str :: "string \<Rightarrow> string option"
  cl_agent :: agent_lib
  cl_auth :: auth_lib
  cl_parse_purge :: "string \<Rightarrow> string + purge_request"
  cl_parse_domains :: "string \<Rightarrow> string + string list"
  cl_parse_patterns :: "string \<Rightarrow> string + (string \<times> string) list"
  cl_parse_put_user :: "string \<Rightarrow> put_user option"
  cl_parse_del_user :: "string \<Rightarrow> string option"
  cl_parse_threat :: "string \<Rightarrow> string + threat_sync_event"

record control_io =
  ci_up :: bool
  ci_replies :: "scan_reply list"
  ci_agent :: agent_io
  ci_publish :: "string option"
  ci_now_millis :: nat
  ci_is_file :: "string \<Rightarrow> bool"
  ci_read :: "string \<Rightarrow> string option"

type_synonym control_reply = "nat \<times> string"

subsection \<open>Authorisation\<close>

definition is_authorized :: "(string \<Rightarrow> string option) \<Rightarrow> headers \<Rightarrow> ('c, 's) control_state \<Rightarrow> bool" where
  "is_authorized to_str hs s = bearer_authorized (ct_api_token s) (ct_fail_closed s) (extract_bearer to_str hs)"

definition is_enroll_authorized :: "(string \<Rightarrow> string option) \<Rightarrow> headers \<Rightarrow> ('c, 's) control_state \<Rightarrow> bool" where
  "is_enroll_authorized to_str hs s =
     (case ct_enroll_token s of
        Some expected \<Rightarrow> (case extract_bearer to_str hs of Some token \<Rightarrow> secret_eq token expected | None \<Rightarrow> False)
      | None \<Rightarrow> is_authorized to_str hs s)"

definition is_agent_authorized ::
  "'c control_lib \<Rightarrow> redis_faults \<Rightarrow> headers \<Rightarrow> ('c, 's) control_state \<Rightarrow> bool \<times> ('c, 's) control_state" where
  "is_agent_authorized lib ok hs s =
     (if is_authorized (cl_to_str lib) hs s then (True, s)
      else
        (case extract_bearer (cl_to_str lib) hs of
           None \<Rightarrow> (ct_api_token s = None \<and> \<not> ct_fail_closed s, s)
         | Some bearer \<Rightarrow>
             (case device_token_valid (gl_sha (cl_agent lib)) ok (ag_device_db (ct_agent s)) bearer (ag_devices (ct_agent s)) of
                (valid, r) \<Rightarrow> (valid, s\<lparr>ct_agent := (ct_agent s)\<lparr>ag_devices := r\<rparr>\<rparr>))))"

definition public_api :: "string \<Rightarrow> string \<Rightarrow> bool" where
  "public_api meth path \<longleftrightarrow>
     meth = ''GET'' \<and> List.member [''/api/stats'', ''/api/hierarchy/peers'', ''/api/upstream/tls'', ''/api/v1/agent/ocsp''] path \<or>
     meth = ''POST'' \<and> path = ''/api/v1/agent/ocsp'' \<or>
     meth = ''OPTIONS'' \<and> (starts_with path ''/api/search'' \<or> path = ''/api/events'')"

definition agent_api :: "string \<Rightarrow> bool" where
  "agent_api path \<longleftrightarrow>
     starts_with path ''/api/v1/agent/'' \<or> starts_with path ''/api/agent/'' \<or> path = ''/api/v1/devices'' \<or>
     starts_with path ''/api/v1/devices/''"

definition guard ::
  "'c control_lib \<Rightarrow> redis_faults \<Rightarrow> string \<Rightarrow> string \<Rightarrow> headers \<Rightarrow> ('c, 's) control_state \<Rightarrow> bool \<times> ('c, 's) control_state" where
  "guard lib ok meth path hs s =
     (if \<not> starts_with path ''/api/'' \<or> public_api meth path then (True, s)
      else if List.member [''/api/v1/agent/enroll'', ''/api/agent/enroll''] path then (is_enroll_authorized (cl_to_str lib) hs s, s)
      else if agent_api path then is_agent_authorized lib ok hs s
      else (is_authorized (cl_to_str lib) hs s, s))"

subsection \<open>Routes\<close>

datatype rpz_route =
    ListLists | AddList | ToggleList string | SyncList string | DeleteList string | GetDnsConfig | PutDnsConfig
  | TestDomain | RpzStats | ListRules | AddRule | DeleteRule string | MethodNotAllowed | RpzNotFound

datatype control_route =
    Devices | RevokeDevice string | AgentPolicy | PolicyWs | PolicyWatch | PolicyStream | PolicyPush | AgentHeartbeat | AgentEvents
  | AgentEventsRecent | AgentEnroll | AgentCrlJson | AgentCrlPem | OcspStatus | OcspDer | OcspDerGet
  | Search | Rpz rpz_route
  | ConfigGet | ConfigApply | Stats | Purge | HierarchyPeers | HierarchyReload | UpstreamTls | UpstreamTlsReload
  | CasbDomains | CasbUpdate | DlpPatterns | DlpUpdate | UsersList | UsersPut | UsersDelete
  | AwgStatus | AwgConfig | AwgAddPeer | AwgDeletePeer | SessionState | ThreatPeers | ThreatBroadcast
  | PinningExceptions | PinningReload | WasmReload | StaticUi | NoRoute

definition strip_suffix :: "string \<Rightarrow> string \<Rightarrow> string option" where
  "strip_suffix s p = (if suffix p s then Some (take (length s - length p) s) else None)"

definition agent_table :: "((string \<times> string) \<times> control_route) list" where
  "agent_table =
     [((''GET'', ''/api/v1/agent/policy''), AgentPolicy), ((''GET'', ''/api/v1/agent/policy/watch''), PolicyWatch),
      ((''GET'', ''/api/v1/agent/policy/stream''), PolicyStream), ((''POST'', ''/api/v1/agent/policy/push''), PolicyPush),
      ((''POST'', ''/api/v1/agent/heartbeat''), AgentHeartbeat), ((''POST'', ''/api/v1/agent/events''), AgentEvents),
      ((''GET'', ''/api/v1/agent/events/recent''), AgentEventsRecent), ((''POST'', ''/api/v1/agent/enroll''), AgentEnroll),
      ((''GET'', ''/api/v1/agent/crl''), AgentCrlJson), ((''GET'', ''/api/v1/agent/crl.pem''), AgentCrlPem),
      ((''GET'', ''/api/v1/agent/ocsp/status''), OcspStatus), ((''POST'', ''/api/v1/agent/ocsp''), OcspDer),
      ((''GET'', ''/api/v1/agent/ocsp''), OcspDerGet), ((''GET'', ''/api/agent/policy''), AgentPolicy),
      ((''POST'', ''/api/agent/heartbeat''), AgentHeartbeat), ((''POST'', ''/api/agent/events''), AgentEvents),
      ((''POST'', ''/api/agent/enroll''), AgentEnroll)]"

definition dispatch_agent :: "string \<Rightarrow> string \<Rightarrow> control_route option" where
  "dispatch_agent meth path =
     (if meth = ''GET'' \<and> path = ''/api/v1/devices'' then Some Devices
      else
        (case (if meth = ''POST'' then Option.bind (strip_prefix path ''/api/v1/devices/'') (\<lambda>p. strip_suffix p ''/revoke'')
               else None) of
           Some device_id \<Rightarrow> Some (RevokeDevice device_id)
         | None \<Rightarrow> map_of agent_table (meth, path)))"

definition rpz_list_route :: "string \<Rightarrow> string \<Rightarrow> rpz_route option" where
  "rpz_list_route meth path =
     (case strip_prefix path ''/api/dns/rpz/lists/'' of
        None \<Rightarrow> None
      | Some rest \<Rightarrow>
          (case (strip_suffix rest ''/toggle'', strip_suffix rest ''/sync'') of
             (Some i, _) \<Rightarrow>
               (if meth = ''POST'' then Some (ToggleList i) else if meth = ''DELETE'' then Some (DeleteList rest) else None)
           | (None, Some i) \<Rightarrow>
               (if meth = ''POST'' then Some (SyncList i) else if meth = ''DELETE'' then Some (DeleteList rest) else None)
           | _ \<Rightarrow> if meth = ''DELETE'' then Some (DeleteList rest) else None))"

definition rpz_handle :: "string \<Rightarrow> string \<Rightarrow> rpz_route" where
  "rpz_handle meth path =
     (if path = ''/api/dns/rpz/lists'' then
        (if meth = ''GET'' then ListLists else if meth = ''POST'' then AddList else MethodNotAllowed)
      else
        (case rpz_list_route meth path of
           Some r \<Rightarrow> r
         | None \<Rightarrow>
             (if path = ''/api/dns/sinkhole/config'' then
                (if meth = ''GET'' then GetDnsConfig else if meth = ''PUT'' then PutDnsConfig else MethodNotAllowed)
              else if path = ''/api/dns/rpz/test'' \<and> meth = ''POST'' then TestDomain
              else if path = ''/api/dns/rpz/stats'' \<and> meth = ''GET'' then RpzStats
              else if path = ''/api/dns/rpz/rules/custom'' then
                (if meth = ''GET'' then ListRules else if meth = ''POST'' then AddRule else MethodNotAllowed)
              else
                (case strip_prefix path ''/api/dns/rpz/rules/custom/'' of
                   Some i \<Rightarrow> if meth = ''DELETE'' then DeleteRule i else RpzNotFound
                 | None \<Rightarrow> RpzNotFound))))"

definition control_table :: "((string \<times> string) \<times> control_route) list" where
  "control_table =
     [((''GET'', ''/api/config''), ConfigGet), ((''POST'', ''/api/config/apply''), ConfigApply),
      ((''GET'', ''/api/stats''), Stats), ((''POST'', ''/api/cache/purge''), Purge),
      ((''GET'', ''/api/hierarchy/peers''), HierarchyPeers), ((''POST'', ''/api/hierarchy/reload''), HierarchyReload),
      ((''GET'', ''/api/upstream/tls''), UpstreamTls), ((''POST'', ''/api/upstream/tls/reload''), UpstreamTlsReload),
      ((''GET'', ''/api/security/casb''), CasbDomains), ((''POST'', ''/api/security/casb''), CasbUpdate),
      ((''GET'', ''/api/security/dlp''), DlpPatterns), ((''POST'', ''/api/security/dlp''), DlpUpdate),
      ((''GET'', ''/api/auth/basic/users''), UsersList), ((''POST'', ''/api/auth/basic/users''), UsersPut),
      ((''DELETE'', ''/api/auth/basic/users''), UsersDelete), ((''GET'', ''/api/amneziawg/status''), AwgStatus),
      ((''POST'', ''/api/amneziawg/config''), AwgConfig), ((''POST'', ''/api/amneziawg/peers''), AwgAddPeer),
      ((''DELETE'', ''/api/amneziawg/peers''), AwgDeletePeer), ((''GET'', ''/api/cluster/session-state''), SessionState),
      ((''GET'', ''/api/threats/sync/peers''), ThreatPeers), ((''POST'', ''/api/threats/sync/broadcast''), ThreatBroadcast),
      ((''GET'', ''/api/pinning/exceptions''), PinningExceptions),
      ((''POST'', ''/api/pinning/exceptions/reload''), PinningReload), ((''POST'', ''/api/wasm/reload''), WasmReload)]"

definition dispatch_route :: "bool \<Rightarrow> string \<Rightarrow> string \<Rightarrow> control_route" where
  "dispatch_route has_rpz meth path =
     (case dispatch_agent meth path of
        Some r \<Rightarrow> r
      | None \<Rightarrow>
          (if starts_with path ''/api/search'' \<or> path = ''/api/events'' then Search
           else if has_rpz \<and> starts_with path ''/api/dns/'' then Rpz (rpz_handle meth path)
           else
             (case map_of control_table (meth, path) of
                Some r \<Rightarrow> r
              | None \<Rightarrow> if meth = ''GET'' \<and> \<not> starts_with path ''/api/'' then StaticUi else NoRoute)))"

subsection \<open>Files of the console\<close>

text \<open>\<^verbatim>\<open>PathBuf::join\<close>: an absolute path replaces the base.\<close>

definition pathbuf_join :: "string \<Rightarrow> string \<Rightarrow> string" where
  "pathbuf_join base p = (if starts_with p ''/'' then p else path_join base p)"

text \<open>\<^verbatim>\<open>Path::extension\<close> of the last component.\<close>

definition file_extension :: "string \<Rightarrow> string" where
  "file_extension p =
     (let name = last (split_char CHR ''/'' p);
          ext = rev (takeWhile (\<lambda>c. c \<noteq> CHR ''.'') (rev name))
      in if CHR ''.'' \<in> set (tl name) then ext else [])"

definition mime_type :: "string \<Rightarrow> string" where
  "mime_type ext =
     (if List.member [''html'', ''htm''] ext then ''text/html; charset=utf-8''
      else if List.member [''js'', ''mjs''] ext then ''application/javascript; charset=utf-8''
      else if ext = ''css'' then ''text/css; charset=utf-8''
      else if ext = ''svg'' then ''image/svg+xml''
      else if ext = ''png'' then ''image/png''
      else if List.member [''jpg'', ''jpeg''] ext then ''image/jpeg''
      else if ext = ''ico'' then ''image/x-icon''
      else if ext = ''json'' then ''application/json''
      else if ext = ''woff2'' then ''font/woff2''
      else if ext = ''woff'' then ''font/woff''
      else ''application/octet-stream'')"

datatype ui_reply = Refused | RedirectToAdmin | FileContent string string | NoFileFound

definition static_target :: "string \<Rightarrow> string \<Rightarrow> string" where
  "static_target base_dir path =
     (let relative = (case strip_prefix path ''/admin/'' of Some r \<Rightarrow> r | None \<Rightarrow> trim_start_matches CHR ''/'' path)
      in if relative = [] then pathbuf_join base_dir ''index.html'' else pathbuf_join base_dir relative)"

definition serve_static_ui ::
  "(string \<Rightarrow> bool) \<Rightarrow> (string \<Rightarrow> string option) \<Rightarrow> string option \<Rightarrow> string \<Rightarrow> ui_reply" where
  "serve_static_ui is_file read admin_console_dir path =
     (if sublist ''..'' path \<or> CHR 0x00 \<in> set path then Refused
      else if List.member [''/'', ''/admin'', ''/trust''] path \<or> starts_with path ''/trust/'' then RedirectToAdmin
      else
        (let base_dir = (case admin_console_dir of Some d \<Rightarrow> d | None \<Rightarrow> ''./admin-console/dist'');
             target = static_target base_dir path;
             file_path = (if is_file target then target else pathbuf_join base_dir ''index.html'')
         in case read file_path of
              Some content \<Rightarrow> FileContent (mime_type (file_extension file_path)) content
            | None \<Rightarrow> NoFileFound))"

subsection \<open>Handlers\<close>

definition purge ::
  "'c control_lib \<Rightarrow> control_io \<Rightarrow> string \<Rightarrow> ('c, 's) control_state \<Rightarrow> (control_reply \<times> ('c, 's) control_state) option" where
  "purge lib io body s =
     (case (if body = [] then Inr purge_default else cl_parse_purge lib body) of
        Inl e \<Rightarrow> Some ((400, ''invalid json: '' @ escape_json e), s)
      | Inr req \<Rightarrow>
          (case purge_payload (cl_qc lib) (cl_hash lib) (cl_cache_key lib) (ct_l2_prefix s) (ci_up io) (ci_replies io) req
                  (ct_http_cache s, ct_redis s) of
             None \<Rightarrow> None
           | Some (r, c, db) \<Rightarrow>
               Some (case r of Inr z \<Rightarrow> (200, ''purged'') | Inl e \<Rightarrow> (400, escape_json e),
                     s\<lparr>ct_http_cache := c, ct_redis := db\<rparr>)))"

definition casb_update :: "'c control_lib \<Rightarrow> string \<Rightarrow> ('c, 's) control_state \<Rightarrow> control_reply \<times> ('c, 's) control_state" where
  "casb_update lib body s =
     (case cl_parse_domains lib body of
        Inr domains \<Rightarrow> ((200, ''ok''), s\<lparr>ct_casb := casb_set_domains domains (ct_casb s)\<rparr>)
      | Inl e \<Rightarrow> ((400, e), s))"

definition dlp_update :: "'c control_lib \<Rightarrow> string \<Rightarrow> ('c, 's) control_state \<Rightarrow> control_reply \<times> ('c, 's) control_state" where
  "dlp_update lib body s =
     (case cl_parse_patterns lib body of
        Inr patterns \<Rightarrow> ((200, ''ok''), s\<lparr>ct_dlp := dlp_set_patterns patterns (ct_dlp s)\<rparr>)
      | Inl e \<Rightarrow> ((400, e), s))"

definition basic_users_put ::
  "'c control_lib \<Rightarrow> control_io \<Rightarrow> string \<Rightarrow> ('c, 's) control_state \<Rightarrow> control_reply \<times> ('c, 's) control_state" where
  "basic_users_put lib io body s =
     (case ct_auth s of
        None \<Rightarrow> ((503, ''Auth backend not enabled''), s)
      | Some auth \<Rightarrow>
          (case cl_parse_put_user lib body of
             None \<Rightarrow> ((400, ''invalid json''), s)
           | Some req \<Rightarrow>
               (if pu_username req = [] \<or> pu_role req = [] then ((400, ''username and role cannot be empty''), s)
                else
                  (case put_basic_user (cl_auth lib) (ax_disk (ci_agent io)) (pu_username req) (pu_password req) (pu_role req) auth of
                     (e, auth') \<Rightarrow>
                       ((case e of None \<Rightarrow> (200, ''ok'') | Some e \<Rightarrow> (400, e)), s\<lparr>ct_auth := Some auth'\<rparr>)))))"

definition basic_users_delete ::
  "'c control_lib \<Rightarrow> control_io \<Rightarrow> string \<Rightarrow> ('c, 's) control_state \<Rightarrow> control_reply \<times> ('c, 's) control_state" where
  "basic_users_delete lib io body s =
     (case ct_auth s of
        None \<Rightarrow> ((503, ''Auth backend not enabled''), s)
      | Some auth \<Rightarrow>
          (case cl_parse_del_user lib body of
             None \<Rightarrow> ((400, ''invalid json''), s)
           | Some username \<Rightarrow>
               (case remove_basic_user (ax_disk (ci_agent io)) username auth of
                  (r, auth') \<Rightarrow>
                    ((case r of Inr True \<Rightarrow> (200, ''ok'') | Inr False \<Rightarrow> (404, ''user not found'') | Inl e \<Rightarrow> (500, e)),
                     s\<lparr>ct_auth := Some auth'\<rparr>))))"

definition threat_sync_broadcast ::
  "'c control_lib \<Rightarrow> control_io \<Rightarrow> string \<Rightarrow> ('c, 's) control_state \<Rightarrow> control_reply \<times> ('c, 's) control_state" where
  "threat_sync_broadcast lib io body s =
     (case cl_parse_threat lib body of
        Inl e \<Rightarrow> ((400, ''invalid threat event payload: '' @ escape_json e), s)
      | Inr event \<Rightarrow>
          (case broadcast (ci_now_millis io) (ci_publish io) event (ct_threats s) of
             (r, t) \<Rightarrow>
               ((case r of Inr _ \<Rightarrow> (200, ''broadcasted'') | Inl e \<Rightarrow> (500, ''broadcast failed: '' @ escape_json e)),
                s\<lparr>ct_threats := t\<rparr>)))"

text \<open>A request to the interface: refused, or its route with the reply of the handlers above; the
  routes left are those of \<^verbatim>\<open>Rpz_Api\<close> and read-only views.\<close>

datatype control_result = Unauthorized | Replied control_reply | AgentReplied agent_reply | Ui ui_reply | Delegated control_route

definition agent_result ::
  "('c, 's) control_state \<Rightarrow> agent_reply \<times> agent_state \<Rightarrow> (control_result \<times> ('c, 's) control_state) option" where
  "agent_result s r = Some (AgentReplied (fst r), s\<lparr>ct_agent := snd r\<rparr>)"

definition route_result ::
  "control_reply \<times> ('c, 's) control_state \<Rightarrow> (control_result \<times> ('c, 's) control_state) option" where
  "route_result r = Some (Replied (fst r), snd r)"

definition run_route ::
  "'c control_lib \<Rightarrow> control_io \<Rightarrow> control_route \<Rightarrow> string \<Rightarrow> string \<Rightarrow> ('c, 's) control_state \<Rightarrow>
   (control_result \<times> ('c, 's) control_state) option" where
  "run_route lib io r path body s =
     (case r of
        Purge \<Rightarrow> Option.bind (purge lib io body s) route_result
      | CasbUpdate \<Rightarrow> route_result (casb_update lib body s)
      | DlpUpdate \<Rightarrow> route_result (dlp_update lib body s)
      | UsersPut \<Rightarrow> route_result (basic_users_put lib io body s)
      | UsersDelete \<Rightarrow> route_result (basic_users_delete lib io body s)
      | ThreatBroadcast \<Rightarrow> route_result (threat_sync_broadcast lib io body s)
      | RevokeDevice i \<Rightarrow> agent_result s (agent_revoke (ci_agent io) i (ct_agent s))
      | AgentHeartbeat \<Rightarrow> agent_result s (agent_heartbeat (cl_agent lib) (ci_agent io) body (ct_agent s))
      | AgentEvents \<Rightarrow> agent_result s (agent_events_ingest (cl_agent lib) (ci_agent io) body (ct_agent s))
      | AgentEnroll \<Rightarrow> agent_result s (agent_enroll (cl_agent lib) (ci_agent io) body (ct_agent s))
      | PolicyPush \<Rightarrow> agent_result s (agent_policy_push (cl_agent lib) (ci_agent io) body (ct_agent s))
      | PinningReload \<Rightarrow> agent_result s (pinning_reload (cl_agent lib) (ci_agent io) body (ct_agent s))
      | StaticUi \<Rightarrow> Some (Ui (serve_static_ui (ci_is_file io) (ci_read io) (ct_admin_console_dir s) path), s)
      | NoRoute \<Rightarrow> Some (Replied (404, ''not found''), s)
      | _ \<Rightarrow> Some (Delegated r, s))"

definition dispatch_with_query ::
  "'c control_lib \<Rightarrow> control_io \<Rightarrow> string \<Rightarrow> string \<Rightarrow> string \<Rightarrow> headers \<Rightarrow> ('c, 's) control_state \<Rightarrow>
   (control_result \<times> ('c, 's) control_state) option" where
  "dispatch_with_query lib io meth path body hs s =
     (case guard lib (ax_faults (ci_agent io)) meth path hs s of
        (False, s1) \<Rightarrow> Some (Unauthorized, s1)
      | (True, s1) \<Rightarrow> run_route lib io (dispatch_route (ct_has_rpz s1) meth path) path body s1)"

definition control_handle ::
  "'c control_lib \<Rightarrow> control_io \<Rightarrow> bool \<Rightarrow> string \<Rightarrow> string \<Rightarrow> string \<Rightarrow> headers \<Rightarrow> ('c, 's) control_state \<Rightarrow>
   (control_result \<times> ('c, 's) control_state) option" where
  "control_handle lib io upgrade meth path body hs s =
     (if path = ''/api/v1/agent/policy/ws'' \<and> meth = ''GET'' \<and> upgrade then
        (case is_agent_authorized lib (ax_faults (ci_agent io)) hs s of
           (ok, s1) \<Rightarrow> Some (if ok then Delegated PolicyWs else Unauthorized, s1))
      else dispatch_with_query lib io meth path body hs s)"

subsection \<open>Listeners\<close>

datatype listener_route = ToAclApi | ToControlApi | MetricsExport | MetricsRefused | Health | Ready | Draining | ListenerNotFound

definition ui_path :: "string \<Rightarrow> bool" where
  "ui_path path \<longleftrightarrow>
     List.member [''/'', ''/trust'', ''/admin''] path \<or> starts_with path ''/trust/'' \<or> starts_with path ''/admin/'' \<or>
     starts_with path ''/assets'' \<or> list_ex (ends_with path) [''.svg'', ''.png'', ''.js'', ''.css'']"

definition metrics_server ::
  "(string \<Rightarrow> string option) \<Rightarrow> bool \<Rightarrow> bool \<Rightarrow> string option \<Rightarrow> bool \<Rightarrow> string \<Rightarrow> headers \<Rightarrow> listener_route" where
  "metrics_server to_str has_acl_api has_control_api scrape_token draining path hs =
     (if has_acl_api \<and> starts_with path ''/api/acl/'' then ToAclApi
      else if has_control_api \<and> (starts_with path ''/api/'' \<or> ui_path path) then ToControlApi
      else if path = ''/metrics'' then
        (case scrape_token of
           None \<Rightarrow> MetricsExport
         | Some expected \<Rightarrow>
             (case extract_bearer to_str hs of
                Some token \<Rightarrow> if secret_eq token expected then MetricsExport else MetricsRefused
              | None \<Rightarrow> MetricsRefused))
      else if path = ''/health'' then Health
      else if path = ''/ready'' then (if draining then Draining else Ready)
      else ListenerNotFound)"

datatype agent_route = ConnectionClosed | AgentHealth | AgentApi headers | AgentNotFound

text \<open>The listener for agents, for a client certificate with fingerprint \<open>peer_fp\<close>; \<open>to_value\<close> is
  the check of the HTTP library.\<close>

definition agent_control_mtls_server ::
  "(string \<Rightarrow> string option) \<Rightarrow> redis_faults \<Rightarrow> bool \<Rightarrow> bool \<Rightarrow> string option \<Rightarrow> string \<Rightarrow> headers \<Rightarrow> ('c, 's) control_state \<Rightarrow>
   agent_route \<times> ('c, 's) control_state" where
  "agent_control_mtls_server to_value ok require_enrolled check_crl peer_fp path hs s =
     (let (revoked, c) =
            (case peer_fp of
               Some fp \<Rightarrow> (if check_crl then is_fingerprint_revoked ok (ag_crl_db (ct_agent s)) fp (ag_crl (ct_agent s)) else (False, ag_crl (ct_agent s)))
             | None \<Rightarrow> (False, ag_crl (ct_agent s)));
          s1 = s\<lparr>ct_agent := (ct_agent s)\<lparr>ag_crl := c\<rparr>\<rparr>
      in if revoked then (ConnectionClosed, s1)
         else
           (let (enrolled, r) =
                  (if \<not> require_enrolled then (True, ag_devices (ct_agent s1))
                   else
                     (case peer_fp of
                        Some fp \<Rightarrow> cert_fingerprint_valid ok (ag_device_db (ct_agent s1)) fp (ag_devices (ct_agent s1))
                      | None \<Rightarrow> (False, ag_devices (ct_agent s1))));
                s2 = s1\<lparr>ct_agent := (ct_agent s1)\<lparr>ag_devices := r\<rparr>\<rparr>
            in if \<not> enrolled then (ConnectionClosed, s2)
               else
                 (let hs' = (case Option.bind peer_fp to_value of
                               Some v \<Rightarrow> filter (\<lambda>(k, _). k \<noteq> ''x-bsdm-client-cert-fp'') hs @ [(''x-bsdm-client-cert-fp'', v)]
                             | None \<Rightarrow> hs)
                  in (if List.member [''/health'', ''/ready''] path then AgentHealth
                      else if agent_api path then AgentApi hs'
                      else AgentNotFound, s2))))"

section \<open>Lemmas\<close>

subsection \<open>Purging\<close>

lemma l1_remove_tag_index: "l1_tag_index (snd (l1_remove qc hash k c)) = unindex k (l1_tag_index c)"
  by (simp add: l1_remove_def Let_def case_prod_beta)

lemma redis_key_inj [simp]: "redis_key p k = redis_key p k' \<longleftrightarrow> k = k'"
  by (simp add: redis_key_def)

lemma purge_keys_l1:
  assumes "qc_law qc" "l1_inv qc hash c" "purge_keys qc hash l2 up keys n (c, db) = (n', c', db')"
  shows "l1_inv qc hash c' \<and> (\<forall>k. l1_map qc hash c' k = (if k \<in> set keys then None else l1_map qc hash c k)) \<and>
    (\<forall>t. set (keys_for_tag (l1_tag_index c') t) = set (keys_for_tag (l1_tag_index c) t) - set keys)"
  using assms(2,3)
proof (induction keys arbitrary: n c db)
  case (Cons k keys)
  let ?c = "snd (l1_remove qc hash k c)"
  note inv = l1_remove_inv [OF assms(1) Cons.prems(1), of k]
  note rm = l1_remove_map [OF assms(1) l1_inv_index l1_inv_index, OF Cons.prems(1) Cons.prems(1)]
  have row: "set (keys_for_tag (l1_tag_index ?c) t) = set (keys_for_tag (l1_tag_index c) t) - {k}" for t
    using Cons.prems(1) tag_index_inv_rows [of "l1_tag_index c"]
    by (auto simp: l1_remove_tag_index keys_for_tag_row unindex_rows l1_inv_def)
  from Cons.prems(2) obtain n1 db1 where "purge_keys qc hash l2 up keys n1 (?c, db1) = (n', c', db')"
    by (auto simp: Let_def case_prod_beta)
  from Cons.IH [OF inv this] show ?case by (auto simp: rm row)
qed simp

lemma purge_keys_l2:
  "purge_keys qc hash l2 up keys n (c, db) = (n', c', db') \<Longrightarrow>
     map_of db' (redis_key p k) = (if l2 = Some p \<and> up \<and> k \<in> set keys then None else map_of db (redis_key p k)) \<or> l2 \<notin> {None, Some p}"
proof (induction keys arbitrary: n c db)
  case (Cons q keys)
  let ?db = "case l2 of Some p \<Rightarrow> l2_delete up p q db | None \<Rightarrow> db"
  from Cons.prems obtain n1 c1 where "purge_keys qc hash l2 up keys n1 (c1, ?db) = (n', c', db')"
    by (auto simp: Let_def case_prod_beta)
  from Cons.IH [OF this] show ?case by (auto simp: l2_delete_def split: option.splits if_splits)
qed simp

lemma purge_tags_exact:
  assumes "qc_law qc" "l1_inv qc hash c" "purge_tags qc hash (Some p) True ts n (c, db) = (n', c', db')"
  shows "l1_inv qc hash c' \<and>
    l1_map qc hash c' k = (if \<exists>t \<in> set ts. k \<in> set (keys_for_tag (l1_tag_index c) t) then None else l1_map qc hash c k) \<and>
    map_of db' (redis_key p k) =
      (if \<exists>t \<in> set ts. k \<in> set (keys_for_tag (l1_tag_index c) t) then None else map_of db (redis_key p k))"
  using assms(2,3)
proof (induction ts arbitrary: n c db)
  case (Cons t ts)
  obtain n1 c1 db1 where
    one: "purge_keys qc hash (Some p) True (keys_for_tag (l1_tag_index c) t) n (c, db) = (n1, c1, db1)"
    by (metis prod.collapse)
  with Cons.prems(2) have rest: "purge_tags qc hash (Some p) True ts n1 (c1, db1) = (n', c', db')" by simp
  note l1 = purge_keys_l1 [OF assms(1) Cons.prems(1) one]
  from Cons.IH [OF conjunct1 [OF l1] rest] l1 purge_keys_l2 [OF one, of p k] show ?case by auto
qed simp

subsection \<open>Authorisation and routes\<close>

lemma enroll_is_agent_api:
  "List.member [''/api/v1/agent/enroll'', ''/api/agent/enroll''] path \<Longrightarrow> agent_api path"
  by (auto simp: agent_api_def starts_with_def)

lemma strip_suffix_append [simp]: "strip_suffix (s @ p) p = Some s"
  by (simp add: strip_suffix_def suffix_def)

lemma revoke_path:
  "public_api ''POST'' (''/api/v1/devices/'' @ r) = False" "agent_api (''/api/v1/devices/'' @ r)"
  "dispatch_route rpz ''POST'' (''/api/v1/devices/'' @ i @ ''/revoke'') = RevokeDevice i"
  "starts_with (''/api/v1/devices/'' @ r) ''/api/''"
  "List.member [''/api/v1/agent/enroll'', ''/api/agent/enroll''] (''/api/v1/devices/'' @ r) = False"
  by (simp_all add: public_api_def agent_api_def dispatch_route_def dispatch_agent_def starts_with_def strip_prefix_def)

lemma push_path:
  "public_api ''POST'' ''/api/v1/agent/policy/push'' = False" "agent_api ''/api/v1/agent/policy/push''"
  "dispatch_route rpz ''POST'' ''/api/v1/agent/policy/push'' = PolicyPush" "starts_with ''/api/v1/agent/policy/push'' ''/api/''"
  by (simp_all add: public_api_def agent_api_def dispatch_route_def dispatch_agent_def starts_with_def strip_prefix_def agent_table_def)

lemma admin_path:
  "starts_with (''/admin/'' @ p) ''/api/'' = False" "dispatch_route rpz ''GET'' (''/admin/'' @ p) = StaticUi"
  by (simp_all add: dispatch_route_def dispatch_agent_def starts_with_def strip_prefix_def agent_table_def control_table_def)

lemma enroll_certificate_Inl: "enroll_certificate lib dto hint \<noteq> Inl (Enrolled res cert)"
  by (simp add: enroll_certificate_def split: option.splits sum.splits)

section \<open>Properties\<close>

text \<open>(C2) The control interface is closed without its token: when a token is configured, or the deployment
  fails closed, a request for a path of the interface that is neither public nor for agents and does
  not carry that token is refused, whatever its method and body, and changes nothing.\<close>

theorem control_token_required:
  assumes "ct_api_token s \<noteq> None \<or> ct_fail_closed s" "\<forall>t. ct_api_token s = Some t \<longrightarrow> extract_bearer (cl_to_str lib) hs \<noteq> Some t"
    "starts_with path ''/api/''" "\<not> public_api meth path" "\<not> agent_api path"
  shows "control_handle lib io upgrade meth path body hs s = Some (Unauthorized, s)"
proof -
  have "\<not> is_authorized (cl_to_str lib) hs s"
    using assms(1,2) by (auto simp: is_authorized_def bearer_authorized_def split: option.splits)
  moreover have "path \<noteq> ''/api/v1/agent/policy/ws''" using assms(5) by (auto simp: agent_api_def starts_with_def)
  ultimately show ?thesis
    using assms(3-5) enroll_is_agent_api [of path] by (auto simp: control_handle_def dispatch_with_query_def guard_def)
qed

text \<open>The token of any device is enough to act on all of them: with it the interface revokes any other
  device and publishes the policy, as for an operator with the control token.\<close>

theorem device_token_acts_as_operator:
  assumes "is_agent_authorized lib (ax_faults (ci_agent io)) hs s = (True, s1)"
  shows "control_handle lib io upgrade ''POST'' (''/api/v1/devices/'' @ i @ ''/revoke'') body hs s =
      agent_result s1 (agent_revoke (ci_agent io) i (ct_agent s1)) \<and>
    control_handle lib io upgrade ''POST'' ''/api/v1/agent/policy/push'' body hs s =
      agent_result s1 (agent_policy_push (cl_agent lib) (ci_agent io) body (ct_agent s1))"
  using assms revoke_path(1,2,4,5) [where r = "i @ ''/revoke''"] revoke_path(3) [where i = i] push_path
  by (simp add: control_handle_def dispatch_with_query_def guard_def run_route_def del: append.simps)

text \<open>(C38) The console serves any file of the machine to anyone: a request for the absolute path of a file
  behind \<^verbatim>\<open>/admin/\<close> passes the check against \<^verbatim>\<open>..\<close>, needs no token, reaches the interface through the listener
  for metrics, and is answered with that file, wherever the console is installed.\<close>

theorem console_serves_any_file:
  assumes "starts_with p ''/''" "\<not> sublist ''..'' p" "CHR 0x00 \<notin> set p" "ci_is_file io p" "ci_read io p = Some content"
  shows "metrics_server to_str has_acl_api True scrape draining (''/admin/'' @ p) hs = ToControlApi \<and>
    control_handle lib io upgrade ''GET'' (''/admin/'' @ p) body hs s =
      Some (Ui (FileContent (mime_type (file_extension p)) content), s)"
proof
  show "metrics_server to_str has_acl_api True scrape draining (''/admin/'' @ p) hs = ToControlApi"
    by (simp add: metrics_server_def ui_path_def starts_with_def)
next
  from assms(1) obtain q where q: "p = CHR ''/'' # q" by (cases p) (auto simp: starts_with_def)
  have target: "static_target base (''/admin/'' @ p) = p" for base
    using strip_prefix_append [of "''/admin/''" p] assms(1) q by (simp add: static_target_def pathbuf_join_def del: append.simps)
  have "\<not> sublist ''..'' (''/admin/'' @ p)" using assms(2) q by (simp add: sublist_Cons_right)
  with assms target have "serve_static_ui (ci_is_file io) (ci_read io) (ct_admin_console_dir s) (''/admin/'' @ p) =
      FileContent (mime_type (file_extension p)) content"
    by (auto simp: serve_static_ui_def Let_def starts_with_def q)
  then show "control_handle lib io upgrade ''GET'' (''/admin/'' @ p) body hs s =
      Some (Ui (FileContent (mime_type (file_extension p)) content), s)"
    using admin_path [where p = p]
    by (simp add: control_handle_def dispatch_with_query_def guard_def run_route_def del: append.simps)
      (simp add: starts_with_def)
qed


text \<open>Purging a URL removes its entry from both caches and nothing else.\<close>

theorem url_purge_exact:
  assumes "qc_law qc" "l1_inv qc hash c" "\<not> pq_all req" "collect_purge_tags req = []" "pq_url req = Some u" "u \<noteq> []"
    "purge_payload qc hash ck (Some p) True replies req (c, db) = Some (r, c', db')"
  defines "key \<equiv> ck (case pq_method req of Some m \<Rightarrow> m | None \<Rightarrow> ''GET'') u"
  shows "l1_map qc hash c' k = (if k = key then None else l1_map qc hash c k) \<and>
    map_of db' (redis_key p k) = (if k = key then None else map_of db (redis_key p k))"
proof -
  obtain n where one: "purge_keys qc hash (Some p) True [key] 0 (c, db) = (n, c', db')"
    using assms(3-7) by (cases u) (auto simp: purge_payload_def key_def Let_def case_prod_beta prod_eq_iff)
  from purge_keys_l1 [OF assms(1,2) one] purge_keys_l2 [OF one, of p k] show ?thesis by auto
qed

text \<open>An enrolled device can use the interface for agents: after an enrolment on a single node the token
  it was given is accepted there, whatever the control token is.\<close>

theorem enrolled_token_accepted:
  assumes "\<not> rg_redis (ag_devices a)" "hm_inv (rg_devices (ag_devices a))"
    "agent_enroll (cl_agent lib) aio body a = (Enrolled res cert, a')"
    "extract_bearer (cl_to_str lib) hs = Some (er_device_token res)" "er_device_token res \<noteq> []" "ct_agent s = a'"
  shows "fst (is_agent_authorized lib ok hs s)"
proof -
  obtain dto req where enr: "enroll (gl_sha (cl_agent lib)) (ax_faults aio) (ax_disk aio) (ax_now aio) (ax_fresh aio) (ax_token aio)
      req (ag_devices a) (ag_device_db a) = (Inr res, ag_devices a', ag_device_db a')"
    using assms(3) enroll_certificate_Inl
    by (fastforce simp: agent_enroll_def split: sum.splits prod.splits if_splits)
  have "er_device_token res = ax_token aio"
    using enr by (auto simp: enroll_def Let_def case_prod_beta split: if_splits option.splits)
  with enroll_token_valid [OF assms(1,2) enr, of ok "ag_device_db a'" "er_device_token res"] assms(5)
  have "fst (device_token_valid (gl_sha (cl_agent lib)) ok (ag_device_db a') (er_device_token res) (ag_devices a'))"
    by simp
  with assms(4,6) show ?thesis by (auto simp: is_agent_authorized_def split: prod.splits)
qed

section \<open>Witnesses\<close>

definition demo_agent_lib :: agent_lib where
  "demo_agent_lib =
     \<lparr>gl_sha = (\<lambda>s. s), gl_digest = demo_digest, gl_env = (\<lambda>_. None), gl_sign = None,
      gl_parse_heartbeat = (\<lambda>_. Inl ''no''), gl_parse_batch = (\<lambda>_. Inr demo_batch),
      gl_parse_enroll = (\<lambda>_. Inr \<lparr>ed_device_id = Some ''pc1'', ed_platform = ''Linux'', ed_name = None, ed_user_identity = None,
        ed_capabilities = [], ed_device_type = None, ed_csr_pem = None, ed_cert_validity_days = None\<rparr>),
      gl_parse_push = (\<lambda>_. None), gl_parse_reload = (\<lambda>_. Inl ''no'')\<rparr>"

definition demo_agent_io :: agent_io where
  "demo_agent_io =
     \<lparr>ax_faults = (\<lambda>_. True), ax_disk = None, ax_now = 9, ax_fresh = ''0'', ax_token = ''new'', ax_ids = [''e1''],
      ax_pinning_file = Inl ''none'', ax_audit_fault = None\<rparr>"

definition demo_agent :: agent_state where
  "demo_agent =
     \<lparr>ag_devices = sample_registry False, ag_device_db = empty_db, ag_crl = crl_memory_only,
      ag_crl_db = \<lparr>cd_entries = [], cd_number = None\<rparr>, ag_events = ingestor_memory_only, ag_hub = demo_hub,
      ag_pinning = \<lparr>pg_entries = [], pg_source_path = None, pg_audit_path = None\<rparr>, ag_audit = []\<rparr>"

definition demo_control_lib :: "(string, cached_response) hash_map control_lib" where
  "demo_control_lib =
     \<lparr>cl_qc = demo_qc, cl_hash = demo_hash, cl_cache_key = (\<lambda>m u. u), cl_to_str = Some, cl_agent = demo_agent_lib,
      cl_auth = sample_lib, cl_parse_purge = (\<lambda>_. Inr purge_default), cl_parse_domains = (\<lambda>_. Inr []),
      cl_parse_patterns = (\<lambda>_. Inr []), cl_parse_put_user = (\<lambda>_. None), cl_parse_del_user = (\<lambda>_. None),
      cl_parse_threat = (\<lambda>_. Inl ''no'')\<rparr>"

definition demo_control_io :: control_io where
  "demo_control_io =
     \<lparr>ci_up = True, ci_replies = [], ci_agent = demo_agent_io, ci_publish = None, ci_now_millis = 9000,
      ci_is_file = (\<lambda>p. p = ''/etc/passwd''), ci_read = (\<lambda>p. if p = ''/etc/passwd'' then Some ''root:x:0'' else None)\<rparr>"

definition demo_control :: "((string, cached_response) hash_map, unit) control_state" where
  "demo_control =
     \<lparr>ct_http_cache = demo_l1, ct_l2_prefix = Some ''p:'', ct_redis = [], ct_api_token = Some ''s3cret'', ct_fail_closed = True,
      ct_enroll_token = None, ct_casb = {}, ct_dlp = empty_state, ct_auth = None, ct_agent = demo_agent,
      ct_threats = threat_sync_new ''n1'' False, ct_has_rpz = True, ct_admin_console_dir = Some ''/srv/ui''\<rparr>"

lemmas demo_control_defs = demo_agent_lib_def demo_agent_io_def demo_agent_def demo_control_lib_def demo_control_io_def demo_control_def

theorem control_token_required_witness:
  "control_handle demo_control_lib demo_control_io False ''POST'' ''/api/cache/purge'' [] [(''authorization'', ''Bearer guess'')]
     demo_control = Some (Unauthorized, demo_control)"
proof -
  have "extract_bearer Some [(''authorization'', ''Bearer guess'')] = Some ''guess''" by code_simp
  then show ?thesis
    by (intro control_token_required) (simp_all add: demo_control_defs starts_with_def public_api_def agent_api_def)
qed

theorem device_token_acts_as_operator_witness:
  "\<exists>r s'. control_handle demo_control_lib demo_control_io False ''POST'' (''/api/v1/devices/'' @ ''other'' @ ''/revoke'') []
     [(''authorization'', ''Bearer tok'')] demo_control = Some (AgentReplied r, s')"
proof -
  have b: "extract_bearer Some [(''authorization'', ''Bearer tok'')] = Some ''tok''" by code_simp
  have "is_agent_authorized demo_control_lib (ax_faults (ci_agent demo_control_io)) [(''authorization'', ''Bearer tok'')] demo_control =
      (True, demo_control)"
    by (simp add: is_agent_authorized_def is_authorized_def bearer_authorized_def b demo_control_defs device_token_valid_def
        hash_device_token_def check_device_def sample_device_defs Let_def)
  from device_token_acts_as_operator [OF this, of False "''other''" "[]"] show ?thesis
    by (simp add: agent_result_def del: append.simps)
qed

theorem console_serves_any_file_witness:
  "control_handle demo_control_lib demo_control_io False ''GET'' ''/admin//etc/passwd'' [] [] demo_control =
     Some (Ui (FileContent ''application/octet-stream'' ''root:x:0''), demo_control)"
proof -
  have "\<not> sublist ''..'' ''/etc/passwd''" by (simp add: sublist_Cons_right)
  then have "control_handle demo_control_lib demo_control_io False ''GET'' (''/admin/'' @ ''/etc/passwd'') [] [] demo_control =
     Some (Ui (FileContent (mime_type (file_extension ''/etc/passwd'')) ''root:x:0''), demo_control)"
    by (intro console_serves_any_file [THEN conjunct2]) (simp_all add: demo_control_io_def starts_with_def)
  moreover have "mime_type (file_extension ''/etc/passwd'') = ''application/octet-stream''" by code_simp
  ultimately show ?thesis by simp
qed

definition demo_tag_purge :: purge_request where
  "demo_tag_purge = purge_default\<lparr>pq_tags := [''sport'']\<rparr>"

definition demo_redis :: redis_db where
  "demo_redis = [(''p:k'', (''x'', 5)), (''p:other'', (''y'', 5))]"


theorem url_purge_exact_witness:
  "\<exists>r c' db'. purge_payload demo_qc demo_hash (\<lambda>m u. u) (Some ''p:'') True [] (purge_default\<lparr>pq_url := Some ''k''\<rparr>) (demo_l1, demo_redis) =
     Some (r, c', db') \<and> l1_map demo_qc demo_hash c' ''k'' = None \<and> map_of db' ''p:k'' = None"
proof -
  let ?req = "purge_default\<lparr>pq_url := Some ''k''\<rparr>"
  obtain r c' db' where run:
    "purge_payload demo_qc demo_hash (\<lambda>m u. u) (Some ''p:'') True [] ?req (demo_l1, demo_redis) = Some (r, c', db')"
    by (auto simp: purge_payload_def purge_default_def collect_purge_tags_def Let_def case_prod_beta)
  have inv: "l1_inv demo_qc demo_hash demo_l1" by (rule l1_reachable_inv [OF demo_qc_law demo_l1_reachable])
  from url_purge_exact [OF demo_qc_law inv _ _ _ _ run, of "''k''" "''k''"] run show ?thesis
    by (auto simp: redis_key_def purge_default_def collect_purge_tags_def)
qed

theorem enrolled_token_accepted_witness:
  "fst (is_agent_authorized demo_control_lib (\<lambda>_. True) [(''authorization'', ''Bearer new'')]
     (demo_control\<lparr>ct_agent := snd (agent_enroll demo_agent_lib demo_agent_io [] demo_agent)\<rparr>))"
proof -
  have b: "extract_bearer Some [(''authorization'', ''Bearer new'')] = Some ''new''" by code_simp
  obtain res cert a' where e: "agent_enroll demo_agent_lib demo_agent_io [] demo_agent = (Enrolled res cert, a')"
    and tok: "er_device_token res = ''new''"
    by (cases "agent_enroll demo_agent_lib demo_agent_io [] demo_agent")
      (auto simp: agent_enroll_def enroll_certificate_def trimmed_def enroll_hint_def enroll_def demo_control_defs
        sample_device_defs sample_texts case_prod_beta Let_def)
  have "\<not> rg_redis (ag_devices demo_agent)" "hm_inv (rg_devices (ag_devices demo_agent))"
    by (simp_all add: demo_agent_def sample_device_defs hm_inv_def)
  from enrolled_token_accepted [OF this, of demo_control_lib demo_agent_io "[]" res cert a' "[(''authorization'', ''Bearer new'')]"
      "demo_control\<lparr>ct_agent := a'\<rparr>"] e tok b
  show ?thesis by (simp add: demo_control_lib_def)
qed

end
