(* ===== verification/Entropy.thy ===== *)
theory Entropy
  imports Wire
begin

text \<open>
  The entropy of host names (\<^verbatim>\<open>alert-worker/src/entropy.rs\<close>, and \<^verbatim>\<open>shannon_entropy\<close> of
  \<^verbatim>\<open>ml-worker/src/phishing.rs\<close>). The first counts Unicode scalar values, the second bytes.
\<close>

section \<open>Definitions\<close>

text \<open>The entropy of the relative frequencies in a list, in bits.\<close>

definition entropy_of :: "'a list \<Rightarrow> real" where
  "entropy_of xs =
     (\<Sum>x \<leftarrow> remdups xs. let p = real (count_list xs x) / real (length xs) in - (p * log 2 p))"

text \<open>\<^verbatim>\<open>chars()\<close>: the scalar values of a text, each by its bytes.\<close>

definition scalar_values :: "string \<Rightarrow> bytes list" where
  "scalar_values s = map fst (utf8_pieces (char_bytes s))"

definition shannon_entropy :: "string \<Rightarrow> real" where
  "shannon_entropy s = (if scalar_values s = [] then 0 else entropy_of (scalar_values s))"

definition shannon_entropy_bytes :: "string \<Rightarrow> real" where
  "shannon_entropy_bytes s = (if s = [] then 0 else entropy_of (char_bytes s))"

definition leftmost_label :: "string \<Rightarrow> string" where
  "leftmost_label domain = trim_end_matches CHR ''.'' (hd (split_char CHR ''.'' domain))"

definition domain_label_entropy :: "string \<Rightarrow> real" where
  "domain_label_entropy domain = shannon_entropy (to_ascii_lowercase (leftmost_label domain))"

fun digit_run_from :: "nat \<Rightarrow> string \<Rightarrow> bool" where
  "digit_run_from run [] = False"
| "digit_run_from run (c # s) =
     (if is_ascii_digit c then (if run + 1 \<ge> 4 then True else digit_run_from (run + 1) s) else digit_run_from 0 s)"

definition legacy_high_entropy_domain :: "string \<Rightarrow> nat \<Rightarrow> bool" where
  "legacy_high_entropy_domain domain min_domain_len \<longleftrightarrow> length domain \<ge> min_domain_len \<and> digit_run_from 0 domain"

datatype high_entropy_mode = Shannon | Legacy | Either

definition high_entropy_mode_parse :: "string \<Rightarrow> high_entropy_mode" where
  "high_entropy_mode_parse raw =
     (let s = to_ascii_lowercase (trim raw) in
      if List.member [''shannon'', ''sha''] s then Shannon
      else if List.member [''legacy'', ''digits''] s then Legacy else Either)"

record high_entropy_match =
  em_entropy :: real
  em_shannon_hit :: bool
  em_legacy_hit :: bool

definition kind_label :: "high_entropy_match \<Rightarrow> string" where
  "kind_label m =
     (case (em_shannon_hit m, em_legacy_hit m) of
        (True, True) \<Rightarrow> ''shannon+legacy'' | (True, False) \<Rightarrow> ''shannon''
      | (False, True) \<Rightarrow> ''legacy'' | (False, False) \<Rightarrow> ''none'')"

definition matches_high_entropy ::
  "string \<Rightarrow> high_entropy_mode \<Rightarrow> real \<Rightarrow> nat \<Rightarrow> nat \<Rightarrow> high_entropy_match option" where
  "matches_high_entropy domain mode shannon_min_bits min_label_len legacy_min_domain_len =
     (let entropy = domain_label_entropy domain;
          shannon_hit = (length (scalar_values (leftmost_label domain)) \<ge> min_label_len \<and> entropy \<ge> shannon_min_bits);
          legacy_hit = legacy_high_entropy_domain domain legacy_min_domain_len;
          ok = (case mode of Shannon \<Rightarrow> shannon_hit | Legacy \<Rightarrow> legacy_hit | Either \<Rightarrow> shannon_hit \<or> legacy_hit)
      in if ok then Some \<lparr>em_entropy = entropy, em_shannon_hit = shannon_hit, em_legacy_hit = legacy_hit\<rparr> else None)"

section \<open>Lemmas\<close>

lemma entropy_of_sum:
  "entropy_of xs = (\<Sum>x \<in> set xs. let p = real (count_list xs x) / real (length xs) in - (p * log 2 p))"
  by (simp add: entropy_of_def sum_list_distinct_conv_sum_set)

lemma frequencies_sum:
  assumes "xs \<noteq> []" shows "(\<Sum>x \<in> set xs. real (count_list xs x) / real (length xs)) = 1"
proof -
  have "(\<Sum>x \<in> set xs. real (count_list xs x)) = real (length xs)"
    using sum_count_set [of xs "set xs"] by (simp flip: of_nat_sum)
  with assms show ?thesis by (simp flip: sum_divide_distrib)
qed

lemma frequency_bounds:
  assumes "x \<in> set xs"
  shows "0 < real (count_list xs x) / real (length xs)" "real (count_list xs x) / real (length xs) \<le> 1"
proof -
  have "count_list xs x \<noteq> 0" using assms by (simp add: count_list_0_iff)
  moreover have "count_list xs x \<le> length xs" by (rule count_le_length)
  moreover have "0 < length xs" using assms by (cases xs) auto
  ultimately show "0 < real (count_list xs x) / real (length xs)" "real (count_list xs x) / real (length xs) \<le> 1" by auto
qed

text \<open>Entropy lies between zero and the logarithm of the number of different elements.\<close>

lemma entropy_term_nonneg: "0 < p \<Longrightarrow> p \<le> 1 \<Longrightarrow> 0 \<le> - (p * log 2 (p :: real))"
  by (simp add: mult_le_0_iff)

lemma entropy_term_le:
  fixes p n :: real
  assumes "0 < p" "0 < n" shows "- (p * log 2 p) - p * log 2 n \<le> (1 / n - p) / ln 2"
proof -
  have "ln (1 / (p * n)) = - ln p - ln n" using assms by (simp add: ln_mult ln_div)
  then have "- (p * log 2 p) - p * log 2 n = p * (ln (1 / (p * n)) / ln 2)"
    by (simp only: log_def) (simp add: algebra_simps diff_divide_distrib)
  also have "\<dots> \<le> p * ((1 / (p * n) - 1) / ln 2)"
    using assms ln_le_minus_one [of "1 / (p * n)"] by (intro mult_left_mono divide_right_mono) auto
  also have "\<dots> = (1 / n - p) / ln 2" using assms by (simp add: field_simps)
  finally show ?thesis .
qed

lemma entropy_of_nonneg: "0 \<le> entropy_of xs"
  unfolding entropy_of_sum Let_def
  by (intro sum_nonneg entropy_term_nonneg [OF frequency_bounds])

lemma entropy_of_le:
  assumes "xs \<noteq> []" shows "entropy_of xs \<le> log 2 (real (card (set xs)))"
proof -
  let ?n = "real (card (set xs))"
  let ?p = "\<lambda>x. real (count_list xs x) / real (length xs)"
  have n: "0 < ?n" using assms by (simp add: card_gt_0_iff)
  have "(\<Sum>x \<in> set xs. ?p x * log 2 ?n) = log 2 ?n"
    by (simp only: sum_distrib_right [symmetric] frequencies_sum [OF assms] mult_1)
  then have "entropy_of xs - log 2 ?n = (\<Sum>x \<in> set xs. - (?p x * log 2 (?p x)) - ?p x * log 2 ?n)"
    by (simp only: entropy_of_sum Let_def sum_subtractf)
  also have "\<dots> \<le> (\<Sum>x \<in> set xs. (1 / ?n - ?p x) / ln 2)"
    by (intro sum_mono entropy_term_le frequency_bounds(1) n)
  also have "\<dots> = (\<Sum>x \<in> set xs. 1 / ?n - ?p x) / ln 2" by (rule sum_divide_distrib [symmetric])
  also have "(\<Sum>x \<in> set xs. 1 / ?n - ?p x) = 0"
    using frequencies_sum [OF assms] n assms by (simp add: sum_subtractf)
  finally show ?thesis by simp
qed

lemma shannon_entropy_bounds:
  "0 \<le> shannon_entropy s" "s' = scalar_values s \<Longrightarrow> s' \<noteq> [] \<Longrightarrow> shannon_entropy s \<le> log 2 (real (card (set s')))"
  using entropy_of_le [of "scalar_values s"] by (simp_all add: shannon_entropy_def entropy_of_nonneg)


text \<open>The digit counter finds four digits in a row exactly when there are four.\<close>

lemma sublist_skip:
  assumes "\<not> P c" "list_all P ds" "length qs < length ds"
  shows "sublist ds (qs @ c # s) \<longleftrightarrow> sublist ds s"
proof -
  have tail: "xs2 = []" if "ds = xs1 @ xs2" "prefix xs2 (c # s)" for xs1 xs2
    using that assms(1,2) by (cases xs2) auto
  have no: "\<not> sublist ds qs" using assms(3) sublist_length_le [of ds qs] by auto
  have "\<not> suffix xs1 qs" if "ds = xs1 @ xs2" "prefix xs2 (c # s)" for xs1 xs2
    using tail [OF that] that(1) no suffix_imp_sublist by auto
  moreover have "\<not> prefix ds (c # s)" using assms by (cases ds) auto
  ultimately show ?thesis using no by (auto simp: sublist_append sublist_Cons_right)
qed

lemma digit_run_from_iff:
  "list_all is_ascii_digit qs \<Longrightarrow> length qs < 4 \<Longrightarrow>
     digit_run_from (length qs) s \<longleftrightarrow> (\<exists>ds. sublist ds (qs @ s) \<and> length ds = 4 \<and> list_all is_ascii_digit ds)"
proof (induction s arbitrary: qs)
  case Nil then show ?case using sublist_length_le by fastforce
next
  case (Cons c s)
  show ?case
  proof (cases "is_ascii_digit c")
    case False
    then have "sublist ds (qs @ c # s) \<longleftrightarrow> sublist ds s" if "list_all is_ascii_digit ds" "length ds = 4" for ds
      using sublist_skip [of is_ascii_digit c ds qs s] that Cons.prems by simp
    with Cons.IH [of "[]"] False show ?thesis by (simp cong: conj_cong) blast
  next
    case True
    show ?thesis
    proof (cases "length qs + 1 \<ge> 4")
      case True
      then have "sublist (qs @ [c]) (qs @ c # s) \<and> length (qs @ [c]) = 4 \<and> list_all is_ascii_digit (qs @ [c])"
        using Cons.prems \<open>is_ascii_digit c\<close> by (auto simp: sublist_def)
      then have "\<exists>ds. sublist ds (qs @ c # s) \<and> length ds = 4 \<and> list_all is_ascii_digit ds" by blast
      with True \<open>is_ascii_digit c\<close> show ?thesis by simp
    next
      case False
      with Cons.IH [of "qs @ [c]"] Cons.prems True show ?thesis by simp
    qed
  qed
qed

section \<open>Properties\<close>

text \<open>
  The counter of the legacy heuristic is exact: a name of the minimum length is reported exactly when
  it has four digits in a row somewhere.
\<close>

theorem legacy_domain_characterised:
  "legacy_high_entropy_domain domain n \<longleftrightarrow>
     n \<le> length domain \<and> (\<exists>ds. sublist ds domain \<and> length ds = 4 \<and> list_all is_ascii_digit ds)"
  using digit_run_from_iff [of "[]" domain] by (simp add: legacy_high_entropy_domain_def)

text \<open>
  An alert of the entropy heuristic is never raised by a short or repetitive name: with a threshold of
  b bits, b positive, the leftmost label of a reported domain has at least two to the power b
  different characters (twelve at the default of 3.5 bits), and at least the configured length.
\<close>

theorem shannon_alert_needs_characters:
  assumes "matches_high_entropy domain Shannon b n k = Some m" "0 < b"
  shows "2 powr b \<le> real (card (set (scalar_values (to_ascii_lowercase (leftmost_label domain))))) \<and>
    n \<le> length (scalar_values (leftmost_label domain))"
proof -
  let ?cs = "scalar_values (to_ascii_lowercase (leftmost_label domain))"
  have b: "b \<le> domain_label_entropy domain" and n: "n \<le> length (scalar_values (leftmost_label domain))"
    using assms(1) by (auto simp: matches_high_entropy_def Let_def split: if_splits)
  with assms(2) have ne: "?cs \<noteq> []" by (auto simp: domain_label_entropy_def shannon_entropy_def)
  with b have "b \<le> log 2 (real (card (set ?cs)))"
    using shannon_entropy_bounds(2) [OF refl ne] by (simp add: domain_label_entropy_def)
  moreover have "0 < real (card (set ?cs))" using ne by (simp add: card_gt_0_iff)
  ultimately have "2 powr b \<le> real (card (set ?cs))" by (simp add: le_log_iff)
  with n show ?thesis by simp
qed

theorem shannon_alert_needs_characters_witness:
  "2 \<le> card (set (scalar_values (to_ascii_lowercase (leftmost_label ''Ba.net''))))"
proof -
  have cs: "scalar_values (to_ascii_lowercase (leftmost_label ''Ba.net'')) = [[98], [97]]"
    "scalar_values (leftmost_label ''Ba.net'') = [[66], [97]]" by code_simp+
  have "matches_high_entropy ''Ba.net'' Shannon 1 2 25 \<noteq> None"
    by (simp add: matches_high_entropy_def domain_label_entropy_def shannon_entropy_def cs entropy_of_def Let_def log_divide)
  then obtain m where "matches_high_entropy ''Ba.net'' Shannon 1 2 25 = Some m" by blast
  from shannon_alert_needs_characters [OF this] show ?thesis by (simp add: cs)
qed

end
