(* ===== verification/Alert_Worker.thy ===== *)
theory Alert_Worker
  imports Entropy
begin

text \<open>
  The alert worker (\<^verbatim>\<open>alert-worker/src\<close>: \<^verbatim>\<open>config.rs\<close>, \<^verbatim>\<open>rules.rs\<close>, \<^verbatim>\<open>payload.rs\<close>,
  \<^verbatim>\<open>dedupe.rs\<close> and the cycle of \<^verbatim>\<open>main.rs\<close>): it asks ClickHouse about the last minutes of traffic,
  turns the rows into findings and posts each finding that was not posted lately to a webhook.
  Parameters: SHA-256 in hexadecimal (\<open>sha\<close>), the printing of a number (\<open>float_text\<close>), the answers
  of ClickHouse, the webhook and the source of identifiers (\<open>worker_io\<close>).
\<close>

section \<open>Settings (config.rs)\<close>

record worker_config =
  wc_webhook_url :: string
  wc_webhook_timeout :: duration
  wc_webhook_headers :: "(string, string) hash_map"
  wc_clickhouse_url :: string
  wc_clickhouse_database :: string
  wc_clickhouse_table :: string
  wc_clickhouse_user :: "string option"
  wc_clickhouse_password :: "string option"
  wc_poll_interval :: duration
  wc_lookback_secs :: nat
  wc_dedupe_ttl :: duration
  wc_metrics_port :: u16
  wc_source :: string
  wc_rules :: "string list"
  wc_blocked_burst_threshold :: nat
  wc_domain_burst_threshold :: nat
  wc_high_entropy_min_requests :: nat
  wc_high_entropy_min_domain_len :: nat
  wc_shannon_min_label_len :: nat
  wc_shannon_min_bits :: real
  wc_high_entropy_mode :: high_entropy_mode
  wc_legacy_min_domain_len :: nat
  wc_off_hours_min_events :: nat
  wc_beacon_lookback_secs :: nat
  wc_beacon_min_hits :: nat
  wc_beacon_min_interval_secs :: nat
  wc_beacon_max_interval_secs :: nat
  wc_beacon_max_gap_cv :: real

datatype row_value = RNumber real | RString string | ROther

definition parse_rules_list :: "string \<Rightarrow> string list" where
  "parse_rules_list raw = filter (\<lambda>s. s \<noteq> []) (map trim (split_char CHR '','' raw))"

text \<open>\<open>parse_object\<close> reads the text as JSON: an error, or a value that may be an object.\<close>

fun header_strings :: "(string \<times> row_value) list \<Rightarrow> string + (string, string) hash_map" where
  "header_strings [] = Inr []"
| "header_strings ((k, v) # kvs) =
     (case v of
        RString s \<Rightarrow> (case header_strings kvs of Inl e \<Rightarrow> Inl e | Inr m \<Rightarrow> Inr ((k, s) # m))
      | _ \<Rightarrow> Inl (''ALERT_WEBHOOK_HEADERS['' @ k @ ''] must be a string''))"

definition parse_headers_json ::
  "(string \<Rightarrow> string + (string \<times> row_value) list option) \<Rightarrow> string \<Rightarrow> string + (string, string) hash_map" where
  "parse_headers_json parse_object raw =
     (case parse_object raw of
        Inl e \<Rightarrow> Inl (''ALERT_WEBHOOK_HEADERS: '' @ e)
      | Inr None \<Rightarrow> Inl ''ALERT_WEBHOOK_HEADERS must be a JSON object''
      | Inr (Some kvs) \<Rightarrow> header_strings kvs)"

definition env_non_empty :: "(string \<Rightarrow> string option) \<Rightarrow> string \<Rightarrow> string option" where
  "env_non_empty env k = (case env k of Some s \<Rightarrow> if s = [] then None else Some s | None \<Rightarrow> None)"

definition default_rules :: string where
  "default_rules = ''blocked_burst,domain_burst,off_hours_threat,high_entropy_domain,beacon_periodic''"

definition worker_config_from_env ::
  "(string \<Rightarrow> string + (string \<times> row_value) list option) \<Rightarrow> (string \<Rightarrow> real option) \<Rightarrow> (string \<Rightarrow> string option) \<Rightarrow>
   string + worker_config" where
  "worker_config_from_env parse_object parse_f64 env =
     (case env ''ALERT_WEBHOOK_URL'' of
        None \<Rightarrow> Inl ''ALERT_WEBHOOK_URL is required''
      | Some webhook_url \<Rightarrow>
          if trim webhook_url = [] then Inl ''ALERT_WEBHOOK_URL must not be empty''
          else (case parse_headers_json parse_object (env_or env ''ALERT_WEBHOOK_HEADERS'' ''{}'') of
             Inl e \<Rightarrow> Inl e
           | Inr webhook_headers \<Rightarrow>
               let env_u64 = env_uint env u64_max in
               Inr \<lparr>wc_webhook_url = webhook_url,
                    wc_webhook_timeout = from_secs (env_u64 ''ALERT_WEBHOOK_TIMEOUT_SECS'' 10),
                    wc_webhook_headers = webhook_headers,
                    wc_clickhouse_url = env_or env ''CLICKHOUSE_URL'' ''http://127.0.0.1:8123'',
                    wc_clickhouse_database = env_or env ''CLICKHOUSE_DATABASE'' ''bsdm'',
                    wc_clickhouse_table = env_or env ''CLICKHOUSE_TABLE'' ''http_cache'',
                    wc_clickhouse_user = env_non_empty env ''CLICKHOUSE_USER'',
                    wc_clickhouse_password = env_non_empty env ''CLICKHOUSE_PASSWORD'',
                    wc_poll_interval = from_secs (env_u64 ''ALERT_POLL_INTERVAL_SECS'' 60),
                    wc_lookback_secs = env_u64 ''ALERT_LOOKBACK_SECS'' 300,
                    wc_dedupe_ttl = from_secs (env_u64 ''ALERT_DEDUPE_TTL_SECS'' 3600),
                    wc_metrics_port = of_nat (env_u64 ''METRICS_PORT'' 8090),
                    wc_source = env_or env ''ALERT_SOURCE'' ''bsdm-proxy-alert-worker'',
                    wc_rules = parse_rules_list (env_or env ''ALERT_RULES'' default_rules),
                    wc_blocked_burst_threshold = env_u64 ''ALERT_BLOCKED_BURST_THRESHOLD'' 10,
                    wc_domain_burst_threshold = env_u64 ''ALERT_DOMAIN_BURST_THRESHOLD'' 50,
                    wc_high_entropy_min_requests = env_u64 ''ALERT_HIGH_ENTROPY_MIN_REQUESTS'' 5,
                    wc_high_entropy_min_domain_len = env_u64 ''ALERT_HIGH_ENTROPY_MIN_DOMAIN_LEN'' 16,
                    wc_shannon_min_label_len = env_u64 ''ALERT_SHANNON_MIN_LABEL_LEN'' 12,
                    wc_shannon_min_bits = env_f64 parse_f64 env ''ALERT_SHANNON_MIN_BITS'' (7 / 2),
                    wc_high_entropy_mode = high_entropy_mode_parse (env_or env ''ALERT_HIGH_ENTROPY_MODE'' ''either''),
                    wc_legacy_min_domain_len = env_u64 ''ALERT_HIGH_ENTROPY_LEGACY_MIN_DOMAIN_LEN'' 25,
                    wc_off_hours_min_events = env_u64 ''ALERT_OFF_HOURS_MIN_EVENTS'' 1,
                    wc_beacon_lookback_secs = env_u64 ''ALERT_BEACON_LOOKBACK_SECS'' 3600,
                    wc_beacon_min_hits = env_u64 ''ALERT_BEACON_MIN_HITS'' 5,
                    wc_beacon_min_interval_secs = env_u64 ''ALERT_BEACON_MIN_INTERVAL_SECS'' 45,
                    wc_beacon_max_interval_secs = env_u64 ''ALERT_BEACON_MAX_INTERVAL_SECS'' 900,
                    wc_beacon_max_gap_cv = env_f64 parse_f64 env ''ALERT_BEACON_MAX_GAP_CV'' (1 / 4)\<rparr>))"

definition fq_table :: "worker_config \<Rightarrow> string" where
  "fq_table c = wc_clickhouse_database c @ ''.'' @ wc_clickhouse_table c"

section \<open>Queries (rules.rs)\<close>

text \<open>
  The printing of numbers: \<open>ft_display\<close> is \<^verbatim>\<open>{}\<close>, \<open>ft_fixed n\<close> is \<^verbatim>\<open>{:.n}\<close>, and \<open>ft_parse\<close> reads one.
\<close>

record float_text =
  ft_display :: "real \<Rightarrow> string"
  ft_fixed :: "nat \<Rightarrow> real \<Rightarrow> string"
  ft_parse :: "string \<Rightarrow> real option"

definition sql_text :: "string list \<Rightarrow> string" where
  "sql_text ls = join [CHR 0x0A] ls"

definition sql_quoted :: "string \<Rightarrow> string" where
  "sql_quoted s = [CHR 0x27] @ s @ [CHR 0x27]"

definition blocked_burst_sql :: "string \<Rightarrow> nat \<Rightarrow> nat \<Rightarrow> string" where
  "blocked_burst_sql table lookback threshold = sql_text
    [''SELECT'', ''  coalesce(username, '' @ sql_quoted [] @ '') AS username,'',
     ''  toString(client_ip) AS client_ip,'', ''  count() AS value'', ''FROM '' @ table,
     ''WHERE ts >= now() - INTERVAL '' @ show_nat lookback @ '' SECOND'',
     ''  AND (acl_action = '' @ sql_quoted ''deny'' @ '' OR cache_status = '' @ sql_quoted ''DENY'' @ '')'',
     ''GROUP BY username, client_ip'', ''HAVING value >= '' @ show_nat threshold,
     ''ORDER BY value DESC'', ''LIMIT 100'', ''FORMAT JSONEachRow'']"

definition domain_burst_sql :: "string \<Rightarrow> nat \<Rightarrow> nat \<Rightarrow> string" where
  "domain_burst_sql table lookback threshold = sql_text
    [''SELECT'', ''  toString(client_ip) AS client_ip,'', ''  domain,'', ''  count() AS value'', ''FROM '' @ table,
     ''WHERE ts >= now() - INTERVAL '' @ show_nat lookback @ '' SECOND'',
     ''  AND domain != '' @ sql_quoted [],
     ''GROUP BY client_ip, domain'', ''HAVING value >= '' @ show_nat threshold,
     ''ORDER BY value DESC'', ''LIMIT 100'', ''FORMAT JSONEachRow'']"

definition off_hours_sql :: "string \<Rightarrow> nat \<Rightarrow> nat \<Rightarrow> string" where
  "off_hours_sql table lookback threshold = sql_text
    [''SELECT'', ''  coalesce(username, '' @ sql_quoted [] @ '') AS username,'',
     ''  toString(client_ip) AS client_ip,'', ''  domain,'', ''  count() AS value'', ''FROM '' @ table,
     ''WHERE ts >= now() - INTERVAL '' @ show_nat lookback @ '' SECOND'',
     ''  AND (toHour(ts) >= 22 OR toHour(ts) < 6)'', ''  AND length(threat_sources) > 0'',
     ''GROUP BY username, client_ip, domain'', ''HAVING value >= '' @ show_nat threshold,
     ''ORDER BY value DESC'', ''LIMIT 100'', ''FORMAT JSONEachRow'']"

definition high_entropy_sql :: "string \<Rightarrow> nat \<Rightarrow> nat \<Rightarrow> nat \<Rightarrow> string" where
  "high_entropy_sql table lookback threshold min_len = sql_text
    [''SELECT'', ''  domain,'', ''  count() AS value,'', ''  uniqExact(client_ip) AS clients'', ''FROM '' @ table,
     ''WHERE ts >= now() - INTERVAL '' @ show_nat lookback @ '' SECOND'',
     ''  AND length(domain) >= '' @ show_nat min_len,
     ''GROUP BY domain'', ''HAVING value >= '' @ show_nat threshold,
     ''ORDER BY value DESC'', ''LIMIT 200'', ''FORMAT JSONEachRow'']"

definition beacon_sql :: "float_text \<Rightarrow> worker_config \<Rightarrow> string" where
  "beacon_sql ft config = sql_text
    [''WITH ordered AS ('', ''  SELECT'', ''    toString(client_ip) AS client_ip,'', ''    domain,'', ''    ts,'',
     ''    dateDiff('', ''      '' @ sql_quoted ''second'' @ '','',
     ''      lagInFrame(ts) OVER (PARTITION BY client_ip, domain ORDER BY ts),'', ''      ts'',
     ''    ) AS gap_sec'', ''  FROM '' @ fq_table config,
     ''  WHERE ts >= now() - INTERVAL '' @ show_nat (wc_beacon_lookback_secs config) @ '' SECOND'',
     ''    AND domain != '' @ sql_quoted [], '')'', ''SELECT'', ''  client_ip,'', ''  domain,'', ''  count() AS value,'',
     ''  avg(gap_sec) AS avg_gap,'',
     ''  if(avg(gap_sec) = 0, 1, stddevPop(gap_sec) / avg(gap_sec)) AS gap_cv'', ''FROM ordered'',
     ''WHERE gap_sec IS NOT NULL'',
     ''  AND gap_sec BETWEEN '' @ show_nat (wc_beacon_min_interval_secs config) @ '' AND '' @
       show_nat (wc_beacon_max_interval_secs config),
     ''GROUP BY client_ip, domain'', ''HAVING value >= '' @ show_nat (wc_beacon_min_hits config),
     ''  AND gap_cv <= '' @ ft_display ft (wc_beacon_max_gap_cv config),
     ''ORDER BY value DESC'', ''LIMIT 100'', ''FORMAT JSONEachRow'']"

definition rule_query :: "float_text \<Rightarrow> worker_config \<Rightarrow> string \<Rightarrow> string option" where
  "rule_query ft config rule =
     (let table = fq_table config; lookback = wc_lookback_secs config in
      if rule = ''blocked_burst'' then Some (blocked_burst_sql table lookback (wc_blocked_burst_threshold config))
      else if rule = ''domain_burst'' then Some (domain_burst_sql table lookback (wc_domain_burst_threshold config))
      else if rule = ''off_hours_threat'' then Some (off_hours_sql table lookback (wc_off_hours_min_events config))
      else if rule = ''high_entropy_domain'' then
        Some (high_entropy_sql table lookback (wc_high_entropy_min_requests config) (wc_high_entropy_min_domain_len config))
      else if rule = ''beacon_periodic'' then Some (beacon_sql ft config)
      else None)"

definition build_queries :: "float_text \<Rightarrow> worker_config \<Rightarrow> (string \<times> string) list" where
  "build_queries ft config =
     List.map_filter (\<lambda>rule. map_option (Pair rule) (rule_query ft config rule)) (wc_rules config)"

section \<open>Findings (payload.rs, rules.rs)\<close>

record finding =
  fi_rule :: string
  fi_severity :: string
  fi_title :: string
  fi_description :: string
  fi_value :: real
  fi_labels :: "(string, string) hash_map"
  fi_window_secs :: nat

text \<open>The labels are a sorted map: they are hashed in the order of their keys.\<close>

definition fingerprint_text :: "string \<Rightarrow> (string, string) hash_map \<Rightarrow> string" where
  "fingerprint_text rule labels =
     rule @ ''|'' @ concat (map (\<lambda>(k, v). k @ ''='' @ v @ '';'') (sort_key fst labels))"

definition fingerprint_for :: "(string \<Rightarrow> string) \<Rightarrow> string \<Rightarrow> (string, string) hash_map \<Rightarrow> string" where
  "fingerprint_for sha rule labels = sha (fingerprint_text rule labels)"

definition fingerprint :: "(string \<Rightarrow> string) \<Rightarrow> finding \<Rightarrow> string" where
  "fingerprint sha f = fingerprint_for sha (fi_rule f) (fi_labels f)"

record alert_payload =
  ap_version :: u8
  ap_source :: string
  ap_alert_id :: string
  ap_rule :: string
  ap_severity :: string
  ap_title :: string
  ap_description :: string
  ap_fired_at :: string
  ap_window_secs :: nat
  ap_value :: real
  ap_labels :: "(string, string) hash_map"
  ap_fingerprint :: string

definition into_payload :: "(string \<Rightarrow> string) \<Rightarrow> string \<Rightarrow> finding \<Rightarrow> string \<Rightarrow> string \<Rightarrow> alert_payload" where
  "into_payload sha uuid f src fired_at =
     \<lparr>ap_version = 1, ap_source = src, ap_alert_id = uuid, ap_rule = fi_rule f, ap_severity = fi_severity f,
      ap_title = fi_title f, ap_description = fi_description f, ap_fired_at = fired_at,
      ap_window_secs = fi_window_secs f, ap_value = fi_value f, ap_labels = fi_labels f,
      ap_fingerprint = fingerprint sha f\<rparr>"

type_synonym row = "(string, row_value) hash_map"

definition json_number :: "float_text \<Rightarrow> row_value \<Rightarrow> real option" where
  "json_number ft v = (case v of RNumber x \<Rightarrow> Some x | RString s \<Rightarrow> ft_parse ft s | ROther \<Rightarrow> None)"

definition row_number :: "float_text \<Rightarrow> row \<Rightarrow> string \<Rightarrow> real option" where
  "row_number ft row k = Option.bind (map_of row k) (json_number ft)"

definition text_labels :: "row \<Rightarrow> (string, string) hash_map" where
  "text_labels row =
     fold (\<lambda>k labels. case map_of row k of
                        Some (RString v) \<Rightarrow> if v \<noteq> [] then AList.update k v labels else labels
                      | _ \<Rightarrow> labels)
       [''username'', ''client_ip'', ''domain''] []"

definition number_label ::
  "float_text \<Rightarrow> row \<Rightarrow> string \<Rightarrow> string \<Rightarrow> (real \<Rightarrow> string) \<Rightarrow> (string, string) hash_map \<Rightarrow> (string, string) hash_map" where
  "number_label ft row k label show labels =
     (case row_number ft row k of Some x \<Rightarrow> AList.update label (show x) labels | None \<Rightarrow> labels)"

definition row_labels :: "float_text \<Rightarrow> row \<Rightarrow> (string, string) hash_map" where
  "row_labels ft row =
     number_label ft row ''gap_cv'' ''gap_cv'' (ft_fixed ft 3)
       (number_label ft row ''avg_gap'' ''avg_gap_secs'' (ft_fixed ft 1)
         (number_label ft row ''clients'' ''clients'' (ft_display ft) (text_labels row)))"

text \<open>The post-filter of the entropy rule: the labels it adds, or nothing when the row is dropped.\<close>

definition entropy_labels ::
  "float_text \<Rightarrow> worker_config \<Rightarrow> (string, string) hash_map \<Rightarrow> (string, string) hash_map option" where
  "entropy_labels ft config labels =
     (case map_of labels ''domain'' of
        None \<Rightarrow> None
      | Some domain \<Rightarrow>
          (case matches_high_entropy domain (wc_high_entropy_mode config) (wc_shannon_min_bits config)
                  (wc_shannon_min_label_len config) (wc_legacy_min_domain_len config) of
             None \<Rightarrow> None
           | Some m \<Rightarrow> Some (AList.update ''entropy_match'' (kind_label m)
               (AList.update ''shannon_bits'' (ft_fixed ft 3 (em_entropy m)) labels))))"

definition en_dash :: string where "en_dash = [CHR 0xE2, CHR 0x80, CHR 0x93]"
definition em_dash :: string where "em_dash = [CHR 0xE2, CHR 0x80, CHR 0x94]"
definition right_arrow :: string where "right_arrow = [CHR 0xE2, CHR 0x86, CHR 0x92]"

definition label_or :: "(string, string) hash_map \<Rightarrow> string \<Rightarrow> string \<Rightarrow> string" where
  "label_or labels k d = (case map_of labels k of Some v \<Rightarrow> v | None \<Rightarrow> d)"

text \<open>Severity, title, description and window of a finding of a rule.\<close>

definition describe ::
  "float_text \<Rightarrow> worker_config \<Rightarrow> string \<Rightarrow> real \<Rightarrow> (string, string) hash_map \<Rightarrow> (string \<times> string \<times> string \<times> nat) option" where
  "describe ft config rule value labels =
     (let v = ft_display ft value in
      if rule = ''blocked_burst'' then
        Some (''critical'', ''ACL deny burst'',
              ''Client hit '' @ v @ '' blocked requests in the lookback window (user/IP threshold exceeded)'',
              wc_lookback_secs config)
      else if rule = ''domain_burst'' then
        Some (''warning'', ''Domain request burst'',
              ''Same client issued '' @ v @ '' requests to one domain in the lookback window'', wc_lookback_secs config)
      else if rule = ''off_hours_threat'' then
        Some (''warning'', ''Off-hours threat traffic'',
              v @ '' threat-tagged request(s) between 22:00'' @ en_dash @ ''06:00 UTC in the lookback window'',
              wc_lookback_secs config)
      else if rule = ''high_entropy_domain'' then
        Some (''warning'', ''Suspicious high-entropy domain'',
              ''Domain matched '' @ label_or labels ''entropy_match'' ''shannon'' @ '' heuristic (shannon='' @
              label_or labels ''shannon_bits'' ''?'' @ '' bits/char) with '' @ v @ '' request(s) in the lookback window'',
              wc_lookback_secs config)
      else if rule = ''beacon_periodic'' then
        Some (''warning'', ''Periodic C&C beacon candidate'',
              ''Client'' @ right_arrow @ ''domain shows '' @ v @ '' regular intervals (avg_gap='' @
              label_or labels ''avg_gap_secs'' ''?'' @ ''s, cv='' @ label_or labels ''gap_cv'' ''?'' @ '') '' @ em_dash @
              '' possible beacon'',
              wc_beacon_lookback_secs config)
      else None)"

definition find_from_row :: "float_text \<Rightarrow> worker_config \<Rightarrow> string \<Rightarrow> row \<Rightarrow> finding option" where
  "find_from_row ft config rule row =
     (case row_number ft row ''value'' of
        None \<Rightarrow> None
      | Some value \<Rightarrow>
          (case (if rule = ''high_entropy_domain'' then entropy_labels ft config (row_labels ft row)
                 else Some (row_labels ft row)) of
             None \<Rightarrow> None
           | Some labels \<Rightarrow>
               map_option (\<lambda>(severity, title, description, window_secs).
                   \<lparr>fi_rule = rule, fi_severity = severity, fi_title = title, fi_description = description,
                    fi_value = value, fi_labels = labels, fi_window_secs = window_secs\<rparr>)
                 (describe ft config rule value labels)))"

definition findings_from_rows :: "float_text \<Rightarrow> worker_config \<Rightarrow> string \<Rightarrow> row list \<Rightarrow> finding list" where
  "findings_from_rows ft config rule rows = List.map_filter (find_from_row ft config rule) rows"

section \<open>Suppression of repeated alerts (dedupe.rs)\<close>

type_synonym dedupe_cache = "(string, time) hash_map"

definition evict :: "time \<Rightarrow> duration \<Rightarrow> dedupe_cache \<Rightarrow> dedupe_cache" where
  "evict now ttl seen = filter (\<lambda>(_, stamped). now - stamped < ttl) seen"

definition should_fire :: "string \<Rightarrow> time \<Rightarrow> duration \<Rightarrow> dedupe_cache \<Rightarrow> bool \<times> dedupe_cache" where
  "should_fire fp now ttl seen0 =
     (let seen = evict now ttl seen0 in
      case map_of seen fp of
        Some prev \<Rightarrow> if now - prev < ttl then (False, seen) else (True, AList.update fp now seen)
      | None \<Rightarrow> (True, AList.update fp now seen))"

section \<open>The cycle (main.rs)\<close>

text \<open>
  \<open>wk_attempts\<close> is what the webhook has been asked to take, oldest first: the instant of the cycle, the
  payload and whether the webhook accepted it. The counters are those of \<^verbatim>\<open>metrics.rs\<close>.
\<close>

record worker =
  wk_dedupe :: dedupe_cache
  wk_attempts :: "(time \<times> alert_payload \<times> bool) list"
  wk_findings :: nat
  wk_suppressed :: nat
  wk_clickhouse_errors :: nat
  wk_evaluations :: nat

definition worker_new :: worker where
  "worker_new = \<lparr>wk_dedupe = [], wk_attempts = [], wk_findings = 0, wk_suppressed = 0,
     wk_clickhouse_errors = 0, wk_evaluations = 0\<rparr>"

record worker_io =
  wi_now :: time
  wi_fired_at :: string
  wi_query :: "string \<Rightarrow> row list option"
  wi_uuid :: "nat \<Rightarrow> string"
  wi_send :: "alert_payload \<Rightarrow> bool"

definition handle_finding ::
  "(string \<Rightarrow> string) \<Rightarrow> worker_config \<Rightarrow> worker_io \<Rightarrow> finding \<Rightarrow> worker \<Rightarrow> worker" where
  "handle_finding sha config io f w0 =
     (let w = w0\<lparr>wk_findings := wk_findings w0 + 1\<rparr>;
          (fire, seen) = should_fire (fingerprint sha f) (wi_now io) (wc_dedupe_ttl config) (wk_dedupe w) in
      if \<not> fire then w\<lparr>wk_dedupe := seen, wk_suppressed := wk_suppressed w + 1\<rparr>
      else
        let payload = into_payload sha (wi_uuid io (length (wk_attempts w))) f (wc_source config) (wi_fired_at io) in
        w\<lparr>wk_dedupe := seen, wk_attempts := wk_attempts w @ [(wi_now io, payload, wi_send io payload)]\<rparr>)"

definition evaluate_rule ::
  "(string \<Rightarrow> string) \<Rightarrow> float_text \<Rightarrow> worker_config \<Rightarrow> worker_io \<Rightarrow> string \<times> string \<Rightarrow> worker \<Rightarrow> worker" where
  "evaluate_rule sha ft config io q w =
     (case wi_query io (snd q) of
        None \<Rightarrow> w\<lparr>wk_clickhouse_errors := wk_clickhouse_errors w + 1\<rparr>
      | Some rows \<Rightarrow> fold (handle_finding sha config io) (findings_from_rows ft config (fst q) rows) w)"

definition evaluate_once ::
  "(string \<Rightarrow> string) \<Rightarrow> float_text \<Rightarrow> worker_config \<Rightarrow> worker_io \<Rightarrow> worker \<Rightarrow> worker" where
  "evaluate_once sha ft config io w0 =
     (let w = fold (evaluate_rule sha ft config io) (build_queries ft config) w0 in
      w\<lparr>wk_evaluations := wk_evaluations w + 1\<rparr>)"

text \<open>The loop of \<^verbatim>\<open>main\<close>, over the answers of its successive cycles.\<close>

definition worker_loop ::
  "(string \<Rightarrow> string) \<Rightarrow> float_text \<Rightarrow> worker_config \<Rightarrow> worker_io list \<Rightarrow> worker" where
  "worker_loop sha ft config ios = fold (evaluate_once sha ft config) ios worker_new"

text \<open>The admin server (\<^verbatim>\<open>handle_admin\<close>); \<open>encoded\<close> is the text of the metrics.\<close>

definition http_response :: "nat \<Rightarrow> string \<Rightarrow> bytes \<Rightarrow> bytes" where
  "http_response status content_type body =
     (let crlf = [CHR 0x0D, CHR 0x0A];
          reason = (if status = 200 then ''OK'' else if status = 404 then ''Not Found''
                    else if status = 500 then ''Internal Server Error'' else ''Error'')
      in char_bytes (''HTTP/1.1 '' @ show_nat status @ '' '' @ reason @ crlf @ ''Content-Type: '' @ content_type @ crlf @
           ''Content-Length: '' @ show_nat (length body) @ crlf @ ''Connection: close'' @ crlf @ crlf) @ body)"

definition handle_admin :: "bytes option \<Rightarrow> string \<Rightarrow> bytes" where
  "handle_admin encoded req =
     (let request_line = (case lines req of l # _ \<Rightarrow> l | [] \<Rightarrow> []);
          parts = split_whitespace request_line;
          request_method = (case parts of m # _ \<Rightarrow> m | [] \<Rightarrow> []);
          path = (case parts of _ # p # _ \<Rightarrow> p | _ \<Rightarrow> ''/'')
      in if request_method = ''GET'' \<and> starts_with path ''/metrics'' then
           (case encoded of
              None \<Rightarrow> http_response 500 ''text/plain'' (char_bytes ''encode error'')
            | Some buffer \<Rightarrow> http_response 200 ''text/plain; version=0.0.4'' buffer)
         else if request_method = ''GET'' \<and> (path = ''/health'' \<or> starts_with path ''/health?'') then
           http_response 200 ''text/plain'' (char_bytes ''ok'')
         else http_response 404 ''text/plain'' (char_bytes ''not found''))"

section \<open>What the suppression keeps\<close>

text \<open>The time between two attempts with one fingerprint is at least \<open>ttl\<close>.\<close>

definition alerts_apart :: "duration \<Rightarrow> time \<times> alert_payload \<times> bool \<Rightarrow> time \<times> alert_payload \<times> bool \<Rightarrow> bool" where
  "alerts_apart ttl a b \<longleftrightarrow>
     (ap_fingerprint (fst (snd a)) = ap_fingerprint (fst (snd b)) \<longrightarrow> fst a + ttl \<le> fst b)"

definition worker_inv :: "duration \<Rightarrow> time \<Rightarrow> worker \<Rightarrow> bool" where
  "worker_inv ttl t w \<longleftrightarrow>
     hm_inv (wk_dedupe w) \<and>
     (\<forall>a \<in> set (wk_attempts w). fst a \<le> t \<and>
        (t < fst a + ttl \<longrightarrow> map_of (wk_dedupe w) (ap_fingerprint (fst (snd a))) = Some (fst a))) \<and>
     (\<forall>fp s. map_of (wk_dedupe w) fp = Some s \<longrightarrow>
        (\<exists>a \<in> set (wk_attempts w). fst a = s \<and> ap_fingerprint (fst (snd a)) = fp)) \<and>
     sorted_wrt (alerts_apart ttl) (wk_attempts w)"

text \<open>A fingerprint whose alert is not older than \<open>ttl\<close>, or of this very instant.\<close>

definition reported :: "duration \<Rightarrow> time \<Rightarrow> worker \<Rightarrow> string \<Rightarrow> bool" where
  "reported ttl now w fp \<longleftrightarrow>
     (\<exists>a \<in> set (wk_attempts w). ap_fingerprint (fst (snd a)) = fp \<and> fst a \<le> now \<and> (fst a = now \<or> now < fst a + ttl))"

lemma worker_inv_new: "worker_inv ttl t worker_new"
  by (simp add: worker_inv_def worker_new_def)

lemma worker_inv_later: "worker_inv ttl t w \<Longrightarrow> t \<le> t' \<Longrightarrow> worker_inv ttl t' w"
  unfolding worker_inv_def by fastforce

lemma evict_lookup:
  "hm_inv m \<Longrightarrow> map_of (evict now ttl m) fp =
     (case map_of m fp of None \<Rightarrow> None | Some s \<Rightarrow> if now - s < ttl then Some s else None)"
  unfolding evict_def using hm_get_filter [of m "\<lambda>_ s. now - s < ttl" fp] by simp

lemma evict_inv [simp]: "hm_inv m \<Longrightarrow> hm_inv (evict now ttl m)"
  by (simp add: evict_def)

text \<open>The two outcomes of \<^const>\<open>should_fire\<close>.\<close>

lemma should_fire_cases:
  assumes "hm_inv m"
  obtains (suppress) s where "map_of m fp = Some s" "now - s < ttl" "should_fire fp now ttl m = (False, evict now ttl m)"
  | (fire) "\<forall>s. map_of m fp = Some s \<longrightarrow> \<not> now - s < ttl"
      "should_fire fp now ttl m = (True, AList.update fp now (evict now ttl m))"
  using assms that by (cases "map_of m fp") (auto simp: should_fire_def Let_def evict_lookup split: if_splits)

lemma ap_fingerprint_into_payload [simp]: "ap_fingerprint (into_payload sha u f src t) = fingerprint sha f"
  by (simp add: into_payload_def)

lemma worker_inv_evict:
  assumes "worker_inv ttl now w"
  shows "worker_inv ttl now (w\<lparr>wk_dedupe := evict now ttl (wk_dedupe w)\<rparr>)"
  using assms unfolding worker_inv_def by (fastforce simp: evict_lookup split: option.splits if_splits)

lemma worker_inv_counters [simp]:
  "worker_inv ttl t (w\<lparr>wk_findings := n\<rparr>) = worker_inv ttl t w"
  "worker_inv ttl t (w\<lparr>wk_suppressed := n\<rparr>) = worker_inv ttl t w"
  "worker_inv ttl t (w\<lparr>wk_clickhouse_errors := n\<rparr>) = worker_inv ttl t w"
  "worker_inv ttl t (w\<lparr>wk_evaluations := n\<rparr>) = worker_inv ttl t w"
  by (simp_all add: worker_inv_def)

lemma worker_inv_attempt:
  assumes inv: "worker_inv ttl now w"
    and new: "\<forall>s. map_of (wk_dedupe w) fp = Some s \<longrightarrow> \<not> now - s < ttl"
    and fp: "ap_fingerprint p = fp"
  shows "worker_inv ttl now (w\<lparr>wk_dedupe := AList.update fp now (evict now ttl (wk_dedupe w)),
           wk_attempts := wk_attempts w @ [(now, p, ok)]\<rparr>)"
proof -
  have hm: "hm_inv (wk_dedupe w)" using inv by (simp add: worker_inv_def)
  have old: "fst a + ttl \<le> now" if "a \<in> set (wk_attempts w)" "ap_fingerprint (fst (snd a)) = fp" for a
  proof (rule ccontr)
    assume "\<not> fst a + ttl \<le> now"
    with inv that have "fst a \<le> now" "map_of (wk_dedupe w) fp = Some (fst a)" by (auto simp: worker_inv_def)
    with new \<open>\<not> fst a + ttl \<le> now\<close> show False by auto
  qed
  have keep: "map_of (AList.update fp now (evict now ttl (wk_dedupe w))) (ap_fingerprint (fst (snd a))) = Some (fst a)"
    if "a \<in> set (wk_attempts w)" "now < fst a + ttl" for a
    using that inv old [of a] by (fastforce simp: worker_inv_def evict_lookup [OF hm])
  have from_attempt: "\<exists>a \<in> set (wk_attempts w @ [(now, p, ok)]). fst a = s \<and> ap_fingerprint (fst (snd a)) = k"
    if "map_of (AList.update fp now (evict now ttl (wk_dedupe w))) k = Some s" for k s
    using that inv fp
    by (fastforce simp: worker_inv_def evict_lookup [OF hm] split: if_splits option.splits)
  have "sorted_wrt (alerts_apart ttl) (wk_attempts w @ [(now, p, ok)])"
    using inv old fp by (auto simp: worker_inv_def sorted_wrt_append alerts_apart_def)
  with keep from_attempt hm inv fp show ?thesis by (auto simp: worker_inv_def)
qed

lemma handle_finding_inv:
  assumes "worker_inv (wc_dedupe_ttl config) (wi_now io) w"
  shows "worker_inv (wc_dedupe_ttl config) (wi_now io) (handle_finding sha config io f w)"
proof -
  let ?ttl = "wc_dedupe_ttl config" and ?now = "wi_now io" and ?fp = "fingerprint sha f"
  from assms have "hm_inv (wk_dedupe w)" by (simp add: worker_inv_def)
  then show ?thesis
  proof (cases rule: should_fire_cases [where fp = ?fp and now = ?now and ttl = ?ttl])
    case suppress
    with worker_inv_evict [OF assms] show ?thesis
      by (simp add: handle_finding_def worker_inv_def)
  next
    case fire
    with worker_inv_attempt [OF assms fire(1), where p = "into_payload sha (wi_uuid io (length (wk_attempts w))) f (wc_source config) (wi_fired_at io)"]
    show ?thesis by (simp add: handle_finding_def Let_def worker_inv_def)
  qed
qed

lemma handle_finding_reported:
  assumes "worker_inv (wc_dedupe_ttl config) (wi_now io) w"
  shows "reported (wc_dedupe_ttl config) (wi_now io) (handle_finding sha config io f w) (fingerprint sha f)"
proof -
  let ?ttl = "wc_dedupe_ttl config" and ?now = "wi_now io" and ?fp = "fingerprint sha f"
  from assms have "hm_inv (wk_dedupe w)" by (simp add: worker_inv_def)
  then show ?thesis
  proof (cases rule: should_fire_cases [where fp = ?fp and now = ?now and ttl = ?ttl])
    case (suppress s)
    with assms obtain a where "a \<in> set (wk_attempts w)" "fst a = s" "ap_fingerprint (fst (snd a)) = ?fp"
      "s \<le> ?now" by (fastforce simp: worker_inv_def)
    with suppress show ?thesis by (auto simp: handle_finding_def reported_def intro!: bexI [of _ a])
  next
    case fire
    then show ?thesis by (auto simp: handle_finding_def Let_def reported_def)
  qed
qed

text \<open>No operation forgets an attempt.\<close>

lemma handle_finding_extends: "set (wk_attempts w) \<subseteq> set (wk_attempts (handle_finding sha config io f w))"
  by (auto simp: handle_finding_def Let_def split: prod.splits)

lemma fold_handle_finding:
  assumes "worker_inv (wc_dedupe_ttl config) (wi_now io) w"
  shows "worker_inv (wc_dedupe_ttl config) (wi_now io) (fold (handle_finding sha config io) fs w) \<and>
         set (wk_attempts w) \<subseteq> set (wk_attempts (fold (handle_finding sha config io) fs w)) \<and>
         (\<forall>f \<in> set fs. reported (wc_dedupe_ttl config) (wi_now io) (fold (handle_finding sha config io) fs w) (fingerprint sha f))"
  using assms
proof (induction fs arbitrary: w)
  case (Cons f fs)
  let ?w = "handle_finding sha config io f w"
  note IH = Cons.IH [OF handle_finding_inv [OF Cons.prems, of sha f]]
  have "reported (wc_dedupe_ttl config) (wi_now io) (fold (handle_finding sha config io) fs ?w) (fingerprint sha f)"
    using handle_finding_reported [OF Cons.prems, of sha f] IH unfolding reported_def by blast
  with IH handle_finding_extends [of w sha config io f] show ?case by auto
qed simp

lemma evaluate_rule_effect:
  assumes "worker_inv (wc_dedupe_ttl config) (wi_now io) w"
  shows "worker_inv (wc_dedupe_ttl config) (wi_now io) (evaluate_rule sha ft config io q w) \<and>
         set (wk_attempts w) \<subseteq> set (wk_attempts (evaluate_rule sha ft config io q w)) \<and>
         (\<forall>rows f. wi_query io (snd q) = Some rows \<longrightarrow> f \<in> set (findings_from_rows ft config (fst q) rows) \<longrightarrow>
            reported (wc_dedupe_ttl config) (wi_now io) (evaluate_rule sha ft config io q w) (fingerprint sha f))"
  using fold_handle_finding [OF assms] assms by (cases "wi_query io (snd q)") (auto simp: evaluate_rule_def)

lemma fold_evaluate_rule:
  assumes "worker_inv (wc_dedupe_ttl config) (wi_now io) w"
  shows "worker_inv (wc_dedupe_ttl config) (wi_now io) (fold (evaluate_rule sha ft config io) qs w) \<and>
         set (wk_attempts w) \<subseteq> set (wk_attempts (fold (evaluate_rule sha ft config io) qs w)) \<and>
         (\<forall>q \<in> set qs. \<forall>rows f. wi_query io (snd q) = Some rows \<longrightarrow> f \<in> set (findings_from_rows ft config (fst q) rows) \<longrightarrow>
            reported (wc_dedupe_ttl config) (wi_now io) (fold (evaluate_rule sha ft config io) qs w) (fingerprint sha f))"
  using assms
proof (induction qs arbitrary: w)
  case (Cons q qs)
  note E = evaluate_rule_effect [OF Cons.prems, of sha ft q]
  note IH = Cons.IH [OF conjunct1 [OF E]]
  have "reported (wc_dedupe_ttl config) (wi_now io)
          (fold (evaluate_rule sha ft config io) qs (evaluate_rule sha ft config io q w)) (fingerprint sha f)"
    if "wi_query io (snd q) = Some rows" "f \<in> set (findings_from_rows ft config (fst q) rows)" for rows f
    using that E IH unfolding reported_def by blast
  with IH E show ?case by auto
qed simp

lemma evaluate_once_inv:
  assumes "worker_inv (wc_dedupe_ttl config) t w" "t \<le> wi_now io"
  shows "worker_inv (wc_dedupe_ttl config) (wi_now io) (evaluate_once sha ft config io w)"
  using fold_evaluate_rule [OF worker_inv_later [OF assms]] by (simp add: evaluate_once_def Let_def)

lemma evaluate_loop_inv:
  "worker_inv (wc_dedupe_ttl config) t w \<Longrightarrow> sorted (t # map wi_now ios) \<Longrightarrow>
     worker_inv (wc_dedupe_ttl config) (last (t # map wi_now ios)) (fold (evaluate_once sha ft config) ios w)"
proof (induction ios arbitrary: t w)
  case (Cons io ios)
  then have "worker_inv (wc_dedupe_ttl config) (wi_now io) (evaluate_once sha ft config io w)"
    using evaluate_once_inv by simp
  with Cons show ?case by simp
qed simp

lemma worker_loop_inv:
  assumes "sorted (map wi_now ios)"
  shows "worker_inv (wc_dedupe_ttl config) (last (0 # map wi_now ios)) (worker_loop sha ft config ios)"
  unfolding worker_loop_def using assms by (intro evaluate_loop_inv worker_inv_new) simp

text \<open>The row the beacon query returns for a client and a domain, and its labels.\<close>

definition beacon_row :: "string \<Rightarrow> string \<Rightarrow> real \<Rightarrow> real \<Rightarrow> real \<Rightarrow> row" where
  "beacon_row client domain v g cv =
     [(''client_ip'', RString client), (''domain'', RString domain), (''value'', RNumber v),
      (''avg_gap'', RNumber g), (''gap_cv'', RNumber cv)]"

definition beacon_labels :: "float_text \<Rightarrow> string \<Rightarrow> string \<Rightarrow> real \<Rightarrow> real \<Rightarrow> (string, string) hash_map" where
  "beacon_labels ft client domain g cv =
     [(''client_ip'', client), (''domain'', domain), (''avg_gap_secs'', ft_fixed ft 1 g), (''gap_cv'', ft_fixed ft 3 cv)]"

definition beacon_text :: "float_text \<Rightarrow> string \<Rightarrow> string \<Rightarrow> real \<Rightarrow> string" where
  "beacon_text ft client domain cv =
     ''client_ip='' @ client @ '';domain='' @ domain @ '';gap_cv='' @ ft_fixed ft 3 cv @ '';''"

lemma beacon_finding:
  assumes "client \<noteq> []" "domain \<noteq> []"
  obtains f where "find_from_row ft config ''beacon_periodic'' (beacon_row client domain v g cv) = Some f"
    "fi_rule f = ''beacon_periodic''" "fi_labels f = beacon_labels ft client domain g cv"
  using assms that
  by (simp add: find_from_row_def beacon_row_def row_number_def json_number_def row_labels_def number_label_def
      text_labels_def describe_def beacon_labels_def)

lemma before_separator_eq:
  "c \<notin> set a \<Longrightarrow> c \<notin> set b \<Longrightarrow> a @ c # x = b @ c # y \<Longrightarrow> a = b"
proof (induction a arbitrary: b)
  case Nil then show ?case by (cases b) auto
next
  case (Cons d a) then show ?case by (cases b) auto
qed

lemma beacon_fingerprint_text:
  "fingerprint_text ''beacon_periodic'' (beacon_labels ft client domain g cv) =
     ''beacon_periodic|avg_gap_secs='' @ ft_fixed ft 1 g @ CHR '';'' # beacon_text ft client domain cv"
  by (simp add: fingerprint_text_def beacon_labels_def beacon_text_def less_char_def)

section \<open>Properties\<close>

text \<open>(C31) The webhook is never asked twice for one fingerprint within the suppression time: over any number of
  cycles whose instants do not go back, for all rules, rows and webhook answers, the attempts with
  equal fingerprints are at least that time apart.
\<close>

theorem alerts_spaced:
  assumes "sorted (map wi_now ios)"
  shows "sorted_wrt (\<lambda>(s, p, _) (s', p', _). ap_fingerprint p = ap_fingerprint p' \<longrightarrow> s + wc_dedupe_ttl config \<le> s')
           (wk_attempts (worker_loop sha ft config ios))"
proof -
  have "alerts_apart ttl = (\<lambda>(s, p, _) (s', p', _). ap_fingerprint p = ap_fingerprint p' \<longrightarrow> s + ttl \<le> s')" for ttl
    by (intro ext) (auto simp: alerts_apart_def)
  with worker_loop_inv [OF assms, of config sha ft] show ?thesis by (simp add: worker_inv_def)
qed

text \<open>(C32) No finding is dropped silently: each finding of a row that ClickHouse returned for a configured rule
  in the last cycle has been put to the webhook, in this cycle or less than the suppression time ago.
\<close>

theorem findings_reported:
  assumes "sorted (map wi_now (ios @ [io]))"
    and "(rule, sql) \<in> set (build_queries ft config)" "wi_query io sql = Some rows"
    and "f \<in> set (findings_from_rows ft config rule rows)"
  shows "\<exists>(s, p, ok) \<in> set (wk_attempts (worker_loop sha ft config (ios @ [io]))).
           ap_fingerprint p = fingerprint sha f \<and> s \<le> wi_now io \<and> (s = wi_now io \<or> wi_now io < s + wc_dedupe_ttl config)"
proof -
  from assms(1) have times: "sorted (map wi_now ios)" "last (0 # map wi_now ios) \<le> wi_now io"
    by (auto simp: sorted_append last_map)
  note inv = worker_inv_later [OF worker_loop_inv [OF times(1)] times(2), of config sha ft]
  have "reported (wc_dedupe_ttl config) (wi_now io) (worker_loop sha ft config (ios @ [io])) (fingerprint sha f)"
    using fold_evaluate_rule [OF inv, of sha ft "build_queries ft config"] assms(2-4)
    by (fastforce simp: worker_loop_def evaluate_once_def Let_def reported_def)
  then show ?thesis by (simp add: reported_def case_prod_beta)
qed

text \<open>
  The fingerprint is recorded before the webhook is asked, so an alert the webhook refused is not
  retried: the refused attempt is the only one with its fingerprint for the suppression time.
\<close>

theorem failed_alert_not_retried:
  assumes "sorted (map wi_now ios)"
    and "(s, p, False) \<in> set (wk_attempts (worker_loop sha ft config ios))"
    and "(s', p', ok) \<in> set (wk_attempts (worker_loop sha ft config ios))" "ap_fingerprint p' = ap_fingerprint p"
    and "s' < s + wc_dedupe_ttl config" "s < s' + wc_dedupe_ttl config"
  shows "\<not> ok \<and> p' = p"
proof -
  let ?as = "wk_attempts (worker_loop sha ft config ios)"
  have S: "sorted_wrt (alerts_apart (wc_dedupe_ttl config)) ?as"
    using worker_loop_inv [OF assms(1)] by (simp add: worker_inv_def)
  obtain i j where ij: "i < length ?as" "?as ! i = (s, p, False)" "j < length ?as" "?as ! j = (s', p', ok)"
    using assms(2,3) by (metis in_set_conv_nth)
  have "\<not> i < j" "\<not> j < i"
    using sorted_wrt_nth_less [OF S, of i j] sorted_wrt_nth_less [OF S, of j i] ij assms(4-6)
    by (auto simp: alerts_apart_def)
  with ij show ?thesis by (metis linorder_neqE_nat prod.inject)
qed

text \<open>
  A beacon is not recognised as the same one when its statistics move: the mean gap is a label, and
  the labels are part of the fingerprint. For a collision-free hash, two rows of one client and domain
  whose printed mean gaps differ give findings with different fingerprints, so both are posted.
\<close>

theorem beacon_alert_repeats:
  assumes "inj sha" "ft_fixed ft 1 g \<noteq> ft_fixed ft 1 g'"
    and "CHR '';'' \<notin> set (ft_fixed ft 1 g)" "CHR '';'' \<notin> set (ft_fixed ft 1 g')" "client \<noteq> []" "domain \<noteq> []"
  shows "\<exists>f f'. find_from_row ft config ''beacon_periodic'' (beacon_row client domain v g cv) = Some f \<and>
     find_from_row ft config ''beacon_periodic'' (beacon_row client domain v' g' cv') = Some f' \<and>
     fingerprint sha f \<noteq> fingerprint sha f'"
proof -
  obtain f where f: "find_from_row ft config ''beacon_periodic'' (beacon_row client domain v g cv) = Some f"
    "fi_rule f = ''beacon_periodic''" "fi_labels f = beacon_labels ft client domain g cv"
    using beacon_finding [OF assms(5,6)] .
  obtain f' where f': "find_from_row ft config ''beacon_periodic'' (beacon_row client domain v' g' cv') = Some f'"
    "fi_rule f' = ''beacon_periodic''" "fi_labels f' = beacon_labels ft client domain g' cv'"
    using beacon_finding [OF assms(5,6)] .
  have "fingerprint_text (fi_rule f) (fi_labels f) \<noteq> fingerprint_text (fi_rule f') (fi_labels f')"
    unfolding f(2,3) f'(2,3) beacon_fingerprint_text using assms(2-4) 
    by (auto dest: before_separator_eq [rotated 2])
  with f(1) f'(1) assms(1) show ?thesis by (simp add: fingerprint_def fingerprint_for_def inj_eq)
qed

section \<open>Witnesses\<close>

definition demo_alert_config :: worker_config where
  "demo_alert_config =
     \<lparr>wc_webhook_url = ''http://siem/hook'', wc_webhook_timeout = 10, wc_webhook_headers = [],
      wc_clickhouse_url = ''http://ch:8123'', wc_clickhouse_database = ''bsdm'', wc_clickhouse_table = ''http_cache'',
      wc_clickhouse_user = None, wc_clickhouse_password = None, wc_poll_interval = 60, wc_lookback_secs = 300,
      wc_dedupe_ttl = 3600, wc_metrics_port = 8090, wc_source = ''test'', wc_rules = [''blocked_burst''],
      wc_blocked_burst_threshold = 10, wc_domain_burst_threshold = 50, wc_high_entropy_min_requests = 5,
      wc_high_entropy_min_domain_len = 16, wc_shannon_min_label_len = 12, wc_shannon_min_bits = 7 / 2,
      wc_high_entropy_mode = Either, wc_legacy_min_domain_len = 25, wc_off_hours_min_events = 1,
      wc_beacon_lookback_secs = 3600, wc_beacon_min_hits = 5, wc_beacon_min_interval_secs = 45,
      wc_beacon_max_interval_secs = 900, wc_beacon_max_gap_cv = 1 / 4\<rparr>"

definition demo_float_text :: float_text where
  "demo_float_text = \<lparr>ft_display = (\<lambda>x. if x = 15 then ''15'' else ''?''),
     ft_fixed = (\<lambda>_ x. if x = 60 then ''60.0'' else ''61.0''), ft_parse = (\<lambda>_. None)\<rparr>"

definition demo_row :: row where
  "demo_row = [(''client_ip'', RString ''10.0.0.1''), (''value'', RNumber 15)]"

definition demo_worker_io :: "time \<Rightarrow> worker_io" where
  "demo_worker_io t = \<lparr>wi_now = t, wi_fired_at = ''2026'', wi_query = (\<lambda>_. Some [demo_row]),
     wi_uuid = show_nat, wi_send = (\<lambda>_. False)\<rparr>"

definition demo_finding :: finding where
  "demo_finding =
     \<lparr>fi_rule = ''blocked_burst'', fi_severity = ''critical'', fi_title = ''ACL deny burst'',
      fi_description = ''Client hit 15 blocked requests in the lookback window (user/IP threshold exceeded)'',
      fi_value = 15, fi_labels = [(''client_ip'', ''10.0.0.1'')], fi_window_secs = 300\<rparr>"

lemma demo_worker_io_now [simp]: "wi_now (demo_worker_io t) = t"
  by (simp add: demo_worker_io_def)

lemma demo_queries: "build_queries demo_float_text demo_alert_config = [(''blocked_burst'', blocked_burst_sql ''bsdm.http_cache'' 300 10)]"
  by (simp add: build_queries_def rule_query_def demo_alert_config_def List.map_filter_def fq_table_def)

lemma demo_findings: "findings_from_rows demo_float_text demo_alert_config ''blocked_burst'' [demo_row] = [demo_finding]"
  by (simp add: findings_from_rows_def List.map_filter_def find_from_row_def row_number_def row_labels_def
      number_label_def text_labels_def describe_def json_number_def demo_row_def demo_finding_def demo_float_text_def
      demo_alert_config_def)

lemma demo_attempts:
  "wk_attempts (worker_loop id demo_float_text demo_alert_config [demo_worker_io 5, demo_worker_io 65]) =
     [(5, into_payload id ''0'' demo_finding ''test'' ''2026'', False)]"
proof -
  have "show_nat 0 = ''0''" by code_simp
  then show ?thesis
    by (simp add: worker_loop_def evaluate_once_def demo_queries evaluate_rule_def demo_findings demo_worker_io_def
        handle_finding_def worker_new_def should_fire_def evict_def Let_def) (simp add: demo_alert_config_def)
qed

theorem alerts_spaced_witness:
  "length (wk_attempts (worker_loop id demo_float_text demo_alert_config [demo_worker_io 5, demo_worker_io 65])) = 1 \<and>
   sorted_wrt (\<lambda>(s, p, _) (s', p', _). ap_fingerprint p = ap_fingerprint p' \<longrightarrow> s + wc_dedupe_ttl demo_alert_config \<le> s')
     (wk_attempts (worker_loop id demo_float_text demo_alert_config [demo_worker_io 5, demo_worker_io 65]))"
  using alerts_spaced [of "[demo_worker_io 5, demo_worker_io 65]" demo_alert_config id demo_float_text]
  by (simp add: demo_attempts)

theorem findings_reported_witness:
  "\<exists>(s, p, ok) \<in> set (wk_attempts (worker_loop id demo_float_text demo_alert_config [demo_worker_io 5, demo_worker_io 65])).
     ap_fingerprint p = fingerprint id demo_finding \<and> s \<le> 65 \<and> (s = 65 \<or> 65 < s + 3600)"
  using findings_reported [of "[demo_worker_io 5]" "demo_worker_io 65" "''blocked_burst''"
      "blocked_burst_sql ''bsdm.http_cache'' 300 10" demo_float_text demo_alert_config "[demo_row]" demo_finding id]
  by (simp add: demo_queries demo_findings demo_worker_io_def) (simp add: demo_alert_config_def)

theorem failed_alert_not_retried_witness:
  "(5, into_payload id ''0'' demo_finding ''test'' ''2026'', False)
     \<in> set (wk_attempts (worker_loop id demo_float_text demo_alert_config [demo_worker_io 5, demo_worker_io 65])) \<and>
   (\<forall>p ok. (5, p, ok) \<in> set (wk_attempts (worker_loop id demo_float_text demo_alert_config [demo_worker_io 5, demo_worker_io 65])) \<and>
      ap_fingerprint p = fingerprint id demo_finding \<longrightarrow> \<not> ok)"
  using failed_alert_not_retried [of "[demo_worker_io 5, demo_worker_io 65]" 5
      "into_payload id ''0'' demo_finding ''test'' ''2026''" id demo_float_text demo_alert_config 5]
  by (simp add: demo_attempts)

theorem beacon_alert_repeats_witness:
  "\<exists>f g. find_from_row demo_float_text demo_alert_config ''beacon_periodic'' (beacon_row ''10.0.0.9'' ''c2.example'' 8 60 0) = Some f \<and>
     find_from_row demo_float_text demo_alert_config ''beacon_periodic'' (beacon_row ''10.0.0.9'' ''c2.example'' 8 (121 / 2) 0) = Some g \<and>
     fingerprint id f \<noteq> fingerprint id g"
  using beacon_alert_repeats [of id demo_float_text 60 "121 / 2" "''10.0.0.9''" "''c2.example''" demo_alert_config 8 0 8 0]
  by (simp add: demo_float_text_def)

end
