(* ===== verification/Ml_Worker.thy ===== *)
theory Ml_Worker
  imports Alert_Worker Threat_Score "HOL-Library.Monad_Syntax"
begin

text \<open>
  The scoring worker (\<^verbatim>\<open>ml-worker/src\<close>: \<^verbatim>\<open>config.rs\<close>, \<^verbatim>\<open>features.rs\<close>, \<^verbatim>\<open>baseline.rs\<close>,
  \<^verbatim>\<open>scoring.rs\<close>, \<^verbatim>\<open>phishing.rs\<close>, \<^verbatim>\<open>beacon.rs\<close>, \<^verbatim>\<open>writeback.rs\<close> and the cycle of \<^verbatim>\<open>main.rs\<close>), and
  what its scores do in the proxy that polls them. Floating-point numbers are reals. Rows are the JSON
  rows of \<^verbatim>\<open>JSONEachRow\<close>; the texts of the queries are named by \<open>ml_query\<close>, and ClickHouse, the
  webhook and the calendar of the chrono crate are parameters (\<open>ml_io\<close>, \<open>calendar\<close>).
\<close>

definition clamp :: "real \<Rightarrow> real \<Rightarrow> real \<Rightarrow> real" where
  "clamp x lo hi = (if x < lo then lo else if x > hi then hi else x)"

section \<open>Settings (config.rs)\<close>

record ml_config =
  mc_clickhouse_url :: string
  mc_database :: string
  mc_table :: string
  mc_features_table :: string
  mc_scores_table :: string
  mc_phishing_features_table :: string
  mc_beacon_features_table :: string
  mc_score_cache_table :: string
  mc_user :: "string option"
  mc_password :: "string option"
  mc_poll_interval :: duration
  mc_lookback :: duration
  mc_entity_types :: "string list"
  mc_min_requests :: nat
  mc_model :: string
  mc_score_threshold :: real
  mc_baseline_lookback :: duration
  mc_baseline_min_samples :: nat
  mc_z_clip :: real
  mc_baseline_path :: "string option"
  mc_beacon_lookback :: duration
  mc_beacon_min_hits :: nat
  mc_beacon_min_interval_secs :: nat
  mc_beacon_max_interval_secs :: nat
  mc_beacon_max_gap_cv :: real
  mc_writeback_enabled :: bool
  mc_writeback_min_score :: real
  mc_writeback_ttl :: duration
  mc_webhook_url :: "string option"
  mc_webhook_timeout :: duration
  mc_metrics_port :: u16
  mc_source :: string

definition strict_env_f64 :: "(string \<Rightarrow> real option) \<Rightarrow> (string \<Rightarrow> string option) \<Rightarrow> string \<Rightarrow> real \<Rightarrow> string + real" where
  "strict_env_f64 parse_f64 env key d =
     (case env key of
        None \<Rightarrow> Inr d
      | Some v \<Rightarrow> (case parse_f64 v of Some x \<Rightarrow> Inr x | None \<Rightarrow> Inl (key @ '' must be a float, got '' @ v)))"

definition trimmed_env :: "(string \<Rightarrow> string option) \<Rightarrow> string \<Rightarrow> string option" where
  "trimmed_env env k = (case env k of None \<Rightarrow> None | Some s \<Rightarrow> if trim s = [] then None else Some (trim s))"

definition entity_types_supported :: "string list" where
  "entity_types_supported = [''client_ip'', ''username'', ''domain'']"

definition ml_config_from_env ::
  "(string \<Rightarrow> real option) \<Rightarrow> (string \<Rightarrow> string option) \<Rightarrow> string + ml_config" where
  "ml_config_from_env parse_f64 env =
     (let entity_types = parse_rules_list (env_or env ''ML_ENTITY_TYPES'' ''client_ip'');
          f64 = strict_env_f64 parse_f64 env;
          u64 = env_uint env u64_max
      in if entity_types = [] then Inl ''ML_ENTITY_TYPES must list at least one of client_ip,username,domain''
         else case find (\<lambda>t. \<not> List.member entity_types_supported t) entity_types of
           Some t \<Rightarrow> Inl (''unsupported ML_ENTITY_TYPES entry: '' @ t)
         | None \<Rightarrow>
         case f64 ''ML_SCORE_THRESHOLD'' (8 / 10) of Inl e \<Rightarrow> Inl e | Inr score_threshold \<Rightarrow>
         case f64 ''ML_ZSCORE_CLIP'' 4 of Inl e \<Rightarrow> Inl e | Inr z_clip \<Rightarrow>
         case f64 ''ML_BEACON_MAX_GAP_CV'' (1 / 4) of Inl e \<Rightarrow> Inl e | Inr max_gap_cv \<Rightarrow>
         case f64 ''ML_WRITEBACK_MIN_SCORE'' (1 / 2) of Inl e \<Rightarrow> Inl e | Inr min_score \<Rightarrow>
           Inr \<lparr>mc_clickhouse_url = env_or env ''CLICKHOUSE_URL'' ''http://127.0.0.1:8123'',
                mc_database = env_or env ''CLICKHOUSE_DATABASE'' ''bsdm'',
                mc_table = env_or env ''CLICKHOUSE_TABLE'' ''http_cache'',
                mc_features_table = env_or env ''ML_FEATURES_TABLE'' ''entity_features'',
                mc_scores_table = env_or env ''ML_SCORES_TABLE'' ''ml_scores'',
                mc_phishing_features_table = env_or env ''ML_PHISHING_FEATURES_TABLE'' ''domain_phishing_features'',
                mc_beacon_features_table = env_or env ''ML_BEACON_FEATURES_TABLE'' ''beacon_pair_features'',
                mc_score_cache_table = env_or env ''ML_SCORE_CACHE_TABLE'' ''threat_score_cache'',
                mc_user = env_non_empty env ''CLICKHOUSE_USER'',
                mc_password = env_non_empty env ''CLICKHOUSE_PASSWORD'',
                mc_poll_interval = from_secs (u64 ''ML_POLL_INTERVAL_SECS'' 120),
                mc_lookback = from_secs (u64 ''ML_LOOKBACK_SECS'' 300),
                mc_entity_types = entity_types,
                mc_min_requests = u64 ''ML_MIN_REQUESTS'' 10,
                mc_model = env_or env ''ML_MODEL'' ''ueba_zscore_v0'',
                mc_score_threshold = score_threshold,
                mc_baseline_lookback = from_secs (u64 ''ML_BASELINE_LOOKBACK_SECS'' 86400),
                mc_baseline_min_samples = u64 ''ML_BASELINE_MIN_SAMPLES'' 30,
                mc_z_clip = z_clip,
                mc_baseline_path = trimmed_env env ''ML_BASELINE_PATH'',
                mc_beacon_lookback = from_secs (u64 ''ML_BEACON_LOOKBACK_SECS'' 3600),
                mc_beacon_min_hits = u64 ''ML_BEACON_MIN_HITS'' 5,
                mc_beacon_min_interval_secs = u64 ''ML_BEACON_MIN_INTERVAL_SECS'' 45,
                mc_beacon_max_interval_secs = u64 ''ML_BEACON_MAX_INTERVAL_SECS'' 900,
                mc_beacon_max_gap_cv = max_gap_cv,
                mc_writeback_enabled =
                  (case env ''ML_WRITEBACK_ENABLED'' of
                     None \<Rightarrow> True
                   | Some v \<Rightarrow> \<not> List.member [''0'', ''false'', ''no'', ''off''] (to_ascii_lowercase v)),
                mc_writeback_min_score = min_score,
                mc_writeback_ttl = from_secs (u64 ''ML_WRITEBACK_TTL_SECS'' 3600),
                mc_webhook_url = trimmed_env env ''ML_WEBHOOK_URL'',
                mc_webhook_timeout = from_secs (u64 ''ML_WEBHOOK_TIMEOUT_SECS'' 10),
                mc_metrics_port = of_nat (u64 ''METRICS_PORT'' 8091),
                mc_source = env_or env ''ML_SOURCE'' ''bsdm-proxy-ml-worker''\<rparr>)"

definition fq :: "ml_config \<Rightarrow> (ml_config \<Rightarrow> string) \<Rightarrow> string" where
  "fq config table = mc_database config @ ''.'' @ table config"

definition is_phishing_model :: "ml_config \<Rightarrow> bool" where
  "is_phishing_model config \<longleftrightarrow> mc_model config = ''phishing_lexical_v0''"

definition is_beacon_model :: "ml_config \<Rightarrow> bool" where
  "is_beacon_model config \<longleftrightarrow> mc_model config = ''cc_beacon_v0''"

section \<open>Rows (features.rs, phishing.rs, beacon.rs, baseline.rs)\<close>

text \<open>The readers of dates in the chrono crate: RFC 3339, and the two forms without a zone.\<close>

record calendar =
  cl_rfc3339 :: "string \<Rightarrow> time option"
  cl_naive_millis :: "string \<Rightarrow> time option"
  cl_naive_secs :: "string \<Rightarrow> time option"

definition as_string :: "row \<Rightarrow> string \<Rightarrow> string option" where
  "as_string row k = (case map_of row k of Some (RString s) \<Rightarrow> Some s | _ \<Rightarrow> None)"

text \<open>A number that is no \<^verbatim>\<open>u64\<close> is cut to one: towards zero, and to the bounds of the type.\<close>

definition as_u64 :: "row \<Rightarrow> string \<Rightarrow> nat option" where
  "as_u64 row k =
     (case map_of row k of
        Some (RNumber x) \<Rightarrow> Some (nat (max 0 (min \<lfloor>x\<rfloor> (int u64_max))))
      | Some (RString s) \<Rightarrow> parse_uint u64_max s
      | _ \<Rightarrow> None)"

definition as_f64 :: "(string \<Rightarrow> real option) \<Rightarrow> row \<Rightarrow> string \<Rightarrow> real option" where
  "as_f64 parse_f64 row k =
     (case map_of row k of Some (RNumber x) \<Rightarrow> Some x | Some (RString s) \<Rightarrow> parse_f64 s | _ \<Rightarrow> None)"

definition first_some :: "'a option \<Rightarrow> 'a option \<Rightarrow> 'a option" where
  "first_some a b = (case a of Some x \<Rightarrow> Some x | None \<Rightarrow> b)"

definition some_or :: "'a \<Rightarrow> 'a option \<Rightarrow> 'a" where
  "some_or d a = (case a of Some x \<Rightarrow> x | None \<Rightarrow> d)"

definition parse_ch_datetime :: "calendar \<Rightarrow> row \<Rightarrow> string \<Rightarrow> time option" where
  "parse_ch_datetime cal row k =
     do {
       s \<leftarrow> as_string row k;
       let normalized = (if List.member s CHR ''T'' then s
                         else map (\<lambda>c. if c = CHR '' '' then CHR ''T'' else c) s @ ''Z'');
       first_some (cl_rfc3339 cal normalized) (first_some (cl_naive_millis cal s) (cl_naive_secs cal s))
     }"

definition as_u32 :: "nat \<Rightarrow> u32" where
  "as_u32 n = of_nat n"

record entity_features =
  ef_window_start :: time
  ef_window_secs :: u32
  ef_entity_type :: string
  ef_entity_id :: string
  ef_request_count :: nat
  ef_unique_domains :: nat
  ef_unique_urls :: nat
  ef_deny_count :: nat
  ef_threat_hit_count :: nat
  ef_job_search_count :: nat
  ef_avg_response_size :: real
  ef_avg_duration_ms :: real
  ef_gap_cv :: real
  ef_max_domain_len :: nat
  ef_extracted_at :: time

definition features_from_row :: "calendar \<Rightarrow> (string \<Rightarrow> real option) \<Rightarrow> time \<Rightarrow> row \<Rightarrow> entity_features option" where
  "features_from_row cal f64 now row =
     do {
       window_start \<leftarrow> parse_ch_datetime cal row ''window_start'';
       let extracted_at = some_or now (parse_ch_datetime cal row ''extracted_at'');
       window_secs \<leftarrow> as_u64 row ''window_secs'';
       entity_type \<leftarrow> as_string row ''entity_type'';
       entity_id \<leftarrow> as_string row ''entity_id'';
       request_count \<leftarrow> as_u64 row ''request_count'';
       unique_domains \<leftarrow> as_u64 row ''unique_domains'';
       unique_urls \<leftarrow> as_u64 row ''unique_urls'';
       deny_count \<leftarrow> as_u64 row ''deny_count'';
       threat_hit_count \<leftarrow> as_u64 row ''threat_hit_count'';
       avg_response_size \<leftarrow> as_f64 f64 row ''avg_response_size'';
       avg_duration_ms \<leftarrow> as_f64 f64 row ''avg_duration_ms'';
       max_domain_len \<leftarrow> as_u64 row ''max_domain_len'';
       Some \<lparr>ef_window_start = window_start, ef_window_secs = as_u32 window_secs, ef_entity_type = entity_type,
             ef_entity_id = entity_id, ef_request_count = request_count, ef_unique_domains = unique_domains,
             ef_unique_urls = unique_urls, ef_deny_count = deny_count, ef_threat_hit_count = threat_hit_count,
             ef_job_search_count = some_or 0 (as_u64 row ''job_search_count''),
             ef_avg_response_size = avg_response_size, ef_avg_duration_ms = avg_duration_ms,
             ef_gap_cv = some_or 0 (as_f64 f64 row ''gap_cv''), ef_max_domain_len = max_domain_len,
             ef_extracted_at = extracted_at\<rparr>
     }"

record phishing_features =
  fp_window_start :: time
  fp_window_secs :: u32
  fp_domain :: string
  fp_request_count :: nat
  fp_unique_urls :: nat
  fp_weak_phishing :: nat
  fp_weak_phishtank :: nat
  fp_weak_ut1 :: nat
  fp_deny_count :: nat
  fp_suspicious_path_hits :: nat
  fp_avg_path_extra_len :: real
  fp_extracted_at :: time

definition phishing_from_row :: "calendar \<Rightarrow> (string \<Rightarrow> real option) \<Rightarrow> time \<Rightarrow> row \<Rightarrow> phishing_features option" where
  "phishing_from_row cal f64 now row =
     do {
       window_start \<leftarrow> parse_ch_datetime cal row ''window_start'';
       window_secs \<leftarrow> as_u64 row ''window_secs'';
       domain \<leftarrow> as_string row ''domain'';
       request_count \<leftarrow> as_u64 row ''request_count'';
       unique_urls \<leftarrow> as_u64 row ''unique_urls'';
       weak_phishing \<leftarrow> as_u64 row ''weak_label_phishing'';
       weak_phishtank \<leftarrow> as_u64 row ''weak_label_phishtank'';
       weak_ut1 \<leftarrow> as_u64 row ''weak_label_ut1'';
       deny_count \<leftarrow> as_u64 row ''deny_count'';
       path_hits \<leftarrow> as_u64 row ''suspicious_path_hits'';
       Some \<lparr>fp_window_start = window_start, fp_window_secs = as_u32 window_secs, fp_domain = domain,
             fp_request_count = request_count, fp_unique_urls = unique_urls, fp_weak_phishing = weak_phishing,
             fp_weak_phishtank = weak_phishtank, fp_weak_ut1 = weak_ut1, fp_deny_count = deny_count,
             fp_suspicious_path_hits = path_hits,
             fp_avg_path_extra_len = some_or 0 (as_f64 f64 row ''avg_path_extra_len''),
             fp_extracted_at = some_or now (parse_ch_datetime cal row ''extracted_at'')\<rparr>
     }"

record beacon_features =
  bf_window_start :: time
  bf_window_secs :: u32
  bf_client_ip :: string
  bf_domain :: string
  bf_request_count :: nat
  bf_gap_count :: nat
  bf_avg_gap_secs :: real
  bf_gap_cv :: real
  bf_stddev_gap_secs :: real
  bf_post_count :: nat
  bf_avg_response_size :: real
  bf_off_hours_count :: nat
  bf_threat_hit_count :: nat
  bf_unique_urls :: nat
  bf_extracted_at :: time

definition beacon_from_row :: "calendar \<Rightarrow> (string \<Rightarrow> real option) \<Rightarrow> time \<Rightarrow> row \<Rightarrow> beacon_features option" where
  "beacon_from_row cal f64 now row =
     do {
       window_start \<leftarrow> parse_ch_datetime cal row ''window_start'';
       window_secs \<leftarrow> as_u64 row ''window_secs'';
       client_ip \<leftarrow> as_string row ''client_ip'';
       domain \<leftarrow> as_string row ''domain'';
       request_count \<leftarrow> as_u64 row ''request_count'';
       gap_count \<leftarrow> as_u64 row ''gap_count'';
       avg_gap_secs \<leftarrow> as_f64 f64 row ''avg_gap_secs'';
       gap_cv \<leftarrow> as_f64 f64 row ''gap_cv'';
       post_count \<leftarrow> as_u64 row ''post_count'';
       off_hours_count \<leftarrow> as_u64 row ''off_hours_count'';
       threat_hit_count \<leftarrow> as_u64 row ''threat_hit_count'';
       unique_urls \<leftarrow> as_u64 row ''unique_urls'';
       Some \<lparr>bf_window_start = window_start, bf_window_secs = as_u32 window_secs, bf_client_ip = client_ip,
             bf_domain = domain, bf_request_count = request_count, bf_gap_count = gap_count,
             bf_avg_gap_secs = avg_gap_secs, bf_gap_cv = gap_cv,
             bf_stddev_gap_secs = some_or 0 (as_f64 f64 row ''stddev_gap_secs''), bf_post_count = post_count,
             bf_avg_response_size = some_or 0 (as_f64 f64 row ''avg_response_size''),
             bf_off_hours_count = off_hours_count, bf_threat_hit_count = threat_hit_count,
             bf_unique_urls = unique_urls,
             bf_extracted_at = some_or now (parse_ch_datetime cal row ''extracted_at'')\<rparr>
     }"

section \<open>Baselines (baseline.rs)\<close>

record feature_moments =
  fm_mean :: real
  fm_std :: real

definition z_score :: "feature_moments \<Rightarrow> real \<Rightarrow> real \<Rightarrow> real" where
  "z_score m v eps = (v - fm_mean m) / (if \<bar>fm_std m\<bar> < eps then eps else fm_std m)"

record entity_baseline =
  eb_entity_type :: string
  eb_sample_count :: nat
  eb_request_count :: feature_moments
  eb_unique_domains :: feature_moments
  eb_unique_urls :: feature_moments
  eb_deny_count :: feature_moments
  eb_threat_hit_count :: feature_moments
  eb_job_search_count :: feature_moments
  eb_avg_response_size :: feature_moments
  eb_avg_duration_ms :: feature_moments
  eb_gap_cv :: feature_moments
  eb_max_domain_len :: feature_moments
  eb_deny_ratio :: feature_moments
  eb_threat_ratio :: feature_moments
  eb_job_search_ratio :: feature_moments

definition ratio :: "nat \<Rightarrow> nat \<Rightarrow> real" where
  "ratio num den = (if den = 0 then 0 else real num / real den)"

definition z_eps :: real where "z_eps = 1 / 1000000"

definition baseline_zs :: "entity_baseline \<Rightarrow> entity_features \<Rightarrow> real list" where
  "baseline_zs b f =
     [z_score (eb_request_count b) (real (ef_request_count f)) z_eps,
      z_score (eb_unique_domains b) (real (ef_unique_domains f)) z_eps,
      z_score (eb_unique_urls b) (real (ef_unique_urls f)) z_eps,
      z_score (eb_deny_count b) (real (ef_deny_count f)) z_eps,
      z_score (eb_threat_hit_count b) (real (ef_threat_hit_count f)) z_eps,
      z_score (eb_avg_response_size b) (ef_avg_response_size f) z_eps,
      z_score (eb_avg_duration_ms b) (ef_avg_duration_ms f) z_eps,
      z_score (eb_gap_cv b) (ef_gap_cv f) z_eps,
      z_score (eb_max_domain_len b) (real (ef_max_domain_len f)) z_eps,
      z_score (eb_deny_ratio b) (ratio (ef_deny_count f) (ef_request_count f)) z_eps,
      z_score (eb_threat_ratio b) (ratio (ef_threat_hit_count f) (ef_request_count f)) z_eps]"

definition blend_zs :: "real \<Rightarrow> real list \<Rightarrow> real" where
  "blend_zs clip zs =
     (let clipped = map (\<lambda>z. min \<bar>z\<bar> clip / clip) zs;
          mean = sum_list clipped / real (length clipped);
          mx = fold (\<lambda>x m. max m x) clipped 0
      in clamp (4 / 10 * mean + 6 / 10 * mx) 0 1)"

definition baseline_score :: "entity_baseline \<Rightarrow> entity_features \<Rightarrow> real \<Rightarrow> real" where
  "baseline_score b f z_clip = blend_zs (max z_clip 1) (baseline_zs b f)"

definition moments :: "(string \<Rightarrow> real option) \<Rightarrow> row \<Rightarrow> string \<Rightarrow> feature_moments option" where
  "moments f64 row name =
     do {
       mean \<leftarrow> as_f64 f64 row (''mean_'' @ name);
       Some \<lparr>fm_mean = mean, fm_std = some_or 0 (as_f64 f64 row (''std_'' @ name))\<rparr>
     }"

definition baseline_from_row :: "(string \<Rightarrow> real option) \<Rightarrow> row \<Rightarrow> entity_baseline option" where
  "baseline_from_row f64 row =
     do {
       entity_type \<leftarrow> as_string row ''entity_type'';
       sample_count \<leftarrow> as_u64 row ''sample_count'';
       request_count \<leftarrow> moments f64 row ''request_count'';
       unique_domains \<leftarrow> moments f64 row ''unique_domains'';
       unique_urls \<leftarrow> moments f64 row ''unique_urls'';
       deny_count \<leftarrow> moments f64 row ''deny_count'';
       threat_hit_count \<leftarrow> moments f64 row ''threat_hit_count'';
       avg_response_size \<leftarrow> moments f64 row ''avg_response_size'';
       avg_duration_ms \<leftarrow> moments f64 row ''avg_duration_ms'';
       gap_cv \<leftarrow> moments f64 row ''gap_cv'';
       max_domain_len \<leftarrow> moments f64 row ''max_domain_len'';
       deny_ratio \<leftarrow> moments f64 row ''deny_ratio'';
       threat_ratio \<leftarrow> moments f64 row ''threat_ratio'';
       let zero = \<lparr>fm_mean = 0, fm_std = 0\<rparr>;
       Some \<lparr>eb_entity_type = entity_type, eb_sample_count = sample_count, eb_request_count = request_count,
             eb_unique_domains = unique_domains, eb_unique_urls = unique_urls, eb_deny_count = deny_count,
             eb_threat_hit_count = threat_hit_count,
             eb_job_search_count = some_or zero (moments f64 row ''job_search_count''),
             eb_avg_response_size = avg_response_size, eb_avg_duration_ms = avg_duration_ms, eb_gap_cv = gap_cv,
             eb_max_domain_len = max_domain_len, eb_deny_ratio = deny_ratio, eb_threat_ratio = threat_ratio,
             eb_job_search_ratio = some_or zero (moments f64 row ''job_search_ratio'')\<rparr>
     }"

type_synonym baseline_set = "(string, entity_baseline) hash_map"

text \<open>One unreadable row fails the whole load.\<close>

fun baselines_from_rows :: "(string \<Rightarrow> real option) \<Rightarrow> row list \<Rightarrow> baseline_set \<Rightarrow> baseline_set option" where
  "baselines_from_rows f64 [] acc = Some acc"
| "baselines_from_rows f64 (row # rows) acc =
     (case baseline_from_row f64 row of
        None \<Rightarrow> None
      | Some b \<Rightarrow> baselines_from_rows f64 rows (AList.update (eb_entity_type b) b acc))"

section \<open>Scores (scoring.rs)\<close>

record score_result =
  sr_scored_at :: time
  sr_entity_type :: string
  sr_entity_id :: string
  sr_window_start :: time
  sr_model :: string
  sr_score :: real
  sr_severity :: string

definition anomaly_stub_v0 :: "entity_features \<Rightarrow> nat \<Rightarrow> real" where
  "anomaly_stub_v0 f min_requests =
     (let min_r = real (max min_requests 1);
          rate_component = min (real (ef_request_count f) / (min_r * 5)) 1;
          deny_ratio = ratio (ef_deny_count f) (ef_request_count f);
          threat_ratio = ratio (ef_threat_hit_count f) (ef_request_count f);
          domain_spread = min (real (ef_unique_domains f) / 20) 1;
          beacon_hint = (if ef_request_count f \<ge> 5 \<and> ef_gap_cv f > 0 \<and> ef_gap_cv f < 1 / 4 then 15 / 100 else 0)
      in clamp (35 / 100 * rate_component + 30 / 100 * deny_ratio + 20 / 100 * threat_ratio +
                10 / 100 * domain_spread + beacon_hint) 0 1)"

definition flight_risk_v0 :: "entity_features \<Rightarrow> entity_baseline option \<Rightarrow> real \<Rightarrow> real" where
  "flight_risk_v0 f baseline z_clip =
     (let clip = max z_clip 1;
          absolute_signal = clamp (real (ef_job_search_count f) / 10) 0 1
      in case baseline of
           None \<Rightarrow> clamp absolute_signal 0 1
         | Some b \<Rightarrow>
             let z_count = z_score (eb_job_search_count b) (real (ef_job_search_count f)) z_eps;
                 z_ratio = z_score (eb_job_search_ratio b) (ratio (ef_job_search_count f) (ef_request_count f)) z_eps;
                 relative_signal = clamp (max z_count z_ratio) 0 clip / clip
             in clamp (3 / 10 * absolute_signal + 7 / 10 * relative_signal) 0 1)"

definition severity_for :: "real \<Rightarrow> real \<Rightarrow> string" where
  "severity_for score threshold =
     (if score \<ge> max threshold (9 / 10) then ''critical''
      else if score \<ge> threshold then ''high''
      else if score \<ge> threshold * (6 / 10) then ''medium'' else ''low'')"

record score_context =
  sc_model :: string
  sc_min_requests :: nat
  sc_threshold :: real
  sc_z_clip :: real
  sc_baselines :: "baseline_set option"

definition model_score :: "entity_features \<Rightarrow> score_context \<Rightarrow> real \<times> string" where
  "model_score f ctx =
     (let baseline = Option.bind (sc_baselines ctx) (\<lambda>set. map_of set (ef_entity_type f));
          stub = anomaly_stub_v0 f (sc_min_requests ctx)
      in if sc_model ctx = ''ueba_zscore_v0'' then
           (case baseline of
              Some b \<Rightarrow> (baseline_score b f (sc_z_clip ctx), ''ueba_zscore_v0'')
            | None \<Rightarrow> (stub, ''anomaly_stub_v0+fallback_no_baseline''))
         else if sc_model ctx = ''flight_risk_v0'' then
           (flight_risk_v0 f baseline (sc_z_clip ctx), ''flight_risk_v0'')
         else (stub, if sc_model ctx = [] then ''anomaly_stub_v0'' else sc_model ctx))"

definition score_features :: "time \<Rightarrow> entity_features \<Rightarrow> score_context \<Rightarrow> score_result" where
  "score_features now f ctx =
     (let (score, model_used) = model_score f ctx in
      \<lparr>sr_scored_at = now, sr_entity_type = ef_entity_type f, sr_entity_id = ef_entity_id f,
       sr_window_start = ef_window_start f, sr_model = model_used, sr_score = score,
       sr_severity = severity_for score (sc_threshold ctx)\<rparr>)"

section \<open>Phishing (phishing.rs)\<close>

record lexical_record =
  lx_domain_len :: nat
  lx_hyphen_count :: nat
  lx_digit_count :: nat
  lx_subdomain_depth :: nat
  lx_entropy :: real
  lx_suspicious_keyword :: bool
  lx_is_ip_hostname :: bool

definition suspicious_keywords :: "string list" where
  "suspicious_keywords =
     [''login'', ''signin'', ''verify'', ''secure'', ''account'', ''update'', ''banking'', ''password'', ''wallet'',
      ''confirm'', ''support'', ''paypal'', ''appleid'', ''microsoft'']"

definition looks_like_ipv4 :: "string \<Rightarrow> bool" where
  "looks_like_ipv4 host =
     (let parts = split_char CHR ''.'' host in
      if length parts \<noteq> 4 then False else list_all (\<lambda>p. parse_uint 255 p \<noteq> None) parts)"

definition lexical_signals :: "string \<Rightarrow> lexical_record" where
  "lexical_signals domain =
     (let d = to_lowercase (trim domain);
          host = hd (split_char CHR '':'' (hd (split_char CHR ''/'' d)));
          left_label = hd (split_char CHR ''.'' host)
      in \<lparr>lx_domain_len = length host,
          lx_hyphen_count = length (filter (\<lambda>c. c = CHR ''-'') host),
          lx_digit_count = length (filter is_ascii_digit host),
          lx_subdomain_depth = length (filter (\<lambda>c. c = CHR ''.'') host),
          lx_entropy = shannon_entropy_bytes left_label,
          lx_suspicious_keyword = list_ex (\<lambda>kw. sublist kw host \<or> sublist kw left_label) suspicious_keywords,
          lx_is_ip_hostname = looks_like_ipv4 host\<rparr>)"

definition lexical_heuristic :: "lexical_record \<Rightarrow> nat \<Rightarrow> nat \<Rightarrow> real" where
  "lexical_heuristic sig path_hits request_count =
     clamp
       ((if lx_domain_len sig > 30 then 12 / 100 else 0) +
        (if lx_subdomain_depth sig \<ge> 3 then 18 / 100 else 0) +
        (if ratio (lx_hyphen_count sig) (lx_domain_len sig) > 8 / 100 then 14 / 100 else 0) +
        (if ratio (lx_digit_count sig) (lx_domain_len sig) > 15 / 100 then 12 / 100 else 0) +
        (if lx_entropy sig > 7 / 2 then 16 / 100 else 0) +
        (if lx_suspicious_keyword sig then 22 / 100 else 0) +
        (if lx_is_ip_hostname sig then 28 / 100 else 0) +
        (if ratio path_hits request_count > 3 / 10 then 15 / 100 else 0)) 0 1"

text \<open>The sum of the three counters wraps at 64 bits.\<close>

definition weak_hits :: "phishing_features \<Rightarrow> nat" where
  "weak_hits f = (fp_weak_phishing f + fp_weak_phishtank f + fp_weak_ut1 f) mod 2 ^ 64"

definition phishing_lexical_v0 :: "phishing_features \<Rightarrow> lexical_record \<Rightarrow> real" where
  "phishing_lexical_v0 f lexical =
     (let req = real (max (fp_request_count f) 1);
          weak_ratio = min (real (weak_hits f) / req) 1;
          lex_score = lexical_heuristic lexical (fp_suspicious_path_hits f) (fp_request_count f)
      in if weak_hits f > 0 then
           let weak_score = 72 / 100 + 28 / 100 * weak_ratio in
           if fp_weak_phishtank f > 0 then clamp (65 / 100 * weak_score + 35 / 100 * lex_score) (85 / 100) 1
           else clamp (55 / 100 * weak_score + 45 / 100 * lex_score) (75 / 100) 1
         else lex_score)"

definition score_domain :: "time \<Rightarrow> phishing_features \<Rightarrow> real \<Rightarrow> score_result" where
  "score_domain now f threshold =
     (let score = phishing_lexical_v0 f (lexical_signals (fp_domain f)) in
      \<lparr>sr_scored_at = now, sr_entity_type = ''domain'', sr_entity_id = fp_domain f,
       sr_window_start = fp_window_start f, sr_model = ''phishing_lexical_v0'', sr_score = score,
       sr_severity = severity_for score threshold\<rparr>)"

section \<open>Beacons (beacon.rs)\<close>

definition beacon_entity_id :: "beacon_features \<Rightarrow> string" where
  "beacon_entity_id f = bf_client_ip f @ ''|'' @ bf_domain f"

definition passes_beacon_periodic :: "beacon_features \<Rightarrow> ml_config \<Rightarrow> bool" where
  "passes_beacon_periodic f cfg \<longleftrightarrow>
     bf_gap_count f \<ge> mc_beacon_min_hits cfg \<and> bf_gap_cv f \<le> mc_beacon_max_gap_cv cfg \<and>
     bf_avg_gap_secs f \<ge> real (mc_beacon_min_interval_secs cfg) \<and>
     bf_avg_gap_secs f \<le> real (mc_beacon_max_interval_secs cfg)"

text \<open>A division by zero hits gives infinity or NaN, of which the minimum with one is one.\<close>

definition hit_norm :: "beacon_features \<Rightarrow> ml_config \<Rightarrow> real" where
  "hit_norm f cfg =
     (if mc_beacon_min_hits cfg = 0 then 1
      else min (real (bf_gap_count f) / (real (mc_beacon_min_hits cfg) * 2)) 1)"

definition cc_beacon_v0 :: "beacon_features \<Rightarrow> ml_config \<Rightarrow> real" where
  "cc_beacon_v0 f cfg =
     (let periodic = passes_beacon_periodic f cfg;
          cv_cap = max (mc_beacon_max_gap_cv cfg) (1 / 100);
          regularity = (if bf_gap_count f \<ge> 2 then max (1 - min (bf_gap_cv f / cv_cap) 1) 0 else 0);
          small_payload =
            (if bf_avg_response_size f > 0 \<and> bf_avg_response_size f < 512 then 15 / 100
             else if bf_avg_response_size f < 2048 then 8 / 100 else 0);
          post = ratio (bf_post_count f) (bf_request_count f) * (12 / 100);
          off_hours = ratio (bf_off_hours_count f) (bf_request_count f) * (10 / 100);
          low_url_diversity =
            (if bf_unique_urls f \<le> 2 \<and> bf_request_count f \<ge> mc_beacon_min_hits cfg then 12 / 100 else 0);
          threat = (if bf_threat_hit_count f > 0 then 15 / 100 else 0);
          behavioral = small_payload + post + off_hours + low_url_diversity + threat;
          raw = 45 / 100 * regularity + 25 / 100 * hit_norm f cfg + behavioral
      in if periodic then clamp (55 / 100 * raw + 45 / 100 * (92 / 100)) (78 / 100) 1
         else clamp raw 0 (72 / 100))"

definition score_beacon_pair :: "time \<Rightarrow> beacon_features \<Rightarrow> ml_config \<Rightarrow> score_result" where
  "score_beacon_pair now f cfg =
     (let score = cc_beacon_v0 f cfg in
      \<lparr>sr_scored_at = now, sr_entity_type = ''client_domain'', sr_entity_id = beacon_entity_id f,
       sr_window_start = bf_window_start f, sr_model = ''cc_beacon_v0'', sr_score = score,
       sr_severity = severity_for score (mc_score_threshold cfg)\<rparr>)"

section \<open>Write-back (writeback.rs)\<close>

record threat_score_entry =
  tn_entity_type :: string
  tn_entity_id :: string
  tn_score :: real
  tn_severity :: string
  tn_model :: string
  tn_scored_at :: time
  tn_expires_at :: time

definition to_cache_entry :: "score_result \<Rightarrow> duration \<Rightarrow> real \<Rightarrow> threat_score_entry option" where
  "to_cache_entry s ttl min_score =
     (if sr_score s < min_score then None
      else Some \<lparr>tn_entity_type = sr_entity_type s, tn_entity_id = sr_entity_id s, tn_score = sr_score s,
                 tn_severity = sr_severity s, tn_model = sr_model s, tn_scored_at = sr_scored_at s,
                 tn_expires_at = sr_scored_at s + ttl\<rparr>)"

definition entries_from_scores :: "score_result list \<Rightarrow> ml_config \<Rightarrow> threat_score_entry list" where
  "entries_from_scores scores config =
     List.map_filter (\<lambda>s. to_cache_entry s (mc_writeback_ttl config) (mc_writeback_min_score config)) scores"

section \<open>The cycle (main.rs)\<close>

text \<open>The queries of a cycle, and the tables rows are inserted into with their number.\<close>

datatype ml_query = Entity_Query string | Baseline_Query | Phishing_Query | Beacon_Query

record ml_worker =
  mw_generated_at :: time
  mw_scores :: "threat_score_entry list"
  mw_inserted :: "(string \<times> nat) list"
  mw_posted :: "score_result list"
  mw_cycles :: nat
  mw_errors :: nat

record ml_io =
  mi_now :: time
  mi_calendar :: calendar
  mi_parse_f64 :: "string \<Rightarrow> real option"
  mi_query :: "ml_query \<Rightarrow> row list option"
  mi_insert :: "string \<Rightarrow> bool"
  mi_post :: "score_result \<Rightarrow> bool"
  mi_baseline_file :: "string \<Rightarrow> baseline_set option"

text \<open>\<^verbatim>\<open>insert_json_each_row\<close>: no request is made for no rows; \<open>False\<close> is the error.\<close>

definition insert_rows :: "ml_io \<Rightarrow> string \<Rightarrow> nat \<Rightarrow> ml_worker \<Rightarrow> bool \<times> ml_worker" where
  "insert_rows io table n w =
     (if n = 0 then (True, w)
      else if mi_insert io table then (True, w\<lparr>mw_inserted := mw_inserted w @ [(table, n)]\<rparr>)
      else (False, w))"

definition update_snapshot :: "time \<Rightarrow> threat_score_entry list \<Rightarrow> ml_worker \<Rightarrow> ml_worker" where
  "update_snapshot now entries w = w\<lparr>mw_generated_at := now, mw_scores := entries\<rparr>"

definition publish_writeback :: "ml_config \<Rightarrow> ml_io \<Rightarrow> score_result list \<Rightarrow> ml_worker \<Rightarrow> bool \<times> ml_worker" where
  "publish_writeback config io scores w =
     (if \<not> mc_writeback_enabled config then (True, w)
      else
        let entries = entries_from_scores scores config in
        insert_rows io (fq config mc_score_cache_table) (length entries) (update_snapshot (mi_now io) entries w))"

definition post_score :: "ml_config \<Rightarrow> ml_io \<Rightarrow> score_result \<Rightarrow> ml_worker \<Rightarrow> ml_worker" where
  "post_score config io s w =
     (if mc_webhook_url config \<noteq> None \<and> sr_score s \<ge> mc_score_threshold config then
        (if mi_post io s then w\<lparr>mw_posted := mw_posted w @ [s]\<rparr> else w\<lparr>mw_errors := mw_errors w + 1\<rparr>)
      else w)"

definition persist_scores :: "ml_config \<Rightarrow> ml_io \<Rightarrow> score_result list \<Rightarrow> ml_worker \<Rightarrow> bool \<times> ml_worker" where
  "persist_scores config io scored w0 =
     (let (inserted, w1) = insert_rows io (fq config mc_scores_table) (length scored)
            (fold (post_score config io) scored w0) in
      if \<not> inserted then (False, w1)
      else
        let (published, w2) = publish_writeback config io scored w1;
            w3 = (if published then w2 else w2\<lparr>mw_errors := mw_errors w2 + 1\<rparr>) in
        (True, w3\<lparr>mw_cycles := mw_cycles w3 + 1\<rparr>))"

text \<open>Rows that cannot be read are counted as errors and skipped.\<close>

definition read_rows :: "(row \<Rightarrow> 'a option) \<Rightarrow> row list \<Rightarrow> ml_worker \<Rightarrow> 'a list \<times> ml_worker" where
  "read_rows parse rows w =
     (List.map_filter parse rows, w\<lparr>mw_errors := mw_errors w + length (filter (\<lambda>r. parse r = None) rows)\<rparr>)"

definition store_and_score ::
  "ml_config \<Rightarrow> ml_io \<Rightarrow> string \<Rightarrow> score_result list \<Rightarrow> ml_worker \<Rightarrow> bool \<times> ml_worker" where
  "store_and_score config io table scored w0 =
     (let (ok, w) = insert_rows io table (length scored) w0 in
      if ok then persist_scores config io scored w else (False, w))"

definition cycle_beacon :: "ml_config \<Rightarrow> ml_io \<Rightarrow> ml_worker \<Rightarrow> bool \<times> ml_worker" where
  "cycle_beacon config io w0 =
     (case mi_query io Beacon_Query of
        None \<Rightarrow> (False, w0)
      | Some rows \<Rightarrow>
          let (pairs, w) = read_rows (beacon_from_row (mi_calendar io) (mi_parse_f64 io) (mi_now io)) rows w0 in
          store_and_score config io (fq config mc_beacon_features_table)
            (map (\<lambda>f. score_beacon_pair (mi_now io) f config) pairs) w)"

definition cycle_phishing :: "ml_config \<Rightarrow> ml_io \<Rightarrow> ml_worker \<Rightarrow> bool \<times> ml_worker" where
  "cycle_phishing config io w0 =
     (case mi_query io Phishing_Query of
        None \<Rightarrow> (False, w0)
      | Some rows \<Rightarrow>
          let (domains, w) = read_rows (phishing_from_row (mi_calendar io) (mi_parse_f64 io) (mi_now io)) rows w0 in
          store_and_score config io (fq config mc_phishing_features_table)
            (map (\<lambda>f. score_domain (mi_now io) f (mc_score_threshold config)) domains) w)"

fun collect_features ::
  "ml_io \<Rightarrow> string list \<Rightarrow> entity_features list \<Rightarrow> ml_worker \<Rightarrow> entity_features list option \<times> ml_worker" where
  "collect_features io [] acc w = (Some acc, w)"
| "collect_features io (t # ts) acc w0 =
     (case mi_query io (Entity_Query t) of
        None \<Rightarrow> (None, w0)
      | Some rows \<Rightarrow>
          let (fs, w) = read_rows (features_from_row (mi_calendar io) (mi_parse_f64 io) (mi_now io)) rows w0 in
          collect_features io ts (acc @ fs) w)"

definition load_baselines :: "ml_config \<Rightarrow> ml_io \<Rightarrow> baseline_set option" where
  "load_baselines config io =
     (case mc_baseline_path config of
        Some path \<Rightarrow> mi_baseline_file io path
      | None \<Rightarrow>
          if mc_model config \<noteq> ''ueba_zscore_v0'' then Some []
          else (case mi_query io Baseline_Query of
                  None \<Rightarrow> None
                | Some rows \<Rightarrow> baselines_from_rows (mi_parse_f64 io) rows []))"

definition cycle_ueba :: "ml_config \<Rightarrow> ml_io \<Rightarrow> ml_worker \<Rightarrow> bool \<times> ml_worker" where
  "cycle_ueba config io w0 =
     (case collect_features io (mc_entity_types config) [] w0 of
        (None, w) \<Rightarrow> (False, w)
      | (Some fs, w1) \<Rightarrow>
          let (ok, w2) = insert_rows io (fq config mc_features_table) (length fs) w1 in
          if \<not> ok then (False, w2)
          else (case load_baselines config io of
                  None \<Rightarrow> (False, w2)
                | Some baselines \<Rightarrow>
                    let ctx = \<lparr>sc_model = mc_model config, sc_min_requests = mc_min_requests config,
                               sc_threshold = mc_score_threshold config, sc_z_clip = mc_z_clip config,
                               sc_baselines = (if baselines = [] then None else Some baselines)\<rparr> in
                    persist_scores config io (map (\<lambda>f. score_features (mi_now io) f ctx) fs) w2))"

definition cycle_once :: "ml_config \<Rightarrow> ml_io \<Rightarrow> ml_worker \<Rightarrow> bool \<times> ml_worker" where
  "cycle_once config io w =
     (if is_phishing_model config then cycle_phishing config io w
      else if is_beacon_model config then cycle_beacon config io w
      else cycle_ueba config io w)"

text \<open>The loop of \<^verbatim>\<open>main\<close>: a failed cycle is counted as an error.\<close>

definition ml_loop :: "ml_config \<Rightarrow> ml_io list \<Rightarrow> ml_worker \<Rightarrow> ml_worker" where
  "ml_loop config ios w =
     fold (\<lambda>io w. case cycle_once config io w of
                    (True, w') \<Rightarrow> w' | (False, w') \<Rightarrow> w'\<lparr>mw_errors := mw_errors w' + 1\<rparr>) ios w"

definition ml_worker_new :: ml_worker where
  "ml_worker_new = \<lparr>mw_generated_at = 0, mw_scores = [], mw_inserted = [], mw_posted = [], mw_cycles = 0, mw_errors = 0\<rparr>"

text \<open>\<^verbatim>\<open>GET /api/threat-scores\<close> as the proxy reads it.\<close>

definition snapshot_rows :: "ml_worker \<Rightarrow> threat_score_hit list" where
  "snapshot_rows w =
     map (\<lambda>e. \<lparr>th_score = tn_score e, th_severity = tn_severity e, th_model = tn_model e,
               th_entity_type = tn_entity_type e, th_entity_id = tn_entity_id e\<rparr>) (mw_scores w)"

section \<open>Lemmas\<close>

lemma clamp_bounds: "lo \<le> hi \<Longrightarrow> lo \<le> clamp x lo hi" "lo \<le> hi \<Longrightarrow> clamp x lo hi \<le> hi"
  by (simp_all add: clamp_def)

text \<open>Scores of every model are between zero and one, and have one of four severities.\<close>

definition score_ok :: "score_result \<Rightarrow> bool" where
  "score_ok s \<longleftrightarrow> 0 \<le> sr_score s \<and> sr_score s \<le> 1 \<and>
     sr_severity s \<in> {''critical'', ''high'', ''medium'', ''low''}"

lemma severity_for_cases: "severity_for s t \<in> {''critical'', ''high'', ''medium'', ''low''}"
  by (simp add: severity_for_def)

lemma clamp_unit: "0 \<le> lo \<Longrightarrow> lo \<le> hi \<Longrightarrow> hi \<le> 1 \<Longrightarrow> 0 \<le> clamp x lo hi \<and> clamp x lo hi \<le> 1"
  by (auto simp: clamp_def)

lemma lexical_heuristic_unit: "0 \<le> lexical_heuristic sig p r \<and> lexical_heuristic sig p r \<le> 1"
  unfolding lexical_heuristic_def by (rule clamp_unit) simp_all

lemma phishing_unit: "0 \<le> phishing_lexical_v0 f sig \<and> phishing_lexical_v0 f sig \<le> 1"
  using lexical_heuristic_unit [of sig "fp_suspicious_path_hits f" "fp_request_count f"] clamp_unit
  by (simp add: phishing_lexical_v0_def Let_def)

lemma beacon_unit: "0 \<le> cc_beacon_v0 f cfg \<and> cc_beacon_v0 f cfg \<le> 1"
  using clamp_unit by (simp add: cc_beacon_v0_def Let_def)

lemma model_score_unit: "0 \<le> fst (model_score f ctx) \<and> fst (model_score f ctx) \<le> 1"
  using clamp_unit
  by (simp add: model_score_def Let_def anomaly_stub_v0_def flight_risk_v0_def baseline_score_def blend_zs_def
      split: option.split)

lemma score_domain_ok: "score_ok (score_domain now f t)"
  using phishing_unit severity_for_cases by (simp add: score_ok_def score_domain_def Let_def)

lemma score_beacon_pair_ok: "score_ok (score_beacon_pair now f cfg)"
  using beacon_unit severity_for_cases by (simp add: score_ok_def score_beacon_pair_def Let_def)

lemma score_features_ok: "score_ok (score_features now f ctx)"
  using model_score_unit [of f ctx] severity_for_cases by (simp add: score_ok_def score_features_def case_prod_beta)

text \<open>Only the write-back changes what is published.\<close>

lemma insert_rows_scores [simp]: "mw_scores (snd (insert_rows io table n w)) = mw_scores w"
  by (simp add: insert_rows_def)

lemma post_scores [simp]: "mw_scores (fold (post_score config io) ss w) = mw_scores w"
  by (induction ss arbitrary: w) (simp_all add: post_score_def)

lemma read_rows_scores [simp]: "mw_scores (snd (read_rows parse rows w)) = mw_scores w"
  by (simp add: read_rows_def)

lemma collect_features_scores: "mw_scores (snd (collect_features io ts acc w)) = mw_scores w"
  by (induction io ts acc w rule: collect_features.induct) (auto split: option.split simp: case_prod_beta)

text \<open>What a successful write of scores publishes, and that a failed one publishes nothing.\<close>

lemma persist_scores_published:
  "mw_scores (snd (persist_scores config io scored w)) =
     (if fst (persist_scores config io scored w) \<and> mc_writeback_enabled config
      then entries_from_scores scored config else mw_scores w)"
  by (simp add: persist_scores_def publish_writeback_def update_snapshot_def case_prod_beta Let_def)

lemma store_and_score_published:
  "mw_scores (snd (store_and_score config io table scored w)) =
     (if fst (store_and_score config io table scored w) \<and> mc_writeback_enabled config
      then entries_from_scores scored config else mw_scores w)"
  by (simp add: store_and_score_def case_prod_beta persist_scores_published)

lemma cycle_ueba_published:
  "mw_scores (snd (cycle_ueba config io w)) = mw_scores w \<or>
   (\<exists>scored. list_all score_ok scored \<and> mw_scores (snd (cycle_ueba config io w)) = entries_from_scores scored config)"
proof (cases "collect_features io (mc_entity_types config) [] w")
  case (Pair fs w1)
  then have "mw_scores w1 = mw_scores w"
    using collect_features_scores [of io "mc_entity_types config" "[]" w] by simp
  moreover have "list_all score_ok (map (\<lambda>f. score_features now f ctx) fs)" for now ctx fs
    by (simp add: list_all_iff score_features_ok)
  ultimately show ?thesis
    using Pair by (auto simp: cycle_ueba_def Let_def case_prod_beta persist_scores_published split: option.split)
qed

lemma cycle_once_published:
  "mw_scores (snd (cycle_once config io w)) = mw_scores w \<or>
   (\<exists>scored. list_all score_ok scored \<and> mw_scores (snd (cycle_once config io w)) = entries_from_scores scored config)"
proof -
  have ok: "list_all score_ok (map (\<lambda>f. score_beacon_pair now f c) bs)"
    "list_all score_ok (map (\<lambda>f. score_domain now f t) ds)" for now c bs t ds
    by (simp_all add: list_all_iff score_domain_ok score_beacon_pair_ok)
  have "mw_scores (snd (cycle_phishing config io w)) = mw_scores w \<or>
      (\<exists>scored. list_all score_ok scored \<and> mw_scores (snd (cycle_phishing config io w)) = entries_from_scores scored config)"
    using ok(2) by (auto simp: cycle_phishing_def case_prod_beta store_and_score_published split: option.split)
  moreover have "mw_scores (snd (cycle_beacon config io w)) = mw_scores w \<or>
      (\<exists>scored. list_all score_ok scored \<and> mw_scores (snd (cycle_beacon config io w)) = entries_from_scores scored config)"
    using ok(1) by (auto simp: cycle_beacon_def case_prod_beta store_and_score_published split: option.split)
  ultimately show ?thesis using cycle_ueba_published by (simp add: cycle_once_def)
qed

text \<open>A published entry is well formed, and worth publishing.\<close>

definition entry_ok :: "ml_config \<Rightarrow> threat_score_entry \<Rightarrow> bool" where
  "entry_ok config e \<longleftrightarrow> 0 \<le> tn_score e \<and> tn_score e \<le> 1 \<and> mc_writeback_min_score config \<le> tn_score e \<and>
     tn_severity e \<in> {''critical'', ''high'', ''medium'', ''low''} \<and>
     tn_expires_at e = tn_scored_at e + mc_writeback_ttl config"

lemma entries_from_scores_ok: "list_all score_ok scored \<Longrightarrow> list_all (entry_ok config) (entries_from_scores scored config)"
  by (auto simp: entries_from_scores_def List.map_filter_def to_cache_entry_def entry_ok_def score_ok_def list_all_iff
      split: if_splits)

lemma ml_loop_entries_ok:
  "list_all (entry_ok config) (mw_scores w) \<Longrightarrow> list_all (entry_ok config) (mw_scores (ml_loop config ios w))"
proof (induction ios arbitrary: w)
  case (Cons io ios)
  let ?w = "case cycle_once config io w of (True, w') \<Rightarrow> w' | (False, w') \<Rightarrow> w'\<lparr>mw_errors := mw_errors w' + 1\<rparr>"
  have "mw_scores ?w = mw_scores (snd (cycle_once config io w))" by (simp split: prod.split bool.split)
  then have "list_all (entry_ok config) (mw_scores ?w)"
    using cycle_once_published [of config io w] Cons.prems entries_from_scores_ok by metis
  from Cons.IH [OF this] show ?case by (simp add: ml_loop_def)
qed (simp add: ml_loop_def)

text \<open>A PhishTank label gives a score of at least 0.85.\<close>

lemma phishtank_floor:
  assumes "0 < fp_weak_phishtank f" "fp_weak_phishing f + fp_weak_phishtank f + fp_weak_ut1 f < 2 ^ 64"
  shows "85 / 100 \<le> phishing_lexical_v0 f sig"
proof -
  have "0 < weak_hits f" using assms by (simp add: weak_hits_def)
  with assms(1) clamp_bounds(1) [of "85 / 100" 1] show ?thesis by (simp add: phishing_lexical_v0_def Let_def)
qed

lemma threat_cache_key_inj: "threat_cache_key t a = threat_cache_key t b \<longleftrightarrow> a = b"
  by (simp add: threat_cache_key_def)

text \<open>The proxy's entry for a polled row whose key no other row has.\<close>

lemma polled_entry:
  assumes "row \<in> set rows" "distinct (map (\<lambda>r. threat_cache_key (th_entity_type r) (th_entity_id r)) rows)"
  shows "map_of (ts_entries (threat_replace_all t rows c)) (threat_cache_key (th_entity_type row) (th_entity_id row)) =
           Some \<lparr>te_hit = row, te_cached_at = t\<rparr>"
proof -
  let ?kvs = "map (\<lambda>row. (threat_cache_key (th_entity_type row) (th_entity_id row), \<lparr>te_hit = row, te_cached_at = t\<rparr>)) rows"
  have "distinct (map fst (rev ?kvs))" using assms(2) by (simp add: o_def flip: rev_map)
  then have "map_of (rev ?kvs) (threat_cache_key (th_entity_type row) (th_entity_id row)) =
      Some \<lparr>te_hit = row, te_cached_at = t\<rparr>"
    using assms(1) by (auto intro!: map_of_is_SomeI)
  then show ?thesis by (simp add: threat_replace_all_def hm_get_extend)
qed

text \<open>A fresh entry at or above the blocking threshold denies the request.\<close>

lemma fresh_entry_denies:
  assumes "k \<in> set (threat_candidates d ip)" "threat_fresh now c k e" "tc_enabled (ts_config c)"
    and "0 < tc_block_threshold (ts_config c)" "tc_block_threshold (ts_config c) \<le> th_score (te_hit e)"
  shows "\<exists>hit. snd (snd (apply_to_policy now d ip src None c)) = Some (threat_deny hit) \<and> th_score (te_hit e) \<le> th_score hit"
proof -
  have "best_entry now c (threat_candidates d ip) None \<noteq> None"
    using assms(1,2) by (auto simp: best_entry_None)
  then obtain b where b: "best_entry now c (threat_candidates d ip) None = Some b" by blast
  from best_entry_max [OF this] assms(1,2) have le: "th_score (te_hit e) \<le> th_score (te_hit b)" by auto
  have "threat_lookup now d ip c = Some (te_hit b)" using b assms(3) by (simp add: threat_lookup_def)
  with le assms(4,5) show ?thesis by (auto simp: apply_to_policy_def Let_def block_enabled_def)
qed

text \<open>The rows the phishing model publishes have different keys, and one for each domain above the minimum.\<close>

lemma domain_rows_keys:
  assumes "distinct (map fp_domain fs)"
    and "mw_scores w = entries_from_scores (map (\<lambda>f. score_domain now f t) fs) config"
  shows "distinct (map (\<lambda>r. threat_cache_key (th_entity_type r) (th_entity_id r)) (snapshot_rows w))"
proof -
  let ?keep = "\<lambda>f. \<not> phishing_lexical_v0 f (lexical_signals (fp_domain f)) < mc_writeback_min_score config"
  have "map (\<lambda>r. threat_cache_key (th_entity_type r) (th_entity_id r)) (snapshot_rows w) =
      map (threat_cache_key ''domain'') (map fp_domain (filter ?keep fs))"
    unfolding snapshot_rows_def assms(2) entries_from_scores_def List.map_filter_def
    by (induction fs) (auto simp: to_cache_entry_def score_domain_def Let_def)
  moreover have "inj (threat_cache_key ''domain'')" by (auto simp: inj_def threat_cache_key_inj)
  ultimately show ?thesis
    using assms(1) distinct_map_filter [of fp_domain fs ?keep]
    by (simp only: distinct_map [of "threat_cache_key ''domain''"]) (auto intro: inj_on_subset)
qed

lemma domain_row_published:
  assumes "f \<in> set fs" "mc_writeback_min_score config \<le> phishing_lexical_v0 f (lexical_signals (fp_domain f))"
    and "mw_scores w = entries_from_scores (map (\<lambda>f. score_domain now f t) fs) config"
  shows "\<exists>row \<in> set (snapshot_rows w). th_entity_type row = ''domain'' \<and> th_entity_id row = fp_domain f \<and>
           th_score row = phishing_lexical_v0 f (lexical_signals (fp_domain f))"
  using assms
  by (force simp: snapshot_rows_def entries_from_scores_def List.map_filter_def to_cache_entry_def score_domain_def Let_def)

section \<open>Properties\<close>


text \<open>
  The beacon score separates the pairs the periodic rule accepts from the others: the accepted ones
  score at least 0.78 and the others at most 0.72.
\<close>

theorem beacon_score_separates:
  "if passes_beacon_periodic f cfg then 78 / 100 \<le> cc_beacon_v0 f cfg else cc_beacon_v0 f cfg \<le> 72 / 100"
  unfolding cc_beacon_v0_def Let_def
  by (cases "passes_beacon_periodic f cfg") (simp_all only: if_True if_False, (rule clamp_bounds, simp)+)

text \<open>
  The flight-risk model never sees the population: without a baseline file it scores every entity by
  the number of its job-search requests alone, a tenth each and at most one, since the baselines are
  read from ClickHouse for the other model only.
\<close>

theorem flight_risk_without_population:
  assumes "mc_model config = ''flight_risk_v0''" "mc_baseline_path config = None"
    and "collect_features io (mc_entity_types config) [] w = (Some fs, w1)"
    and "insert_rows io (fq config mc_features_table) (length fs) w1 = (True, w2)"
  shows "\<exists>scored. cycle_once config io w = persist_scores config io scored w2 \<and>
           map sr_score scored = map (\<lambda>f. min (real (ef_job_search_count f) / 10) 1) fs"
proof -
  have "clamp (clamp (real n / 10) 0 1) 0 1 = min (real n / 10) 1" for n by (simp add: clamp_def)
  then show ?thesis
    using assms
    by (simp add: cycle_once_def is_phishing_model_def is_beacon_model_def cycle_ueba_def load_baselines_def Let_def
        score_features_def model_score_def flight_risk_v0_def case_prod_beta)
      (rule exI, rule conjI, rule refl, simp)
qed


section \<open>Witnesses\<close>

definition demo_ml_config :: "string \<Rightarrow> ml_config" where
  "demo_ml_config model =
     \<lparr>mc_clickhouse_url = ''http://ch:8123'', mc_database = ''bsdm'', mc_table = ''http_cache'',
      mc_features_table = ''entity_features'', mc_scores_table = ''ml_scores'',
      mc_phishing_features_table = ''domain_phishing_features'', mc_beacon_features_table = ''beacon_pair_features'',
      mc_score_cache_table = ''threat_score_cache'', mc_user = None, mc_password = None, mc_poll_interval = 120,
      mc_lookback = 300, mc_entity_types = [''client_ip''], mc_min_requests = 10, mc_model = model,
      mc_score_threshold = 8 / 10, mc_baseline_lookback = 86400, mc_baseline_min_samples = 30, mc_z_clip = 4,
      mc_baseline_path = None, mc_beacon_lookback = 3600, mc_beacon_min_hits = 5, mc_beacon_min_interval_secs = 45,
      mc_beacon_max_interval_secs = 900, mc_beacon_max_gap_cv = 1 / 4, mc_writeback_enabled = True,
      mc_writeback_min_score = 1 / 2, mc_writeback_ttl = 3600, mc_webhook_url = None, mc_webhook_timeout = 10,
      mc_metrics_port = 8091, mc_source = ''test''\<rparr>"

definition demo_phishing_row :: row where
  "demo_phishing_row =
     [(''window_start'', RString ''2026''), (''window_secs'', RNumber 300), (''domain'', RString ''evil.test''),
      (''request_count'', RNumber 12), (''unique_urls'', RNumber 3), (''weak_label_phishing'', RNumber 0),
      (''weak_label_phishtank'', RNumber 2), (''weak_label_ut1'', RNumber 0), (''deny_count'', RNumber 0),
      (''suspicious_path_hits'', RNumber 0)]"

definition demo_phishing_features :: phishing_features where
  "demo_phishing_features =
     \<lparr>fp_window_start = 7, fp_window_secs = 300, fp_domain = ''evil.test'', fp_request_count = 12, fp_unique_urls = 3,
      fp_weak_phishing = 0, fp_weak_phishtank = 2, fp_weak_ut1 = 0, fp_deny_count = 0, fp_suspicious_path_hits = 0,
      fp_avg_path_extra_len = 0, fp_extracted_at = 9\<rparr>"

definition demo_ml_io :: "(ml_query \<Rightarrow> row list option) \<Rightarrow> ml_io" where
  "demo_ml_io query =
     \<lparr>mi_now = 9, mi_calendar = \<lparr>cl_rfc3339 = (\<lambda>_. Some 7), cl_naive_millis = (\<lambda>_. None), cl_naive_secs = (\<lambda>_. None)\<rparr>,
      mi_parse_f64 = (\<lambda>_. None), mi_query = query, mi_insert = (\<lambda>_. True), mi_post = (\<lambda>_. True),
      mi_baseline_file = (\<lambda>_. None)\<rparr>"

definition demo_phishing_io :: ml_io where
  "demo_phishing_io = demo_ml_io (\<lambda>_. Some [demo_phishing_row])"

definition demo_proxy_scores :: threat_score_cache where
  "demo_proxy_scores =
     \<lparr>ts_config = \<lparr>tc_enabled = True, tc_poll_url = [], tc_poll_interval = 60, tc_cache_ttl = 300,
                   tc_warn_threshold = 7 / 10, tc_block_threshold = 8 / 10\<rparr>, ts_entries = []\<rparr>"

lemma demo_phishing_parsed:
  "phishing_from_row (mi_calendar demo_phishing_io) (mi_parse_f64 demo_phishing_io) (mi_now demo_phishing_io) demo_phishing_row =
     Some demo_phishing_features"
  by (simp add: phishing_from_row_def parse_ch_datetime_def as_string_def as_u64_def as_f64_def demo_phishing_row_def
      demo_phishing_features_def demo_phishing_io_def demo_ml_io_def first_some_def some_or_def as_u32_def u64_max_def)

lemma demo_phishing_cycle: "\<exists>w'. cycle_once (demo_ml_config ''phishing_lexical_v0'') demo_phishing_io ml_worker_new = (True, w')"
  by (simp add: cycle_once_def is_phishing_model_def cycle_phishing_def demo_ml_config_def demo_phishing_io_def demo_ml_io_def
      read_rows_def store_and_score_def persist_scores_def insert_rows_def case_prod_beta Let_def)


theorem flight_risk_without_population_witness:
  "\<exists>scored. cycle_once (demo_ml_config ''flight_risk_v0'') (demo_ml_io (\<lambda>_. Some [])) ml_worker_new =
     persist_scores (demo_ml_config ''flight_risk_v0'') (demo_ml_io (\<lambda>_. Some [])) scored ml_worker_new \<and> map sr_score scored = []"
proof -
  have mt: "mc_model (demo_ml_config m) = m" "mc_baseline_path (demo_ml_config m) = None"
    "mc_entity_types (demo_ml_config m) = [''client_ip'']" for m by (simp_all add: demo_ml_config_def)
  have "collect_features (demo_ml_io (\<lambda>_. Some [])) [''client_ip''] [] ml_worker_new = (Some [], ml_worker_new)"
    by (simp add: demo_ml_io_def read_rows_def List.map_filter_def)
  from flight_risk_without_population [OF mt(1,2) this [folded mt(3) [of "''flight_risk_v0''"]], of ml_worker_new]
  show ?thesis by (simp add: insert_rows_def)
qed

end
