(* ===== verification/Runtime_Config.thy ===== *)
theory Runtime_Config
  imports Rpz_Api
begin

text \<open>
  The settings file of the admin console (\<^verbatim>\<open>proxy/src/runtime_config.rs\<close>) and the two requests that
  read and write it (\<^verbatim>\<open>config_get\<close> and \<^verbatim>\<open>config_apply\<close> of \<^verbatim>\<open>proxy/src/control_api.rs\<close>). The
  files and the environment of the process are the state; errors of the file system, the
  check of an ACL document and the reloads after a change are parameters (\<open>config_io\<close>).
\<close>

section \<open>The settings file\<close>

definition env_header :: string where
  "env_header = ''# Managed by BSDM Admin Console '' @ [CHR 0xE2, CHR 0x80, CHR 0x94] @
     '' do not edit while proxy is running'' @ nl"

definition secret_markers :: "string list" where
  "secret_markers = [''_TOKEN'', ''_PASSWORD'', ''_SECRET'', ''_KEY'', ''API_KEY'', ''BIND_PASSWORD'', ''CLIENT_SECRET'']"

definition config_env_path :: "(string \<Rightarrow> string option) \<Rightarrow> bool \<Rightarrow> string" where
  "config_env_path env etc_is_file =
     (case env ''CONFIG_ENV_PATH'' of
        Some path \<Rightarrow> if trim path \<noteq> [] then path
                     else if etc_is_file then ''/etc/bsdm-proxy/bsdm-proxy.env'' else ''./bsdm-proxy.env''
      | None \<Rightarrow> if etc_is_file then ''/etc/bsdm-proxy/bsdm-proxy.env'' else ''./bsdm-proxy.env'')"

definition env_line :: "string \<Rightarrow> (string \<times> string) option" where
  "env_line line =
     (let trimmed = trim line in
      if trimmed = [] \<or> starts_with trimmed ''#'' then None
      else (case split_once CHR ''='' trimmed of
              None \<Rightarrow> None
            | Some (key, value) \<Rightarrow> if trim key = [] then None else Some (trim key, value)))"

definition parse_env_text :: "string \<Rightarrow> (string, string) hash_map" where
  "parse_env_text text =
     fold (\<lambda>line m. case env_line line of None \<Rightarrow> m | Some (k, v) \<Rightarrow> AList.update k v m) (lines text) []"

definition format_env_file :: "(string, string) hash_map \<Rightarrow> string" where
  "format_env_file vars =
     env_header @ concat (map (\<lambda>key. case map_of vars key of
                                        Some value \<Rightarrow> if value = [] then [] else key @ ''='' @ value @ nl
                                      | None \<Rightarrow> []) (sort (map fst vars)))"

text \<open>
  \<^verbatim>\<open>std::env::set_var\<close> and \<^verbatim>\<open>remove_var\<close> panic on an empty name, on a name with an equals sign and on
  a NUL byte; \<^const>\<open>None\<close> is the panic.
\<close>

definition env_name_ok :: "string \<Rightarrow> bool" where
  "env_name_ok k \<longleftrightarrow> k \<noteq> [] \<and> CHR ''='' \<notin> set k \<and> CHR 0x00 \<notin> set k"

fun apply_env_map :: "(string, string) hash_map \<Rightarrow> (string, string) hash_map \<Rightarrow> (string, string) hash_map option" where
  "apply_env_map [] env = Some env"
| "apply_env_map ((key, value) # vars) env =
     (if \<not> env_name_ok key \<or> CHR 0x00 \<in> set value then None
      else if value = [] then apply_env_map vars (AList.delete key env)
      else apply_env_map vars (AList.update key value env))"

definition is_secret_key :: "string \<Rightarrow> bool" where
  "is_secret_key key = list_ex (\<lambda>marker. sublist marker (to_ascii_uppercase key)) secret_markers"

definition mask_secret_value :: "string \<Rightarrow> string \<Rightarrow> string" where
  "mask_secret_value key value = (if is_secret_key key \<and> value \<noteq> [] then ''***'' else value)"

definition mask_env_map :: "(string, string) hash_map \<Rightarrow> (string, string) hash_map" where
  "mask_env_map vars = sort_key fst (map (\<lambda>(k, v). (k, mask_secret_value k v)) vars)"

section \<open>State and requests\<close>

record config_world =
  cw_files :: "(string, string) hash_map"
  cw_env :: "(string, string) hash_map"
  cw_restart_scheduled :: bool

record config_io =
  cx_read_error :: "string option"
  cx_write_error :: "string option"
  cx_acl_invalid :: "string \<Rightarrow> string option"
  cx_acl_pretty :: "string \<Rightarrow> string"
  cx_acl_write_error :: "string \<Rightarrow> string option"
  cx_acl_reload :: "(string + nat) option"
  cx_tls_reload :: bool
  cx_hierarchy_reload :: bool
  cx_has_shutdown :: bool

record config_apply_request =
  cq_env :: "(string, string) hash_map"
  cq_acl_rules :: "string option"
  cq_restart :: "bool option"

datatype config_reply =
  ConfigError string
| ConfigSnapshot string "(string, string) hash_map"
| ConfigApplied string "string list" string string

definition world_path :: "config_world \<Rightarrow> string" where
  "world_path w = config_env_path (map_of (cw_env w)) (hm_has (cw_files w) ''/etc/bsdm-proxy/bsdm-proxy.env'')"

definition read_env_file :: "config_io \<Rightarrow> config_world \<Rightarrow> string + (string, string) hash_map" where
  "read_env_file io w =
     (case map_of (cw_files w) (world_path w) of
        None \<Rightarrow> Inr []
      | Some content \<Rightarrow>
          (case cx_read_error io of
             Some e \<Rightarrow> Inl (''failed to read '' @ world_path w @ '': '' @ e)
           | None \<Rightarrow> Inr (parse_env_text content)))"

definition write_env_file :: "config_io \<Rightarrow> (string, string) hash_map \<Rightarrow> config_world \<Rightarrow> (string + string) \<times> config_world" where
  "write_env_file io vars w =
     (case cx_write_error io of
        Some e \<Rightarrow> (Inl e, w)
      | None \<Rightarrow> (Inr (world_path w), w\<lparr>cw_files := AList.update (world_path w) (format_env_file vars) (cw_files w)\<rparr>))"

definition write_acl_rules_file :: "config_io \<Rightarrow> string \<Rightarrow> string \<Rightarrow> config_world \<Rightarrow> string option \<times> config_world" where
  "write_acl_rules_file io path rules w =
     (case cx_acl_invalid io rules of
        Some e \<Rightarrow> (Some (''invalid acl_rules payload: '' @ e), w)
      | None \<Rightarrow>
          (case cx_acl_write_error io path of
             Some e \<Rightarrow> (Some e, w)
           | None \<Rightarrow> (None, w\<lparr>cw_files := AList.update path (cx_acl_pretty io rules @ nl) (cw_files w)\<rparr>)))"

definition config_snapshot :: "config_io \<Rightarrow> config_world \<Rightarrow> string + config_reply" where
  "config_snapshot io w =
     (case read_env_file io w of
        Inl e \<Rightarrow> Inl e
      | Inr env \<Rightarrow> Inr (ConfigSnapshot (world_path w) (mask_env_map (if env = [] then cw_env w else env))))"

definition config_get :: "config_io \<Rightarrow> config_world \<Rightarrow> nat \<times> config_reply" where
  "config_get io w = (case config_snapshot io w of Inr r \<Rightarrow> (200, r) | Inl e \<Rightarrow> (500, ConfigError e))"

definition merge_env :: "(string, string) hash_map \<Rightarrow> (string, string) hash_map \<Rightarrow> (string, string) hash_map" where
  "merge_env req m = fold (\<lambda>(k, v) acc. if v = [] then AList.delete k acc else AList.update k v acc) req m"

definition acl_rules_path :: "(string, string) hash_map \<Rightarrow> config_world \<Rightarrow> string" where
  "acl_rules_path merged w =
     (case map_of merged ''ACL_RULES_PATH'' of
        Some p \<Rightarrow> p
      | None \<Rightarrow> (case map_of (cw_env w) ''ACL_RULES_PATH'' of Some p \<Rightarrow> p | None \<Rightarrow> ''./acl-rules.json''))"

text \<open>The ACL part of a request: an error, or what was reloaded.\<close>

definition apply_acl_rules ::
  "config_io \<Rightarrow> (string, string) hash_map \<Rightarrow> string option \<Rightarrow> config_world \<Rightarrow> (string + string list) \<times> config_world" where
  "apply_acl_rules io merged acl_rules w =
     (case acl_rules of
        None \<Rightarrow> (Inr [], w)
      | Some rules \<Rightarrow>
          (case write_acl_rules_file io (acl_rules_path merged w) rules w of
             (Some e, w') \<Rightarrow> (Inl e, w')
           | (None, w') \<Rightarrow>
               (Inr (case cx_acl_reload io of Some (Inr n) \<Rightarrow> [''acl:'' @ show_nat n] | _ \<Rightarrow> []), w')))"

text \<open>\<open>parsed\<close> is the body read as JSON. \<^const>\<open>None\<close> is the panic of \<^const>\<open>apply_env_map\<close>.\<close>

definition config_apply ::
  "config_io \<Rightarrow> string + config_apply_request \<Rightarrow> config_world \<Rightarrow> (nat \<times> config_reply) option \<times> config_world" where
  "config_apply io parsed w0 =
     (case parsed of
        Inl e \<Rightarrow> (Some (400, ConfigError (''invalid config apply payload: '' @ e)), w0)
      | Inr request \<Rightarrow>
          if cq_env request = [] then (Some (400, ConfigError ''env map must not be empty''), w0)
          else
            let old = (case read_env_file io w0 of Inl _ \<Rightarrow> [] | Inr m \<Rightarrow> m);
                merged = merge_env (cq_env request) old in
            (case write_env_file io merged w0 of
               (Inl e, w1) \<Rightarrow> (Some (500, ConfigError e), w1)
             | (Inr env_path, w1) \<Rightarrow>
                 (case apply_env_map merged (cw_env w1) of
                    None \<Rightarrow> (None, w1)
                  | Some env \<Rightarrow>
                      (case apply_acl_rules io merged (cq_acl_rules request) (w1\<lparr>cw_env := env\<rparr>) of
                         (Inl e, w2) \<Rightarrow> (Some (400, ConfigError e), w2)
                       | (Inr acl, w2) \<Rightarrow>
                           let hot_reload = acl @ (if cx_tls_reload io then [''upstream_tls''] else []) @
                                 (if cx_hierarchy_reload io then [''hierarchy''] else []);
                               should_restart = (case cq_restart request of Some r \<Rightarrow> r | None \<Rightarrow> True);
                               restart_status = (if should_restart
                                 then (if cx_has_shutdown io then ''scheduled'' else ''unavailable'') else ''skipped'');
                               message = (if should_restart
                                 then ''Configuration saved; proxy will restart shortly to apply all settings.''
                                 else ''Configuration saved and hot-reloaded where supported.'')
                           in (Some (200, ConfigApplied env_path hot_reload restart_status message),
                               if should_restart \<and> cx_has_shutdown io then w2\<lparr>cw_restart_scheduled := True\<rparr> else w2)))))"

section \<open>Lemmas\<close>

subsection \<open>White space at the ends\<close>

definition no_lead :: "string \<Rightarrow> bool" where
  "no_lead s \<longleftrightarrow> (\<forall>w \<in> set white_space. \<not> prefix w s)"

definition no_trail :: "string \<Rightarrow> bool" where
  "no_trail s \<longleftrightarrow> (\<forall>w \<in> set white_space. \<not> suffix w s)"

lemma no_lead_head: "no_lead s \<longleftrightarrow> head_len white_space s = 0"
  by (simp add: no_lead_def head_len_0_iff white_space_nonempty)

lemma no_trail_head: "no_trail s \<longleftrightarrow> head_len (map rev white_space) (rev s) = 0"
  by (simp only: head_len_0_iff [OF white_space_nonempty(2)]) (simp add: no_trail_def suffix_to_prefix)

lemma trim_clean: "no_lead s \<Longrightarrow> no_trail s \<Longrightarrow> trim s = s"
  by (simp add: trim_def trim_start_def trim_end_def no_lead_head no_trail_head drop_words_same)

lemma no_trail_trim: "no_trail (trim s)"
  using drop_words_head [OF white_space_nonempty(2)] by (simp add: no_trail_head trim_def trim_end_def)

lemma no_lead_trim: "no_lead (trim s)"
proof -
  have "no_lead (trim_start s)" by (simp add: no_lead_head trim_start_def drop_words_head white_space_nonempty)
  moreover have "prefix (trim s) (trim_start s)"
    using drop_words_suffix [of "map rev white_space" "rev (trim_start s)"]
    by (simp add: trim_def trim_end_def suffix_to_prefix)
  ultimately show ?thesis unfolding no_lead_def by (meson prefix_order.trans)
qed

lemma no_lead_prefix: "no_lead s \<Longrightarrow> prefix t s \<Longrightarrow> no_lead t"
  unfolding no_lead_def by (meson prefix_order.trans)

lemma no_trail_suffix: "no_trail s \<Longrightarrow> suffix t s \<Longrightarrow> no_trail t"
  unfolding no_trail_def by (meson suffix_order.trans)

lemma eq_not_white_space: "w \<in> set white_space \<Longrightarrow> CHR ''='' \<notin> set w"
  by (auto simp: white_space_def)

lemma no_lead_eq: "no_lead k \<Longrightarrow> no_lead (k @ CHR ''='' # v)"
  unfolding no_lead_def
proof (intro ballI notI)
  fix w
  assume k: "\<forall>w \<in> set white_space. \<not> prefix w k" and w: "w \<in> set white_space" "prefix w (k @ CHR ''='' # v)"
  with eq_not_white_space [OF w(1)] show False by (auto simp: prefix_append prefix_Cons)
qed

lemma no_trail_eq: "no_trail v \<Longrightarrow> no_trail (k @ CHR ''='' # v)"
  unfolding no_trail_def
proof (intro ballI notI)
  fix w
  assume v: "\<forall>w \<in> set white_space. \<not> suffix w v" and w: "w \<in> set white_space" "suffix w (k @ CHR ''='' # v)"
  with eq_not_white_space [OF w(1)] show False by (auto simp: suffix_append suffix_Cons)
qed

lemma no_trail_strip_cr: "no_trail s \<Longrightarrow> strip_cr s = s"
proof -
  assume "no_trail s"
  then have "\<not> suffix [CHR 0x0D] s" by (simp add: no_trail_def white_space_def)
  then have "s = [] \<or> last s \<noteq> CHR 0x0D" by (metis append_butlast_last_id suffixI)
  then show ?thesis by (auto simp: strip_cr_def)
qed

subsection \<open>Reading what was written\<close>

text \<open>The settings a line can carry.\<close>

definition env_ok :: "string \<Rightarrow> string \<Rightarrow> bool" where
  "env_ok k v \<longleftrightarrow>
     k \<noteq> [] \<and> CHR ''='' \<notin> set k \<and> hd k \<noteq> CHR ''#'' \<and> no_lead k \<and> no_trail k \<and> no_trail v \<and>
     CHR 0x0A \<notin> set k \<and> CHR 0x0A \<notin> set v"

lemma env_line_ok: "env_ok k v \<Longrightarrow> env_line (strip_cr (k @ CHR ''='' # v)) = Some (k, v)"
proof -
  assume ok: "env_ok k v"
  then have "no_trail (k @ CHR ''='' # v)" "no_lead (k @ CHR ''='' # v)"
    by (auto simp: env_ok_def intro: no_lead_eq no_trail_eq)
  moreover have "trim k = k" using ok by (simp add: env_ok_def trim_clean)
  moreover have "\<not> starts_with (k @ CHR ''='' # v) ''#''"
    using ok by (cases k) (auto simp: env_ok_def starts_with_def)
  ultimately show ?thesis
    using ok by (simp add: env_line_def no_trail_strip_cr trim_clean split_once_append env_ok_def)
qed

lemma hd_prefix: "prefix a b \<Longrightarrow> a \<noteq> [] \<Longrightarrow> hd a = hd b"
  by (auto simp: prefix_def)

lemma prefix_trim: "no_lead s \<Longrightarrow> prefix (trim s) s"
  using drop_words_suffix [of "map rev white_space" "rev s"]
  by (simp add: trim_def trim_start_def trim_end_def no_lead_head drop_words_same suffix_to_prefix)

lemma env_line_gives_ok:
  assumes "env_line l = Some (k, v)" "CHR 0x0A \<notin> set l"
  shows "env_ok k v"
proof -
  from assms(1) obtain key where key: "split_once CHR ''='' (trim l) = Some (key, v)" "k = trim key" "trim key \<noteq> []"
    and hash: "\<not> starts_with (trim l) ''#''"
    by (auto simp: env_line_def Let_def split: if_splits option.splits)
  then have l: "trim l = key @ CHR ''='' # v" "CHR ''='' \<notin> set key" by (auto simp: split_once_Some_iff)
  then have lead: "no_lead key" and trail: "no_trail v"
    using no_lead_trim [of l] no_trail_trim [of l] by (auto intro: no_lead_prefix no_trail_suffix simp: suffix_def)
  have "key \<noteq> []" using key(3) lead prefix_trim by fastforce
  have "hd k = hd key" using hd_prefix [OF prefix_trim [OF lead]] key by simp
  moreover have "hd key \<noteq> CHR ''#''" using hash l(1) \<open>key \<noteq> []\<close> by (cases key) (auto simp: starts_with_def)
  moreover have "set k \<subseteq> set key" using key(2) set_trim_subset by simp
  moreover have "set key \<union> set v \<subseteq> set l" using set_trim_subset [of l] l(1) by auto
  ultimately show ?thesis
    using key(2,3) l(2) trail assms(2) by (auto simp: env_ok_def no_lead_trim no_trail_trim)
qed

lemma lines_no_nl: "l \<in> set (lines s) \<Longrightarrow> CHR 0x0A \<notin> set l"
proof -
  have "CHR 0x0A \<notin> set l" if "l \<in> set (line_pieces ls)" "\<forall>p \<in> set ls. CHR 0x0A \<notin> set p" for ls
    using that by (induction ls rule: line_pieces.induct) (auto simp: strip_cr_def split: if_splits dest: in_set_butlastD)
  then show "l \<in> set (lines s) \<Longrightarrow> CHR 0x0A \<notin> set l" by (metis lines_def split_char_pieces)
qed

definition env_map_ok :: "(string, string) hash_map \<Rightarrow> bool" where
  "env_map_ok m \<longleftrightarrow> hm_inv m \<and> (\<forall>p \<in> set m. env_ok (fst p) (snd p))"

lemma env_map_ok_Nil [simp]: "env_map_ok []"
  by (simp add: env_map_ok_def)

lemma env_map_ok_update: "env_map_ok m \<Longrightarrow> env_ok k v \<Longrightarrow> env_map_ok (AList.update k v m)"
  by (auto simp: env_map_ok_def hm_set_update)

lemma env_map_ok_delete: "env_map_ok m \<Longrightarrow> env_map_ok (AList.delete k m)"
  by (auto simp: env_map_ok_def hm_set_delete)

lemma parse_env_text_ok: "env_map_ok (parse_env_text text)"
proof -
  have "env_map_ok (fold (\<lambda>line m. case env_line line of None \<Rightarrow> m | Some (k, v) \<Rightarrow> AList.update k v m) ls m)"
    if "\<forall>l \<in> set ls. CHR 0x0A \<notin> set l" "env_map_ok m" for ls and m :: "(string, string) hash_map"
    using that
  proof (induction ls arbitrary: m)
    case (Cons l ls)
    have "env_map_ok (case env_line l of None \<Rightarrow> m | Some (k, v) \<Rightarrow> AList.update k v m)"
      using Cons.prems env_line_gives_ok [of l] by (auto split: option.split intro: env_map_ok_update)
    with Cons show ?case by simp
  qed simp
  then show ?thesis unfolding parse_env_text_def by (simp add: lines_no_nl)
qed

text \<open>The pairs a map is written as, and that the lines give them back.\<close>

definition env_pairs :: "(string, string) hash_map \<Rightarrow> (string \<times> string) list" where
  "env_pairs vars =
     List.map_filter (\<lambda>key. case map_of vars key of Some value \<Rightarrow> if value = [] then None else Some (key, value) | None \<Rightarrow> None)
       (sort (map fst vars))"

definition env_header_line :: string where
  "env_header_line = ''# Managed by BSDM Admin Console '' @ [CHR 0xE2, CHR 0x80, CHR 0x94] @
     '' do not edit while proxy is running''"

lemma format_env_file_lines:
  "format_env_file vars = concat (map (\<lambda>l. l @ nl) (env_header_line # map (\<lambda>(k, v). k @ CHR ''='' # v) (env_pairs vars)))"
proof -
  have "concat (map (\<lambda>key. case map_of vars key of Some value \<Rightarrow> if value = [] then [] else key @ ''='' @ value @ nl | None \<Rightarrow> []) ks) =
      concat (map (\<lambda>l. l @ nl) (map (\<lambda>(k, v). k @ CHR ''='' # v)
        (List.map_filter (\<lambda>key. case map_of vars key of Some value \<Rightarrow> if value = [] then None else Some (key, value) | None \<Rightarrow> None) ks)))" for ks
    by (induction ks) (auto simp: List.map_filter_def split: option.splits)
  then show ?thesis by (simp add: format_env_file_def env_pairs_def env_header_def env_header_line_def)
qed

lemma env_header_skipped: "env_line (strip_cr env_header_line) = None"
  by code_simp

lemma fold_env_lines:
  "\<forall>p \<in> set ps. env_ok (fst p) (snd p) \<Longrightarrow>
     fold (\<lambda>line m. case env_line line of None \<Rightarrow> m | Some (k, v) \<Rightarrow> AList.update k v m)
       (map (\<lambda>(k, v). strip_cr (k @ CHR ''='' # v)) ps) m = hm_extend m ps"
  by (induction ps arbitrary: m) (auto simp: hm_extend_def env_line_ok)

lemma parse_format_pairs:
  assumes "\<forall>p \<in> set (env_pairs vars). env_ok (fst p) (snd p)"
  shows "parse_env_text (format_env_file vars) = hm_extend [] (env_pairs vars)"
proof -
  have "list_all (\<lambda>l. CHR 0x0A \<notin> set l) (env_header_line # map (\<lambda>(k, v). k @ CHR ''='' # v) (env_pairs vars))"
    using assms by (auto simp: env_ok_def list_all_iff env_header_line_def)
  from lines_concat [OF this] have "lines (format_env_file vars) =
      strip_cr env_header_line # map (\<lambda>(k, v). strip_cr (k @ CHR ''='' # v)) (env_pairs vars)"
    by (simp only: format_env_file_lines) (simp add: comp_def case_prod_beta)
  with fold_env_lines [OF assms] show ?thesis by (simp add: parse_env_text_def env_header_skipped)
qed

lemma env_pairs_set: "(k, v) \<in> set (env_pairs vars) \<longleftrightarrow> map_of vars k = Some v \<and> v \<noteq> []"
proof -
  have "(k, v) \<in> set (List.map_filter f ks) \<longleftrightarrow> (\<exists>x \<in> set ks. f x = Some (k, v))" for f :: "string \<Rightarrow> (string \<times> string) option" and ks
    by (induction ks) (auto simp: List.map_filter_def split: option.split)
  then have mem: "(k, v) \<in> set (env_pairs vars) \<longleftrightarrow>
      (\<exists>x \<in> fst ` set vars. (case map_of vars x of Some u \<Rightarrow> if u = [] then None else Some (x, u) | None \<Rightarrow> None) = Some (k, v))"
    by (simp add: env_pairs_def)
  have dom: "map_of vars k = Some v \<Longrightarrow> k \<in> fst ` set vars" by (metis domI dom_map_of_conv_image_fst)
  show ?thesis
  proof
    show "(k, v) \<in> set (env_pairs vars) \<Longrightarrow> map_of vars k = Some v \<and> v \<noteq> []"
      unfolding mem by (auto split: option.splits if_splits)
    show "map_of vars k = Some v \<and> v \<noteq> [] \<Longrightarrow> (k, v) \<in> set (env_pairs vars)"
      unfolding mem using dom by (intro bexI [of _ k]) simp_all
  qed
qed

lemma env_pairs_distinct:
  assumes "hm_inv vars" shows "distinct (map fst (env_pairs vars))"
proof -
  have "map fst (List.map_filter (\<lambda>key. case map_of vars key of Some value \<Rightarrow> if value = [] then None else Some (key, value) | None \<Rightarrow> None) ks) =
      filter (\<lambda>key. case map_of vars key of Some value \<Rightarrow> value \<noteq> [] | None \<Rightarrow> False) ks" for ks
    by (induction ks) (auto simp: List.map_filter_def split: option.splits)
  with assms show ?thesis by (simp add: env_pairs_def hm_inv_def)
qed

lemma option_eqI: "(\<And>v. a = Some v \<longleftrightarrow> b = Some v) \<Longrightarrow> a = b"
  by (cases a; cases b) auto

lemma parse_format_lookup:
  assumes "env_map_ok vars"
  shows "map_of (parse_env_text (format_env_file vars)) k =
           (case map_of vars k of Some v \<Rightarrow> if v = [] then None else Some v | None \<Rightarrow> None)"
proof -
  have inv: "hm_inv vars" using assms by (simp add: env_map_ok_def)
  then have "\<forall>p \<in> set (env_pairs vars). env_ok (fst p) (snd p)"
    using assms by (auto simp: env_pairs_set env_map_ok_def dest!: map_of_SomeD)
  from parse_format_pairs [OF this]
  have "map_of (parse_env_text (format_env_file vars)) k = map_of (rev (env_pairs vars)) k"
    by (simp add: hm_get_extend split: option.split)
  also have "\<dots> = (case map_of vars k of Some v \<Rightarrow> if v = [] then None else Some v | None \<Rightarrow> None)"
  proof (rule option_eqI)
    fix v
    have "map_of (rev (env_pairs vars)) k = Some v \<longleftrightarrow> (k, v) \<in> set (env_pairs vars)"
      using env_pairs_distinct [OF inv] by (simp flip: rev_map)
    also have "\<dots> \<longleftrightarrow> (case map_of vars k of Some v \<Rightarrow> if v = [] then None else Some v | None \<Rightarrow> None) = Some v"
      unfolding env_pairs_set by (cases "map_of vars k") auto
    finally show "map_of (rev (env_pairs vars)) k = Some v \<longleftrightarrow>
      (case map_of vars k of Some v \<Rightarrow> if v = [] then None else Some v | None \<Rightarrow> None) = Some v" .
  qed
  finally show ?thesis .
qed

subsection \<open>The merged settings\<close>

lemma merge_env_lookup:
  "map_of (merge_env req m) k =
     (case map_of (rev req) k of None \<Rightarrow> map_of m k | Some v \<Rightarrow> if v = [] then None else Some v)"
  unfolding merge_env_def by (induction req arbitrary: m) (auto simp: map_add_def split: option.splits)

lemma merge_env_ok:
  "env_map_ok m \<Longrightarrow> \<forall>p \<in> set req. snd p \<noteq> [] \<longrightarrow> env_ok (fst p) (snd p) \<Longrightarrow> env_map_ok (merge_env req m)"
proof (induction req arbitrary: m)
  case (Cons p req)
  have "env_map_ok (if snd p = [] then AList.delete (fst p) m else AList.update (fst p) (snd p) m)"
    using Cons.prems by (auto intro: env_map_ok_update env_map_ok_delete)
  from Cons.IH [OF this] Cons.prems(2) show ?case by (simp add: merge_env_def case_prod_beta)
qed (simp add: merge_env_def)

lemma hm_get_rev: "hm_inv m \<Longrightarrow> map_of (rev m) k = map_of m k"
proof -
  assume inv: "hm_inv m"
  then have "hm_inv (rev m)" by (simp add: hm_inv_def flip: rev_map)
  from hm_mem_get [OF inv, of k] hm_mem_get [OF this, of k] show ?thesis
    by (cases "map_of m k"; cases "map_of (rev m) k") auto
qed

lemma hm_inv_sort_key [simp]: "hm_inv (sort_key fst m) = hm_inv m"
  by (simp add: hm_inv_def distinct_map)

text \<open>The settings in force before a request, and what the file holds after it.\<close>

definition stored_env :: "config_world \<Rightarrow> (string, string) hash_map" where
  "stored_env w = (case map_of (cw_files w) (world_path w) of None \<Rightarrow> [] | Some c \<Rightarrow> parse_env_text c)"

lemma stored_env_ok: "env_map_ok (stored_env w)"
  by (simp add: stored_env_def parse_env_text_ok split: option.split)

lemma read_env_file_stored: "cx_read_error io = None \<Longrightarrow> read_env_file io w = Inr (stored_env w)"
  by (simp add: read_env_file_def stored_env_def split: option.split)

lemma config_apply_file:
  assumes "cx_read_error io = None" "cx_write_error io = None" "cq_env req \<noteq> []" "cq_acl_rules req = None"
    and "config_apply io (Inr req) w = (res, w')"
  shows "map_of (cw_files w') (world_path w) = Some (format_env_file (merge_env (cq_env req) (stored_env w)))"
  using assms
  by (auto simp: config_apply_def read_env_file_stored write_env_file_def apply_acl_rules_def Let_def
      split: option.splits if_splits)

lemma config_apply_lookup:
  assumes "cx_read_error io = None" "cx_write_error io = None" "cq_env req \<noteq> []" "cq_acl_rules req = None"
    and "config_apply io (Inr req) w = (res, w')" "hm_inv (cq_env req)"
    and "\<forall>p \<in> set (cq_env req). snd p \<noteq> [] \<longrightarrow> env_ok (fst p) (snd p)"
  shows "\<exists>content. map_of (cw_files w') (world_path w) = Some content \<and>
           (\<forall>k v. map_of (parse_env_text content) k = Some v \<longleftrightarrow>
              v \<noteq> [] \<and> (case map_of (cq_env req) k of Some u \<Rightarrow> u = v | None \<Rightarrow> map_of (stored_env w) k = Some v))"
proof -
  have rev: "map_of (rev (cq_env req)) = map_of (cq_env req)"
    using assms(6) by (auto simp: hm_get_rev)
  have ok: "env_map_ok (merge_env (cq_env req) (stored_env w))"
    by (rule merge_env_ok [OF stored_env_ok assms(7)])
  show ?thesis
    using config_apply_file [OF assms(1-5)] parse_format_lookup [OF ok]
    by (auto simp: merge_env_lookup rev split: option.splits if_splits)
qed

section \<open>Properties\<close>

text \<open>(C34) Settings survive the file. When the console saves a map of settings that a line can carry, without
  ACL rules, the file afterwards reads back exactly as asked, also when the request then fails: a setting
  of the request has its new value, or is gone if that was empty, and every other setting that had a
  value keeps it.
\<close>

theorem config_apply_persists:
  assumes "cx_read_error io = None" "cx_write_error io = None" "cq_env req \<noteq> []" "cq_acl_rules req = None"
    and "config_apply io (Inr req) w = (res, w')" "hm_inv (cq_env req)"
    and "\<forall>p \<in> set (cq_env req). snd p \<noteq> [] \<longrightarrow> env_ok (fst p) (snd p)"
  shows "\<exists>content. map_of (cw_files w') (world_path w) = Some content \<and>
           (\<forall>k v. map_of (parse_env_text content) k = Some v \<longleftrightarrow>
              v \<noteq> [] \<and> (case map_of (cq_env req) k of Some u \<Rightarrow> u = v | None \<Rightarrow> map_of (stored_env w) k = Some v))"
  by (rule config_apply_lookup [OF assms])

text \<open>
  Reading the settings shows no secret: a setting whose name contains one of the secret markers is
  shown as three stars, or as empty if it is.
\<close>

theorem config_get_masks:
  "\<not> (\<exists>k v path shown. config_get io w = (200, ConfigSnapshot path shown) \<and> (k, v) \<in> set shown \<and>
        is_secret_key k \<and> v \<noteq> [] \<and> v \<noteq> ''***'')"
  by (auto simp: config_get_def config_snapshot_def mask_env_map_def mask_secret_value_def
      split: sum.splits if_splits)

text \<open>
  The stars are no placeholder: a client that saves what it has read overwrites every secret with three
  stars.
\<close>

theorem snapshot_saved_back_erases_secrets:
  assumes "cx_read_error io = None" "cx_write_error io = None"
    and "config_get io w = (200, ConfigSnapshot path shown)" "map_of (stored_env w) k = Some v" "v \<noteq> []" "is_secret_key k"
    and "config_apply io (Inr \<lparr>cq_env = shown, cq_acl_rules = None, cq_restart = r\<rparr>) w = (res, w')"
  shows "\<exists>content. map_of (cw_files w') (world_path w) = Some content \<and> map_of (parse_env_text content) k = Some ''***''"
proof -
  let ?mask = "\<lambda>(k, v). (k, mask_secret_value k v)"
  have ne: "stored_env w \<noteq> []" using assms(4) by auto
  then have shown: "shown = sort_key fst (map ?mask (stored_env w))"
    using assms(3) by (simp add: config_get_def config_snapshot_def read_env_file_stored [OF assms(1)] mask_env_map_def)
  have inv: "hm_inv (stored_env w)" using stored_env_ok by (simp add: env_map_ok_def)
  have keys: "map fst (map ?mask m) = map fst m" for m :: "(string, string) hash_map" by (induction m) auto
  have sinv: "hm_inv shown"
    unfolding shown hm_inv_sort_key using inv by (simp only: keys hm_inv_def)
  have "no_trail ''***''" by code_simp
  then have star: "env_ok k' u \<Longrightarrow> env_ok k' ''***''" for k' u by (simp add: env_ok_def)
  have "\<forall>p \<in> set shown. snd p \<noteq> [] \<longrightarrow> env_ok (fst p) (snd p)"
    using stored_env_ok [of w] star by (auto simp: shown env_map_ok_def mask_secret_value_def)
  moreover have "map_of shown k = Some ''***''"
  proof -
    have "(k, v) \<in> set (stored_env w)" using assms(4) by (rule map_of_SomeD)
    then have "?mask (k, v) \<in> set shown" unfolding shown set_sort set_map by (rule imageI)
    with sinv assms(5,6) show ?thesis by (simp add: mask_secret_value_def hm_mem_get)
  qed
  moreover have "shown \<noteq> []" using calculation(2) by auto
  ultimately show ?thesis
    using config_apply_lookup [OF assms(1,2) _ _ assms(7)] sinv by auto
qed

text \<open>
  A rejected request is not undone: when the ACL rules of the request are refused, the answer is an
  error, but the settings of the request are already in the file.
\<close>

theorem rejected_apply_is_kept:
  assumes "cx_read_error io = None" "cx_write_error io = None" "cq_env req \<noteq> []"
    and "cq_acl_rules req = Some rules" "cx_acl_invalid io rules = Some e"
    and "apply_env_map (merge_env (cq_env req) (stored_env w)) (cw_env w) = Some env"
  shows "\<exists>w'. config_apply io (Inr req) w = (Some (400, ConfigError (''invalid acl_rules payload: '' @ e)), w') \<and>
           map_of (cw_files w') (world_path w) = Some (format_env_file (merge_env (cq_env req) (stored_env w))) \<and>
           cw_env w' = env"
  using assms
  by (simp add: config_apply_def read_env_file_stored write_env_file_def apply_acl_rules_def write_acl_rules_file_def)

section \<open>Witnesses\<close>

definition demo_config_io :: config_io where
  "demo_config_io =
     \<lparr>cx_read_error = None, cx_write_error = None, cx_acl_invalid = (\<lambda>_. Some ''no rules''), cx_acl_pretty = id,
      cx_acl_write_error = (\<lambda>_. None), cx_acl_reload = None, cx_tls_reload = True, cx_hierarchy_reload = False,
      cx_has_shutdown = True\<rparr>"

definition demo_config_world :: config_world where
  "demo_config_world =
     \<lparr>cw_files = [(''./bsdm-proxy.env'', ''CONTROL_API_TOKEN=s3cret'' @ nl @ ''HTTP_PORT=3128'' @ nl)],
      cw_env = [], cw_restart_scheduled = False\<rparr>"

lemma demo_world_path: "world_path demo_config_world = ''./bsdm-proxy.env''"
  by code_simp

lemma demo_stored_env: "stored_env demo_config_world = [(''CONTROL_API_TOKEN'', ''s3cret''), (''HTTP_PORT'', ''3128'')]"
  by code_simp

lemma demo_io_no_errors: "cx_read_error demo_config_io = None" "cx_write_error demo_config_io = None"
  by (simp_all add: demo_config_io_def)

theorem config_apply_persists_witness:
  "\<exists>(w' :: config_world) content. map_of (cw_files w') ''./bsdm-proxy.env'' = Some content \<and>
     map_of (parse_env_text content) ''HTTP_PORT'' = Some ''8080'' \<and>
     map_of (parse_env_text content) ''CONTROL_API_TOKEN'' = Some ''s3cret''"
proof -
  let ?req = "\<lparr>cq_env = [(''HTTP_PORT'', ''8080'')], cq_acl_rules = None, cq_restart = None\<rparr>"
  obtain res w' where a: "config_apply demo_config_io (Inr ?req) demo_config_world = (res, w')" by (metis prod.collapse)
  have "env_ok ''HTTP_PORT'' ''8080''" by code_simp
  then obtain content where "map_of (cw_files w') ''./bsdm-proxy.env'' = Some content"
    "\<forall>k v. map_of (parse_env_text content) k = Some v \<longleftrightarrow>
       v \<noteq> [] \<and> (case map_of (cq_env ?req) k of Some u \<Rightarrow> u = v | None \<Rightarrow> map_of (stored_env demo_config_world) k = Some v)"
    using config_apply_persists [OF demo_io_no_errors _ _ a] by (auto simp: demo_world_path hm_inv_def)
  then show ?thesis by (intro exI [of _ w'] exI [of _ content]) (simp add: demo_stored_env)
qed

theorem snapshot_saved_back_erases_secrets_witness:
  "\<exists>(w' :: config_world) content. map_of (cw_files w') ''./bsdm-proxy.env'' = Some content \<and>
     map_of (parse_env_text content) ''CONTROL_API_TOKEN'' = Some ''***''"
proof -
  let ?shown = "mask_env_map (stored_env demo_config_world)"
  have get: "config_get demo_config_io demo_config_world = (200, ConfigSnapshot ''./bsdm-proxy.env'' ?shown)"
    by (simp add: config_get_def config_snapshot_def read_env_file_stored demo_io_no_errors demo_world_path demo_stored_env)
  obtain res w' where a: "config_apply demo_config_io (Inr \<lparr>cq_env = ?shown, cq_acl_rules = None, cq_restart = None\<rparr>)
      demo_config_world = (res, w')" by (metis prod.collapse)
  have "is_secret_key ''CONTROL_API_TOKEN''" by code_simp
  then show ?thesis
    using snapshot_saved_back_erases_secrets [OF demo_io_no_errors get _ _ _ a, of "''CONTROL_API_TOKEN''" "''s3cret''"]
    by (intro exI [of _ w']) (simp add: demo_stored_env demo_world_path)
qed

theorem rejected_apply_is_kept_witness:
  "\<exists>w'. config_apply demo_config_io (Inr \<lparr>cq_env = [(''HTTP_PORT'', ''8080'')], cq_acl_rules = Some ''x'', cq_restart = None\<rparr>)
          demo_config_world = (Some (400, ConfigError (''invalid acl_rules payload: '' @ ''no rules'')), w') \<and>
        map_of (cw_files w') ''./bsdm-proxy.env'' =
          Some (format_env_file [(''CONTROL_API_TOKEN'', ''s3cret''), (''HTTP_PORT'', ''8080'')])"
proof -
  let ?req = "\<lparr>cq_env = [(''HTTP_PORT'', ''8080'')], cq_acl_rules = Some ''x'', cq_restart = None\<rparr>"
  have m: "merge_env (cq_env ?req) (stored_env demo_config_world) = [(''CONTROL_API_TOKEN'', ''s3cret''), (''HTTP_PORT'', ''8080'')]"
    by (simp add: merge_env_def demo_stored_env)
  have "apply_env_map (merge_env (cq_env ?req) (stored_env demo_config_world)) (cw_env demo_config_world) \<noteq> None"
    unfolding m by (simp add: demo_config_world_def env_name_ok_def)
  then obtain env where "apply_env_map (merge_env (cq_env ?req) (stored_env demo_config_world)) (cw_env demo_config_world) = Some env"
    by blast
  then obtain w' where "config_apply demo_config_io (Inr ?req) demo_config_world =
        (Some (400, ConfigError (''invalid acl_rules payload: '' @ ''no rules'')), w')"
      "map_of (cw_files w') (world_path demo_config_world) =
        Some (format_env_file (merge_env (cq_env ?req) (stored_env demo_config_world)))"
    using rejected_apply_is_kept [OF demo_io_no_errors, of ?req "''x''" "''no rules''" demo_config_world env]
    by (auto simp: demo_config_io_def)
  then show ?thesis unfolding m demo_world_path by blast
qed

end
