(* ===== verification/Spec2Isabelle.thy ===== *)
theory Spec2Isabelle
  imports Dns_Sinkhole Hierarchy Sharded_Cache Miss_Coalesce
    Proxy_Policy Session Auth Device_Registry Rpz_Api
    L2_Cache Streaming_Miss Icap Semantic_Cache Reverse_Proxy Connection Control Events
    Ml_Worker Runtime_Config
begin

text \<open>
  BSDM-Proxy is a caching forward proxy with access control, content inspection, a cache hierarchy
  and a control interface, together with its companion services: a DNS sinkhole, a worker that posts
  alerts and a worker that scores traffic. The sources are the Rust crates \<^verbatim>\<open>proxy\<close>, \<^verbatim>\<open>dns-sinkhole\<close>,
  \<^verbatim>\<open>bsdm-events\<close>, \<^verbatim>\<open>alert-worker\<close> and \<^verbatim>\<open>ml-worker\<close> under \<^verbatim>\<open>src/\<close>. This library models them
  component by component and proves what makes the components, and their composition, correct; where
  the code does not do what it means to, the theorem states what it does.

  \<^bold>\<open>How the code is modelled.\<close> A struct is a record and an enum a datatype with the same constructors; a
  method is a function on explicit states, with every early return and every error a branch of
  an option or sum type. A panic is the value \<^const>\<open>None\<close> of the function that can panic. A \<^verbatim>\<open>String\<close> is its
  UTF-8 bytes, a \<^verbatim>\<open>HashMap\<close> an association list with distinct keys, an \<^verbatim>\<open>Instant\<close> or \<^verbatim>\<open>SystemTime\<close> a
  natural number that is an input, and a fixed-width integer a word where its overflow matters and
  otherwise a number with the wrap or the bound written out. Floating-point numbers are reals: rounding,
  NaN and infinities are outside the model, except where a comment says what they do. Code that is
  not in the repository (TLS, HTTP, JSON, regular expressions, compression, SHA-256, Base64,
  Redis, ClickHouse, quick_cache, ldap3, the clock and random numbers) is a parameter, with what is
  relied on as a named law, and every theorem with such a law has a witness in which a concrete function
  satisfies it. Concurrency is explicit: threads and nodes are interleaved steps of a relation or of
  a list of events. There is no fuel: a loop is structural recursion, a function with a termination
  proof, or a fold over the list of what the environment delivers.

  \<^bold>\<open>Foundations.\<close>
  \<^item> Prelude: text, numbers, durations, hash maps and bounded maps (locale \<^verbatim>\<open>capped_map\<close>) of the
    standard library. Wire: big-endian numbers, UTF-8 and IP addresses.

  \<^bold>\<open>The proxy, by layers.\<close>
  \<^item> Policy. Acl (\<^verbatim>\<open>acl.rs\<close>): the decision is that of the first matching rule by priority, changes keep
    the compiled patterns consistent, and the handle changes in place or forks. Categorization
    (\<^verbatim>\<open>categorization.rs\<close>), Policy_Cache (\<^verbatim>\<open>policy_cache.rs\<close>: bounded, invalidation hides earlier
    decisions in every interleaving), Threat_Score (\<^verbatim>\<open>threat_score_cache.rs\<close>: the highest fresh score),
    Proxy_Policy (\<^verbatim>\<open>policy_config.rs\<close> and the policy functions of \<^verbatim>\<open>proxy_service.rs\<close>: their composition).
    Rate_Limit (\<^verbatim>\<open>rate_limit.rs\<close>: the number of grants in an interval is bounded), Pinning
    (\<^verbatim>\<open>pinning.rs\<close>: no reload without its audit record), Security (\<^verbatim>\<open>dlp.rs\<close>, \<^verbatim>\<open>casb.rs\<close>,
    \<^verbatim>\<open>security_util.rs\<close>).
  \<^item> Identity. Auth (\<^verbatim>\<open>auth.rs\<close>), Session (\<^verbatim>\<open>session.rs\<close>, \<^verbatim>\<open>session_store.rs\<close>), Reverse_Proxy
    (\<^verbatim>\<open>reverse_proxy.rs\<close>), Device_Registry (\<^verbatim>\<open>device_registry.rs\<close>, \<^verbatim>\<open>agent_crl.rs\<close>, \<^verbatim>\<open>agent_ocsp.rs\<close>):
    acceptance is backed by a check, what a revocation achieves on one node and what it does not
    between nodes.
  \<^item> Caches. Cache_Freshness (\<^verbatim>\<open>cache_freshness.rs\<close>), Cache_Entry (\<^verbatim>\<open>cache.rs\<close>, \<^verbatim>\<open>cache_body.rs\<close>,
    \<^verbatim>\<open>cache_compress.rs\<close>, \<^verbatim>\<open>cache_key.rs\<close>), Tag_Index (\<^verbatim>\<open>tag_index.rs\<close>), Sharded_Cache (\<^verbatim>\<open>sharded_cache.rs\<close>,
    a refinement of a map that may forget), L2_Cache (\<^verbatim>\<open>l2_cache.rs\<close>, round trip through Redis),
    Semantic_Cache (\<^verbatim>\<open>semantic_cache.rs\<close>), Miss_Coalesce (\<^verbatim>\<open>miss_coalesce.rs\<close>: one leader, no follower
    waits for ever, followers get the leader's result), Streaming_Miss (\<^verbatim>\<open>streaming_miss.rs\<close>).
  \<^item> Peers. Peer_Wire (\<^verbatim>\<open>icp.rs\<close>, \<^verbatim>\<open>htcp.rs\<close>; both interpret the locale \<^verbatim>\<open>query_protocol\<close>), Cache_Digest
    (\<^verbatim>\<open>cache_digest.rs\<close>), Peers (\<^verbatim>\<open>peers.rs\<close>), Selection (\<^verbatim>\<open>selection.rs\<close>; every strategy interprets the
    locale \<^verbatim>\<open>selection_strategy\<close>), Hierarchy (\<^verbatim>\<open>hierarchy.rs\<close>: a sibling is used only on its own hit, and
    a hit is found).
  \<^item> Requests. Icap (\<^verbatim>\<open>icap.rs\<close>), Request_Pipeline (\<^verbatim>\<open>handle_request\<close> of \<^verbatim>\<open>proxy_service.rs\<close>, \<^verbatim>\<open>perf.rs\<close>):
    one request through all of the above; a refused request touches nothing, the caches answer only
    what is fresh or confirmed, the shared state stays well formed. Connection (\<^verbatim>\<open>server.rs\<close>, \<^verbatim>\<open>tls.rs\<close>):
    logins before requests, tunnels and what is decided inside them.
  \<^item> Control. Acl_Api (\<^verbatim>\<open>acl_api.rs\<close>, \<^verbatim>\<open>acl_config.rs\<close>, \<^verbatim>\<open>security_defaults.rs\<close>), Rpz_Api (\<^verbatim>\<open>rpz_api.rs\<close>),
    Agent_Api (\<^verbatim>\<open>agent_api.rs\<close>, \<^verbatim>\<open>agent_policy_hub.rs\<close>, \<^verbatim>\<open>agent_events.rs\<close>), Threat_Sync
    (\<^verbatim>\<open>threat_sync.rs\<close>), Runtime_Config (\<^verbatim>\<open>runtime_config.rs\<close>: saved settings read back as asked) and
    Control (\<^verbatim>\<open>control_api.rs\<close>): who is authorised, which handler answers, exact purges.
  \<^item> Events (\<^verbatim>\<open>pipeline.rs\<close>, \<^verbatim>\<open>bsdm-events\<close>): records and the bounded queue of what is logged.

  \<^bold>\<open>The companion services.\<close>
  \<^item> Dns and Dns_Sinkhole (\<^verbatim>\<open>dns-sinkhole\<close>): packets, zones, and that a blocked name is never
    forwarded. Rpz_Api proves the path from a rule in the console to the answer on the wire.
  \<^item> Entropy and Alert_Worker (\<^verbatim>\<open>alert-worker\<close>): bounds of the entropy heuristic, and that findings are
    posted at most once in the suppression time and never dropped silently.
  \<^item> Ml_Worker (\<^verbatim>\<open>ml-worker\<close>): the scores are well formed whatever the database returns, and a domain
    labelled by PhishTank is denied by the proxy that polls the scores.

  \<^bold>\<open>Not modelled.\<close> Socket loops, TLS handshakes, process start-up and signal handling (\<^verbatim>\<open>main.rs\<close>,
  parts of \<^verbatim>\<open>server.rs\<close> and \<^verbatim>\<open>tls.rs\<close>, \<^verbatim>\<open>control_mtls.rs\<close>): I/O whose outcome is an input here. Glue over other
  systems with no logic of its own: the gRPC service, the search proxy, the WebAssembly runtime, eBPF,
  AmneziaWG, SSPI, the metrics registries and the HTTP clients of the workers. The read-only views of
  the control interface and the DER and PEM encodings of the revocation list and of OCSP, which library
  calls produce. Peer discovery, the hierarchy's and the authentication's settings, and the upstream
  client, whose behaviour lies in DNS, the environment and the connection pool. The cache indexer, whose
  store is SQL text run by SQLite or ClickHouse. The texts of the scoring worker's queries, which
  only the database interprets, and the JSON of the rows it inserts.
\<close>

end
